(* ===== verification/Enclave_Prelude.thy ===== *)
theory Enclave_Prelude
  imports Main "HOL-Library.Word"
begin

text \<open>
  Shared vocabulary of the development: machine-integer type names, the result type that
  carries the outcome of a Rust function (\<open>Ok\<close>, \<open>Err\<close>, or a panic/host trap), its
  sequencing operator, bounded \<open>for\<close> loops over it, partial vector access, and
  little-/big-endian digit codecs.  Everything else imports this theory.
\<close>

section \<open>Machine integers and byte strings\<close>

type_synonym u8 = "8 word"
type_synonym u32 = "32 word"
type_synonym u64 = "64 word"
type_synonym bytes = "u8 list"

section \<open>Outcomes of fallible code\<close>

text \<open>
  \<open>Ok v\<close> and \<open>Err e\<close> are Rust's \<open>Result\<close>; \<open>Panic\<close> stands for every abnormal
  end: \<open>panic!\<close>, \<open>unwrap\<close> of nothing, an arithmetic overflow (the release profile sets
  \<open>overflow-checks = true\<close>), an exhausted instruction budget, or a trap in a called contract.
\<close>

datatype ('a, 'e) result = Ok 'a | Err 'e | Panic

named_theorems result_simps \<open>rewriting of sequenced results\<close>
named_theorems result_elims \<open>taking a successful sequence apart\<close>

primrec rbind :: "('a, 'e) result \<Rightarrow> ('a \<Rightarrow> ('b, 'e) result) \<Rightarrow> ('b, 'e) result" where
  "rbind (Ok x) f = f x"
| "rbind (Err e) f = Err e"
| "rbind Panic f = Panic"

primrec map_err :: "('e \<Rightarrow> 'f) \<Rightarrow> ('a, 'e) result \<Rightarrow> ('a, 'f) result" where
  "map_err g (Ok x) = Ok x"
| "map_err g (Err e) = Err (g e)"
| "map_err g Panic = Panic"

text \<open>\<open>opt.ok_or(e)\<close>, \<open>opt.unwrap()\<close>, and an early return guarded by a condition.\<close>

primrec ok_or :: "'a option \<Rightarrow> 'e \<Rightarrow> ('a, 'e) result" where
  "ok_or None e = Err e"
| "ok_or (Some x) e = Ok x"

primrec unwrap :: "'a option \<Rightarrow> ('a, 'e) result" where
  "unwrap None = Panic"
| "unwrap (Some x) = Ok x"

definition fail_if :: "bool \<Rightarrow> 'e \<Rightarrow> (unit, 'e) result" where
  "fail_if c e = (if c then Err e else Ok ())"

definition is_Ok :: "('a, 'e) result \<Rightarrow> bool" where
  "is_Ok r = (case r of Ok _ \<Rightarrow> True | _ \<Rightarrow> False)"

text \<open>A \<open>for\<close> loop whose body may fail: the state is threaded, the first failure ends it.\<close>

primrec rfold :: "('x \<Rightarrow> 's \<Rightarrow> ('s, 'e) result) \<Rightarrow> 'x list \<Rightarrow> 's \<Rightarrow> ('s, 'e) result" where
  "rfold f [] s = Ok s"
| "rfold f (x # xs) s = rbind (f x s) (rfold f xs)"

lemma rbind_eq_Ok_iff [result_simps]:
  "rbind r f = Ok y \<longleftrightarrow> (\<exists>x. r = Ok x \<and> f x = Ok y)"
  by (cases r) auto

lemma rbind_eq_Err_iff:
  "rbind r f = Err e \<longleftrightarrow> r = Err e \<or> (\<exists>x. r = Ok x \<and> f x = Err e)"
  by (cases r) auto

lemma rbind_eq_Panic_iff:
  "rbind r f = Panic \<longleftrightarrow> r = Panic \<or> (\<exists>x. r = Ok x \<and> f x = Panic)"
  by (cases r) auto

lemma rbind_assoc [simp]: "rbind (rbind r f) g = rbind r (\<lambda>x. rbind (f x) g)"
  by (cases r) auto

lemma rbind_Ok_right [simp]: "rbind r Ok = r"
  by (cases r) auto

lemma rbind_cong:
  "r = r' \<Longrightarrow> (\<And>x. r' = Ok x \<Longrightarrow> f x = g x) \<Longrightarrow> rbind r f = rbind r' g"
  by (cases r') auto

lemma ok_or_eq_Ok_iff [result_simps]: "ok_or m e = Ok x \<longleftrightarrow> m = Some x"
  by (cases m) auto

lemma ok_or_neq_Panic [simp]: "ok_or m e \<noteq> Panic"
  by (cases m) auto

lemma unwrap_eq_Ok_iff [result_simps]: "unwrap m = Ok x \<longleftrightarrow> m = Some x"
  by (cases m) auto

lemma unwrap_neq_Err [simp]: "unwrap m \<noteq> Err e"
  by (cases m) auto

lemma fail_if_eq_Ok_iff [result_simps]: "fail_if c e = Ok u \<longleftrightarrow> \<not> c"
  by (simp add: fail_if_def)

lemma fail_if_simps [simp]:
  "fail_if True e = Err e" "fail_if False e = Ok ()"
  by (simp_all add: fail_if_def)

lemma map_err_eq_Ok_iff [result_simps]: "map_err g r = Ok x \<longleftrightarrow> r = Ok x"
  by (cases r) auto

lemma is_Ok_simps [simp]: "is_Ok (Ok x)" "\<not> is_Ok (Err e)" "\<not> is_Ok Panic"
  by (simp_all add: is_Ok_def)

lemma rbindE [result_elims]:
  assumes "rbind r f = Ok y"
  obtains x where "r = Ok x" "f x = Ok y"
  using assms by (auto simp: rbind_eq_Ok_iff)

text \<open>A loop that collects one result per element.\<close>

fun each :: "('a \<Rightarrow> ('b, 'e) result) \<Rightarrow> 'a list \<Rightarrow> ('b list, 'e) result" where
  "each f [] = Ok []"
| "each f (x # xs) = rbind (f x) (\<lambda>y. rbind (each f xs) (\<lambda>ys. Ok (y # ys)))"

lemma each_value: "(\<And>x. x \<in> set xs \<Longrightarrow> f x = Ok (g x)) \<Longrightarrow> each f xs = Ok (map g xs)"
  by (induction xs) simp_all

lemma each_Ok: "each f xs = Ok ys \<Longrightarrow> list_all2 (\<lambda>x y. f x = Ok y) xs ys"
  by (induction xs arbitrary: ys) (auto simp: rbind_eq_Ok_iff)

lemma each_set: "each f xs = Ok ys \<Longrightarrow> y \<in> set ys \<Longrightarrow> \<exists>x \<in> set xs. f x = Ok y"
  by (auto dest!: each_Ok simp: list_all2_conv_all_nth in_set_conv_nth) (metis nth_mem)

lemma rfold_Nil_fun [simp]: "rfold f [] = Ok"
  by (simp add: fun_eq_iff)

lemma rfold_single [simp]: "rfold f [x] = f x"
  by (simp add: fun_eq_iff)

lemma rfold_append: "rfold f (xs @ ys) s = rbind (rfold f xs s) (rfold f ys)"
  by (induction xs arbitrary: s) (auto intro!: rbind_cong)

text \<open>An invariant of the body is an invariant of the loop.\<close>

lemma rfold_invariant:
  assumes "rfold f xs s = Ok s'" and "I s"
    and "\<And>x t t'. x \<in> set xs \<Longrightarrow> I t \<Longrightarrow> f x t = Ok t' \<Longrightarrow> I t'"
  shows "I s'"
  using assms
proof (induction xs arbitrary: s)
  case Nil
  then show ?case by simp
next
  case (Cons x xs)
  from Cons.prems(1) obtain t where t: "f x s = Ok t" "rfold f xs t = Ok s'"
    by (auto simp: rbind_eq_Ok_iff)
  have "I t" by (rule Cons.prems(3) [OF _ Cons.prems(2) t(1)]) simp
  with t(2) show ?case
    by (rule Cons.IH) (rule Cons.prems(3), simp_all)
qed

section \<open>Allocation\<close>

text \<open>\<open>Vec::with_capacity(n)\<close> of elements of \<open>sz\<close> bytes on a target of pointer width \<open>pw\<close>: a request of
  more than \<open>isize::MAX\<close> bytes is a capacity overflow, which panics. \<open>vec![x; n]\<close> makes the same
  request and fills it.\<close>

definition with_capacity :: "nat \<Rightarrow> nat \<Rightarrow> nat \<Rightarrow> (unit, 'e) result" where
  "with_capacity pw n sz = (if 2 ^ (pw - 1) \<le> n * sz then Panic else Ok ())"

definition vec_filled :: "nat \<Rightarrow> nat \<Rightarrow> nat \<Rightarrow> 'a \<Rightarrow> ('a list, 'e) result" where
  "vec_filled pw sz n x = rbind (with_capacity pw n sz) (\<lambda>_. Ok (replicate n x))"

lemma with_capacity_eq_Ok_iff [result_simps]: "with_capacity pw n sz = Ok u \<longleftrightarrow> n * sz < 2 ^ (pw - 1)"
  by (auto simp: with_capacity_def)

lemma with_capacity_neq_Err [simp]: "with_capacity pw n sz \<noteq> Err e"
  by (simp add: with_capacity_def)

lemma with_capacity_eq_Panic_iff: "with_capacity pw n sz = Panic \<longleftrightarrow> 2 ^ (pw - 1) \<le> n * sz"
  by (simp add: with_capacity_def)

lemma vec_filled_fits: "n * sz < 2 ^ (pw - 1) \<Longrightarrow> vec_filled pw sz n x = Ok (replicate n x)"
  by (simp add: vec_filled_def with_capacity_def)

lemma vec_filled_overflow: "2 ^ (pw - 1) \<le> n * sz \<Longrightarrow> vec_filled pw sz n x = Panic"
  by (simp add: vec_filled_def with_capacity_def)

text \<open>The square of the width stays below the largest allocation.\<close>

lemma pw_square_fits: "7 \<le> pw \<Longrightarrow> pw * pw < 2 ^ (pw - 1)"
proof (induction pw rule: nat_induct_at_least)
  case (Suc n)
  have "2 * n + 1 \<le> n * n" using Suc.hyps mult_le_mono1 [of 7 n n] by linarith
  then have "Suc n * Suc n \<le> 2 * (n * n)" by simp
  also have "\<dots> < 2 * 2 ^ (n - 1)" using Suc.IH by simp
  finally show ?case using Suc.hyps by (simp flip: power_Suc)
qed simp

section \<open>Arithmetic of \<open>u64\<close> indices\<close>

text \<open>\<open>+\<close> and \<open><<\<close> with overflow checks on, and \<open>checked_shl\<close>.\<close>

definition u64_add :: "u64 \<Rightarrow> u64 \<Rightarrow> (u64, 'e) result" where
  "u64_add a b = (if unat a + unat b < 2 ^ 64 then Ok (a + b) else Panic)"

definition u32_add :: "u32 \<Rightarrow> u32 \<Rightarrow> (u32, 'e) result" where
  "u32_add a b = (if unat a + unat b < 2 ^ 32 then Ok (a + b) else Panic)"

definition u64_checked_shl :: "u64 \<Rightarrow> u32 \<Rightarrow> u64 option" where
  "u64_checked_shl a n = (if unat n < 64 then Some (push_bit (unat n) a) else None)"

lemma unat_u64_add: "unat a + unat b < 2 ^ 64 \<Longrightarrow> unat (a + b :: u64) = unat a + unat b"
  by (simp add: unat_word_ariths)

lemma u64_add_eq_Ok_iff [result_simps]:
  "u64_add a b = Ok c \<longleftrightarrow> unat a + unat b < 2 ^ 64 \<and> c = a + b"
  by (auto simp: u64_add_def)

lemma unat_u32_add: "unat a + unat b < 2 ^ 32 \<Longrightarrow> unat (a + b :: u32) = unat a + unat b"
  by (simp add: unat_word_ariths)

lemma u32_add_eq_Ok_iff [result_simps]:
  "u32_add a b = Ok c \<longleftrightarrow> unat a + unat b < 2 ^ 32 \<and> c = a + b"
  by (auto simp: u32_add_def)

lemma unat_pow_u64 [simp]:
  assumes "n < 64"
  shows "unat (2 ^ n :: u64) = 2 ^ n"
proof -
  have "(2 :: nat) ^ n < 2 ^ 64" using assms by (intro power_strict_increasing) simp_all
  moreover have "(2 ^ n :: u64) = of_nat (2 ^ n)" by simp
  ultimately show ?thesis by (simp only: unat_of_nat take_bit_eq_mod) simp
qed

lemma unat_drop_bit_1: "unat (drop_bit 1 (w :: u64)) = unat w div 2"
  by (simp add: drop_bit_eq_div unat_div_distrib)

lemma and_1_eq_1_iff_odd: "and w (1 :: u64) = 1 \<longleftrightarrow> odd (unat w)"
proof -
  have "odd (unat w) \<longleftrightarrow> bit w 0"
    by (simp add: bit_unsigned_iff flip: bit_0)
  then show ?thesis by (simp add: and_one_eq odd_iff_mod_2_eq_one bit_0)
qed

lemma even_unat_u64: "even (unat (w :: u64)) \<longleftrightarrow> even w"
  by (simp add: even_iff_mod_2_eq_zero word_unat_eq_iff unat_mod)

lemmas unat_drop_bit_Suc_0 = unat_drop_bit_1 [unfolded One_nat_def]

section \<open>Vectors\<close>

text \<open>\<open>Vec::get\<close>: nothing out of range.\<close>

definition vec_get :: "'a list \<Rightarrow> nat \<Rightarrow> 'a option" where
  "vec_get xs i = (if i < length xs then Some (xs ! i) else None)"

lemma vec_get_Nil [simp]: "vec_get [] i = None"
  by (simp add: vec_get_def)

lemma vec_get_Cons_0 [simp]: "vec_get (x # xs) 0 = Some x"
  by (simp add: vec_get_def)

lemma vec_get_Cons_Suc [simp]: "vec_get (x # xs) (Suc i) = vec_get xs i"
  by (simp add: vec_get_def)

lemma vec_get_in_range [simp]: "i < length xs \<Longrightarrow> vec_get xs i = Some (xs ! i)"
  by (simp add: vec_get_def)

lemma vec_get_eq_Some_iff [result_simps]:
  "vec_get xs i = Some x \<longleftrightarrow> i < length xs \<and> xs ! i = x"
  by (auto simp: vec_get_def)

section \<open>Endian codecs\<close>

text \<open>Base-256 digits: least significant first, and most significant first.\<close>

primrec le_to_nat :: "bytes \<Rightarrow> nat" where
  "le_to_nat [] = 0"
| "le_to_nat (b # bs) = unat b + 256 * le_to_nat bs"

primrec nat_to_le :: "nat \<Rightarrow> nat \<Rightarrow> bytes" where
  "nat_to_le 0 n = []"
| "nat_to_le (Suc k) n = of_nat (n mod 256) # nat_to_le k (n div 256)"

definition be_to_nat :: "bytes \<Rightarrow> nat" where
  "be_to_nat bs = le_to_nat (rev bs)"

definition nat_to_be :: "nat \<Rightarrow> nat \<Rightarrow> bytes" where
  "nat_to_be k n = rev (nat_to_le k n)"

lemma length_nat_to_le [simp]: "length (nat_to_le k n) = k"
  by (induction k arbitrary: n) auto

lemma length_nat_to_be [simp]: "length (nat_to_be k n) = k"
  by (simp add: nat_to_be_def)

lemma unat_of_nat_mod_256 [simp]: "unat (of_nat (n mod 256) :: u8) = n mod 256"
  by (simp add: unat_of_nat take_bit_eq_mod)

lemma unat_u8_less: "unat (b :: u8) < 256"
proof -
  have "unat b < 2 ^ LENGTH(8)" by (rule unsigned_less)
  then show ?thesis by simp
qed

lemma le_to_nat_nat_to_le: "le_to_nat (nat_to_le k n) = n mod 256 ^ k"
proof (induction k arbitrary: n)
  case 0
  then show ?case by simp
next
  case (Suc k)
  have "n mod (256 * 256 ^ k) = 256 * (n div 256 mod 256 ^ k) + n mod 256"
    by (rule mod_mult2_eq)
  with Suc show ?case by simp
qed

lemma le_to_nat_bound: "le_to_nat bs < 256 ^ length bs"
proof (induction bs)
  case Nil
  then show ?case by simp
next
  case (Cons b bs)
  have "unat b < 256" by (rule unat_u8_less)
  with Cons show ?case by simp
qed

lemma nat_to_le_le_to_nat: "nat_to_le (length bs) (le_to_nat bs) = bs"
proof (induction bs)
  case Nil
  then show ?case by simp
next
  case (Cons b bs)
  have b: "unat b < 256" by (rule unat_u8_less)
  then have "(unat b + 256 * le_to_nat bs) mod 256 = unat b"
    and "(unat b + 256 * le_to_nat bs) div 256 = le_to_nat bs" by simp_all
  with Cons show ?case by simp
qed

lemma be_to_nat_nat_to_be: "be_to_nat (nat_to_be k n) = n mod 256 ^ k"
  by (simp add: be_to_nat_def nat_to_be_def le_to_nat_nat_to_le)

lemma nat_to_be_be_to_nat: "length bs = k \<Longrightarrow> nat_to_be k (be_to_nat bs) = bs"
  using nat_to_le_le_to_nat [of "rev bs"] by (simp add: be_to_nat_def nat_to_be_def)

lemma be_to_nat_bound: "be_to_nat bs < 256 ^ length bs"
  using le_to_nat_bound [of "rev bs"] by (simp add: be_to_nat_def)

end
