(* ===== verification/Soroban_Host.thy ===== *)
theory Soroban_Host
  imports Enclave_Prelude
begin

text \<open>
  The part of the Soroban environment that the contracts under \<open>src/contracts\<close> use
  directly: the 256-bit integer types of the SDK with their trapping arithmetic, the
  invocation environment (own address and the authorizations attached to the call), and the
  administrator hand-over of \<open>contracts/soroban-utils/src/utils.rs\<close>, which every contract
  instantiates for its own storage key.

  The host runs an invocation atomically: when it ends in \<open>Err\<close> or \<open>Panic\<close> every
  storage write, event and nested call of it is rolled back.  Contract operations below are
  therefore functions from a state to a result that carries the new state only in \<open>Ok\<close>, and
  \<open>commit\<close> says what is left on the ledger.
\<close>

section \<open>256-bit integers of the SDK\<close>

type_synonym u256 = "256 word"
type_synonym i256 = "256 word"   \<comment> \<open>two's complement, read by \<open>sint\<close>\<close>
type_synonym i128 = "128 word"   \<comment> \<open>two's complement, read by \<open>sint\<close>\<close>
type_synonym address = nat       \<comment> \<open>opaque\<close>

text \<open>The order of the BN254 scalar field.\<close>

abbreviation field_order :: int where
  "field_order \<equiv> 21888242871839275222246405745257275088548364400416034343698204186575808495617"

text \<open>Arithmetic of the host traps on overflow instead of wrapping around.\<close>

definition u256_add :: "u256 \<Rightarrow> u256 \<Rightarrow> (u256, 'e) result" where
  "u256_add a b = (if unat a + unat b < 2 ^ 256 then Ok (a + b) else Panic)"

definition u256_sub :: "u256 \<Rightarrow> u256 \<Rightarrow> (u256, 'e) result" where
  "u256_sub a b = (if unat b \<le> unat a then Ok (a - b) else Panic)"

definition u256_rem_euclid :: "u256 \<Rightarrow> u256 \<Rightarrow> (u256, 'e) result" where
  "u256_rem_euclid a b = (if b = 0 then Panic else Ok (a mod b))"

definition u256_div :: "u256 \<Rightarrow> u256 \<Rightarrow> (u256, 'e) result" where
  "u256_div a b = (if b = 0 then Panic else Ok (a div b))"

definition i256_less :: "i256 \<Rightarrow> i256 \<Rightarrow> bool" where
  "i256_less a b \<longleftrightarrow> sint a < sint b"

definition i256_sub :: "i256 \<Rightarrow> i256 \<Rightarrow> (i256, 'e) result" where
  "i256_sub a b =
     (if - (2 ^ 255) \<le> sint a - sint b \<and> sint a - sint b < 2 ^ 255 then Ok (a - b) else Panic)"

definition i256_to_i128 :: "i256 \<Rightarrow> i128 option" where
  "i256_to_i128 v =
     (if - (2 ^ 127) \<le> sint v \<and> sint v < 2 ^ 127 then Some (word_of_int (sint v)) else None)"

text \<open>Big-endian codecs of the 256-bit types; both types share the 32-byte encoding.\<close>

definition u256_to_be_bytes :: "u256 \<Rightarrow> bytes" where
  "u256_to_be_bytes v = nat_to_be 32 (unat v)"

definition u256_from_be_bytes :: "bytes \<Rightarrow> u256" where
  "u256_from_be_bytes bs = of_nat (be_to_nat bs)"

definition i256_to_be_bytes :: "i256 \<Rightarrow> bytes" where
  "i256_to_be_bytes v = nat_to_be 32 (unat v)"

lemma unat_less_256_pow_32: "unat (v :: u256) < 256 ^ 32"
proof -
  have "unat v < 2 ^ LENGTH(256)" by (rule unsigned_less)
  then show ?thesis by simp
qed

lemma u256_from_to_be_bytes [simp]: "u256_from_be_bytes (u256_to_be_bytes v) = v"
  using unat_less_256_pow_32 [of v]
  by (simp add: u256_from_be_bytes_def u256_to_be_bytes_def be_to_nat_nat_to_be)

lemma u256_from_i256_be_bytes [simp]: "u256_from_be_bytes (i256_to_be_bytes v) = v"
  using unat_less_256_pow_32 [of v]
  by (simp add: u256_from_be_bytes_def i256_to_be_bytes_def be_to_nat_nat_to_be)

lemma length_u256_to_be_bytes [simp]: "length (u256_to_be_bytes v) = 32"
  by (simp add: u256_to_be_bytes_def)

lemma u256_to_be_bytes_inject [simp]: "u256_to_be_bytes a = u256_to_be_bytes b \<longleftrightarrow> a = b"
  by (metis u256_from_to_be_bytes)

lemma u256_from_be_bytes_inject:
  assumes "length a = 32" and "length b = 32"
  shows "u256_from_be_bytes a = u256_from_be_bytes b \<longleftrightarrow> a = b"
proof
  assume "u256_from_be_bytes a = u256_from_be_bytes b"
  then have "unat (u256_from_be_bytes a) = unat (u256_from_be_bytes b)" by simp
  moreover have "be_to_nat a < 2 ^ 256" "be_to_nat b < 2 ^ 256"
    using be_to_nat_bound [of a] be_to_nat_bound [of b] assms by simp_all
  ultimately have "be_to_nat a = be_to_nat b"
    by (simp add: u256_from_be_bytes_def unat_of_nat take_bit_eq_mod)
  then show "a = b" using nat_to_be_be_to_nat assms by metis
qed simp

lemma u256_rem_euclid_Ok [simp]: "b \<noteq> 0 \<Longrightarrow> u256_rem_euclid a b = Ok (a mod b)"
  by (simp add: u256_rem_euclid_def)

lemma u256_div_Ok [simp]: "b \<noteq> 0 \<Longrightarrow> u256_div a b = Ok (a div b)"
  by (simp add: u256_div_def)

section \<open>Invocation environment\<close>

text \<open>
  \<open>authorized a\<close>: the invocation carries an authorization of address \<open>a\<close> that the
  host accepts for this call.  \<open>require_auth\<close> traps without it.
\<close>

record env =
  current_contract :: address
  authorized :: "address \<Rightarrow> bool"

definition require_auth :: "env \<Rightarrow> address \<Rightarrow> (unit, 'e) result" where
  "require_auth env a = (if authorized env a then Ok () else Panic)"

lemma require_auth_eq_Ok_iff [result_simps]: "require_auth env a = Ok u \<longleftrightarrow> authorized env a"
  by (simp add: require_auth_def)

lemma require_auth_simps [simp]:
  "authorized env a \<Longrightarrow> require_auth env a = Ok ()"
  "\<not> authorized env a \<Longrightarrow> require_auth env a = Panic"
  by (simp_all add: require_auth_def)

text \<open>What a finished invocation leaves on the ledger.\<close>

definition commit :: "('s, 'e) result \<Rightarrow> 's \<Rightarrow> 's" where
  "commit r s = (case r of Ok s' \<Rightarrow> s' | Err _ \<Rightarrow> s | Panic \<Rightarrow> s)"

lemma commit_simps [simp]:
  "commit (Ok s') s = s'" "commit (Err e) s = s" "commit Panic s = s"
  by (simp_all add: commit_def)

section \<open>Administrator hand-over (soroban-utils)\<close>

text \<open>
  \<open>update_admin(env, admin_key, new_admin)\<close>, generic in the storage key: the caller hands in
  how its storage reads and writes the key.
\<close>

definition update_admin ::
  "env \<Rightarrow> ('s \<Rightarrow> address option) \<Rightarrow> (address \<Rightarrow> 's \<Rightarrow> 's) \<Rightarrow> address \<Rightarrow> 's \<Rightarrow> ('s, 'e) result" where
  "update_admin env get_admin set_admin new_admin store =
     rbind (unwrap (get_admin store)) (\<lambda>admin.
     rbind (require_auth env admin) (\<lambda>_.
     Ok (set_admin new_admin store)))"

text \<open>
  The contract between the generic hand-over and the storage of a contract: the slot reads
  back what was written, and writing it leaves the rest of the storage (\<open>frame\<close>) alone.
\<close>

locale admin_slot =
  fixes get_admin :: "'s \<Rightarrow> address option"
    and set_admin :: "address \<Rightarrow> 's \<Rightarrow> 's"
    and frame :: "'s \<Rightarrow> 'f"
  assumes get_set: "get_admin (set_admin a s) = Some a"
    and frame_set: "frame (set_admin a s) = frame s"
begin

lemma handover_iff:
  "update_admin env get_admin set_admin new s = Ok s' \<longleftrightarrow>
     (\<exists>a. get_admin s = Some a \<and> authorized env a \<and> s' = set_admin new s)"
  by (auto simp: update_admin_def result_simps)

lemma handover_effect:
  assumes "update_admin env get_admin set_admin new s = Ok s'"
  shows "get_admin s' = Some new \<and> frame s' = frame s"
  using assms by (auto simp: handover_iff get_set frame_set)

lemma handover_needs_admin:
  assumes "get_admin s = Some a" and "\<not> authorized env a"
  shows "update_admin env get_admin set_admin new s = Panic"
  using assms by (simp add: update_admin_def)

text \<open>After a hand-over the old administrator alone can do nothing any more.\<close>

lemma old_admin_locked_out:
  assumes "update_admin env get_admin set_admin new s = Ok s'"
    and "\<not> authorized env' new"
  shows "update_admin env' get_admin set_admin other s' = Panic"
  using handover_effect [OF assms(1)] assms(2) by (simp add: update_admin_def)

end

end
