(* ===== verification/Poseidon2_Constants.thy ===== *)
theory Poseidon2_Constants
  imports Soroban_Host
begin

text \<open>
  The tables of \<open>contracts/soroban-utils\<close>: the BN254 scalar modulus and the Poseidon2 round
  constants of \<open>constants.rs\<close> for state widths 2 and 3, and the 33 precomputed zero hashes of
  \<open>get_zeroes\<close> in \<open>poseidon2.rs\<close>.  They are transcribed byte by byte, in the order and the
  big-endian encoding of the source (one definition per run of source lines), and decoded by the
  same \<open>from_be_bytes\<close>.  The lemmas check the tables' shape: 64 rounds, every entry a reduced
  field element, the second and third lane zero in the 56 partial rounds.
\<close>

section \<open>Field modulus\<close>

definition bn256_mod_bytes :: bytes where
  "bn256_mod_bytes =
     [48, 100, 78, 114, 225, 49, 160, 41, 184, 80, 69, 182, 129, 129, 88, 93, 40, 51, 232, 72, 121,
      185, 112, 145, 67, 225, 245, 147, 240, 0, 0, 1]"

definition bn256_modulus :: u256 where
  "bn256_modulus = u256_from_be_bytes bn256_mod_bytes"

definition zero_bytes :: bytes where
  "zero_bytes = replicate 32 0"

section \<open>Round constants, width 2\<close>

definition rc_t2_1 :: "bytes list list" where
  "rc_t2_1 = [
    [[9, 196, 110, 158, 198, 142, 155, 212, 254, 31, 170, 186, 41, 76, 186, 56, 167, 26, 161, 119, 83, 76, 221, 27, 108, 125, 192, 219, 208, 171, 215, 167],
     [12, 3, 86, 83, 8, 150, 238, 196, 42, 151, 237, 147, 127, 49, 53, 207, 197, 20, 43, 58, 228, 5, 184, 52, 60, 29, 131, 255, 166, 4, 203, 129]],
    [[30, 40, 161, 217, 53, 105, 138, 209, 20, 46, 81, 24, 43, 181, 76, 244, 160, 14, 165, 170, 189, 98, 104, 189, 49, 126, 169, 119, 204, 21, 74, 48],
     [39, 175, 45, 131, 26, 157, 39, 72, 8, 9, 101, 219, 48, 226, 152, 228, 14, 87, 87, 195, 224, 8, 219, 150, 76, 249, 226, 177, 43, 145, 37, 31]],
    [[30, 111, 17, 206, 96, 252, 143, 81, 58, 106, 60, 254, 22, 174, 23, 90, 65, 41, 20, 98, 242, 20, 205, 8, 121, 170, 244, 53, 69, 183, 78, 3],
     [42, 103, 56, 77, 59, 189, 94, 67, 133, 65, 129, 156, 182, 129, 240, 190, 4, 70, 46, 209, 76, 54, 19, 216, 247, 25, 32, 98, 104, 209, 66, 211]],
    [[11, 102, 253, 243, 86, 9, 58, 97, 22, 9, 248, 225, 47, 191, 236, 240, 185, 133, 227, 129, 240, 37, 24, 137, 54, 64, 143, 93, 92, 159, 69, 208],
     [1, 46, 227, 236, 30, 120, 212, 112, 131, 12, 97, 9, 60, 42, 222, 55, 11, 38, 200, 60, 197, 206, 190, 237, 218, 166, 133, 45, 189, 176, 158, 33]],
    [[2, 82, 186, 95, 103, 96, 191, 189, 253, 136, 246, 127, 129, 117, 227, 253, 108, 209, 196, 49, 176, 153, 182, 187, 45, 16, 142, 123, 68, 91, 177, 185],
     zero_bytes],
    [[23, 148, 116, 204, 236, 165, 255, 103, 108, 107, 236, 60, 239, 84, 41, 99, 84, 57, 26, 137, 53, 255, 113, 214, 239, 90, 234, 173, 124, 169, 50, 241],
     zero_bytes],
    [[44, 36, 38, 19, 121, 165, 27, 250, 146, 40, 255, 74, 80, 63, 212, 237, 156, 31, 151, 74, 38, 73, 105, 179, 126, 26, 37, 137, 187, 237, 43, 145],
     zero_bytes]]"

definition rc_t2_2 :: "bytes list list" where
  "rc_t2_2 = [
    [[28, 193, 215, 182, 38, 146, 230, 62, 172, 47, 40, 139, 208, 105, 91, 67, 194, 246, 63, 80, 1, 252, 15, 197, 83, 230, 108, 5, 81, 128, 27, 5],
     zero_bytes],
    [[37, 80, 89, 48, 26, 173, 169, 139, 178, 237, 85, 248, 82, 151, 158, 150, 0, 120, 77, 191, 23, 251, 172, 208, 93, 158, 255, 95, 217, 201, 27, 86],
     zero_bytes],
    [[40, 67, 123, 227, 172, 28, 178, 228, 121, 225, 245, 192, 236, 205, 50, 179, 174, 162, 66, 52, 151, 10, 129, 147, 177, 28, 41, 206, 126, 89, 239, 217],
     zero_bytes],
    [[40, 33, 106, 68, 47, 46, 31, 113, 28, 164, 250, 107, 83, 118, 110, 177, 24, 84, 141, 168, 251, 79, 120, 212, 51, 135, 98, 195, 127, 95, 32, 67],
     zero_bytes],
    [[44, 31, 71, 205, 23, 250, 90, 223, 31, 57, 244, 231, 5, 109, 208, 63, 238, 225, 239, 206, 3, 9, 69, 129, 19, 31, 35, 119, 50, 52, 130, 201],
     zero_bytes],
    [[7, 171, 173, 2, 183, 165, 235, 196, 134, 50, 188, 201, 53, 108, 235, 125, 217, 218, 252, 162, 118, 99, 138, 99, 100, 107, 133, 102, 166, 33, 175, 201],
     zero_bytes],
    [[2, 48, 38, 70, 1, 255, 223, 41, 39, 91, 51, 255, 170, 181, 29, 254, 148, 41, 249, 8, 128, 166, 156, 209, 55, 218, 12, 77, 21, 249, 108, 60],
     zero_bytes],
    [[27, 201, 115, 5, 78, 81, 217, 5, 160, 241, 104, 101, 100, 151, 202, 64, 168, 100, 65, 69, 87, 238, 40, 158, 113, 126, 93, 102, 137, 154, 160, 169],
     zero_bytes],
    [[46, 28, 34, 249, 100, 67, 80, 8, 32, 108, 49, 87, 232, 99, 65, 237, 210, 73, 175, 245, 194, 216, 66, 31, 42, 107, 34, 40, 143, 10, 103, 252],
     zero_bytes],
    [[18, 36, 243, 141, 246, 124, 83, 120, 18, 28, 29, 95, 70, 27, 188, 80, 158, 142, 161, 89, 142, 70, 201, 247, 167, 4, 82, 188, 43, 186, 134, 184],
     zero_bytes]]"

definition rc_t2_3 :: "bytes list list" where
  "rc_t2_3 = [
    [[2, 228, 230, 157, 139, 165, 158, 81, 146, 128, 180, 189, 158, 208, 6, 143, 215, 191, 232, 205, 157, 254, 218, 25, 105, 210, 152, 145, 134, 205, 226, 14],
     zero_bytes],
    [[31, 30, 204, 195, 74, 171, 160, 19, 127, 93, 248, 31, 192, 79, 243, 238, 79, 25, 238, 54, 78, 101, 63, 7, 109, 71, 233, 115, 93, 152, 1, 142],
     zero_bytes],
    [[22, 114, 173, 61, 112, 154, 53, 57, 116, 38, 108, 48, 57, 169, 167, 49, 20, 36, 68, 128, 50, 205, 24, 25, 234, 203, 138, 77, 66, 132, 245, 130],
     zero_bytes],
    [[40, 62, 63, 220, 44, 110, 66, 12, 86, 244, 74, 245, 25, 43, 74, 233, 205, 166, 150, 31, 40, 77, 36, 153, 29, 46, 214, 2, 223, 140, 143, 199],
     zero_bytes],
    [[28, 42, 61, 18, 12, 85, 14, 207, 208, 219, 9, 87, 23, 15, 160, 19, 104, 55, 81, 248, 253, 255, 89, 214, 97, 79, 189, 105, 255, 57, 75, 204],
     zero_bytes],
    [[33, 111, 132, 135, 122, 172, 97, 114, 247, 137, 122, 115, 35, 69, 110, 254, 20, 58, 154, 67, 119, 62, 166, 242, 150, 203, 107, 129, 119, 101, 63, 189],
     zero_bytes],
    [[44, 13, 39, 43, 236, 242, 167, 87, 100, 186, 126, 142, 62, 40, 209, 43, 206, 170, 71, 234, 97, 202, 89, 164, 17, 161, 245, 21, 82, 249, 71, 136],
     zero_bytes],
    [[22, 227, 66, 153, 134, 92, 14, 40, 72, 78, 231, 167, 76, 69, 78, 159, 23, 10, 84, 128, 171, 224, 80, 143, 203, 74, 108, 61, 137, 84, 111, 67],
     zero_bytes],
    [[23, 92, 235, 165, 153, 233, 111, 91, 55, 90, 35, 42, 111, 185, 204, 113, 119, 32, 71, 118, 88, 2, 41, 15, 72, 205, 147, 151, 85, 72, 143, 197],
     zero_bytes],
    [[12, 117, 148, 68, 13, 196, 140, 22, 254, 173, 158, 23, 88, 176, 40, 6, 106, 164, 16, 191, 188, 53, 79, 84, 216, 197, 255, 187, 68, 161, 238, 50],
     zero_bytes]]"

definition rc_t2_4 :: "bytes list list" where
  "rc_t2_4 = [
    [[26, 60, 41, 188, 57, 242, 27, 181, 196, 102, 219, 125, 126, 182, 253, 143, 118, 14, 32, 1, 60, 207, 145, 44, 146, 71, 152, 130, 217, 25, 253, 141],
     zero_bytes],
    [[12, 207, 221, 144, 111, 52, 38, 229, 192, 152, 110, 160, 73, 178, 83, 64, 8, 85, 211, 73, 7, 79, 90, 102, 149, 200, 238, 171, 205, 34, 230, 143],
     zero_bytes],
    [[20, 246, 188, 129, 217, 241, 134, 246, 43, 219, 71, 92, 230, 201, 65, 24, 102, 167, 168, 163, 253, 6, 91, 60, 224, 230, 153, 182, 125, 217, 231, 150]],
    [[9, 98, 184, 39, 137, 251, 61, 18, 151, 2, 202, 112, 178, 246, 197, 170, 204, 9, 152, 16, 201, 196, 149, 200, 136, 237, 235, 115, 134, 185, 112, 82],
     zero_bytes],
    [[26, 136, 10, 247, 7, 77, 24, 179, 191, 32, 199, 157, 226, 81, 39, 188, 19, 40, 74, 176, 30, 240, 37, 117, 175, 239, 12, 143, 106, 49, 168, 109],
     zero_bytes],
    [[16, 203, 161, 132, 25, 166, 163, 50, 205, 94, 119, 240, 33, 28, 21, 75, 32, 175, 41, 36, 252, 32, 255, 63, 76, 48, 18, 187, 122, 233, 49, 27],
     zero_bytes],
    [[5, 126, 98, 169, 168, 248, 155, 62, 189, 199, 107, 166, 58, 158, 172, 168, 250, 39, 183, 49, 156, 174, 52, 6, 117, 106, 40, 73, 243, 2, 241, 13],
     zero_bytes],
    [[40, 124, 151, 29, 233, 29, 192, 171, 212, 74, 223, 83, 132, 180, 152, 140, 185, 97, 48, 59, 191, 101, 207, 245, 175, 160, 65, 59, 68, 40, 12, 238],
     zero_bytes],
    [[33, 223, 51, 136, 175, 22, 135, 187, 179, 188, 169, 218, 12, 202, 144, 143, 30, 86, 43, 196, 109, 74, 186, 78, 111, 127, 121, 96, 227, 6, 137, 29],
     zero_bytes],
    [[27, 229, 200, 135, 210, 91, 206, 112, 62, 37, 204, 151, 77, 9, 52, 205, 120, 157, 248, 247, 11, 73, 143, 216, 62, 255, 139, 86, 14, 22, 130, 179],
     zero_bytes]]"

definition rc_t2_5 :: "bytes list list" where
  "rc_t2_5 = [
    [[38, 141, 163, 111, 118, 229, 104, 251, 104, 17, 113, 117, 206, 162, 205, 13, 210, 203, 93, 66, 253, 165, 172, 234, 72, 213, 156, 39, 6, 160, 213, 193],
     zero_bytes],
    [[14, 23, 171, 9, 31, 110, 174, 80, 198, 9, 190, 175, 85, 16, 236, 236, 197, 216, 187, 116, 19, 94, 189, 5, 189, 6, 70, 12, 194, 106, 94, 214],
     zero_bytes],
    [[4, 215, 39, 231, 40, 255, 160, 166, 122, 238, 83, 90, 176, 116, 164, 48, 145, 239, 98, 216, 207, 131, 210, 112, 4, 15, 92, 170, 31, 98, 175, 64],
     zero_bytes],
    [[13, 219, 215, 191, 156, 41, 52, 21, 129, 181, 73, 118, 43, 192, 34, 237, 51, 112, 42, 193, 15, 27, 253, 134, 43, 21, 65, 125, 126, 57, 202, 110],
     zero_bytes],
    [[39, 144, 235, 51, 81, 98, 23, 82, 118, 129, 98, 232, 41, 137, 198, 194, 52, 245, 176, 209, 211, 175, 155, 88, 138, 41, 196, 156, 135, 137, 101, 75],
     zero_bytes],
    [[30, 69, 124, 96, 26, 99, 183, 62, 68, 113, 149, 1, 147, 216, 165, 112, 57, 95, 61, 154, 184, 178, 253, 9, 132, 183, 100, 32, 97, 66, 249, 233],
     zero_bytes],
    [[33, 174, 100, 48, 29, 202, 150, 37, 99, 141, 106, 178, 187, 231, 19, 95, 250, 144, 236, 208, 196, 63, 249, 31, 196, 198, 134, 252, 70, 224, 145, 176],
     zero_bytes],
    [[3, 121, 246, 60, 140, 227, 70, 141, 77, 162, 147, 22, 111, 73, 73, 40, 133, 75, 233, 227, 67, 46, 9, 85, 88, 88, 83, 78, 237, 141, 53, 11],
     zero_bytes],
    [[0, 45, 86, 66, 3, 89, 208, 38, 106, 116, 74, 8, 8, 9, 224, 84, 202, 14, 73, 33, 164, 102, 134, 172, 140, 159, 88, 163, 36, 195, 80, 73],
     zero_bytes],
    [[18, 49, 88, 229, 150, 91, 93, 155, 29, 104, 179, 205, 50, 225, 11, 190, 218, 141, 98, 69, 158, 33, 244, 9, 15, 194, 197, 175, 150, 53, 21, 166],
     zero_bytes]]"

definition rc_t2_6 :: "bytes list list" where
  "rc_t2_6 = [
    [[11, 226, 159, 196, 8, 71, 169, 65, 102, 29, 20, 187, 246, 203, 224, 66, 15, 187, 43, 111, 82, 131, 109, 78, 96, 200, 14, 180, 156, 173, 158, 193],
     zero_bytes],
    [[26, 201, 105, 145, 222, 194, 187, 5, 87, 113, 97, 66, 1, 90, 69, 60, 54, 219, 157, 133, 156, 173, 95, 154, 35, 56, 2, 242, 79, 223, 76, 26],
     zero_bytes],
    [[21, 150, 68, 63, 118, 61, 188, 194, 95, 73, 100, 252, 97, 210, 59, 62, 94, 18, 201, 250, 151, 241, 138, 146, 81, 202, 51, 85, 188, 176, 98, 126],
     zero_bytes],
    [[18, 224, 188, 211, 101, 75, 223, 167, 107, 40, 97, 212, 236, 58, 234, 224, 241, 133, 125, 159, 23, 231, 21, 174, 214, 208, 73, 234, 227, 186, 50, 18],
     zero_bytes],
    [[15, 201, 43, 79, 27, 190, 168, 43, 158, 167, 61, 74, 249, 175, 42, 80, 206, 171, 172, 127, 55, 21, 75, 25, 4, 230, 199, 108, 124, 249, 100, 186],
     zero_bytes],
    [[31, 156, 11, 22, 16, 68, 100, 66, 214, 242, 229, 146, 168, 1, 63, 64, 177, 79, 124, 119, 34, 35, 111, 79, 156, 126, 150, 82, 51, 135, 39, 98],
     zero_bytes],
    [[14, 189, 116, 36, 74, 231, 38, 117, 248, 205, 224, 97, 87, 167, 130, 244, 5, 13, 145, 77, 163, 139, 76, 5, 141, 21, 159, 100, 61, 187, 244, 211],
     zero_bytes],
    [[44, 183, 240, 237, 57, 225, 110, 159, 105, 169, 250, 253, 74, 185, 81, 192, 59, 6, 113, 233, 115, 70, 238, 57, 122, 131, 152, 57, 220, 207, 198, 209],
     zero_bytes],
    [[26, 157, 110, 46, 207, 240, 34, 204, 86, 5, 68, 62, 228, 27, 171, 32, 206, 118, 29, 5, 20, 206, 82, 102, 144, 199, 43, 202, 115, 82, 217, 191],
     zero_bytes],
    [[42, 17, 84, 57, 96, 127, 51, 90, 94, 168, 60, 59, 196, 74, 147, 49, 208, 193, 51, 38, 169, 167, 186, 48, 135, 218, 24, 45, 100, 142, 199, 47],
     zero_bytes]]"

definition rc_t2_7 :: "bytes list list" where
  "rc_t2_7 = [
    [[35, 249, 182, 82, 155, 93, 4, 13, 21, 184, 250, 122, 238, 62, 52, 16, 231, 56, 181, 99, 5, 205, 68, 242, 149, 53, 193, 21, 197, 164, 192, 96],
     zero_bytes],
    [[5, 135, 44, 22, 219, 15, 114, 162, 36, 154, 198, 186, 72, 75, 185, 195, 163, 206, 151, 193, 109, 88, 182, 139, 38, 14, 185, 57, 240, 230, 232, 167],
     zero_bytes],
    [[19, 0, 189, 238, 8, 187, 120, 36, 202, 32, 251, 128, 17, 128, 117, 244, 2, 25, 182, 21, 29, 85, 181, 197, 43, 98, 74, 124, 222, 221, 246, 167],
     zero_bytes],
    [[25, 185, 182, 61, 47, 16, 142, 23, 230, 56, 23, 134, 58, 143, 108, 40, 141, 122, 210, 153, 22, 217, 140, 177, 7, 46, 78, 123, 125, 82, 179, 118],
     [1, 91, 238, 19, 87, 227, 192, 21, 181, 189, 162, 55, 102, 133, 34, 246, 19, 209, 200, 135, 38, 181, 236, 66, 36, 162, 1, 40, 72, 27, 79, 127]],
    [[41, 83, 115, 110, 148, 187, 107, 159, 27, 151, 7, 164, 241, 97, 94, 78, 254, 30, 28, 228, 186, 178, 24, 203, 234, 146, 199, 133, 177, 40, 255, 209],
     [11, 6, 147, 83, 186, 9, 22, 24, 134, 47, 128, 97, 128, 192, 56, 95, 133, 27, 152, 211, 114, 180, 95, 84, 76, 231, 38, 110, 214, 96, 141, 252]],
    [[48, 79, 116, 212, 97, 204, 193, 49, 21, 228, 224, 188, 251, 147, 129, 126, 85, 174, 183, 235, 147, 6, 182, 78, 79, 88, 138, 201, 125, 129, 244, 41],
     [21, 187, 241, 70, 206, 155, 202, 9, 232, 163, 63, 94, 119, 223, 228, 245, 170, 210, 161, 100, 164, 97, 122, 76, 184, 238, 84, 21, 205, 233, 19, 252]],
    [[10, 180, 223, 224, 194, 116, 44, 222, 68, 144, 16, 49, 72, 121, 100, 237, 155, 143, 75, 133, 4, 5, 193, 12, 169, 255, 35, 133, 149, 114, 200, 198],
     [14, 50, 219, 50, 10, 4, 78, 49, 151, 244, 95, 118, 73, 161, 150, 117, 239, 94, 237, 254, 165, 70, 222, 169, 37, 29, 227, 159, 150, 57, 119, 154]]]"

definition rc_t2 :: "bytes list list" where
  "rc_t2 = rc_t2_1 @ rc_t2_2 @ rc_t2_3 @ rc_t2_4 @ rc_t2_5 @ rc_t2_6 @ rc_t2_7"

definition get_round_constants_t2 :: "u256 list list" where
  "get_round_constants_t2 = map (map u256_from_be_bytes) rc_t2"

section \<open>Round constants, width 3\<close>

definition rc_t3_1 :: "bytes list list" where
  "rc_t3_1 = [
    [[29, 6, 106, 37, 85, 23, 183, 253, 139, 221, 211, 169, 63, 120, 4, 239, 127, 143, 205, 228, 139, 180, 195, 122, 89, 160, 154, 26, 151, 5, 40, 22],
     [41, 218, 239, 181, 95, 111, 45, 198, 172, 63, 8, 156, 235, 204, 97, 32, 183, 198, 254, 243, 19, 103, 182, 142, 183, 35, 133, 71, 211, 44, 22, 16],
     [31, 44, 177, 98, 74, 120, 238, 0, 30, 203, 216, 138, 217, 89, 215, 1, 37, 114, 215, 111, 8, 236, 92, 79, 158, 139, 122, 215, 176, 180, 225, 209]],
    [[10, 173, 46, 121, 241, 87, 53, 242, 189, 119, 192, 237, 61, 20, 170, 39, 177, 31, 9, 42, 83, 187, 198, 225, 219, 6, 114, 222, 216, 79, 49, 229],
     [34, 82, 98, 79, 134, 23, 115, 140, 214, 246, 97, 221, 64, 148, 55, 95, 55, 2, 138, 152, 241, 222, 206, 102, 9, 28, 207, 21, 149, 180, 63, 40],
     [26, 36, 145, 58, 146, 139, 56, 72, 90, 101, 168, 74, 41, 29, 161, 255, 145, 194, 6, 38, 82, 75, 43, 135, 212, 159, 79, 44, 144, 24, 215, 53]],
    [[34, 252, 70, 143, 23, 89, 183, 77, 123, 252, 66, 123, 95, 17, 235, 177, 10, 65, 81, 93, 223, 244, 151, 177, 79, 214, 218, 225, 80, 143, 196, 122],
     [16, 89, 202, 120, 127, 31, 137, 237, 156, 208, 38, 233, 201, 202, 16, 122, 230, 25, 86, 255, 11, 65, 33, 213, 239, 214, 85, 21, 97, 127, 110, 77],
     [2, 190, 148, 115, 53, 132, 97, 216, 246, 31, 53, 54, 216, 119, 222, 152, 33, 35, 1, 31, 11, 246, 241, 85, 164, 92, 187, 250, 232, 185, 129, 206]],
    [[14, 201, 108, 142, 50, 150, 45, 70, 39, 120, 167, 73, 200, 46, 214, 35, 171, 169, 182, 105, 172, 91, 135, 54, 161, 255, 58, 68, 26, 80, 132, 164],
     [41, 47, 144, 110, 7, 54, 119, 64, 84, 66, 217, 85, 60, 69, 250, 63, 90, 71, 167, 205, 184, 201, 159, 150, 72, 251, 46, 77, 129, 77, 245, 126],
     [39, 73, 130, 68, 65, 87, 184, 103, 38, 193, 27, 154, 15, 94, 57, 165, 204, 97, 17, 96, 163, 148, 234, 70, 12, 99, 240, 178, 255, 229, 101, 126]]]"

definition rc_t3_2 :: "bytes list list" where
  "rc_t3_2 = [
    [[26, 29, 6, 62, 84, 177, 231, 100, 182, 62, 24, 85, 191, 240, 21, 184, 206, 221, 25, 47, 71, 48, 135, 49, 73, 149, 115, 242, 53, 151, 212, 181],
     [0, 0, 0, 0, 0, 0, 0, 0, 0, 0, 0, 0, 0, 0, 0, 0, 0, 0, 0, 0, 0, 0, 0, 0, 0, 0, 0, 0, 0, 0, 0, 0],
     [0, 0, 0, 0, 0, 0, 0, 0, 0, 0, 0, 0, 0, 0, 0, 0, 0, 0, 0, 0, 0, 0, 0, 0, 0, 0, 0, 0, 0, 0, 0, 0]],
    [[38, 171, 198, 111, 63, 223, 142, 104, 131, 157, 16, 149, 98, 89, 6, 55, 8, 35, 93, 204, 193, 170, 55, 147, 185, 27, 0, 44, 91, 37, 124, 55],
     [0, 0, 0, 0, 0, 0, 0, 0, 0, 0, 0, 0, 0, 0, 0, 0, 0, 0, 0, 0, 0, 0, 0, 0, 0, 0, 0, 0, 0, 0, 0, 0],
     [0, 0, 0, 0, 0, 0, 0, 0, 0, 0, 0, 0, 0, 0, 0, 0, 0, 0, 0, 0, 0, 0, 0, 0, 0, 0, 0, 0, 0, 0, 0, 0]],
    [[12, 124, 100, 169, 216, 135, 56, 83, 129, 165, 120, 207, 237, 90, 237, 55, 7, 84, 66, 122, 171, 202, 146, 167, 11, 60, 43, 18, 255, 77, 123, 232],
     [0, 0, 0, 0, 0, 0, 0, 0, 0, 0, 0, 0, 0, 0, 0, 0, 0, 0, 0, 0, 0, 0, 0, 0, 0, 0, 0, 0, 0, 0, 0, 0],
     [0, 0, 0, 0, 0, 0, 0, 0, 0, 0, 0, 0, 0, 0, 0, 0, 0, 0, 0, 0, 0, 0, 0, 0, 0, 0, 0, 0, 0, 0, 0, 0]],
    [[28, 245, 153, 135, 105, 233, 250, 183, 158, 23, 240, 182, 208, 139, 45, 30, 186, 46, 186, 195, 13, 195, 134, 176, 237, 211, 131, 131, 19, 84, 180, 149],
     [0, 0, 0, 0, 0, 0, 0, 0, 0, 0, 0, 0, 0, 0, 0, 0, 0, 0, 0, 0, 0, 0, 0, 0, 0, 0, 0, 0, 0, 0, 0, 0],
     [0, 0, 0, 0, 0, 0, 0, 0, 0, 0, 0, 0, 0, 0, 0, 0, 0, 0, 0, 0, 0, 0, 0, 0, 0, 0, 0, 0, 0, 0, 0, 0]]]"

definition rc_t3_3 :: "bytes list list" where
  "rc_t3_3 = [
    [[15, 94, 58, 133, 102, 190, 49, 183, 86, 76, 166, 4, 97, 233, 224, 139, 25, 130, 135, 100, 169, 102, 155, 193, 122, 186, 11, 151, 230, 107, 1, 9],
     [0, 0, 0, 0, 0, 0, 0, 0, 0, 0, 0, 0, 0, 0, 0, 0, 0, 0, 0, 0, 0, 0, 0, 0, 0, 0, 0, 0, 0, 0, 0, 0],
     [0, 0, 0, 0, 0, 0, 0, 0, 0, 0, 0, 0, 0, 0, 0, 0, 0, 0, 0, 0, 0, 0, 0, 0, 0, 0, 0, 0, 0, 0, 0, 0]],
    [[24, 223, 106, 157, 25, 234, 144, 216, 149, 230, 14, 77, 176, 121, 74, 1, 243, 89, 165, 58, 24, 11, 125, 75, 66, 191, 61, 122, 83, 28, 151, 110],
     [0, 0, 0, 0, 0, 0, 0, 0, 0, 0, 0, 0, 0, 0, 0, 0, 0, 0, 0, 0, 0, 0, 0, 0, 0, 0, 0, 0, 0, 0, 0, 0],
     [0, 0, 0, 0, 0, 0, 0, 0, 0, 0, 0, 0, 0, 0, 0, 0, 0, 0, 0, 0, 0, 0, 0, 0, 0, 0, 0, 0, 0, 0, 0, 0]],
    [[4, 247, 191, 44, 92, 5, 56, 172, 110, 75, 120, 44, 60, 110, 96, 26, 208, 234, 29, 58, 59, 157, 37, 239, 78, 50, 64, 85, 250, 49, 35, 220],
     [0, 0, 0, 0, 0, 0, 0, 0, 0, 0, 0, 0, 0, 0, 0, 0, 0, 0, 0, 0, 0, 0, 0, 0, 0, 0, 0, 0, 0, 0, 0, 0],
     [0, 0, 0, 0, 0, 0, 0, 0, 0, 0, 0, 0, 0, 0, 0, 0, 0, 0, 0, 0, 0, 0, 0, 0, 0, 0, 0, 0, 0, 0, 0, 0]],
    [[41, 199, 108, 226, 34, 85, 32, 110, 60, 64, 5, 133, 35, 116, 133, 49, 231, 112, 192, 88, 74, 162, 50, 140, 229, 93, 84, 98, 139, 137, 235, 230],
     [0, 0, 0, 0, 0, 0, 0, 0, 0, 0, 0, 0, 0, 0, 0, 0, 0, 0, 0, 0, 0, 0, 0, 0, 0, 0, 0, 0, 0, 0, 0, 0],
     [0, 0, 0, 0, 0, 0, 0, 0, 0, 0, 0, 0, 0, 0, 0, 0, 0, 0, 0, 0, 0, 0, 0, 0, 0, 0, 0, 0, 0, 0, 0, 0]]]"

definition rc_t3_4 :: "bytes list list" where
  "rc_t3_4 = [
    [[25, 141, 66, 90, 69, 183, 142, 133, 192, 83, 101, 154, 180, 52, 127, 93, 101, 177, 184, 233, 198, 16, 141, 190, 0, 224, 233, 69, 219, 197, 255, 21],
     [0, 0, 0, 0, 0, 0, 0, 0, 0, 0, 0, 0, 0, 0, 0, 0, 0, 0, 0, 0, 0, 0, 0, 0, 0, 0, 0, 0, 0, 0, 0, 0],
     [0, 0, 0, 0, 0, 0, 0, 0, 0, 0, 0, 0, 0, 0, 0, 0, 0, 0, 0, 0, 0, 0, 0, 0, 0, 0, 0, 0, 0, 0, 0, 0]],
    [[37, 238, 39, 171, 98, 150, 205, 94, 106, 243, 204, 121, 197, 152, 161, 218, 167, 255, 127, 104, 120, 179, 196, 157, 73, 211, 169, 169, 12, 63, 223, 116],
     [0, 0, 0, 0, 0, 0, 0, 0, 0, 0, 0, 0, 0, 0, 0, 0, 0, 0, 0, 0, 0, 0, 0, 0, 0, 0, 0, 0, 0, 0, 0, 0],
     [0, 0, 0, 0, 0, 0, 0, 0, 0, 0, 0, 0, 0, 0, 0, 0, 0, 0, 0, 0, 0, 0, 0, 0, 0, 0, 0, 0, 0, 0, 0, 0]],
    [[19, 142, 168, 224, 175, 65, 161, 224, 36, 86, 16, 1, 192, 182, 235, 21, 5, 132, 93, 125, 12, 85, 177, 178, 192, 248, 134, 135, 169, 109, 19, 129],
     [0, 0, 0, 0, 0, 0, 0, 0, 0, 0, 0, 0, 0, 0, 0, 0, 0, 0, 0, 0, 0, 0, 0, 0, 0, 0, 0, 0, 0, 0, 0, 0],
     [0, 0, 0, 0, 0, 0, 0, 0, 0, 0, 0, 0, 0, 0, 0, 0, 0, 0, 0, 0, 0, 0, 0, 0, 0, 0, 0, 0, 0, 0, 0, 0]],
    [[48, 97, 151, 251, 63, 171, 103, 30, 246, 231, 194, 203, 162, 238, 253, 14, 66, 133, 27, 91, 152, 17, 242, 202, 64, 19, 55, 10, 1, 217, 86, 135],
     [0, 0, 0, 0, 0, 0, 0, 0, 0, 0, 0, 0, 0, 0, 0, 0, 0, 0, 0, 0, 0, 0, 0, 0, 0, 0, 0, 0, 0, 0, 0, 0],
     [0, 0, 0, 0, 0, 0, 0, 0, 0, 0, 0, 0, 0, 0, 0, 0, 0, 0, 0, 0, 0, 0, 0, 0, 0, 0, 0, 0, 0, 0, 0, 0]]]"

definition rc_t3_5 :: "bytes list list" where
  "rc_t3_5 = [
    [[26, 12, 125, 82, 220, 50, 164, 67, 43, 102, 240, 180, 137, 77, 79, 26, 33, 219, 117, 101, 229, 180, 37, 4, 134, 65, 158, 175, 0, 232, 246, 32],
     [0, 0, 0, 0, 0, 0, 0, 0, 0, 0, 0, 0, 0, 0, 0, 0, 0, 0, 0, 0, 0, 0, 0, 0, 0, 0, 0, 0, 0, 0, 0, 0],
     [0, 0, 0, 0, 0, 0, 0, 0, 0, 0, 0, 0, 0, 0, 0, 0, 0, 0, 0, 0, 0, 0, 0, 0, 0, 0, 0, 0, 0, 0, 0, 0]],
    [[43, 70, 180, 24, 222, 128, 145, 95, 63, 248, 106, 142, 92, 139, 223, 204, 235, 251, 229, 245, 81, 99, 205, 108, 170, 82, 153, 125, 162, 197, 74, 159],
     [0, 0, 0, 0, 0, 0, 0, 0, 0, 0, 0, 0, 0, 0, 0, 0, 0, 0, 0, 0, 0, 0, 0, 0, 0, 0, 0, 0, 0, 0, 0, 0],
     [0, 0, 0, 0, 0, 0, 0, 0, 0, 0, 0, 0, 0, 0, 0, 0, 0, 0, 0, 0, 0, 0, 0, 0, 0, 0, 0, 0, 0, 0, 0, 0]],
    [[18, 211, 224, 220, 0, 133, 135, 55, 1, 248, 183, 119, 185, 103, 58, 249, 97, 58, 26, 245, 219, 72, 224, 91, 251, 70, 227, 18, 181, 130, 159, 100],
     [0, 0, 0, 0, 0, 0, 0, 0, 0, 0, 0, 0, 0, 0, 0, 0, 0, 0, 0, 0, 0, 0, 0, 0, 0, 0, 0, 0, 0, 0, 0, 0],
     [0, 0, 0, 0, 0, 0, 0, 0, 0, 0, 0, 0, 0, 0, 0, 0, 0, 0, 0, 0, 0, 0, 0, 0, 0, 0, 0, 0, 0, 0, 0, 0]],
    [[38, 51, 144, 207, 116, 220, 58, 136, 112, 245, 0, 46, 210, 29, 8, 159, 251, 43, 247, 104, 35, 15, 100, 141, 186, 51, 138, 92, 177, 155, 58, 31],
     [0, 0, 0, 0, 0, 0, 0, 0, 0, 0, 0, 0, 0, 0, 0, 0, 0, 0, 0, 0, 0, 0, 0, 0, 0, 0, 0, 0, 0, 0, 0, 0],
     [0, 0, 0, 0, 0, 0, 0, 0, 0, 0, 0, 0, 0, 0, 0, 0, 0, 0, 0, 0, 0, 0, 0, 0, 0, 0, 0, 0, 0, 0, 0, 0]]]"

definition rc_t3_6 :: "bytes list list" where
  "rc_t3_6 = [
    [[10, 20, 243, 58, 95, 230, 104, 166, 10, 200, 132, 180, 202, 96, 122, 208, 248, 171, 181, 175, 64, 249, 111, 29, 125, 84, 61, 181, 43, 0, 61, 205],
     [0, 0, 0, 0, 0, 0, 0, 0, 0, 0, 0, 0, 0, 0, 0, 0, 0, 0, 0, 0, 0, 0, 0, 0, 0, 0, 0, 0, 0, 0, 0, 0],
     [0, 0, 0, 0, 0, 0, 0, 0, 0, 0, 0, 0, 0, 0, 0, 0, 0, 0, 0, 0, 0, 0, 0, 0, 0, 0, 0, 0, 0, 0, 0, 0]],
    [[40, 234, 217, 197, 134, 81, 62, 171, 26, 94, 134, 80, 157, 104, 178, 218, 39, 190, 58, 79, 1, 23, 26, 29, 216, 71, 223, 130, 155, 198, 131, 185],
     [0, 0, 0, 0, 0, 0, 0, 0, 0, 0, 0, 0, 0, 0, 0, 0, 0, 0, 0, 0, 0, 0, 0, 0, 0, 0, 0, 0, 0, 0, 0, 0],
     [0, 0, 0, 0, 0, 0, 0, 0, 0, 0, 0, 0, 0, 0, 0, 0, 0, 0, 0, 0, 0, 0, 0, 0, 0, 0, 0, 0, 0, 0, 0, 0]],
    [[28, 106, 177, 195, 40, 195, 198, 67, 9, 114, 3, 31, 27, 219, 42, 201, 136, 143, 14, 161, 171, 231, 28, 255, 234, 22, 205, 166, 225, 167, 65, 108],
     [0, 0, 0, 0, 0, 0, 0, 0, 0, 0, 0, 0, 0, 0, 0, 0, 0, 0, 0, 0, 0, 0, 0, 0, 0, 0, 0, 0, 0, 0, 0, 0],
     [0, 0, 0, 0, 0, 0, 0, 0, 0, 0, 0, 0, 0, 0, 0, 0, 0, 0, 0, 0, 0, 0, 0, 0, 0, 0, 0, 0, 0, 0, 0, 0]],
    [[31, 199, 231, 27, 192, 184, 25, 121, 43, 37, 0, 35, 159, 127, 141, 224, 79, 109, 236, 214, 8, 203, 152, 169, 50, 52, 96, 21, 197, 180, 44, 148],
     [0, 0, 0, 0, 0, 0, 0, 0, 0, 0, 0, 0, 0, 0, 0, 0, 0, 0, 0, 0, 0, 0, 0, 0, 0, 0, 0, 0, 0, 0, 0, 0],
     [0, 0, 0, 0, 0, 0, 0, 0, 0, 0, 0, 0, 0, 0, 0, 0, 0, 0, 0, 0, 0, 0, 0, 0, 0, 0, 0, 0, 0, 0, 0, 0]]]"

definition rc_t3_7 :: "bytes list list" where
  "rc_t3_7 = [
    [[3, 225, 7, 235, 58, 66, 178, 236, 227, 128, 224, 216, 96, 41, 143, 23, 192, 193, 225, 151, 201, 82, 101, 14, 230, 221, 133, 185, 58, 13, 218, 168],
     [0, 0, 0, 0, 0, 0, 0, 0, 0, 0, 0, 0, 0, 0, 0, 0, 0, 0, 0, 0, 0, 0, 0, 0, 0, 0, 0, 0, 0, 0, 0, 0],
     [0, 0, 0, 0, 0, 0, 0, 0, 0, 0, 0, 0, 0, 0, 0, 0, 0, 0, 0, 0, 0, 0, 0, 0, 0, 0, 0, 0, 0, 0, 0, 0]],
    [[45, 53, 74, 37, 31, 56, 26, 70, 105, 192, 213, 43, 248, 139, 119, 44, 70, 69, 44, 165, 124, 8, 105, 127, 69, 69, 5, 246, 148, 29, 120, 205],
     [0, 0, 0, 0, 0, 0, 0, 0, 0, 0, 0, 0, 0, 0, 0, 0, 0, 0, 0, 0, 0, 0, 0, 0, 0, 0, 0, 0, 0, 0, 0, 0],
     [0, 0, 0, 0, 0, 0, 0, 0, 0, 0, 0, 0, 0, 0, 0, 0, 0, 0, 0, 0, 0, 0, 0, 0, 0, 0, 0, 0, 0, 0, 0, 0]],
    [[9, 74, 248, 138, 176, 93, 148, 186, 246, 135, 239, 20, 188, 86, 109, 28, 82, 37, 81, 214, 22, 6, 237, 163, 209, 75, 70, 6, 130, 111, 121, 75],
     [0, 0, 0, 0, 0, 0, 0, 0, 0, 0, 0, 0, 0, 0, 0, 0, 0, 0, 0, 0, 0, 0, 0, 0, 0, 0, 0, 0, 0, 0, 0, 0],
     [0, 0, 0, 0, 0, 0, 0, 0, 0, 0, 0, 0, 0, 0, 0, 0, 0, 0, 0, 0, 0, 0, 0, 0, 0, 0, 0, 0, 0, 0, 0, 0]],
    [[25, 112, 91, 120, 59, 243, 210, 220, 25, 188, 174, 171, 240, 47, 140, 165, 225, 171, 91, 111, 46, 49, 149, 169, 213, 43, 45, 36, 157, 19, 150, 247],
     [0, 0, 0, 0, 0, 0, 0, 0, 0, 0, 0, 0, 0, 0, 0, 0, 0, 0, 0, 0, 0, 0, 0, 0, 0, 0, 0, 0, 0, 0, 0, 0],
     [0, 0, 0, 0, 0, 0, 0, 0, 0, 0, 0, 0, 0, 0, 0, 0, 0, 0, 0, 0, 0, 0, 0, 0, 0, 0, 0, 0, 0, 0, 0, 0]]]"

definition rc_t3_8 :: "bytes list list" where
  "rc_t3_8 = [
    [[9, 191, 74, 204, 58, 139, 206, 63, 31, 204, 51, 254, 229, 79, 197, 178, 135, 35, 177, 107, 125, 116, 10, 62, 96, 206, 246, 133, 34, 113, 32, 14],
     [0, 0, 0, 0, 0, 0, 0, 0, 0, 0, 0, 0, 0, 0, 0, 0, 0, 0, 0, 0, 0, 0, 0, 0, 0, 0, 0, 0, 0, 0, 0, 0],
     [0, 0, 0, 0, 0, 0, 0, 0, 0, 0, 0, 0, 0, 0, 0, 0, 0, 0, 0, 0, 0, 0, 0, 0, 0, 0, 0, 0, 0, 0, 0, 0]],
    [[24, 3, 248, 32, 13, 182, 1, 60, 80, 248, 60, 12, 143, 171, 98, 132, 52, 19, 115, 47, 48, 31, 112, 88, 84, 58, 7, 63, 63, 59, 94, 78],
     [0, 0, 0, 0, 0, 0, 0, 0, 0, 0, 0, 0, 0, 0, 0, 0, 0, 0, 0, 0, 0, 0, 0, 0, 0, 0, 0, 0, 0, 0, 0, 0],
     [0, 0, 0, 0, 0, 0, 0, 0, 0, 0, 0, 0, 0, 0, 0, 0, 0, 0, 0, 0, 0, 0, 0, 0, 0, 0, 0, 0, 0, 0, 0, 0]],
    [[15, 128, 175, 181, 4, 98, 68, 222, 48, 89, 91, 22, 11, 141, 31, 56, 191, 111, 176, 45, 68, 84, 192, 173, 212, 31, 127, 239, 47, 175, 62, 92],
     [0, 0, 0, 0, 0, 0, 0, 0, 0, 0, 0, 0, 0, 0, 0, 0, 0, 0, 0, 0, 0, 0, 0, 0, 0, 0, 0, 0, 0, 0, 0, 0],
     [0, 0, 0, 0, 0, 0, 0, 0, 0, 0, 0, 0, 0, 0, 0, 0, 0, 0, 0, 0, 0, 0, 0, 0, 0, 0, 0, 0, 0, 0, 0, 0]],
    [[18, 110, 225, 248, 80, 79, 21, 195, 215, 127, 0, 136, 193, 207, 201, 100, 171, 207, 207, 100, 63, 74, 111, 234, 125, 195, 249, 130, 25, 82, 157, 120],
     [0, 0, 0, 0, 0, 0, 0, 0, 0, 0, 0, 0, 0, 0, 0, 0, 0, 0, 0, 0, 0, 0, 0, 0, 0, 0, 0, 0, 0, 0, 0, 0],
     [0, 0, 0, 0, 0, 0, 0, 0, 0, 0, 0, 0, 0, 0, 0, 0, 0, 0, 0, 0, 0, 0, 0, 0, 0, 0, 0, 0, 0, 0, 0, 0]]]"

definition rc_t3_9 :: "bytes list list" where
  "rc_t3_9 = [
    [[35, 194, 3, 209, 12, 252, 198, 15, 105, 191, 179, 217, 25, 85, 44, 161, 15, 251, 78, 230, 49, 117, 221, 248, 239, 134, 249, 145, 215, 208, 165, 145],
     [0, 0, 0, 0, 0, 0, 0, 0, 0, 0, 0, 0, 0, 0, 0, 0, 0, 0, 0, 0, 0, 0, 0, 0, 0, 0, 0, 0, 0, 0, 0, 0],
     [0, 0, 0, 0, 0, 0, 0, 0, 0, 0, 0, 0, 0, 0, 0, 0, 0, 0, 0, 0, 0, 0, 0, 0, 0, 0, 0, 0, 0, 0, 0, 0]],
    [[42, 42, 225, 93, 139, 20, 55, 9, 236, 13, 9, 112, 95, 163, 166, 48, 61, 236, 30, 228, 238, 194, 207, 116, 124, 90, 51, 159, 119, 68, 251, 148],
     [0, 0, 0, 0, 0, 0, 0, 0, 0, 0, 0, 0, 0, 0, 0, 0, 0, 0, 0, 0, 0, 0, 0, 0, 0, 0, 0, 0, 0, 0, 0, 0],
     [0, 0, 0, 0, 0, 0, 0, 0, 0, 0, 0, 0, 0, 0, 0, 0, 0, 0, 0, 0, 0, 0, 0, 0, 0, 0, 0, 0, 0, 0, 0, 0]],
    [[7, 182, 13, 238, 88, 110, 214, 239, 71, 229, 195, 129, 171, 99, 67, 236, 195, 211, 179, 0, 108, 180, 97, 187, 182, 181, 216, 144, 129, 151, 11, 43],
     [0, 0, 0, 0, 0, 0, 0, 0, 0, 0, 0, 0, 0, 0, 0, 0, 0, 0, 0, 0, 0, 0, 0, 0, 0, 0, 0, 0, 0, 0, 0, 0],
     [0, 0, 0, 0, 0, 0, 0, 0, 0, 0, 0, 0, 0, 0, 0, 0, 0, 0, 0, 0, 0, 0, 0, 0, 0, 0, 0, 0, 0, 0, 0, 0]],
    [[39, 49, 107, 85, 155, 227, 237, 253, 136, 93, 149, 196, 148, 193, 174, 61, 138, 152, 163, 32, 186, 167, 209, 82, 19, 44, 254, 88, 60, 147, 17, 189],
     [0, 0, 0, 0, 0, 0, 0, 0, 0, 0, 0, 0, 0, 0, 0, 0, 0, 0, 0, 0, 0, 0, 0, 0, 0, 0, 0, 0, 0, 0, 0, 0],
     [0, 0, 0, 0, 0, 0, 0, 0, 0, 0, 0, 0, 0, 0, 0, 0, 0, 0, 0, 0, 0, 0, 0, 0, 0, 0, 0, 0, 0, 0, 0, 0]]]"

definition rc_t3_10 :: "bytes list list" where
  "rc_t3_10 = [
    [[29, 92, 73, 186, 21, 124, 50, 184, 216, 147, 124, 178, 211, 248, 67, 17, 239, 131, 76, 194, 167, 67, 237, 102, 47, 95, 154, 240, 192, 52, 46, 118],
     [0, 0, 0, 0, 0, 0, 0, 0, 0, 0, 0, 0, 0, 0, 0, 0, 0, 0, 0, 0, 0, 0, 0, 0, 0, 0, 0, 0, 0, 0, 0, 0],
     [0, 0, 0, 0, 0, 0, 0, 0, 0, 0, 0, 0, 0, 0, 0, 0, 0, 0, 0, 0, 0, 0, 0, 0, 0, 0, 0, 0, 0, 0, 0, 0]],
    [[47, 139, 18, 78, 120, 22, 59, 47, 51, 39, 116, 224, 184, 80, 181, 236, 9, 192, 27, 246, 151, 153, 56, 246, 124, 36, 189, 89, 64, 150, 132, 136],
     [0, 0, 0, 0, 0, 0, 0, 0, 0, 0, 0, 0, 0, 0, 0, 0, 0, 0, 0, 0, 0, 0, 0, 0, 0, 0, 0, 0, 0, 0, 0, 0],
     [0, 0, 0, 0, 0, 0, 0, 0, 0, 0, 0, 0, 0, 0, 0, 0, 0, 0, 0, 0, 0, 0, 0, 0, 0, 0, 0, 0, 0, 0, 0, 0]],
    [[30, 104, 67, 165, 69, 116, 22, 182, 220, 91, 122, 160, 154, 156, 226, 27, 29, 76, 186, 101, 84, 229, 29, 132, 102, 95, 117, 38, 1, 19, 179, 213],
     [0, 0, 0, 0, 0, 0, 0, 0, 0, 0, 0, 0, 0, 0, 0, 0, 0, 0, 0, 0, 0, 0, 0, 0, 0, 0, 0, 0, 0, 0, 0, 0],
     [0, 0, 0, 0, 0, 0, 0, 0, 0, 0, 0, 0, 0, 0, 0, 0, 0, 0, 0, 0, 0, 0, 0, 0, 0, 0, 0, 0, 0, 0, 0, 0]],
    [[17, 205, 240, 10, 53, 246, 80, 197, 95, 202, 37, 201, 146, 156, 138, 217, 166, 141, 175, 154, 198, 161, 137, 171, 31, 91, 199, 159, 33, 100, 29, 75],
     [0, 0, 0, 0, 0, 0, 0, 0, 0, 0, 0, 0, 0, 0, 0, 0, 0, 0, 0, 0, 0, 0, 0, 0, 0, 0, 0, 0, 0, 0, 0, 0],
     [0, 0, 0, 0, 0, 0, 0, 0, 0, 0, 0, 0, 0, 0, 0, 0, 0, 0, 0, 0, 0, 0, 0, 0, 0, 0, 0, 0, 0, 0, 0, 0]]]"

definition rc_t3_11 :: "bytes list list" where
  "rc_t3_11 = [
    [[33, 99, 45, 227, 211, 187, 197, 228, 46, 243, 110, 88, 129, 88, 214, 212, 96, 139, 40, 21, 199, 115, 85, 183, 232, 43, 91, 155, 126, 181, 96, 188],
     [0, 0, 0, 0, 0, 0, 0, 0, 0, 0, 0, 0, 0, 0, 0, 0, 0, 0, 0, 0, 0, 0, 0, 0, 0, 0, 0, 0, 0, 0, 0, 0],
     [0, 0, 0, 0, 0, 0, 0, 0, 0, 0, 0, 0, 0, 0, 0, 0, 0, 0, 0, 0, 0, 0, 0, 0, 0, 0, 0, 0, 0, 0, 0, 0]],
    [[13, 230, 37, 117, 132, 82, 239, 189, 151, 178, 112, 37, 251, 210, 69, 224, 37, 90, 228, 142, 242, 163, 41, 228, 73, 215, 181, 197, 28, 24, 73, 138],
     [0, 0, 0, 0, 0, 0, 0, 0, 0, 0, 0, 0, 0, 0, 0, 0, 0, 0, 0, 0, 0, 0, 0, 0, 0, 0, 0, 0, 0, 0, 0, 0],
     [0, 0, 0, 0, 0, 0, 0, 0, 0, 0, 0, 0, 0, 0, 0, 0, 0, 0, 0, 0, 0, 0, 0, 0, 0, 0, 0, 0, 0, 0, 0, 0]],
    [[42, 210, 83, 192, 83, 231, 82, 19, 226, 254, 191, 212, 217, 118, 204, 1, 221, 158, 30, 28, 111, 15, 182, 176, 155, 9, 84, 107, 160, 131, 128, 152],
     [0, 0, 0, 0, 0, 0, 0, 0, 0, 0, 0, 0, 0, 0, 0, 0, 0, 0, 0, 0, 0, 0, 0, 0, 0, 0, 0, 0, 0, 0, 0, 0],
     [0, 0, 0, 0, 0, 0, 0, 0, 0, 0, 0, 0, 0, 0, 0, 0, 0, 0, 0, 0, 0, 0, 0, 0, 0, 0, 0, 0, 0, 0, 0, 0]],
    [[29, 107, 22, 158, 214, 56, 114, 220, 110, 199, 104, 30, 195, 155, 59, 233, 61, 212, 156, 221, 19, 200, 19, 183, 211, 87, 2, 227, 141, 96, 176, 119],
     [0, 0, 0, 0, 0, 0, 0, 0, 0, 0, 0, 0, 0, 0, 0, 0, 0, 0, 0, 0, 0, 0, 0, 0, 0, 0, 0, 0, 0, 0, 0, 0],
     [0, 0, 0, 0, 0, 0, 0, 0, 0, 0, 0, 0, 0, 0, 0, 0, 0, 0, 0, 0, 0, 0, 0, 0, 0, 0, 0, 0, 0, 0, 0, 0]]]"

definition rc_t3_12 :: "bytes list list" where
  "rc_t3_12 = [
    [[22, 96, 183, 64, 161, 67, 102, 75, 185, 18, 124, 73, 65, 182, 127, 237, 11, 227, 234, 112, 162, 77, 85, 104, 195, 165, 78, 112, 108, 254, 247, 254],
     [0, 0, 0, 0, 0, 0, 0, 0, 0, 0, 0, 0, 0, 0, 0, 0, 0, 0, 0, 0, 0, 0, 0, 0, 0, 0, 0, 0, 0, 0, 0, 0],
     [0, 0, 0, 0, 0, 0, 0, 0, 0, 0, 0, 0, 0, 0, 0, 0, 0, 0, 0, 0, 0, 0, 0, 0, 0, 0, 0, 0, 0, 0, 0, 0]],
    [[0, 101, 169, 45, 29, 232, 31, 52, 17, 79, 76, 162, 222, 239, 118, 224, 206, 172, 221, 219, 18, 207, 135, 144, 150, 162, 159, 16, 55, 108, 203, 254],
     [0, 0, 0, 0, 0, 0, 0, 0, 0, 0, 0, 0, 0, 0, 0, 0, 0, 0, 0, 0, 0, 0, 0, 0, 0, 0, 0, 0, 0, 0, 0, 0],
     [0, 0, 0, 0, 0, 0, 0, 0, 0, 0, 0, 0, 0, 0, 0, 0, 0, 0, 0, 0, 0, 0, 0, 0, 0, 0, 0, 0, 0, 0, 0, 0]],
    [[31, 17, 240, 101, 32, 37, 53, 152, 115, 103, 248, 35, 218, 125, 103, 44, 53, 62, 190, 44, 203, 196, 134, 155, 207, 48, 213, 10, 88, 113, 4, 13],
     [0, 0, 0, 0, 0, 0, 0, 0, 0, 0, 0, 0, 0, 0, 0, 0, 0, 0, 0, 0, 0, 0, 0, 0, 0, 0, 0, 0, 0, 0, 0, 0],
     [0, 0, 0, 0, 0, 0, 0, 0, 0, 0, 0, 0, 0, 0, 0, 0, 0, 0, 0, 0, 0, 0, 0, 0, 0, 0, 0, 0, 0, 0, 0, 0]],
    [[38, 89, 111, 92, 93, 213, 165, 209, 180, 55, 206, 123, 20, 162, 195, 221, 59, 209, 209, 163, 155, 103, 89, 186, 17, 8, 82, 209, 125, 240, 105, 62],
     [0, 0, 0, 0, 0, 0, 0, 0, 0, 0, 0, 0, 0, 0, 0, 0, 0, 0, 0, 0, 0, 0, 0, 0, 0, 0, 0, 0, 0, 0, 0, 0],
     [0, 0, 0, 0, 0, 0, 0, 0, 0, 0, 0, 0, 0, 0, 0, 0, 0, 0, 0, 0, 0, 0, 0, 0, 0, 0, 0, 0, 0, 0, 0, 0]]]"

definition rc_t3_13 :: "bytes list list" where
  "rc_t3_13 = [
    [[22, 244, 155, 199, 39, 228, 90, 47, 123, 243, 5, 110, 252, 248, 182, 211, 133, 57, 196, 22, 58, 95, 30, 112, 103, 67, 219, 21, 175, 145, 134, 15],
     [0, 0, 0, 0, 0, 0, 0, 0, 0, 0, 0, 0, 0, 0, 0, 0, 0, 0, 0, 0, 0, 0, 0, 0, 0, 0, 0, 0, 0, 0, 0, 0],
     [0, 0, 0, 0, 0, 0, 0, 0, 0, 0, 0, 0, 0, 0, 0, 0, 0, 0, 0, 0, 0, 0, 0, 0, 0, 0, 0, 0, 0, 0, 0, 0]],
    [[26, 190, 29, 235, 69, 179, 227, 17, 153, 84, 23, 94, 251, 51, 27, 244, 86, 143, 234, 247, 234, 139, 61, 197, 225, 164, 231, 67, 141, 211, 158, 95],
     [0, 0, 0, 0, 0, 0, 0, 0, 0, 0, 0, 0, 0, 0, 0, 0, 0, 0, 0, 0, 0, 0, 0, 0, 0, 0, 0, 0, 0, 0, 0, 0],
     [0, 0, 0, 0, 0, 0, 0, 0, 0, 0, 0, 0, 0, 0, 0, 0, 0, 0, 0, 0, 0, 0, 0, 0, 0, 0, 0, 0, 0, 0, 0, 0]],
    [[14, 66, 108, 202, 182, 105, 132, 209, 216, 153, 58, 116, 202, 84, 139, 119, 159, 93, 185, 42, 174, 197, 241, 2, 2, 13, 52, 174, 161, 95, 186, 89],
     [0, 0, 0, 0, 0, 0, 0, 0, 0, 0, 0, 0, 0, 0, 0, 0, 0, 0, 0, 0, 0, 0, 0, 0, 0, 0, 0, 0, 0, 0, 0, 0],
     [0, 0, 0, 0, 0, 0, 0, 0, 0, 0, 0, 0, 0, 0, 0, 0, 0, 0, 0, 0, 0, 0, 0, 0, 0, 0, 0, 0, 0, 0, 0, 0]],
    [[14, 124, 48, 194, 226, 232, 149, 127, 73, 51, 189, 25, 66, 5, 63, 31, 0, 113, 104, 75, 144, 45, 83, 79, 168, 65, 146, 67, 3, 246, 166, 198],
     [0, 0, 0, 0, 0, 0, 0, 0, 0, 0, 0, 0, 0, 0, 0, 0, 0, 0, 0, 0, 0, 0, 0, 0, 0, 0, 0, 0, 0, 0, 0, 0],
     [0, 0, 0, 0, 0, 0, 0, 0, 0, 0, 0, 0, 0, 0, 0, 0, 0, 0, 0, 0, 0, 0, 0, 0, 0, 0, 0, 0, 0, 0, 0, 0]]]"

definition rc_t3_14 :: "bytes list list" where
  "rc_t3_14 = [
    [[8, 18, 160, 23, 202, 146, 207, 10, 22, 34, 112, 143, 199, 237, 255, 29, 97, 102, 222, 214, 227, 82, 142, 173, 76, 118, 225, 243, 29, 63, 198, 157],
     [0, 0, 0, 0, 0, 0, 0, 0, 0, 0, 0, 0, 0, 0, 0, 0, 0, 0, 0, 0, 0, 0, 0, 0, 0, 0, 0, 0, 0, 0, 0, 0],
     [0, 0, 0, 0, 0, 0, 0, 0, 0, 0, 0, 0, 0, 0, 0, 0, 0, 0, 0, 0, 0, 0, 0, 0, 0, 0, 0, 0, 0, 0, 0, 0]],
    [[33, 165, 173, 227, 223, 43, 193, 181, 187, 169, 73, 209, 219, 150, 4, 0, 104, 175, 229, 2, 110, 221, 122, 156, 46, 39, 107, 71, 207, 1, 13, 84],
     [0, 0, 0, 0, 0, 0, 0, 0, 0, 0, 0, 0, 0, 0, 0, 0, 0, 0, 0, 0, 0, 0, 0, 0, 0, 0, 0, 0, 0, 0, 0, 0],
     [0, 0, 0, 0, 0, 0, 0, 0, 0, 0, 0, 0, 0, 0, 0, 0, 0, 0, 0, 0, 0, 0, 0, 0, 0, 0, 0, 0, 0, 0, 0, 0]],
    [[1, 243, 3, 84, 99, 129, 108, 132, 173, 113, 27, 241, 160, 88, 198, 198, 189, 16, 25, 69, 245, 14, 90, 254, 114, 177, 165, 35, 63, 135, 73, 206],
     [0, 0, 0, 0, 0, 0, 0, 0, 0, 0, 0, 0, 0, 0, 0, 0, 0, 0, 0, 0, 0, 0, 0, 0, 0, 0, 0, 0, 0, 0, 0, 0],
     [0, 0, 0, 0, 0, 0, 0, 0, 0, 0, 0, 0, 0, 0, 0, 0, 0, 0, 0, 0, 0, 0, 0, 0, 0, 0, 0, 0, 0, 0, 0, 0]],
    [[11, 17, 85, 114, 240, 56, 192, 226, 2, 140, 42, 175, 194, 208, 106, 94, 139, 242, 249, 57, 141, 189, 15, 223, 77, 202, 168, 43, 15, 12, 28, 139],
     [0, 0, 0, 0, 0, 0, 0, 0, 0, 0, 0, 0, 0, 0, 0, 0, 0, 0, 0, 0, 0, 0, 0, 0, 0, 0, 0, 0, 0, 0, 0, 0],
     [0, 0, 0, 0, 0, 0, 0, 0, 0, 0, 0, 0, 0, 0, 0, 0, 0, 0, 0, 0, 0, 0, 0, 0, 0, 0, 0, 0, 0, 0, 0, 0]]]"

definition rc_t3_15 :: "bytes list list" where
  "rc_t3_15 = [
    [[28, 56, 236, 11, 153, 182, 47, 212, 240, 239, 37, 85, 67, 245, 13, 46, 39, 252, 36, 219, 66, 188, 145, 10, 52, 96, 97, 59, 110, 245, 158, 47],
     [0, 0, 0, 0, 0, 0, 0, 0, 0, 0, 0, 0, 0, 0, 0, 0, 0, 0, 0, 0, 0, 0, 0, 0, 0, 0, 0, 0, 0, 0, 0, 0],
     [0, 0, 0, 0, 0, 0, 0, 0, 0, 0, 0, 0, 0, 0, 0, 0, 0, 0, 0, 0, 0, 0, 0, 0, 0, 0, 0, 0, 0, 0, 0, 0]],
    [[28, 137, 198, 217, 102, 98, 114, 232, 66, 92, 63, 241, 244, 172, 115, 123, 47, 93, 49, 70, 6, 162, 151, 212, 177, 208, 178, 84, 216, 128, 197, 62],
     [0, 0, 0, 0, 0, 0, 0, 0, 0, 0, 0, 0, 0, 0, 0, 0, 0, 0, 0, 0, 0, 0, 0, 0, 0, 0, 0, 0, 0, 0, 0, 0],
     [0, 0, 0, 0, 0, 0, 0, 0, 0, 0, 0, 0, 0, 0, 0, 0, 0, 0, 0, 0, 0, 0, 0, 0, 0, 0, 0, 0, 0, 0, 0, 0]],
    [[3, 50, 110, 100, 53, 128, 53, 107, 246, 212, 64, 8, 174, 76, 4, 42, 33, 173, 72, 128, 9, 122, 94, 179, 139, 113, 226, 49, 27, 184, 143, 143],
     [0, 0, 0, 0, 0, 0, 0, 0, 0, 0, 0, 0, 0, 0, 0, 0, 0, 0, 0, 0, 0, 0, 0, 0, 0, 0, 0, 0, 0, 0, 0, 0],
     [0, 0, 0, 0, 0, 0, 0, 0, 0, 0, 0, 0, 0, 0, 0, 0, 0, 0, 0, 0, 0, 0, 0, 0, 0, 0, 0, 0, 0, 0, 0, 0]],
    [[38, 128, 118, 176, 5, 79, 183, 63, 103, 206, 233, 234, 14, 81, 227, 173, 80, 242, 122, 100, 52, 181, 220, 235, 91, 221, 226, 41, 153, 16, 164, 201],
     [0, 0, 0, 0, 0, 0, 0, 0, 0, 0, 0, 0, 0, 0, 0, 0, 0, 0, 0, 0, 0, 0, 0, 0, 0, 0, 0, 0, 0, 0, 0, 0],
     [0, 0, 0, 0, 0, 0, 0, 0, 0, 0, 0, 0, 0, 0, 0, 0, 0, 0, 0, 0, 0, 0, 0, 0, 0, 0, 0, 0, 0, 0, 0, 0]]]"

definition rc_t3_16 :: "bytes list list" where
  "rc_t3_16 = [
    [[26, 205, 99, 198, 127, 188, 154, 177, 98, 110, 217, 52, 145, 189, 163, 46, 93, 161, 142, 169, 216, 228, 241, 1, 120, 208, 74, 166, 248, 116, 122, 208],
     [25, 248, 165, 214, 112, 232, 171, 102, 196, 227, 20, 75, 229, 142, 246, 144, 27, 249, 51, 117, 226, 50, 62, 195, 202, 140, 134, 205, 42, 40, 181, 165],
     [28, 13, 196, 67, 81, 154, 215, 168, 110, 250, 64, 210, 223, 16, 160, 17, 6, 129, 147, 234, 81, 246, 201, 42, 225, 207, 187, 95, 123, 155, 104, 147]],
    [[20, 179, 158, 122, 164, 6, 141, 190, 80, 254, 113, 144, 228, 33, 220, 25, 251, 234, 179, 60, 180, 246, 162, 196, 24, 14, 76, 50, 36, 152, 125, 61],
     [29, 68, 155, 113, 189, 130, 110, 197, 143, 40, 198, 62, 166, 197, 97, 183, 184, 32, 252, 81, 159, 1, 240, 33, 175, 177, 227, 94, 40, 176, 121, 94],
     [30, 162, 201, 168, 155, 170, 221, 187, 96, 250, 151, 254, 96, 254, 157, 142, 137, 222, 20, 22, 137, 209, 37, 34, 118, 82, 77, 192, 169, 233, 135, 252]],
    [[4, 120, 214, 109, 67, 83, 90, 140, 181, 126, 156, 28, 61, 106, 43, 215, 89, 31, 154, 70, 160, 233, 192, 88, 19, 77, 92, 239, 219, 60, 127, 241],
     [25, 39, 45, 183, 30, 236, 230, 166, 246, 8, 243, 178, 113, 127, 156, 210, 102, 46, 38, 173, 134, 196, 0, 178, 28, 222, 94, 74, 123, 0, 190, 190],
     [20, 34, 101, 55, 51, 92, 171, 51, 199, 73, 199, 70, 240, 146, 8, 171, 178, 221, 27, 214, 106, 135, 239, 117, 3, 155, 232, 70, 175, 19, 65, 102]],
    [[1, 253, 106, 241, 89, 86, 41, 79, 157, 254, 56, 192, 217, 118, 160, 136, 178, 28, 33, 228, 161, 194, 232, 35, 249, 18, 244, 73, 97, 249, 169, 206],
     [24, 229, 171, 237, 214, 38, 236, 48, 123, 202, 25, 11, 139, 44, 171, 26, 174, 226, 230, 46, 210, 41, 186, 90, 90, 216, 81, 141, 78, 95, 42, 87],
     [15, 193, 187, 206, 186, 5, 144, 245, 171, 189, 255, 166, 211, 179, 94, 50, 151, 192, 33, 163, 164, 9, 146, 109, 14, 45, 84, 220, 28, 132, 253, 166]]]"

definition rc_t3 :: "bytes list list" where
  "rc_t3 = rc_t3_1 @ rc_t3_2 @ rc_t3_3 @ rc_t3_4 @ rc_t3_5 @ rc_t3_6 @ rc_t3_7 @ rc_t3_8 @ rc_t3_9 @ rc_t3_10 @ rc_t3_11 @ rc_t3_12 @ rc_t3_13 @ rc_t3_14 @ rc_t3_15 @ rc_t3_16"

definition get_round_constants_t3 :: "u256 list list" where
  "get_round_constants_t3 = map (map u256_from_be_bytes) rc_t3"

section \<open>Zero hashes\<close>

definition zeroes_1 :: "bytes list" where
  "zeroes_1 = [
    [37, 48, 34, 136, 219, 153, 53, 3, 68, 151, 65, 131, 206, 49, 13, 99, 181, 58, 187, 158, 240, 248, 87, 87, 83, 238, 211, 110, 1, 24, 249, 206],
    [33, 244, 234, 36, 146, 173, 224, 6, 168, 238, 127, 183, 100, 6, 10, 149, 164, 238, 245, 202, 147, 30, 3, 123, 205, 240, 95, 194, 128, 103, 208, 8],
    [14, 191, 180, 210, 240, 91, 182, 164, 115, 201, 191, 247, 37, 134, 254, 200, 6, 241, 172, 35, 112, 21, 197, 112, 215, 199, 130, 73, 207, 125, 119, 64],
    [6, 104, 130, 165, 218, 177, 134, 212, 214, 63, 166, 96, 15, 158, 163, 213, 205, 254, 242, 162, 129, 28, 137, 115, 17, 40, 167, 41, 215, 232, 184, 151],
    [6, 93, 179, 20, 141, 141, 165, 50, 155, 234, 236, 80, 66, 120, 92, 105, 242, 206, 7, 9, 226, 109, 70, 139, 218, 30, 37, 92, 89, 155, 86, 134],
    [25, 146, 111, 170, 35, 176, 115, 125, 70, 127, 148, 118, 240, 248, 75, 41, 104, 255, 102, 102, 225, 106, 35, 228, 212, 72, 152, 248, 132, 80, 71, 100],
    [40, 124, 72, 90, 114, 204, 200, 212, 216, 6, 146, 217, 126, 182, 44, 22, 73, 83, 160, 66, 39, 145, 246, 175, 98, 20, 169, 167, 173, 34, 121, 192],
    [31, 114, 158, 16, 62, 125, 65, 95, 114, 141, 201, 69, 227, 182, 226, 196, 10, 192, 203, 54, 158, 83, 43, 165, 10, 86, 151, 144, 205, 222, 42, 204],
    [24, 135, 231, 31, 146, 33, 127, 254, 134, 98, 14, 110, 165, 167, 26, 211, 82, 31, 173, 228, 200, 50, 3, 255, 163, 232, 56, 254, 61, 110, 114, 3],
    [41, 90, 167, 142, 86, 199, 160, 154, 134, 79, 47, 65, 117, 16, 0, 149, 243, 231, 185, 239, 42, 145, 26, 248, 124, 176, 243, 247, 238, 242, 119, 0],
    [5, 23, 3, 42, 121, 107, 3, 64, 220, 95, 157, 242, 139, 31, 211, 32, 218, 186, 36, 213, 164, 83, 53, 161, 55, 22, 115, 0, 238, 54, 136, 40]]"

definition zeroes_2 :: "bytes list" where
  "zeroes_2 = [
    [21, 250, 223, 73, 71, 210, 164, 12, 123, 67, 158, 131, 234, 60, 151, 159, 247, 37, 170, 209, 28, 71, 170, 175, 137, 42, 171, 65, 61, 178, 220, 221],
    [0, 172, 183, 35, 107, 109, 135, 244, 135, 91, 59, 157, 23, 32, 169, 224, 104, 44, 112, 228, 188, 109, 84, 237, 246, 31, 170, 43, 201, 56, 65, 214],
    [9, 131, 109, 217, 5, 77, 86, 10, 230, 14, 166, 168, 3, 52, 4, 179, 228, 3, 9, 246, 238, 77, 23, 10, 203, 146, 230, 102, 126, 134, 199, 117],
    [33, 152, 148, 107, 23, 249, 186, 3, 93, 126, 231, 40, 116, 28, 165, 244, 229, 135, 92, 182, 175, 178, 150, 132, 166, 245, 249, 168, 47, 238, 196, 130],
    [21, 212, 177, 104, 48, 96, 77, 190, 11, 50, 18, 227, 31, 149, 116, 120, 124, 21, 176, 245, 78, 94, 36, 176, 128, 104, 126, 122, 110, 246, 212, 85],
    [45, 7, 247, 62, 4, 207, 10, 83, 128, 55, 186, 7, 86, 22, 81, 172, 151, 155, 176, 14, 23, 5, 199, 93, 220, 149, 22, 236, 75, 138, 106, 118],
    [2, 248, 115, 26, 234, 40, 154, 107, 64, 16, 0, 72, 126, 140, 105, 37, 201, 34, 64, 126, 236, 165, 143, 46, 24, 204, 138, 217, 182, 197, 209, 63],
    [10, 48, 5, 60, 23, 135, 199, 151, 130, 230, 11, 200, 216, 37, 233, 227, 35, 200, 169, 2, 249, 58, 165, 146, 60, 36, 209, 125, 22, 219, 146, 92],
    [14, 163, 5, 141, 153, 88, 186, 95, 228, 65, 251, 215, 157, 201, 104, 244, 73, 33, 93, 222, 230, 97, 70, 22, 26, 252, 243, 76, 52, 191, 164, 144],
    [39, 185, 147, 126, 71, 166, 89, 131, 173, 80, 165, 183, 246, 185, 207, 5, 66, 201, 26, 141, 250, 23, 20, 206, 248, 144, 19, 67, 138, 6, 249, 183],
    [45, 52, 123, 228, 229, 71, 197, 131, 124, 27, 33, 114, 50, 38, 40, 160, 196, 141, 102, 129, 147, 25, 103, 145, 179, 16, 103, 75, 4, 83, 192, 57]]"

definition zeroes_3 :: "bytes list" where
  "zeroes_3 = [
    [3, 242, 70, 27, 53, 184, 146, 252, 140, 88, 151, 6, 40, 61, 16, 131, 244, 210, 214, 107, 228, 249, 126, 70, 26, 186, 242, 240, 111, 137, 207, 253],
    [37, 155, 143, 160, 8, 44, 246, 6, 111, 0, 90, 10, 73, 0, 103, 18, 254, 29, 207, 239, 106, 152, 214, 143, 122, 180, 69, 248, 138, 219, 97, 167],
    [25, 128, 165, 247, 234, 192, 157, 170, 199, 178, 210, 23, 155, 161, 217, 112, 251, 63, 2, 19, 221, 144, 97, 49, 40, 245, 213, 88, 99, 216, 68, 20],
    [28, 252, 217, 74, 171, 194, 60, 172, 212, 204, 171, 34, 232, 125, 35, 3, 32, 13, 9, 176, 48, 66, 178, 4, 127, 3, 210, 224, 222, 245, 126, 133],
    [16, 43, 220, 129, 172, 191, 140, 82, 211, 88, 113, 162, 31, 242, 117, 22, 221, 190, 110, 49, 239, 81, 116, 12, 73, 189, 46, 226, 177, 152, 12, 33],
    [47, 173, 132, 243, 136, 162, 99, 231, 20, 199, 179, 159, 176, 221, 36, 190, 97, 88, 185, 226, 20, 128, 170, 58, 96, 119, 135, 7, 136, 159, 118, 173],
    [42, 206, 148, 45, 48, 190, 203, 54, 159, 28, 253, 2, 91, 83, 148, 214, 238, 76, 151, 245, 89, 48, 4, 138, 24, 251, 80, 17, 40, 200, 119, 119],
    [9, 48, 254, 204, 191, 118, 42, 107, 35, 154, 206, 226, 195, 105, 222, 154, 49, 189, 62, 35, 44, 144, 198, 74, 241, 65, 148, 92, 28, 65, 84, 99],
    [26, 89, 226, 186, 85, 241, 232, 41, 188, 162, 198, 49, 106, 156, 205, 8, 1, 125, 46, 155, 245, 50, 148, 44, 38, 216, 35, 101, 202, 96, 75, 88],
    [26, 142, 132, 12, 132, 226, 251, 82, 18, 214, 31, 9, 173, 95, 145, 214, 167, 10, 131, 7, 78, 148, 39, 114, 239, 116, 180, 45, 18, 161, 31, 80],
    [19, 75, 80, 223, 2, 226, 204, 185, 139, 89, 175, 44, 44, 85, 215, 164, 31, 241, 2, 104, 23, 48, 196, 43, 163, 100, 219, 255, 18, 113, 207, 98]]"

definition get_zeroes :: "u256 list" where
  "get_zeroes = map u256_from_be_bytes (zeroes_1 @ zeroes_2 @ zeroes_3)"


section \<open>Shape of the tables\<close>

lemma unat_bn256_modulus [simp]:
  "unat bn256_modulus =
     21888242871839275222246405745257275088548364400416034343698204186575808495617"
  by (simp add: bn256_modulus_def bn256_mod_bytes_def u256_from_be_bytes_def be_to_nat_def)

lemma bn256_modulus_neq_0 [simp]: "bn256_modulus \<noteq> 0"
  by (simp add: unat_eq_zero [symmetric])

text \<open>A byte string that decodes to a reduced field element.\<close>

definition reduced_bytes :: "bytes \<Rightarrow> bool" where
  "reduced_bytes b \<longleftrightarrow>
     length b = 32 \<and>
     be_to_nat b < 21888242871839275222246405745257275088548364400416034343698204186575808495617"

lemma unat_u256_from_be_bytes:
  assumes "length b = 32"
  shows "unat (u256_from_be_bytes b) = be_to_nat b"
proof -
  have "be_to_nat b < 2 ^ 256"
    using be_to_nat_bound [of b] by (simp add: assms)
  then show ?thesis
    by (simp add: u256_from_be_bytes_def unat_of_nat take_bit_eq_mod)
qed

lemma reduced_bytes_less_modulus: "reduced_bytes b \<Longrightarrow> u256_from_be_bytes b < bn256_modulus"
  by (simp add: word_less_nat_alt reduced_bytes_def unat_u256_from_be_bytes)

lemma all_zero_zero_bytes [simp]: "list_all ((=) 0) zero_bytes"
  by (simp add: zero_bytes_def list_all_iff)

lemma le_to_nat_replicate_0 [simp]: "le_to_nat (replicate n 0) = 0"
  by (induction n) auto

lemma reduced_zero_bytes: "reduced_bytes zero_bytes"
  by (simp add: reduced_bytes_def zero_bytes_def be_to_nat_def)

lemma reduced_rc_t2_1: "list_all (list_all reduced_bytes) rc_t2_1"
  by (simp add: rc_t2_1_def reduced_zero_bytes) (simp add: reduced_bytes_def be_to_nat_def)

lemma reduced_rc_t2_2: "list_all (list_all reduced_bytes) rc_t2_2"
  by (simp add: rc_t2_2_def reduced_zero_bytes) (simp add: reduced_bytes_def be_to_nat_def)

lemma reduced_rc_t2_3: "list_all (list_all reduced_bytes) rc_t2_3"
  by (simp add: rc_t2_3_def reduced_zero_bytes) (simp add: reduced_bytes_def be_to_nat_def)

lemma reduced_rc_t2_4: "list_all (list_all reduced_bytes) rc_t2_4"
  by (simp add: rc_t2_4_def reduced_zero_bytes) (simp add: reduced_bytes_def be_to_nat_def)

lemma reduced_rc_t2_5: "list_all (list_all reduced_bytes) rc_t2_5"
  by (simp add: rc_t2_5_def reduced_zero_bytes) (simp add: reduced_bytes_def be_to_nat_def)

lemma reduced_rc_t2_6: "list_all (list_all reduced_bytes) rc_t2_6"
  by (simp add: rc_t2_6_def reduced_zero_bytes) (simp add: reduced_bytes_def be_to_nat_def)

lemma reduced_rc_t2_7: "list_all (list_all reduced_bytes) rc_t2_7"
  by (simp add: rc_t2_7_def reduced_zero_bytes) (simp add: reduced_bytes_def be_to_nat_def)

lemma reduced_rc_t3_1: "list_all (list_all reduced_bytes) rc_t3_1"
  by (simp add: rc_t3_1_def reduced_zero_bytes) (simp add: reduced_bytes_def be_to_nat_def)

lemma reduced_rc_t3_2: "list_all (list_all reduced_bytes) rc_t3_2"
  by (simp add: rc_t3_2_def reduced_zero_bytes) (simp add: reduced_bytes_def be_to_nat_def)

lemma reduced_rc_t3_3: "list_all (list_all reduced_bytes) rc_t3_3"
  by (simp add: rc_t3_3_def reduced_zero_bytes) (simp add: reduced_bytes_def be_to_nat_def)

lemma reduced_rc_t3_4: "list_all (list_all reduced_bytes) rc_t3_4"
  by (simp add: rc_t3_4_def reduced_zero_bytes) (simp add: reduced_bytes_def be_to_nat_def)

lemma reduced_rc_t3_5: "list_all (list_all reduced_bytes) rc_t3_5"
  by (simp add: rc_t3_5_def reduced_zero_bytes) (simp add: reduced_bytes_def be_to_nat_def)

lemma reduced_rc_t3_6: "list_all (list_all reduced_bytes) rc_t3_6"
  by (simp add: rc_t3_6_def reduced_zero_bytes) (simp add: reduced_bytes_def be_to_nat_def)

lemma reduced_rc_t3_7: "list_all (list_all reduced_bytes) rc_t3_7"
  by (simp add: rc_t3_7_def reduced_zero_bytes) (simp add: reduced_bytes_def be_to_nat_def)

lemma reduced_rc_t3_8: "list_all (list_all reduced_bytes) rc_t3_8"
  by (simp add: rc_t3_8_def reduced_zero_bytes) (simp add: reduced_bytes_def be_to_nat_def)

lemma reduced_rc_t3_9: "list_all (list_all reduced_bytes) rc_t3_9"
  by (simp add: rc_t3_9_def reduced_zero_bytes) (simp add: reduced_bytes_def be_to_nat_def)

lemma reduced_rc_t3_10: "list_all (list_all reduced_bytes) rc_t3_10"
  by (simp add: rc_t3_10_def reduced_zero_bytes) (simp add: reduced_bytes_def be_to_nat_def)

lemma reduced_rc_t3_11: "list_all (list_all reduced_bytes) rc_t3_11"
  by (simp add: rc_t3_11_def reduced_zero_bytes) (simp add: reduced_bytes_def be_to_nat_def)

lemma reduced_rc_t3_12: "list_all (list_all reduced_bytes) rc_t3_12"
  by (simp add: rc_t3_12_def reduced_zero_bytes) (simp add: reduced_bytes_def be_to_nat_def)

lemma reduced_rc_t3_13: "list_all (list_all reduced_bytes) rc_t3_13"
  by (simp add: rc_t3_13_def reduced_zero_bytes) (simp add: reduced_bytes_def be_to_nat_def)

lemma reduced_rc_t3_14: "list_all (list_all reduced_bytes) rc_t3_14"
  by (simp add: rc_t3_14_def reduced_zero_bytes) (simp add: reduced_bytes_def be_to_nat_def)

lemma reduced_rc_t3_15: "list_all (list_all reduced_bytes) rc_t3_15"
  by (simp add: rc_t3_15_def reduced_zero_bytes) (simp add: reduced_bytes_def be_to_nat_def)

lemma reduced_rc_t3_16: "list_all (list_all reduced_bytes) rc_t3_16"
  by (simp add: rc_t3_16_def reduced_zero_bytes) (simp add: reduced_bytes_def be_to_nat_def)

lemma reduced_zeroes_1: "list_all reduced_bytes zeroes_1"
  by (simp add: zeroes_1_def reduced_bytes_def be_to_nat_def)

lemma reduced_zeroes_2: "list_all reduced_bytes zeroes_2"
  by (simp add: zeroes_2_def reduced_bytes_def be_to_nat_def)

lemma reduced_zeroes_3: "list_all reduced_bytes zeroes_3"
  by (simp add: zeroes_3_def reduced_bytes_def be_to_nat_def)

lemmas reduced_tables =
  reduced_rc_t2_1 reduced_rc_t2_2 reduced_rc_t2_3 reduced_rc_t2_4 reduced_rc_t2_5 reduced_rc_t2_6
  reduced_rc_t2_7 reduced_rc_t3_1 reduced_rc_t3_2 reduced_rc_t3_3 reduced_rc_t3_4 reduced_rc_t3_5
  reduced_rc_t3_6 reduced_rc_t3_7 reduced_rc_t3_8 reduced_rc_t3_9 reduced_rc_t3_10 reduced_rc_t3_11
  reduced_rc_t3_12 reduced_rc_t3_13 reduced_rc_t3_14 reduced_rc_t3_15 reduced_rc_t3_16
  reduced_zeroes_1 reduced_zeroes_2 reduced_zeroes_3

lemmas rc_t2_chunks =
  rc_t2_1_def rc_t2_2_def rc_t2_3_def rc_t2_4_def rc_t2_5_def rc_t2_6_def rc_t2_7_def

lemmas rc_t3_chunks =
  rc_t3_1_def rc_t3_2_def rc_t3_3_def rc_t3_4_def rc_t3_5_def rc_t3_6_def rc_t3_7_def rc_t3_8_def
  rc_t3_9_def rc_t3_10_def rc_t3_11_def rc_t3_12_def rc_t3_13_def rc_t3_14_def rc_t3_15_def rc_t3_16_def

lemma map_length_rc_t2: "map length rc_t2 = replicate 29 2 @ [1] @ replicate 34 2"
  by (simp add: rc_t2_def rc_t2_chunks numeral_eq_Suc)

lemma map_length_rc_t3: "map length rc_t3 = replicate 64 3"
  by (simp add: rc_t3_def rc_t3_chunks numeral_eq_Suc)

lemma partial_lanes_rc_t2:
  "list_all (\<lambda>r. list_all (list_all ((=) 0)) (tl r)) (take 56 (drop 4 rc_t2))"
  by (simp add: rc_t2_def rc_t2_chunks)

lemma partial_lanes_rc_t3:
  "list_all (\<lambda>r. list_all (list_all ((=) 0)) (tl r)) (take 56 (drop 4 rc_t3))"
  by (simp add: rc_t3_def rc_t3_chunks)

lemma reduced_rc_t2: "list_all (list_all reduced_bytes) rc_t2"
  by (simp add: rc_t2_def reduced_tables)

lemma reduced_rc_t3: "list_all (list_all reduced_bytes) rc_t3"
  by (simp add: rc_t3_def reduced_tables)

lemma reduced_zeroes: "list_all reduced_bytes (zeroes_1 @ zeroes_2 @ zeroes_3)"
  by (simp add: reduced_tables)

lemma zeroes_prefixes:
  "map (\<lambda>bs. unat (bs ! 1) + 256 * unat (bs ! 0)) (zeroes_1 @ zeroes_2 @ zeroes_3) =
    [
     9520, 8692, 3775, 1640, 1629, 6546, 10364, 8050, 6279, 10586, 1303, 5626, 172, 2435, 8600,
     5588, 11527, 760, 2608, 3747, 10169, 11572, 1010, 9627, 6528, 7420, 4139, 12205,
     10958, 2352, 6745, 6798, 4939]"
  by (simp add: zeroes_1_def zeroes_2_def zeroes_3_def)

lemma distinct_zeroes: "distinct (zeroes_1 @ zeroes_2 @ zeroes_3)"
proof -
  have "distinct (map (\<lambda>bs. unat (bs ! 1) + 256 * unat (bs ! 0)) (zeroes_1 @ zeroes_2 @ zeroes_3))"
    unfolding zeroes_prefixes by simp
  then show ?thesis unfolding distinct_map by (rule conjunct1)
qed

lemma lengths_zeroes: "list_all (\<lambda>bs. length bs = 32) (zeroes_1 @ zeroes_2 @ zeroes_3)"
  using reduced_zeroes by (auto simp: list_all_iff reduced_bytes_def)

end
