(* ===== verification/Poseidon2_Hash.thy ===== *)
theory Poseidon2_Hash
  imports Poseidon2_Constants
begin

text \<open>
  The hash functions of \<open>contracts/soroban-utils/src/poseidon2.rs\<close>.  The permutation itself is a
  host function of the Soroban SDK (\<open>crypto_hazmat().poseidon2_permutation\<close>), so it is a parameter
  \<open>P\<close> of every definition that hashes; the call passes it the same field name, width, s-box
  degree, round numbers, internal diagonal and round-constant table as the source.

  \<open>poseidon2_host P\<close> is the documented behaviour the code relies on: on a well-formed call the
  permutation returns one reduced field element per lane.  \<open>node_hash\<close> and \<open>leaf_hash\<close> name the
  value a successful call returns; whatever \<open>P\<close> is, a call that ends in \<open>Ok\<close> returns them.
\<close>

type_synonym permutation =
  "u256 list \<Rightarrow> string \<Rightarrow> nat \<Rightarrow> nat \<Rightarrow> nat \<Rightarrow> nat \<Rightarrow> u256 list \<Rightarrow> u256 list list \<Rightarrow> u256 list option"

definition poseidon2_compress :: "permutation \<Rightarrow> u256 \<Rightarrow> u256 \<Rightarrow> (u256, 'e) result" where
  "poseidon2_compress P left right =
     (if bn256_modulus \<le> left \<or> bn256_modulus \<le> right then Panic
      else
        rbind (unwrap (P [left, right] ''BN254'' 2 5 8 56 [1, 2] get_round_constants_t2)) (\<lambda>out.
        rbind (unwrap (vec_get out 0)) (\<lambda>out_0.
        rbind (u256_add out_0 left) (\<lambda>compressed_0.
        if bn256_modulus \<le> compressed_0
        then u256_rem_euclid compressed_0 bn256_modulus
        else Ok compressed_0))))"

definition poseidon2_hash2 ::
  "permutation \<Rightarrow> u256 \<Rightarrow> u256 \<Rightarrow> u256 option \<Rightarrow> (u256, 'e) result" where
  "poseidon2_hash2 P a b sep_opt =
     (let sep = (case sep_opt of Some s \<Rightarrow> s | None \<Rightarrow> 0) in
      if bn256_modulus \<le> a \<or> bn256_modulus \<le> b \<or> bn256_modulus \<le> sep then Panic
      else
        rbind (unwrap (P [a, b, sep] ''BN254'' 3 5 8 56 [1, 1, 2] get_round_constants_t3)) (\<lambda>out.
        unwrap (vec_get out 0)))"

section \<open>Values of successful calls\<close>

definition node_hash :: "permutation \<Rightarrow> u256 \<Rightarrow> u256 \<Rightarrow> u256" where
  "node_hash P l r =
     (case (poseidon2_compress P l r :: (u256, unit) result) of Ok h \<Rightarrow> h | _ \<Rightarrow> 0)"

definition leaf_hash :: "permutation \<Rightarrow> u256 \<Rightarrow> u256 \<Rightarrow> u256" where
  "leaf_hash P k v =
     (case (poseidon2_hash2 P k v (Some 1) :: (u256, unit) result) of Ok h \<Rightarrow> h | _ \<Rightarrow> 0)"

lemma u256_add_eq_Ok_iff [result_simps]:
  "u256_add a b = Ok c \<longleftrightarrow> unat a + unat b < 2 ^ 256 \<and> c = a + b"
  by (auto simp: u256_add_def)

lemma compress_Ok: "poseidon2_compress P l r = Ok h \<Longrightarrow> node_hash P l r = h"
  by (auto simp: node_hash_def poseidon2_compress_def u256_add_def result_simps
      split: if_splits)

lemma hash_leaf_Ok: "poseidon2_hash2 P k v (Some 1) = Ok h \<Longrightarrow> leaf_hash P k v = h"
  by (auto simp: leaf_hash_def poseidon2_hash2_def Let_def result_simps split: if_splits)

text \<open>Out-of-field inputs always trap.\<close>

lemma compress_in_field:
  "poseidon2_compress P l r = Ok h \<Longrightarrow> l < bn256_modulus \<and> r < bn256_modulus"
  by (auto simp: poseidon2_compress_def not_le split: if_splits)

lemma compress_neq_Err [simp]: "poseidon2_compress P l r \<noteq> Err e"
  by (auto simp: poseidon2_compress_def rbind_eq_Err_iff u256_add_def u256_rem_euclid_def)

section \<open>Behaviour relied on\<close>

definition poseidon2_host :: "permutation \<Rightarrow> bool" where
  "poseidon2_host P \<longleftrightarrow>
     (\<forall>a b. a < bn256_modulus \<longrightarrow> b < bn256_modulus \<longrightarrow>
        (\<exists>x y. P [a, b] ''BN254'' 2 5 8 56 [1, 2] get_round_constants_t2 = Some [x, y]
            \<and> x < bn256_modulus \<and> y < bn256_modulus)) \<and>
     (\<forall>a b c. a < bn256_modulus \<longrightarrow> b < bn256_modulus \<longrightarrow> c < bn256_modulus \<longrightarrow>
        (\<exists>x y z. P [a, b, c] ''BN254'' 3 5 8 56 [1, 1, 2] get_round_constants_t3 = Some [x, y, z]
            \<and> x < bn256_modulus \<and> y < bn256_modulus \<and> z < bn256_modulus))"

lemma field_sum_fits:
  assumes "x < bn256_modulus" and "l < bn256_modulus"
  shows "unat x + unat l < 2 ^ 256"
  using assms by (simp add: word_less_nat_alt)

lemma compress_total:
  assumes "poseidon2_host P" and "l < bn256_modulus" and "r < bn256_modulus"
  shows "poseidon2_compress P l r = Ok (node_hash P l r) \<and> node_hash P l r < bn256_modulus"
proof -
  from assms obtain x y where
    "P [l, r] ''BN254'' 2 5 8 56 [1, 2] get_round_constants_t2 = Some [x, y]" "x < bn256_modulus"
    unfolding poseidon2_host_def by blast
  moreover have "(x + l) mod bn256_modulus < bn256_modulus"
    by (simp add: word_less_nat_alt unat_mod)
  ultimately have "\<exists>h. poseidon2_compress P l r = Ok h \<and> h < bn256_modulus"
    using assms field_sum_fits [of x l]
    by (auto simp: poseidon2_compress_def u256_add_def not_le)
  then show ?thesis using compress_Ok by metis
qed

lemma hash_leaf_total:
  assumes "poseidon2_host P" and "k < bn256_modulus" and "v < bn256_modulus"
  shows "poseidon2_hash2 P k v (Some 1) = Ok (leaf_hash P k v) \<and> leaf_hash P k v < bn256_modulus"
proof -
  have "(1 :: u256) < bn256_modulus"
    by (simp add: word_less_nat_alt)
  with assms obtain x y z where
    "P [k, v, 1] ''BN254'' 3 5 8 56 [1, 1, 2] get_round_constants_t3 = Some [x, y, z]"
    "x < bn256_modulus"
    unfolding poseidon2_host_def by blast
  with assms \<open>1 < bn256_modulus\<close>
  have "\<exists>h. poseidon2_hash2 P k v (Some 1) = Ok h \<and> h < bn256_modulus"
    by (auto simp: poseidon2_hash2_def)
  then show ?thesis using hash_leaf_Ok by metis
qed

lemmas compress_total_Ok = compress_total [THEN conjunct1]
lemmas node_hash_in_field = compress_total [THEN conjunct2]
lemmas hash_leaf_total_Ok = hash_leaf_total [THEN conjunct1]
lemmas leaf_hash_in_field = hash_leaf_total [THEN conjunct2]

section \<open>The zero-hash table\<close>

lemma length_get_zeroes [simp]: "length get_zeroes = 33"
  by (simp add: get_zeroes_def zeroes_1_def zeroes_2_def zeroes_3_def)

lemma zeroes_in_field:
  assumes "i < 33"
  shows "get_zeroes ! i < bn256_modulus"
proof -
  let ?bs = "zeroes_1 @ zeroes_2 @ zeroes_3"
  have len: "length ?bs = 33"
    by (simp add: zeroes_1_def zeroes_2_def zeroes_3_def)
  with assms reduced_zeroes have "reduced_bytes (?bs ! i)"
    by (simp add: list_all_length)
  then show ?thesis
    unfolding get_zeroes_def nth_map [OF assms [folded len]]
    by (rule reduced_bytes_less_modulus)
qed

definition zero_at :: "nat \<Rightarrow> u256" where
  "zero_at i = get_zeroes ! i"

lemma zero_at_in_field: "i < 33 \<Longrightarrow> zero_at i < bn256_modulus"
  by (simp add: zero_at_def zeroes_in_field)

text \<open>
  The law the table is meant to satisfy, as the comment of \<open>get_zeroes\<close> states it: each level's
  zero hash is the compression of two zero hashes of the level below.
\<close>

definition zero_law :: "permutation \<Rightarrow> bool" where
  "zero_law P \<longleftrightarrow>
     (\<forall>i < 32. zero_at (Suc i) = node_hash P (zero_at i) (zero_at i))"

lemma distinct_get_zeroes: "distinct get_zeroes"
proof -
  have "inj_on u256_from_be_bytes (set (zeroes_1 @ zeroes_2 @ zeroes_3))"
    using lengths_zeroes by (intro inj_onI) (auto simp: list_all_iff u256_from_be_bytes_inject)
  then show ?thesis
    using distinct_zeroes unfolding get_zeroes_def by (simp only: distinct_map simp_thms)
qed

text \<open>
  Both hypotheses can hold together: a host whose width-2 permutation sends a pair of equal zero
  hashes to the difference that compression turns into the next one, and anything else to zeros.
\<close>

definition zero_table_host :: permutation where
  "zero_table_host xs field t d r_f r_p diag rc =
     (case xs of
        [a, b] \<Rightarrow>
          (case find (\<lambda>i. zero_at i = a \<and> zero_at i = b) [0..<32] of
             Some i \<Rightarrow> Some [(zero_at (Suc i) + (bn256_modulus - zero_at i)) mod bn256_modulus, 0]
           | None \<Rightarrow> Some [0, 0])
      | _ \<Rightarrow> Some (replicate t 0))"

lemma zero_at_inject: "i < 33 \<Longrightarrow> j < 33 \<Longrightarrow> zero_at i = zero_at j \<longleftrightarrow> i = j"
  by (simp add: zero_at_def distinct_get_zeroes nth_eq_iff_index_eq)

lemma find_zero_at:
  assumes "i < 32"
  shows "find (\<lambda>j. zero_at j = zero_at i \<and> zero_at j = zero_at i) [0..<32] = Some i"
proof -
  have "find (\<lambda>j. zero_at j = zero_at i \<and> zero_at j = zero_at i) [0..<32] = find ((=) i) [0..<32]"
    using assms by (intro find_cong) (auto simp: zero_at_inject)
  also have "\<dots> = Some i"
    unfolding find_Some_iff by (intro exI [of _ i]) (use assms in auto)
  finally show ?thesis .
qed

lemma mod_modulus_less: "(x :: u256) mod bn256_modulus < bn256_modulus"
  by (simp add: word_less_nat_alt unat_mod)

lemma zero_table_host_ok: "poseidon2_host zero_table_host"
proof -
  have "(0 :: u256) < bn256_modulus" by (simp add: word_less_nat_alt)
  then show ?thesis
    unfolding poseidon2_host_def zero_table_host_def
    by (auto simp: numeral_3_eq_3 mod_modulus_less split: option.splits)
qed

lemma modulus_wrap:
  assumes "z < bn256_modulus" and "z' < bn256_modulus"
  shows "((z' + (bn256_modulus - z)) mod bn256_modulus + z) mod bn256_modulus = z'"
proof -
  let ?p = "unat bn256_modulus"
  have p: "2 * ?p < 2 ^ 256" by simp
  from assms have lt: "unat z < ?p" "unat z' < ?p" by (simp_all add: word_less_nat_alt)
  have sub: "unat (bn256_modulus - z) = ?p - unat z"
    using lt by (intro unat_sub) (simp add: word_le_nat_alt)
  have "unat (z' + (bn256_modulus - z)) = unat z' + (?p - unat z)"
    using lt p sub by (subst unat_plus_simple [THEN iffD1]) (simp_all add: no_olen_add_nat)
  then have m: "unat ((z' + (bn256_modulus - z)) mod bn256_modulus) = (unat z' + (?p - unat z)) mod ?p"
    by (simp add: unat_mod)
  have small: "(unat z' + (?p - unat z)) mod ?p < ?p" using lt by simp
  have "unat ((z' + (bn256_modulus - z)) mod bn256_modulus + z) =
      (unat z' + (?p - unat z)) mod ?p + unat z"
    using lt p small m by (subst unat_plus_simple [THEN iffD1]) (simp_all add: no_olen_add_nat)
  then have "unat (((z' + (bn256_modulus - z)) mod bn256_modulus + z) mod bn256_modulus) =
      ((unat z' + (?p - unat z)) mod ?p + unat z) mod ?p"
    by (simp add: unat_mod)
  also have "\<dots> = (unat z' + (?p - unat z) + unat z) mod ?p" by (rule mod_add_left_eq)
  also have "\<dots> = unat z'" using lt by simp
  finally show ?thesis by (rule unsigned_word_eqI)
qed

lemma zero_table_host_law: "zero_law zero_table_host"
  unfolding zero_law_def
proof (intro allI impI)
  fix i :: nat
  assume i: "i < 32"
  define o0 where "o0 = (zero_at (Suc i) + (bn256_modulus - zero_at i)) mod bn256_modulus"
  have z: "zero_at i < bn256_modulus" "zero_at (Suc i) < bn256_modulus"
    using i by (simp_all add: zero_at_in_field)
  have "zero_table_host [zero_at i, zero_at i] ''BN254'' 2 5 8 56 [1, 2] get_round_constants_t2 =
      Some [o0, 0]"
    using find_zero_at [OF i] by (simp add: zero_table_host_def o0_def)
  moreover have "unat o0 + unat (zero_at i) < 2 ^ 256"
    using field_sum_fits [OF mod_modulus_less z(1)] by (simp add: o0_def)
  moreover have wrap: "(o0 + zero_at i) mod bn256_modulus = zero_at (Suc i)"
    unfolding o0_def using z by (rule modulus_wrap)
  moreover have "o0 + zero_at i < bn256_modulus \<Longrightarrow> o0 + zero_at i = zero_at (Suc i)"
    using wrap by (simp add: word_less_nat_alt word_unat_eq_iff unat_mod)
  ultimately have "poseidon2_compress zero_table_host (zero_at i) (zero_at i) =
      (Ok (zero_at (Suc i)) :: (u256, unit) result)"
    using z by (simp add: poseidon2_compress_def u256_add_def not_le)
  then show "zero_at (Suc i) = node_hash zero_table_host (zero_at i) (zero_at i)"
    using compress_Ok by metis
qed

end
