(* ===== verification/Merkle_Spec.thy ===== *)
theory Merkle_Spec
  imports Enclave_Prelude
begin

text \<open>
  What an append-only Merkle tree promises, independently of how a contract stores it, and why
  the frontier algorithm shared by the pool and the membership contract keeps the promise.

  \<open>mroot H zs l xs\<close> is the root of the tree of height \<open>l\<close> over the leaves \<open>xs\<close>, an empty
  subtree of height \<open>i\<close> counting as \<open>zs i\<close>.  \<open>full_root\<close> is the textbook root over a full
  list of \<open>2 ^ l\<close> leaves; the two agree on the padded list when \<open>zs\<close> satisfies the zero law.
  \<open>walk\<close> is the loop of the contracts on pure data: one stored left sibling per level.
\<close>

section \<open>Roots\<close>

primrec mroot :: "('a \<Rightarrow> 'a \<Rightarrow> 'a) \<Rightarrow> (nat \<Rightarrow> 'a) \<Rightarrow> nat \<Rightarrow> 'a list \<Rightarrow> 'a" where
  "mroot H zs 0 xs = (case xs of [] \<Rightarrow> zs 0 | x # _ \<Rightarrow> x)"
| "mroot H zs (Suc l) xs =
     (if xs = [] then zs (Suc l)
      else H (mroot H zs l (take (2 ^ l) xs)) (mroot H zs l (drop (2 ^ l) xs)))"

primrec full_root :: "('a \<Rightarrow> 'a \<Rightarrow> 'a) \<Rightarrow> nat \<Rightarrow> 'a list \<Rightarrow> 'a" where
  "full_root H 0 xs = hd xs"
| "full_root H (Suc l) xs =
     H (full_root H l (take (2 ^ l) xs)) (full_root H l (drop (2 ^ l) xs))"

lemma mroot_Nil [simp]: "mroot H zs l [] = zs l"
  by (cases l) auto

lemma full_root_zeros:
  assumes "\<And>i. i < l \<Longrightarrow> zs (Suc i) = H (zs i) (zs i)" and "2 ^ l \<le> n"
  shows "full_root H l (replicate n (zs 0)) = zs l"
  using assms
proof (induction l arbitrary: n)
  case 0
  then show ?case by (cases n) auto
next
  case (Suc l)
  then have "2 ^ l \<le> n" "2 ^ l \<le> n - 2 ^ l" by auto
  with Suc show ?case by simp
qed

text \<open>With the zero law, the root is that of the list padded with the zero leaf.\<close>

lemma mroot_padded:
  assumes "\<And>i. i < l \<Longrightarrow> zs (Suc i) = H (zs i) (zs i)" and "length xs \<le> 2 ^ l"
  shows "mroot H zs l xs = full_root H l (xs @ replicate (2 ^ l - length xs) (zs 0))"
  using assms
proof (induction l arbitrary: xs)
  case 0
  then show ?case by (cases xs) auto
next
  case (Suc l)
  have split: "xs @ replicate (2 ^ Suc l - length xs) (zs 0) =
      (take (2 ^ l) xs @ replicate (2 ^ l - length xs) (zs 0)) @
      (drop (2 ^ l) xs @ replicate (2 ^ l - (length xs - 2 ^ l)) (zs 0))"
  proof (cases "length xs \<le> 2 ^ l")
    case True
    then have len: "2 ^ Suc l - length xs = (2 ^ l - length xs) + 2 ^ l" by simp
    show ?thesis unfolding len replicate_add using True by simp
  next
    case False
    then have "2 ^ Suc l - length xs = 2 ^ l - (length xs - 2 ^ l)" by simp
    with False show ?thesis by (simp flip: append_assoc)
  qed
  show ?case
  proof (cases "xs = []")
    case True
    with Suc.prems(1) show ?thesis by (simp add: full_root_zeros del: full_root.simps)
  next
    case False
    from Suc.prems have len: "length (drop (2 ^ l) xs) \<le> 2 ^ l" by simp
    have "mroot H zs l (take (2 ^ l) xs) =
        full_root H l (take (2 ^ l) xs @ replicate (2 ^ l - length xs) (zs 0))"
      using Suc.IH [of "take (2 ^ l) xs"] Suc.prems(1) by (cases "length xs \<le> 2 ^ l") auto
    moreover have "mroot H zs l (drop (2 ^ l) xs) =
        full_root H l (drop (2 ^ l) xs @ replicate (2 ^ l - (length xs - 2 ^ l)) (zs 0))"
      using Suc.IH [OF _ len] Suc.prems(1) by simp
    ultimately show ?thesis
      unfolding split using False by (simp add: min_def del: append_assoc)
  qed
qed

section \<open>Subtrees of a leaf list\<close>

definition node :: "('a \<Rightarrow> 'a \<Rightarrow> 'a) \<Rightarrow> (nat \<Rightarrow> 'a) \<Rightarrow> nat \<Rightarrow> nat \<Rightarrow> 'a list \<Rightarrow> 'a" where
  "node H zs l k xs = mroot H zs l (take (2 ^ l) (drop (k * 2 ^ l) xs))"

lemma node_beyond [simp]: "length xs \<le> k * 2 ^ l \<Longrightarrow> node H zs l k xs = zs l"
  by (simp add: node_def)

lemma node_Suc:
  assumes "k * 2 ^ Suc l < length xs"
  shows "node H zs (Suc l) k xs = H (node H zs l (2 * k) xs) (node H zs l (Suc (2 * k)) xs)"
proof -
  let ?ys = "drop (k * 2 ^ Suc l) xs"
  have ne: "take (2 ^ Suc l) ?ys \<noteq> []" using assms by simp
  have left: "take (2 ^ l) (take (2 ^ Suc l) ?ys) = take (2 ^ l) (drop (2 * k * 2 ^ l) xs)"
    by (simp add: min_def ac_simps)
  have right: "drop (2 ^ l) (take (2 ^ Suc l) ?ys) = take (2 ^ l) (drop (Suc (2 * k) * 2 ^ l) xs)"
    by (simp add: drop_take ac_simps)
  show ?thesis
    using ne left right by (simp only: node_def mroot.simps if_False)
qed

lemma node_0 [simp]: "k < length xs \<Longrightarrow> node H zs 0 k xs = xs ! k"
  by (simp add: node_def take_Suc hd_drop_conv_nth)

lemma node_prefix: "Suc k * 2 ^ l \<le> length xs \<Longrightarrow> node H zs l k (xs @ ys) = node H zs l k xs"
  by (simp add: node_def)

lemma node_top: "length xs \<le> 2 ^ l \<Longrightarrow> node H zs l 0 xs = mroot H zs l xs"
  by (simp add: node_def)

section \<open>The frontier\<close>

text \<open>
  One level of the update loop: a right child is combined with the stored left sibling, a left
  child is stored and paired with the empty subtree of its height.
\<close>

fun walk_step ::
  "('a \<Rightarrow> 'a \<Rightarrow> 'a) \<Rightarrow> (nat \<Rightarrow> 'a) \<Rightarrow> nat \<Rightarrow> (nat \<Rightarrow> 'a) \<times> 'a \<times> nat \<Rightarrow> (nat \<Rightarrow> 'a) \<times> 'a \<times> nat" where
  "walk_step H zs lvl (filled, cur, idx) =
     (if odd idx then (filled, H (filled lvl) cur, idx div 2)
      else (filled(lvl := cur), H cur (zs lvl), idx div 2))"

definition walk ::
  "('a \<Rightarrow> 'a \<Rightarrow> 'a) \<Rightarrow> (nat \<Rightarrow> 'a) \<Rightarrow> nat list \<Rightarrow> (nat \<Rightarrow> 'a) \<times> 'a \<times> nat \<Rightarrow> (nat \<Rightarrow> 'a) \<times> 'a \<times> nat" where
  "walk H zs lvls s = fold (walk_step H zs) lvls s"

lemma walk_cong:
  assumes "\<And>l. l \<in> set lvls \<Longrightarrow> zs l = zs' l"
  shows "walk H zs lvls = walk H zs' lvls"
  using assms by (auto simp: walk_def fun_eq_iff intro!: fold_cong)

text \<open>
  The frontier invariant for a tree whose leaves sit at level \<open>b\<close>: wherever the next leaf will
  be a right descendant, the stored sibling is the root of the completed left subtree.
\<close>

definition frontier_ok ::
  "('a \<Rightarrow> 'a \<Rightarrow> 'a) \<Rightarrow> (nat \<Rightarrow> 'a) \<Rightarrow> nat \<Rightarrow> nat \<Rightarrow> (nat \<Rightarrow> 'a) \<Rightarrow> 'a list \<Rightarrow> bool" where
  "frontier_ok H zs b h filled xs \<longleftrightarrow>
     (\<forall>l < h. odd (length xs div 2 ^ l) \<longrightarrow>
        filled (b + l) = node H (\<lambda>i. zs (b + i)) l (length xs div 2 ^ l - 1) xs)"

lemma frontier_ok_Nil [simp]: "frontier_ok H zs b h filled []"
  by (simp add: frontier_ok_def)

lemma div_pow_Suc: "(n :: nat) div 2 ^ l div 2 = n div 2 ^ Suc l"
  by (simp only: div_mult2_eq power_Suc2)

text \<open>One step turns the subtree containing the new leaf into its parent.\<close>

lemma walk_step_node:
  fixes xs :: "'a list" and x zs b
  defines "ys \<equiv> xs @ [x]" and "n \<equiv> length xs" and "zb \<equiv> (\<lambda>i. zs (b + i))"
  assumes ok: "odd (n div 2 ^ l) \<Longrightarrow> filled (b + l) = node H zb l (n div 2 ^ l - 1) xs"
    and step: "walk_step H zs (b + l) (filled, node H zb l (n div 2 ^ l) ys, n div 2 ^ l) = (filled', cur', idx')"
  shows "cur' = node H zb (Suc l) (n div 2 ^ Suc l) ys \<and> idx' = n div 2 ^ Suc l \<and>
    filled' = (if odd (n div 2 ^ l) then filled else filled(b + l := node H zb l (n div 2 ^ l) ys))"
proof -
  have inside: "n div 2 ^ Suc l * 2 ^ Suc l < length ys"
    using div_times_less_eq_dividend [of n "2 ^ Suc l"]
    by (simp add: ys_def n_def less_Suc_eq_le del: power_Suc)
  note parent = node_Suc [OF inside]
  show ?thesis
  proof (cases "odd (n div 2 ^ l)")
    case True
    then have k: "n div 2 ^ l = Suc (2 * (n div 2 ^ Suc l))"
      by (metis div_pow_Suc odd_two_times_div_two_succ Suc_eq_plus1)
    then have "Suc (2 * (n div 2 ^ Suc l)) * 2 ^ l \<le> n"
      by (metis div_times_less_eq_dividend)
    then have "node H zb l (2 * (n div 2 ^ Suc l)) ys = node H zb l (2 * (n div 2 ^ Suc l)) xs"
      unfolding ys_def n_def by (intro node_prefix) simp
    with True k ok step parent show ?thesis by (auto simp: div_pow_Suc)
  next
    case False
    then have k: "n div 2 ^ l = 2 * (n div 2 ^ Suc l)"
      by (metis div_pow_Suc dvd_mult_div_cancel)
    have "n < Suc (n div 2 ^ l) * 2 ^ l"
      using dividend_less_div_times [of "2 ^ l" n] by (simp add: add.commute)
    then have "node H zb l (Suc (2 * (n div 2 ^ Suc l))) ys = zs (b + l)"
      unfolding k by (subst node_beyond) (simp_all add: ys_def n_def zb_def)
    with False k step parent show ?thesis by (auto simp: div_pow_Suc)
  qed
qed

text \<open>The whole loop: the root of the extended leaf list, and the invariant again.\<close>

lemma walk_correct:
  fixes xs :: "'a list" and x zs b
  defines "ys \<equiv> xs @ [x]" and "n \<equiv> length xs" and "zb \<equiv> (\<lambda>i. zs (b + i))"
  assumes ok: "frontier_ok H zs b h filled xs"
    and run: "walk H zs (map ((+) b) [j..<h]) (filled, node H zb j (n div 2 ^ j) ys, n div 2 ^ j) = (filled', cur', idx')"
    and "j \<le> h"
  shows "cur' = node H zb h (n div 2 ^ h) ys \<and>
    (\<forall>l. filled' (b + l) = (if j \<le> l \<and> l < h \<and> even (n div 2 ^ l)
        then node H zb l (n div 2 ^ l) ys else filled (b + l)))"
  using ok run \<open>j \<le> h\<close>
proof (induction "h - j" arbitrary: j filled)
  case 0
  then show ?case by (auto simp: walk_def)
next
  case (Suc d)
  then have "j < h" by simp
  define k where "k = n div 2 ^ j"
  define filled1 where "filled1 = (if odd k then filled else filled(b + j := node H zb j k ys))"
  obtain f c i where st: "walk_step H zs (b + j) (filled, node H zb j k ys, k) = (f, c, i)"
    by (metis prod_cases3)
  have "odd k \<Longrightarrow> filled (b + j) = node H zb j (k - 1) xs"
    using Suc.prems(1) \<open>j < h\<close> by (simp add: frontier_ok_def k_def n_def zb_def)
  with st have fci: "c = node H zb (Suc j) (n div 2 ^ Suc j) ys" "i = n div 2 ^ Suc j" "f = filled1"
    using walk_step_node [of xs j filled b H zs x f c i]
    unfolding ys_def n_def zb_def k_def filled1_def by auto
  have run1: "walk H zs (map ((+) b) [Suc j..<h])
      (filled1, node H zb (Suc j) (n div 2 ^ Suc j) ys, n div 2 ^ Suc j) = (filled', cur', idx')"
    using Suc.prems(2) st unfolding walk_def upt_conv_Cons [OF \<open>j < h\<close>] k_def [symmetric]
    by (simp add: fci)
  have ok1: "frontier_ok H zs b h filled1 xs"
    using Suc.prems(1) unfolding frontier_ok_def filled1_def k_def n_def by auto
  from Suc.hyps(1) [OF _ ok1 run1] Suc.hyps(2) \<open>j < h\<close>
  have "cur' = node H zb h (n div 2 ^ h) ys \<and>
    (\<forall>l. filled' (b + l) = (if Suc j \<le> l \<and> l < h \<and> even (n div 2 ^ l)
        then node H zb l (n div 2 ^ l) ys else filled1 (b + l)))" by auto
  then show ?case
    using \<open>j < h\<close> unfolding filled1_def k_def by (auto simp: Suc_le_eq le_less)
qed

lemma frontier_ok_snoc:
  fixes xs :: "'a list" and x zs b
  defines "ys \<equiv> xs @ [x]" and "n \<equiv> length xs" and "zb \<equiv> (\<lambda>i. zs (b + i))"
  assumes ok: "frontier_ok H zs b h filled xs"
    and upd: "\<forall>l. filled' (b + l) = (if l < h \<and> even (n div 2 ^ l)
        then node H zb l (n div 2 ^ l) ys else filled (b + l))"
  shows "frontier_ok H zs b h filled' ys"
  unfolding frontier_ok_def
proof (intro allI impI)
  fix l
  assume "l < h" and odd: "odd (length ys div 2 ^ l)"
  have len: "length ys = Suc n" by (simp add: ys_def n_def)
  show "filled' (b + l) = node H (\<lambda>i. zs (b + i)) l (length ys div 2 ^ l - 1) ys"
  proof (cases "n div 2 ^ l = Suc n div 2 ^ l")
    case True
    with odd len have "odd (n div 2 ^ l)" by simp
    with ok \<open>l < h\<close> have "filled (b + l) = node H zb l (n div 2 ^ l - 1) xs"
      by (simp add: frontier_ok_def n_def zb_def)
    moreover have "Suc (n div 2 ^ l - 1) * 2 ^ l \<le> n"
      using \<open>odd (n div 2 ^ l)\<close> by (simp add: odd_pos)
    then have "node H zb l (n div 2 ^ l - 1) ys = node H zb l (n div 2 ^ l - 1) xs"
      unfolding ys_def n_def by (rule node_prefix)
    ultimately show ?thesis
      using upd \<open>odd (n div 2 ^ l)\<close> True len by (simp add: zb_def)
  next
    case False
    then have "Suc n div 2 ^ l = Suc (n div 2 ^ l)"
      by (simp add: div_Suc split: if_splits)
    with odd len upd \<open>l < h\<close> show ?thesis by (simp add: zb_def)
  qed
qed

text \<open>The loop as a whole, from the leaf level to the root.\<close>

lemma walk_append:
  assumes ok: "frontier_ok H zs b h filled xs" and room: "length xs < 2 ^ h"
    and run: "walk H zs [b..<b + h] (filled, x, length xs) = (filled', cur', idx')"
  shows "cur' = mroot H (\<lambda>i. zs (b + i)) h (xs @ [x]) \<and> frontier_ok H zs b h filled' (xs @ [x])"
proof -
  have "[b..<b + h] = map ((+) b) [0..<h]"
    by (rule nth_equalityI) simp_all
  moreover have "node H (\<lambda>i. zs (b + i)) 0 (length xs) (xs @ [x]) = x" by simp
  ultimately have "cur' = node H (\<lambda>i. zs (b + i)) h (length xs div 2 ^ h) (xs @ [x])
      \<and> (\<forall>l. filled' (b + l) = (if l < h \<and> even (length xs div 2 ^ l)
        then node H (\<lambda>i. zs (b + i)) l (length xs div 2 ^ l) (xs @ [x]) else filled (b + l)))"
    using walk_correct [OF ok, of 0 x filled' cur' idx'] run by simp
  with room ok show ?thesis
    by (auto simp: node_top intro!: frontier_ok_snoc)
qed

section \<open>Leaves inserted in pairs\<close>

fun pair_up :: "('a \<Rightarrow> 'a \<Rightarrow> 'a) \<Rightarrow> 'a list \<Rightarrow> 'a list" where
  "pair_up H (x # y # xs) = H x y # pair_up H xs"
| "pair_up H xs = []"

lemma length_pair_up [simp]: "length (pair_up H xs) = length xs div 2"
  by (induction H xs rule: pair_up.induct) auto

lemma pair_up_append: "even (length xs) \<Longrightarrow> pair_up H (xs @ ys) = pair_up H xs @ pair_up H ys"
  by (induction H xs rule: pair_up.induct) auto

lemma pair_up_take: "pair_up H (take (2 * n) xs) = take n (pair_up H xs)"
  by (induction H xs arbitrary: n rule: pair_up.induct)
    (auto simp: take_Cons split: nat.splits)

lemma pair_up_drop: "pair_up H (drop (2 * n) xs) = drop n (pair_up H xs)"
  by (induction H xs arbitrary: n rule: pair_up.induct)
    (auto simp: drop_Cons split: nat.splits)

lemma mroot_pair_up:
  "even (length xs) \<Longrightarrow> mroot H zs (Suc l) xs = mroot H (\<lambda>i. zs (Suc i)) l (pair_up H xs)"
proof (induction l arbitrary: xs)
  case 0
  then show ?case by (cases "(H, xs)" rule: pair_up.cases) auto
next
  case (Suc l)
  have "even (length (take (2 ^ Suc l) xs))" "even (length (drop (2 ^ Suc l) xs))"
    using Suc.prems by (auto simp: min_def)
  note IH = this [THEN Suc.IH]
  have "(xs = []) = (pair_up H xs = [])"
    using Suc.prems by (cases "(H, xs)" rule: pair_up.cases) auto
  with IH show ?case
    using pair_up_take [of H "2 ^ l" xs] pair_up_drop [of H "2 ^ l" xs]
    by (simp only: mroot.simps(2) [of H zs "Suc l"] mroot.simps(2) [of H "\<lambda>i. zs (Suc i)" l]
        power_Suc)
qed

end
