(* ===== verification/Merkle_Frontier.thy ===== *)
theory Merkle_Frontier
  imports Poseidon2_Hash Merkle_Spec
begin

text \<open>
  The interface between a contract that keeps a Merkle frontier in its storage and the
  specification in \<open>Merkle_Spec\<close>.  A contract provides the body of its path-update loop and
  says how its storage holds the frontier; the locale proves once that running the body over the
  levels is \<open>walk\<close> on the stored frontier, and that the loop cannot fail on reduced data.  The pool
  and the membership contract interpret it on their own loops.
\<close>

locale frontier_loop =
  fixes step :: "permutation \<Rightarrow> nat \<Rightarrow> 's \<times> u256 \<times> u64 \<Rightarrow> ('s \<times> u256 \<times> u64, 'e) result"
    and filled :: "'s \<Rightarrow> nat \<Rightarrow> u256 option"
    and zero :: "'s \<Rightarrow> nat \<Rightarrow> u256 option"
    and frame :: "'s \<Rightarrow> 'f"
  assumes step_right: "odd (unat idx) \<Longrightarrow> filled s l = Some left \<Longrightarrow>
      step P l (s, cur, idx) =
        rbind (poseidon2_compress P left cur) (\<lambda>h. Ok (s, h, drop_bit 1 idx))"
    and step_right_missing: "odd (unat idx) \<Longrightarrow> filled s l = None \<Longrightarrow>
      \<not> is_Ok (step P l (s, cur, idx))"
    and step_left: "even (unat idx) \<Longrightarrow> zero s l = Some z \<Longrightarrow>
      \<exists>s1. step P l (s, cur, idx) =
          rbind (poseidon2_compress P cur z) (\<lambda>h. Ok (s1, h, drop_bit 1 idx)) \<and>
        filled s1 = (filled s)(l \<mapsto> cur) \<and> zero s1 = zero s \<and> frame s1 = frame s"
    and step_left_missing: "even (unat idx) \<Longrightarrow> zero s l = None \<Longrightarrow>
      \<not> is_Ok (step P l (s, cur, idx))"
begin

definition stored :: "'s \<Rightarrow> nat \<Rightarrow> u256" where
  "stored s l = the (filled s l)"

definition zeros :: "'s \<Rightarrow> nat \<Rightarrow> u256" where
  "zeros s l = the (zero s l)"

lemma step_walk:
  assumes "step P l (s, cur, idx) = Ok (s', cur', idx')"
  shows "walk_step (node_hash P) (zeros s) l (stored s, cur, unat idx) = (stored s', cur', unat idx')
    \<and> zero s' = zero s \<and> frame s' = frame s"
proof (cases "odd (unat idx)")
  case True
  with assms step_right_missing [OF True, of s l P cur] obtain left where "filled s l = Some left"
    by (cases "filled s l") auto
  with assms step_right [OF True this, of P cur] True show ?thesis
    by (auto simp: stored_def unat_drop_bit_Suc_0 result_simps dest: compress_Ok)
next
  case False
  with assms step_left_missing [of idx s l P cur] obtain z where "zero s l = Some z"
    by (cases "zero s l") auto
  with step_left [of idx s l z P cur] False obtain s1 where s1:
    "step P l (s, cur, idx) = rbind (poseidon2_compress P cur z) (\<lambda>h. Ok (s1, h, drop_bit 1 idx))"
    "filled s1 = (filled s)(l \<mapsto> cur)" "zero s1 = zero s" "frame s1 = frame s" by auto
  from assms have "poseidon2_compress P cur z = (Ok cur' :: (u256, 'e) result)" and "s' = s1" "idx' = drop_bit 1 idx"
    unfolding s1(1) by (auto simp: result_simps)
  with s1 False \<open>zero s l = Some z\<close> show ?thesis
    by (auto simp: stored_def zeros_def unat_drop_bit_Suc_0 fun_eq_iff dest: compress_Ok)
qed

lemma loop_walk:
  assumes "rfold (step P) lvls (s, cur, idx) = Ok (s', cur', idx')"
  shows "walk (node_hash P) (zeros s) lvls (stored s, cur, unat idx) = (stored s', cur', unat idx')
    \<and> zero s' = zero s \<and> frame s' = frame s"
  using assms
proof (induction lvls arbitrary: s cur idx)
  case Nil
  then show ?case by (simp add: walk_def)
next
  case (Cons l lvls)
  then obtain s1 cur1 idx1 where
    one: "step P l (s, cur, idx) = Ok (s1, cur1, idx1)"
    and rest: "rfold (step P) lvls (s1, cur1, idx1) = Ok (s', cur', idx')"
    by (auto simp: result_simps)
  from step_walk [OF one] have "zeros s1 = zeros s" by (simp add: zeros_def fun_eq_iff)
  with step_walk [OF one] Cons.IH [OF rest] show ?case by (simp add: walk_def)
qed

text \<open>The loop only ever fills siblings in.\<close>

lemma step_dom:
  assumes "step P l (s, cur, idx) = Ok (s', cur', idx')" and "filled s k \<noteq> None"
  shows "filled s' k \<noteq> None"
proof (cases "odd (unat idx)")
  case True
  with assms step_right_missing [OF True, of s l P cur] obtain left where "filled s l = Some left"
    by (cases "filled s l") auto
  with assms step_right [OF True this, of P cur] show ?thesis by (auto simp: result_simps)
next
  case False
  with assms step_left_missing [of idx s l P cur] obtain z where "zero s l = Some z"
    by (cases "zero s l") auto
  with step_left [of idx s l z P cur] False obtain s1 where s1:
    "step P l (s, cur, idx) = rbind (poseidon2_compress P cur z) (\<lambda>h. Ok (s1, h, drop_bit 1 idx))"
    "filled s1 = (filled s)(l \<mapsto> cur)" by auto
  with assms show ?thesis unfolding s1(1) by (auto simp: result_simps)
qed

lemma loop_dom:
  assumes "rfold (step P) lvls (s, cur, idx) = Ok (s', cur', idx')" and "filled s k \<noteq> None"
  shows "filled s' k \<noteq> None"
proof -
  have "filled (fst (s', cur', idx')) k \<noteq> None"
    using assms(1)
  proof (rule rfold_invariant)
    show "filled (fst (s, cur, idx)) k \<noteq> None" using assms(2) by simp
  next
    fix l t t'
    assume "filled (fst t) k \<noteq> None" "step P l t = Ok t'"
    then show "filled (fst t') k \<noteq> None"
      using step_dom [of P l "fst t" "fst (snd t)" "snd (snd t)" "fst t'" "fst (snd t')" "snd (snd t')" k]
      by simp
  qed
  then show ?thesis by simp
qed

text \<open>On reduced data and with a well-behaved host the loop always succeeds.\<close>

definition field_frontier :: "'s \<Rightarrow> nat list \<Rightarrow> bool" where
  "field_frontier s lvls \<longleftrightarrow> (\<forall>l \<in> set lvls.
     (\<exists>x. filled s l = Some x \<and> x < bn256_modulus) \<and> (\<exists>z. zero s l = Some z \<and> z < bn256_modulus))"

lemma step_total:
  assumes "poseidon2_host P" and "field_frontier s lvls" and "l \<in> set lvls" and "cur < bn256_modulus"
  shows "\<exists>s' cur'. step P l (s, cur, idx) = Ok (s', cur', drop_bit 1 idx)
    \<and> field_frontier s' lvls \<and> cur' < bn256_modulus"
proof -
  from assms(2,3) obtain x z where x: "filled s l = Some x" "x < bn256_modulus"
    and z: "zero s l = Some z" "z < bn256_modulus"
    unfolding field_frontier_def by blast
  show ?thesis
  proof (cases "odd (unat idx)")
    case True
    with step_right [OF True x(1), of P cur] assms x(2) show ?thesis
      by (simp add: compress_total_Ok node_hash_in_field)
  next
    case False
    with step_left [OF _ z(1), of idx P cur] obtain s1 where
      "step P l (s, cur, idx) = rbind (poseidon2_compress P cur z) (\<lambda>h. Ok (s1, h, drop_bit 1 idx))"
      "filled s1 = (filled s)(l \<mapsto> cur)" "zero s1 = zero s" by auto
    with assms z(2) show ?thesis
      by (auto simp: field_frontier_def compress_total_Ok node_hash_in_field)
  qed
qed

lemma loop_total:
  assumes "poseidon2_host P" and "field_frontier s all" and "set lvls \<subseteq> set all"
    and "cur < bn256_modulus"
  shows "\<exists>s' cur' idx'. rfold (step P) lvls (s, cur, idx) = Ok (s', cur', idx')
    \<and> field_frontier s' all \<and> cur' < bn256_modulus"
  using assms
proof (induction lvls arbitrary: s cur idx)
  case Nil
  then show ?case by simp
next
  case (Cons l lvls)
  then obtain s1 cur1 where "step P l (s, cur, idx) = Ok (s1, cur1, drop_bit 1 idx)"
    and "field_frontier s1 all" "cur1 < bn256_modulus"
    using step_total [of P s all l cur idx] by auto
  with Cons.IH [of s1 cur1 "drop_bit 1 idx"] Cons.prems show ?case by auto
qed

end

end
