(* ===== verification/Root_History.thy ===== *)
theory Root_History
  imports Enclave_Prelude
begin

text \<open>
  A ring buffer of recent roots as an interface: a provider says how its storage reads the
  current position and the slots, and pushes a root into the next slot.  The laws give the
  contract the pool relies on: a root is found in the ring exactly when it is one of the last
  \<open>size\<close> roots pushed.
\<close>

definition last_n :: "nat \<Rightarrow> 'a list \<Rightarrow> 'a list" where
  "last_n k xs = drop (length xs - k) xs"

lemma length_last_n [simp]: "length (last_n k xs) = min k (length xs)"
  by (simp add: last_n_def)

lemma last_n_all: "length xs \<le> k \<Longrightarrow> last_n k xs = xs"
  by (simp add: last_n_def)

lemma in_set_last_n:
  "x \<in> set (last_n k xs) \<longleftrightarrow> (\<exists>j < length xs. length xs \<le> j + k \<and> xs ! j = x)"
proof
  assume "x \<in> set (last_n k xs)"
  then obtain i where "i < length xs - (length xs - k)" "xs ! (length xs - k + i) = x"
    by (auto simp: in_set_conv_nth last_n_def)
  then show "\<exists>j < length xs. length xs \<le> j + k \<and> xs ! j = x"
    by (intro exI [of _ "length xs - k + i"]) auto
next
  assume "\<exists>j < length xs. length xs \<le> j + k \<and> xs ! j = x"
  then obtain j where j: "j < length xs" "length xs \<le> j + k" "xs ! j = x" by blast
  then show "x \<in> set (last_n k xs)"
    unfolding in_set_conv_nth last_n_def
    by (intro exI [of _ "j - (length xs - k)"]) auto
qed

lemma mod_neq_within:
  assumes "(a :: nat) < b" and "b < a + n"
  shows "a mod n \<noteq> b mod n"
proof
  assume "a mod n = b mod n"
  then have "b mod n = a mod n" by simp
  then have "n dvd b - a" using assms(1) by (subst (asm) mod_eq_dvd_iff_nat) simp_all
  with assms show False by (auto dest: dvd_imp_le)
qed

locale root_ring =
  fixes size :: nat
    and current :: "'s \<Rightarrow> nat option"
    and slot :: "'s \<Rightarrow> nat \<Rightarrow> 'a option"
    and push :: "'a \<Rightarrow> 's \<Rightarrow> 's"
  assumes size_pos: "0 < size"
    and current_push: "current s = Some i \<Longrightarrow> i < size \<Longrightarrow> current (push r s) = Some (Suc i mod size)"
    and slot_push: "current s = Some i \<Longrightarrow> i < size \<Longrightarrow> slot (push r s) = (slot s)(Suc i mod size \<mapsto> r)"
begin

text \<open>\<open>holds s rs\<close>: the ring is what is left after the roots \<open>rs\<close>, oldest first.\<close>

definition holds :: "'s \<Rightarrow> 'a list \<Rightarrow> bool" where
  "holds s rs \<longleftrightarrow> rs \<noteq> [] \<and> current s = Some ((length rs - 1) mod size) \<and>
     (\<forall>j < length rs. length rs \<le> j + size \<longrightarrow> slot s (j mod size) = Some (rs ! j)) \<and>
     (\<forall>i < size. length rs \<le> i \<longrightarrow> slot s i = None)"

lemma holds_push:
  assumes "holds s rs"
  shows "holds (push r s) (rs @ [r])"
proof -
  define n where "n = length rs"
  from assms have n: "0 < n" "current s = Some ((n - 1) mod size)"
    by (auto simp: holds_def n_def)
  have lt: "(n - 1) mod size < size" using size_pos by simp
  have nxt: "Suc ((n - 1) mod size) mod size = n mod size"
    using n(1) by (simp add: mod_Suc_eq)
  have new: "current (push r s) = Some (n mod size)" "slot (push r s) = (slot s)(n mod size \<mapsto> r)"
    using current_push [OF n(2) lt, of r] slot_push [OF n(2) lt, of r] unfolding nxt by simp_all
  have "slot (push r s) (j mod size) = Some ((rs @ [r]) ! j)"
    if "j < Suc n" "Suc n \<le> j + size" for j
  proof (cases "j = n")
    case True
    then show ?thesis by (simp add: new n_def)
  next
    case False
    with that have "j mod size \<noteq> n mod size" by (intro mod_neq_within) simp_all
    with False that assms show ?thesis by (simp add: new holds_def n_def nth_append)
  qed
  moreover have "slot (push r s) i = None" if "i < size" "Suc n \<le> i" for i
    using that assms by (auto simp: new holds_def n_def)
  ultimately show ?thesis using new n(1) by (auto simp: holds_def n_def)
qed

lemma holds_current:
  assumes "holds s rs"
  shows "\<exists>i. current s = Some i \<and> i < size \<and> slot s i = Some (last rs)"
proof -
  let ?i = "(length rs - 1) mod size"
  from assms have "current s = Some ?i" "length rs - 1 < length rs" "rs \<noteq> []"
    by (auto simp: holds_def)
  moreover from this assms size_pos have "slot s ?i = Some (rs ! (length rs - 1))"
    by (simp add: holds_def)
  ultimately show ?thesis using size_pos by (simp add: last_conv_nth)
qed

text \<open>The slots together hold exactly the last \<open>size\<close> roots.\<close>

lemma found_iff:
  assumes "holds s rs"
  shows "(\<exists>i < size. slot s i = Some r) \<longleftrightarrow> r \<in> set (last_n size rs)"
proof
  assume "\<exists>i < size. slot s i = Some r"
  then obtain i where i: "i < size" "slot s i = Some r" by blast
  with assms have "i < length rs" by (metis holds_def not_le option.distinct(1))
  define j where "j = i + size * ((length rs - 1 - i) div size)"
  have "size * ((length rs - 1 - i) div size) \<le> length rs - 1 - i"
    "length rs - 1 - i < size * ((length rs - 1 - i) div size) + size"
    using size_pos by (simp, metis add.commute dividend_less_times_div)
  with \<open>i < length rs\<close> have j: "j < length rs" "length rs \<le> j + size"
    unfolding j_def by linarith+
  have "j mod size = i" using i(1) by (simp add: j_def)
  with j assms i show "r \<in> set (last_n size rs)"
    unfolding in_set_last_n holds_def by (metis option.inject)
next
  assume "r \<in> set (last_n size rs)"
  then obtain j where "j < length rs" "length rs \<le> j + size" "rs ! j = r"
    unfolding in_set_last_n by blast
  with assms size_pos show "\<exists>i < size. slot s i = Some r"
    unfolding holds_def by (metis mod_less_divisor)
qed

end

end
