(* ===== verification/Pool_Merkle.thy ===== *)
theory Pool_Merkle
  imports Merkle_Frontier Root_History
begin

text \<open>
  The pool's commitment tree, \<open>contracts/pool/src/merkle_with_history.rs\<close>: a fixed-depth
  Merkle tree filled two leaves at a time, with a ring buffer of the last 90 roots.  The
  persistent keys of \<open>MerkleDataKey\<close> become record fields; a missing key is \<open>None\<close>.

  \<open>mk_repr\<close> relates a storage to the list of leaves inserted so far: the stored siblings are the
  frontier of the tree over the pair hashes, and the ring is what is left of all past roots.
\<close>

section \<open>Storage and errors\<close>

definition ROOT_HISTORY_SIZE :: u32 where
  "ROOT_HISTORY_SIZE = 90"

datatype mk_error =
  MK_AlreadyInitialized | MK_WrongLevels | MK_MerkleTreeFull | MK_NextIndexNotEven | MK_NotInitialized

record merkle_store =
  mk_levels :: "u32 option"
  mk_current_root_index :: "u32 option"
  mk_next_index :: "u64 option"
  mk_filled_subtree :: "nat \<Rightarrow> u256 option"
  mk_zeroes :: "nat \<Rightarrow> u256 option"
  mk_roots :: "nat \<Rightarrow> u256 option"

definition mk_empty :: merkle_store where
  "mk_empty = \<lparr>mk_levels = None, mk_current_root_index = None, mk_next_index = None,
     mk_filled_subtree = Map.empty, mk_zeroes = Map.empty, mk_roots = Map.empty\<rparr>"

section \<open>Operations\<close>

definition mk_init_level ::
  "u256 list \<Rightarrow> nat \<Rightarrow> merkle_store \<Rightarrow> (merkle_store, mk_error) result" where
  "mk_init_level zeros i st =
     rbind (ok_or (vec_get zeros i) MK_NotInitialized) (\<lambda>z.
     Ok (st\<lparr>mk_filled_subtree := (mk_filled_subtree st)(i \<mapsto> z),
            mk_zeroes := (mk_zeroes st)(i \<mapsto> z)\<rparr>))"

definition mk_init :: "u32 \<Rightarrow> merkle_store \<Rightarrow> (merkle_store, mk_error) result" where
  "mk_init levels st =
     (if levels = 0 \<or> 32 < levels then Err MK_WrongLevels
      else if mk_current_root_index st \<noteq> None then Err MK_AlreadyInitialized
      else
        let st1 = st\<lparr>mk_levels := Some levels\<rparr>;
            zeros = get_zeroes in
        rbind (rfold (mk_init_level zeros) [0..<unat levels + 1] st1) (\<lambda>st2.
        rbind (ok_or (vec_get zeros (unat levels)) MK_NotInitialized) (\<lambda>root_0.
        Ok (st2\<lparr>mk_roots := (mk_roots st2)(0 \<mapsto> root_0),
                mk_current_root_index := Some 0, mk_next_index := Some 0\<rparr>))))"

text \<open>The body of the path loop of \<open>insert_two_leaves\<close>.\<close>

fun mk_insert_step ::
  "permutation \<Rightarrow> nat \<Rightarrow> merkle_store \<times> u256 \<times> u64
     \<Rightarrow> (merkle_store \<times> u256 \<times> u64, mk_error) result" where
  "mk_insert_step P lvl (st, current_hash, current_index) =
     (let is_right = (and current_index 1 = 1) in
      if is_right then
        rbind (ok_or (mk_filled_subtree st lvl) MK_NotInitialized) (\<lambda>left.
        rbind (poseidon2_compress P left current_hash) (\<lambda>h.
        Ok (st, h, drop_bit 1 current_index)))
      else
        let st1 = st\<lparr>mk_filled_subtree := (mk_filled_subtree st)(lvl \<mapsto> current_hash)\<rparr> in
        rbind (ok_or (mk_zeroes st1 lvl) MK_NotInitialized) (\<lambda>zero_val.
        rbind (poseidon2_compress P current_hash zero_val) (\<lambda>h.
        Ok (st1, h, drop_bit 1 current_index))))"

text \<open>Writing the new root at the ring position computed by the caller.\<close>

definition mk_set_root :: "u32 \<Rightarrow> u256 \<Rightarrow> merkle_store \<Rightarrow> merkle_store" where
  "mk_set_root root_index root st =
     st\<lparr>mk_roots := (mk_roots st)(unat root_index \<mapsto> root),
        mk_current_root_index := Some root_index\<rparr>"

definition mk_insert_two_leaves ::
  "permutation \<Rightarrow> u256 \<Rightarrow> u256 \<Rightarrow> merkle_store \<Rightarrow> (merkle_store \<times> u32 \<times> u32, mk_error) result" where
  "mk_insert_two_leaves P leaf_1 leaf_2 st =
     rbind (ok_or (mk_levels st) MK_NotInitialized) (\<lambda>levels.
     rbind (ok_or (mk_next_index st) MK_NotInitialized) (\<lambda>next_index.
     rbind (ok_or (mk_current_root_index st) MK_NotInitialized) (\<lambda>root_index.
     rbind (ok_or (u64_checked_shl 1 levels) MK_WrongLevels) (\<lambda>max_leaves.
     if next_index mod 2 \<noteq> 0 then Err MK_NextIndexNotEven
     else
       rbind (u64_add next_index 2) (\<lambda>next2.
       if max_leaves < next2 then Err MK_MerkleTreeFull
       else
         rbind (poseidon2_compress P leaf_1 leaf_2) (\<lambda>parent.
         rbind (rfold (mk_insert_step P) [1..<unat levels] (st, parent, drop_bit 1 next_index))
           (\<lambda>(st1, current_hash, _).
         rbind (u32_add root_index 1) (\<lambda>ri1.
         let st2 = mk_set_root (ri1 mod ROOT_HISTORY_SIZE) current_hash st1 in
         rbind (u64_add next_index 2) (\<lambda>next2'.
         let st3 = st2\<lparr>mk_next_index := Some next2'\<rparr> in
         rbind (u64_add next_index 1) (\<lambda>next1.
         Ok (st3, ucast next_index, ucast next1)))))))))))"

text \<open>
  The \<open>loop\<close> of \<open>is_known_root\<close>: it may run forever on a storage whose ring position is out of
  range, so it is a partial function; a caller of a loop that does not end runs out of budget.
\<close>

partial_function (option) mk_scan ::
  "(nat \<Rightarrow> u256 option) \<Rightarrow> u256 \<Rightarrow> u32 \<Rightarrow> u32 \<Rightarrow> (bool, mk_error) result option" where
  "mk_scan roots root current_root_index i =
     (if roots (unat i) = Some root then Some (Ok True)
      else if 2 ^ 32 \<le> unat i + 1 then Some Panic
      else
        let i' = (i + 1) mod ROOT_HISTORY_SIZE in
        if i' = current_root_index then Some (Ok False)
        else mk_scan roots root current_root_index i')"

definition mk_is_known_root :: "u256 \<Rightarrow> merkle_store \<Rightarrow> (bool, mk_error) result" where
  "mk_is_known_root root st =
     (if root = 0 then Ok False
      else
        rbind (ok_or (mk_current_root_index st) MK_NotInitialized) (\<lambda>current_root_index.
        case mk_scan (mk_roots st) root current_root_index current_root_index of
          Some r \<Rightarrow> r
        | None \<Rightarrow> Panic))"

definition mk_get_last_root :: "merkle_store \<Rightarrow> (u256, mk_error) result" where
  "mk_get_last_root st =
     rbind (ok_or (mk_current_root_index st) MK_NotInitialized) (\<lambda>current_root_index.
     ok_or (mk_roots st (unat current_root_index)) MK_NotInitialized)"

definition mk_hash_pair :: "permutation \<Rightarrow> u256 \<Rightarrow> u256 \<Rightarrow> (u256, mk_error) result" where
  "mk_hash_pair P left right = poseidon2_compress P left right"

section \<open>The root ring\<close>

definition mk_current :: "merkle_store \<Rightarrow> nat option" where
  "mk_current st = map_option unat (mk_current_root_index st)"

text \<open>The push of \<open>insert_two_leaves\<close>: advance the position modulo the history size, then write.\<close>

definition mk_push :: "u256 \<Rightarrow> merkle_store \<Rightarrow> merkle_store" where
  "mk_push r st =
     (case mk_current_root_index st of
        Some i \<Rightarrow> mk_set_root ((i + 1) mod ROOT_HISTORY_SIZE) r st
      | None \<Rightarrow> st)"

lemma unat_ring_next:
  assumes "unat (i :: u32) < 90"
  shows "unat ((i + 1) mod ROOT_HISTORY_SIZE) = Suc (unat i) mod 90"
  using assms by (simp add: ROOT_HISTORY_SIZE_def unat_mod unat_u32_add)

interpretation mk_ring: root_ring 90 mk_current mk_roots mk_push
proof unfold_locales
  show "(0 :: nat) < 90" by simp
next
  fix s :: merkle_store and i r
  assume "mk_current s = Some i" "i < 90"
  then obtain c where c: "mk_current_root_index s = Some c" "unat c = i" "unat c < 90"
    by (auto simp: mk_current_def)
  then show "mk_current (mk_push r s) = Some (Suc i mod 90)"
    and "mk_roots (mk_push r s) = (mk_roots s)(Suc i mod 90 \<mapsto> r)"
    using unat_ring_next [OF c(3)]
    by (simp_all add: mk_push_def mk_set_root_def mk_current_def)
qed

lemma ex_le_Suc: "(\<exists>k \<le> Suc d. Q k) \<longleftrightarrow> Q 0 \<or> (\<exists>k \<le> d. Q (Suc k))"
  by (metis Suc_le_mono le0 not0_implies_Suc)

text \<open>
  The scan ends from every position inside the ring and reports whether one of the slots from
  \<open>i\<close> up to the position before \<open>current_root_index\<close> holds the root.
\<close>

lemma mk_scan_result:
  assumes "unat i < 90" and "unat cur < 90" and "d = (unat cur + 89 - unat i) mod 90"
  shows "mk_scan roots root cur i =
    Some (Ok (\<exists>k \<le> d. roots ((unat i + k) mod 90) = Some root))"
  using assms
proof (induction d arbitrary: i)
  case 0
  have nxt: "unat ((i + 1) mod ROOT_HISTORY_SIZE) = Suc (unat i) mod 90"
    using 0(1) by (rule unat_ring_next)
  have "Suc (unat i) mod 90 = unat cur"
    using 0 by (cases "unat i = 89") (auto simp: mod_if split: if_splits)
  then have "(i + 1) mod ROOT_HISTORY_SIZE = cur" unfolding nxt [symmetric] by (rule unsigned_word_eqI)
  with 0 show ?case by (subst mk_scan.simps) simp
next
  case (Suc d)
  have nxt: "unat ((i + 1) mod ROOT_HISTORY_SIZE) = Suc (unat i) mod 90"
    using Suc.prems(1) by (rule unat_ring_next)
  have dist: "Suc (unat i) mod 90 \<noteq> unat cur"
    "d = (unat cur + 89 - Suc (unat i) mod 90) mod 90"
    using Suc.prems by (auto simp: mod_if split: if_splits)
  let ?i = "(i + 1) mod ROOT_HISTORY_SIZE"
  from dist(1) have ne: "?i \<noteq> cur" unfolding nxt [symmetric] by auto
  have IH: "mk_scan roots root cur ?i =
      Some (Ok (\<exists>k \<le> d. roots ((Suc (unat i) mod 90 + k) mod 90) = Some root))"
    using Suc.IH [of ?i] Suc.prems dist unfolding nxt by simp
  have shift: "(Suc (unat i) mod 90 + k) mod 90 = (unat i + Suc k) mod 90" for k
    by (simp add: mod_add_left_eq)
  have split: "(\<exists>k \<le> Suc d. roots ((unat i + k) mod 90) = Some root) \<longleftrightarrow>
      roots (unat i) = Some root \<or> (\<exists>k \<le> d. roots ((unat i + Suc k) mod 90) = Some root)"
    using Suc.prems(1) ex_le_Suc [of d "\<lambda>k. roots ((unat i + k) mod 90) = Some root"] by simp
  show ?case
    using Suc.prems(1) ne
    by (subst mk_scan.simps) (simp add: IH shift split Let_def)
qed

lemma ring_positions:
  assumes "c < 90"
  shows "(\<exists>k \<le> 89. P ((c + k) mod 90)) \<longleftrightarrow> (\<exists>i < (90 :: nat). P i)"
proof
  assume "\<exists>i < 90. P i"
  then obtain i where "i < 90" "P i" by blast
  moreover have "(c + (i + 90 - c) mod 90) mod 90 = i"
  proof -
    have "(c + (i + 90 - c) mod 90) mod 90 = (c + (i + 90 - c)) mod 90" by (rule mod_add_right_eq)
    with assms \<open>i < 90\<close> show ?thesis by simp
  qed
  moreover have "(i + 90 - c) mod 90 \<le> 89" using mod_less_divisor [of 90 "i + 90 - c"] by linarith
  ultimately show "\<exists>k \<le> 89. P ((c + k) mod 90)" by metis
next
  assume "\<exists>k \<le> 89. P ((c + k) mod 90)"
  then obtain k where "P ((c + k) mod 90)" by blast
  moreover have "(c + k) mod 90 < 90" by simp
  ultimately show "\<exists>i < 90. P i" by blast
qed

lemma mk_is_known_root_slots:
  assumes "mk_current_root_index st = Some c" and "unat c < 90"
  shows "mk_is_known_root root st = Ok (root \<noteq> 0 \<and> (\<exists>i < 90. mk_roots st i = Some root))"
proof -
  have "mk_scan (mk_roots st) root c c =
      Some (Ok (\<exists>k \<le> 89. mk_roots st ((unat c + k) mod 90) = Some root))"
    using mk_scan_result [OF assms(2,2) refl] by simp
  then show ?thesis
    using assms(1) ring_positions [OF assms(2), of "\<lambda>i. mk_roots st i = Some root"]
    by (simp add: mk_is_known_root_def)
qed

section \<open>The frontier\<close>

definition mk_frame :: "merkle_store \<Rightarrow>
    u32 option \<times> u32 option \<times> u64 option \<times> (nat \<Rightarrow> u256 option)" where
  "mk_frame st = (mk_levels st, mk_current_root_index st, mk_next_index st, mk_roots st)"

interpretation mk_loop: frontier_loop mk_insert_step mk_filled_subtree mk_zeroes mk_frame
proof unfold_locales
  fix idx :: u64 and s :: merkle_store and l z P cur
  assume "even (unat idx)" "mk_zeroes s l = Some z"
  then show "\<exists>s1. mk_insert_step P l (s, cur, idx) =
        rbind (poseidon2_compress P cur z) (\<lambda>h. Ok (s1, h, drop_bit 1 idx)) \<and>
      mk_filled_subtree s1 = (mk_filled_subtree s)(l \<mapsto> cur) \<and> mk_zeroes s1 = mk_zeroes s \<and>
      mk_frame s1 = mk_frame s"
    by (intro exI [of _ "s\<lparr>mk_filled_subtree := (mk_filled_subtree s)(l \<mapsto> cur)\<rparr>"])
      (simp add: and_1_eq_1_iff_odd mk_frame_def)
qed (simp_all add: and_1_eq_1_iff_odd)

section \<open>Abstraction: the inserted leaves\<close>

text \<open>All roots the tree has had, oldest first: the empty tree, then one per inserted pair.\<close>

definition mk_past_roots :: "permutation \<Rightarrow> nat \<Rightarrow> u256 list \<Rightarrow> u256 list" where
  "mk_past_roots P h leaves =
     map (\<lambda>k. mroot (node_hash P) zero_at h (take (2 * k) leaves)) [0..<Suc (length leaves div 2)]"

lemma mk_past_roots_snoc:
  assumes "even (length leaves)"
  shows "mk_past_roots P h (leaves @ [a, b]) =
    mk_past_roots P h leaves @ [mroot (node_hash P) zero_at h (leaves @ [a, b])]"
proof -
  have len: "length (leaves @ [a, b]) div 2 = Suc (length leaves div 2)" by simp
  have full: "2 * (length leaves div 2) = length leaves" using assms by simp
  have "take (2 * k) (leaves @ [a, b]) = take (2 * k) leaves" if "k < Suc (length leaves div 2)" for k
    using that full by (simp add: less_Suc_eq_le)
  moreover have "take (2 * Suc (length leaves div 2)) (leaves @ [a, b]) = leaves @ [a, b]"
    using full by simp
  ultimately show ?thesis
    unfolding mk_past_roots_def len upt_Suc_append [OF le0] by (simp del: upt_Suc)
qed

lemma mk_past_roots_Nil [simp]: "mk_past_roots P h [] = [zero_at h]"
  by (simp add: mk_past_roots_def)

lemma last_mk_past_roots:
  "even (length leaves) \<Longrightarrow> last (mk_past_roots P h leaves) = mroot (node_hash P) zero_at h leaves"
  by (simp add: mk_past_roots_def)

definition mk_repr :: "permutation \<Rightarrow> nat \<Rightarrow> merkle_store \<Rightarrow> u256 list \<Rightarrow> bool" where
  "mk_repr P h st leaves \<longleftrightarrow>
     1 \<le> h \<and> h \<le> 32 \<and>
     mk_levels st = Some (of_nat h) \<and>
     (\<exists>n. mk_next_index st = Some n \<and> unat n = length leaves) \<and>
     even (length leaves) \<and> length leaves \<le> 2 ^ h \<and>
     (\<forall>l \<le> h. mk_zeroes st l = Some (zero_at l)) \<and>
     (\<forall>l \<le> h. mk_filled_subtree st l \<noteq> None) \<and>
     frontier_ok (node_hash P) zero_at 1 (h - 1) (\<lambda>l. the (mk_filled_subtree st l))
       (pair_up (node_hash P) leaves) \<and>
     mk_ring.holds st (mk_past_roots P h leaves)"

definition mk_reduced :: "nat \<Rightarrow> merkle_store \<Rightarrow> bool" where
  "mk_reduced h st \<longleftrightarrow> (\<forall>l < h. \<exists>x. mk_filled_subtree st l = Some x \<and> x < bn256_modulus)"

section \<open>Initialisation\<close>

lemma mk_init_levels:
  assumes "n \<le> length zs"
  shows "rfold (mk_init_level zs) [0..<n] st = Ok (st
    \<lparr>mk_filled_subtree := (\<lambda>l. if l < n then Some (zs ! l) else mk_filled_subtree st l),
     mk_zeroes := (\<lambda>l. if l < n then Some (zs ! l) else mk_zeroes st l)\<rparr>)"
  using assms
  by (induction n)
    (auto simp: rfold_append mk_init_level_def fun_eq_iff less_Suc_eq intro!: merkle_store.equality)

lemma u32_levels_range:
  "1 \<le> (levels :: u32) \<Longrightarrow> levels \<le> 32 \<Longrightarrow> 1 \<le> unat levels \<and> unat levels \<le> 32"
  by (simp add: word_le_nat_alt)

lemma mk_init_Ok:
  assumes "1 \<le> levels" and "levels \<le> 32"
  shows "\<exists>st. mk_init levels mk_empty = Ok st \<and> mk_repr P (unat levels) st [] \<and>
    mk_reduced (unat levels) st"
proof -
  note u32_levels_range [OF assms]
  moreover have "levels \<noteq> 0" "\<not> 32 < levels" using assms by auto
  ultimately have "mk_init levels mk_empty = Ok
    \<lparr>mk_levels = Some levels, mk_current_root_index = Some 0, mk_next_index = Some 0,
     mk_filled_subtree = (\<lambda>l. if l < Suc (unat levels) then Some (get_zeroes ! l) else None),
     mk_zeroes = (\<lambda>l. if l < Suc (unat levels) then Some (get_zeroes ! l) else None),
     mk_roots = [0 \<mapsto> zero_at (unat levels)]\<rparr>"
    by (simp add: mk_init_def mk_init_levels mk_empty_def zero_at_def Let_def
        fun_eq_iff del: upt_Suc)
  with u32_levels_range [OF assms] show ?thesis
    by (simp add: mk_repr_def mk_reduced_def zero_at_def zeroes_in_field mk_ring.holds_def
        mk_current_def)
qed

lemma mk_init_rejects:
  "levels = 0 \<or> 32 < levels \<Longrightarrow> mk_init levels st = Err MK_WrongLevels"
  "1 \<le> levels \<Longrightarrow> levels \<le> 32 \<Longrightarrow> mk_current_root_index st \<noteq> None \<Longrightarrow>
    mk_init levels st = Err MK_AlreadyInitialized"
  by (auto simp: mk_init_def)

section \<open>Insertion of a pair\<close>

lemma mk_insert_OkE:
  assumes "mk_insert_two_leaves P a b st = Ok (st', i1, i2)"
  obtains levels idx ri st1 h k where
    "mk_levels st = Some levels" "mk_next_index st = Some idx" "mk_current_root_index st = Some ri"
    "unat levels < 64" "even (unat idx)" "unat idx + 2 \<le> 2 ^ unat levels" "unat idx + 2 < 2 ^ 64"
    "poseidon2_compress P a b = (Ok (node_hash P a b) :: (u256, mk_error) result)"
    "rfold (mk_insert_step P) [1..<unat levels] (st, node_hash P a b, drop_bit 1 idx) = Ok (st1, h, k)"
    "unat ri + 1 < 2 ^ 32"
    "st' = (mk_set_root ((ri + 1) mod ROOT_HISTORY_SIZE) h st1)\<lparr>mk_next_index := Some (idx + 2)\<rparr>"
    "i1 = ucast idx" "i2 = ucast (idx + 1)"
proof -
  from assms obtain levels idx ri p st1 h k where r:
    "mk_levels st = Some levels" "mk_next_index st = Some idx" "mk_current_root_index st = Some ri"
    "unat levels < 64" "even idx" "unat idx + 2 < 2 ^ 64" "\<not> 2 ^ unat levels < idx + 2"
    "poseidon2_compress P a b = (Ok p :: (u256, mk_error) result)"
    "rfold (mk_insert_step P) [1..<unat levels] (st, p, drop_bit 1 idx) = Ok (st1, h, k)"
    "unat ri + 1 < 2 ^ 32"
    "st' = (mk_set_root ((ri + 1) mod ROOT_HISTORY_SIZE) h st1)\<lparr>mk_next_index := Some (idx + 2)\<rparr>"
    "i1 = ucast idx" "i2 = ucast (idx + 1)"
    by (auto simp: mk_insert_two_leaves_def Let_def u64_checked_shl_def result_simps split: if_splits)
  have "unat (idx + 2) = unat idx + 2" using r(6) by (simp add: unat_u64_add)
  with r(4,7) have "unat idx + 2 \<le> 2 ^ unat levels"
    by (simp add: word_less_nat_alt not_less)
  moreover have "node_hash P a b = p" using r(8) by (rule compress_Ok)
  ultimately show ?thesis using r by (intro that) (simp_all add: even_unat_u64)
qed

lemma mk_ring_holds_cong:
  "mk_current_root_index s' = mk_current_root_index s \<Longrightarrow> mk_roots s' = mk_roots s \<Longrightarrow>
    mk_ring.holds s' rs = mk_ring.holds s rs"
  by (simp add: mk_ring.holds_def mk_current_def)

text \<open>The path loop over a pair, from level 1 to the root.\<close>

lemma mk_pair_loop:
  assumes repr: "mk_repr P h st leaves" and room: "length leaves + 2 \<le> 2 ^ h"
    and idx: "unat idx = length leaves"
    and run: "rfold (mk_insert_step P) [1..<h] (st, node_hash P a b, drop_bit 1 idx) = Ok (st1, r, k)"
  shows "r = mroot (node_hash P) zero_at h (leaves @ [a, b]) \<and>
    frontier_ok (node_hash P) zero_at 1 (h - 1) (mk_loop.stored st1)
      (pair_up (node_hash P) (leaves @ [a, b]))"
proof -
  let ?H = "node_hash P" and ?xs = "pair_up (node_hash P) leaves"
  from repr have h: "1 \<le> h" "[1..<h] = [1..<1 + (h - 1)]" "even (length leaves)"
    by (auto simp: mk_repr_def)
  from mk_loop.loop_walk [OF run]
  have "walk ?H (mk_loop.zeros st) [1..<h] (mk_loop.stored st, ?H a b, length ?xs)
      = (mk_loop.stored st1, r, unat k)"
    by (simp add: idx unat_drop_bit_Suc_0)
  moreover have "walk ?H (mk_loop.zeros st) [1..<h] = walk ?H zero_at [1..<h]"
    using repr by (intro walk_cong) (simp add: mk_repr_def mk_loop.zeros_def)
  ultimately have walk1: "walk ?H zero_at [1..<1 + (h - 1)] (mk_loop.stored st, ?H a b, length ?xs)
      = (mk_loop.stored st1, r, unat k)" using h(2) by simp
  have "(2 :: nat) ^ h = 2 * 2 ^ (h - 1)" using h(1) by (simp flip: power_Suc)
  with room have "length ?xs < 2 ^ (h - 1)" by simp
  moreover have "frontier_ok ?H zero_at 1 (h - 1) (mk_loop.stored st) ?xs"
    using repr by (simp add: mk_repr_def mk_loop.stored_def [abs_def])
  moreover have "?xs @ [?H a b] = pair_up ?H (leaves @ [a, b])"
    using h(3) by (simp add: pair_up_append)
  moreover have "mroot ?H zero_at h (leaves @ [a, b]) =
      mroot ?H (\<lambda>i. zero_at (1 + i)) (h - 1) (pair_up ?H (leaves @ [a, b]))"
    using mroot_pair_up [of "leaves @ [a, b]" ?H zero_at "h - 1"] h by simp
  ultimately show ?thesis using walk_append [OF _ _ walk1] by simp
qed

lemma mk_insert_repr:
  assumes repr: "mk_repr P h st leaves" and ins: "mk_insert_two_leaves P a b st = Ok (st', i1, i2)"
  shows "mk_repr P h st' (leaves @ [a, b]) \<and> unat i1 = length leaves \<and> unat i2 = length leaves + 1"
  using ins
proof (cases rule: mk_insert_OkE)
  case (1 levels idx ri st1 r k)
  from repr have h: "1 \<le> h" "h \<le> 32" "unat levels = h" "unat idx = length leaves"
    "even (length leaves)" using 1(1,2) by (auto simp: mk_repr_def unat_of_nat take_bit_eq_mod)
  with 1(6) have room: "length leaves + 2 \<le> 2 ^ h" by simp
  note new = mk_pair_loop [OF repr room h(4) 1(9) [unfolded h(3)]]
  from mk_loop.loop_walk [OF 1(9)] have same: "mk_zeroes st1 = mk_zeroes st" "mk_frame st1 = mk_frame st"
    by simp_all
  have dom: "\<forall>l \<le> h. mk_filled_subtree st1 l \<noteq> None"
    using repr mk_loop.loop_dom [OF 1(9)] by (auto simp: mk_repr_def)
  have st': "st' = (mk_push r st1)\<lparr>mk_next_index := Some (idx + 2)\<rparr>"
    using 1(3,11) same by (simp add: mk_push_def mk_frame_def)
  have "mk_ring.holds st1 (mk_past_roots P h leaves)"
    using repr same mk_ring_holds_cong [of st1 st] by (simp add: mk_repr_def mk_frame_def)
  then have "mk_ring.holds (mk_push r st1) (mk_past_roots P h (leaves @ [a, b]))"
    using new h(5) by (simp add: mk_past_roots_snoc mk_ring.holds_push)
  then have ring: "mk_ring.holds st' (mk_past_roots P h (leaves @ [a, b]))"
    using mk_ring_holds_cong [of st' "mk_push r st1"] by (simp add: st')
  have next2: "unat (idx + 2) = length leaves + 2" using 1(7) h by (simp add: unat_u64_add)
  have fields: "mk_levels st' = mk_levels st" "mk_zeroes st' = mk_zeroes st"
    "mk_filled_subtree st' = mk_filled_subtree st1" "mk_next_index st' = Some (idx + 2)"
    using 1(11) same by (simp_all add: mk_set_root_def mk_frame_def)
  have "mk_repr P h st' (leaves @ [a, b])"
    using repr fields new dom next2 room ring
    unfolding mk_repr_def mk_loop.stored_def [abs_def] by simp
  moreover have "(2 :: nat) ^ h \<le> 2 ^ 32" using h(2) by (intro power_increasing) simp_all
  with room have "length leaves + 1 < 2 ^ 32" by simp
  then have "unat i1 = length leaves" "unat i2 = length leaves + 1"
    using 1(7,12,13) h(4) by (simp_all add: unsigned_ucast_eq take_bit_eq_mod unat_u64_add)
  ultimately show ?thesis by simp
qed

section \<open>Exact outcomes of an insertion\<close>

lemma mk_insert_full:
  assumes "mk_repr P h st leaves" and "length leaves = 2 ^ h"
  shows "mk_insert_two_leaves P a b st = Err MK_MerkleTreeFull"
proof -
  from assms obtain n ri where n: "mk_next_index st = Some n" "unat n = 2 ^ h" "even (unat n)"
    and ri: "mk_current_root_index st = Some ri"
    and h: "1 \<le> h" "h \<le> 32" "mk_levels st = Some (of_nat h)"
    using mk_ring.holds_current [of st "mk_past_roots P h leaves"]
    by (auto simp: mk_repr_def mk_current_def)
  have lt: "(2 :: nat) ^ h \<le> 2 ^ 32" using h(2) by (intro power_increasing) simp_all
  with n(2) have "unat (n + 2) = 2 ^ h + 2" by (simp add: unat_u64_add)
  moreover have "even n" using n(3) by (simp add: even_unat_u64)
  moreover have "unat (of_nat h :: u32) = h" using h(2) by (simp add: unat_of_nat take_bit_eq_mod)
  ultimately show ?thesis
    using n h ri lt
    by (auto simp: mk_insert_two_leaves_def u64_checked_shl_def u64_add_def word_less_nat_alt
        even_iff_mod_2_eq_zero)
qed

lemma mk_insert_out_of_field:
  assumes "mk_repr P h st leaves" and "length leaves + 2 \<le> 2 ^ h"
    and "bn256_modulus \<le> a \<or> bn256_modulus \<le> b"
  shows "mk_insert_two_leaves P a b st = Panic"
proof -
  from assms obtain n ri where n: "mk_next_index st = Some n" "unat n + 2 \<le> 2 ^ h" "even (unat n)"
    and ri: "mk_current_root_index st = Some ri"
    and h: "1 \<le> h" "h \<le> 32" "mk_levels st = Some (of_nat h)"
    using mk_ring.holds_current [of st "mk_past_roots P h leaves"]
    by (auto simp: mk_repr_def mk_current_def)
  have lt: "(2 :: nat) ^ h \<le> 2 ^ 32" using h(2) by (intro power_increasing) simp_all
  with n(2) have "unat (n + 2) = unat n + 2" by (simp add: unat_u64_add)
  moreover have "even n" using n(3) by (simp add: even_unat_u64)
  moreover have "unat (of_nat h :: u32) = h" using h(2) by (simp add: unat_of_nat take_bit_eq_mod)
  ultimately show ?thesis
    using n h ri lt assms(3)
    by (auto simp: mk_insert_two_leaves_def u64_checked_shl_def u64_add_def word_less_nat_alt
        even_iff_mod_2_eq_zero poseidon2_compress_def)
qed

lemma mk_insert_succeeds:
  assumes host: "poseidon2_host P" and repr: "mk_repr P h st leaves" and red: "mk_reduced h st"
    and room: "length leaves + 2 \<le> 2 ^ h" and a: "a < bn256_modulus" and b: "b < bn256_modulus"
  shows "\<exists>st' i1 i2. mk_insert_two_leaves P a b st = Ok (st', i1, i2) \<and> mk_reduced h st'"
proof -
  from repr obtain n ri where n: "mk_next_index st = Some n" "unat n = length leaves" "even (unat n)"
    and ri: "mk_current_root_index st = Some ri" "unat ri < 90"
    and h: "1 \<le> h" "h \<le> 32" "mk_levels st = Some (of_nat h)"
    using mk_ring.holds_current [of st "mk_past_roots P h leaves"]
    by (auto simp: mk_repr_def mk_current_def)
  have lt: "(2 :: nat) ^ h \<le> 2 ^ 32" using h(2) by (intro power_increasing) simp_all
  with n(2) room have next2: "unat (n + 2) = unat n + 2" by (simp add: unat_u64_add)
  have "even n" using n(3) by (simp add: even_unat_u64)
  have hh: "unat (of_nat h :: u32) = h" using h(2) by (simp add: unat_of_nat take_bit_eq_mod)
  have front: "mk_loop.field_frontier st [0..<h]"
    using repr red by (auto simp: mk_loop.field_frontier_def mk_repr_def mk_reduced_def zero_at_in_field)
  have sub: "set [1..<h] \<subseteq> set [0..<h]" by auto
  from mk_loop.loop_total [OF host front sub, of "node_hash P a b" "drop_bit 1 n"]
  obtain st1 r i where run: "rfold (mk_insert_step P) [1..<h] (st, node_hash P a b, drop_bit 1 n) = Ok (st1, r, i)"
    and front1: "mk_loop.field_frontier st1 [0..<h]" using node_hash_in_field [OF host a b] by blast
  have "mk_reduced h (mk_set_root ri' r st1\<lparr>mk_next_index := x\<rparr>)" for ri' x
    using front1 by (auto simp: mk_loop.field_frontier_def mk_reduced_def mk_set_root_def)
  moreover have "poseidon2_compress P a b = (Ok (node_hash P a b) :: (u256, mk_error) result)"
    by (rule compress_total_Ok [OF host a b])
  moreover have "u64_add n 2 = (Ok (n + 2) :: (u64, mk_error) result)"
    and "u64_add n 1 = (Ok (n + 1) :: (u64, mk_error) result)"
    and "u32_add ri 1 = (Ok (ri + 1) :: (u32, mk_error) result)"
    using n(2) ri(2) room lt by (simp_all add: u64_add_def u32_add_def)
  ultimately show ?thesis
    using n h hh ri run \<open>even n\<close> next2 room
    by (simp add: mk_insert_two_leaves_def u64_checked_shl_def word_less_nat_alt Let_def
        even_iff_mod_2_eq_zero)
qed

section \<open>Queries\<close>

lemma mk_known_root_iff:
  assumes "mk_repr P h st leaves"
  shows "mk_is_known_root root st =
    Ok (root \<noteq> 0 \<and> root \<in> set (last_n 90 (mk_past_roots P h leaves)))"
proof -
  from assms have ring: "mk_ring.holds st (mk_past_roots P h leaves)" by (simp add: mk_repr_def)
  from mk_ring.holds_current [OF this] obtain c where
    "mk_current_root_index st = Some c" "unat c < 90" by (auto simp: mk_current_def)
  from mk_is_known_root_slots [OF this] mk_ring.found_iff [OF ring] show ?thesis by simp
qed

lemma mk_last_root:
  assumes "mk_repr P h st leaves"
  shows "mk_get_last_root st = Ok (mroot (node_hash P) zero_at h leaves)"
proof -
  from assms have ring: "mk_ring.holds st (mk_past_roots P h leaves)" and "even (length leaves)"
    by (simp_all add: mk_repr_def)
  from mk_ring.holds_current [OF this(1)] last_mk_past_roots [OF this(2)] show ?thesis
    by (auto simp: mk_get_last_root_def mk_current_def)
qed

section \<open>Histories\<close>

text \<open>The whole life of a tree: initialisation, then a sequence of inserted pairs.\<close>

definition mk_insert_pair ::
  "permutation \<Rightarrow> u256 \<times> u256 \<Rightarrow> merkle_store \<Rightarrow> (merkle_store, mk_error) result" where
  "mk_insert_pair P pr st =
     rbind (mk_insert_two_leaves P (fst pr) (snd pr) st) (\<lambda>(st', _, _). Ok st')"

definition mk_history ::
  "permutation \<Rightarrow> u32 \<Rightarrow> (u256 \<times> u256) list \<Rightarrow> (merkle_store, mk_error) result" where
  "mk_history P levels prs = rbind (mk_init levels mk_empty) (rfold (mk_insert_pair P) prs)"

definition pair_leaves :: "(u256 \<times> u256) list \<Rightarrow> u256 list" where
  "pair_leaves prs = concat (map (\<lambda>(a, b). [a, b]) prs)"

lemma pair_leaves_simps [simp]:
  "pair_leaves [] = []" "pair_leaves (p # prs) = fst p # snd p # pair_leaves prs"
  "pair_leaves (prs @ prs') = pair_leaves prs @ pair_leaves prs'"
  by (simp_all add: pair_leaves_def split: prod.splits)

lemma length_pair_leaves [simp]: "length (pair_leaves prs) = 2 * length prs"
  by (induction prs) auto

lemma mk_insert_pair_Ok:
  "mk_insert_pair P pr st = Ok st' \<longleftrightarrow> (\<exists>i1 i2. mk_insert_two_leaves P (fst pr) (snd pr) st = Ok (st', i1, i2))"
  by (auto simp: mk_insert_pair_def result_simps)

lemma mk_init_range: "mk_init levels st = Ok st' \<Longrightarrow> 1 \<le> levels \<and> levels \<le> 32"
  by (auto simp: mk_init_def word_le_nat_alt word_less_nat_alt unat_eq_zero split: if_splits)
    (metis Suc_leI neq0_conv unat_eq_zero)

lemma mk_insert_reduced:
  assumes host: "poseidon2_host P" and repr: "mk_repr P h st leaves" and red: "mk_reduced h st"
    and ins: "mk_insert_two_leaves P a b st = Ok (st', i1, i2)"
  shows "mk_reduced h st' \<and> a < bn256_modulus \<and> b < bn256_modulus \<and> length leaves + 2 \<le> 2 ^ h"
proof -
  from repr have "even ((2 :: nat) ^ h)" "even (length leaves)" "length leaves \<le> 2 ^ h"
    by (auto simp: mk_repr_def)
  moreover have "length leaves \<noteq> 2 ^ h" using mk_insert_full [OF repr, of a b] ins by auto
  ultimately have room: "length leaves + 2 \<le> 2 ^ h" by presburger
  with mk_insert_out_of_field [OF repr] ins have ab: "a < bn256_modulus" "b < bn256_modulus"
    by (metis not_le result.distinct(3))+
  from mk_insert_succeeds [OF host repr red room ab] ins room ab show ?thesis by auto
qed

lemma mk_history_snoc:
  "mk_history P levels (prs @ [pr]) = rbind (mk_history P levels prs) (mk_insert_pair P pr)"
  by (cases "mk_init levels mk_empty") (simp_all add: mk_history_def rfold_append)

lemma mk_history_repr:
  "mk_history P levels prs = Ok st \<Longrightarrow> mk_repr P (unat levels) st (pair_leaves prs)"
proof (induction prs arbitrary: st rule: rev_induct)
  case Nil
  then show ?case
    using mk_init_range [of levels mk_empty st] mk_init_Ok [of levels P] by (auto simp: mk_history_def)
next
  case (snoc pr prs)
  from snoc.prems obtain st1 i1 i2 where "mk_history P levels prs = Ok st1"
    "mk_insert_two_leaves P (fst pr) (snd pr) st1 = Ok (st, i1, i2)"
    by (auto simp: mk_history_snoc mk_insert_pair_Ok result_simps)
  with mk_insert_repr [OF snoc.IH] show ?case by simp
qed

lemma mk_history_reduced:
  "poseidon2_host P \<Longrightarrow> mk_history P levels prs = Ok st \<Longrightarrow> mk_reduced (unat levels) st"
proof (induction prs arbitrary: st rule: rev_induct)
  case Nil
  then show ?case
    using mk_init_range [of levels mk_empty st] mk_init_Ok [of levels P] by (auto simp: mk_history_def)
next
  case (snoc pr prs)
  from snoc.prems obtain st1 i1 i2 where one: "mk_history P levels prs = Ok st1"
    "mk_insert_two_leaves P (fst pr) (snd pr) st1 = Ok (st, i1, i2)"
    by (auto simp: mk_history_snoc mk_insert_pair_Ok result_simps)
  with snoc.prems(1) mk_insert_reduced [OF _ mk_history_repr [OF one(1)] _ one(2)] snoc.IH
  show ?case by blast
qed

lemma mk_history_possible:
  assumes "poseidon2_host P" and "1 \<le> levels" "levels \<le> 32"
    and "2 * length prs \<le> 2 ^ unat levels" and "\<forall>x \<in> set (pair_leaves prs). x < bn256_modulus"
  shows "\<exists>st. mk_history P levels prs = Ok st"
  using assms(4,5)
proof (induction prs rule: rev_induct)
  case Nil
  then show ?case using mk_init_Ok [OF assms(2,3), of P] by (auto simp: mk_history_def)
next
  case (snoc pr prs)
  then obtain st where st: "mk_history P levels prs = Ok st" by auto
  from snoc.prems have "fst pr < bn256_modulus" "snd pr < bn256_modulus"
    "length (pair_leaves prs) + 2 \<le> 2 ^ unat levels" by simp_all
  with mk_insert_succeeds [OF assms(1) mk_history_repr [OF st] mk_history_reduced [OF assms(1) st]]
  show ?case by (fastforce simp: mk_history_snoc st mk_insert_pair_Ok)
qed

lemma mk_history_needs:
  assumes "poseidon2_host P" and "mk_history P levels prs = Ok st"
  shows "1 \<le> levels \<and> levels \<le> 32 \<and> 2 * length prs \<le> 2 ^ unat levels \<and>
    (\<forall>x \<in> set (pair_leaves prs). x < bn256_modulus)"
  using assms(2)
proof (induction prs arbitrary: st rule: rev_induct)
  case Nil
  then show ?case using mk_init_range [of levels mk_empty st] by (auto simp: mk_history_def)
next
  case (snoc pr prs)
  from snoc.prems obtain st1 i1 i2 where one: "mk_history P levels prs = Ok st1"
    "mk_insert_two_leaves P (fst pr) (snd pr) st1 = Ok (st, i1, i2)"
    by (auto simp: mk_history_snoc mk_insert_pair_Ok result_simps)
  from mk_insert_reduced [OF assms(1) mk_history_repr [OF one(1)] mk_history_reduced [OF assms(1) one(1)] one(2)]
    snoc.IH [OF one(1)]
  show ?case by auto
qed

text \<open>A scan that starts outside the ring never comes back to its start.\<close>

lemma mk_scan_returns_only_inside:
  assumes "mk_scan roots root cur i = Some r"
  shows "(\<forall>k. roots k \<noteq> Some root) \<longrightarrow> unat i < 2 ^ 32 - 1 \<longrightarrow> unat cur < 90"
proof (rule mk_scan.raw_induct [where P = "\<lambda>roots root cur i r. (\<forall>k. roots k \<noteq> Some root) \<longrightarrow>
      unat i < 2 ^ 32 - 1 \<longrightarrow> unat cur < 90", OF _ assms])
  fix scan :: "(nat \<Rightarrow> u256 option) \<Rightarrow> u256 \<Rightarrow> u32 \<Rightarrow> u32 \<Rightarrow> (bool, mk_error) result option"
    and roots :: "nat \<Rightarrow> u256 option" and root cur i r
  assume IH: "\<And>roots root cur i r. scan roots root cur i = Some r \<Longrightarrow>
      (\<forall>k. roots k \<noteq> Some root) \<longrightarrow> unat i < 2 ^ 32 - 1 \<longrightarrow> unat cur < 90"
    and body: "(if roots (unat i) = Some root then Some (Ok True)
      else if 2 ^ 32 \<le> unat i + 1 then Some Panic
      else
        let i' = (i + 1) mod ROOT_HISTORY_SIZE in
        if i' = cur then Some (Ok False) else scan roots root cur i') = Some r"
  let ?i = "(i + 1) mod ROOT_HISTORY_SIZE"
  have inside: "unat ?i < 90" by (simp add: ROOT_HISTORY_SIZE_def unat_mod)
  show "(\<forall>k. roots k \<noteq> Some root) \<longrightarrow> unat i < 2 ^ 32 - 1 \<longrightarrow> unat cur < 90"
  proof (intro impI)
    assume none: "\<forall>k. roots k \<noteq> Some root" and "unat i < 2 ^ 32 - 1"
    with body have "?i = cur \<or> scan roots root cur ?i = Some r"
      by (auto simp: Let_def split: if_splits)
    then show "unat cur < 90" using inside IH [of roots root cur ?i r] none by auto
  qed
qed

section \<open>Properties\<close>

definition mk_demo :: merkle_store where
  "mk_demo = commit (mk_history zero_table_host 3 [(5, 6), (7, 8)]) mk_empty"

lemma mk_demo_history: "mk_history zero_table_host 3 [(5, 6), (7, 8)] = Ok mk_demo"
proof -
  have "\<exists>st. mk_history zero_table_host 3 [(5, 6), (7, 8)] = Ok st"
    by (rule mk_history_possible [OF zero_table_host_ok]) (simp_all add: word_le_nat_alt word_less_nat_alt)
  then obtain st where st: "mk_history zero_table_host 3 [(5, 6), (7, 8)] = Ok st" by blast
  then have "mk_demo = st" unfolding mk_demo_def st by simp
  with st show ?thesis by simp
qed

text \<open>After any history of the commitment tree that succeeds, the current root is the root of
  the full tree over the inserted leaves in order, padded with the zero leaf.\<close>

theorem mk_root_is_padded_root:
  assumes "mk_history P levels prs = Ok st" and "zero_law P"
  shows "mk_get_last_root st = Ok (full_root (node_hash P) (unat levels)
    (pair_leaves prs @ replicate (2 ^ unat levels - 2 * length prs) (zero_at 0)))"
proof -
  note repr = mk_history_repr [OF assms(1)]
  then have "unat levels \<le> 32" "length (pair_leaves prs) \<le> 2 ^ unat levels"
    unfolding mk_repr_def by blast+
  with assms(2) have "mroot (node_hash P) zero_at (unat levels) (pair_leaves prs) =
      full_root (node_hash P) (unat levels)
        (pair_leaves prs @ replicate (2 ^ unat levels - length (pair_leaves prs)) (zero_at 0))"
    by (intro mroot_padded) (simp_all add: zero_law_def)
  then show ?thesis by (simp add: mk_last_root [OF repr])
qed

theorem mk_root_is_padded_root_witness:
  "mk_get_last_root mk_demo = Ok (full_root (node_hash zero_table_host) 3
    [5, 6, 7, 8, zero_at 0, zero_at 0, zero_at 0, zero_at 0])"
proof -
  have "replicate 4 z = [z, z, z, z]" for z :: u256 by (simp add: numeral_eq_Suc)
  then show ?thesis
    using mk_root_is_padded_root [OF mk_demo_history zero_table_host_law] by simp
qed

text \<open>C22: \<open>is_known_root\<close> accepts exactly the non-zero roots among the last 90 states of the tree
  (its own search loop returning in all of them).\<close>

theorem mk_known_roots:
  assumes "mk_history P levels prs = Ok st"
  shows "mk_is_known_root root st = Ok (root \<noteq> 0 \<and>
    (\<exists>k \<le> length prs. length prs < k + 90 \<and>
      root = mroot (node_hash P) zero_at (unat levels) (pair_leaves (take k prs))))"
proof -
  have "take (2 * k) (pair_leaves prs) = pair_leaves (take k prs)" for k
    by (induction prs arbitrary: k) (auto simp: take_Cons split: nat.splits)
  then have "set (last_n 90 (mk_past_roots P (unat levels) (pair_leaves prs))) =
    {r. \<exists>k \<le> length prs. length prs < k + 90 \<and>
      r = mroot (node_hash P) zero_at (unat levels) (pair_leaves (take k prs))}"
    by (auto simp: set_eq_iff in_set_last_n mk_past_roots_def less_Suc_eq_le Suc_le_eq
        simp del: upt_Suc)
  then show ?thesis
    using mk_known_root_iff [OF mk_history_repr [OF assms]] by simp
qed

theorem mk_known_roots_witness:
  "mk_is_known_root 0 mk_demo = Ok False \<and>
    (let r = mroot (node_hash zero_table_host) zero_at 3 [5, 6] in mk_is_known_root r mk_demo = Ok (r \<noteq> 0))"
proof -
  have "\<exists>k \<le> length [(5 :: u256, 6 :: u256), (7, 8)]. length [(5 :: u256, 6 :: u256), (7, 8)] < k + 90 \<and>
      mroot (node_hash zero_table_host) zero_at 3 [5, 6] =
      mroot (node_hash zero_table_host) zero_at (unat (3 :: u32)) (pair_leaves (take k [(5, 6), (7, 8)]))"
    by (intro exI [of _ 1]) simp
  then show ?thesis
    using mk_known_roots [OF mk_demo_history, of 0]
      mk_known_roots [OF mk_demo_history, of "mroot (node_hash zero_table_host) zero_at 3 [5, 6]"]
    by (simp only: Let_def simp_thms)
qed

text \<open>With a well-behaved hash a history of pairs succeeds exactly when the depth is between 1
  and 32, the pairs fit into the tree, and every leaf is a reduced field element.\<close>

theorem mk_history_succeeds_iff:
  assumes "poseidon2_host P"
  shows "(\<exists>st. mk_history P levels prs = Ok st) \<longleftrightarrow>
    1 \<le> levels \<and> levels \<le> 32 \<and> 2 * length prs \<le> 2 ^ unat levels \<and>
    (\<forall>x \<in> set (pair_leaves prs). x < bn256_modulus)"
  using mk_history_possible [OF assms] mk_history_needs [OF assms] by blast

theorem mk_history_succeeds_iff_witness:
  "\<not> (\<exists>st. mk_history zero_table_host 1 [(5, 6), (7, 8)] = Ok st)"
  using mk_history_succeeds_iff [OF zero_table_host_ok, of 1 "[(5, 6), (7, 8)]"] by simp

text \<open>Every outcome of \<open>insert_two_leaves\<close> on a tree with history: a full tree gives
  \<open>MerkleTreeFull\<close>, an unreduced leaf traps, anything else succeeds and returns the two
  consecutive positions at which the leaves now are.\<close>

theorem mk_insert_outcomes:
  assumes "mk_history P levels prs = Ok st" and "poseidon2_host P"
  shows "if 2 * length prs = 2 ^ unat levels then mk_insert_two_leaves P a b st = Err MK_MerkleTreeFull
    else if bn256_modulus \<le> a \<or> bn256_modulus \<le> b then mk_insert_two_leaves P a b st = Panic
    else \<exists>st' i1 i2. mk_insert_two_leaves P a b st = Ok (st', i1, i2) \<and>
      unat i1 = 2 * length prs \<and> unat i2 = 2 * length prs + 1 \<and>
      mk_history P levels (prs @ [(a, b)]) = Ok st'"
proof (split if_split, intro conjI impI)
  note repr = mk_history_repr [OF assms(1)]
  {
    assume "2 * length prs = 2 ^ unat levels"
    then show "mk_insert_two_leaves P a b st = Err MK_MerkleTreeFull"
      by (intro mk_insert_full [OF repr]) simp
  next
    assume ne: "2 * length prs \<noteq> 2 ^ unat levels"
    have "even ((2 :: nat) ^ unat levels)" "2 * length prs \<le> 2 ^ unat levels"
      using repr by (auto simp: mk_repr_def)
    with ne have room: "length (pair_leaves prs) + 2 \<le> 2 ^ unat levels"
      unfolding length_pair_leaves by presburger
    show "if bn256_modulus \<le> a \<or> bn256_modulus \<le> b then mk_insert_two_leaves P a b st = Panic
      else \<exists>st' i1 i2. mk_insert_two_leaves P a b st = Ok (st', i1, i2) \<and>
        unat i1 = 2 * length prs \<and> unat i2 = 2 * length prs + 1 \<and>
        mk_history P levels (prs @ [(a, b)]) = Ok st'"
    proof (split if_split, intro conjI impI)
      assume "bn256_modulus \<le> a \<or> bn256_modulus \<le> b"
      with repr room show "mk_insert_two_leaves P a b st = Panic" by (rule mk_insert_out_of_field)
    next
      assume "\<not> (bn256_modulus \<le> a \<or> bn256_modulus \<le> b)"
      then have "a < bn256_modulus" "b < bn256_modulus" by (auto simp only: not_le de_Morgan_disj)
      from mk_insert_succeeds [OF assms(2) repr mk_history_reduced [OF assms(2,1)] room this]
      obtain st' i1 i2 where ins: "mk_insert_two_leaves P a b st = Ok (st', i1, i2)" by blast
      have "mk_history P levels (prs @ [(a, b)]) = Ok st'"
        by (simp add: mk_history_snoc assms(1) mk_insert_pair_def ins)
      with ins mk_insert_repr [OF repr ins]
      show "\<exists>st' i1 i2. mk_insert_two_leaves P a b st = Ok (st', i1, i2) \<and>
          unat i1 = 2 * length prs \<and> unat i2 = 2 * length prs + 1 \<and>
          mk_history P levels (prs @ [(a, b)]) = Ok st'"
        by (metis length_pair_leaves)
    qed
  }
qed

theorem mk_insert_outcomes_witness:
  "\<exists>st' i1 i2. mk_insert_two_leaves zero_table_host 9 10 mk_demo = Ok (st', i1, i2) \<and>
    unat i1 = 4 \<and> unat i2 = 5"
proof -
  have "\<not> bn256_modulus \<le> 9" "\<not> bn256_modulus \<le> 10" by (simp_all add: word_le_nat_alt)
  then show ?thesis
    using mk_insert_outcomes [OF mk_demo_history zero_table_host_ok, of 9 10] by auto
qed

text \<open>C40: Termination of the ring search: for a root stored in no slot the loop of
  \<open>is_known_root\<close> returns exactly when the stored position is inside the ring, or is the largest
  \<open>u32\<close>, on which the increment traps; from any other position it runs forever.\<close>

theorem mk_scan_returns_iff:
  assumes "\<forall>k. roots k \<noteq> Some root"
  shows "(\<exists>r. mk_scan roots root cur cur = Some r) \<longleftrightarrow> unat cur < 90 \<or> unat cur = 2 ^ 32 - 1"
proof
  assume "\<exists>r. mk_scan roots root cur cur = Some r"
  then obtain r where "mk_scan roots root cur cur = Some r" by blast
  from mk_scan_returns_only_inside [OF this] assms
  have "unat cur < 2 ^ 32 - 1 \<longrightarrow> unat cur < 90" by blast
  moreover have "unat cur < 2 ^ LENGTH(32)" by (rule unsigned_less)
  ultimately show "unat cur < 90 \<or> unat cur = 2 ^ 32 - 1" by auto
next
  assume "unat cur < 90 \<or> unat cur = 2 ^ 32 - 1"
  then show "\<exists>r. mk_scan roots root cur cur = Some r"
  proof
    assume "unat cur < 90"
    then show ?thesis using mk_scan_result [of cur cur] by auto
  next
    assume "unat cur = 2 ^ 32 - 1"
    then have "mk_scan roots root cur cur = Some Panic"
      using assms by (subst mk_scan.simps) simp
    then show ?thesis by blast
  qed
qed

theorem mk_scan_returns_iff_witness: "mk_scan Map.empty 5 90 90 = None"
  using mk_scan_returns_iff [of Map.empty 5 90] by simp

end
