(* ===== verification/Asp_Membership.thy ===== *)
theory Asp_Membership
  imports Merkle_Frontier
begin

text \<open>
  The ASP membership contract, \<open>contracts/asp-membership/src/lib.rs\<close>: an append-only Merkle
  tree of members, guarded by an administrator.  Storage keys become record fields (an absent
  key is \<open>None\<close>), each entry point a function from the storage to a result.  The published
  \<open>LeafAdded\<close> events are kept in order, which gives the abstraction: the leaves of the tree are
  the leaves of the event log.
\<close>

section \<open>Storage, errors, events\<close>

datatype am_error = AM_NotAuthorized | AM_MerkleTreeFull | AM_WrongLevels | AM_NotInitialized

record leaf_added_event =
  la_leaf :: u256
  la_index :: u64
  la_root :: u256

record asp_membership =
  am_admin :: "address option"
  am_filled_subtrees :: "nat \<Rightarrow> u256 option"
  am_zeroes :: "nat \<Rightarrow> u256 option"
  am_levels :: "u32 option"
  am_next_index :: "u64 option"
  am_root :: "u256 option"
  am_admin_insert_only :: "bool option"
  am_events :: "leaf_added_event list"

definition am_empty :: asp_membership where
  "am_empty = \<lparr>am_admin = None, am_filled_subtrees = Map.empty, am_zeroes = Map.empty,
     am_levels = None, am_next_index = None, am_root = None, am_admin_insert_only = None,
     am_events = []\<rparr>"

section \<open>Entry points\<close>

text \<open>\<open>__constructor\<close>; the loop writes the zero hash of every level.\<close>

definition am_init_level ::
  "u256 list \<Rightarrow> nat \<Rightarrow> asp_membership \<Rightarrow> (asp_membership, am_error) result" where
  "am_init_level zeros lvl st =
     rbind (unwrap (vec_get zeros lvl)) (\<lambda>zero_val.
     Ok (st\<lparr>am_filled_subtrees := (am_filled_subtrees st)(lvl \<mapsto> zero_val),
            am_zeroes := (am_zeroes st)(lvl \<mapsto> zero_val)\<rparr>))"

definition am_constructor ::
  "address \<Rightarrow> u32 \<Rightarrow> asp_membership \<Rightarrow> (asp_membership, am_error) result" where
  "am_constructor admin levels st =
     (if levels = 0 \<or> 32 < levels then Err AM_WrongLevels
      else
        let st1 = st\<lparr>am_admin := Some admin, am_levels := Some levels, am_next_index := Some 0,
                     am_admin_insert_only := Some True\<rparr>;
            zeros = get_zeroes in
        rbind (rfold (am_init_level zeros) [0..<unat levels + 1] st1) (\<lambda>st2.
        rbind (unwrap (vec_get zeros (unat levels))) (\<lambda>root_val.
        Ok (st2\<lparr>am_root := Some root_val\<rparr>))))"

definition am_set_admin :: "address \<Rightarrow> asp_membership \<Rightarrow> asp_membership" where
  "am_set_admin a st = st\<lparr>am_admin := Some a\<rparr>"

definition am_update_admin ::
  "env \<Rightarrow> address \<Rightarrow> asp_membership \<Rightarrow> (asp_membership, am_error) result" where
  "am_update_admin env new_admin st =
     (if am_admin st = None then Err AM_NotInitialized
      else update_admin env am_admin am_set_admin new_admin st)"

definition am_set_admin_insert_only ::
  "env \<Rightarrow> bool \<Rightarrow> asp_membership \<Rightarrow> (asp_membership, am_error) result" where
  "am_set_admin_insert_only env admin_only st =
     rbind (ok_or (am_admin st) AM_NotInitialized) (\<lambda>admin.
     rbind (require_auth env admin) (\<lambda>_.
     Ok (st\<lparr>am_admin_insert_only := Some admin_only\<rparr>)))"

definition am_get_root :: "asp_membership \<Rightarrow> (u256, am_error) result" where
  "am_get_root st = ok_or (am_root st) AM_NotInitialized"

definition am_hash_pair :: "permutation \<Rightarrow> u256 \<Rightarrow> u256 \<Rightarrow> (u256, am_error) result" where
  "am_hash_pair P left right = poseidon2_compress P left right"

text \<open>The body of the path loop of \<open>insert_leaf\<close>, then the operation.\<close>

fun am_insert_step ::
  "permutation \<Rightarrow> nat \<Rightarrow> asp_membership \<times> u256 \<times> u64
     \<Rightarrow> (asp_membership \<times> u256 \<times> u64, am_error) result" where
  "am_insert_step P lvl (st, current_hash, current_index) =
     (let is_right = (and current_index 1 = 1) in
      if is_right then
        rbind (unwrap (am_filled_subtrees st lvl)) (\<lambda>left.
        rbind (poseidon2_compress P left current_hash) (\<lambda>h.
        Ok (st, h, drop_bit 1 current_index)))
      else
        let st1 = st\<lparr>am_filled_subtrees := (am_filled_subtrees st)(lvl \<mapsto> current_hash)\<rparr> in
        rbind (unwrap (am_zeroes st1 lvl)) (\<lambda>zero_val.
        rbind (poseidon2_compress P current_hash zero_val) (\<lambda>h.
        Ok (st1, h, drop_bit 1 current_index))))"

definition am_insert_leaf ::
  "permutation \<Rightarrow> env \<Rightarrow> u256 \<Rightarrow> asp_membership \<Rightarrow> (asp_membership, am_error) result" where
  "am_insert_leaf P env leaf st =
     (let admin_only = (case am_admin_insert_only st of Some b \<Rightarrow> b | None \<Rightarrow> True) in
      rbind (if admin_only then rbind (unwrap (am_admin st)) (require_auth env) else Ok ()) (\<lambda>_.
      rbind (unwrap (am_levels st)) (\<lambda>levels.
      rbind (unwrap (am_next_index st)) (\<lambda>actual_index.
      rbind (unwrap (u64_checked_shl 1 levels)) (\<lambda>capacity.
      if capacity \<le> actual_index then Err AM_MerkleTreeFull
      else
        rbind (rfold (am_insert_step P) [0..<unat levels] (st, leaf, actual_index))
          (\<lambda>(st1, current_hash, _).
        let st2 = st1\<lparr>am_root := Some current_hash\<rparr>;
            st3 = st2\<lparr>am_events := am_events st2 @
              [\<lparr>la_leaf = leaf, la_index = actual_index, la_root = current_hash\<rparr>]\<rparr> in
        rbind (u64_add actual_index 1) (\<lambda>next.
        Ok (st3\<lparr>am_next_index := Some next\<rparr>))))))))"

section \<open>Administration\<close>

interpretation am_slot: admin_slot am_admin am_set_admin
  "\<lambda>st. (am_filled_subtrees st, am_zeroes st, am_levels st, am_next_index st, am_root st,
        am_admin_insert_only st, am_events st)"
  by unfold_locales (simp_all add: am_set_admin_def)

section \<open>The frontier\<close>

definition am_frame :: "asp_membership \<Rightarrow>
    address option \<times> u32 option \<times> u64 option \<times> u256 option \<times> bool option \<times> leaf_added_event list" where
  "am_frame st = (am_admin st, am_levels st, am_next_index st, am_root st,
     am_admin_insert_only st, am_events st)"

interpretation am_loop: frontier_loop am_insert_step am_filled_subtrees am_zeroes am_frame
proof unfold_locales
  fix idx :: u64 and s :: asp_membership and l z P cur
  assume "even (unat idx)" "am_zeroes s l = Some z"
  then show "\<exists>s1. am_insert_step P l (s, cur, idx) =
        rbind (poseidon2_compress P cur z) (\<lambda>h. Ok (s1, h, drop_bit 1 idx)) \<and>
      am_filled_subtrees s1 = (am_filled_subtrees s)(l \<mapsto> cur) \<and> am_zeroes s1 = am_zeroes s \<and>
      am_frame s1 = am_frame s"
    by (intro exI [of _ "s\<lparr>am_filled_subtrees := (am_filled_subtrees s)(l \<mapsto> cur)\<rparr>"])
      (simp add: and_1_eq_1_iff_odd am_frame_def)
qed (simp_all add: and_1_eq_1_iff_odd)

section \<open>Invariant\<close>

definition am_leaves :: "asp_membership \<Rightarrow> u256 list" where
  "am_leaves st = map la_leaf (am_events st)"

text \<open>
  An initialised tree of \<open>h\<close> levels: the next index counts the leaves of the event log, the
  stored root is the root over them, the frontier is complete, and the zero table is in place.
\<close>

definition am_inv :: "permutation \<Rightarrow> nat \<Rightarrow> asp_membership \<Rightarrow> bool" where
  "am_inv P h st \<longleftrightarrow>
     1 \<le> h \<and> h \<le> 32 \<and>
     am_admin st \<noteq> None \<and>
     am_levels st = Some (of_nat h) \<and>
     (\<exists>n. am_next_index st = Some n \<and> unat n = length (am_leaves st)) \<and>
     length (am_leaves st) \<le> 2 ^ h \<and>
     (\<forall>l \<le> h. am_zeroes st l = Some (zero_at l)) \<and>
     (\<forall>l \<le> h. am_filled_subtrees st l \<noteq> None) \<and>
     am_root st = Some (mroot (node_hash P) zero_at h (am_leaves st)) \<and>
     frontier_ok (node_hash P) zero_at 0 h (\<lambda>l. the (am_filled_subtrees st l)) (am_leaves st)"

text \<open>All stored siblings are reduced field elements.\<close>

definition am_reduced :: "nat \<Rightarrow> asp_membership \<Rightarrow> bool" where
  "am_reduced h st \<longleftrightarrow> (\<forall>l < h. \<exists>x. am_filled_subtrees st l = Some x \<and> x < bn256_modulus)"

lemma am_init_levels:
  assumes "n \<le> length zs"
  shows "rfold (am_init_level zs) [0..<n] st = Ok (st
    \<lparr>am_filled_subtrees := (\<lambda>l. if l < n then Some (zs ! l) else am_filled_subtrees st l),
     am_zeroes := (\<lambda>l. if l < n then Some (zs ! l) else am_zeroes st l)\<rparr>)"
  using assms
  by (induction n)
    (auto simp: rfold_append am_init_level_def fun_eq_iff less_Suc_eq intro!: asp_membership.equality)

lemma u32_range:
  assumes "1 \<le> (levels :: u32)" and "levels \<le> 32"
  shows "1 \<le> unat levels \<and> unat levels \<le> 32"
  using assms by (simp add: word_le_nat_alt)

lemma am_constructor_Ok:
  assumes "1 \<le> levels" and "levels \<le> 32"
  shows "\<exists>st. am_constructor admin levels am_empty = Ok st \<and> am_inv P (unat levels) st
    \<and> am_reduced (unat levels) st \<and> am_leaves st = [] \<and> am_admin st = Some admin
    \<and> am_admin_insert_only st = Some True"
proof -
  note u32_range [OF assms]
  moreover have "levels \<noteq> 0" "\<not> 32 < levels" using assms by auto
  ultimately have "am_constructor admin levels am_empty = Ok
    \<lparr>am_admin = Some admin,
     am_filled_subtrees = (\<lambda>l. if l < Suc (unat levels) then Some (get_zeroes ! l) else None),
     am_zeroes = (\<lambda>l. if l < Suc (unat levels) then Some (get_zeroes ! l) else None),
     am_levels = Some levels, am_next_index = Some 0, am_root = Some (zero_at (unat levels)),
     am_admin_insert_only = Some True, am_events = []\<rparr>"
    by (simp add: am_constructor_def am_init_levels am_empty_def zero_at_def Let_def
        fun_eq_iff del: upt_Suc)
  with u32_range [OF assms] show ?thesis
    by (simp add: am_inv_def am_leaves_def am_reduced_def zero_at_def zeroes_in_field)
qed

lemma am_constructor_Err:
  "levels = 0 \<or> 32 < levels \<Longrightarrow> am_constructor admin levels st = Err AM_WrongLevels"
  by (simp add: am_constructor_def)

section \<open>Insertion\<close>

text \<open>What a successful insertion did, field by field.\<close>

lemma am_insert_leaf_OkE:
  assumes "am_insert_leaf P env leaf st = Ok st'"
  obtains levels idx st1 h i where
    "am_levels st = Some levels" "am_next_index st = Some idx" "unat levels < 64"
    "unat idx < 2 ^ unat levels"
    "rfold (am_insert_step P) [0..<unat levels] (st, leaf, idx) = Ok (st1, h, i)"
    "st' = st1\<lparr>am_root := Some h, am_events := am_events st1 @
        [\<lparr>la_leaf = leaf, la_index = idx, la_root = h\<rparr>], am_next_index := Some (idx + 1)\<rparr>"
    "unat idx + 1 < 2 ^ 64"
    "am_admin_insert_only st = Some False \<or> (\<exists>a. am_admin st = Some a \<and> authorized env a)"
  using assms
  by (auto simp: am_insert_leaf_def Let_def u64_checked_shl_def word_le_nat_alt
      not_le result_simps split: if_splits option.splits intro!: that)

lemma am_insert_leaf_inv:
  assumes inv: "am_inv P h st" and ins: "am_insert_leaf P env leaf st = Ok st'"
  shows "am_inv P h st' \<and> am_leaves st' = am_leaves st @ [leaf] \<and> am_admin st' = am_admin st
    \<and> am_admin_insert_only st' = am_admin_insert_only st"
  using ins
proof (cases rule: am_insert_leaf_OkE)
  case (1 levels idx st1 r i)
  from inv have h: "1 \<le> h" "h \<le> 32" "unat levels = h" "unat idx = length (am_leaves st)"
    using 1(1,2) by (auto simp: am_inv_def unat_of_nat take_bit_eq_mod)
  from am_loop.loop_walk [OF 1(5)]
  have run: "walk (node_hash P) (am_loop.zeros st) [0..<0 + h]
      (am_loop.stored st, leaf, length (am_leaves st)) = (am_loop.stored st1, r, unat i)"
    and same: "am_zeroes st1 = am_zeroes st" "am_frame st1 = am_frame st"
    by (simp_all add: h)
  have zs: "walk (node_hash P) (am_loop.zeros st) [0..<0 + h] = walk (node_hash P) zero_at [0..<0 + h]"
    using inv by (intro walk_cong) (simp add: am_inv_def am_loop.zeros_def)
  from inv have "frontier_ok (node_hash P) zero_at 0 h (am_loop.stored st) (am_leaves st)"
    by (simp add: am_inv_def am_loop.stored_def [abs_def])
  from walk_append [OF this _ run [unfolded zs]] 1(4)
  have new: "r = mroot (node_hash P) zero_at h (am_leaves st @ [leaf])"
    "frontier_ok (node_hash P) zero_at 0 h (am_loop.stored st1) (am_leaves st @ [leaf])"
    by (simp_all add: h)
  have dom: "\<forall>l \<le> h. am_filled_subtrees st1 l \<noteq> None"
    using inv am_loop.loop_dom [OF 1(5)] by (auto simp: am_inv_def)
  have "unat (idx + 1) = Suc (unat idx)"
    using 1(7) by (simp add: unat_u64_add)
  then show ?thesis
    using inv 1(2,4,6) same new dom h
    by (auto simp: am_inv_def am_leaves_def am_frame_def am_loop.stored_def [abs_def])
qed

section \<open>Exact outcomes of an insertion\<close>

definition am_permitted :: "env \<Rightarrow> asp_membership \<Rightarrow> bool" where
  "am_permitted env st \<longleftrightarrow>
     am_admin_insert_only st = Some False \<or> (\<exists>a. am_admin st = Some a \<and> authorized env a)"

lemma am_insert_leaf_denied:
  assumes "am_inv P h st" and "\<not> am_permitted env st"
  shows "am_insert_leaf P env leaf st = Panic"
  using assms
  by (auto simp: am_insert_leaf_def am_inv_def am_permitted_def Let_def split: option.splits)

lemma am_insert_leaf_full:
  assumes "am_inv P h st" and "am_permitted env st" and "length (am_leaves st) = 2 ^ h"
  shows "am_insert_leaf P env leaf st = Err AM_MerkleTreeFull"
  using assms
  by (auto simp: am_insert_leaf_def am_inv_def am_permitted_def Let_def u64_checked_shl_def
      word_le_nat_alt unat_of_nat take_bit_eq_mod split: option.splits)

lemma am_insert_leaf_out_of_field:
  assumes "am_inv P h st" and "length (am_leaves st) < 2 ^ h" and "bn256_modulus \<le> leaf"
  shows "am_insert_leaf P env leaf st = Panic"
proof -
  from assms(1) have "1 \<le> h" by (simp add: am_inv_def)
  then have lvls: "[0..<h] = 0 # [1..<h]" by (simp add: upt_conv_Cons)
  have "am_insert_step P 0 (st, leaf, idx) = Panic" for idx
    using assms(1,3)
    by (auto simp: am_inv_def poseidon2_compress_def)
  with assms(1) lvls show ?thesis
    using assms(2)
    by (auto simp: am_insert_leaf_def am_inv_def Let_def u64_checked_shl_def require_auth_def
        word_le_nat_alt unat_of_nat take_bit_eq_mod split: option.splits)
qed

lemma am_insert_leaf_succeeds:
  assumes host: "poseidon2_host P" and inv: "am_inv P h st" and red: "am_reduced h st"
    and perm: "am_permitted env st" and room: "length (am_leaves st) < 2 ^ h"
    and leaf: "leaf < bn256_modulus"
  shows "\<exists>st'. am_insert_leaf P env leaf st = Ok st' \<and> am_reduced h st'"
proof -
  from inv obtain idx where idx: "am_next_index st = Some idx" "unat idx = length (am_leaves st)"
    by (auto simp: am_inv_def)
  from inv have h: "h \<le> 32" "am_levels st = Some (of_nat h)" "unat (of_nat h :: u32) = h"
    by (auto simp: am_inv_def unat_of_nat take_bit_eq_mod)
  have "am_loop.field_frontier st [0..<h]"
    using inv red by (auto simp: am_loop.field_frontier_def am_inv_def am_reduced_def zero_at_in_field)
  from am_loop.loop_total [OF host this subset_refl leaf, of idx]
  obtain st1 r i where run: "rfold (am_insert_step P) [0..<h] (st, leaf, idx) = Ok (st1, r, i)"
    and front: "am_loop.field_frontier st1 [0..<h]" by blast
  have "(2 :: nat) ^ h \<le> 2 ^ 32" using h(1) by (intro power_increasing) simp_all
  with room idx h run perm front show ?thesis
    by (auto simp: am_insert_leaf_def am_permitted_def Let_def u64_checked_shl_def u64_add_def
        word_le_nat_alt am_loop.field_frontier_def am_reduced_def split: option.splits)
qed

section \<open>Reachable states\<close>

text \<open>The calls a deployed membership contract can serve; failing calls change nothing.\<close>

inductive am_step :: "permutation \<Rightarrow> env \<Rightarrow> asp_membership \<Rightarrow> asp_membership \<Rightarrow> bool"
  for P env where
  am_step_insert: "am_insert_leaf P env leaf st = Ok st' \<Longrightarrow> am_step P env st st'"
| am_step_mode: "am_set_admin_insert_only env b st = Ok st' \<Longrightarrow> am_step P env st st'"
| am_step_admin: "am_update_admin env a st = Ok st' \<Longrightarrow> am_step P env st st'"

inductive am_reachable :: "permutation \<Rightarrow> nat \<Rightarrow> asp_membership \<Rightarrow> bool" for P h where
  am_reach_init: "am_constructor admin levels am_empty = Ok st \<Longrightarrow> h = unat levels \<Longrightarrow> am_reachable P h st"
| am_reach_step: "am_reachable P h st \<Longrightarrow> am_step P env st st' \<Longrightarrow> am_reachable P h st'"

lemma am_constructor_levels:
  assumes "am_constructor admin levels st = Ok st'"
  shows "1 \<le> levels \<and> levels \<le> 32"
  using assms by (auto simp: am_constructor_def word_le_nat_alt word_less_nat_alt unat_eq_zero
      split: if_splits) (metis Suc_leI neq0_conv unat_eq_zero)

lemma am_mode_frame:
  assumes "am_set_admin_insert_only env b st = Ok st'"
  shows "st' = st\<lparr>am_admin_insert_only := Some b\<rparr> \<and> (\<exists>a. am_admin st = Some a \<and> authorized env a)"
  using assms by (auto simp: am_set_admin_insert_only_def result_simps)

lemma am_update_admin_frame:
  assumes "am_update_admin env a st = Ok st'"
  shows "st' = st\<lparr>am_admin := Some a\<rparr> \<and> (\<exists>old. am_admin st = Some old \<and> authorized env old)"
  using assms am_slot.handover_iff [of env a st st']
  by (auto simp: am_update_admin_def am_set_admin_def split: if_splits)

lemma am_step_inv: "am_step P env st st' \<Longrightarrow> am_inv P h st \<Longrightarrow> am_inv P h st'"
proof (induction rule: am_step.induct)
  case (am_step_insert leaf st st')
  then show ?case using am_insert_leaf_inv by blast
next
  case (am_step_mode b st st')
  then show ?case using am_mode_frame [OF am_step_mode(1)] by (auto simp: am_inv_def am_leaves_def)
next
  case (am_step_admin a st st')
  then show ?case
    using am_update_admin_frame [OF am_step_admin(1)] by (auto simp: am_inv_def am_leaves_def)
qed

lemma am_reachable_inv: "am_reachable P h st \<Longrightarrow> am_inv P h st"
proof (induction rule: am_reachable.induct)
  case (am_reach_init admin levels st)
  then show ?case
    using am_constructor_Ok [of levels admin P] am_constructor_levels by fastforce
next
  case (am_reach_step st env st')
  then show ?case using am_step_inv by blast
qed

lemma am_insert_leaf_reduced:
  assumes host: "poseidon2_host P" and inv: "am_inv P h st" and red: "am_reduced h st"
    and ins: "am_insert_leaf P env leaf st = Ok st'"
  shows "am_reduced h st'"
proof -
  have "am_permitted env st"
    using am_insert_leaf_denied [OF inv, of env leaf] ins by (cases "am_permitted env st") auto
  moreover have "length (am_leaves st) < 2 ^ h"
    using inv am_insert_leaf_full [OF inv calculation] ins
    by (cases "length (am_leaves st) = 2 ^ h") (auto simp: am_inv_def)
  moreover have "leaf < bn256_modulus"
    using am_insert_leaf_out_of_field [OF inv calculation(2)] ins
    by (cases "bn256_modulus \<le> leaf") (auto simp: not_le)
  ultimately show ?thesis
    using am_insert_leaf_succeeds [OF host inv red] ins by (metis result.inject(1))
qed

lemma am_reachable_reduced: "am_reachable P h st \<Longrightarrow> poseidon2_host P \<Longrightarrow> am_reduced h st"
proof (induction rule: am_reachable.induct)
  case (am_reach_init admin levels st)
  then show ?case
    using am_constructor_Ok [of levels admin P] am_constructor_levels by fastforce
next
  case (am_reach_step st env st')
  from am_reach_step(2) show ?case
  proof (cases rule: am_step.cases)
    case (am_step_insert leaf)
    with am_reach_step show ?thesis
      using am_insert_leaf_reduced am_reachable_inv by blast
  next
    case (am_step_mode b)
    with am_reach_step am_mode_frame show ?thesis by (fastforce simp: am_reduced_def)
  next
    case (am_step_admin a)
    with am_reach_step am_update_admin_frame show ?thesis by (fastforce simp: am_reduced_def)
  qed
qed

text \<open>The event log tells an observer the index of every leaf and the root it led to.\<close>

definition am_log_ok :: "permutation \<Rightarrow> nat \<Rightarrow> asp_membership \<Rightarrow> bool" where
  "am_log_ok P h st \<longleftrightarrow>
     (\<forall>k < length (am_events st).
        unat (la_index (am_events st ! k)) = k \<and>
        la_root (am_events st ! k) = mroot (node_hash P) zero_at h (take (Suc k) (am_leaves st)))"

lemma am_insert_leaf_log:
  assumes inv: "am_inv P h st" and log: "am_log_ok P h st"
    and ins: "am_insert_leaf P env leaf st = Ok st'"
  shows "am_log_ok P h st'"
proof -
  from am_insert_leaf_inv [OF inv ins] have st': "am_inv P h st'" "am_leaves st' = am_leaves st @ [leaf]"
    by simp_all
  from ins obtain idx r where ev: "am_next_index st = Some idx" "am_root st' = Some r"
    "am_events st' = am_events st @ [\<lparr>la_leaf = leaf, la_index = idx, la_root = r\<rparr>]"
  proof (cases rule: am_insert_leaf_OkE)
    case (1 levels idx st1 r i)
    from am_loop.loop_walk [OF 1(5)] have "am_events st1 = am_events st" by (simp add: am_frame_def)
    with 1 that show ?thesis by simp
  qed
  have len: "length (am_leaves st) = length (am_events st)" by (simp add: am_leaves_def)
  with inv ev(1) have "unat idx = length (am_events st)" by (auto simp: am_inv_def)
  moreover have "r = mroot (node_hash P) zero_at h (am_leaves st @ [leaf])"
    using st' ev(2) by (simp add: am_inv_def)
  ultimately show ?thesis
    using log len unfolding am_log_ok_def ev(3) st'(2)
    by (auto simp: nth_append less_Suc_eq)
qed

lemma am_reachable_log: "am_reachable P h st \<Longrightarrow> am_log_ok P h st"
proof (induction rule: am_reachable.induct)
  case (am_reach_init admin levels st)
  then have "am_leaves st = []"
    using am_constructor_Ok [of levels admin P] am_constructor_levels by fastforce
  then show ?case by (simp add: am_log_ok_def am_leaves_def)
next
  case (am_reach_step st env st')
  from am_reach_step(2) show ?case
  proof (cases rule: am_step.cases)
    case (am_step_insert leaf)
    with am_reach_step show ?thesis
      using am_insert_leaf_log am_reachable_inv by blast
  next
    case (am_step_mode b)
    with am_reach_step am_mode_frame show ?thesis by (fastforce simp: am_log_ok_def am_leaves_def)
  next
    case (am_step_admin a)
    with am_reach_step am_update_admin_frame show ?thesis
      by (fastforce simp: am_log_ok_def am_leaves_def)
  qed
qed

section \<open>Properties\<close>

text \<open>A contract of two levels after one insertion, for the concrete applications below.\<close>

definition am_demo_env :: env where
  "am_demo_env = \<lparr>current_contract = 1, authorized = (\<lambda>a. a = 7)\<rparr>"

definition am_demo_result :: "(asp_membership, am_error) result" where
  "am_demo_result = rbind (am_constructor 7 2 am_empty) (am_insert_leaf zero_table_host am_demo_env 5)"

definition am_demo :: asp_membership where
  "am_demo = commit am_demo_result am_empty"

lemma am_demo_init:
  obtains st where "am_constructor 7 2 am_empty = Ok st" "am_inv P 2 st" "am_reduced 2 st"
    "am_leaves st = []" "am_admin st = Some 7" "am_admin_insert_only st = Some True"
  using am_constructor_Ok [of 2 7 P] by (auto simp: word_le_nat_alt)

lemma am_demo_Ok: "am_demo_result = Ok am_demo"
proof -
  obtain st where st: "am_constructor 7 2 am_empty = Ok st" "am_inv zero_table_host 2 st"
    "am_reduced 2 st" "am_leaves st = []" "am_admin st = Some 7"
    by (rule am_demo_init [of zero_table_host])
  then have "am_permitted am_demo_env st" by (simp add: am_permitted_def am_demo_env_def)
  then obtain st' where "am_insert_leaf zero_table_host am_demo_env 5 st = Ok st'"
    using am_insert_leaf_succeeds [OF zero_table_host_ok st(2,3), of am_demo_env 5] st(4)
    by (auto simp: word_less_nat_alt)
  with st(1) have result: "am_demo_result = Ok st'" by (simp add: am_demo_result_def)
  then have "am_demo = st'" unfolding am_demo_def result by simp
  with result show ?thesis by simp
qed

lemma am_demo_reachable: "am_reachable zero_table_host 2 am_demo"
proof -
  obtain st where st: "am_constructor 7 2 am_empty = Ok st" by (rule am_demo_init)
  with am_demo_Ok have "am_insert_leaf zero_table_host am_demo_env 5 st = Ok am_demo"
    by (simp add: am_demo_result_def)
  moreover have "am_reachable zero_table_host 2 st" by (rule am_reach_init [OF st]) simp
  ultimately show ?thesis by (metis am_reach_step am_step_insert)
qed

lemma am_demo_state:
  "am_leaves am_demo = [5]" "am_admin am_demo = Some 7" "am_admin_insert_only am_demo = Some True"
proof -
  obtain st where st: "am_constructor 7 2 am_empty = Ok st" "am_inv zero_table_host 2 st"
    "am_leaves st = []" "am_admin st = Some 7" "am_admin_insert_only st = Some True"
    by (rule am_demo_init [of zero_table_host])
  with am_demo_Ok have "am_insert_leaf zero_table_host am_demo_env 5 st = Ok am_demo"
    by (simp add: am_demo_result_def)
  from am_insert_leaf_inv [OF st(2) this] st
  show "am_leaves am_demo = [5]" "am_admin am_demo = Some 7" "am_admin_insert_only am_demo = Some True"
    by simp_all
qed

text \<open>In every state a membership contract of \<open>h\<close> levels can reach, \<open>get_root\<close> returns the
  root of the full binary tree over the inserted leaves, in insertion order, padded with the zero
  leaf to \<open>2 ^ h\<close> leaves, provided the zero table satisfies the law its comment states.\<close>

theorem am_root_is_padded_root:
  assumes "am_reachable P h st" and "zero_law P"
  shows "am_get_root st = Ok (full_root (node_hash P) h
    (am_leaves st @ replicate (2 ^ h - length (am_leaves st)) (zero_at 0)))"
proof -
  from am_reachable_inv [OF assms(1)] have inv: "h \<le> 32" "length (am_leaves st) \<le> 2 ^ h"
    "am_root st = Some (mroot (node_hash P) zero_at h (am_leaves st))" by (auto simp: am_inv_def)
  moreover have "mroot (node_hash P) zero_at h (am_leaves st) = full_root (node_hash P) h
      (am_leaves st @ replicate (2 ^ h - length (am_leaves st)) (zero_at 0))"
    using inv assms(2) by (intro mroot_padded) (simp_all add: zero_law_def)
  ultimately show ?thesis by (simp add: am_get_root_def)
qed

theorem am_root_is_padded_root_witness:
  "am_get_root am_demo = Ok (full_root (node_hash zero_table_host) 2
    (am_leaves am_demo @ replicate (2 ^ 2 - length (am_leaves am_demo)) (zero_at 0)))"
  by (rule am_root_is_padded_root [OF am_demo_reachable zero_table_host_law])

text \<open>Every outcome of \<open>insert_leaf\<close> in a reachable contract: without permission (the
  administrator's signature, unless the administrator opened insertion) it traps; a full tree gives
  \<open>MerkleTreeFull\<close>; an unreduced leaf traps; otherwise it succeeds, appends exactly this leaf and
  leaves administrator and mode alone.\<close>

theorem am_insert_outcomes:
  assumes "am_reachable P h st" and "poseidon2_host P"
  shows "if \<not> am_permitted env st then am_insert_leaf P env leaf st = Panic
    else if length (am_leaves st) = 2 ^ h then am_insert_leaf P env leaf st = Err AM_MerkleTreeFull
    else if bn256_modulus \<le> leaf then am_insert_leaf P env leaf st = Panic
    else \<exists>st'. am_insert_leaf P env leaf st = Ok st' \<and> am_leaves st' = am_leaves st @ [leaf] \<and>
      am_admin st' = am_admin st \<and> am_admin_insert_only st' = am_admin_insert_only st"
proof -
  note inv = am_reachable_inv [OF assms(1)]
  then have le: "length (am_leaves st) \<le> 2 ^ h" by (simp add: am_inv_def)
  show ?thesis
  proof (split if_split, intro conjI impI)
    assume "\<not> am_permitted env st"
    with inv show "am_insert_leaf P env leaf st = Panic" by (rule am_insert_leaf_denied)
  next
    assume "\<not> \<not> am_permitted env st"
    then have perm: "am_permitted env st" by simp
    show "if length (am_leaves st) = 2 ^ h then am_insert_leaf P env leaf st = Err AM_MerkleTreeFull
      else if bn256_modulus \<le> leaf then am_insert_leaf P env leaf st = Panic
      else \<exists>st'. am_insert_leaf P env leaf st = Ok st' \<and> am_leaves st' = am_leaves st @ [leaf] \<and>
        am_admin st' = am_admin st \<and> am_admin_insert_only st' = am_admin_insert_only st"
    proof (split if_split, intro conjI impI)
      assume "length (am_leaves st) = 2 ^ h"
      with inv perm show "am_insert_leaf P env leaf st = Err AM_MerkleTreeFull"
        by (rule am_insert_leaf_full)
    next
      assume "length (am_leaves st) \<noteq> 2 ^ h"
      with le have room: "length (am_leaves st) < 2 ^ h" by simp
      show "if bn256_modulus \<le> leaf then am_insert_leaf P env leaf st = Panic
        else \<exists>st'. am_insert_leaf P env leaf st = Ok st' \<and> am_leaves st' = am_leaves st @ [leaf] \<and>
          am_admin st' = am_admin st \<and> am_admin_insert_only st' = am_admin_insert_only st"
      proof (split if_split, intro conjI impI)
        assume "bn256_modulus \<le> leaf"
        with inv room show "am_insert_leaf P env leaf st = Panic" by (rule am_insert_leaf_out_of_field)
      next
        assume "\<not> bn256_modulus \<le> leaf"
        then have "leaf < bn256_modulus" by (simp only: not_le)
        with am_insert_leaf_succeeds [OF assms(2) inv am_reachable_reduced [OF assms] perm room]
        obtain st' where ins: "am_insert_leaf P env leaf st = Ok st'" by blast
        with am_insert_leaf_inv [OF inv ins]
        show "\<exists>st'. am_insert_leaf P env leaf st = Ok st' \<and> am_leaves st' = am_leaves st @ [leaf] \<and>
          am_admin st' = am_admin st \<and> am_admin_insert_only st' = am_admin_insert_only st"
          by blast
      qed
    qed
  qed
qed

theorem am_insert_outcomes_witness:
  "\<exists>st'. am_insert_leaf zero_table_host am_demo_env 6 am_demo = Ok st' \<and> am_leaves st' = [5, 6]"
  using am_insert_outcomes [OF am_demo_reachable zero_table_host_ok, of am_demo_env 6]
  by (auto simp: am_demo_state am_permitted_def am_demo_env_def word_le_nat_alt split: if_splits)

text \<open>The event log is a faithful history of every reachable contract: the k-th \<open>LeafAdded\<close>
  event carries index k and the root of the tree over the first k + 1 leaves.\<close>

theorem am_events_replay:
  assumes "am_reachable P h st" and "k < length (am_events st)"
  shows "unat (la_index (am_events st ! k)) = k \<and>
    la_root (am_events st ! k) =
      mroot (node_hash P) zero_at h (map la_leaf (take (Suc k) (am_events st)))"
  using am_reachable_log [OF assms(1)] assms(2)
  by (simp add: am_log_ok_def am_leaves_def take_map)

theorem am_events_replay_witness:
  "unat (la_index (am_events am_demo ! 0)) = 0 \<and>
    la_root (am_events am_demo ! 0) =
      mroot (node_hash zero_table_host) zero_at 2 (map la_leaf (take 1 (am_events am_demo)))"
proof -
  have "length (am_events am_demo) = 1"
    using am_demo_state(1) by (metis am_leaves_def length_map length_Cons list.size(3) One_nat_def)
  then show ?thesis using am_events_replay [OF am_demo_reachable, of 0] by simp
qed

text \<open>Access control: a call without the administrator's authorization changes the contract
  only by inserting a leaf while insertion is open to everybody; administrator, mode and tree depth
  never change in such a call.\<close>

theorem am_only_admin_governs:
  assumes "am_reachable P h st" and "am_step P env st st'"
    and "\<forall>a. am_admin st = Some a \<longrightarrow> \<not> authorized env a"
  shows "am_admin_insert_only st = Some False \<and> am_admin st' = am_admin st \<and>
    am_admin_insert_only st' = am_admin_insert_only st \<and> am_levels st' = am_levels st \<and>
    (\<exists>leaf. am_leaves st' = am_leaves st @ [leaf])"
  using assms(2)
proof (cases rule: am_step.cases)
  case (am_step_insert leaf)
  note inv = am_reachable_inv [OF assms(1)]
  from am_insert_leaf_inv [OF inv am_step_insert] inv
  have "am_admin st' = am_admin st" "am_admin_insert_only st' = am_admin_insert_only st"
    "am_levels st' = am_levels st" "am_leaves st' = am_leaves st @ [leaf]"
    by (auto simp: am_inv_def)
  moreover from am_step_insert assms(3) have "am_admin_insert_only st = Some False"
    by (cases rule: am_insert_leaf_OkE) auto
  ultimately show ?thesis by blast
qed (use assms(3) am_mode_frame am_update_admin_frame in blast)+

theorem am_only_admin_governs_witness:
  "\<exists>st st'. am_reachable zero_table_host 2 st \<and> am_admin st' = am_admin st \<and>
    am_admin_insert_only st' = Some False \<and> (\<exists>leaf. am_leaves st' = am_leaves st @ [leaf])"
proof -
  define st where "st = am_demo\<lparr>am_admin_insert_only := Some False\<rparr>"
  define anon where "anon = \<lparr>current_contract = 1, authorized = (\<lambda>a. False)\<rparr>"
  have "am_set_admin_insert_only am_demo_env False am_demo = Ok st"
    by (simp add: am_set_admin_insert_only_def am_demo_state am_demo_env_def st_def)
  then have reach: "am_reachable zero_table_host 2 st"
    by (rule am_reach_step [OF am_demo_reachable am_step_mode])
  have leaves: "am_leaves st = [5]" using am_demo_state(1) by (simp add: am_leaves_def st_def)
  have "am_permitted anon st" by (simp add: am_permitted_def st_def)
  then obtain st' where "am_insert_leaf zero_table_host anon 6 st = Ok st'"
    using am_insert_leaf_succeeds [OF zero_table_host_ok am_reachable_inv [OF reach]
        am_reachable_reduced [OF reach zero_table_host_ok], of anon 6] leaves
    by (auto simp: word_less_nat_alt)
  from am_only_admin_governs [OF reach am_step_insert [OF this]]
  have "am_admin st' = am_admin st \<and> am_admin_insert_only st' = Some False \<and>
      (\<exists>leaf. am_leaves st' = am_leaves st @ [leaf])"
    by (simp add: anon_def st_def)
  with reach show ?thesis by blast
qed

end
