(* ===== verification/Sparse_Merkle.thy ===== *)
theory Sparse_Merkle
  imports Soroban_Host
begin

text \<open>
  The specification of the sparse Merkle tree: a binary trie over the bits of 256-bit keys, least
  significant bit first, in which a subtree holding a single key is just its leaf.  \<open>canon l t\<close>
  says that \<open>t\<close> is the canonical trie of its entries for the levels from \<open>l\<close> on; a canonical trie
  is determined by its entries, so the root hash is a commitment to the key-value map and not
  to the history of calls.  \<open>s_put\<close> and \<open>s_delete\<close> are insertion or update, and deletion.
\<close>

datatype smt = SE | SL u256 u256 | is_SN: SN smt smt

primrec entries :: "smt \<Rightarrow> u256 \<rightharpoonup> u256" where
  "entries SE = Map.empty"
| "entries (SL k v) = [k \<mapsto> v]"
| "entries (SN a b) = entries a ++ entries b"

primrec keys :: "smt \<Rightarrow> u256 set" where
  "keys SE = {}"
| "keys (SL k v) = {k}"
| "keys (SN a b) = keys a \<union> keys b"

primrec subtrees :: "smt \<Rightarrow> smt set" where
  "subtrees SE = {SE}"
| "subtrees (SL k v) = {SL k v}"
| "subtrees (SN a b) = insert (SN a b) (subtrees a \<union> subtrees b)"

text \<open>Two children that really need a node above them.\<close>

definition branching :: "smt \<Rightarrow> smt \<Rightarrow> bool" where
  "branching a b \<longleftrightarrow> (a = SE \<longrightarrow> is_SN b) \<and> (b = SE \<longrightarrow> is_SN a)"

fun canon :: "nat \<Rightarrow> smt \<Rightarrow> bool" where
  "canon l SE = True"
| "canon l (SL k v) = True"
| "canon l (SN a b) =
     (l < 256 \<and> (\<forall>k \<in> keys a. \<not> bit k l) \<and> (\<forall>k \<in> keys b. bit k l) \<and>
      branching a b \<and> canon (Suc l) a \<and> canon (Suc l) b)"

definition agree :: "nat \<Rightarrow> u256 \<Rightarrow> u256 \<Rightarrow> bool" where
  "agree l k k' \<longleftrightarrow> (\<forall>i < l. bit k i = bit k' i)"

lemma agree_0 [simp]: "agree 0 k k'"
  by (simp add: agree_def)

lemma agree_Suc: "agree (Suc l) k k' \<longleftrightarrow> agree l k k' \<and> bit k l = bit k' l"
  by (auto simp: agree_def less_Suc_eq)

lemma agree_refl [simp]: "agree l k k"
  by (simp add: agree_def)

lemma agree_256: "agree l k k' \<Longrightarrow> k \<noteq> k' \<Longrightarrow> l < 256"
proof (rule ccontr)
  assume "agree l k k'" "\<not> l < 256"
  then have "k = k'" by (intro bit_word_eqI) (simp add: agree_def)
  moreover assume "k \<noteq> k'"
  ultimately show False by simp
qed

lemma keys_entries: "keys t = dom (entries t)"
  by (induction t) (auto split: if_splits)

lemma finite_keys [simp]: "finite (keys t)"
  by (induction t) auto

lemma subtrees_refl [simp]: "t \<in> subtrees t"
  by (cases t) auto

lemma finite_subtrees [simp]: "finite (subtrees t)"
  by (induction t) auto

lemma subtrees_size: "s \<in> subtrees t \<Longrightarrow> size s \<le> size t"
  by (induction t) auto

lemma subtrees_keys: "s \<in> subtrees t \<Longrightarrow> keys s \<subseteq> keys t"
  by (induction t) auto

lemma subtrees_trans: "s \<in> subtrees t \<Longrightarrow> subtrees s \<subseteq> subtrees t"
  by (induction t) auto

lemma keys_nonempty: "canon l t \<Longrightarrow> t \<noteq> SE \<Longrightarrow> keys t \<noteq> {}"
proof (induction t arbitrary: l)
  case (SN a b)
  then show ?case by (cases "a = SE"; cases "b = SE") (auto simp: branching_def)
qed auto

lemma subtree_entry: "canon l t \<Longrightarrow> SL k v \<in> subtrees t \<Longrightarrow> entries t k = Some v"
proof (induction t arbitrary: l)
  case (SN a b)
  show ?case
  proof (cases "SL k v \<in> subtrees b")
    case True
    with SN show ?thesis by (auto simp: map_add_def)
  next
    case False
    with SN.prems(2) have a: "SL k v \<in> subtrees a" by simp
    have "k \<in> keys a" using subtrees_keys [OF a] by simp
    with SN.prems(1) have "k \<notin> keys b" by auto
    with a SN show ?thesis by (auto simp: map_add_def keys_entries domIff)
  qed
qed auto

section \<open>Insertion and update\<close>

text \<open>Two different keys that share the bits below \<open>l\<close>.\<close>

function s_split :: "nat \<Rightarrow> u256 \<Rightarrow> u256 \<Rightarrow> u256 \<Rightarrow> u256 \<Rightarrow> smt" where
  "s_split l k v k' v' =
     (if 256 \<le> l then SE
      else if bit k l = bit k' l then
        (if bit k l then SN SE (s_split (Suc l) k v k' v') else SN (s_split (Suc l) k v k' v') SE)
      else if bit k l then SN (SL k' v') (SL k v) else SN (SL k v) (SL k' v'))"
  by pat_completeness auto
termination by (relation "measure (\<lambda>(l, k, v, k', v'). 256 - l)") auto

declare s_split.simps [simp del]

fun s_put :: "nat \<Rightarrow> u256 \<Rightarrow> u256 \<Rightarrow> smt \<Rightarrow> smt" where
  "s_put l k v SE = SL k v"
| "s_put l k v (SL k' v') = (if k = k' then SL k v else s_split l k v k' v')"
| "s_put l k v (SN a b) =
     (if bit k l then SN a (s_put (Suc l) k v b) else SN (s_put (Suc l) k v a) b)"

lemma s_split_props:
  assumes "k \<noteq> k'" and "agree l k k'"
  shows "canon l (s_split l k v k' v') \<and> is_SN (s_split l k v k' v') \<and>
    entries (s_split l k v k' v') = [k \<mapsto> v, k' \<mapsto> v'] \<and> keys (s_split l k v k' v') = {k, k'}"
  using assms
proof (induction l k v k' v' rule: s_split.induct)
  case (1 l k v k' v')
  from 1(4,3) have l: "l < 256" by (rule agree_256)
  then have nl: "\<not> 256 \<le> l" by simp
  show ?case
  proof (cases "bit k l = bit k' l")
    case True
    with 1(4) have "agree (Suc l) k k'" by (simp add: agree_Suc)
    then have IH: "canon (Suc l) (s_split (Suc l) k v k' v') \<and> is_SN (s_split (Suc l) k v k' v') \<and>
        entries (s_split (Suc l) k v k' v') = [k \<mapsto> v, k' \<mapsto> v'] \<and>
        keys (s_split (Suc l) k v k' v') = {k, k'}"
      using 1(1) [OF nl True _ 1(3)] 1(2) [OF nl True _ 1(3)] by blast
    then show ?thesis
      using l True s_split.simps [of l k v k' v'] by (cases "bit k l") (auto simp: branching_def fun_eq_iff)
  next
    case False
    have "[k' \<mapsto> v', k \<mapsto> v] = [k \<mapsto> v, k' \<mapsto> v']"
      using 1(3) by (rule fun_upd_twist [symmetric])
    with l False show ?thesis
      using s_split.simps [of l k v k' v'] by (cases "bit k l") (auto simp: branching_def)
  qed
qed

lemma s_put_neq_SE: "canon l t \<Longrightarrow> \<forall>k' \<in> keys t. agree l k k' \<Longrightarrow> s_put l k v t \<noteq> SE"
  using s_split_props by (cases t) auto

lemma s_put_props:
  assumes "canon l t" and "\<forall>k' \<in> keys t. agree l k k'"
  shows "canon l (s_put l k v t) \<and> entries (s_put l k v t) = (entries t)(k \<mapsto> v) \<and>
    keys (s_put l k v t) = insert k (keys t) \<and> (is_SN t \<longrightarrow> is_SN (s_put l k v t))"
  using assms
proof (induction l k v t rule: s_put.induct)
  case (2 l k v k' v')
  then show ?case
    using s_split_props [of k k' l v v'] by (auto simp: fun_upd_twist)
next
  case (3 l k v a b)
  have ag: "\<forall>k' \<in> keys (if bit k l then b else a). agree (Suc l) k k'"
    using 3(3,4) by (auto simp: agree_Suc)
  show ?case
  proof (cases "bit k l")
    case True
    with 3 ag have IH: "canon (Suc l) (s_put (Suc l) k v b)"
      "entries (s_put (Suc l) k v b) = (entries b)(k \<mapsto> v)"
      "keys (s_put (Suc l) k v b) = insert k (keys b)" "is_SN b \<longrightarrow> is_SN (s_put (Suc l) k v b)"
      by auto
    moreover have "s_put (Suc l) k v b \<noteq> SE"
      using 3(3) ag True by (intro s_put_neq_SE) auto
    ultimately show ?thesis using 3(3) True by (auto simp: branching_def)
  next
    case False
    with 3 ag have IH: "canon (Suc l) (s_put (Suc l) k v a)"
      "entries (s_put (Suc l) k v a) = (entries a)(k \<mapsto> v)"
      "keys (s_put (Suc l) k v a) = insert k (keys a)" "is_SN a \<longrightarrow> is_SN (s_put (Suc l) k v a)"
      by auto
    moreover have "s_put (Suc l) k v a \<noteq> SE"
      using 3(3) ag False by (intro s_put_neq_SE) auto
    moreover have "k \<notin> dom (entries b)" using 3(3) False by (auto simp flip: keys_entries)
    ultimately show ?thesis
      using 3(3) False by (auto simp: branching_def map_add_upd_left)
  qed
qed auto

section \<open>Deletion\<close>

text \<open>The node above two subtrees, collapsed when a single leaf is left.\<close>

fun collapse :: "smt \<Rightarrow> smt \<Rightarrow> smt" where
  "collapse SE SE = SE"
| "collapse SE (SL k v) = SL k v"
| "collapse (SL k v) SE = SL k v"
| "collapse a b = SN a b"

fun s_delete :: "nat \<Rightarrow> u256 \<Rightarrow> smt \<Rightarrow> smt" where
  "s_delete l k SE = SE"
| "s_delete l k (SL k' v') = (if k = k' then SE else SL k' v')"
| "s_delete l k (SN a b) =
     (if bit k l then collapse a (s_delete (Suc l) k b) else collapse (s_delete (Suc l) k a) b)"

lemma collapse_props:
  "entries (collapse a b) = entries a ++ entries b" "keys (collapse a b) = keys a \<union> keys b"
  by (cases "(a, b)" rule: collapse.cases; simp)+

lemma collapse_canon:
  assumes "l < 256" and "\<forall>k \<in> keys a. \<not> bit k l" and "\<forall>k \<in> keys b. bit k l"
    and "canon (Suc l) a" and "canon (Suc l) b"
  shows "canon l (collapse a b)"
  using assms by (cases "(a, b)" rule: collapse.cases) (auto simp: branching_def)

lemma s_delete_props:
  assumes "canon l t"
  shows "canon l (s_delete l k t) \<and> entries (s_delete l k t) = (entries t)(k := None) \<and>
    keys (s_delete l k t) = keys t - {k}"
  using assms
proof (induction l k t rule: s_delete.induct)
  case (3 l k a b)
  show ?case
  proof (cases "bit k l")
    case True
    with 3 have "k \<notin> dom (entries a)" "k \<notin> keys a" by (auto simp flip: keys_entries)
    with 3 True show ?thesis
      by (auto simp: collapse_props fun_eq_iff map_add_def dom_def split: option.splits
          intro!: collapse_canon)
  next
    case False
    with 3 have "k \<notin> dom (entries b)" "k \<notin> keys b" by (auto simp flip: keys_entries)
    with 3 False show ?thesis
      by (auto simp: collapse_props fun_eq_iff map_add_def dom_def split: option.splits
          intro!: collapse_canon)
  qed
qed auto

section \<open>The canonical trie is determined by its entries\<close>

lemma two_keys:
  assumes "canon l (SN a b)"
  shows "\<exists>k k'. k \<in> keys (SN a b) \<and> k' \<in> keys (SN a b) \<and> k \<noteq> k'"
  using assms
proof (induction "SN a b" arbitrary: l a b rule: measure_induct_rule [of size])
  case (less a b)
  show ?case
  proof (cases "a = SE \<or> b = SE")
    case True
    with less(2) have "(is_SN a \<and> canon (Suc l) a) \<or> (is_SN b \<and> canon (Suc l) b)"
      unfolding canon.simps branching_def by blast
    then obtain c d where cd: "SN c d \<in> {a, b}" "canon (Suc l) (SN c d)"
      unfolding is_SN_def by blast
    then have "size (SN c d) < size (SN a b)" by auto
    from less(1) [OF this cd(2)] obtain k k' where
      "k \<in> keys (SN c d)" "k' \<in> keys (SN c d)" "k \<noteq> k'" by blast
    moreover have "keys (SN c d) \<subseteq> keys (SN a b)" using cd(1) by auto
    ultimately show ?thesis by blast
  next
    case False
    with less(2) have "keys a \<noteq> {}" "keys b \<noteq> {}"
      using keys_nonempty [of "Suc l" a] keys_nonempty [of "Suc l" b] by auto
    then obtain k k' where "k \<in> keys a" "k' \<in> keys b" by blast
    with less(2) show ?thesis by auto
  qed
qed

lemma entries_split:
  assumes "\<forall>k \<in> keys a. \<not> bit k l" and "\<forall>k \<in> keys b. bit k l"
  shows "entries a = (\<lambda>k. if bit k l then None else entries (SN a b) k)"
    and "entries b = (\<lambda>k. if bit k l then entries (SN a b) k else None)"
proof -
  have "entries a k = None" if "bit k l" for k
    using assms(1) that by (auto simp: keys_entries domIff)
  moreover have "entries b k = None" if "\<not> bit k l" for k
    using assms(2) that by (auto simp: keys_entries domIff)
  ultimately show "entries a = (\<lambda>k. if bit k l then None else entries (SN a b) k)"
    and "entries b = (\<lambda>k. if bit k l then entries (SN a b) k else None)"
    by (auto simp: fun_eq_iff map_add_def split: option.splits)
qed

lemma canon_unique:
  "canon l t \<Longrightarrow> canon l u \<Longrightarrow> entries t = entries u \<Longrightarrow> t = u"
proof (induction t arbitrary: l u)
  case SE
  then have "keys u = {}" by (simp add: keys_entries)
  with SE keys_nonempty show ?case by blast
next
  case (SL k v)
  have ku: "keys u = {k}" using SL(3) unfolding keys_entries SL(3) [symmetric] by (auto split: if_splits)
  show ?case
  proof (cases u)
    case (SN a b)
    with SL(2) have "canon l (SN a b)" by simp
    from two_keys [OF this, unfolded ku [unfolded SN]] have False by blast
    then show ?thesis by blast
  qed (use SL(3) in \<open>auto simp: fun_eq_iff split: if_splits\<close>)
next
  case (SN a b)
  have ku: "keys u = keys (SN a b)" using SN.prems(3) by (simp add: keys_entries)
  with two_keys [OF SN.prems(1)] obtain k k' where "k \<in> keys u" "k' \<in> keys u" "k \<noteq> k'"
    by metis
  then obtain c d where u: "u = SN c d" by (cases u) auto
  have ab: "\<forall>k \<in> keys a. \<not> bit k l" "\<forall>k \<in> keys b. bit k l"
    and cd: "\<forall>k \<in> keys c. \<not> bit k l" "\<forall>k \<in> keys d. bit k l"
    using SN.prems(1,2) u by auto
  have e: "entries (SN a b) = entries (SN c d)" using SN.prems(3) u by (simp only:)
  have "entries a = entries c" "entries b = entries d"
    using entries_split [OF ab] entries_split [OF cd] unfolding e by simp_all
  with SN u show ?case by auto
qed

end
