(* ===== verification/Smt_Storage.thy ===== *)
theory Smt_Storage
  imports Sparse_Merkle
begin

text \<open>
  The sparse tree as a database of nodes: every non-empty subtree is stored under its hash, a leaf
  as \<open>[1, key, value]\<close> and an inner node as its two child hashes.  An update of the tree is a
  sequence of writes and removals of nodes (\<open>smt_op\<close>); \<open>put_ops\<close>, \<open>upd_ops\<close> and \<open>del_run\<close> are
  the sequences the implementation issues for insertion, update and deletion, in its order.

  The locale \<open>node_db\<close> is the interface of such a database (get, put, remove); its lemmas show
  that the sequences turn a database that holds the old tree into one that holds the new tree,
  as long as the hashes of the trees involved do not collide.
\<close>

section \<open>Hashing a tree\<close>

primrec smt_hash :: "(u256 \<Rightarrow> u256 \<Rightarrow> u256) \<Rightarrow> (u256 \<Rightarrow> u256 \<Rightarrow> u256) \<Rightarrow> smt \<Rightarrow> u256" where
  "smt_hash hl hn SE = 0"
| "smt_hash hl hn (SL k v) = hl k v"
| "smt_hash hl hn (SN a b) = hn (smt_hash hl hn a) (smt_hash hl hn b)"

primrec smt_data :: "(u256 \<Rightarrow> u256 \<Rightarrow> u256) \<Rightarrow> (u256 \<Rightarrow> u256 \<Rightarrow> u256) \<Rightarrow> smt \<Rightarrow> u256 list" where
  "smt_data hl hn SE = []"
| "smt_data hl hn (SL k v) = [1, k, v]"
| "smt_data hl hn (SN a b) = [smt_hash hl hn a, smt_hash hl hn b]"

text \<open>No two of the trees share a hash, and none but the empty tree has hash zero.\<close>

definition collision_free :: "(u256 \<Rightarrow> u256 \<Rightarrow> u256) \<Rightarrow> (u256 \<Rightarrow> u256 \<Rightarrow> u256) \<Rightarrow> smt set \<Rightarrow> bool" where
  "collision_free hl hn S \<longleftrightarrow> inj_on (smt_hash hl hn) (insert SE S)"

lemma collision_freeD:
  "collision_free hl hn S \<Longrightarrow> x \<in> S \<Longrightarrow> y \<in> S \<Longrightarrow> smt_hash hl hn x = smt_hash hl hn y \<Longrightarrow> x = y"
  by (auto simp: collision_free_def inj_on_def)

lemma collision_free_nonzero:
  "collision_free hl hn S \<Longrightarrow> x \<in> S \<Longrightarrow> smt_hash hl hn x = 0 \<longleftrightarrow> x = SE"
  by (auto simp: collision_free_def inj_on_def)

lemma collision_free_subset: "collision_free hl hn S \<Longrightarrow> T \<subseteq> S \<Longrightarrow> collision_free hl hn T"
  unfolding collision_free_def by (erule inj_on_subset) blast

section \<open>Operation sequences\<close>

datatype smt_op = Put smt | Del smt

definition puts :: "smt_op list \<Rightarrow> smt set" where
  "puts ops = {t. Put t \<in> set ops}"

definition dels :: "smt_op list \<Rightarrow> smt set" where
  "dels ops = {t. Del t \<in> set ops}"

lemma puts_simps [simp]:
  "puts [] = {}" "puts (Put t # ops) = insert t (puts ops)" "puts (Del t # ops) = puts ops"
  "puts (ops @ ops') = puts ops \<union> puts ops'"
  by (auto simp: puts_def)

lemma dels_simps [simp]:
  "dels [] = {}" "dels (Put t # ops) = dels ops" "dels (Del t # ops) = insert t (dels ops)"
  "dels (ops @ ops') = dels ops \<union> dels ops'"
  by (auto simp: dels_def)

function split_ops :: "nat \<Rightarrow> u256 \<Rightarrow> u256 \<Rightarrow> u256 \<Rightarrow> u256 \<Rightarrow> smt_op list" where
  "split_ops l k v k' v' =
     (if 256 \<le> l then []
      else if bit k l = bit k' l then split_ops (Suc l) k v k' v' @ [Put (s_split l k v k' v')]
      else [Put (s_split l k v k' v')])"
  by pat_completeness auto
termination by (relation "measure (\<lambda>(l, k, v, k', v'). 256 - l)") auto

declare split_ops.simps [simp del]

text \<open>Insertion of a new key: per level the old node goes and the new one comes.\<close>

fun put_ops :: "nat \<Rightarrow> u256 \<Rightarrow> u256 \<Rightarrow> smt \<Rightarrow> smt_op list" where
  "put_ops l k v SE = [Put (SL k v)]"
| "put_ops l k v (SL k' v') = Put (SL k v) # split_ops l k v k' v'"
| "put_ops l k v (SN a b) =
     (if bit k l then put_ops (Suc l) k v b @ [Del (SN a b), Put (SN a (s_put (Suc l) k v b))]
      else put_ops (Suc l) k v a @ [Del (SN a b), Put (SN (s_put (Suc l) k v a) b)])"

text \<open>Update of an existing key: per level the new node comes and the old one goes.\<close>

fun upd_ops :: "nat \<Rightarrow> u256 \<Rightarrow> u256 \<Rightarrow> smt \<Rightarrow> smt_op list" where
  "upd_ops l k v SE = []"
| "upd_ops l k v (SL k' v') = [Put (SL k v), Del (SL k' v')]"
| "upd_ops l k v (SN a b) =
     (if bit k l then upd_ops (Suc l) k v b @ [Put (SN a (s_put (Suc l) k v b)), Del (SN a b)]
      else upd_ops (Suc l) k v a @ [Put (SN (s_put (Suc l) k v a) b), Del (SN a b)])"

text \<open>
  Deletion: the sequence, the tree whose hash the implementation takes for the old node (it skips
  the level of a promoted sibling leaf), the new tree, and whether a new node is already due.
\<close>

definition join :: "bool \<Rightarrow> smt \<Rightarrow> smt \<Rightarrow> smt" where
  "join right child sib = (if right then SN sib child else SN child sib)"

fun del_run :: "nat \<Rightarrow> u256 \<Rightarrow> smt \<Rightarrow> smt_op list \<times> smt \<times> smt \<times> bool" where
  "del_run l k (SN a b) =
     (let right = bit k l; child = (if right then b else a); sib = (if right then a else b);
          (ops, old, new, mixed) = (if right then del_run (Suc l) k b else del_run (Suc l) k a)
      in
      if \<not> is_SN child \<and> \<not> is_SN sib then (ops, old, sib, False)
      else
        let old' = join right old sib; mixed' = (mixed \<or> sib \<noteq> SE) in
        if mixed' then (ops @ [Del old', Put (join right new sib)], old', join right new sib, True)
        else (ops @ [Del old'], old', new, False))"
| "del_run l k t = ([Del t], t, SE, False)"

section \<open>The database interface\<close>

locale node_db =
  fixes db_get :: "'s \<Rightarrow> u256 \<Rightarrow> u256 list option"
    and db_put :: "u256 \<Rightarrow> u256 list \<Rightarrow> 's \<Rightarrow> 's"
    and db_del :: "u256 \<Rightarrow> 's \<Rightarrow> 's"
  assumes get_put: "db_get (db_put h d s) = (db_get s)(h \<mapsto> d)"
    and get_del: "db_get (db_del h s) = (db_get s)(h := None)"
begin

primrec apply_op :: "(u256 \<Rightarrow> u256 \<Rightarrow> u256) \<Rightarrow> (u256 \<Rightarrow> u256 \<Rightarrow> u256) \<Rightarrow> smt_op \<Rightarrow> 's \<Rightarrow> 's" where
  "apply_op hl hn (Put t) s = db_put (smt_hash hl hn t) (smt_data hl hn t) s"
| "apply_op hl hn (Del t) s = db_del (smt_hash hl hn t) s"

definition run_ops :: "(u256 \<Rightarrow> u256 \<Rightarrow> u256) \<Rightarrow> (u256 \<Rightarrow> u256 \<Rightarrow> u256) \<Rightarrow> smt_op list \<Rightarrow> 's \<Rightarrow> 's" where
  "run_ops hl hn ops s = fold (apply_op hl hn) ops s"

definition holds :: "(u256 \<Rightarrow> u256 \<Rightarrow> u256) \<Rightarrow> (u256 \<Rightarrow> u256 \<Rightarrow> u256) \<Rightarrow> smt \<Rightarrow> 's \<Rightarrow> bool" where
  "holds hl hn t s \<longleftrightarrow>
     (\<forall>x \<in> subtrees t. x \<noteq> SE \<longrightarrow> db_get s (smt_hash hl hn x) = Some (smt_data hl hn x))"

text \<open>Nothing else is stored: no stale node is left behind.\<close>

definition holds_only :: "(u256 \<Rightarrow> u256 \<Rightarrow> u256) \<Rightarrow> (u256 \<Rightarrow> u256 \<Rightarrow> u256) \<Rightarrow> smt \<Rightarrow> 's \<Rightarrow> bool" where
  "holds_only hl hn t s \<longleftrightarrow>
     (\<forall>h. db_get s h \<noteq> None \<longrightarrow> h \<in> smt_hash hl hn ` (subtrees t - {SE}))"

lemma run_ops_simps [simp]:
  "run_ops hl hn [] s = s"
  "run_ops hl hn (ops @ ops') s = run_ops hl hn ops' (run_ops hl hn ops s)"
  "run_ops hl hn (op # ops) s = run_ops hl hn ops (apply_op hl hn op s)"
  by (simp_all add: run_ops_def)

lemma run_ops_other:
  "h \<notin> smt_hash hl hn ` (puts ops \<union> dels ops) \<Longrightarrow> db_get (run_ops hl hn ops s) h = db_get s h"
proof (induction ops arbitrary: s)
  case (Cons op ops)
  then show ?case by (cases op) (auto simp: get_put get_del)
qed simp

lemma run_ops_deleted:
  assumes "t \<in> dels ops" and "smt_hash hl hn t \<notin> smt_hash hl hn ` puts ops"
  shows "db_get (run_ops hl hn ops s) (smt_hash hl hn t) = None"
  using assms
proof (induction ops rule: rev_induct)
  case (snoc op ops)
  then show ?case by (cases op) (auto simp: get_put get_del)
qed simp

lemma run_ops_written:
  assumes "t \<in> puts ops" and "smt_hash hl hn t \<notin> smt_hash hl hn ` dels ops"
    and "\<forall>u \<in> puts ops. smt_hash hl hn u = smt_hash hl hn t \<longrightarrow> u = t"
  shows "db_get (run_ops hl hn ops s) (smt_hash hl hn t) = Some (smt_data hl hn t)"
  using assms
proof (induction ops rule: rev_induct)
  case (snoc op ops)
  then show ?case by (cases op) (auto simp: get_put get_del)
qed simp

lemma holds_run_ops:
  assumes "holds hl hn t s" and free: "collision_free hl hn (subtrees t \<union> subtrees t' \<union> dels ops)"
    and disj: "puts ops \<inter> dels ops = {}" and "puts ops \<subseteq> subtrees t'"
    and covered: "subtrees t' - {SE} \<subseteq> puts ops \<union> (subtrees t - dels ops)"
  shows "holds hl hn t' (run_ops hl hn ops s)"
  unfolding holds_def
proof (intro ballI impI)
  fix x
  assume x: "x \<in> subtrees t'" "x \<noteq> SE"
  have inj: "\<And>u w. u \<in> subtrees t' \<union> subtrees t \<union> dels ops \<Longrightarrow> w \<in> subtrees t' \<union> subtrees t \<union> dels ops \<Longrightarrow>
      smt_hash hl hn u = smt_hash hl hn w \<Longrightarrow> u = w"
    using collision_freeD [OF free] by auto
  show "db_get (run_ops hl hn ops s) (smt_hash hl hn x) = Some (smt_data hl hn x)"
  proof (cases "x \<in> puts ops")
    case True
    have "smt_hash hl hn x \<notin> smt_hash hl hn ` dels ops"
    proof
      assume "smt_hash hl hn x \<in> smt_hash hl hn ` dels ops"
      then obtain d where d: "d \<in> dels ops" "smt_hash hl hn x = smt_hash hl hn d" by auto
      with x inj have "x = d" by blast
      with True d disj show False by auto
    qed
    moreover have "\<forall>u \<in> puts ops. smt_hash hl hn u = smt_hash hl hn x \<longrightarrow> u = x"
      using assms(4) x inj by blast
    ultimately show ?thesis using True by (intro run_ops_written)
  next
    case False
    with x covered have old: "x \<in> subtrees t" "x \<notin> dels ops" by auto
    have "smt_hash hl hn x \<notin> smt_hash hl hn ` (puts ops \<union> dels ops)"
    proof
      assume "smt_hash hl hn x \<in> smt_hash hl hn ` (puts ops \<union> dels ops)"
      then obtain d where d: "d \<in> puts ops \<union> dels ops" "smt_hash hl hn x = smt_hash hl hn d" by auto
      with x assms(4) inj have "x = d" by blast
      with False d old show False by auto
    qed
    then show ?thesis
      using run_ops_other assms(1) old(1) x(2) by (simp add: holds_def)
  qed
qed

lemma holds_only_run_ops:
  assumes "holds_only hl hn t s" and free: "collision_free hl hn (subtrees t \<union> subtrees t' \<union> dels ops)"
    and disj: "puts ops \<inter> dels ops = {}" and "puts ops \<subseteq> subtrees t' - {SE}"
    and "subtrees t - {SE} \<subseteq> subtrees t' \<union> dels ops"
  shows "holds_only hl hn t' (run_ops hl hn ops s)"
  unfolding holds_only_def
proof (intro allI impI)
  fix h
  assume some: "db_get (run_ops hl hn ops s) h \<noteq> None"
  show "h \<in> smt_hash hl hn ` (subtrees t' - {SE})"
  proof (cases "h \<in> smt_hash hl hn ` puts ops")
    case True
    with assms(4) show ?thesis by blast
  next
    case False
    have nd: "h \<notin> smt_hash hl hn ` dels ops"
    proof
      assume "h \<in> smt_hash hl hn ` dels ops"
      then obtain d where "d \<in> dels ops" "h = smt_hash hl hn d" by auto
      with run_ops_deleted [of d ops hl hn s] False some show False by auto
    qed
    have "db_get (run_ops hl hn ops s) h = db_get s h"
      by (rule run_ops_other) (use False nd in auto)
    with some have "db_get s h \<noteq> None" by metis
    with assms(1) obtain x where x: "x \<in> subtrees t - {SE}" "h = smt_hash hl hn x"
      unfolding holds_only_def by blast
    with nd have "x \<notin> dels ops" by auto
    with x(1) assms(5) have "x \<in> subtrees t' - {SE}" by auto
    then show ?thesis unfolding x(2) by (rule imageI)
  qed
qed

end

section \<open>What the sequences touch\<close>

lemma split_ops_props:
  assumes "k \<noteq> k'" and "agree l k k'"
  shows "puts (split_ops l k v k' v') = {x \<in> subtrees (s_split l k v k' v'). is_SN x} \<and>
    dels (split_ops l k v k' v') = {} \<and> (\<forall>x \<in> puts (split_ops l k v k' v'). k \<in> keys x) \<and>
    subtrees (s_split l k v k' v') - {SE} = puts (split_ops l k v k' v') \<union> {SL k v, SL k' v'}"
  using assms
proof (induction l k v k' v' rule: split_ops.induct)
  case (1 l k v k' v')
  from 1(3,2) have l: "l < 256" by (rule agree_256)
  then have nl: "\<not> 256 \<le> l" by simp
  show ?case
  proof (cases "bit k l = bit k' l")
    case True
    with 1(3) have ag: "agree (Suc l) k k'" by (simp add: agree_Suc)
    have "k \<in> keys (s_split (Suc l) k v k' v')"
      using s_split_props [OF 1(2) ag, of v v'] by simp
    with 1(1) [OF nl True 1(2) ag] show ?thesis
      using nl True split_ops.simps [of l k v k' v'] s_split.simps [of l k v k' v']
      by (cases "bit k l") auto
  next
    case False
    then show ?thesis
      using nl split_ops.simps [of l k v k' v'] s_split.simps [of l k v k' v']
      by (cases "bit k l") auto
  qed
qed


lemma subtrees_canon: "canon l t \<Longrightarrow> x \<in> subtrees t \<Longrightarrow> \<exists>l'. canon l' x"
  by (induction t arbitrary: l) auto

lemma subtrees_disjoint:
  assumes "canon l (SN a b)" and "x \<in> subtrees a" and "x \<in> subtrees b"
  shows "x = SE"
proof (rule ccontr)
  assume "x \<noteq> SE"
  moreover obtain l' where "canon l' x" using assms(1,2) subtrees_canon [of "Suc l" a x] unfolding canon.simps by blast
  ultimately obtain k where "k \<in> keys x" using keys_nonempty by blast
  with assms subtrees_keys show False by fastforce
qed

lemma subtrees_neq_parent:
  "x \<in> subtrees a \<Longrightarrow> x \<noteq> SN a b" "x \<in> subtrees b \<Longrightarrow> x \<noteq> SN a b"
  by (auto dest: subtrees_size)

text \<open>One level: a node \<open>n\<close> over a child \<open>c\<close> becomes \<open>n'\<close> over \<open>c'\<close>, the sibling \<open>s\<close> stays.\<close>

lemma level_step:
  assumes "Pc \<subseteq> subtrees c' - {SE}" and "Dc \<subseteq> subtrees c - {SE}"
    and "subtrees c' - {SE} \<subseteq> Pc \<union> (subtrees c - Dc)" and "subtrees c - {SE} \<subseteq> subtrees c' \<union> Dc"
    and "canon l n"
    and n: "n = join right c s" and n': "n' = join right c' s"
  shows "insert n' Pc \<subseteq> subtrees n' - {SE} \<and> insert n Dc \<subseteq> subtrees n - {SE} \<and>
    subtrees n' - {SE} \<subseteq> insert n' Pc \<union> (subtrees n - insert n Dc) \<and>
    subtrees n - {SE} \<subseteq> subtrees n' \<union> insert n Dc"
proof -
  have S: "subtrees n = insert n (subtrees c \<union> subtrees s)" "subtrees n' = insert n' (subtrees c' \<union> subtrees s)"
    using n n' by (auto simp: join_def)
  have ne: "n \<noteq> SE" "n' \<noteq> SE" using n n' by (auto simp: join_def)
  have sib: "x \<notin> subtrees c" if "x \<in> subtrees s" "x \<noteq> SE" for x
    using subtrees_disjoint [of l "if right then s else c" "if right then c else s" x] assms(5) n that
    by (auto simp: join_def split: if_splits)
  have up: "x \<noteq> n" if "x \<in> subtrees c \<or> x \<in> subtrees s" for x
    using that n by (auto simp: join_def dest!: subtrees_size split: if_splits)
  have "insert n' Pc \<subseteq> subtrees n' - {SE}" using assms(1) ne S by blast
  moreover have "insert n Dc \<subseteq> subtrees n - {SE}" using assms(2) ne S by blast
  moreover have "subtrees n - {SE} \<subseteq> subtrees n' \<union> insert n Dc" using assms(4) S by blast
  moreover have "subtrees n' - {SE} \<subseteq> insert n' Pc \<union> (subtrees n - insert n Dc)"
  proof
    fix x
    assume x: "x \<in> subtrees n' - {SE}"
    then consider "x = n'" | "x \<in> subtrees c'" | "x \<in> subtrees s" using S by blast
    then show "x \<in> insert n' Pc \<union> (subtrees n - insert n Dc)"
    proof cases
      case 2
      with x assms(3) have "x \<in> Pc \<or> (x \<in> subtrees c \<and> x \<notin> Dc)" by blast
      with up S show ?thesis by blast
    next
      case 3
      with x sib have "x \<notin> subtrees c" by blast
      with assms(2) have "x \<notin> Dc" by blast
      with 3 up S show ?thesis by blast
    qed simp
  qed
  ultimately show ?thesis by blast
qed

lemma put_ops_props:
  assumes "canon l t" and "\<forall>k' \<in> keys t. agree l k k'" and "k \<notin> keys t"
  shows "puts (put_ops l k v t) \<subseteq> subtrees (s_put l k v t) - {SE} \<and>
    (\<forall>x \<in> puts (put_ops l k v t). k \<in> keys x) \<and>
    dels (put_ops l k v t) \<subseteq> subtrees t - {SE} \<and>
    subtrees (s_put l k v t) - {SE} \<subseteq> puts (put_ops l k v t) \<union> (subtrees t - dels (put_ops l k v t)) \<and>
    subtrees t - {SE} \<subseteq> subtrees (s_put l k v t) \<union> dels (put_ops l k v t)"
  using assms
proof (induction l k v t rule: put_ops.induct)
  case (2 l k v k' v')
  then have "k \<noteq> k'" "agree l k k'" by auto
  from split_ops_props [OF this, of v v'] \<open>k \<noteq> k'\<close> show ?case
    by auto
next
  case (3 l k v a b)
  let ?c = "if bit k l then b else a" and ?s = "if bit k l then a else b"
  have pre: "canon (Suc l) ?c" "\<forall>k' \<in> keys ?c. agree (Suc l) k k'" "k \<notin> keys ?c"
    using 3(3,4,5) by (auto simp: agree_Suc)
  have IH: "puts (put_ops (Suc l) k v ?c) \<subseteq> subtrees (s_put (Suc l) k v ?c) - {SE} \<and>
    (\<forall>x \<in> puts (put_ops (Suc l) k v ?c). k \<in> keys x) \<and>
    dels (put_ops (Suc l) k v ?c) \<subseteq> subtrees ?c - {SE} \<and>
    subtrees (s_put (Suc l) k v ?c) - {SE} \<subseteq>
      puts (put_ops (Suc l) k v ?c) \<union> (subtrees ?c - dels (put_ops (Suc l) k v ?c)) \<and>
    subtrees ?c - {SE} \<subseteq> subtrees (s_put (Suc l) k v ?c) \<union> dels (put_ops (Suc l) k v ?c)"
  proof (cases "bit k l")
    case True
    show ?thesis unfolding if_P [OF True] by (rule 3(1) [OF True pre [unfolded if_P [OF True]]])
  next
    case False
    show ?thesis unfolding if_not_P [OF False] by (rule 3(2) [OF False pre [unfolded if_not_P [OF False]]])
  qed
  have key: "k \<in> keys (s_put (Suc l) k v ?c)" using s_put_props [OF pre(1,2)] by simp
  have n: "SN a b = join (bit k l) ?c ?s" "s_put l k v (SN a b) = join (bit k l) (s_put (Suc l) k v ?c) ?s"
    and ops: "puts (put_ops l k v (SN a b)) =
      insert (s_put l k v (SN a b)) (puts (put_ops (Suc l) k v ?c))"
    "dels (put_ops l k v (SN a b)) = insert (SN a b) (dels (put_ops (Suc l) k v ?c))"
    by (auto simp: join_def)
  have "k \<in> keys (s_put l k v (SN a b))" using key by (auto simp: n(2) join_def)
  with IH have "\<forall>x \<in> insert (s_put l k v (SN a b)) (puts (put_ops (Suc l) k v ?c)). k \<in> keys x"
    by (elim conjE) (rule ballI, erule insertE, simp only:, erule bspec)
  moreover from IH have "insert (s_put l k v (SN a b)) (puts (put_ops (Suc l) k v ?c))
        \<subseteq> subtrees (s_put l k v (SN a b)) - {SE} \<and>
      insert (SN a b) (dels (put_ops (Suc l) k v ?c)) \<subseteq> subtrees (SN a b) - {SE} \<and>
      subtrees (s_put l k v (SN a b)) - {SE} \<subseteq> insert (s_put l k v (SN a b)) (puts (put_ops (Suc l) k v ?c))
        \<union> (subtrees (SN a b) - insert (SN a b) (dels (put_ops (Suc l) k v ?c))) \<and>
      subtrees (SN a b) - {SE} \<subseteq> subtrees (s_put l k v (SN a b)) \<union>
        insert (SN a b) (dels (put_ops (Suc l) k v ?c))"
    by (intro level_step [OF _ _ _ _ 3(3) n(1) n(2)]) (elim conjE, assumption)+
  ultimately show ?case unfolding ops by (elim conjE) (intro conjI; assumption)
qed auto

lemma upd_ops_props:
  assumes "canon l t" and "\<forall>k' \<in> keys t. agree l k k'" and "entries t k = Some v0"
  shows "puts (upd_ops l k v t) \<subseteq> subtrees (s_put l k v t) - {SE} \<and>
    (\<forall>x \<in> puts (upd_ops l k v t). entries x k = Some v) \<and>
    dels (upd_ops l k v t) \<subseteq> subtrees t - {SE} \<and>
    (\<forall>x \<in> dels (upd_ops l k v t). entries x k = Some v0) \<and>
    subtrees (s_put l k v t) - {SE} \<subseteq> puts (upd_ops l k v t) \<union> (subtrees t - dels (upd_ops l k v t)) \<and>
    subtrees t - {SE} \<subseteq> subtrees (s_put l k v t) \<union> dels (upd_ops l k v t)"
  using assms
proof (induction l k v t rule: upd_ops.induct)
  case (3 l k v a b)
  let ?c = "if bit k l then b else a" and ?s = "if bit k l then a else b"
  have s: "k \<notin> keys ?s" using 3(3) by auto
  then have "entries ?s k = None" by (simp add: keys_entries domIff)
  with 3(5) have ent: "entries ?c k = Some v0"
    by (auto simp: map_add_def split: if_splits option.splits)
  have pre: "canon (Suc l) ?c" "\<forall>k' \<in> keys ?c. agree (Suc l) k k'"
    using 3(3,4) by (auto simp: agree_Suc)
  have IH: "puts (upd_ops (Suc l) k v ?c) \<subseteq> subtrees (s_put (Suc l) k v ?c) - {SE} \<and>
    (\<forall>x \<in> puts (upd_ops (Suc l) k v ?c). entries x k = Some v) \<and>
    dels (upd_ops (Suc l) k v ?c) \<subseteq> subtrees ?c - {SE} \<and>
    (\<forall>x \<in> dels (upd_ops (Suc l) k v ?c). entries x k = Some v0) \<and>
    subtrees (s_put (Suc l) k v ?c) - {SE} \<subseteq>
      puts (upd_ops (Suc l) k v ?c) \<union> (subtrees ?c - dels (upd_ops (Suc l) k v ?c)) \<and>
    subtrees ?c - {SE} \<subseteq> subtrees (s_put (Suc l) k v ?c) \<union> dels (upd_ops (Suc l) k v ?c)"
  proof (cases "bit k l")
    case True
    show ?thesis unfolding if_P [OF True]
      by (rule 3(1) [OF True pre [unfolded if_P [OF True]] ent [unfolded if_P [OF True]]])
  next
    case False
    show ?thesis unfolding if_not_P [OF False]
      by (rule 3(2) [OF False pre [unfolded if_not_P [OF False]] ent [unfolded if_not_P [OF False]]])
  qed
  have new: "entries (s_put (Suc l) k v ?c) k = Some v" using s_put_props [OF pre] by simp
  with \<open>entries ?s k = None\<close> have
    "entries (if bit k l then SN a (s_put (Suc l) k v b) else SN (s_put (Suc l) k v a) b) k = Some v"
    by (auto simp: map_add_def split: if_splits option.splits)
  then have "entries (join (bit k l) (s_put (Suc l) k v ?c) ?s) k = Some v"
    by (simp add: join_def split: if_splits)
  then have val: "entries (s_put l k v (SN a b)) k = Some v"
    by (simp add: join_def split: if_splits)
  have n: "SN a b = join (bit k l) ?c ?s" "s_put l k v (SN a b) = join (bit k l) (s_put (Suc l) k v ?c) ?s"
    and ops: "puts (upd_ops l k v (SN a b)) =
      insert (s_put l k v (SN a b)) (puts (upd_ops (Suc l) k v ?c))"
    "dels (upd_ops l k v (SN a b)) = insert (SN a b) (dels (upd_ops (Suc l) k v ?c))"
    by (auto simp: join_def)
  from IH val have "\<forall>x \<in> insert (s_put l k v (SN a b)) (puts (upd_ops (Suc l) k v ?c)). entries x k = Some v"
    by (elim conjE) (rule ballI, erule insertE, simp only:, erule bspec)
  moreover from IH 3(5) have
    "\<forall>x \<in> insert (SN a b) (dels (upd_ops (Suc l) k v ?c)). entries x k = Some v0"
    by (elim conjE) (rule ballI, erule insertE, simp only:, erule bspec)
  moreover from IH have "insert (s_put l k v (SN a b)) (puts (upd_ops (Suc l) k v ?c))
        \<subseteq> subtrees (s_put l k v (SN a b)) - {SE} \<and>
      insert (SN a b) (dels (upd_ops (Suc l) k v ?c)) \<subseteq> subtrees (SN a b) - {SE} \<and>
      subtrees (s_put l k v (SN a b)) - {SE} \<subseteq> insert (s_put l k v (SN a b)) (puts (upd_ops (Suc l) k v ?c))
        \<union> (subtrees (SN a b) - insert (SN a b) (dels (upd_ops (Suc l) k v ?c))) \<and>
      subtrees (SN a b) - {SE} \<subseteq> subtrees (s_put l k v (SN a b)) \<union>
        insert (SN a b) (dels (upd_ops (Suc l) k v ?c))"
    by (intro level_step [OF _ _ _ _ 3(3) n(1) n(2)]) (elim conjE, assumption)+
  ultimately show ?case unfolding ops by (elim conjE) (intro conjI; assumption)
qed (auto split: if_splits)

lemma s_delete_join:
  "s_delete l k (SN a b) =
    (if bit k l then collapse a (s_delete (Suc l) k b) else collapse (s_delete (Suc l) k a) b)"
  by simp

definition collapse_at :: "bool \<Rightarrow> smt \<Rightarrow> smt \<Rightarrow> smt" where
  "collapse_at right child sib = (if right then collapse sib child else collapse child sib)"

lemma collapse_at_join:
  "is_SN child \<or> is_SN sib \<or> (child \<noteq> SE \<and> sib \<noteq> SE) \<Longrightarrow> collapse_at right child sib = join right child sib"
  by (cases child; cases sib) (auto simp: collapse_at_def join_def)

lemma collapse_at_empty:
  "\<not> is_SN child \<Longrightarrow> collapse_at right child SE = child" "\<not> is_SN sib \<Longrightarrow> collapse_at right SE sib = sib"
  by (cases child; auto simp: collapse_at_def) (cases sib; auto simp: collapse_at_def)

lemma join_simps [simp]:
  "is_SN (join r c s)" "join r c s \<noteq> SE" "keys (join r c s) = keys c \<union> keys s"
  "subtrees (join r c s) = insert (join r c s) (subtrees c \<union> subtrees s)"
  by (auto simp: join_def)

lemma s_delete_nonempty:
  assumes "canon l t" and "is_SN t"
  shows "s_delete l k t \<noteq> SE"
proof
  assume "s_delete l k t = SE"
  then have sub: "keys t \<subseteq> {k}" using s_delete_props [OF assms(1), of k] by auto
  from assms(2) obtain a b where t: "t = SN a b" by (auto simp: is_SN_def)
  with assms(1) have "canon l (SN a b)" by simp
  from two_keys [OF this] obtain x y where "x \<in> keys t" "y \<in> keys t" "x \<noteq> y" unfolding t by blast
  with sub show False by auto
qed

definition del_ok :: "nat \<Rightarrow> u256 \<Rightarrow> smt \<Rightarrow> smt_op list \<times> smt \<times> smt \<times> bool \<Rightarrow> bool" where
  "del_ok l k t r \<longleftrightarrow> (case r of (ops, old, new, mixed) \<Rightarrow>
     new = s_delete l k t \<and> (mixed \<longleftrightarrow> is_SN new) \<and> k \<in> keys old \<and>
     puts ops \<subseteq> subtrees new - {SE} \<and> (\<forall>x \<in> dels ops. k \<in> keys x) \<and>
     subtrees new - {SE} \<subseteq> puts ops \<union> subtrees t)"

lemma del_run_node:
  assumes "del_run (Suc l) k (if bit k l then b else a) = (ops, old, new, mixed)"
  shows "del_run l k (SN a b) =
    (let c = if bit k l then b else a; s = if bit k l then a else b in
     if \<not> is_SN c \<and> \<not> is_SN s then (ops, old, s, False)
     else if mixed \<or> s \<noteq> SE
     then (ops @ [Del (join (bit k l) old s), Put (join (bit k l) new s)], join (bit k l) old s,
           join (bit k l) new s, True)
     else (ops @ [Del (join (bit k l) old s)], join (bit k l) old s, new, False))"
  using assms by (cases "bit k l") (simp_all add: Let_def)

lemma del_run_ok:
  assumes "canon l t" and "k \<in> keys t"
  shows "del_ok l k t (del_run l k t)"
  using assms
proof (induction t arbitrary: l)
  case (SN a b)
  define c where "c = (if bit k l then b else a)"
  define s where "s = (if bit k l then a else b)"
  have c: "canon (Suc l) c" "k \<in> keys c" using SN.prems by (auto simp: c_def split: if_splits)
  have br: "s = SE \<longrightarrow> is_SN c" using SN.prems(1) by (auto simp: branching_def c_def s_def)
  have sub: "subtrees (SN a b) = insert (SN a b) (subtrees c \<union> subtrees s)"
    by (auto simp: c_def s_def)
  have new: "s_delete l k (SN a b) = collapse_at (bit k l) (s_delete (Suc l) k c) s"
    by (simp add: collapse_at_def c_def s_def)
  obtain ops old nw mixed where run: "del_run (Suc l) k c = (ops, old, nw, mixed)"
    by (metis prod_cases4)
  have "del_ok (Suc l) k c (del_run (Suc l) k c)"
    using SN.IH c by (auto simp: c_def split: if_splits)
  then have IH: "nw = s_delete (Suc l) k c" "mixed = is_SN nw" "k \<in> keys old"
    "puts ops \<subseteq> subtrees nw - {SE}" "\<forall>x \<in> dels ops. k \<in> keys x"
    "subtrees nw - {SE} \<subseteq> puts ops \<union> subtrees c"
    unfolding run del_ok_def by auto
  note eq = del_run_node [OF run [unfolded c_def], folded c_def s_def]
  have ne: "is_SN c \<Longrightarrow> nw \<noteq> SE" unfolding IH(1) by (rule s_delete_nonempty [OF c(1)])
  consider (promote) "\<not> is_SN c" "\<not> is_SN s"
    | (build) "is_SN c \<or> is_SN s" "mixed \<or> s \<noteq> SE"
    | (float) "is_SN c \<or> is_SN s" "\<not> mixed" "s = SE" by blast
  then show ?case
  proof cases
    case promote
    then have "nw = SE" using c(2) IH(1) by (cases c) auto
    with IH promote br have "puts ops = {}" "collapse_at (bit k l) nw s = s" "s \<noteq> SE"
      by (auto simp: collapse_at_empty)
    with promote IH new sub show ?thesis
      unfolding eq del_ok_def Let_def by auto
  next
    case build
    have "is_SN nw \<or> is_SN s \<or> (nw \<noteq> SE \<and> s \<noteq> SE)" using build IH(2) ne by blast
    then have "s_delete l k (SN a b) = join (bit k l) nw s" using new IH(1) collapse_at_join by simp
    with build IH sub show ?thesis
      unfolding eq del_ok_def Let_def by auto
  next
    case float
    then have "s_delete l k (SN a b) = nw" using new IH(1,2) by (simp add: collapse_at_empty)
    with float IH sub show ?thesis
      unfolding eq del_ok_def Let_def by auto
  qed
qed (auto simp: del_ok_def)

text \<open>A subtree of the tree after the deletion does not contain the key.\<close>

lemma del_run_props:
  assumes "canon l t" and "k \<in> keys t" and "del_run l k t = (ops, old, new, mixed)"
  shows "new = s_delete l k t \<and> puts ops \<subseteq> subtrees new - {SE} \<and> puts ops \<inter> dels ops = {} \<and>
    subtrees new - {SE} \<subseteq> puts ops \<union> (subtrees t - dels ops)"
proof -
  from del_run_ok [OF assms(1,2)] assms(3) have r: "new = s_delete l k t"
    "puts ops \<subseteq> subtrees new - {SE}" "\<forall>x \<in> dels ops. k \<in> keys x"
    "subtrees new - {SE} \<subseteq> puts ops \<union> subtrees t" by (auto simp: del_ok_def)
  have "k \<notin> keys x" if "x \<in> subtrees new" for x
    using subtrees_keys [OF that] s_delete_props [OF assms(1), of k] r(1) by auto
  with r show ?thesis by blast
qed

end
