(* ===== verification/Asp_Non_Membership.thy ===== *)
theory Asp_Non_Membership
  imports Poseidon2_Hash Smt_Storage
begin

text \<open>
  The ASP non-membership contract, \<open>contracts/asp-non-membership/src/lib.rs\<close>: a sparse Merkle
  tree of blocked keys whose nodes are all kept in contract storage.  This theory holds the
  storage, the search and the entry points; \<open>Asp_Non_Membership_Correct\<close> proves them.

  Loops over \<open>siblings\<close> run from the leaf to the root exactly as in the source (\<open>enumerate\<close>
  reversed, or \<open>level = siblings_len - 1 - level_idx\<close>).  After its loop \<open>insert_leaf\<close> pops entries
  of its local sibling vector; that vector is not used again, so the model stops before it.
\<close>

section \<open>Storage, errors, events\<close>

datatype nm_error =
  NM_NotAuthorized | NM_KeyNotFound | NM_KeyAlreadyExists | NM_InvalidProof | NM_NotInitialized

datatype nm_event =
    LeafInserted (ev_key: u256) (ev_value: u256) (ev_root: u256)
  | LeafUpdated (ev_key: u256) (ev_old_value: u256) (ev_new_value: u256) (ev_root: u256)
  | LeafDeleted (ev_key: u256) (ev_root: u256)

record asp_non_membership =
  nm_admin :: "address option"
  nm_root :: "u256 option"
  nm_nodes :: "u256 \<Rightarrow> u256 list option"
  nm_events :: "nm_event list"

record find_result =
  fr_found :: bool
  fr_siblings :: "u256 list"
  fr_found_value :: u256
  fr_not_found_key :: u256
  fr_not_found_value :: u256
  fr_is_old0 :: bool

definition nm_empty :: asp_non_membership where
  "nm_empty = \<lparr>nm_admin = None, nm_root = None, nm_nodes = Map.empty, nm_events = []\<rparr>"

definition nm_put_node :: "u256 \<Rightarrow> u256 list \<Rightarrow> asp_non_membership \<Rightarrow> asp_non_membership" where
  "nm_put_node h d st = st\<lparr>nm_nodes := (nm_nodes st)(h \<mapsto> d)\<rparr>"

definition nm_del_node :: "u256 \<Rightarrow> asp_non_membership \<Rightarrow> asp_non_membership" where
  "nm_del_node h st = st\<lparr>nm_nodes := (nm_nodes st)(h := None)\<rparr>"

definition nm_emit :: "nm_event \<Rightarrow> asp_non_membership \<Rightarrow> asp_non_membership" where
  "nm_emit ev st = st\<lparr>nm_events := nm_events st @ [ev]\<rparr>"

text \<open>\<open>store.get(Root).unwrap_or(0)\<close>\<close>

definition nm_root_or_zero :: "asp_non_membership \<Rightarrow> u256" where
  "nm_root_or_zero st = (case nm_root st of Some r \<Rightarrow> r | None \<Rightarrow> 0)"

section \<open>Administration\<close>

definition nm_constructor ::
  "address \<Rightarrow> asp_non_membership \<Rightarrow> (asp_non_membership, nm_error) result" where
  "nm_constructor admin st = Ok (st\<lparr>nm_admin := Some admin, nm_root := Some 0\<rparr>)"

definition nm_set_admin :: "address \<Rightarrow> asp_non_membership \<Rightarrow> asp_non_membership" where
  "nm_set_admin a st = st\<lparr>nm_admin := Some a\<rparr>"

definition nm_update_admin ::
  "env \<Rightarrow> address \<Rightarrow> asp_non_membership \<Rightarrow> (asp_non_membership, nm_error) result" where
  "nm_update_admin env new_admin st = update_admin env nm_admin nm_set_admin new_admin st"

definition nm_get_root :: "asp_non_membership \<Rightarrow> (u256, nm_error) result" where
  "nm_get_root st = ok_or (nm_root st) NM_NotInitialized"

section \<open>Hashes and key bits\<close>

definition nm_hash_leaf :: "permutation \<Rightarrow> u256 \<Rightarrow> u256 \<Rightarrow> (u256, nm_error) result" where
  "nm_hash_leaf P key val = poseidon2_hash2 P key val (Some 1)"

definition nm_hash_internal :: "permutation \<Rightarrow> u256 \<Rightarrow> u256 \<Rightarrow> (u256, nm_error) result" where
  "nm_hash_internal P left right = poseidon2_compress P left right"

fun nm_split_step :: "nat \<Rightarrow> bool list \<times> u256 \<Rightarrow> (bool list \<times> u256, nm_error) result" where
  "nm_split_step _ (bits, k) =
     rbind (u256_rem_euclid k 2) (\<lambda>rem.
     rbind (u256_div k 2) (\<lambda>k'.
     Ok (bits @ [rem = 1], k')))"

definition nm_split_bits :: "u256 \<Rightarrow> (bool list, nm_error) result" where
  "nm_split_bits key =
     rbind (rfold nm_split_step [0..<256] ([], key)) (\<lambda>(bits, _). Ok bits)"

section \<open>Search\<close>

function nm_find_key_internal ::
  "(u256 \<Rightarrow> u256 list option) \<Rightarrow> u256 \<Rightarrow> bool list \<Rightarrow> u256 \<Rightarrow> nat \<Rightarrow> (find_result, nm_error) result" where
  "nm_find_key_internal nodes key key_bits root level =
     (if root = 0 then
        Ok \<lparr>fr_found = False, fr_siblings = [], fr_found_value = 0, fr_not_found_key = key,
            fr_not_found_value = 0, fr_is_old0 = True\<rparr>
      else case nodes root of
        None \<Rightarrow> Err NM_KeyNotFound
      | Some node_data \<Rightarrow>
          if length node_data = 3 \<and> node_data ! 0 = 1 then
            let stored_key = node_data ! 1; stored_value = node_data ! 2 in
            if stored_key = key then
              Ok \<lparr>fr_found = True, fr_siblings = [], fr_found_value = stored_value,
                  fr_not_found_key = 0, fr_not_found_value = 0, fr_is_old0 = False\<rparr>
            else
              Ok \<lparr>fr_found = False, fr_siblings = [], fr_found_value = 0,
                  fr_not_found_key = stored_key, fr_not_found_value = stored_value, fr_is_old0 = False\<rparr>
          else if length node_data = 2 then
            let left = node_data ! 0; right = node_data ! 1 in
            case vec_get key_bits level of
              None \<Rightarrow> Panic
            | Some b \<Rightarrow>
                rbind (if \<not> b then nm_find_key_internal nodes key key_bits left (level + 1)
                       else nm_find_key_internal nodes key key_bits right (level + 1)) (\<lambda>result.
                let sibling = (if \<not> b then right else left) in
                Ok (result\<lparr>fr_siblings := sibling # fr_siblings result\<rparr>))
          else Err NM_KeyNotFound)"
  by pat_completeness auto
termination
  by (relation "measure (\<lambda>(nodes, key, key_bits, root, level). length key_bits - level)")
    (auto simp: vec_get_def split: if_splits)

declare nm_find_key_internal.simps [simp del]

definition nm_find_key :: "u256 \<Rightarrow> asp_non_membership \<Rightarrow> (find_result, nm_error) result" where
  "nm_find_key key st =
     rbind (nm_split_bits key) (\<lambda>key_bits.
     nm_find_key_internal (nm_nodes st) key key_bits (nm_root_or_zero st) 0)"

section \<open>Insertion\<close>

text \<open>The \<open>while\<close> loop that extends the path by zeros over the common prefix.\<close>

function nm_extend :: "bool list \<Rightarrow> bool list \<Rightarrow> nat \<Rightarrow> u256 list \<Rightarrow> u256 list" where
  "nm_extend old_key_bits key_bits i siblings =
     (if i < length old_key_bits \<and> i < length key_bits \<and> old_key_bits ! i = key_bits ! i
      then nm_extend old_key_bits key_bits (i + 1) (siblings @ [0])
      else siblings)"
  by pat_completeness auto
termination
  by (relation "measure (\<lambda>(old_key_bits, key_bits, i, siblings). length key_bits - i)") auto

declare nm_extend.simps [simp del]

text \<open>The body of the rebuilding loop; its state is the storage, \<open>rt\<close>, \<open>rt_old\<close> and \<open>mixed\<close>.\<close>

fun nm_insert_step ::
  "permutation \<Rightarrow> bool list \<Rightarrow> nat \<Rightarrow> u256 list \<Rightarrow> bool \<Rightarrow> nat \<times> u256
     \<Rightarrow> asp_non_membership \<times> u256 \<times> u256 \<times> bool
     \<Rightarrow> (asp_non_membership \<times> u256 \<times> u256 \<times> bool, nm_error) result" where
  "nm_insert_step P key_bits siblings_len find_siblings added_one (i, sibling) (st, rt, rt_old, mixed) =
     (let is_last_added_leaf = (added_one \<and> i = siblings_len - 1);
          mixed1 = (if \<not> is_last_added_leaf \<and> i < siblings_len - 1 \<and> sibling \<noteq> 0 then True else mixed) in
      rbind
        (if mixed1 \<and> \<not> is_last_added_leaf then
           rbind (if i < length find_siblings then unwrap (vec_get find_siblings i) else Ok 0) (\<lambda>old_sibling.
           rbind (unwrap (vec_get key_bits i)) (\<lambda>b.
           rbind (if b then nm_hash_internal P old_sibling rt_old
                  else nm_hash_internal P rt_old old_sibling) (\<lambda>rt_old'.
           Ok (nm_del_node rt_old' st, rt_old'))))
         else Ok (st, rt_old)) (\<lambda>(st1, rt_old1).
      rbind (unwrap (vec_get key_bits i)) (\<lambda>b.
      let (left_hash, right_hash) = (if b then (sibling, rt) else (rt, sibling)) in
      rbind (nm_hash_internal P left_hash right_hash) (\<lambda>rt1.
      Ok (nm_put_node rt1 [left_hash, right_hash] st1, rt1, rt_old1, mixed1)))))"

definition nm_insert_leaf ::
  "permutation \<Rightarrow> env \<Rightarrow> u256 \<Rightarrow> u256 \<Rightarrow> asp_non_membership \<Rightarrow> (asp_non_membership, nm_error) result" where
  "nm_insert_leaf P env key val st =
     rbind (unwrap (nm_admin st)) (\<lambda>admin.
     rbind (require_auth env admin) (\<lambda>_.
     rbind (nm_split_bits key) (\<lambda>key_bits.
     rbind (nm_find_key_internal (nm_nodes st) key key_bits (nm_root_or_zero st) 0) (\<lambda>find_result.
     if fr_found find_result then Err NM_KeyAlreadyExists
     else
       rbind
         (if \<not> fr_is_old0 find_result then
            rbind (nm_split_bits (fr_not_found_key find_result)) (\<lambda>old_key_bits.
            let extended = nm_extend old_key_bits key_bits (length (fr_siblings find_result))
                             (fr_siblings find_result) in
            rbind (nm_hash_leaf P (fr_not_found_key find_result) (fr_not_found_value find_result))
              (\<lambda>rt_old. Ok (extended @ [rt_old], rt_old, True, False)))
          else Ok (fr_siblings find_result, 0, False, fr_siblings find_result \<noteq> []))
         (\<lambda>(siblings, rt_old, added_one, mixed).
       rbind (nm_hash_leaf P key val) (\<lambda>rt.
       let st1 = nm_put_node rt [1, key, val] st in
       rbind (rfold
           (nm_insert_step P key_bits (length siblings) (fr_siblings find_result) added_one)
           (rev (List.enumerate 0 siblings)) (st1, rt, rt_old, mixed))
         (\<lambda>(st2, rt', _, _).
       Ok (nm_emit (LeafInserted key val rt') (st2\<lparr>nm_root := Some rt'\<rparr>)))))))))"

section \<open>Deletion\<close>

fun nm_delete_step ::
  "permutation \<Rightarrow> bool list \<Rightarrow> u256 list \<Rightarrow> nat
     \<Rightarrow> asp_non_membership \<times> u256 \<times> u256 \<times> bool
     \<Rightarrow> (asp_non_membership \<times> u256 \<times> u256 \<times> bool, nm_error) result" where
  "nm_delete_step P key_bits siblings_to_use level (st, rt_old, rt_new, mixed) =
     rbind (unwrap (vec_get siblings_to_use level)) (\<lambda>sibling.
     rbind (unwrap (vec_get key_bits level)) (\<lambda>b.
     rbind (if b then nm_hash_internal P sibling rt_old else nm_hash_internal P rt_old sibling) (\<lambda>rt_old'.
     let st1 = nm_del_node rt_old' st;
         mixed1 = (if sibling \<noteq> 0 then True else mixed) in
     if mixed1 then
       let (left_hash, right_hash) = (if b then (sibling, rt_new) else (rt_new, sibling)) in
       rbind (nm_hash_internal P left_hash right_hash) (\<lambda>rt_new'.
       Ok (nm_put_node rt_new' [left_hash, right_hash] st1, rt_old', rt_new', mixed1))
     else Ok (st1, rt_old', rt_new, mixed1))))"

definition nm_levels_up :: "nat \<Rightarrow> nat list" where
  "nm_levels_up siblings_len = map (\<lambda>level_idx. siblings_len - 1 - level_idx) [0..<siblings_len]"

text \<open>The fate of the deepest sibling: a leaf is promoted, an inner node stays where it is.\<close>

definition nm_promote ::
  "asp_non_membership \<Rightarrow> u256 list \<Rightarrow> (u256 \<times> u256 list, nm_error) result" where
  "nm_promote st siblings =
     (if siblings = [] then Ok (0, siblings)
      else
        let last_sibling = last siblings in
        case nm_nodes st last_sibling of
          None \<Rightarrow> Err NM_KeyNotFound
        | Some node_data \<Rightarrow>
            if length node_data = 3 \<and> node_data ! 0 = 1 then Ok (last_sibling, butlast siblings)
            else if length node_data = 2 then Ok (0, siblings)
            else Err NM_KeyNotFound)"

definition nm_delete_leaf ::
  "permutation \<Rightarrow> env \<Rightarrow> u256 \<Rightarrow> asp_non_membership \<Rightarrow> (asp_non_membership, nm_error) result" where
  "nm_delete_leaf P env key st =
     rbind (unwrap (nm_admin st)) (\<lambda>admin.
     rbind (require_auth env admin) (\<lambda>_.
     rbind (unwrap (nm_root st)) (\<lambda>root.
     rbind (nm_split_bits key) (\<lambda>key_bits.
     rbind (nm_find_key_internal (nm_nodes st) key key_bits root 0) (\<lambda>find_result.
     if \<not> fr_found find_result then Err NM_KeyNotFound
     else
       rbind (nm_hash_leaf P key (fr_found_value find_result)) (\<lambda>rt_old.
       let st1 = nm_del_node rt_old st in
       rbind (nm_promote st1 (fr_siblings find_result)) (\<lambda>(rt_new, siblings_to_use).
       rbind (rfold (nm_delete_step P key_bits siblings_to_use)
           (nm_levels_up (length siblings_to_use)) (st1, rt_old, rt_new, False))
         (\<lambda>(st2, _, rt_new', _).
       Ok (nm_emit (LeafDeleted key rt_new') (st2\<lparr>nm_root := Some rt_new'\<rparr>))))))))))"

section \<open>Update\<close>

fun nm_update_step ::
  "permutation \<Rightarrow> bool list \<Rightarrow> u256 list \<Rightarrow> nat
     \<Rightarrow> asp_non_membership \<times> u256 \<times> u256
     \<Rightarrow> (asp_non_membership \<times> u256 \<times> u256, nm_error) result" where
  "nm_update_step P key_bits siblings level (st, current_hash, old_current_hash) =
     rbind (unwrap (vec_get siblings level)) (\<lambda>sibling.
     rbind (unwrap (vec_get key_bits level)) (\<lambda>b.
     let (left_hash, right_hash) = (if b then (sibling, current_hash) else (current_hash, sibling));
         (old_left_hash, old_right_hash) =
           (if b then (sibling, old_current_hash) else (old_current_hash, sibling)) in
     rbind (nm_hash_internal P left_hash right_hash) (\<lambda>current_hash'.
     rbind (nm_hash_internal P old_left_hash old_right_hash) (\<lambda>old_current_hash'.
     Ok (nm_del_node old_current_hash' (nm_put_node current_hash' [left_hash, right_hash] st),
         current_hash', old_current_hash')))))"

definition nm_update_leaf ::
  "permutation \<Rightarrow> env \<Rightarrow> u256 \<Rightarrow> u256 \<Rightarrow> asp_non_membership \<Rightarrow> (asp_non_membership, nm_error) result" where
  "nm_update_leaf P env key new_value st =
     rbind (unwrap (nm_admin st)) (\<lambda>admin.
     rbind (require_auth env admin) (\<lambda>_.
     rbind (nm_split_bits key) (\<lambda>key_bits.
     rbind (nm_find_key_internal (nm_nodes st) key key_bits (nm_root_or_zero st) 0) (\<lambda>find_result.
     if \<not> fr_found find_result then Err NM_KeyNotFound
     else
       rbind (nm_hash_leaf P key (fr_found_value find_result)) (\<lambda>old_leaf_hash.
       rbind (nm_hash_leaf P key new_value) (\<lambda>new_leaf_hash.
       let st1 = nm_put_node new_leaf_hash [1, key, new_value] st;
           st2 = nm_del_node old_leaf_hash st1;
           siblings = fr_siblings find_result in
       rbind (rfold (nm_update_step P key_bits siblings)
           (nm_levels_up (length siblings)) (st2, new_leaf_hash, old_leaf_hash))
         (\<lambda>(st3, current_hash, _).
       Ok (nm_emit (LeafUpdated key (fr_found_value find_result) new_value current_hash)
         (st3\<lparr>nm_root := Some current_hash\<rparr>)))))))))"

section \<open>Non-membership proofs\<close>

fun nm_check_siblings :: "u256 list \<Rightarrow> nat \<times> u256 \<Rightarrow> unit \<Rightarrow> (unit, nm_error) result" where
  "nm_check_siblings expected (i, sibling) _ =
     rbind (unwrap (vec_get expected i)) (\<lambda>e.
     fail_if (sibling \<noteq> e) NM_InvalidProof)"

definition nm_root_step ::
  "permutation \<Rightarrow> bool list \<Rightarrow> u256 list \<Rightarrow> nat \<Rightarrow> u256 \<Rightarrow> (u256, nm_error) result" where
  "nm_root_step P key_bits siblings level computed_root =
     rbind (unwrap (vec_get siblings level)) (\<lambda>sibling.
     rbind (unwrap (vec_get key_bits level)) (\<lambda>b.
     if b then nm_hash_internal P sibling computed_root
     else nm_hash_internal P computed_root sibling))"

definition nm_verify_non_membership ::
  "permutation \<Rightarrow> u256 \<Rightarrow> u256 list \<Rightarrow> u256 \<Rightarrow> u256 \<Rightarrow> asp_non_membership \<Rightarrow> (bool, nm_error) result" where
  "nm_verify_non_membership P key siblings not_found_key not_found_value st =
     (let root = nm_root_or_zero st in
      rbind (nm_split_bits key) (\<lambda>key_bits.
      rbind (nm_find_key_internal (nm_nodes st) key key_bits root 0) (\<lambda>find_result.
      if fr_found find_result then Ok False
      else if length (fr_siblings find_result) \<noteq> length siblings then Err NM_InvalidProof
      else
        rbind (rfold (nm_check_siblings (fr_siblings find_result)) (List.enumerate 0 siblings) ()) (\<lambda>_.
        if fr_not_found_key find_result \<noteq> not_found_key
          \<or> fr_not_found_value find_result \<noteq> not_found_value then Err NM_InvalidProof
        else
          rbind (if not_found_key \<noteq> key \<and> not_found_value \<noteq> 0
                 then nm_hash_leaf P not_found_key not_found_value else Ok 0) (\<lambda>computed_root.
          rbind (rfold (nm_root_step P key_bits siblings) (nm_levels_up (length siblings)) computed_root)
            (\<lambda>computed_root'.
          if computed_root' \<noteq> root then Err NM_InvalidProof else Ok True))))))"

end
