(* ===== verification/Groth16.thy ===== *)
theory Groth16
  imports Soroban_Host
begin

text \<open>
  Proof and key formats of \<open>contracts/types/src/lib.rs\<close> and the verifier contract
  \<open>contracts/circom-groth16-verifier/src/lib.rs\<close>.  Curve points are their byte encodings, as in
  the SDK wrappers (\<open>from_bytes\<close> only wraps); the curve operations are host functions, collected in
  the record \<open>bn254\<close> and returning nothing where the host traps.
\<close>

section \<open>Host curve operations\<close>

record bn254 =
  bn_fr_from_bytes :: "bytes \<Rightarrow> u256"
  bn_g1_mul :: "bytes \<Rightarrow> u256 \<Rightarrow> bytes option"
  bn_g1_add :: "bytes \<Rightarrow> bytes \<Rightarrow> bytes option"
  bn_g1_neg :: "bytes \<Rightarrow> bytes option"
  bn_pairing_check :: "bytes list \<Rightarrow> bytes list \<Rightarrow> bool option"

section \<open>Formats\<close>

datatype groth16_error = G16_InvalidProof | G16_MalformedPublicInputs | G16_MalformedProof | G16_NotInitialized

record verification_key_bytes =
  vkb_alpha :: bytes
  vkb_beta :: bytes
  vkb_gamma :: bytes
  vkb_delta :: bytes
  vkb_ic :: "bytes list"

record groth16_proof =
  g16_a :: bytes
  g16_b :: bytes
  g16_c :: bytes

definition groth16_is_empty :: "groth16_proof \<Rightarrow> bool" where
  "groth16_is_empty p \<longleftrightarrow> g16_a p = [] \<or> g16_b p = [] \<or> g16_c p = []"

definition FIELD_ELEMENT_SIZE :: nat where "FIELD_ELEMENT_SIZE = 32"
definition G1_SIZE :: nat where "G1_SIZE = FIELD_ELEMENT_SIZE * 2"
definition G2_SIZE :: nat where "G2_SIZE = FIELD_ELEMENT_SIZE * 4"
definition PROOF_SIZE :: nat where "PROOF_SIZE = G1_SIZE + G2_SIZE + G1_SIZE"

lemmas g16_sizes = FIELD_ELEMENT_SIZE_def G1_SIZE_def G2_SIZE_def PROOF_SIZE_def

text \<open>\<open>Bytes\<close> to \<open>BytesN<n>\<close>, and slices of \<open>Bytes\<close>.\<close>

definition to_bytes_n :: "nat \<Rightarrow> bytes \<Rightarrow> (bytes, groth16_error) result" where
  "to_bytes_n n bs = (if length bs = n then Ok bs else Err G16_MalformedProof)"

definition slice :: "nat \<Rightarrow> nat \<Rightarrow> bytes \<Rightarrow> bytes" where
  "slice i j bs = drop i (take j bs)"

definition groth16_try_from :: "bytes \<Rightarrow> (groth16_proof, groth16_error) result" where
  "groth16_try_from value =
     (if length value \<noteq> PROOF_SIZE then Err G16_MalformedProof
      else
        rbind (to_bytes_n 64 (slice 0 G1_SIZE value)) (\<lambda>a.
        rbind (to_bytes_n 128 (slice G1_SIZE (G1_SIZE + G2_SIZE) value)) (\<lambda>b.
        rbind (to_bytes_n 64 (drop (G1_SIZE + G2_SIZE) value)) (\<lambda>c.
        Ok \<lparr>g16_a = a, g16_b = b, g16_c = c\<rparr>))))"

section \<open>Verifier contract\<close>

record verification_key =
  vk_alpha :: bytes
  vk_beta :: bytes
  vk_gamma :: bytes
  vk_delta :: bytes
  vk_ic :: "bytes list"

record groth16_verifier =
  gv_key :: "verification_key_bytes option"

definition gv_empty :: groth16_verifier where
  "gv_empty = \<lparr>gv_key = None\<rparr>"

definition verification_key_from_bytes :: "verification_key_bytes \<Rightarrow> verification_key" where
  "verification_key_from_bytes vk_bytes =
     \<lparr>vk_alpha = vkb_alpha vk_bytes, vk_beta = vkb_beta vk_bytes, vk_gamma = vkb_gamma vk_bytes,
      vk_delta = vkb_delta vk_bytes,
      vk_ic = fold (\<lambda>b ic_vec. ic_vec @ [b]) (vkb_ic vk_bytes) []\<rparr>"

definition gv_constructor ::
  "verification_key_bytes \<Rightarrow> groth16_verifier \<Rightarrow> (groth16_verifier, groth16_error) result" where
  "gv_constructor vk st = Ok (st\<lparr>gv_key := Some vk\<rparr>)"

definition gv_acc_step ::
  "bn254 \<Rightarrow> bytes list \<Rightarrow> u256 list \<Rightarrow> nat \<Rightarrow> bytes \<Rightarrow> (bytes, groth16_error) result" where
  "gv_acc_step bn ic pub_inputs i vk_x =
     rbind (unwrap (vec_get pub_inputs i)) (\<lambda>s.
     rbind (unwrap (vec_get ic (i + 1))) (\<lambda>v.
     rbind (unwrap (bn_g1_mul bn v s)) (\<lambda>prod.
     unwrap (bn_g1_add bn vk_x prod))))"

definition gv_verify_with_vk ::
  "bn254 \<Rightarrow> verification_key \<Rightarrow> groth16_proof \<Rightarrow> u256 list \<Rightarrow> (bool, groth16_error) result" where
  "gv_verify_with_vk bn vk p pub_inputs =
     (if length pub_inputs + 1 \<noteq> length (vk_ic vk) then Err G16_MalformedPublicInputs
      else
        rbind (ok_or (vec_get (vk_ic vk) 0) G16_MalformedPublicInputs) (\<lambda>vk_x0.
        rbind (rfold (gv_acc_step bn (vk_ic vk) pub_inputs) [0..<length pub_inputs] vk_x0) (\<lambda>vk_x.
        rbind (unwrap (bn_g1_neg bn (g16_a p))) (\<lambda>neg_a.
        let g1_points = [neg_a, vk_alpha vk, vk_x, g16_c p];
            g2_points = [g16_b p, vk_beta vk, vk_gamma vk, vk_delta vk] in
        rbind (unwrap (bn_pairing_check bn g1_points g2_points)) (\<lambda>ok.
        if ok then Ok True else Err G16_InvalidProof)))))"

definition gv_verify ::
  "bn254 \<Rightarrow> groth16_proof \<Rightarrow> u256 list \<Rightarrow> groth16_verifier \<Rightarrow> (bool, groth16_error) result" where
  "gv_verify bn p public_inputs st =
     rbind (ok_or (gv_key st) G16_NotInitialized) (\<lambda>vk_bytes.
     gv_verify_with_vk bn (verification_key_from_bytes vk_bytes) p public_inputs)"

section \<open>Format lemmas\<close>

definition groth16_to_bytes :: "groth16_proof \<Rightarrow> bytes" where
  "groth16_to_bytes p = g16_a p @ g16_b p @ g16_c p"

definition groth16_wf :: "groth16_proof \<Rightarrow> bool" where
  "groth16_wf p \<longleftrightarrow> length (g16_a p) = 64 \<and> length (g16_b p) = 128 \<and> length (g16_c p) = 64"

lemma groth16_try_from_parts:
  assumes "length a = 64" and "length b = 128" and "length c = 64"
  shows "groth16_try_from (a @ b @ c) = Ok \<lparr>g16_a = a, g16_b = b, g16_c = c\<rparr>"
  using assms by (simp add: groth16_try_from_def g16_sizes to_bytes_n_def slice_def)

lemma three_parts: "take 64 bs @ take 128 (drop 64 bs) @ drop 192 bs = bs"
proof -
  have "drop 192 bs = drop 128 (drop 64 bs)" by simp
  then show ?thesis by (simp only: append_take_drop_id)
qed

lemma groth16_try_from_split:
  assumes "length bs = 256"
  shows "groth16_try_from bs =
    Ok \<lparr>g16_a = take 64 bs, g16_b = take 128 (drop 64 bs), g16_c = drop 192 bs\<rparr>"
  using groth16_try_from_parts [of "take 64 bs" "take 128 (drop 64 bs)" "drop 192 bs"] assms
  by (simp add: three_parts)

lemma groth16_wf_not_empty: "groth16_wf p \<Longrightarrow> \<not> groth16_is_empty p"
  by (auto simp: groth16_wf_def groth16_is_empty_def)

section \<open>The verification equation\<close>

text \<open>The input commitment \<open>ic_0 + s_1 * ic_1 + ... + s_n * ic_n\<close>, summed in this order.\<close>

primrec lin_comb :: "bn254 \<Rightarrow> bytes \<Rightarrow> (bytes \<times> u256) list \<Rightarrow> bytes option" where
  "lin_comb bn acc [] = Some acc"
| "lin_comb bn acc (vs # rest) =
     (case bn_g1_mul bn (fst vs) (snd vs) of None \<Rightarrow> None
      | Some pr \<Rightarrow> (case bn_g1_add bn acc pr of None \<Rightarrow> None | Some acc' \<Rightarrow> lin_comb bn acc' rest))"

definition groth16_accepts :: "bn254 \<Rightarrow> verification_key_bytes \<Rightarrow> groth16_proof \<Rightarrow> u256 list \<Rightarrow> bool" where
  "groth16_accepts bn vk p s \<longleftrightarrow>
     (\<exists>ic0 ics vk_x neg_a. vkb_ic vk = ic0 # ics \<and> length ics = length s \<and>
        lin_comb bn ic0 (zip ics s) = Some vk_x \<and> bn_g1_neg bn (g16_a p) = Some neg_a \<and>
        bn_pairing_check bn [neg_a, vkb_alpha vk, vk_x, g16_c p]
          [g16_b p, vkb_beta vk, vkb_gamma vk, vkb_delta vk] = Some True)"

lemma fold_snoc: "fold (\<lambda>b acc. acc @ [b]) xs acc = acc @ xs"
  by (induction xs arbitrary: acc) auto

lemma key_ic [simp]: "vk_ic (verification_key_from_bytes vk) = vkb_ic vk"
  by (simp add: verification_key_from_bytes_def fold_snoc)

lemma key_points [simp]:
  "vk_alpha (verification_key_from_bytes vk) = vkb_alpha vk"
  "vk_beta (verification_key_from_bytes vk) = vkb_beta vk"
  "vk_gamma (verification_key_from_bytes vk) = vkb_gamma vk"
  "vk_delta (verification_key_from_bytes vk) = vkb_delta vk"
  by (simp_all add: verification_key_from_bytes_def)

lemma acc_loop:
  assumes "length ics = length s" and "i \<le> length s"
  shows "rfold (gv_acc_step bn (ic0 # ics) s) [i..<length s] acc =
    unwrap (lin_comb bn acc (zip (drop i ics) (drop i s)))"
  using assms
proof (induction "length s - i" arbitrary: i acc)
  case 0
  then show ?case by simp
next
  case (Suc d)
  then have i: "i < length s" by simp
  then have "drop i ics = ics ! i # drop (Suc i) ics" "drop i s = s ! i # drop (Suc i) s"
    using Suc.prems by (simp_all add: Cons_nth_drop_Suc)
  moreover have IH: "rfold (gv_acc_step bn (ic0 # ics) s) [Suc i..<length s] acc' =
      unwrap (lin_comb bn acc' (zip (drop (Suc i) ics) (drop (Suc i) s)))" for acc'
    using Suc i by simp
  ultimately show ?case
    using i Suc.prems(1)
    by (simp add: upt_conv_Cons gv_acc_step_def IH split: option.splits)
qed

lemma gv_verify_neq_False: "gv_verify bn p s st \<noteq> Ok False"
  by (auto simp: gv_verify_def gv_verify_with_vk_def Let_def result_simps split: if_splits)

lemma gv_verify_iff:
  "gv_verify bn p s st = Ok True \<longleftrightarrow> (\<exists>vk. gv_key st = Some vk \<and> groth16_accepts bn vk p s)"
proof (cases "gv_key st")
  case None
  then show ?thesis by (simp add: gv_verify_def)
next
  case (Some vk)
  show ?thesis
  proof (cases "\<exists>ic0 ics. vkb_ic vk = ic0 # ics \<and> length ics = length s")
    case True
    then obtain ic0 ics where ic: "vkb_ic vk = ic0 # ics" "length ics = length s" by blast
    have "rfold (gv_acc_step bn (ic0 # ics) s) [0..<length s] ic0 = unwrap (lin_comb bn ic0 (zip ics s))"
      using acc_loop [OF ic(2), of 0] by simp
    with Some ic show ?thesis
      by (auto simp: gv_verify_def gv_verify_with_vk_def groth16_accepts_def Let_def result_simps
          split: if_splits)
  next
    case False
    then have "length s + 1 \<noteq> length (vkb_ic vk)" by (cases "vkb_ic vk") auto
    with Some False show ?thesis
      by (auto simp: gv_verify_def gv_verify_with_vk_def groth16_accepts_def)
  qed
qed

section \<open>Properties\<close>

text \<open>C21: The verifier answers \<open>true\<close> exactly when a key is stored, the number of public inputs fits
  the key, and the pairing equation holds for the linear combination of the key's input points; it
  never answers \<open>false\<close> (a wrong proof is the error \<open>InvalidProof\<close>).\<close>

theorem gv_verify_decides:
  "(gv_verify bn p s st = Ok True \<longleftrightarrow> (\<exists>vk. gv_key st = Some vk \<and> groth16_accepts bn vk p s)) \<and>
   gv_verify bn p s st \<noteq> Ok False"
  using gv_verify_iff gv_verify_neq_False by blast

text \<open>Parsing a serialised proof: exactly the 256-byte strings are accepted, parsing inverts the
  concatenation A || B || C in both directions, and a parsed proof never counts as empty.\<close>

theorem groth16_format:
  "((\<exists>p. groth16_try_from bs = Ok p \<and> groth16_wf p \<and> groth16_to_bytes p = bs \<and> \<not> groth16_is_empty p)
      \<longleftrightarrow> length bs = 256) \<and>
   (groth16_wf p \<longrightarrow> groth16_try_from (groth16_to_bytes p) = Ok p) \<and>
   (length bs \<noteq> 256 \<longrightarrow> groth16_try_from bs = Err G16_MalformedProof)"
proof (intro conjI)
  show "length bs \<noteq> 256 \<longrightarrow> groth16_try_from bs = Err G16_MalformedProof"
    by (simp add: groth16_try_from_def g16_sizes)
  show "groth16_wf p \<longrightarrow> groth16_try_from (groth16_to_bytes p) = Ok p"
    by (simp add: groth16_wf_def groth16_to_bytes_def groth16_try_from_parts)
  show "(\<exists>p. groth16_try_from bs = Ok p \<and> groth16_wf p \<and> groth16_to_bytes p = bs \<and> \<not> groth16_is_empty p)
      \<longleftrightarrow> length bs = 256"
  proof
    assume len: "length bs = 256"
    let ?p = "\<lparr>g16_a = take 64 bs, g16_b = take 128 (drop 64 bs), g16_c = drop 192 bs\<rparr>"
    have "groth16_wf ?p" using len by (simp add: groth16_wf_def)
    moreover have "groth16_to_bytes ?p = bs" by (simp add: groth16_to_bytes_def three_parts)
    ultimately show "\<exists>p. groth16_try_from bs = Ok p \<and> groth16_wf p \<and> groth16_to_bytes p = bs \<and> \<not> groth16_is_empty p"
      using groth16_try_from_split [OF len] groth16_wf_not_empty by blast
  next
    assume "\<exists>p. groth16_try_from bs = Ok p \<and> groth16_wf p \<and> groth16_to_bytes p = bs \<and> \<not> groth16_is_empty p"
    then show "length bs = 256" by (auto simp: groth16_wf_def groth16_to_bytes_def)
  qed
qed

theorem groth16_format_witness:
  "groth16_try_from (replicate 255 0) = Err G16_MalformedProof \<and>
   (\<exists>p. groth16_try_from (replicate 256 1) = Ok p)"
  using groth16_format [of "replicate 255 0"] groth16_format [of "replicate 256 1"] by auto

end
