(* ===== verification/Pool.thy ===== *)
theory Pool
  imports Pool_Merkle Asp_Membership Asp_Non_Membership Groth16
begin

text \<open>
  The privacy pool contract, \<open>contracts/pool/src/pool.rs\<close>.  A \<open>world\<close> holds the pool's own
  storage and the contracts it calls: membership, non-membership and verifier contracts by
  address (models of the contracts of this repository), and the state of the token contracts.
  Tokens are third-party code: their \<open>transfer\<close> is a parameter that may trap.  XDR encoding and
  Keccak are host functions and parameters as well.  A cross-contract call that ends in an error
  traps in the generated client, so it is \<open>Panic\<close> here.
\<close>

section \<open>Data\<close>

datatype pool_error =
    PE_NotAuthorized | PE_MerkleTreeFull | PE_AlreadyInitialized | PE_WrongLevels
  | PE_NextIndexNotEven | PE_WrongExtAmount | PE_InvalidProof | PE_UnknownRoot
  | PE_AlreadySpentNullifier | PE_WrongExtHash | PE_NotInitialized

text \<open>The discriminants of the contract error, by which the derived order compares.\<close>

primrec pool_error_code :: "pool_error \<Rightarrow> u32" where
  "pool_error_code PE_NotAuthorized = 1"
| "pool_error_code PE_MerkleTreeFull = 2"
| "pool_error_code PE_AlreadyInitialized = 3"
| "pool_error_code PE_WrongLevels = 4"
| "pool_error_code PE_NextIndexNotEven = 5"
| "pool_error_code PE_WrongExtAmount = 6"
| "pool_error_code PE_InvalidProof = 7"
| "pool_error_code PE_UnknownRoot = 8"
| "pool_error_code PE_AlreadySpentNullifier = 9"
| "pool_error_code PE_WrongExtHash = 10"
| "pool_error_code PE_NotInitialized = 11"

lemma pool_error_code_inject: "pool_error_code a = pool_error_code b \<longleftrightarrow> a = b"
  by (cases a; cases b) simp_all

instantiation pool_error :: linorder
begin

definition less_eq_pool_error :: "pool_error \<Rightarrow> pool_error \<Rightarrow> bool" where
  "less_eq_pool_error a b \<longleftrightarrow> pool_error_code a \<le> pool_error_code b"

definition less_pool_error :: "pool_error \<Rightarrow> pool_error \<Rightarrow> bool" where
  "less_pool_error a b \<longleftrightarrow> pool_error_code a < pool_error_code b"

instance
  by standard
    (auto simp: less_eq_pool_error_def less_pool_error_def order_less_le pool_error_code_inject)

end

primrec pool_error_from :: "mk_error \<Rightarrow> pool_error" where
  "pool_error_from MK_AlreadyInitialized = PE_AlreadyInitialized"
| "pool_error_from MK_MerkleTreeFull = PE_MerkleTreeFull"
| "pool_error_from MK_WrongLevels = PE_WrongLevels"
| "pool_error_from MK_NextIndexNotEven = PE_NextIndexNotEven"
| "pool_error_from MK_NotInitialized = PE_NotInitialized"

record tx_proof =
  tp_proof :: groth16_proof
  tp_root :: u256
  tp_input_nullifiers :: "u256 list"
  tp_output_commitment0 :: u256
  tp_output_commitment1 :: u256
  tp_public_amount :: u256
  tp_ext_data_hash :: bytes
  tp_asp_membership_root :: u256
  tp_asp_non_membership_root :: u256

record ext_data =
  ed_recipient :: address
  ed_ext_amount :: i256
  ed_encrypted_output0 :: bytes
  ed_encrypted_output1 :: bytes

record account =
  ac_owner :: address
  ac_encryption_key :: bytes
  ac_note_key :: bytes

datatype pool_event =
    is_NewCommitment: NewCommitment (nc_commitment: u256) (nc_index: u32) (nc_encrypted_output: bytes)
  | is_NewNullifier: NewNullifier (nn_nullifier: u256)
  | PublicKey (pk_owner: address) (pk_encryption_key: bytes) (pk_note_key: bytes)

record pool =
  po_admin :: "address option"
  po_token :: "address option"
  po_verifier :: "address option"
  po_maximum_deposit :: "u256 option"
  po_nullifiers :: "(u256 \<Rightarrow> bool option) option"
  po_asp_membership :: "address option"
  po_asp_non_membership :: "address option"
  po_tree :: merkle_store
  po_events :: "pool_event list"

definition po_empty :: pool where
  "po_empty = \<lparr>po_admin = None, po_token = None, po_verifier = None, po_maximum_deposit = None,
     po_nullifiers = None, po_asp_membership = None, po_asp_non_membership = None,
     po_tree = mk_empty, po_events = []\<rparr>"

text \<open>Host functions, and the transfer of a token contract (token, from, to, amount).\<close>

record host =
  h_permutation :: permutation
  h_bn254 :: bn254
  h_to_xdr :: "ext_data \<Rightarrow> bytes"
  h_keccak256 :: "bytes \<Rightarrow> bytes"

type_synonym 'tok transfer = "address \<Rightarrow> address \<Rightarrow> address \<Rightarrow> i128 \<Rightarrow> 'tok \<Rightarrow> 'tok option"

record 'tok world =
  w_pool :: pool
  w_membership :: "address \<Rightarrow> asp_membership option"
  w_non_membership :: "address \<Rightarrow> asp_non_membership option"
  w_verifier :: "address \<Rightarrow> groth16_verifier option"
  w_tokens :: 'tok

section \<open>Helpers\<close>

definition po_emit :: "pool_event \<Rightarrow> pool \<Rightarrow> pool" where
  "po_emit ev st = st\<lparr>po_events := po_events st @ [ev]\<rparr>"

definition hash_ext_data :: "host \<Rightarrow> ext_data \<Rightarrow> (bytes, pool_error) result" where
  "hash_ext_data H ext =
     (let payload = h_to_xdr H ext;
          digest = h_keccak256 H payload;
          digest_u256 = u256_from_be_bytes digest in
      rbind (u256_rem_euclid digest_u256 bn256_modulus) (\<lambda>reduced.
      Ok (u256_to_be_bytes reduced)))"

definition max_ext_amount :: u256 where
  "max_ext_amount = push_bit 192 0x0100000000000000"

definition i256_to_i128_nonneg :: "i256 \<Rightarrow> (i128, pool_error) result" where
  "i256_to_i128_nonneg v =
     (if i256_less v 0 then Err PE_WrongExtAmount else ok_or (i256_to_i128 v) PE_WrongExtAmount)"

definition i256_abs_to_u256 :: "i256 \<Rightarrow> (u256, pool_error) result" where
  "i256_abs_to_u256 v =
     rbind (if \<not> i256_less v 0 then Ok v else i256_sub 0 v) (\<lambda>a.
     Ok (u256_from_be_bytes (i256_to_be_bytes a)))"

definition calculate_public_amount :: "i256 \<Rightarrow> (u256, pool_error) result" where
  "calculate_public_amount ext_amount =
     rbind (i256_abs_to_u256 ext_amount) (\<lambda>abs_ext.
     if max_ext_amount \<le> abs_ext then Err PE_WrongExtAmount
     else if \<not> i256_less ext_amount 0 then
       Ok (u256_from_be_bytes (i256_to_be_bytes ext_amount))
     else
       rbind (i256_sub 0 ext_amount) (\<lambda>neg.
       let neg_u256 = u256_from_be_bytes (i256_to_be_bytes neg) in
       u256_sub bn256_modulus neg_u256))"

definition po_get_nullifiers :: "pool \<Rightarrow> (u256 \<Rightarrow> bool option, pool_error) result" where
  "po_get_nullifiers st = ok_or (po_nullifiers st) PE_NotInitialized"

definition po_is_spent :: "u256 \<Rightarrow> pool \<Rightarrow> (bool, pool_error) result" where
  "po_is_spent n st =
     rbind (po_get_nullifiers st) (\<lambda>nulls.
     Ok (case nulls n of Some b \<Rightarrow> b | None \<Rightarrow> False))"

definition po_mark_spent :: "u256 \<Rightarrow> pool \<Rightarrow> (pool, pool_error) result" where
  "po_mark_spent n st =
     rbind (po_get_nullifiers st) (\<lambda>nulls.
     Ok (st\<lparr>po_nullifiers := Some (nulls(n \<mapsto> True))\<rparr>))"

definition po_get_token :: "pool \<Rightarrow> (address, pool_error) result" where
  "po_get_token st = ok_or (po_token st) PE_NotInitialized"

definition po_get_maximum_deposit :: "pool \<Rightarrow> (u256, pool_error) result" where
  "po_get_maximum_deposit st = ok_or (po_maximum_deposit st) PE_NotInitialized"

definition po_get_verifier :: "pool \<Rightarrow> (address, pool_error) result" where
  "po_get_verifier st = ok_or (po_verifier st) PE_NotInitialized"

definition po_get_admin :: "pool \<Rightarrow> (address, pool_error) result" where
  "po_get_admin st = ok_or (po_admin st) PE_NotInitialized"

definition po_get_asp_membership :: "pool \<Rightarrow> (address, pool_error) result" where
  "po_get_asp_membership st = ok_or (po_asp_membership st) PE_NotInitialized"

definition po_get_asp_non_membership :: "pool \<Rightarrow> (address, pool_error) result" where
  "po_get_asp_non_membership st = ok_or (po_asp_non_membership st) PE_NotInitialized"

definition po_get_root :: "pool \<Rightarrow> (u256, pool_error) result" where
  "po_get_root st = map_err pool_error_from (mk_get_last_root (po_tree st))"

text \<open>A call through a generated client: the callee must exist, and its error is a trap.\<close>

definition client_call :: "'c option \<Rightarrow> ('c \<Rightarrow> ('r, 'x) result) \<Rightarrow> ('r, 'e) result" where
  "client_call callee f =
     (case callee of None \<Rightarrow> Panic
      | Some c \<Rightarrow> (case f c of Ok r \<Rightarrow> Ok r | Err _ \<Rightarrow> Panic | Panic \<Rightarrow> Panic))"

definition get_asp_membership_root :: "'tok world \<Rightarrow> (u256, pool_error) result" where
  "get_asp_membership_root w =
     rbind (po_get_asp_membership (w_pool w)) (\<lambda>asp_address.
     client_call (w_membership w asp_address) am_get_root)"

definition get_asp_non_membership_root :: "'tok world \<Rightarrow> (u256, pool_error) result" where
  "get_asp_non_membership_root w =
     rbind (po_get_asp_non_membership (w_pool w)) (\<lambda>asp_address.
     client_call (w_non_membership w asp_address) nm_get_root)"

definition token_client_transfer ::
  "'tok transfer \<Rightarrow> address \<Rightarrow> address \<Rightarrow> address \<Rightarrow> i128 \<Rightarrow> 'tok world \<Rightarrow> ('tok world, pool_error) result" where
  "token_client_transfer xfer token src dst amount w =
     rbind (unwrap (xfer token src dst amount (w_tokens w))) (\<lambda>tok.
     Ok (w\<lparr>w_tokens := tok\<rparr>))"

section \<open>Proof verification\<close>

definition public_inputs :: "bn254 \<Rightarrow> tx_proof \<Rightarrow> u256 list" where
  "public_inputs bn p =
     (let fr = bn_fr_from_bytes bn;
          n = length (tp_input_nullifiers p) in
      [fr (u256_to_be_bytes (tp_root p)), fr (u256_to_be_bytes (tp_public_amount p)),
       fr (tp_ext_data_hash p)] @
      map (\<lambda>nullifier. fr (u256_to_be_bytes nullifier)) (tp_input_nullifiers p) @
      [fr (u256_to_be_bytes (tp_output_commitment0 p)), fr (u256_to_be_bytes (tp_output_commitment1 p))] @
      replicate n (fr (u256_to_be_bytes (tp_asp_membership_root p))) @
      replicate n (fr (u256_to_be_bytes (tp_asp_non_membership_root p))))"

definition po_verify_proof :: "host \<Rightarrow> tx_proof \<Rightarrow> 'tok world \<Rightarrow> (bool, pool_error) result" where
  "po_verify_proof H p w =
     (if groth16_is_empty (tp_proof p) then Err PE_InvalidProof
      else
        rbind (po_get_verifier (w_pool w)) (\<lambda>verifier.
        client_call (w_verifier w verifier)
          (gv_verify (h_bn254 H) (tp_proof p) (public_inputs (h_bn254 H) p))))"

section \<open>Entry points\<close>

definition po_constructor ::
  "address \<Rightarrow> address \<Rightarrow> address \<Rightarrow> address \<Rightarrow> address \<Rightarrow> u256 \<Rightarrow> u32 \<Rightarrow> pool \<Rightarrow> (pool, pool_error) result" where
  "po_constructor admin token verifier asp_membership asp_non_membership maximum_deposit_amount levels st =
     (let st1 = st\<lparr>po_admin := Some admin, po_token := Some token, po_verifier := Some verifier,
                   po_asp_membership := Some asp_membership,
                   po_asp_non_membership := Some asp_non_membership,
                   po_maximum_deposit := Some maximum_deposit_amount,
                   po_nullifiers := Some Map.empty\<rparr> in
      rbind (map_err pool_error_from (mk_init levels (po_tree st1))) (\<lambda>tree.
      Ok (st1\<lparr>po_tree := tree\<rparr>)))"

text \<open>Step 2 of \<open>internal_transact\<close>: no input nullifier may be spent.\<close>

definition po_check_unspent :: "pool \<Rightarrow> u256 \<Rightarrow> unit \<Rightarrow> (unit, pool_error) result" where
  "po_check_unspent st n _ =
     rbind (po_is_spent n st) (\<lambda>spent. fail_if spent PE_AlreadySpentNullifier)"

text \<open>Step 6: mark and publish; an error of \<open>mark_spent\<close> is ignored (\<open>let _ =\<close>).\<close>

definition po_spend :: "u256 \<Rightarrow> pool \<Rightarrow> (pool, pool_error) result" where
  "po_spend n st =
     (case po_mark_spent n st of
        Ok st' \<Rightarrow> Ok (po_emit (NewNullifier n) st')
      | Err _ \<Rightarrow> Ok (po_emit (NewNullifier n) st)
      | Panic \<Rightarrow> Panic)"

definition internal_transact ::
  "host \<Rightarrow> 'tok transfer \<Rightarrow> env \<Rightarrow> tx_proof \<Rightarrow> ext_data \<Rightarrow> 'tok world \<Rightarrow> ('tok world, pool_error) result" where
  "internal_transact H xfer env p ext w =
     (let st = w_pool w in
      rbind (map_err pool_error_from (mk_is_known_root (tp_root p) (po_tree st))) (\<lambda>known.
      if \<not> known then Err PE_UnknownRoot
      else
        rbind (rfold (po_check_unspent st) (tp_input_nullifiers p) ()) (\<lambda>_.
        rbind (hash_ext_data H ext) (\<lambda>ext_hash.
        if ext_hash \<noteq> tp_ext_data_hash p then Err PE_WrongExtHash
        else
          rbind (calculate_public_amount (ed_ext_amount ext)) (\<lambda>expected_public_amount.
          if tp_public_amount p \<noteq> expected_public_amount then Err PE_WrongExtAmount
          else
            rbind (get_asp_membership_root w) (\<lambda>member_root.
            rbind (get_asp_non_membership_root w) (\<lambda>non_member_root.
            if member_root \<noteq> tp_asp_membership_root p
              \<or> non_member_root \<noteq> tp_asp_non_membership_root p then Err PE_InvalidProof
            else
              rbind (po_verify_proof H p w) (\<lambda>valid.
              if \<not> valid then Err PE_InvalidProof
              else
                rbind (rfold po_spend (tp_input_nullifiers p) st) (\<lambda>st1.
                let w1 = w\<lparr>w_pool := st1\<rparr> in
                rbind (po_get_token st1) (\<lambda>token.
                rbind
                  (if i256_less (ed_ext_amount ext) 0 then
                     rbind (i256_sub 0 (ed_ext_amount ext)) (\<lambda>a.
                     rbind (i256_to_i128_nonneg a) (\<lambda>amount.
                     token_client_transfer xfer token (current_contract env) (ed_recipient ext) amount w1))
                   else Ok w1) (\<lambda>w2.
                rbind (map_err pool_error_from
                    (mk_insert_two_leaves (h_permutation H) (tp_output_commitment0 p)
                       (tp_output_commitment1 p) (po_tree (w_pool w2)))) (\<lambda>(tree, idx_0, idx_1).
                let st2 = (w_pool w2)\<lparr>po_tree := tree\<rparr>;
                    st3 = po_emit (NewCommitment (tp_output_commitment0 p) idx_0 (ed_encrypted_output0 ext)) st2;
                    st4 = po_emit (NewCommitment (tp_output_commitment1 p) idx_1 (ed_encrypted_output1 ext)) st3 in
                Ok (w2\<lparr>w_pool := st4\<rparr>)))))))))))))"

definition transact ::
  "host \<Rightarrow> 'tok transfer \<Rightarrow> env \<Rightarrow> tx_proof \<Rightarrow> ext_data \<Rightarrow> address \<Rightarrow> 'tok world \<Rightarrow> ('tok world, pool_error) result" where
  "transact H xfer env p ext sender w =
     rbind (require_auth env sender) (\<lambda>_.
     rbind (po_get_token (w_pool w)) (\<lambda>token.
     rbind
       (if i256_less 0 (ed_ext_amount ext) then
          let deposit_u = u256_from_be_bytes (i256_to_be_bytes (ed_ext_amount ext)) in
          rbind (po_get_maximum_deposit (w_pool w)) (\<lambda>max.
          if max < deposit_u then Err PE_WrongExtAmount
          else
            rbind (i256_to_i128_nonneg (ed_ext_amount ext)) (\<lambda>amount.
            token_client_transfer xfer token sender (current_contract env) amount w))
        else Ok w) (\<lambda>w1.
     internal_transact H xfer env p ext w1)))"

definition po_register :: "env \<Rightarrow> account \<Rightarrow> pool \<Rightarrow> (pool, pool_error) result" where
  "po_register env ac st =
     rbind (require_auth env (ac_owner ac)) (\<lambda>_.
     Ok (po_emit (PublicKey (ac_owner ac) (ac_encryption_key ac) (ac_note_key ac)) st))"

definition po_set_admin :: "address \<Rightarrow> pool \<Rightarrow> pool" where
  "po_set_admin a st = st\<lparr>po_admin := Some a\<rparr>"

definition po_update_admin :: "env \<Rightarrow> address \<Rightarrow> pool \<Rightarrow> (pool, pool_error) result" where
  "po_update_admin env new_admin st =
     (if po_admin st = None then Err PE_NotInitialized
      else update_admin env po_admin po_set_admin new_admin st)"

definition po_update_asp_membership :: "env \<Rightarrow> address \<Rightarrow> pool \<Rightarrow> (pool, pool_error) result" where
  "po_update_asp_membership env new_asp_membership st =
     rbind (po_get_admin st) (\<lambda>admin.
     rbind (require_auth env admin) (\<lambda>_.
     Ok (st\<lparr>po_asp_membership := Some new_asp_membership\<rparr>)))"

definition po_update_asp_non_membership :: "env \<Rightarrow> address \<Rightarrow> pool \<Rightarrow> (pool, pool_error) result" where
  "po_update_asp_non_membership env new_asp_non_membership st =
     rbind (po_get_admin st) (\<lambda>admin.
     rbind (require_auth env admin) (\<lambda>_.
     Ok (st\<lparr>po_asp_non_membership := Some new_asp_non_membership\<rparr>)))"

end
