(* ===== verification/Pool_Amounts.thy ===== *)
theory Pool_Amounts
  imports Pool
begin

text \<open>
  The amount arithmetic of the pool: the public amount is the external amount modulo the field
  order, for magnitudes below \<open>2 ^ 248\<close>, and no two accepted external amounts share one.
\<close>

lemma uint_modulus: "uint bn256_modulus = field_order"
  by (simp add: uint_nat)

lemma sint_range: "- (2 ^ 255) \<le> sint (v :: i256) \<and> sint v < 2 ^ 255"
  using sint_greater_eq [of v] sint_less [of v] by simp

lemma uint_mod_sint: "uint (v :: i256) = sint v mod 2 ^ 256"
  by (simp add: uint_sint take_bit_eq_mod)

lemma uint_of_nonneg: "0 \<le> sint (v :: i256) \<Longrightarrow> uint v = sint v"
  using sint_range [of v] by (simp add: uint_mod_sint)

lemma sint_of_uint: "uint (v :: i256) < 2 ^ 255 \<Longrightarrow> sint v = uint v"
proof -
  assume "uint v < 2 ^ 255"
  moreover have "- (2 ^ 255) \<le> uint v" by (rule order_trans [of _ 0]) simp_all
  ultimately show ?thesis
    using signed_take_bit_int_eq_self [of 255 "uint v"] unfolding sint_uint by simp
qed

lemma i256_neg:
  assumes "- (2 ^ 255) < sint (v :: i256)" and "sint v < 0"
  shows "i256_sub 0 v = Ok (- v)" and "sint (- v) = - sint v" and "uint (- v) = - sint v"
proof -
  show "i256_sub 0 v = Ok (- v)" using assms by (simp add: i256_sub_def)
  have "uint (- v) = (- uint v) mod 2 ^ 256" by (simp add: uint_word_ariths)
  also have "\<dots> = (- sint v) mod 2 ^ 256" by (simp add: uint_mod_sint mod_minus_eq)
  also have "\<dots> = - sint v" using assms by simp
  finally show "uint (- v) = - sint v" .
  then show "sint (- v) = - sint v" using assms by (subst sint_of_uint) simp_all
qed

lemma i256_neg_min: "sint (v :: i256) = - (2 ^ 255) \<Longrightarrow> i256_sub 0 v = Panic"
  by (simp add: i256_sub_def)

lemma i256_less_0: "i256_less v 0 \<longleftrightarrow> sint v < 0" "i256_less 0 v \<longleftrightarrow> 0 < sint v"
  by (simp_all add: i256_less_def)

lemma uint_max_ext_amount: "uint max_ext_amount = 2 ^ 248"
  by (simp add: max_ext_amount_def)

lemma abs_to_u256:
  "i256_abs_to_u256 v = (if sint v = - (2 ^ 255) then Panic else Ok (if sint v < 0 then - v else v))"
  using sint_range [of v] i256_neg [of v] i256_neg_min [of v]
  by (auto simp: i256_abs_to_u256_def i256_less_0)

lemma uint_abs:
  assumes "sint (v :: i256) \<noteq> - (2 ^ 255)"
  shows "uint (if sint v < 0 then - v else v) = \<bar>sint v\<bar>"
proof (cases "sint v < 0")
  case True
  with assms sint_range [of v] have "- (2 ^ 255) < sint v" by simp
  with i256_neg [OF this True] True show ?thesis by simp
qed (simp add: uint_of_nonneg)

lemma mod_field_neg:
  assumes "- (2 ^ 248) < (x :: int)" and "x < 0"
  shows "x mod field_order = field_order + x"
proof -
  have "x mod field_order = (field_order + x) mod field_order" by simp
  also have "\<dots> = field_order + x" by (rule mod_pos_pos_trivial) (use assms in simp_all)
  finally show ?thesis .
qed

lemma public_amount_exact:
  "calculate_public_amount v =
     (if sint v = - (2 ^ 255) then Panic
      else if 2 ^ 248 \<le> \<bar>sint v\<bar> then Err PE_WrongExtAmount
      else Ok (word_of_int (sint v mod field_order)))"
proof (cases "sint v = - (2 ^ 255)")
  case True
  then show ?thesis by (simp add: calculate_public_amount_def abs_to_u256)
next
  case False
  let ?a = "if sint v < 0 then - v else v"
  have le: "max_ext_amount \<le> ?a \<longleftrightarrow> 2 ^ 248 \<le> \<bar>sint v\<bar>"
    unfolding word_le_def uint_max_ext_amount uint_abs [OF False] ..
  show ?thesis
  proof (cases "2 ^ 248 \<le> \<bar>sint v\<bar>")
    case True
    with False le show ?thesis by (simp add: calculate_public_amount_def abs_to_u256)
  next
    case small: False
    show ?thesis
    proof (cases "sint v < 0")
      case True
      with small have v: "- (2 ^ 248) < sint v" by simp
      then have "- (2 ^ 255) < sint v" by simp
      note neg = i256_neg [OF this True]
      have "uint (- v) \<le> uint bn256_modulus" using neg(3) v by (simp add: uint_modulus)
      then have "u256_sub bn256_modulus (- v) = (Ok (bn256_modulus - - v) :: (u256, pool_error) result)"
        unfolding u256_sub_def word_le_def [symmetric] word_le_nat_alt by simp
      moreover have "bn256_modulus - - v = word_of_int (sint v mod field_order)"
      proof -
        have "bn256_modulus + v = word_of_int (uint bn256_modulus) + word_of_int (sint v)" by simp
        also have "\<dots> = word_of_int (field_order + sint v)" unfolding uint_modulus by simp
        also have "\<dots> = word_of_int (sint v mod field_order)" using mod_field_neg [OF v True] by simp
        finally show ?thesis by simp
      qed
      ultimately show ?thesis
        using True False small le neg(1)
        by (simp add: calculate_public_amount_def abs_to_u256 i256_less_0 neg)
    next
      case nonneg: False
      with small have "sint v mod field_order = sint v" by (intro mod_pos_pos_trivial) simp_all
      with nonneg False small le show ?thesis
        by (simp add: calculate_public_amount_def abs_to_u256 i256_less_0)
    qed
  qed
qed

text \<open>The external amount can be read back from the public amount.\<close>

definition signed_amount :: "u256 \<Rightarrow> int" where
  "signed_amount a = (if uint a < 2 ^ 248 then uint a else uint a - field_order)"

lemma signed_amount_public:
  assumes "calculate_public_amount v = Ok a"
  shows "signed_amount a = sint v"
proof -
  have small: "\<bar>sint v\<bar> < 2 ^ 248" and a: "a = word_of_int (sint v mod field_order)"
    using assms by (auto simp: public_amount_exact split: if_splits)
  have range: "0 \<le> sint v mod field_order" "sint v mod field_order < 2 ^ 256"
    using pos_mod_bound [of field_order "sint v"] by simp_all
  then have ua: "uint a = sint v mod field_order"
    unfolding a by (simp add: uint_word_of_int)
  show ?thesis
  proof (cases "sint v < 0")
    case True
    with small mod_field_neg [of "sint v"] ua show ?thesis by (simp add: signed_amount_def)
  next
    case False
    with small have "sint v mod field_order = sint v" by (intro mod_pos_pos_trivial) simp_all
    with small ua show ?thesis by (simp add: signed_amount_def)
  qed
qed

lemma i128_amount:
  assumes "i256_to_i128_nonneg v = Ok a"
  shows "0 \<le> sint v \<and> sint v < 2 ^ 127 \<and> sint a = sint v"
proof -
  from assms have v: "0 \<le> sint v" "sint v < 2 ^ 127" "a = word_of_int (sint v)"
    by (auto simp: i256_to_i128_nonneg_def i256_to_i128_def i256_less_0 result_simps split: if_splits)
  have "sint a = signed_take_bit 127 (sint v)" unfolding v(3) by (subst signed_of_int) simp
  also have "\<dots> = sint v" using v by (intro signed_take_bit_int_eq_self) simp_all
  finally show ?thesis using v by simp
qed

lemma i128_amount_exists:
  "0 \<le> sint v \<Longrightarrow> sint v < 2 ^ 127 \<Longrightarrow> \<exists>a. i256_to_i128_nonneg v = Ok a"
  by (auto simp: i256_to_i128_nonneg_def i256_to_i128_def i256_less_0)

section \<open>Properties\<close>

text \<open>The public amount of an external amount \<open>x\<close> is \<open>x\<close> modulo the field order, for every
  \<open>x\<close> of magnitude below \<open>2 ^ 248\<close>; larger magnitudes are \<open>WrongExtAmount\<close>, and only the least
  256-bit integer traps.\<close>

theorem public_amount_spec:
  "calculate_public_amount v =
     (if sint v = - (2 ^ 255) then Panic
      else if 2 ^ 248 \<le> \<bar>sint v\<bar> then Err PE_WrongExtAmount
      else Ok (word_of_int (sint v mod field_order)))"
  by (rule public_amount_exact)

text \<open>Two external amounts with the same public amount are equal, so a proof's public amount
  determines what is paid in or out.\<close>

theorem public_amount_injective:
  assumes "calculate_public_amount v = Ok a" and "calculate_public_amount v' = Ok a"
  shows "v = v'"
  using signed_amount_public [OF assms(1)] signed_amount_public [OF assms(2)]
  by (metis signed_word_eqI)

theorem public_amount_injective_witness:
  "\<exists>a. calculate_public_amount (- 5) = Ok a \<and> signed_amount a = - 5"
proof -
  have v: "calculate_public_amount (- 5) = Ok (word_of_int (- 5 mod field_order))"
    by (simp add: public_amount_exact)
  have "(- 5 :: i256) = - 5" by (rule public_amount_injective [OF v v])
  with v signed_amount_public [OF v] show ?thesis by auto
qed

end
