(* ===== verification/Pool_Correct.thy ===== *)
theory Pool_Correct
  imports Pool_Amounts
begin

text \<open>
  What a pool transaction checks and what it changes.  \<open>tx_checks\<close> collects the validation steps of
  \<open>transact\<close>; \<open>transact_OkE\<close> takes a successful call apart into those checks, the token movement
  and the new storage; \<open>po_inv\<close> is the invariant that ties the storage to the event log.
\<close>

section \<open>The nullifier loops\<close>

definition spent :: "pool \<Rightarrow> u256 \<Rightarrow> bool" where
  "spent st n \<longleftrightarrow> (\<exists>m. po_nullifiers st = Some m \<and> m n = Some True)"

lemma po_is_spent_iff:
  "po_is_spent n st = Ok b \<longleftrightarrow> po_nullifiers st \<noteq> None \<and> b = spent st n"
proof (cases "po_nullifiers st")
  case (Some m)
  then show ?thesis
    by (cases "m n") (auto simp: po_is_spent_def po_get_nullifiers_def spent_def)
qed (simp add: po_is_spent_def po_get_nullifiers_def)

lemma po_check_loop:
  "rfold (po_check_unspent st) ns () = Ok () \<longleftrightarrow>
     ns = [] \<or> (po_nullifiers st \<noteq> None \<and> (\<forall>n \<in> set ns. \<not> spent st n))"
  by (induction ns) (auto simp: po_check_unspent_def po_is_spent_iff result_simps)

lemma po_check_loop_spent:
  assumes "po_nullifiers st \<noteq> None" and "n \<in> set ns" and "spent st n"
  shows "rfold (po_check_unspent st) ns () = Err PE_AlreadySpentNullifier"
  using assms(2)
proof (induction ns)
  case (Cons x xs)
  have "po_is_spent x st = Ok (spent st x)" using assms(1) by (simp add: po_is_spent_iff)
  with Cons assms(3) show ?case by (cases "spent st x") (auto simp: po_check_unspent_def)
qed simp

definition spend_all :: "u256 list \<Rightarrow> pool \<Rightarrow> pool" where
  "spend_all ns st = st\<lparr>
     po_nullifiers := map_option (\<lambda>m n. if n \<in> set ns then Some True else m n) (po_nullifiers st),
     po_events := po_events st @ map NewNullifier ns\<rparr>"

lemma po_spend_eq: "po_spend n st = Ok (spend_all [n] st)"
proof (cases "po_nullifiers st")
  case None
  then show ?thesis
    by (simp add: po_spend_def po_mark_spent_def po_get_nullifiers_def spend_all_def po_emit_def)
next
  case (Some m)
  have "m(n \<mapsto> True) = (\<lambda>x. if x = n then Some True else m x)" by (simp add: fun_upd_def)
  with Some show ?thesis
    by (simp add: po_spend_def po_mark_spent_def po_get_nullifiers_def spend_all_def po_emit_def)
qed

lemma spend_all_Cons: "spend_all ns (spend_all [n] st) = spend_all (n # ns) st"
  by (cases "po_nullifiers st") (auto simp: spend_all_def fun_eq_iff)

lemma po_spend_loop: "rfold po_spend ns st = Ok (spend_all ns st)"
proof (induction ns arbitrary: st)
  case Nil
  show ?case by (cases "po_nullifiers st") (auto simp: spend_all_def intro!: pool.equality)
next
  case (Cons n ns)
  then show ?case by (simp add: po_spend_eq spend_all_Cons)
qed

lemma spent_spend_all:
  "po_nullifiers st \<noteq> None \<Longrightarrow> spent (spend_all ns st) n \<longleftrightarrow> spent st n \<or> n \<in> set ns"
  by (auto simp: spent_def spend_all_def)

section \<open>A successful transaction\<close>

text \<open>Everything \<open>transact\<close> has verified when it returns \<open>Ok\<close>.\<close>

definition tx_checks ::
  "host \<Rightarrow> env \<Rightarrow> tx_proof \<Rightarrow> ext_data \<Rightarrow> address \<Rightarrow> 'tok world \<Rightarrow> bool" where
  "tx_checks H env p ext sender w \<longleftrightarrow>
     authorized env sender \<and>
     mk_is_known_root (tp_root p) (po_tree (w_pool w)) = Ok True \<and>
     (\<forall>n \<in> set (tp_input_nullifiers p). \<not> spent (w_pool w) n) \<and>
     tp_ext_data_hash p =
       u256_to_be_bytes (u256_from_be_bytes (h_keccak256 H (h_to_xdr H ext)) mod bn256_modulus) \<and>
     calculate_public_amount (ed_ext_amount ext) = Ok (tp_public_amount p) \<and>
     get_asp_membership_root w = Ok (tp_asp_membership_root p) \<and>
     get_asp_non_membership_root w = Ok (tp_asp_non_membership_root p) \<and>
     (\<exists>a v vk. po_verifier (w_pool w) = Some a \<and> w_verifier w a = Some v \<and> gv_key v = Some vk \<and>
        groth16_accepts (h_bn254 H) vk (tp_proof p) (public_inputs (h_bn254 H) p)) \<and>
     (0 < sint (ed_ext_amount ext) \<longrightarrow>
        (\<exists>m. po_maximum_deposit (w_pool w) = Some m \<and> sint (ed_ext_amount ext) \<le> uint m))"

text \<open>The token movement: in from the sender, out to the recipient, or none.\<close>

definition tx_payment ::
  "'tok transfer \<Rightarrow> env \<Rightarrow> ext_data \<Rightarrow> address \<Rightarrow> 'tok world \<Rightarrow> 'tok \<Rightarrow> bool" where
  "tx_payment xfer env ext sender w tok \<longleftrightarrow>
     (let x = sint (ed_ext_amount ext) in
      \<exists>token. po_token (w_pool w) = Some token \<and>
        (if 0 < x then
           \<exists>a. sint a = x \<and> xfer token sender (current_contract env) a (w_tokens w) = Some tok
         else if x < 0 then
           \<exists>a. sint a = - x \<and> xfer token (current_contract env) (ed_recipient ext) a (w_tokens w) = Some tok
         else tok = w_tokens w))"

definition tx_result :: "tx_proof \<Rightarrow> ext_data \<Rightarrow> merkle_store \<Rightarrow> u32 \<Rightarrow> u32 \<Rightarrow> pool \<Rightarrow> pool" where
  "tx_result p ext tree i0 i1 st =
     po_emit (NewCommitment (tp_output_commitment1 p) i1 (ed_encrypted_output1 ext))
       (po_emit (NewCommitment (tp_output_commitment0 p) i0 (ed_encrypted_output0 ext))
         ((spend_all (tp_input_nullifiers p) st)\<lparr>po_tree := tree\<rparr>))"

lemma client_call_eq_Ok_iff [result_simps]:
  "client_call c f = Ok r \<longleftrightarrow> (\<exists>x. c = Some x \<and> f x = Ok r)"
  by (auto simp: client_call_def split: option.splits result.splits)

lemma po_verify_proof_iff:
  "po_verify_proof H p w = Ok True \<longleftrightarrow> \<not> groth16_is_empty (tp_proof p) \<and>
     (\<exists>a v vk. po_verifier (w_pool w) = Some a \<and> w_verifier w a = Some v \<and> gv_key v = Some vk \<and>
        groth16_accepts (h_bn254 H) vk (tp_proof p) (public_inputs (h_bn254 H) p))"
  by (auto simp: po_verify_proof_def po_get_verifier_def gv_verify_iff result_simps)

lemma po_verify_proof_not_False: "po_verify_proof H p w \<noteq> Ok False"
  using gv_verify_neq_False
  by (auto simp: po_verify_proof_def result_simps split: if_splits)

lemma hash_ext_data_eq:
  "hash_ext_data H ext = Ok (u256_to_be_bytes
     (u256_from_be_bytes (h_keccak256 H (h_to_xdr H ext)) mod bn256_modulus))"
  by (simp add: hash_ext_data_def)

lemma token_transfer_iff [result_simps]:
  "token_client_transfer xfer t a b n w = Ok w' \<longleftrightarrow>
     (\<exists>tok. xfer t a b n (w_tokens w) = Some tok \<and> w' = w\<lparr>w_tokens := tok\<rparr>)"
  by (auto simp: token_client_transfer_def result_simps)

text \<open>\<open>internal_transact\<close> in two halves: steps 1 to 5 only look, steps 6 to 10 act.\<close>

definition po_validate :: "host \<Rightarrow> tx_proof \<Rightarrow> ext_data \<Rightarrow> 'tok world \<Rightarrow> (unit, pool_error) result" where
  "po_validate H p ext w =
     rbind (map_err pool_error_from (mk_is_known_root (tp_root p) (po_tree (w_pool w)))) (\<lambda>known.
     rbind (fail_if (\<not> known) PE_UnknownRoot) (\<lambda>_.
     rbind (rfold (po_check_unspent (w_pool w)) (tp_input_nullifiers p) ()) (\<lambda>_.
     rbind (hash_ext_data H ext) (\<lambda>ext_hash.
     rbind (fail_if (ext_hash \<noteq> tp_ext_data_hash p) PE_WrongExtHash) (\<lambda>_.
     rbind (calculate_public_amount (ed_ext_amount ext)) (\<lambda>amount.
     rbind (fail_if (tp_public_amount p \<noteq> amount) PE_WrongExtAmount) (\<lambda>_.
     rbind (get_asp_membership_root w) (\<lambda>member_root.
     rbind (get_asp_non_membership_root w) (\<lambda>non_member_root.
     rbind (fail_if (member_root \<noteq> tp_asp_membership_root p
       \<or> non_member_root \<noteq> tp_asp_non_membership_root p) PE_InvalidProof) (\<lambda>_.
     rbind (po_verify_proof H p w) (\<lambda>valid.
     fail_if (\<not> valid) PE_InvalidProof)))))))))))"

definition po_settle ::
  "host \<Rightarrow> 'tok transfer \<Rightarrow> env \<Rightarrow> tx_proof \<Rightarrow> ext_data \<Rightarrow> 'tok world \<Rightarrow> ('tok world, pool_error) result" where
  "po_settle H xfer env p ext w =
     (let w1 = w\<lparr>w_pool := spend_all (tp_input_nullifiers p) (w_pool w)\<rparr> in
      rbind (po_get_token (w_pool w)) (\<lambda>token.
      rbind
        (if sint (ed_ext_amount ext) < 0 then
           rbind (i256_sub 0 (ed_ext_amount ext)) (\<lambda>a.
           rbind (i256_to_i128_nonneg a) (\<lambda>amount.
           token_client_transfer xfer token (current_contract env) (ed_recipient ext) amount w1))
         else Ok w1) (\<lambda>w2.
      rbind (map_err pool_error_from
          (mk_insert_two_leaves (h_permutation H) (tp_output_commitment0 p) (tp_output_commitment1 p)
             (po_tree (w_pool w2)))) (\<lambda>(tree, i0, i1).
      Ok (w2\<lparr>w_pool :=
        po_emit (NewCommitment (tp_output_commitment1 p) i1 (ed_encrypted_output1 ext))
          (po_emit (NewCommitment (tp_output_commitment0 p) i0 (ed_encrypted_output0 ext))
            ((w_pool w2)\<lparr>po_tree := tree\<rparr>))\<rparr>)))))"

lemma fail_if_bind: "rbind (fail_if c e) f = (if c then Err e else f ())"
  by simp

lemma spend_all_frame:
  "po_token (spend_all ns st) = po_token st" "po_tree (spend_all ns st) = po_tree st"
  by (simp_all add: spend_all_def)

lemma internal_transact_split:
  "internal_transact H xfer env p ext w = rbind (po_validate H p ext w) (\<lambda>_. po_settle H xfer env p ext w)"
  unfolding internal_transact_def po_validate_def po_settle_def po_spend_loop rbind_assoc
  unfolding fail_if_bind Let_def rbind.simps(1) po_get_token_def spend_all_frame i256_less_0
  by (rule refl)

lemma po_validate_Ok_iff:
  "po_validate H p ext w = Ok () \<longleftrightarrow>
     mk_is_known_root (tp_root p) (po_tree (w_pool w)) = Ok True \<and>
     rfold (po_check_unspent (w_pool w)) (tp_input_nullifiers p) () = Ok () \<and>
     hash_ext_data H ext = Ok (tp_ext_data_hash p) \<and>
     calculate_public_amount (ed_ext_amount ext) = Ok (tp_public_amount p) \<and>
     get_asp_membership_root w = Ok (tp_asp_membership_root p) \<and>
     get_asp_non_membership_root w = Ok (tp_asp_non_membership_root p) \<and>
     po_verify_proof H p w = Ok True"
  unfolding po_validate_def
  by (auto simp: result_simps)

lemma po_settle_Ok_iff:
  "po_settle H xfer env p ext w = Ok w' \<longleftrightarrow>
     (\<exists>token tok tree i0 i1. po_token (w_pool w) = Some token \<and>
       (if sint (ed_ext_amount ext) < 0 then
          \<exists>a n. i256_sub 0 (ed_ext_amount ext) = (Ok a :: (i256, pool_error) result) \<and>
            i256_to_i128_nonneg a = Ok n \<and>
            xfer token (current_contract env) (ed_recipient ext) n (w_tokens w) = Some tok
        else tok = w_tokens w) \<and>
       mk_insert_two_leaves (h_permutation H) (tp_output_commitment0 p) (tp_output_commitment1 p)
         (po_tree (w_pool w)) = Ok (tree, i0, i1) \<and>
       w' = w\<lparr>w_pool := tx_result p ext tree i0 i1 (w_pool w), w_tokens := tok\<rparr>)"
proof (cases "sint (ed_ext_amount ext) < 0")
  case True
  then show ?thesis
    unfolding po_settle_def Let_def po_get_token_def tx_result_def
    by (fastforce simp: result_simps spend_all_frame)
next
  case False
  then show ?thesis
    unfolding po_settle_def Let_def po_get_token_def tx_result_def
    by (fastforce simp: result_simps spend_all_frame)
qed

text \<open>The amount paid out, as an \<open>i128\<close>.\<close>

lemma paid_out_amount:
  assumes "sint x < 0" and "i256_sub 0 x = (Ok a :: (i256, pool_error) result)" and "i256_to_i128_nonneg a = Ok n"
  shows "sint n = - sint x"
proof -
  have "sint x \<noteq> - (2 ^ 255)" using assms(2) by (auto simp: i256_sub_def)
  with sint_range [of x] have "- (2 ^ 255) < sint x" by simp
  note neg = i256_neg [OF this assms(1)]
  have "i256_sub 0 x = (Ok (- x) :: (i256, pool_error) result)" by (rule neg(1))
  with assms(2) have "a = - x" by simp
  with neg(2) i128_amount [OF assms(3)] show ?thesis by simp
qed

lemma deposit_Ok:
  assumes "0 < sint x"
  shows "uint (u256_from_be_bytes (i256_to_be_bytes x)) = sint x"
  using assms by (simp add: uint_of_nonneg)

text \<open>A successful transaction, taken apart.\<close>

lemma transact_OkE:
  assumes ok: "transact H xfer env p ext sender w = Ok w'"
  obtains tok tree i0 i1 where "tx_checks H env p ext sender w" "tx_payment xfer env ext sender w tok"
    "mk_insert_two_leaves (h_permutation H) (tp_output_commitment0 p) (tp_output_commitment1 p)
       (po_tree (w_pool w)) = Ok (tree, i0, i1)"
    "w' = w\<lparr>w_pool := tx_result p ext tree i0 i1 (w_pool w), w_tokens := tok\<rparr>"
proof -
  let ?x = "ed_ext_amount ext"
  from ok obtain token w1 where t: "authorized env sender" "po_token (w_pool w) = Some token"
    "(if i256_less 0 ?x then
        let deposit_u = u256_from_be_bytes (i256_to_be_bytes ?x) in
        rbind (po_get_maximum_deposit (w_pool w)) (\<lambda>max.
        if max < deposit_u then Err PE_WrongExtAmount
        else rbind (i256_to_i128_nonneg ?x) (\<lambda>amount.
          token_client_transfer xfer token sender (current_contract env) amount w))
      else Ok w) = Ok w1"
    and inner: "internal_transact H xfer env p ext w1 = Ok w'"
    unfolding transact_def rbind_eq_Ok_iff po_get_token_def ok_or_eq_Ok_iff require_auth_eq_Ok_iff
    by blast
  have dep_ex: "\<exists>tok1. w1 = w\<lparr>w_tokens := tok1\<rparr> \<and>
      (if 0 < sint ?x then (\<exists>m. po_maximum_deposit (w_pool w) = Some m \<and> sint ?x \<le> uint m) \<and>
        (\<exists>a. sint a = sint ?x \<and> xfer token sender (current_contract env) a (w_tokens w) = Some tok1)
      else tok1 = w_tokens w)"
  proof (cases "0 < sint ?x")
    case True
    with t(3) obtain m a tok1 where m: "po_maximum_deposit (w_pool w) = Some m"
      "\<not> m < u256_from_be_bytes (i256_to_be_bytes ?x)" "i256_to_i128_nonneg ?x = Ok a"
      "xfer token sender (current_contract env) a (w_tokens w) = Some tok1" "w1 = w\<lparr>w_tokens := tok1\<rparr>"
      by (auto simp: i256_less_0 po_get_maximum_deposit_def result_simps simp del: u256_from_i256_be_bytes
          split: if_splits)
    have "sint ?x \<le> uint m" using m(2) deposit_Ok [OF True] by (simp add: word_less_def)
    with True m i128_amount [OF m(3)] show ?thesis by auto
  next
    case False
    with t(3) show ?thesis by (auto simp: i256_less_0)
  qed
  then obtain tok1 where w1: "w1 = w\<lparr>w_tokens := tok1\<rparr>"
    and dep: "if 0 < sint ?x then (\<exists>m. po_maximum_deposit (w_pool w) = Some m \<and> sint ?x \<le> uint m) \<and>
        (\<exists>a. sint a = sint ?x \<and> xfer token sender (current_contract env) a (w_tokens w) = Some tok1)
      else tok1 = w_tokens w" by blast
  from inner have v: "po_validate H p ext w1 = Ok ()" "po_settle H xfer env p ext w1 = Ok w'"
    unfolding internal_transact_split rbind_eq_Ok_iff by auto
  from v(2) obtain tok tree i0 i1 where s:
    "if sint ?x < 0 then \<exists>a n. i256_sub 0 ?x = (Ok a :: (i256, pool_error) result) \<and>
        i256_to_i128_nonneg a = Ok n \<and>
        xfer token (current_contract env) (ed_recipient ext) n tok1 = Some tok
      else tok = tok1"
    "mk_insert_two_leaves (h_permutation H) (tp_output_commitment0 p) (tp_output_commitment1 p)
       (po_tree (w_pool w)) = Ok (tree, i0, i1)"
    "w' = w\<lparr>w_pool := tx_result p ext tree i0 i1 (w_pool w), w_tokens := tok\<rparr>"
    using t(2) unfolding po_settle_Ok_iff w1 by (auto cong: if_cong)
  have "tx_payment xfer env ext sender w tok"
  proof (cases "sint ?x < 0")
    case True
    with s(1) obtain a n where a: "i256_sub 0 ?x = (Ok a :: (i256, pool_error) result)"
      "i256_to_i128_nonneg a = Ok n" "xfer token (current_contract env) (ed_recipient ext) n tok1 = Some tok"
      by auto
    with paid_out_amount [OF True a(1,2)] dep True t(2) show ?thesis
      unfolding tx_payment_def Let_def by auto
  next
    case False
    with s(1) dep t(2) show ?thesis unfolding tx_payment_def Let_def by auto
  qed
  moreover have "tx_checks H env p ext sender w"
    using v(1) dep t(1) unfolding po_validate_Ok_iff tx_checks_def w1
    by (auto simp: po_check_loop po_verify_proof_iff hash_ext_data_eq get_asp_membership_root_def
        get_asp_non_membership_root_def split: if_splits)
  ultimately show ?thesis using s(2,3) that by blast
qed

end
