(* ===== verification/Pool_Props.thy ===== *)
theory Pool_Props
  imports Pool_Correct
begin

text \<open>
  The pool over its whole life.  \<open>w_call\<close> is every call that can change the world around a pool:
  transactions, pool administration, operations of the ASP contracts, deployments, and any activity
  of the token contracts; failing calls change nothing.  \<open>po_inv\<close> is kept by every step, and
  spent nullifiers stay spent.
\<close>

section \<open>Reading the event log\<close>

definition commitments :: "pool \<Rightarrow> u256 list" where
  "commitments st = map nc_commitment (filter is_NewCommitment (po_events st))"

definition commitment_indices :: "pool \<Rightarrow> nat list" where
  "commitment_indices st = map (unat \<circ> nc_index) (filter is_NewCommitment (po_events st))"

definition nullified :: "pool \<Rightarrow> u256 set" where
  "nullified st = set (map nn_nullifier (filter is_NewNullifier (po_events st)))"

definition po_configured :: "pool \<Rightarrow> bool" where
  "po_configured st \<longleftrightarrow> po_admin st \<noteq> None \<and> po_token st \<noteq> None \<and> po_verifier st \<noteq> None \<and>
     po_maximum_deposit st \<noteq> None \<and> po_asp_membership st \<noteq> None \<and> po_asp_non_membership st \<noteq> None"

definition po_inv :: "permutation \<Rightarrow> nat \<Rightarrow> pool \<Rightarrow> bool" where
  "po_inv P h st \<longleftrightarrow> po_configured st \<and>
     mk_repr P h (po_tree st) (commitments st) \<and>
     commitment_indices st = [0..<length (commitments st)] \<and>
     po_nullifiers st = Some (\<lambda>n. if n \<in> nullified st then Some True else None)"

lemma spent_nullified: "po_inv P h st \<Longrightarrow> spent st n \<longleftrightarrow> n \<in> nullified st"
  by (simp add: po_inv_def spent_def)

lemma filter_nullifier_events [simp]:
  "filter is_NewCommitment (map NewNullifier ns) = []"
  "filter is_NewNullifier (map NewNullifier ns) = map NewNullifier ns"
  by (induction ns) simp_all

lemma tx_result_log:
  "commitments (tx_result p ext tree i0 i1 st) =
     commitments st @ [tp_output_commitment0 p, tp_output_commitment1 p]"
  "commitment_indices (tx_result p ext tree i0 i1 st) = commitment_indices st @ [unat i0, unat i1]"
  "nullified (tx_result p ext tree i0 i1 st) = nullified st \<union> set (tp_input_nullifiers p)"
  by (auto simp: commitments_def commitment_indices_def nullified_def tx_result_def po_emit_def
      spend_all_def image_image)

lemma tx_result_frame:
  "po_admin (tx_result p ext tree i0 i1 st) = po_admin st"
  "po_token (tx_result p ext tree i0 i1 st) = po_token st"
  "po_verifier (tx_result p ext tree i0 i1 st) = po_verifier st"
  "po_maximum_deposit (tx_result p ext tree i0 i1 st) = po_maximum_deposit st"
  "po_asp_membership (tx_result p ext tree i0 i1 st) = po_asp_membership st"
  "po_asp_non_membership (tx_result p ext tree i0 i1 st) = po_asp_non_membership st"
  "po_tree (tx_result p ext tree i0 i1 st) = tree"
  "po_nullifiers (tx_result p ext tree i0 i1 st) =
     map_option (\<lambda>m n. if n \<in> set (tp_input_nullifiers p) then Some True else m n) (po_nullifiers st)"
  by (simp_all add: tx_result_def po_emit_def spend_all_def)

lemma tx_result_inv:
  assumes inv: "po_inv P h st"
    and ins: "mk_insert_two_leaves P (tp_output_commitment0 p) (tp_output_commitment1 p) (po_tree st) = Ok (tree, i0, i1)"
  shows "po_inv P h (tx_result p ext tree i0 i1 st)"
proof -
  have repr: "mk_repr P h (po_tree st) (commitments st)"
    and idx: "commitment_indices st = [0..<length (commitments st)]" using inv by (simp_all add: po_inv_def)
  note new = mk_insert_repr [OF repr ins]
  have "po_nullifiers (tx_result p ext tree i0 i1 st) = Some (\<lambda>n.
      if n \<in> nullified st \<union> set (tp_input_nullifiers p) then Some True else None)"
    using inv by (auto simp: tx_result_frame po_inv_def fun_eq_iff)
  with inv new idx show ?thesis
    by (simp add: po_inv_def po_configured_def tx_result_log tx_result_frame)
qed

section \<open>Administration\<close>

interpretation po_slot: admin_slot po_admin po_set_admin
  "\<lambda>st. (po_token st, po_verifier st, po_maximum_deposit st, po_nullifiers st, po_asp_membership st,
        po_asp_non_membership st, po_tree st, po_events st)"
  by unfold_locales (simp_all add: po_set_admin_def)

lemma po_update_admin_Ok:
  "po_update_admin env a st = Ok st' \<longleftrightarrow>
     (\<exists>old. po_admin st = Some old \<and> authorized env old \<and> st' = st\<lparr>po_admin := Some a\<rparr>)"
  using po_slot.handover_iff [of env a st st']
  by (auto simp: po_update_admin_def po_set_admin_def)

lemma po_update_asp_Ok:
  "po_update_asp_membership env a st = Ok st' \<longleftrightarrow>
     (\<exists>adm. po_admin st = Some adm \<and> authorized env adm \<and> st' = st\<lparr>po_asp_membership := Some a\<rparr>)"
  "po_update_asp_non_membership env a st = Ok st' \<longleftrightarrow>
     (\<exists>adm. po_admin st = Some adm \<and> authorized env adm \<and> st' = st\<lparr>po_asp_non_membership := Some a\<rparr>)"
  by (auto simp: po_update_asp_membership_def po_update_asp_non_membership_def po_get_admin_def result_simps)

lemma po_register_Ok:
  "po_register env ac st = Ok st' \<longleftrightarrow> authorized env (ac_owner ac) \<and>
     st' = po_emit (PublicKey (ac_owner ac) (ac_encryption_key ac) (ac_note_key ac)) st"
  by (auto simp: po_register_def result_simps)

lemma po_constructor_inv:
  assumes "po_constructor admin token verifier am nm maxd levels po_empty = Ok st"
  shows "po_inv P (unat levels) st \<and> 1 \<le> levels \<and> levels \<le> 32 \<and> mk_reduced (unat levels) (po_tree st)"
proof -
  from assms obtain tree where t: "mk_init levels mk_empty = Ok tree"
    "st = po_empty\<lparr>po_admin := Some admin, po_token := Some token, po_verifier := Some verifier,
       po_asp_membership := Some am, po_asp_non_membership := Some nm,
       po_maximum_deposit := Some maxd, po_nullifiers := Some Map.empty, po_tree := tree\<rparr>"
    by (auto simp: po_constructor_def po_empty_def Let_def result_simps)
  note range = mk_init_range [OF t(1)]
  with mk_init_Ok [of levels P] t(1) have "mk_repr P (unat levels) tree []" "mk_reduced (unat levels) tree"
    by auto
  with range show ?thesis
    by (simp add: t(2) po_inv_def po_configured_def commitments_def commitment_indices_def nullified_def
        po_empty_def)
qed

section \<open>The world around a pool\<close>

inductive pool_admin_step :: "env \<Rightarrow> pool \<Rightarrow> pool \<Rightarrow> bool" for env where
  pa_register: "po_register env ac st = Ok st' \<Longrightarrow> pool_admin_step env st st'"
| pa_admin: "po_update_admin env a st = Ok st' \<Longrightarrow> pool_admin_step env st st'"
| pa_membership: "po_update_asp_membership env a st = Ok st' \<Longrightarrow> pool_admin_step env st st'"
| pa_non_membership: "po_update_asp_non_membership env a st = Ok st' \<Longrightarrow> pool_admin_step env st st'"

inductive nm_step :: "permutation \<Rightarrow> env \<Rightarrow> asp_non_membership \<Rightarrow> asp_non_membership \<Rightarrow> bool"
  for P env where
  nm_step_insert: "nm_insert_leaf P env k v st = Ok st' \<Longrightarrow> nm_step P env st st'"
| nm_step_update: "nm_update_leaf P env k v st = Ok st' \<Longrightarrow> nm_step P env st st'"
| nm_step_delete: "nm_delete_leaf P env k st = Ok st' \<Longrightarrow> nm_step P env st st'"
| nm_step_admin: "nm_update_admin env a st = Ok st' \<Longrightarrow> nm_step P env st st'"

text \<open>A call under \<open>env\<close>, which says who has authorised it; a step is a call under any environment.\<close>

inductive w_call :: "host \<Rightarrow> 'tok transfer \<Rightarrow> env \<Rightarrow> 'tok world \<Rightarrow> 'tok world \<Rightarrow> bool" for H xfer env where
  w_transact: "transact H xfer env p ext sender w = Ok w' \<Longrightarrow> w_call H xfer env w w'"
| w_pool_admin: "pool_admin_step env (w_pool w) st \<Longrightarrow> w_call H xfer env w (w\<lparr>w_pool := st\<rparr>)"
| w_member: "w_membership w a = Some c \<Longrightarrow> am_step (h_permutation H) env c c' \<Longrightarrow>
    w_call H xfer env w (w\<lparr>w_membership := (w_membership w)(a \<mapsto> c')\<rparr>)"
| w_non_member: "w_non_membership w a = Some c \<Longrightarrow> nm_step (h_permutation H) env c c' \<Longrightarrow>
    w_call H xfer env w (w\<lparr>w_non_membership := (w_non_membership w)(a \<mapsto> c')\<rparr>)"
| w_deploy_member: "w_membership w a = None \<Longrightarrow> am_constructor adm levels am_empty = Ok c \<Longrightarrow>
    w_call H xfer env w (w\<lparr>w_membership := (w_membership w)(a \<mapsto> c)\<rparr>)"
| w_deploy_non_member: "w_non_membership w a = None \<Longrightarrow> nm_constructor adm nm_empty = Ok c' \<Longrightarrow>
    w_call H xfer env w (w\<lparr>w_non_membership := (w_non_membership w)(a \<mapsto> c')\<rparr>)"
| w_deploy_verifier: "w_verifier w a = None \<Longrightarrow> gv_constructor vk gv_empty = Ok v \<Longrightarrow>
    w_call H xfer env w (w\<lparr>w_verifier := (w_verifier w)(a \<mapsto> v)\<rparr>)"
| w_tokens: "w_call H xfer env w (w\<lparr>w_tokens := tok\<rparr>)"

inductive w_step :: "host \<Rightarrow> 'tok transfer \<Rightarrow> 'tok world \<Rightarrow> 'tok world \<Rightarrow> bool" for H xfer where
  w_step_call: "w_call H xfer env w w' \<Longrightarrow> w_step H xfer w w'"

inductive w_reachable :: "host \<Rightarrow> 'tok transfer \<Rightarrow> nat \<Rightarrow> 'tok world \<Rightarrow> bool" for H xfer h where
  w_reach_init: "po_constructor admin token verifier am nm maxd levels po_empty = Ok st \<Longrightarrow> h = unat levels \<Longrightarrow>
    w_reachable H xfer h \<lparr>w_pool = st, w_membership = Map.empty, w_non_membership = Map.empty,
      w_verifier = Map.empty, w_tokens = tok\<rparr>"
| w_reach_step: "w_reachable H xfer h w \<Longrightarrow> w_step H xfer w w' \<Longrightarrow> w_reachable H xfer h w'"

inductive_cases w_callE: "w_call H xfer env w w'"
inductive_cases w_stepE: "w_step H xfer w w'"
inductive_cases pool_admin_stepE: "pool_admin_step env st st'"

lemmas w_step_transact = w_step_call [OF w_transact]

lemma po_emit_key_frame:
  "po_inv P h (po_emit (PublicKey a b c) st) = po_inv P h st"
  by (simp add: po_inv_def po_configured_def commitments_def commitment_indices_def nullified_def po_emit_def)

lemma pool_admin_step_inv:
  assumes "pool_admin_step env st st'" and "po_inv P h st"
  shows "po_inv P h st'"
  using assms
  by (auto elim!: pool_admin_stepE simp: po_register_Ok po_update_admin_Ok po_update_asp_Ok po_emit_key_frame)
    (auto simp: po_inv_def po_configured_def commitments_def commitment_indices_def nullified_def)

lemma transact_inv:
  assumes "transact H xfer env p ext sender w = Ok w'" and "po_inv (h_permutation H) h (w_pool w)"
  shows "po_inv (h_permutation H) h (w_pool w')"
  using assms(1)
proof (cases rule: transact_OkE)
  case (1 tok tree i0 i1)
  with tx_result_inv [OF assms(2) 1(3)] show ?thesis by simp
qed

lemma w_step_pool_inv:
  assumes "w_step H xfer w w'" and "po_inv (h_permutation H) h (w_pool w)"
  shows "po_inv (h_permutation H) h (w_pool w')"
  using assms
  by (auto elim!: w_stepE w_callE intro: transact_inv pool_admin_step_inv)

definition members_ok :: "permutation \<Rightarrow> 'tok world \<Rightarrow> bool" where
  "members_ok P w \<longleftrightarrow> (\<forall>a c. w_membership w a = Some c \<longrightarrow> (\<exists>h. am_reachable P h c))"

lemma transact_frame:
  assumes "transact H xfer env p ext sender w = Ok w'"
  shows "w_membership w' = w_membership w \<and> w_non_membership w' = w_non_membership w \<and>
    w_verifier w' = w_verifier w"
  using assms by (cases rule: transact_OkE) simp

lemma members_ok_upd:
  "members_ok P w \<Longrightarrow> am_reachable P h c \<Longrightarrow>
    members_ok P (w\<lparr>w_membership := (w_membership w)(a \<mapsto> c)\<rparr>)"
  by (auto simp: members_ok_def)

lemma w_step_members:
  assumes "w_step H xfer w w'" and ok: "members_ok (h_permutation H) w"
  shows "members_ok (h_permutation H) w'"
proof -
  from assms(1) obtain env where "w_call H xfer env w w'" by (rule w_stepE)
  then show ?thesis
  proof cases
    case (w_transact p ext sender)
    then show ?thesis using ok by (simp add: members_ok_def transact_frame)
  next
    case (w_member a c c')
    obtain h where "am_reachable (h_permutation H) h c"
      using ok w_member(2) by (auto simp: members_ok_def)
    then have "am_reachable (h_permutation H) h c'" using w_member(3) by (rule am_reach_step)
    then show ?thesis using ok w_member(1) by (simp add: members_ok_upd)
  next
    case (w_deploy_member a adm levels c)
    from am_reach_init [OF w_deploy_member(3) refl] ok
    show ?thesis unfolding w_deploy_member(1) by (rule members_ok_upd [rotated])
  qed (use ok in \<open>auto simp: members_ok_def\<close>)
qed

lemma w_reachable_inv:
  "w_reachable H xfer h w \<Longrightarrow> po_inv (h_permutation H) h (w_pool w) \<and> members_ok (h_permutation H) w"
proof (induction rule: w_reachable.induct)
  case (w_reach_init admin token verifier am nm maxd levels st tok)
  then show ?case
    using po_constructor_inv [OF w_reach_init(1), of "h_permutation H"] by (simp add: members_ok_def)
next
  case (w_reach_step w w')
  then show ?case using w_step_pool_inv w_step_members by blast
qed

text \<open>With a host that computes Poseidon2 the frontier stays inside the field.\<close>

lemma w_reachable_reduced:
  "w_reachable H xfer h w \<Longrightarrow> poseidon2_host (h_permutation H) \<Longrightarrow> mk_reduced h (po_tree (w_pool w))"
proof (induction rule: w_reachable.induct)
  case (w_reach_init admin token verifier am nm maxd levels st tok)
  then show ?case using po_constructor_inv [OF w_reach_init(1)] by simp
next
  case (w_reach_step w w')
  then have red: "mk_reduced h (po_tree (w_pool w))" by blast
  from w_reachable_inv [OF w_reach_step(1)]
  have repr: "mk_repr (h_permutation H) h (po_tree (w_pool w)) (commitments (w_pool w))"
    by (simp add: po_inv_def)
  from w_reach_step(2) obtain env where "w_call H xfer env w w'" by (rule w_stepE)
  then show ?case
  proof cases
    case (w_transact p ext sender)
    then show ?thesis
    proof (cases rule: transact_OkE)
      case (1 tok tree i0 i1)
      with mk_insert_reduced [OF w_reach_step.prems repr red 1(3)] show ?thesis
        by (simp add: tx_result_frame)
    qed
  next
    case (w_pool_admin st)
    then show ?thesis using red
      by (auto elim!: pool_admin_stepE simp: po_register_Ok po_update_admin_Ok po_update_asp_Ok po_emit_def)
  qed (use red in auto)
qed

section \<open>Spent stays spent\<close>

lemma transact_spent:
  assumes "transact H xfer env p ext sender w = Ok w'" and "po_nullifiers (w_pool w) \<noteq> None"
  shows "spent (w_pool w') n \<longleftrightarrow> spent (w_pool w) n \<or> n \<in> set (tp_input_nullifiers p)"
  using assms(1)
proof (cases rule: transact_OkE)
  case (1 tok tree i0 i1)
  with assms(2) show ?thesis by (auto simp: spent_def tx_result_frame)
qed

lemma w_step_spent:
  assumes "w_step H xfer w w'" and "po_inv (h_permutation H) h (w_pool w)" and "spent (w_pool w) n"
  shows "spent (w_pool w') n"
proof -
  have some: "po_nullifiers (w_pool w) \<noteq> None" using assms(2) by (simp add: po_inv_def)
  from assms(1) obtain env where "w_call H xfer env w w'" by (rule w_stepE)
  then show ?thesis
  proof cases
    case (w_transact p ext sender)
    with transact_spent [OF w_transact some] assms(3) show ?thesis by blast
  next
    case (w_pool_admin st)
    then show ?thesis using assms(3)
      by (auto elim!: pool_admin_stepE simp: po_register_Ok po_update_admin_Ok po_update_asp_Ok spent_def po_emit_def)
  qed (use assms(3) in auto)
qed

inductive w_steps :: "host \<Rightarrow> 'tok transfer \<Rightarrow> 'tok world \<Rightarrow> 'tok world \<Rightarrow> bool" for H xfer where
  w_steps_refl: "w_steps H xfer w w"
| w_steps_step: "w_steps H xfer w w' \<Longrightarrow> w_step H xfer w' w'' \<Longrightarrow> w_steps H xfer w w''"

lemma w_steps_spent:
  "w_steps H xfer w w' \<Longrightarrow> po_inv (h_permutation H) h (w_pool w) \<Longrightarrow> spent (w_pool w) n \<Longrightarrow>
    po_inv (h_permutation H) h (w_pool w') \<and> spent (w_pool w') n"
  by (induction rule: w_steps.induct) (auto intro: w_step_spent w_step_pool_inv)

end
