(* ===== verification/Pool_Success.thy ===== *)
theory Pool_Success
  imports Pool_Props
begin

text \<open>
  The converse of \<open>Pool_Correct\<close>: a transaction whose checks hold, whose payment the token accepts
  and whose commitments can be inserted returns \<open>Ok\<close>; and the verdict of the validation steps when
  some check fails, in the order of the code.
\<close>

section \<open>Sufficient conditions\<close>

lemma w_tokens_frame [simp]:
  "get_asp_membership_root (w\<lparr>w_tokens := tok\<rparr>) = get_asp_membership_root w"
  "get_asp_non_membership_root (w\<lparr>w_tokens := tok\<rparr>) = get_asp_non_membership_root w"
  "po_verify_proof H p (w\<lparr>w_tokens := tok\<rparr>) = po_verify_proof H p w"
  by (simp_all add: get_asp_membership_root_def get_asp_non_membership_root_def po_verify_proof_def)

lemma po_validate_tokens: "po_validate H p ext (w\<lparr>w_tokens := tok\<rparr>) = po_validate H p ext w"
  by (simp add: po_validate_def)

lemma tx_checks_validate:
  assumes "tx_checks H env p ext sender w" and "po_nullifiers (w_pool w) \<noteq> None"
    and "\<not> groth16_is_empty (tp_proof p)"
  shows "po_validate H p ext w = Ok ()"
  using assms unfolding po_validate_Ok_iff tx_checks_def po_check_loop po_verify_proof_iff hash_ext_data_eq
  by (elim conjE) (intro conjI; simp)

text \<open>The amount of a payment is the \<open>i128\<close> the code computes.\<close>

lemma i128_amount_unique:
  assumes "sint (a :: i128) = sint v" and "0 \<le> sint v"
  shows "i256_to_i128_nonneg v = Ok a"
proof -
  have "sint a < 2 ^ (LENGTH(128) - 1)" by (rule sint_lt)
  then have "sint v < 2 ^ 127" using assms(1) by simp
  then obtain b where b: "i256_to_i128_nonneg v = Ok b" using i128_amount_exists assms(2) by blast
  with i128_amount [OF b] assms(1) have "b = a" by (metis signed_word_eqI)
  with b show ?thesis by simp
qed

lemma deposit_step:
  assumes "0 < sint x" and "po_maximum_deposit (w_pool w) = Some m" and "sint x \<le> uint m"
    and "sint (a :: i128) = sint x" and "xfer token sender self a (w_tokens w) = Some tok"
  shows "(if i256_less 0 x then
        let deposit_u = u256_from_be_bytes (i256_to_be_bytes x) in
        rbind (po_get_maximum_deposit (w_pool w)) (\<lambda>max.
        if max < deposit_u then Err PE_WrongExtAmount
        else rbind (i256_to_i128_nonneg x) (\<lambda>amount.
          token_client_transfer xfer token sender self amount w))
      else Ok w) = Ok (w\<lparr>w_tokens := tok\<rparr>)"
proof -
  have "\<not> m < x" using assms(1,3) uint_of_nonneg [of x] by (simp add: word_less_def)
  moreover have "i256_to_i128_nonneg x = Ok a" using assms by (intro i128_amount_unique) simp_all
  ultimately show ?thesis
    using assms by (simp add: i256_less_0 po_get_maximum_deposit_def token_client_transfer_def)
qed

lemma settle_intro:
  assumes "po_token (w_pool w) = Some token"
    and "if sint (ed_ext_amount ext) < 0 then
        \<exists>a. sint (a :: i128) = - sint (ed_ext_amount ext) \<and>
          xfer token (current_contract env) (ed_recipient ext) a (w_tokens w) = Some tok
      else tok = w_tokens w"
    and "- (2 ^ 255) < sint (ed_ext_amount ext)"
    and "mk_insert_two_leaves (h_permutation H) (tp_output_commitment0 p) (tp_output_commitment1 p)
         (po_tree (w_pool w)) = Ok (tree, i0, i1)"
  shows "po_settle H xfer env p ext w =
    Ok (w\<lparr>w_pool := tx_result p ext tree i0 i1 (w_pool w), w_tokens := tok\<rparr>)"
proof (cases "sint (ed_ext_amount ext) < 0")
  case True
  with assms(2) obtain a :: i128 where a: "sint a = - sint (ed_ext_amount ext)"
    "xfer token (current_contract env) (ed_recipient ext) a (w_tokens w) = Some tok" by auto
  note neg = i256_neg [OF assms(3) True]
  have "i256_to_i128_nonneg (- ed_ext_amount ext) = Ok a"
    using a(1) neg(2) True by (intro i128_amount_unique) simp_all
  with neg(1) True assms(1,4) a(2) show ?thesis
    unfolding po_settle_Ok_iff by (metis (no_types, lifting))
next
  case False
  with assms show ?thesis unfolding po_settle_Ok_iff by auto
qed

lemma transact_intro:
  assumes checks: "tx_checks H env p ext sender w" and pay: "tx_payment xfer env ext sender w tok"
    and nulls: "po_nullifiers (w_pool w) \<noteq> None" and wf: "\<not> groth16_is_empty (tp_proof p)"
    and ins: "mk_insert_two_leaves (h_permutation H) (tp_output_commitment0 p) (tp_output_commitment1 p)
       (po_tree (w_pool w)) = Ok (tree, i0, i1)"
  shows "transact H xfer env p ext sender w =
    Ok (w\<lparr>w_pool := tx_result p ext tree i0 i1 (w_pool w), w_tokens := tok\<rparr>)"
proof -
  let ?x = "ed_ext_amount ext"
  note valid = tx_checks_validate [OF checks nulls wf]
  have auth: "authorized env sender" and amount: "calculate_public_amount ?x = Ok (tp_public_amount p)"
    and dep: "0 < sint ?x \<longrightarrow> (\<exists>m. po_maximum_deposit (w_pool w) = Some m \<and> sint ?x \<le> uint m)"
    using checks by (simp_all add: tx_checks_def)
  have min: "- (2 ^ 255) < sint ?x"
    using amount sint_range [of ?x] by (auto simp: public_amount_exact split: if_splits)
  from pay obtain token where token: "po_token (w_pool w) = Some token"
    by (auto simp: tx_payment_def Let_def)
  show ?thesis
  proof (cases "0 < sint ?x")
    case True
    from True pay token obtain a :: i128 where a: "sint a = sint ?x"
      "xfer token sender (current_contract env) a (w_tokens w) = Some tok"
      by (auto simp: tx_payment_def Let_def)
    from True dep obtain m where m: "po_maximum_deposit (w_pool w) = Some m" "sint ?x \<le> uint m" by blast
    have settle: "po_settle H xfer env p ext (w\<lparr>w_tokens := tok\<rparr>) =
        Ok (w\<lparr>w_pool := tx_result p ext tree i0 i1 (w_pool w), w_tokens := tok\<rparr>)"
      using settle_intro [of "w\<lparr>w_tokens := tok\<rparr>" token ext xfer env tok H p tree i0 i1] True token min ins
      by simp
    note dep_step = deposit_step [where w = w and xfer = xfer and sender = sender
      and self = "current_contract env" and tok = tok, OF True m a]
    show ?thesis
      unfolding transact_def po_get_token_def token ok_or.simps rbind.simps
        require_auth_simps(1) [OF auth] dep_step internal_transact_split po_validate_tokens valid settle
      by (rule refl)
  next
    case False
    then have "po_settle H xfer env p ext w =
        Ok (w\<lparr>w_pool := tx_result p ext tree i0 i1 (w_pool w), w_tokens := tok\<rparr>)"
      using pay token min ins
      by (intro settle_intro) (auto simp: tx_payment_def Let_def split: if_splits)
    with False auth token valid show ?thesis
      by (simp add: transact_def po_get_token_def i256_less_0 internal_transact_split)
  qed
qed

section \<open>The verdict of the checks, in the order of the code\<close>

definition verifier_accepts :: "host \<Rightarrow> tx_proof \<Rightarrow> 'tok world \<Rightarrow> bool" where
  "verifier_accepts H p w \<longleftrightarrow>
     (\<exists>a v vk. po_verifier (w_pool w) = Some a \<and> w_verifier w a = Some v \<and> gv_key v = Some vk \<and>
        groth16_accepts (h_bn254 H) vk (tp_proof p) (public_inputs (h_bn254 H) p))"

definition ext_digest :: "host \<Rightarrow> ext_data \<Rightarrow> bytes" where
  "ext_digest H ext =
     u256_to_be_bytes (u256_from_be_bytes (h_keccak256 H (h_to_xdr H ext)) mod bn256_modulus)"

lemma po_verify_proof_verdict:
  assumes "\<not> groth16_is_empty (tp_proof p)" and "po_verifier (w_pool w) \<noteq> None"
  shows "po_verify_proof H p w = (if verifier_accepts H p w then Ok True else Panic)"
proof (cases "verifier_accepts H p w")
  case True
  with assms show ?thesis
    using po_verify_proof_iff [of H p w] by (simp add: verifier_accepts_def)
next
  case False
  with assms(1) have "po_verify_proof H p w \<noteq> Ok True"
    unfolding po_verify_proof_iff verifier_accepts_def by blast
  with po_verify_proof_not_False [of H p w] have no_ok: "po_verify_proof H p w \<noteq> Ok b" for b
    by (cases b) simp_all
  from assms obtain a where "po_verify_proof H p w =
      client_call (w_verifier w a) (gv_verify (h_bn254 H) (tp_proof p) (public_inputs (h_bn254 H) p))"
    by (auto simp: po_verify_proof_def po_get_verifier_def)
  then have "po_verify_proof H p w \<noteq> Err e" for e
    by (simp add: client_call_def split: option.splits result.splits)
  with no_ok have "po_verify_proof H p w = Panic" by (metis result.exhaust)
  with False show ?thesis by simp
qed

lemma asp_root_verdict:
  "po_asp_membership (w_pool w) \<noteq> None \<Longrightarrow> get_asp_membership_root w \<noteq> Err e"
  "po_asp_non_membership (w_pool w) \<noteq> None \<Longrightarrow> get_asp_non_membership_root w \<noteq> Err e"
  by (auto simp: get_asp_membership_root_def get_asp_non_membership_root_def po_get_asp_membership_def
      po_get_asp_non_membership_def client_call_def split: option.splits result.splits)

lemma po_check_verdict:
  assumes "po_nullifiers st \<noteq> None"
  shows "rfold (po_check_unspent st) ns () =
    (if \<exists>n \<in> set ns. spent st n then Err PE_AlreadySpentNullifier else Ok ())"
  using po_check_loop [of st ns] po_check_loop_spent [OF assms] assms by auto

lemma po_validate_verdict:
  assumes conf: "po_configured (w_pool w)" and nulls: "po_nullifiers (w_pool w) \<noteq> None"
    and known: "mk_is_known_root (tp_root p) (po_tree (w_pool w)) = Ok known"
    and wf: "\<not> groth16_is_empty (tp_proof p)"
  shows "po_validate H p ext w =
    (if \<not> known then Err PE_UnknownRoot
     else if \<exists>n \<in> set (tp_input_nullifiers p). spent (w_pool w) n then Err PE_AlreadySpentNullifier
     else if tp_ext_data_hash p \<noteq> ext_digest H ext then Err PE_WrongExtHash
     else if sint (ed_ext_amount ext) = - (2 ^ 255) then Panic
     else if calculate_public_amount (ed_ext_amount ext) \<noteq> Ok (tp_public_amount p) then Err PE_WrongExtAmount
     else if get_asp_membership_root w = Panic \<or> get_asp_non_membership_root w = Panic then Panic
     else if get_asp_membership_root w \<noteq> Ok (tp_asp_membership_root p) \<or>
       get_asp_non_membership_root w \<noteq> Ok (tp_asp_non_membership_root p) then Err PE_InvalidProof
     else if verifier_accepts H p w then Ok () else Panic)"
proof -
  have verify: "po_verify_proof H p w = (if verifier_accepts H p w then Ok True else Panic)"
    using conf by (intro po_verify_proof_verdict [OF wf]) (simp add: po_configured_def)
  have hash: "hash_ext_data H ext = (Ok (ext_digest H ext) :: (bytes, pool_error) result)"
    by (simp add: hash_ext_data_eq ext_digest_def)
  have "po_asp_membership (w_pool w) \<noteq> None" "po_asp_non_membership (w_pool w) \<noteq> None"
    using conf by (simp_all add: po_configured_def)
  from asp_root_verdict(1) [OF this(1)] asp_root_verdict(2) [OF this(2)]
  have asp: "get_asp_membership_root w = Panic \<or> (\<exists>r. get_asp_membership_root w = Ok r)"
    "get_asp_non_membership_root w = Panic \<or> (\<exists>r. get_asp_non_membership_root w = Ok r)"
    by (metis result.exhaust)+
  show ?thesis
    unfolding po_validate_def known map_err.simps rbind.simps po_check_verdict [OF nulls] hash verify
    using asp by (auto simp: public_amount_exact)
qed

text \<open>The acting half: the withdrawal, then the insertion.\<close>

definition withdrawal ::
  "'tok transfer \<Rightarrow> env \<Rightarrow> ext_data \<Rightarrow> 'tok world \<Rightarrow> 'tok option" where
  "withdrawal xfer env ext w =
     (if sint (ed_ext_amount ext) < 0 then
        (case po_token (w_pool w) of None \<Rightarrow> None
         | Some token \<Rightarrow> xfer token (current_contract env) (ed_recipient ext)
             (word_of_int (- sint (ed_ext_amount ext))) (w_tokens w))
      else Some (w_tokens w))"

lemma i128_conversion:
  "0 \<le> sint v \<Longrightarrow> i256_to_i128_nonneg v =
     (if sint v < 2 ^ 127 then Ok (word_of_int (sint v)) else Err PE_WrongExtAmount)"
  by (simp add: i256_to_i128_nonneg_def i256_to_i128_def i256_less_0)

lemma po_settle_verdict:
  assumes "po_token (w_pool w) \<noteq> None" and "- (2 ^ 255) < sint (ed_ext_amount ext)"
  shows "po_settle H xfer env p ext w =
    (if sint (ed_ext_amount ext) \<le> - (2 ^ 127) then Err PE_WrongExtAmount
     else case withdrawal xfer env ext w of None \<Rightarrow> Panic
       | Some tok \<Rightarrow> (case mk_insert_two_leaves (h_permutation H) (tp_output_commitment0 p)
             (tp_output_commitment1 p) (po_tree (w_pool w)) of
           Ok (tree, i0, i1) \<Rightarrow>
             Ok (w\<lparr>w_pool := tx_result p ext tree i0 i1 (w_pool w), w_tokens := tok\<rparr>)
         | Err e \<Rightarrow> Err (pool_error_from e) | Panic \<Rightarrow> Panic))"
proof -
  from assms(1) obtain token where token: "po_token (w_pool w) = Some token" by blast
  let ?ins = "mk_insert_two_leaves (h_permutation H) (tp_output_commitment0 p)
             (tp_output_commitment1 p) (po_tree (w_pool w))"
  show ?thesis
  proof (cases "sint (ed_ext_amount ext) < 0")
    case True
    note neg = i256_neg [OF assms(2) True]
    have "i256_sub 0 (ed_ext_amount ext) = (Ok (- ed_ext_amount ext) :: (i256, pool_error) result)"
      using assms(2) True by (rule i256_neg)
    moreover have "i256_to_i128_nonneg (- ed_ext_amount ext) =
        (if - (2 ^ 127) < sint (ed_ext_amount ext) then Ok (word_of_int (- sint (ed_ext_amount ext)))
         else Err PE_WrongExtAmount)"
      using True by (simp add: i128_conversion neg(2))
    ultimately show ?thesis
      using True token
      by (cases "?ins")
        (auto simp: po_settle_def po_get_token_def withdrawal_def token_client_transfer_def tx_result_def
          spend_all_frame split: option.splits)
  next
    case False
    with token show ?thesis
      by (cases "?ins")
        (auto simp: po_settle_def po_get_token_def withdrawal_def tx_result_def spend_all_frame)
  qed
qed

end
