(* ===== verification/Pool_Theorems.thy ===== *)
theory Pool_Theorems
  imports Pool_Success
begin

text \<open>
  The properties of the pool contract, over every world that a deployed pool can reach, and a small
  deployment (tree of three levels, two-input transactions, a token ledger of balances) at which they
  are exercised.
\<close>

section \<open>Token ledgers\<close>

text \<open>
  What the pool relies on in a SEP-41 token: a successful \<open>transfer\<close> of \<open>a\<close> takes a non-negative
  \<open>a\<close> from one balance of this token to another and touches no other balance.
\<close>

definition sep41 :: "'tok transfer \<Rightarrow> ('tok \<Rightarrow> address \<Rightarrow> address \<Rightarrow> int) \<Rightarrow> bool" where
  "sep41 xfer bal \<longleftrightarrow> (\<forall>t s d a tok tok'. xfer t s d a tok = Some tok' \<longrightarrow> 0 \<le> sint a \<and>
     (\<forall>t' x. bal tok' t' x = bal tok t' x
        - (if t' = t \<and> x = s then sint a else 0) + (if t' = t \<and> x = d then sint a else 0)))"

type_synonym ledger = "address \<Rightarrow> address \<Rightarrow> int"

definition ledger_transfer :: "ledger transfer" where
  "ledger_transfer t s d a b =
     (if 0 \<le> sint a \<and> sint a \<le> b t s then
        Some (\<lambda>t' x. b t' x - (if t' = t \<and> x = s then sint a else 0)
          + (if t' = t \<and> x = d then sint a else 0))
      else None)"

lemma ledger_sep41: "sep41 ledger_transfer (\<lambda>b. b)"
  by (auto simp: sep41_def ledger_transfer_def split: if_splits)

text \<open>The mock token of \<open>soroban-utils\<close>: it keeps no balances, and every call succeeds.\<close>

definition mock_balance :: "address \<Rightarrow> i128" where
  "mock_balance account = 0"

definition mock_transfer :: "'tok transfer" where
  "mock_transfer token src dst amount tok = Some tok"

definition mock_transfer_from :: "'tok transfer" where
  "mock_transfer_from token src dst amount tok = Some tok"

definition mock_approve :: "address \<Rightarrow> address \<Rightarrow> i128 \<Rightarrow> 'tok \<Rightarrow> 'tok" where
  "mock_approve src spender amount tok = tok"

definition mock_allowance :: "address \<Rightarrow> address \<Rightarrow> i128" where
  "mock_allowance src spender = 0"

section \<open>A small deployment\<close>

definition demo_bn254 :: bn254 where
  "demo_bn254 = \<lparr>bn_fr_from_bytes = u256_from_be_bytes,
     bn_g1_mul = (\<lambda>v s. Some (u256_to_be_bytes (s mod bn256_modulus))),
     bn_g1_add = (\<lambda>a b. Some b), bn_g1_neg = (\<lambda>a. Some a), bn_pairing_check = (\<lambda>as bs. Some True)\<rparr>"

definition demo_host :: host where
  "demo_host = \<lparr>h_permutation = zero_table_host, h_bn254 = demo_bn254,
     h_to_xdr = (\<lambda>ext. []), h_keccak256 = (\<lambda>bs. replicate 32 0)\<rparr>"

definition demo_env :: env where
  "demo_env = \<lparr>current_contract = 1, authorized = (\<lambda>a. True)\<rparr>"

definition demo_key :: verification_key_bytes where
  "demo_key = \<lparr>vkb_alpha = [], vkb_beta = [], vkb_gamma = [], vkb_delta = [], vkb_ic = replicate 12 []\<rparr>"

definition demo_pool :: pool where
  "demo_pool = commit (po_constructor 7 20 30 40 50 100 3 po_empty) po_empty"

definition demo_members :: asp_membership where
  "demo_members = commit (am_constructor 7 2 am_empty) am_empty"

definition demo_world :: "ledger world" where
  "demo_world = \<lparr>w_pool = demo_pool, w_membership = [40 \<mapsto> demo_members],
     w_non_membership = [50 \<mapsto> nm_empty\<lparr>nm_admin := Some 7, nm_root := Some 0\<rparr>],
     w_verifier = [30 \<mapsto> gv_empty\<lparr>gv_key := Some demo_key\<rparr>], w_tokens = (\<lambda>t a. 1000)\<rparr>"

text \<open>A transaction that spends the notes \<open>n1\<close>, \<open>n2\<close> against the empty tree and pays \<open>x\<close>.\<close>

definition demo_proof :: "u256 \<Rightarrow> u256 \<Rightarrow> i256 \<Rightarrow> tx_proof" where
  "demo_proof n1 n2 x = \<lparr>tp_proof = \<lparr>g16_a = replicate 64 0, g16_b = replicate 128 0, g16_c = replicate 64 0\<rparr>,
     tp_root = zero_at 3, tp_input_nullifiers = [n1, n2], tp_output_commitment0 = 5,
     tp_output_commitment1 = 6, tp_public_amount = word_of_int (sint x mod field_order),
     tp_ext_data_hash = u256_to_be_bytes 0, tp_asp_membership_root = zero_at 2,
     tp_asp_non_membership_root = 0\<rparr>"

definition demo_ext :: "i256 \<Rightarrow> ext_data" where
  "demo_ext x = \<lparr>ed_recipient = 9, ed_ext_amount = x, ed_encrypted_output0 = [], ed_encrypted_output1 = []\<rparr>"

lemma demo_pool_init:
  obtains tree where "mk_init 3 mk_empty = Ok tree" "mk_repr zero_table_host 3 tree []"
    "po_constructor 7 20 30 40 50 100 3 po_empty = Ok demo_pool"
    "demo_pool = po_empty\<lparr>po_admin := Some 7, po_token := Some 20, po_verifier := Some 30,
       po_asp_membership := Some 40, po_asp_non_membership := Some 50,
       po_maximum_deposit := Some 100, po_nullifiers := Some Map.empty, po_tree := tree\<rparr>"
proof -
  have "(1 :: u32) \<le> 3" "(3 :: u32) \<le> 32" by (simp_all add: word_le_nat_alt)
  from mk_init_Ok [OF this, of zero_table_host] obtain tree where t: "mk_init 3 mk_empty = Ok tree"
    "mk_repr zero_table_host 3 tree []" by auto
  then have "po_constructor 7 20 30 40 50 100 3 po_empty = Ok (po_empty\<lparr>po_admin := Some 7,
      po_token := Some 20, po_verifier := Some 30, po_asp_membership := Some 40,
      po_asp_non_membership := Some 50, po_maximum_deposit := Some 100,
      po_nullifiers := Some Map.empty, po_tree := tree\<rparr>)"
    by (simp add: po_constructor_def po_empty_def)
  with t show ?thesis by (intro that) (simp_all add: demo_pool_def)
qed

lemma demo_members_init: "am_constructor 7 2 am_empty = Ok demo_members"
  "am_get_root demo_members = Ok (zero_at 2)"
proof -
  have "(1 :: u32) \<le> 2" "(2 :: u32) \<le> 32" by (simp_all add: word_le_nat_alt)
  from am_constructor_Ok [OF this, of 7 zero_table_host] obtain st where
    st: "am_constructor 7 2 am_empty = Ok st" "am_inv zero_table_host 2 st" "am_leaves st = []" by auto
  then have "demo_members = st" by (simp add: demo_members_def)
  with st show "am_constructor 7 2 am_empty = Ok demo_members"
    "am_get_root demo_members = Ok (zero_at 2)" by (auto simp: am_get_root_def am_inv_def)
qed

lemma demo_reachable: "w_reachable demo_host ledger_transfer 3 demo_world"
proof -
  let ?w0 = "\<lparr>w_pool = demo_pool, w_membership = Map.empty, w_non_membership = Map.empty,
      w_verifier = Map.empty, w_tokens = (\<lambda>t a. 1000)\<rparr> :: ledger world"
  let ?nm = "nm_empty\<lparr>nm_admin := Some 7, nm_root := Some 0\<rparr>"
  let ?gv = "gv_empty\<lparr>gv_key := Some demo_key\<rparr>"
  let ?w1 = "?w0\<lparr>w_membership := [40 \<mapsto> demo_members]\<rparr>"
  let ?w2 = "?w1\<lparr>w_non_membership := [50 \<mapsto> ?nm]\<rparr>"
  have "po_constructor 7 20 30 40 50 100 3 po_empty = Ok demo_pool" by (rule demo_pool_init)
  then have "w_reachable demo_host ledger_transfer 3 ?w0" by (rule w_reach_init) simp
  moreover have "w_step demo_host ledger_transfer ?w0 ?w1"
    using w_deploy_member [of ?w0 40 7 2 demo_members, THEN w_step_call] by (simp add: demo_members_init)
  moreover have "w_step demo_host ledger_transfer ?w1 ?w2"
    using w_deploy_non_member [of ?w1 50 7 ?nm, THEN w_step_call] by (simp add: nm_constructor_def)
  moreover have "w_step demo_host ledger_transfer ?w2 demo_world"
    using w_deploy_verifier [of ?w2 30 demo_key ?gv, THEN w_step_call] by (simp add: gv_constructor_def demo_world_def)
  ultimately show ?thesis by (meson w_reach_step)
qed

lemma zero_at_3: "zero_at 3 \<noteq> 0"
  by (simp add: zero_at_def get_zeroes_def zeroes_1_def nth_append u256_from_be_bytes_def be_to_nat_def)

lemma demo_pool_state:
  "po_nullifiers demo_pool = Some Map.empty" "po_token demo_pool = Some 20"
  "po_maximum_deposit demo_pool = Some 100" "po_verifier demo_pool = Some 30"
  "po_asp_membership demo_pool = Some 40" "po_asp_non_membership demo_pool = Some 50"
  "po_admin demo_pool = Some 7" "commitments demo_pool = []" "nullified demo_pool = {}"
  "mk_is_known_root (zero_at 3) (po_tree demo_pool) = Ok True"
proof -
  obtain tree where t: "mk_repr zero_table_host 3 tree []"
    "demo_pool = po_empty\<lparr>po_admin := Some 7, po_token := Some 20, po_verifier := Some 30,
       po_asp_membership := Some 40, po_asp_non_membership := Some 50,
       po_maximum_deposit := Some 100, po_nullifiers := Some Map.empty, po_tree := tree\<rparr>"
    by (rule demo_pool_init)
  have "mk_is_known_root (zero_at 3) tree = Ok True"
    by (simp add: mk_known_root_iff [OF t(1)] zero_at_3 last_n_def)
  then show "po_nullifiers demo_pool = Some Map.empty" "po_token demo_pool = Some 20"
    "po_maximum_deposit demo_pool = Some 100" "po_verifier demo_pool = Some 30"
    "po_asp_membership demo_pool = Some 40" "po_asp_non_membership demo_pool = Some 50"
    "po_admin demo_pool = Some 7" "commitments demo_pool = []" "nullified demo_pool = {}"
    "mk_is_known_root (zero_at 3) (po_tree demo_pool) = Ok True"
    by (simp_all add: t(2) commitments_def nullified_def po_empty_def)
qed

text \<open>Any proof with two nullifiers passes this verifier.\<close>

lemma demo_accepts: "length s = 11 \<Longrightarrow> groth16_accepts demo_bn254 demo_key p s"
proof -
  have total: "\<exists>r. lin_comb demo_bn254 acc vs = Some r" for acc vs
    by (induction vs arbitrary: acc) (simp_all add: demo_bn254_def)
  assume "length s = 11"
  moreover obtain r where "lin_comb demo_bn254 [] (zip (replicate 11 []) s) = Some r" using total by blast
  ultimately show ?thesis
    by (auto simp: groth16_accepts_def demo_key_def demo_bn254_def numeral_eq_Suc)
qed

lemma demo_checks:
  assumes "\<bar>sint x\<bar> \<le> 100"
  shows "tx_checks demo_host demo_env (demo_proof n1 n2 x) (demo_ext x) sender demo_world"
proof -
  have "calculate_public_amount x = Ok (word_of_int (sint x mod field_order))"
    using assms by (simp add: public_amount_exact)
  moreover have "u256_to_be_bytes (u256_from_be_bytes (replicate 32 0) mod bn256_modulus) = u256_to_be_bytes 0"
    by (simp add: u256_from_be_bytes_def be_to_nat_def numeral_eq_Suc)
  moreover have "\<not> spent demo_pool n" for n by (simp add: spent_def demo_pool_state)
  moreover have "groth16_accepts demo_bn254 demo_key (tp_proof (demo_proof n1 n2 x))
      (public_inputs demo_bn254 (demo_proof n1 n2 x))"
    by (rule demo_accepts) (simp add: public_inputs_def demo_proof_def Let_def)
  moreover have "0 < sint x \<longrightarrow> sint x \<le> 100" using assms by linarith
  ultimately show ?thesis
    by (simp add: tx_checks_def demo_world_def demo_pool_state demo_proof_def demo_ext_def demo_env_def
        demo_host_def get_asp_membership_root_def get_asp_non_membership_root_def
        po_get_asp_membership_def po_get_asp_non_membership_def client_call_def
        demo_members_init nm_get_root_def)
qed

lemma demo_payment:
  assumes "\<bar>sint x\<bar> \<le> 100" and rich: "\<forall>a. 100 \<le> w_tokens w 20 a"
    and token: "po_token (w_pool w) = Some 20"
  shows "\<exists>tok. tx_payment ledger_transfer demo_env (demo_ext x) sender w tok"
proof -
  have amount: "\<exists>a :: i128. sint a = y" if "\<bar>y\<bar> \<le> 100" for y :: int
  proof
    show "sint (word_of_int y :: i128) = y"
      using that by (subst signed_of_int) (simp add: signed_take_bit_int_eq_self)
  qed
  obtain a :: i128 where a: "sint a = sint x" using amount assms(1) by blast
  obtain b :: i128 where b: "sint b = - sint x" using amount [of "- sint x"] assms(1) by auto
  have move: "\<exists>tok. ledger_transfer 20 s d c (w_tokens w) = Some tok" if "0 \<le> sint c" "sint c \<le> 100" for s d c
    using that rich by (simp add: ledger_transfer_def order_trans [of _ 100])
  note pay = move [of a sender "current_contract demo_env"]
    and paid = move [of b "current_contract demo_env" "ed_recipient (demo_ext x)"]
  have fields: "ed_ext_amount (demo_ext x) = x" by (simp add: demo_ext_def)
  consider "0 < sint x" | "sint x < 0" | "sint x = 0" by linarith
  then show ?thesis
  proof cases
    case 1
    with a assms(1) pay token show ?thesis unfolding tx_payment_def fields Let_def by auto
  next
    case 2
    with b assms(1) paid token show ?thesis unfolding tx_payment_def fields Let_def by auto
  next
    case 3
    with token show ?thesis unfolding tx_payment_def fields Let_def by simp
  qed
qed

lemma demo_rich: "\<forall>a. 100 \<le> w_tokens demo_world 20 a" "po_token (w_pool demo_world) = Some 20"
  by (simp_all add: demo_world_def demo_pool_state)

text \<open>So every small amount can be transacted, with any two nullifiers.\<close>

lemma demo_transact:
  assumes "\<bar>sint x\<bar> \<le> 100"
  obtains w tok tree i0 i1
  where "transact demo_host ledger_transfer demo_env (demo_proof n1 n2 x) (demo_ext x) sender demo_world = Ok w"
    "w = demo_world\<lparr>w_pool := tx_result (demo_proof n1 n2 x) (demo_ext x) tree i0 i1 demo_pool, w_tokens := tok\<rparr>"
    "tx_payment ledger_transfer demo_env (demo_ext x) sender demo_world tok"
proof -
  from demo_payment [OF assms demo_rich] obtain tok where
    pay: "tx_payment ledger_transfer demo_env (demo_ext x) sender demo_world tok" by blast
  from w_reachable_inv [OF demo_reachable] have "mk_repr zero_table_host 3 (po_tree demo_pool) []"
    by (simp add: po_inv_def demo_host_def demo_world_def demo_pool_state)
  moreover have "mk_reduced 3 (po_tree demo_pool)"
    using w_reachable_reduced [OF demo_reachable] by (simp add: demo_host_def demo_world_def zero_table_host_ok)
  moreover have "(5 :: u256) < bn256_modulus" "(6 :: u256) < bn256_modulus" by (simp_all add: word_less_nat_alt)
  ultimately obtain tree i0 i1 where
    "mk_insert_two_leaves zero_table_host 5 6 (po_tree demo_pool) = Ok (tree, i0, i1)"
    using mk_insert_succeeds [OF zero_table_host_ok, of 3 "po_tree demo_pool" "[]" 5 6] by auto
  then have ins: "mk_insert_two_leaves (h_permutation demo_host) (tp_output_commitment0 (demo_proof n1 n2 x))
      (tp_output_commitment1 (demo_proof n1 n2 x)) (po_tree (w_pool demo_world)) = Ok (tree, i0, i1)"
    by (simp add: demo_host_def demo_proof_def demo_world_def)
  have nulls: "po_nullifiers (w_pool demo_world) \<noteq> None"
    by (simp add: demo_world_def demo_pool_state)
  have wf: "\<not> groth16_is_empty (tp_proof (demo_proof n1 n2 x))"
    by (simp add: demo_proof_def groth16_is_empty_def)
  from transact_intro [OF demo_checks [OF assms] pay nulls wf ins] pay show ?thesis
    by (intro that) (simp_all add: demo_world_def)
qed

section \<open>What a transaction has checked\<close>

lemma past_root_window:
  assumes "r \<in> set (last_n 90 (mk_past_roots P h leaves))"
  shows "\<exists>k. 2 * k \<le> length leaves \<and> length leaves < 2 * k + 180 \<and>
    r = mroot (node_hash P) zero_at h (take (2 * k) leaves)"
proof -
  let ?n = "length leaves div 2"
  have len: "length (mk_past_roots P h leaves) = Suc ?n" by (simp add: mk_past_roots_def)
  from assms obtain j where j: "j < Suc ?n" "Suc ?n \<le> j + 90" "mk_past_roots P h leaves ! j = r"
    unfolding in_set_last_n len by blast
  have "mk_past_roots P h leaves ! j = mroot (node_hash P) zero_at h (take (2 * j) leaves)"
    using j(1) by (simp add: mk_past_roots_def del: upt_Suc)
  with j show ?thesis by (intro exI [of _ j]) auto
qed

text \<open>C2: A transaction that succeeds in a reachable world has an authorised sender, a root of one of
  the last 90 states of the commitment tree, only unspent nullifiers, the digest of its external data,
  the external amount as its public amount, the current roots of both policy contracts, a proof
  the verifier's pairing equation accepts, and a deposit within the limit.\<close>

theorem pool_transact_sound:
  assumes "w_reachable H xfer h w" and "transact H xfer env p ext sender w = Ok w'"
  shows "authorized env sender \<and>
    (\<exists>k. 2 * k \<le> length (commitments (w_pool w)) \<and> length (commitments (w_pool w)) < 2 * k + 180 \<and>
      tp_root p \<noteq> 0 \<and>
      tp_root p = mroot (node_hash (h_permutation H)) zero_at h (take (2 * k) (commitments (w_pool w)))) \<and>
    set (tp_input_nullifiers p) \<inter> nullified (w_pool w) = {} \<and>
    tp_ext_data_hash p = ext_digest H ext \<and>
    signed_amount (tp_public_amount p) = sint (ed_ext_amount ext) \<and>
    get_asp_membership_root w = Ok (tp_asp_membership_root p) \<and>
    get_asp_non_membership_root w = Ok (tp_asp_non_membership_root p) \<and>
    verifier_accepts H p w \<and>
    (0 < sint (ed_ext_amount ext) \<longrightarrow>
      (\<exists>m. po_maximum_deposit (w_pool w) = Some m \<and> sint (ed_ext_amount ext) \<le> uint m))"
proof -
  from assms(2) have checks: "tx_checks H env p ext sender w" by (cases rule: transact_OkE)
  from w_reachable_inv [OF assms(1)] have inv: "po_inv (h_permutation H) h (w_pool w)" by blast
  then have repr: "mk_repr (h_permutation H) h (po_tree (w_pool w)) (commitments (w_pool w))"
    by (simp add: po_inv_def)
  have root: "\<exists>k. 2 * k \<le> length (commitments (w_pool w)) \<and> length (commitments (w_pool w)) < 2 * k + 180 \<and>
      tp_root p \<noteq> 0 \<and>
      tp_root p = mroot (node_hash (h_permutation H)) zero_at h (take (2 * k) (commitments (w_pool w)))"
    using checks mk_known_root_iff [OF repr, of "tp_root p"] past_root_window
    by (auto simp: tx_checks_def)
  have fresh: "set (tp_input_nullifiers p) \<inter> nullified (w_pool w) = {}"
    using checks spent_nullified [OF inv] by (auto simp: tx_checks_def)
  from checks have "calculate_public_amount (ed_ext_amount ext) = Ok (tp_public_amount p)"
    by (simp add: tx_checks_def)
  note signed_amount_public [OF this]
  with checks root fresh show ?thesis
    unfolding tx_checks_def verifier_accepts_def ext_digest_def
    by (elim conjE) (intro conjI; assumption)
qed

theorem pool_transact_sound_witness:
  "\<exists>w. transact demo_host ledger_transfer demo_env (demo_proof 1 2 (- 30)) (demo_ext (- 30)) 8 demo_world = Ok w \<and>
    signed_amount (tp_public_amount (demo_proof 1 2 (- 30))) = - 30"
proof -
  have small: "\<bar>sint (- 30 :: i256)\<bar> \<le> 100" by simp
  from demo_transact [OF small] obtain w where
    ok: "transact demo_host ledger_transfer demo_env (demo_proof 1 2 (- 30)) (demo_ext (- 30)) 8 demo_world = Ok w"
    by blast
  from pool_transact_sound [OF demo_reachable ok] ok show ?thesis by (auto simp: demo_ext_def)
qed

text \<open>C9: A successful transaction appends its two commitments to the log at the next two positions of
  the tree, adds exactly its nullifiers, makes the root over all commitments the current root, and
  changes neither the configuration of the pool nor the policy and verifier contracts.\<close>

theorem pool_transact_effect:
  assumes "w_reachable H xfer h w" and "transact H xfer env p ext sender w = Ok w'"
  shows "commitments (w_pool w') =
      commitments (w_pool w) @ [tp_output_commitment0 p, tp_output_commitment1 p] \<and>
    commitment_indices (w_pool w') = [0..<length (commitments (w_pool w)) + 2] \<and>
    nullified (w_pool w') = nullified (w_pool w) \<union> set (tp_input_nullifiers p) \<and>
    po_get_root (w_pool w') =
      Ok (mroot (node_hash (h_permutation H)) zero_at h (commitments (w_pool w'))) \<and>
    po_admin (w_pool w') = po_admin (w_pool w) \<and> po_token (w_pool w') = po_token (w_pool w) \<and>
    po_verifier (w_pool w') = po_verifier (w_pool w) \<and>
    po_maximum_deposit (w_pool w') = po_maximum_deposit (w_pool w) \<and>
    po_asp_membership (w_pool w') = po_asp_membership (w_pool w) \<and>
    po_asp_non_membership (w_pool w') = po_asp_non_membership (w_pool w) \<and>
    w_membership w' = w_membership w \<and> w_non_membership w' = w_non_membership w \<and>
    w_verifier w' = w_verifier w"
proof -
  from w_reachable_inv [OF assms(1)] have inv: "po_inv (h_permutation H) h (w_pool w)" by blast
  from transact_inv [OF assms(2) inv] have inv': "po_inv (h_permutation H) h (w_pool w')" .
  then have "mk_repr (h_permutation H) h (po_tree (w_pool w')) (commitments (w_pool w'))"
    by (simp add: po_inv_def)
  from mk_last_root [OF this] have "po_get_root (w_pool w') =
      Ok (mroot (node_hash (h_permutation H)) zero_at h (commitments (w_pool w')))"
    by (simp add: po_get_root_def)
  moreover from assms(2) obtain tok tree i0 i1 where w': "w' = w\<lparr>w_pool := tx_result p ext tree i0 i1 (w_pool w),
      w_tokens := tok\<rparr>" by (rule transact_OkE)
  moreover have "commitment_indices (w_pool w') = [0..<length (commitments (w_pool w))  + 2]"
    using inv' by (simp add: po_inv_def w' tx_result_log(1))
  ultimately show ?thesis by (simp add: tx_result_log tx_result_frame)
qed

theorem pool_transact_effect_witness:
  "\<exists>w. transact demo_host ledger_transfer demo_env (demo_proof 1 2 30) (demo_ext 30) 8 demo_world = Ok w \<and>
    commitments (w_pool w) = [5, 6] \<and> commitment_indices (w_pool w) = [0, 1] \<and>
    nullified (w_pool w) = {1, 2}"
proof -
  have small: "\<bar>sint (30 :: i256)\<bar> \<le> 100" by simp
  from demo_transact [OF small] obtain w where
    ok: "transact demo_host ledger_transfer demo_env (demo_proof 1 2 30) (demo_ext 30) 8 demo_world = Ok w"
    by blast
  from pool_transact_effect [OF demo_reachable ok] ok show ?thesis
    by (auto simp: demo_world_def demo_pool_state demo_proof_def)
qed

text \<open>C1: No double spending: after a successful transaction, whatever happens in the world (further
  transactions, administration, policy updates, token activity), no transaction that lists one of
  its nullifiers again can succeed.\<close>

theorem pool_no_double_spend:
  assumes "w_reachable H xfer h w" and "transact H xfer env p ext sender w = Ok w1"
    and "w_steps H xfer w1 w2" and "n \<in> set (tp_input_nullifiers p)" and "n \<in> set (tp_input_nullifiers p')"
  shows "transact H xfer env' p' ext' sender' w2 \<noteq> Ok w3"
proof
  assume again: "transact H xfer env' p' ext' sender' w2 = Ok w3"
  from w_reachable_inv [OF assms(1)] have inv: "po_inv (h_permutation H) h (w_pool w)" by blast
  then have "po_nullifiers (w_pool w) \<noteq> None" by (simp add: po_inv_def)
  with transact_spent [OF assms(2)] assms(4) have "spent (w_pool w1) n" by simp
  with w_steps_spent [OF assms(3) transact_inv [OF assms(2) inv]] have "spent (w_pool w2) n" by blast
  moreover from again have "tx_checks H env' p' ext' sender' w2" by (cases rule: transact_OkE)
  ultimately show False using assms(5) by (auto simp: tx_checks_def)
qed

theorem pool_no_double_spend_witness:
  "\<exists>w1. transact demo_host ledger_transfer demo_env (demo_proof 1 2 30) (demo_ext 30) 8 demo_world = Ok w1 \<and>
    (\<forall>w3. transact demo_host ledger_transfer demo_env (demo_proof 2 3 40) (demo_ext 40) 8 w1 \<noteq> Ok w3)"
proof -
  have small: "\<bar>sint (30 :: i256)\<bar> \<le> 100" by simp
  from demo_transact [OF small] obtain w1 where
    ok: "transact demo_host ledger_transfer demo_env (demo_proof 1 2 30) (demo_ext 30) 8 demo_world = Ok w1"
    by blast
  from pool_no_double_spend [OF demo_reachable ok w_steps_refl, of 2 "demo_proof 2 3 40"] ok
  show ?thesis by (auto simp: demo_proof_def)
qed

section \<open>Every outcome\<close>

lemma pool_insert_cases:
  assumes "po_inv P h st" and "mk_reduced h (po_tree st)" and "poseidon2_host P"
  shows "if length (commitments st) = 2 ^ h then
      mk_insert_two_leaves P a b (po_tree st) = Err MK_MerkleTreeFull
    else if bn256_modulus \<le> a \<or> bn256_modulus \<le> b then mk_insert_two_leaves P a b (po_tree st) = Panic
    else \<exists>tree i0 i1. mk_insert_two_leaves P a b (po_tree st) = Ok (tree, i0, i1)"
proof (split if_split, intro conjI impI)
  from assms(1) have repr: "mk_repr P h (po_tree st) (commitments st)" by (simp add: po_inv_def)
  {
    assume "length (commitments st) = 2 ^ h"
    with repr show "mk_insert_two_leaves P a b (po_tree st) = Err MK_MerkleTreeFull" by (rule mk_insert_full)
  next
    assume ne: "length (commitments st) \<noteq> 2 ^ h"
    have "even ((2 :: nat) ^ h)" "even (length (commitments st))" "length (commitments st) \<le> 2 ^ h"
      using repr by (auto simp: mk_repr_def)
    with ne have room: "length (commitments st) + 2 \<le> 2 ^ h" by presburger
    show "if bn256_modulus \<le> a \<or> bn256_modulus \<le> b then mk_insert_two_leaves P a b (po_tree st) = Panic
      else \<exists>tree i0 i1. mk_insert_two_leaves P a b (po_tree st) = Ok (tree, i0, i1)"
    proof (split if_split, intro conjI impI)
      assume "bn256_modulus \<le> a \<or> bn256_modulus \<le> b"
      with repr room show "mk_insert_two_leaves P a b (po_tree st) = Panic" by (rule mk_insert_out_of_field)
    next
      assume "\<not> (bn256_modulus \<le> a \<or> bn256_modulus \<le> b)"
      then have "a < bn256_modulus" "b < bn256_modulus" by (auto simp only: not_le de_Morgan_disj)
      with mk_insert_succeeds [OF assms(3) repr assms(2) room]
      show "\<exists>tree i0 i1. mk_insert_two_leaves P a b (po_tree st) = Ok (tree, i0, i1)" by blast
    qed
  }
qed

text \<open>C7: Every outcome of \<open>internal_transact\<close> in a reachable world, in the order of the checks:
  \<open>UnknownRoot\<close>, \<open>AlreadySpentNullifier\<close>, \<open>WrongExtHash\<close>, \<open>WrongExtAmount\<close>,
  \<open>InvalidProof\<close> for stale policy roots, a trap for a rejected proof or a refused payout,
  \<open>MerkleTreeFull\<close>, a trap for commitments outside the field, and otherwise success.\<close>

theorem pool_internal_outcomes:
  assumes "w_reachable H xfer h w" and "poseidon2_host (h_permutation H)" and "groth16_wf (tp_proof p)"
  shows "let r = internal_transact H xfer env p ext w; x = sint (ed_ext_amount ext) in
    if tp_root p = 0 \<or> tp_root p \<notin> set (last_n 90 (mk_past_roots (h_permutation H) h (commitments (w_pool w))))
      then r = Err PE_UnknownRoot
    else if set (tp_input_nullifiers p) \<inter> nullified (w_pool w) \<noteq> {} then r = Err PE_AlreadySpentNullifier
    else if tp_ext_data_hash p \<noteq> ext_digest H ext then r = Err PE_WrongExtHash
    else if x = - (2 ^ 255) then r = Panic
    else if calculate_public_amount (ed_ext_amount ext) \<noteq> Ok (tp_public_amount p) then r = Err PE_WrongExtAmount
    else if get_asp_membership_root w = Panic \<or> get_asp_non_membership_root w = Panic then r = Panic
    else if get_asp_membership_root w \<noteq> Ok (tp_asp_membership_root p) \<or>
      get_asp_non_membership_root w \<noteq> Ok (tp_asp_non_membership_root p) then r = Err PE_InvalidProof
    else if \<not> verifier_accepts H p w then r = Panic
    else if x \<le> - (2 ^ 127) then r = Err PE_WrongExtAmount
    else if withdrawal xfer env ext w = None then r = Panic
    else if length (commitments (w_pool w)) = 2 ^ h then r = Err PE_MerkleTreeFull
    else if bn256_modulus \<le> tp_output_commitment0 p \<or> bn256_modulus \<le> tp_output_commitment1 p then r = Panic
    else \<exists>w'. r = Ok w' \<and> withdrawal xfer env ext w = Some (w_tokens w')"
proof -
  from w_reachable_inv [OF assms(1)] have inv: "po_inv (h_permutation H) h (w_pool w)" by blast
  then have conf: "po_configured (w_pool w)" "po_token (w_pool w) \<noteq> None"
    "po_nullifiers (w_pool w) \<noteq> None"
    and repr: "mk_repr (h_permutation H) h (po_tree (w_pool w)) (commitments (w_pool w))"
    by (simp_all add: po_inv_def po_configured_def)
  define known where "known \<longleftrightarrow> tp_root p \<noteq> 0 \<and>
    tp_root p \<in> set (last_n 90 (mk_past_roots (h_permutation H) h (commitments (w_pool w))))"
  have valid: "po_validate H p ext w =
    (if \<not> known then Err PE_UnknownRoot
     else if set (tp_input_nullifiers p) \<inter> nullified (w_pool w) \<noteq> {} then Err PE_AlreadySpentNullifier
     else if tp_ext_data_hash p \<noteq> ext_digest H ext then Err PE_WrongExtHash
     else if sint (ed_ext_amount ext) = - (2 ^ 255) then Panic
     else if calculate_public_amount (ed_ext_amount ext) \<noteq> Ok (tp_public_amount p) then Err PE_WrongExtAmount
     else if get_asp_membership_root w = Panic \<or> get_asp_non_membership_root w = Panic then Panic
     else if get_asp_membership_root w \<noteq> Ok (tp_asp_membership_root p) \<or>
       get_asp_non_membership_root w \<noteq> Ok (tp_asp_non_membership_root p) then Err PE_InvalidProof
     else if verifier_accepts H p w then Ok () else Panic)"
  proof -
    have "(\<exists>n \<in> set (tp_input_nullifiers p). spent (w_pool w) n) \<longleftrightarrow>
        set (tp_input_nullifiers p) \<inter> nullified (w_pool w) \<noteq> {}"
      using spent_nullified [OF inv] by auto
    moreover have "mk_is_known_root (tp_root p) (po_tree (w_pool w)) = Ok known"
      by (simp add: mk_known_root_iff [OF repr] known_def)
    ultimately show ?thesis
      using po_validate_verdict [OF conf(1,3) _ groth16_wf_not_empty [OF assms(3)]] by simp
  qed
  have min: "- (2 ^ 255) < sint (ed_ext_amount ext)" if "sint (ed_ext_amount ext) \<noteq> - (2 ^ 255)"
    using that sint_range [of "ed_ext_amount ext"] by linarith
  note settle = po_settle_verdict [OF conf(2) min, where H = H and xfer = xfer and env = env and p = p]
  note ins = pool_insert_cases [OF inv w_reachable_reduced [OF assms(1,2)] assms(2),
      of "tp_output_commitment0 p" "tp_output_commitment1 p"]
  have split: "(tp_root p = 0 \<or> tp_root p \<notin> set (last_n 90 (mk_past_roots (h_permutation H) h
      (commitments (w_pool w))))) \<longleftrightarrow> \<not> known" by (simp add: known_def)
  show ?thesis
    unfolding Let_def internal_transact_split valid split
    using settle ins by (auto split: if_split_asm)
qed

theorem pool_internal_outcomes_witness:
  "internal_transact demo_host ledger_transfer demo_env
     ((demo_proof 1 2 (- 30))\<lparr>tp_ext_data_hash := []\<rparr>) (demo_ext (- 30)) demo_world = Err PE_WrongExtHash"
proof -
  define p where "p = (demo_proof 1 2 (- 30))\<lparr>tp_ext_data_hash := []\<rparr>"
  have p: "groth16_wf (tp_proof p)" "tp_root p = zero_at 3" "tp_ext_data_hash p = []"
    by (simp_all add: groth16_wf_def demo_proof_def p_def)
  have w: "poseidon2_host (h_permutation demo_host)"
    "commitments (w_pool demo_world) = []" "nullified (w_pool demo_world) = {}"
    by (simp_all add: demo_host_def demo_world_def demo_pool_state zero_table_host_ok)
  have "[] \<noteq> ext_digest demo_host (demo_ext (- 30))"
    by (metis ext_digest_def length_u256_to_be_bytes list.size(3) zero_neq_numeral)
  with pool_internal_outcomes [OF demo_reachable w(1) p(1), of demo_env "demo_ext (- 30)"] zero_at_3
  show ?thesis unfolding p_def [symmetric] by (simp add: p(2,3) w(2,3) last_n_def)
qed

lemma transact_Ok_iff:
  assumes "w_reachable H xfer h w" and "poseidon2_host (h_permutation H)" and "groth16_wf (tp_proof p)"
  shows "(\<exists>w'. transact H xfer env p ext sender w = Ok w') \<longleftrightarrow>
    tx_checks H env p ext sender w \<and> (\<exists>tok. tx_payment xfer env ext sender w tok) \<and>
    length (commitments (w_pool w)) + 2 \<le> 2 ^ h \<and>
    tp_output_commitment0 p < bn256_modulus \<and> tp_output_commitment1 p < bn256_modulus"
proof -
  from w_reachable_inv [OF assms(1)] have inv: "po_inv (h_permutation H) h (w_pool w)" by blast
  then have nulls: "po_nullifiers (w_pool w) \<noteq> None"
    and repr: "mk_repr (h_permutation H) h (po_tree (w_pool w)) (commitments (w_pool w))"
    by (simp_all add: po_inv_def)
  note red = w_reachable_reduced [OF assms(1,2)]
  show ?thesis
  proof (intro iffI; (elim exE conjE)?)
    fix w' assume "transact H xfer env p ext sender w = Ok w'"
    then show "tx_checks H env p ext sender w \<and> (\<exists>tok. tx_payment xfer env ext sender w tok) \<and>
      length (commitments (w_pool w)) + 2 \<le> 2 ^ h \<and>
      tp_output_commitment0 p < bn256_modulus \<and> tp_output_commitment1 p < bn256_modulus"
    proof (cases rule: transact_OkE)
      case (1 tok tree i0 i1)
      with mk_insert_reduced [OF assms(2) repr red 1(3)] show ?thesis by blast
    qed
  next
    fix tok assume a: "tx_checks H env p ext sender w" "tx_payment xfer env ext sender w tok"
      "length (commitments (w_pool w)) + 2 \<le> 2 ^ h"
      "tp_output_commitment0 p < bn256_modulus" "tp_output_commitment1 p < bn256_modulus"
    from mk_insert_succeeds [OF assms(2) repr red a(3-5)] obtain tree i0 i1 where
      "mk_insert_two_leaves (h_permutation H) (tp_output_commitment0 p) (tp_output_commitment1 p)
        (po_tree (w_pool w)) = Ok (tree, i0, i1)" by blast
    from transact_intro [OF a(1,2) nulls groth16_wf_not_empty [OF assms(3)] this]
    show "\<exists>w'. transact H xfer env p ext sender w = Ok w'" by blast
  qed
qed

text \<open>C8: With a host that computes Poseidon2, a transaction with a well-formed proof succeeds exactly
  when all checks hold, the token accepts the payment, the tree has room for two more commitments,
  and both are field elements.\<close>

theorem pool_transact_succeeds_iff:
  assumes "w_reachable H xfer h w" and "poseidon2_host (h_permutation H)" and "groth16_wf (tp_proof p)"
  shows "(\<exists>w'. transact H xfer env p ext sender w = Ok w') \<longleftrightarrow>
    tx_checks H env p ext sender w \<and> (\<exists>tok. tx_payment xfer env ext sender w tok) \<and>
    length (commitments (w_pool w)) + 2 \<le> 2 ^ h \<and>
    tp_output_commitment0 p < bn256_modulus \<and> tp_output_commitment1 p < bn256_modulus"
  by (rule transact_Ok_iff [OF assms])

theorem pool_transact_succeeds_iff_witness:
  "\<exists>w'. transact demo_host ledger_transfer demo_env (demo_proof 1 2 (- 30)) (demo_ext (- 30)) 8 demo_world = Ok w'"
proof -
  let ?p = "demo_proof 1 2 (- 30)"
  have small: "\<bar>sint (- 30 :: i256)\<bar> \<le> 100" by simp
  have host: "poseidon2_host (h_permutation demo_host)" by (simp add: demo_host_def zero_table_host_ok)
  have wf: "groth16_wf (tp_proof ?p)" by (simp add: groth16_wf_def demo_proof_def)
  show ?thesis
    unfolding pool_transact_succeeds_iff [OF demo_reachable host wf]
    using demo_checks [OF small] demo_payment [OF small demo_rich]
    by (auto simp: demo_world_def demo_pool_state demo_proof_def word_less_nat_alt)
qed

section \<open>Nullifiers outside the field\<close>

text \<open>
  The group has the order of the scalar field, so multiplying a point by a scalar only depends on the
  scalar modulo that order: what the verifier relies on in the host's \<open>g1_mul\<close>.
\<close>

definition scalars_mod_order :: "bn254 \<Rightarrow> bool" where
  "scalars_mod_order bn \<longleftrightarrow> (\<forall>v a b. uint a mod field_order = uint b mod field_order \<longrightarrow>
     bn_g1_mul bn v (bn_fr_from_bytes bn (u256_to_be_bytes a)) =
     bn_g1_mul bn v (bn_fr_from_bytes bn (u256_to_be_bytes b)))"

abbreviation same_scalar :: "bn254 \<Rightarrow> u256 \<Rightarrow> u256 \<Rightarrow> bool" where
  "same_scalar bn s s' \<equiv> (\<forall>v. bn_g1_mul bn v s = bn_g1_mul bn v s')"

lemma lin_comb_cong:
  "list_all2 (same_scalar bn) s s' \<Longrightarrow> lin_comb bn acc (zip ics s) = lin_comb bn acc (zip ics s')"
proof (induction s s' arbitrary: ics acc rule: list_all2_induct)
  case (Cons x xs y ys)
  show ?case
  proof (cases ics)
    case (Cons i rest)
    with Cons.hyps Cons.IH show ?thesis by (simp split: option.split)
  qed simp
qed simp

lemma groth16_accepts_cong:
  assumes "list_all2 (same_scalar bn) s s'"
  shows "groth16_accepts bn vk p s \<longleftrightarrow> groth16_accepts bn vk p s'"
  using lin_comb_cong [OF assms] list_all2_lengthD [OF assms] by (simp add: groth16_accepts_def)

lemma alias_public_inputs:
  assumes "scalars_mod_order bn"
    and congr: "list_all2 (\<lambda>n n'. uint n mod field_order = uint n' mod field_order) (tp_input_nullifiers p) ns"
  shows "list_all2 (same_scalar bn) (public_inputs bn p) (public_inputs bn (p\<lparr>tp_input_nullifiers := ns\<rparr>))"
proof -
  define fr where "fr x = bn_fr_from_bytes bn (u256_to_be_bytes x)" for x
  define first where "first = [fr (tp_root p), fr (tp_public_amount p), bn_fr_from_bytes bn (tp_ext_data_hash p)]"
  define rest where "rest n = [fr (tp_output_commitment0 p), fr (tp_output_commitment1 p)] @
    replicate n (fr (tp_asp_membership_root p)) @ replicate n (fr (tp_asp_non_membership_root p))" for n
  have lists: "public_inputs bn p = first @ map fr (tp_input_nullifiers p) @ rest (length (tp_input_nullifiers p))"
    "public_inputs bn (p\<lparr>tp_input_nullifiers := ns\<rparr>) = first @ map fr ns @ rest (length ns)"
    by (simp_all add: public_inputs_def Let_def first_def rest_def fr_def [abs_def])
  have refl: "list_all2 (same_scalar bn) xs xs" for xs by (simp add: list.rel_refl)
  have "list_all2 (\<lambda>n n'. same_scalar bn (fr n) (fr n')) (tp_input_nullifiers p) ns"
    using congr by (rule list_all2_mono) (use assms(1) in \<open>unfold scalars_mod_order_def fr_def, blast\<close>)
  then have "list_all2 (same_scalar bn) (map fr (tp_input_nullifiers p)) (map fr ns)"
    by (simp only: list_all2_map1 list_all2_map2)
  then show ?thesis
    unfolding lists list_all2_lengthD [OF congr] by (intro list_all2_appendI refl)
qed

lemma alias_accepts:
  assumes "scalars_mod_order (h_bn254 H)" and "verifier_accepts H p w"
    and "list_all2 (\<lambda>n n'. uint n mod field_order = uint n' mod field_order) (tp_input_nullifiers p) ns"
    and "po_verifier (w_pool w') = po_verifier (w_pool w)" and "w_verifier w' = w_verifier w"
  shows "verifier_accepts H (p\<lparr>tp_input_nullifiers := ns\<rparr>) w'"
  using assms(2,4,5) groth16_accepts_cong [OF alias_public_inputs [OF assms(1,3)]]
  by (simp add: verifier_accepts_def)

text \<open>C5: Nullifiers are compared as 256-bit integers but verified as scalars, and nothing bounds them by
  the field order: after a successful transaction the same proof with every nullifier replaced by a
  congruent one that is not yet in the spent set succeeds again, as long as its root is still known,
  the token accepts the payment, and the tree has room.  The spent set alone does not make a note
  single-use.\<close>

theorem pool_nullifier_alias:
  assumes "w_reachable H xfer h w" and "poseidon2_host (h_permutation H)" and "groth16_wf (tp_proof p)"
    and "scalars_mod_order (h_bn254 H)" and "transact H xfer env p ext sender w = Ok w'"
    and "list_all2 (\<lambda>n n'. uint n mod field_order = uint n' mod field_order) (tp_input_nullifiers p) ns"
    and "set ns \<inter> nullified (w_pool w') = {}"
    and "tp_root p \<in> set (last_n 90 (mk_past_roots (h_permutation H) h (commitments (w_pool w'))))"
    and "\<exists>tok. tx_payment xfer env ext sender w' tok"
    and "length (commitments (w_pool w')) + 2 \<le> 2 ^ h"
  shows "\<exists>w''. transact H xfer env (p\<lparr>tp_input_nullifiers := ns\<rparr>) ext sender w' = Ok w''"
proof -
  have reach': "w_reachable H xfer h w'" using assms(1) w_step_transact [OF assms(5)] by (rule w_reach_step)
  then have inv': "po_inv (h_permutation H) h (w_pool w')" using w_reachable_inv by blast
  then have repr': "mk_repr (h_permutation H) h (po_tree (w_pool w')) (commitments (w_pool w'))"
    by (simp add: po_inv_def)
  from transact_Ok_iff [OF assms(1-3)] assms(5)
  have ok: "tx_checks H env p ext sender w" "tp_output_commitment0 p < bn256_modulus"
    "tp_output_commitment1 p < bn256_modulus" by blast+
  from assms(5) obtain tok tree i0 i1 where w': "w' = w\<lparr>w_pool := tx_result p ext tree i0 i1 (w_pool w),
      w_tokens := tok\<rparr>" by (rule transact_OkE)
  have "verifier_accepts H p w" using ok(1) by (simp add: tx_checks_def verifier_accepts_def)
  then have accepts: "verifier_accepts H (p\<lparr>tp_input_nullifiers := ns\<rparr>) w'"
    by (rule alias_accepts [OF assms(4) _ assms(6)]) (simp_all add: w' tx_result_frame)
  have known: "mk_is_known_root (tp_root p) (po_tree (w_pool w')) = Ok True"
    using ok(1) assms(8) w_reachable_inv [OF assms(1)] mk_known_root_iff [OF repr']
    by (auto simp: tx_checks_def po_inv_def mk_known_root_iff)
  have fresh: "\<forall>n \<in> set ns. \<not> spent (w_pool w') n"
    using assms(7) spent_nullified [OF inv'] by auto
  have "get_asp_membership_root w' = get_asp_membership_root w"
    "get_asp_non_membership_root w' = get_asp_non_membership_root w"
    "po_maximum_deposit (w_pool w') = po_maximum_deposit (w_pool w)"
    by (simp_all add: w' get_asp_membership_root_def get_asp_non_membership_root_def
        po_get_asp_membership_def po_get_asp_non_membership_def tx_result_frame)
  with ok(1) accepts known fresh have "tx_checks H env (p\<lparr>tp_input_nullifiers := ns\<rparr>) ext sender w'"
    by (simp add: tx_checks_def verifier_accepts_def)
  moreover have "groth16_wf (tp_proof (p\<lparr>tp_input_nullifiers := ns\<rparr>))" using assms(3) by simp
  ultimately show ?thesis
    using ok(2,3) assms(9,10) unfolding transact_Ok_iff [OF reach' assms(2) \<open>groth16_wf (tp_proof (p\<lparr>tp_input_nullifiers := ns\<rparr>))\<close>]
    by simp
qed

lemma demo_scalars: "scalars_mod_order demo_bn254"
  unfolding scalars_mod_order_def
proof (intro allI impI)
  fix v :: bytes and a b :: u256
  assume "uint a mod field_order = uint b mod field_order"
  then have "a mod bn256_modulus = b mod bn256_modulus"
    by (simp only: word_uint_eq_iff uint_mod uint_modulus)
  then show "bn_g1_mul demo_bn254 v (bn_fr_from_bytes demo_bn254 (u256_to_be_bytes a)) =
      bn_g1_mul demo_bn254 v (bn_fr_from_bytes demo_bn254 (u256_to_be_bytes b))"
    by (simp add: demo_bn254_def)
qed

theorem pool_nullifier_alias_witness:
  "\<exists>w1 w2. transact demo_host ledger_transfer demo_env (demo_proof 1 2 (- 30)) (demo_ext (- 30)) 8 demo_world = Ok w1 \<and>
    transact demo_host ledger_transfer demo_env
      (demo_proof (1 + bn256_modulus) (2 + bn256_modulus) (- 30)) (demo_ext (- 30)) 8 w1 = Ok w2"
proof -
  let ?p = "demo_proof 1 2 (- 30)" and ?x = "- 30 :: i256"
  let ?ns = "[1 + bn256_modulus, 2 + bn256_modulus]"
  have small: "\<bar>sint ?x\<bar> \<le> 100" by simp
  from demo_transact [OF small] obtain w1 tok tree i0 i1 where
    ok: "transact demo_host ledger_transfer demo_env ?p (demo_ext ?x) 8 demo_world = Ok w1"
    and w1: "w1 = demo_world\<lparr>w_pool := tx_result ?p (demo_ext ?x) tree i0 i1 demo_pool, w_tokens := tok\<rparr>"
    and pay: "tx_payment ledger_transfer demo_env (demo_ext ?x) 8 demo_world tok" by blast
  have log: "commitments (w_pool w1) = [5, 6]" "nullified (w_pool w1) = {1, 2}"
    by (simp_all add: w1 tx_result_log demo_pool_state demo_proof_def)
  from pay obtain a :: i128 where "sint a = 30" "ledger_transfer 20 1 9 a (\<lambda>t a. 1000) = Some tok"
    by (auto simp: tx_payment_def demo_ext_def demo_env_def demo_world_def demo_pool_state Let_def)
  then have "\<forall>a. 100 \<le> w_tokens w1 20 a" by (auto simp: w1 ledger_transfer_def)
  moreover have "po_token (w_pool w1) = Some 20" by (simp add: w1 tx_result_frame demo_pool_state)
  ultimately have pay2: "\<exists>tok. tx_payment ledger_transfer demo_env (demo_ext ?x) 8 w1 tok"
    by (rule demo_payment [OF small])
  have host: "poseidon2_host (h_permutation demo_host)" "scalars_mod_order (h_bn254 demo_host)"
    by (simp_all add: demo_host_def zero_table_host_ok demo_scalars)
  have wf: "groth16_wf (tp_proof ?p)" by (simp add: groth16_wf_def demo_proof_def)
  have congr: "list_all2 (\<lambda>n n'. uint n mod field_order = uint n' mod field_order) (tp_input_nullifiers ?p) ?ns"
    by (simp add: demo_proof_def uint_word_ariths uint_modulus)
  have fresh: "set ?ns \<inter> nullified (w_pool w1) = {}"
    by (simp add: log word_uint_eq_iff uint_word_ariths uint_modulus)
  have root: "tp_root ?p \<in> set (last_n 90 (mk_past_roots (h_permutation demo_host) 3 (commitments (w_pool w1))))"
    by (simp add: log demo_proof_def mk_past_roots_def last_n_def numeral_eq_Suc)
  have room: "length (commitments (w_pool w1)) + 2 \<le> 2 ^ 3" by (simp add: log)
  have "?p\<lparr>tp_input_nullifiers := ?ns\<rparr> = demo_proof (1 + bn256_modulus) (2 + bn256_modulus) ?x"
    by (simp add: demo_proof_def)
  with pool_nullifier_alias [OF demo_reachable host(1) wf host(2) ok congr fresh root pay2 room] ok
  show ?thesis by metis
qed

section \<open>State and history\<close>

text \<open>C19: The storage of a reachable pool is what its event log says: commitments sit at consecutive
  positions, the current root is the root of the full tree over them padded with the zero leaf, and
  a nullifier is spent exactly when it was published.\<close>

theorem pool_state_is_log:
  assumes "w_reachable H xfer h w" and "zero_law (h_permutation H)"
  shows "commitment_indices (w_pool w) = [0..<length (commitments (w_pool w))] \<and>
    length (commitments (w_pool w)) \<le> 2 ^ h \<and>
    po_get_root (w_pool w) = Ok (full_root (node_hash (h_permutation H)) h (commitments (w_pool w) @
      replicate (2 ^ h - length (commitments (w_pool w))) (zero_at 0))) \<and>
    po_is_spent n (w_pool w) = Ok (n \<in> nullified (w_pool w))"
proof -
  from w_reachable_inv [OF assms(1)] have inv: "po_inv (h_permutation H) h (w_pool w)" by blast
  then have repr: "mk_repr (h_permutation H) h (po_tree (w_pool w)) (commitments (w_pool w))"
    and idx: "commitment_indices (w_pool w) = [0..<length (commitments (w_pool w))]"
    and nulls: "po_nullifiers (w_pool w) \<noteq> None"
    by (simp_all add: po_inv_def)
  from repr have len: "length (commitments (w_pool w)) \<le> 2 ^ h" "h \<le> 32" by (simp_all add: mk_repr_def)
  then have "mroot (node_hash (h_permutation H)) zero_at h (commitments (w_pool w)) =
      full_root (node_hash (h_permutation H)) h (commitments (w_pool w) @
        replicate (2 ^ h - length (commitments (w_pool w))) (zero_at 0))"
    using assms(2) by (intro mroot_padded) (simp_all add: zero_law_def)
  with idx len nulls show ?thesis
    by (simp add: po_get_root_def mk_last_root [OF repr] po_is_spent_iff spent_nullified [OF inv])
qed

theorem pool_state_is_log_witness:
  "po_get_root (w_pool demo_world) =
     Ok (full_root (node_hash zero_table_host) 3 (replicate 8 (zero_at 0))) \<and>
   po_is_spent 1 (w_pool demo_world) = Ok False"
proof -
  have "zero_law (h_permutation demo_host)" by (simp add: demo_host_def zero_table_host_law)
  from pool_state_is_log [OF demo_reachable this, of 1] show ?thesis
    by (simp add: demo_world_def demo_pool_state demo_host_def)
qed

text \<open>What any call does to the configuration and the log of the pool.\<close>

lemma w_call_history:
  assumes "w_call H xfer env w w'"
  shows "po_token (w_pool w') = po_token (w_pool w) \<and> po_verifier (w_pool w') = po_verifier (w_pool w) \<and>
    po_maximum_deposit (w_pool w') = po_maximum_deposit (w_pool w) \<and>
    (\<exists>cs. commitments (w_pool w') = commitments (w_pool w) @ cs) \<and>
    nullified (w_pool w) \<subseteq> nullified (w_pool w')"
  using assms
proof cases
  case (w_transact p ext sender)
  then show ?thesis
  proof (cases rule: transact_OkE)
    case (1 tok tree i0 i1)
    then show ?thesis by (simp add: tx_result_log tx_result_frame)
  qed
next
  case (w_pool_admin st)
  then show ?thesis
    by (auto elim!: pool_admin_stepE simp: po_register_Ok po_update_admin_Ok po_update_asp_Ok po_emit_def
        commitments_def nullified_def)
qed simp_all

lemma w_step_history:
  assumes "w_step H xfer w w'"
  shows "po_token (w_pool w') = po_token (w_pool w) \<and> po_verifier (w_pool w') = po_verifier (w_pool w) \<and>
    po_maximum_deposit (w_pool w') = po_maximum_deposit (w_pool w) \<and>
    (\<exists>cs. commitments (w_pool w') = commitments (w_pool w) @ cs) \<and>
    nullified (w_pool w) \<subseteq> nullified (w_pool w')"
  using assms by (auto elim!: w_stepE dest: w_call_history)

text \<open>Whatever happens in the world, the token, the verifier and the deposit limit of a pool never
  change, commitments are never removed or reordered, and nullifiers are never forgotten.\<close>

theorem pool_append_only:
  assumes "w_steps H xfer w w'"
  shows "po_token (w_pool w') = po_token (w_pool w) \<and> po_verifier (w_pool w') = po_verifier (w_pool w) \<and>
    po_maximum_deposit (w_pool w') = po_maximum_deposit (w_pool w) \<and>
    (\<exists>cs. commitments (w_pool w') = commitments (w_pool w) @ cs) \<and>
    nullified (w_pool w) \<subseteq> nullified (w_pool w')"
  using assms
proof (induction rule: w_steps.induct)
  case (w_steps_step w w' w'')
  then show ?case using w_step_history [OF w_steps_step(2)] by auto
qed simp

theorem pool_append_only_witness:
  "\<exists>w cs. transact demo_host ledger_transfer demo_env (demo_proof 1 2 30) (demo_ext 30) 8 demo_world = Ok w \<and>
    commitments (w_pool w) = commitments (w_pool demo_world) @ cs"
proof -
  have small: "\<bar>sint (30 :: i256)\<bar> \<le> 100" by simp
  from demo_transact [OF small] obtain w where
    ok: "transact demo_host ledger_transfer demo_env (demo_proof 1 2 30) (demo_ext 30) 8 demo_world = Ok w"
    by blast
  with pool_append_only [OF w_steps_step [OF w_steps_refl w_step_transact [OF ok]]] show ?thesis by blast
qed

lemma w_steps_history:
  assumes "w_steps H xfer w w'"
  shows "\<exists>cs. commitments (w_pool w') = commitments (w_pool w) @ cs"
  using assms
proof (induction rule: w_steps.induct)
  case (w_steps_step w w' w'')
  then show ?case using w_step_history [OF w_steps_step(2)] by auto
qed simp

lemma w_steps_reachable: "w_steps H xfer w w' \<Longrightarrow> w_reachable H xfer h w \<Longrightarrow> w_reachable H xfer h w'"
  by (induction rule: w_steps.induct) (auto intro: w_reach_step)

text \<open>A proof made against the current root of the pool does not go stale too early: the root is
  accepted as long as fewer than 90 further pairs of commitments were inserted, whatever else
  happens in between.\<close>

theorem pool_root_stays_known:
  assumes "w_reachable H xfer h w" and "w_steps H xfer w w'" and "po_get_root (w_pool w) = Ok r" and "r \<noteq> 0"
    and "length (commitments (w_pool w')) < length (commitments (w_pool w)) + 180"
  shows "mk_is_known_root r (po_tree (w_pool w')) = Ok True"
proof -
  let ?cs = "commitments (w_pool w)"
  from w_reachable_inv [OF assms(1)] have repr: "mk_repr (h_permutation H) h (po_tree (w_pool w)) ?cs"
    by (simp add: po_inv_def)
  from w_reachable_inv [OF w_steps_reachable [OF assms(2,1)]]
  have repr': "mk_repr (h_permutation H) h (po_tree (w_pool w')) (commitments (w_pool w'))"
    by (simp add: po_inv_def)
  from w_steps_history [OF assms(2)] obtain more where more: "commitments (w_pool w') = ?cs @ more" by blast
  from repr have even: "even (length ?cs)" by (simp add: mk_repr_def)
  from assms(3) have r: "r = mroot (node_hash (h_permutation H)) zero_at h ?cs"
    by (simp add: po_get_root_def mk_last_root [OF repr])
  let ?k = "length ?cs div 2" and ?n = "length (commitments (w_pool w')) div 2"
  have k: "2 * ?k = length ?cs" using even by simp
  have lt: "?k < Suc ?n" unfolding more by (simp add: div_le_mono less_Suc_eq_le)
  have nth: "map f [0..<Suc n] ! i = f i" if "i < Suc n" for f :: "nat \<Rightarrow> u256" and n i
    using that by (simp del: upt_Suc)
  have past: "mk_past_roots (h_permutation H) h (commitments (w_pool w')) ! ?k = r"
    "length (mk_past_roots (h_permutation H) h (commitments (w_pool w'))) = Suc ?n"
    unfolding mk_past_roots_def nth [OF lt] k by (simp_all add: r more)
  note lt
  moreover have "Suc ?n \<le> ?k + 90" using assms(5) k by linarith
  ultimately have "r \<in> set (last_n 90 (mk_past_roots (h_permutation H) h (commitments (w_pool w'))))"
    unfolding in_set_last_n past(2) using past(1) by blast
  with assms(4) show ?thesis by (simp add: mk_known_root_iff [OF repr'])
qed

theorem pool_root_stays_known_witness:
  "\<exists>w. transact demo_host ledger_transfer demo_env (demo_proof 1 2 30) (demo_ext 30) 8 demo_world = Ok w \<and>
    mk_is_known_root (zero_at 3) (po_tree (w_pool w)) = Ok True"
proof -
  have small: "\<bar>sint (30 :: i256)\<bar> \<le> 100" by simp
  obtain w tok tree i0 i1 where
    ok: "transact demo_host ledger_transfer demo_env (demo_proof 1 2 30) (demo_ext 30) 8 demo_world = Ok w"
    and w: "w = demo_world\<lparr>w_pool := tx_result (demo_proof 1 2 30) (demo_ext 30) tree i0 i1 demo_pool, w_tokens := tok\<rparr>"
    by (rule demo_transact [OF small])
  have logs: "length (commitments (w_pool w)) < length (commitments (w_pool demo_world)) + 180"
    by (simp add: w tx_result_log demo_world_def demo_pool_state)
  from w_reachable_inv [OF demo_reachable] have "mk_repr zero_table_host 3 (po_tree (w_pool demo_world)) []"
    by (simp add: po_inv_def demo_host_def demo_world_def demo_pool_state)
  then have root: "po_get_root (w_pool demo_world) = Ok (zero_at 3)"
    by (simp add: po_get_root_def mk_last_root)
  from pool_root_stays_known [OF demo_reachable w_steps_step [OF w_steps_refl w_step_transact [OF ok]] root zero_at_3 logs] ok
  show ?thesis by blast
qed

text \<open>C20: Governance: whenever any call, to whatever contract, changes the administrator of a pool or
  one of the policy contracts it trusts, the pool's administrator at that moment has authorised this
  very call, and it is one of the three administrative calls of the pool. No call at all changes the
  token, the verifier or the deposit limit. An environment that does not authorise the
  administrator therefore leaves the governance of the pool as it is.\<close>

theorem pool_governance:
  assumes "w_call H xfer env w w'" and "po_admin (w_pool w) = Some adm"
  shows "po_token (w_pool w') = po_token (w_pool w) \<and> po_verifier (w_pool w') = po_verifier (w_pool w) \<and>
    po_maximum_deposit (w_pool w') = po_maximum_deposit (w_pool w) \<and>
    (po_admin (w_pool w') = po_admin (w_pool w) \<and> po_asp_membership (w_pool w') = po_asp_membership (w_pool w) \<and>
        po_asp_non_membership (w_pool w') = po_asp_non_membership (w_pool w) \<or>
     authorized env adm \<and> (\<exists>a. po_update_admin env a (w_pool w) = Ok (w_pool w') \<or>
        po_update_asp_membership env a (w_pool w) = Ok (w_pool w') \<or>
        po_update_asp_non_membership env a (w_pool w) = Ok (w_pool w')))"
proof (intro conjI)
  show "po_token (w_pool w') = po_token (w_pool w)" "po_verifier (w_pool w') = po_verifier (w_pool w)"
    "po_maximum_deposit (w_pool w') = po_maximum_deposit (w_pool w)"
    using w_call_history [OF assms(1)] by simp_all
  from assms(1) show "po_admin (w_pool w') = po_admin (w_pool w) \<and>
      po_asp_membership (w_pool w') = po_asp_membership (w_pool w) \<and>
      po_asp_non_membership (w_pool w') = po_asp_non_membership (w_pool w) \<or>
     authorized env adm \<and> (\<exists>a. po_update_admin env a (w_pool w) = Ok (w_pool w') \<or>
        po_update_asp_membership env a (w_pool w) = Ok (w_pool w') \<or>
        po_update_asp_non_membership env a (w_pool w) = Ok (w_pool w'))"
  proof cases
    case (w_transact p ext sender)
    then show ?thesis by (cases rule: transact_OkE) (simp add: tx_result_frame)
  next
    case (w_pool_admin st)
    then show ?thesis using assms(2)
      by (auto elim!: pool_admin_stepE simp: po_register_Ok po_update_admin_Ok po_update_asp_Ok po_emit_def)
  qed simp_all
qed

theorem pool_governance_witness:
  "\<exists>w. w_call demo_host ledger_transfer demo_env demo_world w \<and> po_asp_membership (w_pool w) = Some 41 \<and>
    authorized demo_env 7 \<and> (\<forall>w'. w_call demo_host ledger_transfer (demo_env\<lparr>authorized := \<lambda>a. a \<noteq> 7\<rparr>) demo_world w' \<longrightarrow>
      po_asp_membership (w_pool w') = Some 40 \<and> po_admin (w_pool w') = Some 7)"
proof -
  let ?w = "demo_world\<lparr>w_pool := demo_pool\<lparr>po_asp_membership := Some 41\<rparr>\<rparr>"
  have adm: "po_admin (w_pool demo_world) = Some 7" by (simp add: demo_world_def demo_pool_state)
  have asp: "po_asp_membership (w_pool demo_world) = Some 40" by (simp add: demo_world_def demo_pool_state)
  have upd: "po_update_asp_membership demo_env 41 (w_pool demo_world) = Ok (w_pool ?w)"
    by (simp add: po_update_asp_Ok adm demo_env_def) (simp add: demo_world_def)
  from w_pool_admin [OF pa_membership [OF upd]]
  have call: "w_call demo_host ledger_transfer demo_env demo_world ?w" by (simp add: demo_world_def)
  from pool_governance [OF call adm] asp have "authorized demo_env 7" by simp
  moreover from pool_governance [OF _ adm] adm asp
  have "po_asp_membership (w_pool w') = Some 40 \<and> po_admin (w_pool w') = Some 7"
    if "w_call demo_host ledger_transfer (demo_env\<lparr>authorized := \<lambda>a. a \<noteq> 7\<rparr>) demo_world w'" for w'
    using that by fastforce
  ultimately show ?thesis using call by fastforce
qed

text \<open>Paid in the mock token, transactions move nothing.\<close>

lemma mock_token_moves_nothing:
  assumes "transact H mock_transfer env p ext sender w = Ok w'"
  shows "w_tokens w' = w_tokens w"
  using assms by (cases rule: transact_OkE) (auto simp: tx_payment_def mock_transfer_def Let_def split: if_splits)

section \<open>Solvency\<close>

definition po_run ::
  "host \<Rightarrow> 'tok transfer \<Rightarrow> (env \<times> tx_proof \<times> ext_data \<times> address) list \<Rightarrow> 'tok world \<Rightarrow>
     ('tok world, pool_error) result" where
  "po_run H xfer = rfold (\<lambda>(env, p, ext, sender) w. transact H xfer env p ext sender w)"

text \<open>One transaction moves exactly its external amount in or out of the pool.\<close>

lemma transact_balance:
  assumes law: "sep41 xfer bal" and ok: "transact H xfer env p ext sender w = Ok w'"
    and token: "po_token (w_pool w) = Some t"
    and parties: "current_contract env = self" "sender \<noteq> self" "ed_recipient ext \<noteq> self"
  shows "bal (w_tokens w') t self = bal (w_tokens w) t self + signed_amount (tp_public_amount p) \<and>
    (\<forall>t' x. t' \<noteq> t \<longrightarrow> bal (w_tokens w') t' x = bal (w_tokens w) t' x) \<and> po_token (w_pool w') = Some t"
  using ok
proof (cases rule: transact_OkE)
  case (1 tok tree i0 i1)
  let ?x = "sint (ed_ext_amount ext)"
  from 1(1) have "signed_amount (tp_public_amount p) = ?x"
    by (intro signed_amount_public) (simp add: tx_checks_def)
  moreover have "bal tok t self = bal (w_tokens w) t self + ?x \<and>
      (\<forall>t' x. t' \<noteq> t \<longrightarrow> bal tok t' x = bal (w_tokens w) t' x)"
  proof -
    have move: "\<And>s d a tok tok'. xfer t s d a tok = Some tok' \<Longrightarrow> \<forall>t' x. bal tok' t' x = bal tok t' x
        - (if t' = t \<and> x = s then sint a else 0) + (if t' = t \<and> x = d then sint a else 0)"
      using law unfolding sep41_def by blast
    consider "0 < ?x" | "?x < 0" | "?x = 0" by linarith
    then show ?thesis
    proof cases
      case pos: 1
      with 1(2) token parties(1) obtain a where "sint a = ?x" "xfer t sender self a (w_tokens w) = Some tok"
        by (auto simp: tx_payment_def Let_def)
      with move [OF this(2)] parties show ?thesis by simp
    next
      case neg: 2
      with 1(2) token parties(1) obtain a where "sint a = - ?x"
        "xfer t self (ed_recipient ext) a (w_tokens w) = Some tok"
        by (auto simp: tx_payment_def Let_def)
      with move [OF this(2)] parties show ?thesis by simp
    next
      case zero: 3
      with 1(2) have "tok = w_tokens w" by (simp add: tx_payment_def Let_def)
      with zero show ?thesis by simp
    qed
  qed
  ultimately show ?thesis using 1(4) token by (simp add: tx_result_frame)
qed

text \<open>C3: Solvency: over any sequence of successful transactions with other parties, the pool's balance
  of its token (a SEP-41 ledger) moves by exactly the sum of the public amounts the proofs state, and
  no balance of another token changes.\<close>

theorem pool_solvency:
  assumes "sep41 xfer bal" and "po_run H xfer txs w = Ok w'" and "po_token (w_pool w) = Some t"
    and "\<forall>(env, p, ext, sender) \<in> set txs. current_contract env = self \<and> sender \<noteq> self \<and> ed_recipient ext \<noteq> self"
  shows "bal (w_tokens w') t self - bal (w_tokens w) t self =
      (\<Sum>(env, p, ext, sender) \<leftarrow> txs. signed_amount (tp_public_amount p)) \<and>
    (\<forall>t' x. t' \<noteq> t \<longrightarrow> bal (w_tokens w') t' x = bal (w_tokens w) t' x)"
  using assms(2-4)
proof (induction txs arbitrary: w)
  case Nil
  then show ?case by (simp add: po_run_def)
next
  case (Cons tx txs)
  obtain env p ext sender where tx: "tx = (env, p, ext, sender)" by (cases tx)
  from Cons.prems(1) obtain w1 where one: "transact H xfer env p ext sender w = Ok w1"
    and run: "po_run H xfer txs w1 = Ok w'" by (auto simp: po_run_def tx result_simps)
  have parties: "current_contract env = self" "sender \<noteq> self" "ed_recipient ext \<noteq> self"
    using Cons.prems(3) by (simp_all add: tx)
  note step = transact_balance [OF assms(1) one Cons.prems(2) parties]
  have "\<forall>(env, p, ext, sender) \<in> set txs. current_contract env = self \<and> sender \<noteq> self \<and> ed_recipient ext \<noteq> self"
    using Cons.prems(3) by simp
  with Cons.IH [OF run] step show ?case by (simp add: tx)
qed

theorem pool_solvency_witness:
  "\<exists>w. transact demo_host ledger_transfer demo_env (demo_proof 1 2 (- 30)) (demo_ext (- 30)) 8 demo_world = Ok w \<and>
    w_tokens w 20 1 = 970"
proof -
  have small: "\<bar>sint (- 30 :: i256)\<bar> \<le> 100" by simp
  from demo_transact [OF small] obtain w where
    ok: "transact demo_host ledger_transfer demo_env (demo_proof 1 2 (- 30)) (demo_ext (- 30)) 8 demo_world = Ok w"
    by blast
  then have run: "po_run demo_host ledger_transfer
      [(demo_env, demo_proof 1 2 (- 30), demo_ext (- 30), 8)] demo_world = Ok w"
    by (simp add: po_run_def)
  have "calculate_public_amount (- 30) = Ok (tp_public_amount (demo_proof 1 2 (- 30)))"
    by (simp add: public_amount_exact demo_proof_def)
  from signed_amount_public [OF this]
  have "signed_amount (tp_public_amount (demo_proof 1 2 (- 30))) = - 30" by simp
  moreover have "po_token (w_pool demo_world) = Some 20" by (simp add: demo_world_def demo_pool_state)
  moreover have "w_tokens demo_world 20 1 = 1000" by (simp add: demo_world_def)
  ultimately show ?thesis
    using pool_solvency [OF ledger_sep41 run, of 20 1] ok by (auto simp: demo_env_def demo_ext_def)
qed

end
