(* ===== verification/Poseidon2_Perm.thy ===== *)
theory Poseidon2_Perm
  imports Enclave_Prelude
begin

text \<open>
  The Poseidon2 permutation of the \<open>poseidon2\<close> crate (\<open>poseidon2/src/poseidon2/poseidon2.rs\<close> and
  \<open>poseidon2_params.rs\<close>), generic in the field as the source is: the state is a list over any
  commutative ring.  Indexing out of range, an unsupported width or an unsupported s-box degree
  panics, as in the source.  The reference is the textbook permutation, written with matrices; the
  source's additive formulas for its linear layers are shown to compute it.
\<close>

section \<open>Parameters\<close>

record 'a poseidon2_params =
  p2_t :: nat
  p2_d :: nat
  p2_rounds_f_div_2 :: nat
  p2_rounds_p :: nat
  p2_rounds :: nat
  p2_mat_internal_diag_m_1 :: "'a list"
  p2_mat_internal :: "'a list list"
  p2_round_constants :: "'a list list"

definition poseidon2_params_new ::
  "nat \<Rightarrow> nat \<Rightarrow> nat \<Rightarrow> nat \<Rightarrow> 'a list \<Rightarrow> 'a list list \<Rightarrow> 'a list list \<Rightarrow>
     ('a poseidon2_params, 'e) result" where
  "poseidon2_params_new t d rounds_f rounds_p mat_internal_diag_m_1 mat_internal round_constants =
     (if \<not> (d = 3 \<or> d = 5 \<or> d = 7 \<or> d = 11) then Panic
      else if rounds_f mod 2 \<noteq> 0 then Panic
      else
        let r = rounds_f div 2;
            rounds = rounds_f + rounds_p in
        Ok \<lparr>p2_t = t, p2_d = d, p2_rounds_f_div_2 = r, p2_rounds_p = rounds_p, p2_rounds = rounds,
            p2_mat_internal_diag_m_1 = mat_internal_diag_m_1, p2_mat_internal = mat_internal,
            p2_round_constants = round_constants\<rparr>)"

text \<open>\<open>dbg\<close>: debug assertions are compiled in.\<close>

definition mat_vec_mul :: "bool \<Rightarrow> 'a::comm_ring_1 list list \<Rightarrow> 'a list \<Rightarrow> ('a list, 'e) result" where
  "mat_vec_mul dbg mat input =
     (if dbg \<and> length mat \<noteq> length input then Panic
      else
        each (\<lambda>row.
          rfold (\<lambda>(col, inp) out. rbind (unwrap (vec_get row col)) (\<lambda>m. Ok (out + m * inp)))
            (List.enumerate 0 input) 0) mat)"

text \<open>A hexadecimal string of a parameter table is the numeral of the same digits here; \<open>from_hex\<close>
  reduces it into the field.\<close>

definition from_hex :: "nat \<Rightarrow> 'a::comm_ring_1" where
  "from_hex a = of_nat a"

text \<open>
  Random elements: \<open>rand\<close> is the sampler of the field over the state of the thread's generator.  The
  second function draws until the element is not zero and returns exactly when such a draw comes.
\<close>

definition random_scalar :: "('g \<Rightarrow> 'a \<times> 'g) \<Rightarrow> 'g \<Rightarrow> 'a \<times> 'g" where
  "random_scalar rand g = rand g"

partial_function (option) random_scalar_without_0 :: "('g \<Rightarrow> 'a::zero \<times> 'g) \<Rightarrow> 'g \<Rightarrow> ('a \<times> 'g) option" where
  "random_scalar_without_0 rand g =
     (case random_scalar rand g of (element, g') \<Rightarrow>
        if element \<noteq> 0 then Some (element, g') else random_scalar_without_0 rand g')"

declare random_scalar_without_0.simps [simp del]

lemma random_scalar_without_0_returns:
  "fst (rand (((snd \<circ> rand) ^^ n) g)) \<noteq> 0 \<Longrightarrow> \<forall>i < n. fst (rand (((snd \<circ> rand) ^^ i) g)) = 0 \<Longrightarrow>
    random_scalar_without_0 rand g = Some (rand (((snd \<circ> rand) ^^ n) g))"
proof (induction n arbitrary: g)
  case 0
  then show ?case
    by (subst random_scalar_without_0.simps) (cases "rand g"; simp add: random_scalar_def)
next
  case (Suc n)
  have shift: "((snd \<circ> rand) ^^ Suc i) g = ((snd \<circ> rand) ^^ i) (snd (rand g))" for i
    by (simp only: funpow_Suc_right o_apply)
  have zero: "fst (rand g) = 0" using Suc.prems(2) by (metis funpow_0 zero_less_Suc)
  have "random_scalar_without_0 rand (snd (rand g)) = Some (rand (((snd \<circ> rand) ^^ n) (snd (rand g))))"
  proof (rule Suc.IH)
    show "\<forall>i < n. fst (rand (((snd \<circ> rand) ^^ i) (snd (rand g)))) = 0"
      using Suc.prems(2) by (metis shift Suc_less_eq)
  qed (use Suc.prems(1) shift in metis)
  with zero show ?case unfolding shift
    by (subst random_scalar_without_0.simps) (cases "rand g"; simp add: random_scalar_def)
qed

lemma random_scalar_without_0_draw:
  assumes "random_scalar_without_0 rand g = Some r"
  shows "fst r \<noteq> 0 \<and> (\<exists>n. r = rand (((snd \<circ> rand) ^^ n) g))"
proof (rule random_scalar_without_0.raw_induct
    [where P = "\<lambda>rand g r. fst r \<noteq> 0 \<and> (\<exists>n. r = rand (((snd \<circ> rand) ^^ n) g))", OF _ assms])
  fix f and rand :: "'g \<Rightarrow> 'a \<times> 'g" and g r
  assume IH: "\<And>rand g r. f rand g = Some r \<Longrightarrow> fst r \<noteq> 0 \<and> (\<exists>n. r = rand (((snd \<circ> rand) ^^ n) g))"
    and r: "(case random_scalar rand g of (element, g') \<Rightarrow>
      if element \<noteq> 0 then Some (element, g') else f rand g') = Some r"
  show "fst r \<noteq> 0 \<and> (\<exists>n. r = rand (((snd \<circ> rand) ^^ n) g))"
  proof (cases "fst (rand g) = 0")
    case True
    with r have "f rand (snd (rand g)) = Some r" by (simp add: random_scalar_def split: prod.splits if_splits)
    from IH [OF this] obtain n where "fst r \<noteq> 0" "r = rand (((snd \<circ> rand) ^^ n) (snd (rand g)))" by blast
    then have "r = rand (((snd \<circ> rand) ^^ Suc n) g)" by (simp only: funpow_Suc_right o_apply)
    with \<open>fst r \<noteq> 0\<close> show ?thesis by blast
  next
    case False
    with r have "r = rand g" by (auto simp: random_scalar_def split: prod.splits if_splits)
    with False show ?thesis by (intro conjI exI [of _ 0]) simp_all
  qed
qed

section \<open>The permutation\<close>

definition sbox_p :: "'a::comm_ring_1 poseidon2_params \<Rightarrow> 'a \<Rightarrow> ('a, 'e) result" where
  "sbox_p params input =
     (let input2 = input * input in
      if p2_d params = 3 then Ok (input2 * input)
      else if p2_d params = 5 then Ok (input2 * input2 * input)
      else if p2_d params = 7 then Ok (input2 * input2 * input2 * input)
      else Panic)"

primrec sbox :: "'a::comm_ring_1 poseidon2_params \<Rightarrow> 'a list \<Rightarrow> ('a list, 'e) result" where
  "sbox params [] = Ok []"
| "sbox params (el # els) =
     rbind (sbox_p params el) (\<lambda>y. rbind (sbox params els) (\<lambda>ys. Ok (y # ys)))"

text \<open>One block of the cheap 4x4 matrix, and the loop over all blocks.\<close>

fun matmul_m4 :: "nat \<Rightarrow> 'a::comm_ring_1 list \<Rightarrow> ('a list, 'e) result" where
  "matmul_m4 0 input = Ok input"
| "matmul_m4 (Suc t4) (x0 # x1 # x2 # x3 # rest) =
     (let t_0 = x0 + x1;
          t_1 = x2 + x3;
          t_2 = x1 + x1 + t_1;
          t_3 = x3 + x3 + t_0;
          t_4 = (t_1 + t_1) + (t_1 + t_1) + t_3;
          t_5 = (t_0 + t_0) + (t_0 + t_0) + t_2;
          t_6 = t_3 + t_5;
          t_7 = t_2 + t_4 in
      rbind (matmul_m4 t4 rest) (\<lambda>ys. Ok (t_6 # t_5 # t_7 # t_4 # ys)))"
| "matmul_m4 (Suc t4) input = Panic"

text \<open>\<open>stored[l]\<close>: the sum of the lanes congruent to \<open>l\<close>.\<close>

definition m4_stored :: "nat \<Rightarrow> 'a::comm_ring_1 list \<Rightarrow> nat \<Rightarrow> ('a, 'e) result" where
  "m4_stored t4 input l =
     rbind (unwrap (vec_get input l)) (\<lambda>x.
     rfold (\<lambda>j acc. rbind (unwrap (vec_get input (4 * j + l))) (\<lambda>y. Ok (acc + y))) [1..<t4] x)"

definition matmul_external :: "'a::comm_ring_1 poseidon2_params \<Rightarrow> 'a list \<Rightarrow> ('a list, 'e) result" where
  "matmul_external params input =
     (let t = p2_t params in
      if t = 2 then
        (case input of
           x0 # x1 # rest \<Rightarrow> let tot = x0 + x1 in Ok ((x0 + tot) # (x1 + tot) # rest)
         | _ \<Rightarrow> Panic)
      else if t = 3 then
        (case input of
           x0 # x1 # x2 # rest \<Rightarrow>
             let tot = x0 + x1 + x2 in Ok ((x0 + tot) # (x1 + tot) # (x2 + tot) # rest)
         | _ \<Rightarrow> Panic)
      else if t = 4 then matmul_m4 (t div 4) input
      else if t \<in> {8, 12, 16, 20, 24} then
        rbind (matmul_m4 (t div 4) input) (\<lambda>ys.
        rbind (m4_stored (t div 4) ys 0) (\<lambda>s0.
        rbind (m4_stored (t div 4) ys 1) (\<lambda>s1.
        rbind (m4_stored (t div 4) ys 2) (\<lambda>s2.
        rbind (m4_stored (t div 4) ys 3) (\<lambda>s3.
        Ok (map (\<lambda>(i, y). y + [s0, s1, s2, s3] ! (i mod 4)) (List.enumerate 0 ys)))))))
      else Panic)"

primrec mul_diag :: "'a::comm_ring_1 list \<Rightarrow> 'a \<Rightarrow> nat \<Rightarrow> 'a list \<Rightarrow> ('a list, 'e) result" where
  "mul_diag diag tot i [] = Ok []"
| "mul_diag diag tot i (x # xs) =
     rbind (unwrap (vec_get diag i)) (\<lambda>d.
     rbind (mul_diag diag tot (Suc i) xs) (\<lambda>ys. Ok ((x * d + tot) # ys)))"

definition matmul_internal :: "'a::comm_ring_1 poseidon2_params \<Rightarrow> 'a list \<Rightarrow> ('a list, 'e) result" where
  "matmul_internal params input =
     (let t = p2_t params in
      if t = 2 then
        (case input of
           x0 # x1 # rest \<Rightarrow> let tot = x0 + x1 in Ok ((x0 + tot) # (x1 + x1 + tot) # rest)
         | _ \<Rightarrow> Panic)
      else if t = 3 then
        (case input of
           x0 # x1 # x2 # rest \<Rightarrow>
             let tot = x0 + x1 + x2 in Ok ((x0 + tot) # (x1 + tot) # (x2 + x2 + tot) # rest)
         | _ \<Rightarrow> Panic)
      else if t \<in> {4, 8, 12, 16, 20, 24} then
        (case input of
           [] \<Rightarrow> Panic
         | x0 # rest \<Rightarrow>
             let tot = fold (\<lambda>el acc. acc + el) (take (t - 1) rest) x0 in
             mul_diag (p2_mat_internal_diag_m_1 params) tot 0 input)
      else Panic)"

definition add_rc :: "'a::comm_ring_1 list \<Rightarrow> 'a list \<Rightarrow> 'a list" where
  "add_rc input rc = map (\<lambda>(a, b). a + b) (zip input rc)"

definition full_round ::
  "'a::comm_ring_1 poseidon2_params \<Rightarrow> nat \<Rightarrow> 'a list \<Rightarrow> ('a list, 'e) result" where
  "full_round params r current_state =
     rbind (unwrap (vec_get (p2_round_constants params) r)) (\<lambda>rc.
     rbind (sbox params (add_rc current_state rc)) (\<lambda>s.
     matmul_external params s))"

definition partial_round ::
  "'a::comm_ring_1 poseidon2_params \<Rightarrow> nat \<Rightarrow> 'a list \<Rightarrow> ('a list, 'e) result" where
  "partial_round params r current_state =
     rbind (unwrap (vec_get (p2_round_constants params) r)) (\<lambda>rc.
     rbind (unwrap (vec_get rc 0)) (\<lambda>rc0.
     case current_state of
       [] \<Rightarrow> Panic
     | x0 # rest \<Rightarrow>
         rbind (sbox_p params (x0 + rc0)) (\<lambda>y.
         matmul_internal params (y # rest))))"

definition permutation_run ::
  "'a::comm_ring_1 poseidon2_params \<Rightarrow> 'a list \<Rightarrow> ('a list, 'e) result" where
  "permutation_run params input =
     (if length input \<noteq> p2_t params then Panic
      else
        let p_end = p2_rounds_f_div_2 params + p2_rounds_p params in
        rbind (matmul_external params input) (\<lambda>s0.
        rbind (rfold (full_round params) [0..<p2_rounds_f_div_2 params] s0) (\<lambda>s1.
        rbind (rfold (partial_round params) [p2_rounds_f_div_2 params..<p_end] s1) (\<lambda>s2.
        rfold (full_round params) [p_end..<p2_rounds params] s2))))"

section \<open>The reference permutation\<close>

text \<open>Matrices as functions of row and column, and the product with a state of width \<open>t\<close>.\<close>

definition mat_apply :: "nat \<Rightarrow> (nat \<Rightarrow> nat \<Rightarrow> 'a::comm_ring_1) \<Rightarrow> 'a list \<Rightarrow> 'a list" where
  "mat_apply t m xs = map (\<lambda>i. \<Sum>j < t. m i j * xs ! j) [0..<t]"

text \<open>The external matrices of the Poseidon2 paper for the widths 2, 3, 4 and multiples of 4.\<close>

definition m4_entry :: "nat \<Rightarrow> nat \<Rightarrow> 'a::comm_ring_1" where
  "m4_entry i j = ([[5, 7, 1, 3], [4, 6, 1, 1], [1, 3, 5, 7], [1, 1, 4, 6]] ! (i mod 4)) ! (j mod 4)"

definition external_matrix :: "nat \<Rightarrow> nat \<Rightarrow> nat \<Rightarrow> 'a::comm_ring_1" where
  "external_matrix t i j =
     (if t < 4 then (if i = j then 2 else 1)
      else if t = 4 then m4_entry i j
      else (if i div 4 = j div 4 then 2 else 1) * m4_entry i j)"

text \<open>The internal matrix: all ones, plus the given diagonal.\<close>

definition internal_matrix :: "'a::comm_ring_1 list \<Rightarrow> nat \<Rightarrow> nat \<Rightarrow> 'a" where
  "internal_matrix diag i j = 1 + (if i = j then diag ! i else 0)"

definition spec_full_round :: "'a::comm_ring_1 poseidon2_params \<Rightarrow> nat \<Rightarrow> 'a list \<Rightarrow> 'a list" where
  "spec_full_round params r xs = mat_apply (p2_t params) (external_matrix (p2_t params))
     (map (\<lambda>i. (xs ! i + p2_round_constants params ! r ! i) ^ p2_d params) [0..<p2_t params])"

definition spec_partial_round :: "'a::comm_ring_1 poseidon2_params \<Rightarrow> nat \<Rightarrow> 'a list \<Rightarrow> 'a list" where
  "spec_partial_round params r xs = mat_apply (p2_t params)
     (internal_matrix (p2_mat_internal_diag_m_1 params))
     (xs[0 := (xs ! 0 + p2_round_constants params ! r ! 0) ^ p2_d params])"

definition poseidon2_spec :: "'a::comm_ring_1 poseidon2_params \<Rightarrow> 'a list \<Rightarrow> 'a list" where
  "poseidon2_spec params xs =
     (let f = p2_rounds_f_div_2 params; p = p2_rounds_p params in
      fold (spec_full_round params) [f + p..<p2_rounds params]
        (fold (spec_partial_round params) [f..<f + p]
          (fold (spec_full_round params) [0..<f]
            (mat_apply (p2_t params) (external_matrix (p2_t params)) xs))))"

text \<open>Parameters the code supports.\<close>

definition params_ok :: "'a::comm_ring_1 poseidon2_params \<Rightarrow> bool" where
  "params_ok params \<longleftrightarrow>
     p2_t params \<in> {2, 3, 4, 8, 12, 16, 20, 24} \<and> p2_d params \<in> {3, 5, 7} \<and>
     p2_rounds params = 2 * p2_rounds_f_div_2 params + p2_rounds_p params \<and>
     length (p2_round_constants params) = p2_rounds params \<and>
     (\<forall>r < p2_rounds params. length (p2_round_constants params ! r) = p2_t params) \<and>
     length (p2_mat_internal_diag_m_1 params) = p2_t params \<and>
     (p2_t params = 2 \<longrightarrow> p2_mat_internal_diag_m_1 params = [1, 2]) \<and>
     (p2_t params = 3 \<longrightarrow> p2_mat_internal_diag_m_1 params = [1, 1, 2])"

section \<open>The linear layers compute their matrices\<close>

lemma list_length_2: "length xs = 2 \<longleftrightarrow> (\<exists>a b. xs = [a, b])"
  by (auto simp: length_Suc_conv numeral_2_eq_2)

lemma list_length_3: "length xs = 3 \<longleftrightarrow> (\<exists>a b c. xs = [a, b, c])"
  by (auto simp: length_Suc_conv numeral_3_eq_3)

lemma upt_small: "[0..<2] = [0, 1]" "[0..<3] = [0, 1, 2]" "[0..<4] = [0, 1, 2, 3]"
  by (simp_all add: numeral_eq_Suc)

lemma sum_small:
  "(\<Sum>j < (2::nat). f j) = f 0 + f 1" "(\<Sum>j < (3::nat). f j) = f 0 + f 1 + f 2"
  "(\<Sum>j < (4::nat). f j) = f 0 + f 1 + f 2 + f 3"
  for f :: "nat \<Rightarrow> 'a::comm_ring_1"
  by (simp_all add: numeral_eq_Suc ac_simps)

lemma sbox_p_power: "p2_d params \<in> {3, 5, 7} \<Longrightarrow> sbox_p params x = Ok (x ^ p2_d params)"
  by (auto simp: sbox_p_def power_numeral_odd power_numeral_even power2_eq_square eval_nat_numeral mult.assoc)

lemma sbox_map: "p2_d params \<in> {3, 5, 7} \<Longrightarrow> sbox params xs = Ok (map (\<lambda>x. x ^ p2_d params) xs)"
  by (induction xs) (simp_all add: sbox_p_power)

lemma external_2:
  assumes "p2_t params = 2" and "length xs = 2"
  shows "matmul_external params xs = Ok (mat_apply 2 (external_matrix 2) xs)"
  using assms
  by (auto simp: list_length_2 matmul_external_def mat_apply_def external_matrix_def upt_small sum_small
      algebra_simps)

lemma external_3:
  assumes "p2_t params = 3" and "length xs = 3"
  shows "matmul_external params xs = Ok (mat_apply 3 (external_matrix 3) xs)"
  using assms
  by (auto simp: list_length_3 matmul_external_def mat_apply_def external_matrix_def upt_small sum_small
      algebra_simps)

text \<open>The blocks: lane \<open>i\<close> of the result is row \<open>i mod 4\<close> of the small matrix on its block.\<close>

abbreviation m4_lane :: "'a::comm_ring_1 list \<Rightarrow> nat \<Rightarrow> 'a" where
  "m4_lane xs i \<equiv> (\<Sum>c < 4. m4_entry i c * xs ! (4 * (i div 4) + c))"

lemma m4_entry_rows:
  "m4_entry i 0 = ([5, 4, 1, 1] :: 'a::comm_ring_1 list) ! (i mod 4)"
  "m4_entry i 1 = ([7, 6, 3, 1] :: 'a::comm_ring_1 list) ! (i mod 4)"
  "m4_entry i 2 = ([1, 1, 5, 4] :: 'a::comm_ring_1 list) ! (i mod 4)"
  "m4_entry i 3 = ([3, 1, 7, 6] :: 'a::comm_ring_1 list) ! (i mod 4)"
proof -
  have "i mod 4 < 4" by simp
  then have "i mod 4 = 0 \<or> i mod 4 = 1 \<or> i mod 4 = 2 \<or> i mod 4 = 3" by linarith
  then show "m4_entry i 0 = ([5, 4, 1, 1] :: 'a::comm_ring_1 list) ! (i mod 4)"
    "m4_entry i 1 = ([7, 6, 3, 1] :: 'a::comm_ring_1 list) ! (i mod 4)"
    "m4_entry i 2 = ([1, 1, 5, 4] :: 'a::comm_ring_1 list) ! (i mod 4)"
    "m4_entry i 3 = ([3, 1, 7, 6] :: 'a::comm_ring_1 list) ! (i mod 4)"
    by (auto simp: m4_entry_def)
qed

lemma list_length_4: "length xs = 4 \<longleftrightarrow> (\<exists>a b c d. xs = [a, b, c, d])"
  by (auto simp: length_Suc_conv numeral_eq_Suc)

lemma matmul_m4_lanes:
  "length (xs :: 'a::comm_ring_1 list) = 4 * n \<Longrightarrow>
    matmul_m4 n xs = (Ok (map (m4_lane xs) [0..<4 * n]) :: ('a list, 'e) result)"
proof (induction n arbitrary: xs)
  case 0
  then show ?case by simp
next
  case (Suc n)
  define ys where "ys = drop 4 xs"
  have "length (take 4 xs) = 4" using Suc.prems by simp
  then obtain a b c d where "take 4 xs = [a, b, c, d]" unfolding list_length_4 by blast
  then have xs: "xs = a # b # c # d # ys" unfolding ys_def by (metis append_take_drop_id append_Cons append_Nil)
  have len: "length ys = 4 * n" using Suc.prems by (simp add: xs)
  have upt: "[0..<4 * Suc n] = [0, 1, 2, 3] @ map (\<lambda>i. i + 4) [0..<4 * n]"
  proof -
    have "[0..<4 * Suc n] = [0..<4] @ [4..<4 + 4 * n]" unfolding mult_Suc_right by (rule upt_add_eq_append) simp
    also have "[4..<4 + 4 * n] = map (\<lambda>i. i + 4) [0..<4 * n]"
      using map_add_upt [of 4 "4 * n"] by (simp only: add.commute)
    finally show ?thesis by (simp only: upt_small)
  qed
  have shift: "m4_lane xs (i + 4) = m4_lane ys i" for i
  proof -
    have "(i + 4) div 4 = Suc (i div 4)" by simp
    moreover have "xs ! (4 * Suc k + c) = ys ! (4 * k + c)" for k c
      using Suc.prems by (simp add: ys_def add.assoc)
    moreover have "(m4_entry (i + 4) c :: 'a) = m4_entry i c" for c by (simp add: m4_entry_def)
    ultimately show ?thesis by simp
  qed
  have head: "m4_lane xs 0 = 5 * a + 7 * b + c + 3 * d" "m4_lane xs 1 = 4 * a + 6 * b + c + d"
    "m4_lane xs 2 = a + 3 * b + 5 * c + 7 * d" "m4_lane xs 3 = a + b + 4 * c + 6 * d"
    by (simp_all add: xs sum_small m4_entry_rows m4_entry_rows(2) [unfolded One_nat_def])
  have "matmul_m4 (Suc n) xs = (Ok ([5 * a + 7 * b + c + 3 * d, 4 * a + 6 * b + c + d,
      a + 3 * b + 5 * c + 7 * d, a + b + 4 * c + 6 * d] @ map (m4_lane ys) [0..<4 * n]) :: ('a list, 'e) result)"
    unfolding xs matmul_m4.simps Let_def Suc.IH [OF len] rbind.simps by (simp add: algebra_simps)
  moreover have "map (m4_lane xs) [0, 1, 2, 3] = [5 * a + 7 * b + c + 3 * d, 4 * a + 6 * b + c + d,
      a + 3 * b + 5 * c + 7 * d, a + b + 4 * c + 6 * d]"
    by (simp only: list.map head)
  moreover have "map (m4_lane xs) (map (\<lambda>i. i + 4) [0..<4 * n]) = map (m4_lane ys) [0..<4 * n]"
    by (simp only: map_map comp_def shift)
  ultimately show ?case unfolding upt map_append by (simp only:)
qed

lemma external_4:
  assumes "p2_t params = 4" and "length xs = 4"
  shows "matmul_external params xs = Ok (mat_apply 4 (external_matrix 4) xs)"
proof -
  have "matmul_m4 1 xs = Ok (map (m4_lane xs) [0..<4])" using matmul_m4_lanes [of xs 1] assms(2) by simp
  moreover have "m4_lane xs i = (\<Sum>j < 4. external_matrix 4 i j * xs ! j)" if "i < 4" for i
    using that by (simp add: external_matrix_def)
  ultimately show ?thesis using assms(1) by (simp add: matmul_external_def mat_apply_def upt_small)
qed

lemma m4_stored_sum:
  fixes ys :: "'a::comm_ring_1 list"
  assumes "length ys = 4 * n" and "0 < n" and "l < 4"
  shows "m4_stored n ys l = (Ok (\<Sum>b < n. ys ! (4 * b + l)) :: ('a, 'e) result)"
proof -
  have loop: "rfold (\<lambda>j acc. rbind (unwrap (vec_get ys (4 * j + l))) (\<lambda>y. Ok (acc + y))) [1..<k] acc =
      (Ok (acc + (\<Sum>b \<in> {1..<k}. ys ! (4 * b + l))) :: ('a, 'e) result)" if "k \<le> n" "1 \<le> k"
    for k and acc :: 'a
    using that
  proof (induction k)
    case (Suc k)
    show ?case
    proof (cases "k = 0")
      case False
      then have k: "1 \<le> k" "k < n" using Suc.prems by auto
      have "4 * k + l < length ys" using k assms by simp
      moreover have "[1..<Suc k] = [1..<k] @ [k]" using k by simp
      moreover have "{1..<Suc k} = insert k {1..<k}" using k by auto
      ultimately show ?thesis using Suc.IH k by (simp add: rfold_append ac_simps)
    qed simp
  qed simp
  have "{..<n} = insert 0 {1..<n}" using assms(2) by auto
  then have "(\<Sum>b < n. ys ! (4 * b + l)) = ys ! l + (\<Sum>b \<in> {1..<n}. ys ! (4 * b + l))" by simp
  moreover have "l < length ys" using assms by simp
  ultimately show ?thesis using loop [of n "ys ! l"] assms(2) by (simp add: m4_stored_def)
qed

text \<open>A sum over all lanes, block by block.\<close>

lemma sum_blocks:
  fixes f :: "nat \<Rightarrow> 'a::comm_ring_1"
  shows "(\<Sum>j < 4 * n. f j) = (\<Sum>b < n. \<Sum>c < 4. f (4 * b + c))"
proof (induction n)
  case (Suc n)
  have "{..<4 * Suc n} = {..<4 * n} \<union> {4 * n, 4 * n + 1, 4 * n + 2, 4 * n + 3}" by auto
  then have "(\<Sum>j < 4 * Suc n. f j) = (\<Sum>j < 4 * n. f j) + (\<Sum>c < 4. f (4 * n + c))"
    by (simp add: sum.union_disjoint sum_small ac_simps)
  with Suc show ?case by simp
qed simp

lemma external_blocks:
  fixes xs :: "'a::comm_ring_1 list"
  assumes t: "p2_t params = 4 * n" "n \<in> {2, 3, 4, 5, 6}" and len: "length xs = 4 * n"
  shows "matmul_external params xs = (Ok (mat_apply (4 * n) (external_matrix (4 * n)) xs) :: ('a list, 'e) result)"
proof -
  define ys where "ys = map (m4_lane xs) [0..<4 * n]"
  have n: "0 < n" and t8: "4 * n \<in> {8, 12, 16, 20, 24}" and dv: "4 * n div 4 = n" using t(2) by auto
  have m4: "matmul_m4 n xs = (Ok ys :: ('a list, 'e) result)"
    using matmul_m4_lanes [OF len] by (simp add: ys_def)
  have lys: "length ys = 4 * n" by (simp add: ys_def)
  note st = m4_stored_sum [OF lys n, where 'e = 'e]
  define s where "s l = (\<Sum>b < n. ys ! (4 * b + l))" for l
  have small: "4 * n \<noteq> 2" "4 * n \<noteq> 3" "4 * n \<noteq> 4" using t(2) by auto
  have "matmul_external params xs =
      (Ok (map (\<lambda>(i, y). y + [s 0, s 1, s 2, s 3] ! (i mod 4)) (List.enumerate 0 ys)) :: ('a list, 'e) result)"
    unfolding matmul_external_def Let_def t(1) if_not_P [OF small(1)] if_not_P [OF small(2)]
      if_not_P [OF small(3)] if_P [OF t8] dv m4 rbind.simps
    by (simp only: st [of 0] st [of 1] st [of 2] st [of 3] zero_less_numeral one_less_numeral_iff numeral_less_iff
        num.simps less_num_simps rbind.simps s_def)
  also have "map (\<lambda>(i, y). y + [s 0, s 1, s 2, s 3] ! (i mod 4)) (List.enumerate 0 ys) =
      mat_apply (4 * n) (external_matrix (4 * n)) xs"
  proof (rule nth_equalityI)
    fix i assume "i < length (map (\<lambda>(i, y). y + [s 0, s 1, s 2, s 3] ! (i mod 4)) (List.enumerate 0 ys))"
    then have i: "i < 4 * n" by (simp add: lys)
    have "i mod 4 < 4" by simp
    then have pick: "[s 0, s 1, s 2, s 3] ! (i mod 4) = s (i mod 4)"
      by (cases "i mod 4 = 0 \<or> i mod 4 = 1 \<or> i mod 4 = 2 \<or> i mod 4 = 3") auto
    have lane: "ys ! (4 * b + i mod 4) = (\<Sum>c < 4. m4_entry i c * xs ! (4 * b + c))" if "b < n" for b
    proof -
      have "4 * b + i mod 4 < 4 * n" using that \<open>i mod 4 < 4\<close> by linarith
      moreover have "(4 * b + i mod 4) div 4 = b" by simp
      ultimately show ?thesis by (simp add: ys_def m4_entry_def)
    qed
    define X where "X b = (\<Sum>c < 4. m4_entry i c * xs ! (4 * b + c))" for b
    have "s (i mod 4) = (\<Sum>b < n. X b)" unfolding s_def X_def by (intro sum.cong refl lane) simp
    moreover have "ys ! i = (\<Sum>b < n. if i div 4 = b then X b else 0)"
      using i by (simp add: ys_def X_def less_mult_imp_div_less mult.commute)
    ultimately have "ys ! i + s (i mod 4) = (\<Sum>b < n. (if i div 4 = b then X b else 0) + X b)"
      by (simp only: sum.distrib)
    also have "\<dots> = (\<Sum>b < n. (if i div 4 = b then 2 else 1) * X b)"
      by (intro sum.cong refl) simp
    finally have "ys ! i + s (i mod 4) = (\<Sum>b < n. (if i div 4 = b then 2 else 1) *
        (\<Sum>c < 4. m4_entry i c * xs ! (4 * b + c)))" unfolding X_def .
    also have "\<dots> = (\<Sum>b < n. \<Sum>c < 4. external_matrix (4 * n) i (4 * b + c) * xs ! (4 * b + c))"
      using t(2) by (intro sum.cong)
        (auto simp: external_matrix_def m4_entry_def sum_distrib_left mult.assoc)
    also have "\<dots> = (\<Sum>j < 4 * n. external_matrix (4 * n) i j * xs ! j)"
      by (rule sum_blocks [symmetric])
    finally show "map (\<lambda>(i, y). y + [s 0, s 1, s 2, s 3] ! (i mod 4)) (List.enumerate 0 ys) ! i =
        mat_apply (4 * n) (external_matrix (4 * n)) xs ! i"
      using i by (simp add: lys nth_enumerate_eq pick [unfolded One_nat_def] mat_apply_def)
  qed (simp add: lys mat_apply_def)
  finally show ?thesis .
qed

lemma external_correct:
  fixes xs :: "'a::comm_ring_1 list"
  assumes "p2_t params \<in> {2, 3, 4, 8, 12, 16, 20, 24}" and "length xs = p2_t params"
  shows "matmul_external params xs =
    (Ok (mat_apply (p2_t params) (external_matrix (p2_t params)) xs) :: ('a list, 'e) result)"
proof -
  have "p2_t params = 2 \<or> p2_t params = 3 \<or> p2_t params = 4 \<or>
      (\<exists>n \<in> {2, 3, 4, 5, 6}. p2_t params = 4 * n)"
    using assms(1) by auto
  then show ?thesis
  proof (elim disjE bexE)
    fix n assume "n \<in> {2, 3, 4, 5, 6}" and t: "p2_t params = 4 * n"
    then show ?thesis using external_blocks [OF t, of xs] assms(2) unfolding t by blast
  qed (simp_all add: external_2 external_3 external_4 assms(2))
qed

lemma mul_diag_eq:
  "i + length xs = length diag \<Longrightarrow>
    mul_diag diag tot i xs =
      (Ok (map (\<lambda>k. xs ! k * diag ! (i + k) + tot) [0..<length xs]) :: ('a::comm_ring_1 list, 'e) result)"
proof (induction xs arbitrary: i)
  case (Cons x xs)
  have "[0..<length (x # xs)] = 0 # map Suc [0..<length xs]" by (simp add: map_Suc_upt upt_conv_Cons del: upt_Suc)
  with Cons.IH [of "Suc i"] Cons.prems show ?case by (simp del: upt_Suc)
qed simp

lemma fold_plus: "fold (\<lambda>el acc. acc + el) xs a = a + sum_list (xs :: 'a::comm_ring_1 list)"
  by (induction xs arbitrary: a) (simp_all add: ac_simps)

lemma internal_row:
  fixes xs :: "'a::comm_ring_1 list"
  assumes "i < t" and "length xs = t"
  shows "(\<Sum>j < t. internal_matrix diag i j * xs ! j) = xs ! i * diag ! i + sum_list xs"
proof -
  have "internal_matrix diag i j * xs ! j = (if i = j then xs ! i * diag ! i else 0) + xs ! j" for j
    by (simp add: internal_matrix_def algebra_simps)
  then have "(\<Sum>j < t. internal_matrix diag i j * xs ! j) =
      (\<Sum>j < t. if i = j then xs ! i * diag ! i else 0) + (\<Sum>j < t. xs ! j)"
    by (simp add: sum.distrib)
  moreover have "(\<Sum>j < t. xs ! j) = sum_list xs"
    using assms(2) by (simp add: sum_list_sum_nth atLeast0LessThan)
  ultimately show ?thesis using assms(1) by simp
qed

lemma internal_correct:
  fixes xs :: "'a::comm_ring_1 list"
  assumes ok: "params_ok params" and len: "length xs = p2_t params"
  shows "matmul_internal params xs =
    (Ok (mat_apply (p2_t params) (internal_matrix (p2_mat_internal_diag_m_1 params)) xs) :: ('a list, 'e) result)"
    (is "?l = Ok ?r")
proof -
  let ?d = "p2_mat_internal_diag_m_1 params"
  have r: "?r = map (\<lambda>i. xs ! i * ?d ! i + sum_list xs) [0..<p2_t params]"
    unfolding mat_apply_def by (rule map_cong [OF refl]) (simp add: internal_row len)
  have "p2_t params = 2 \<or> p2_t params = 3 \<or> p2_t params \<in> {4, 8, 12, 16, 20, 24}"
    using ok by (auto simp: params_ok_def)
  then show ?thesis
  proof (elim disjE)
    assume t: "p2_t params = 2"
    then have "?d = [1, 2]" using ok by (simp add: params_ok_def)
    then show ?thesis using len unfolding r
      by (auto simp: t list_length_2 matmul_internal_def upt_small algebra_simps)
  next
    assume t: "p2_t params = 3"
    then have "?d = [1, 1, 2]" using ok by (simp add: params_ok_def)
    then show ?thesis using len unfolding r
      by (auto simp: t list_length_3 matmul_internal_def upt_small algebra_simps)
  next
    assume t: "p2_t params \<in> {4, 8, 12, 16, 20, 24}"
    then have n: "p2_t params \<noteq> 2" "p2_t params \<noteq> 3" by auto
    from t len obtain x0 rest where xs: "xs = x0 # rest" by (cases xs) auto
    have idx: "0 + length xs = length ?d" using ok len by (simp add: params_ok_def)
    have fold_sum: "fold (\<lambda>el acc. acc + el) (take (p2_t params - 1) rest) x0 = sum_list xs"
      using len by (simp add: fold_plus xs)
    have "?l = Ok (map (\<lambda>k. xs ! k * ?d ! (0 + k) + sum_list xs) [0..<length xs])"
      unfolding matmul_internal_def Let_def if_not_P [OF n(1)] if_not_P [OF n(2)] if_P [OF t]
      unfolding xs list.case mul_diag_eq [OF idx [unfolded xs]] by (simp add: fold_sum [unfolded xs One_nat_def])
    then show ?thesis unfolding r len by simp
  qed
qed

text \<open>The product of a stored matrix and a vector, as a function.\<close>

definition mat_vec :: "'a::comm_ring_1 list list \<Rightarrow> 'a list \<Rightarrow> 'a list" where
  "mat_vec mat input =
     map (\<lambda>row. fold (\<lambda>(m, inp) out. out + m * inp) (zip row input) 0) mat"

lemma fold_zip_sum:
  "length row = length xs \<Longrightarrow> fold (\<lambda>(m, inp) out. out + m * inp) (zip row xs) a =
    a + (\<Sum>j < length xs. row ! j * (xs ! j :: 'a::comm_ring_1))"
proof (induction row xs arbitrary: a rule: list_induct2)
  case (Cons m row x xs)
  then show ?case by (simp add: sum.lessThan_Suc_shift add.assoc del: sum.lessThan_Suc)
qed simp

lemma mat_vec_apply:
  "length xs = t \<Longrightarrow> mat_vec (map (\<lambda>i. map (m i) [0..<t]) [0..<t]) xs = mat_apply t m xs"
  by (auto simp: mat_vec_def mat_apply_def fold_zip_sum)

section \<open>The permutation computes the reference\<close>

lemma rfold_total:
  assumes "\<And>x s. x \<in> set xs \<Longrightarrow> I s \<Longrightarrow> f x s = (Ok (g x s) :: ('s, 'e) result) \<and> I (g x s)" and "I s"
  shows "rfold f xs s = (Ok (fold g xs s) :: ('s, 'e) result) \<and> I (fold g xs s)"
  using assms by (induction xs arbitrary: s) simp_all

lemma length_mat_apply [simp]: "length (mat_apply t m xs) = t"
  by (simp add: mat_apply_def)

lemma full_round_spec:
  fixes params :: "'a::comm_ring_1 poseidon2_params"
  assumes ok: "params_ok params" and "r < p2_rounds params" and len: "length xs = p2_t params"
  shows "full_round params r xs = (Ok (spec_full_round params r xs) :: ('a list, 'e) result)"
proof -
  let ?rc = "p2_round_constants params ! r"
  have rc: "vec_get (p2_round_constants params) r = Some ?rc" and lrc: "length ?rc = p2_t params"
    using ok assms(2) by (simp_all add: params_ok_def)
  have "map (\<lambda>x. x ^ p2_d params) (add_rc xs ?rc) =
      map (\<lambda>i. (xs ! i + ?rc ! i) ^ p2_d params) [0..<p2_t params]"
    by (rule nth_equalityI) (simp_all add: add_rc_def len lrc)
  then show ?thesis using ok
    by (simp add: full_round_def rc sbox_map params_ok_def external_correct spec_full_round_def)
qed

lemma partial_round_spec:
  fixes params :: "'a::comm_ring_1 poseidon2_params"
  assumes ok: "params_ok params" and "r < p2_rounds params" and len: "length xs = p2_t params"
  shows "partial_round params r xs = (Ok (spec_partial_round params r xs) :: ('a list, 'e) result)"
proof -
  let ?rc = "p2_round_constants params ! r"
  have rc: "vec_get (p2_round_constants params) r = Some ?rc" and lrc: "length ?rc = p2_t params"
    using ok assms(2) by (simp_all add: params_ok_def)
  have t: "0 < p2_t params" and d: "p2_d params \<in> {3, 5, 7}" using ok by (auto simp: params_ok_def)
  then have rc0: "vec_get ?rc 0 = Some (?rc ! 0)" using lrc by simp
  obtain x0 rest where xs: "xs = x0 # rest" using len t by (cases xs) auto
  have "length ((x0 + ?rc ! 0) ^ p2_d params # rest) = p2_t params" using len by (simp add: xs)
  from internal_correct [OF ok this, where 'e = 'e] show ?thesis
    by (simp add: partial_round_def rc rc0 xs sbox_p_power [OF d] spec_partial_round_def)
qed

lemma permutation_run_spec:
  fixes params :: "'a::comm_ring_1 poseidon2_params"
  assumes ok: "params_ok params" and len: "length xs = p2_t params"
  shows "permutation_run params xs = (Ok (poseidon2_spec params xs) :: ('a list, 'e) result) \<and>
    length (poseidon2_spec params xs) = p2_t params"
proof -
  let ?f = "p2_rounds_f_div_2 params" and ?p = "p2_rounds_p params" and ?I = "\<lambda>s. length s = p2_t params"
  have rounds: "p2_rounds params = 2 * ?f + ?p" using ok by (simp add: params_ok_def)
  have full: "rfold (full_round params) rs s =
      (Ok (fold (spec_full_round params) rs s) :: ('a list, 'e) result) \<and> ?I (fold (spec_full_round params) rs s)"
    if "?I s" "set rs \<subseteq> {..<p2_rounds params}" for rs s
    by (rule rfold_total) (use that full_round_spec [OF ok] in \<open>auto simp: spec_full_round_def\<close>)
  have part: "rfold (partial_round params) rs s =
      (Ok (fold (spec_partial_round params) rs s) :: ('a list, 'e) result) \<and> ?I (fold (spec_partial_round params) rs s)"
    if "?I s" "set rs \<subseteq> {..<p2_rounds params}" for rs s
    by (rule rfold_total) (use that partial_round_spec [OF ok] in \<open>auto simp: spec_partial_round_def\<close>)
  define s0 where "s0 = mat_apply (p2_t params) (external_matrix (p2_t params)) xs"
  have m: "matmul_external params xs = (Ok s0 :: ('a list, 'e) result)"
    using ok len by (simp add: external_correct params_ok_def s0_def)
  define s1 where "s1 = fold (spec_full_round params) [0..<?f] s0"
  define s2 where "s2 = fold (spec_partial_round params) [?f..<?f + ?p] s1"
  have 1: "rfold (full_round params) [0..<?f] s0 = (Ok s1 :: ('a list, 'e) result) \<and> ?I s1"
    unfolding s1_def by (rule full) (auto simp: s0_def rounds)
  have 2: "rfold (partial_round params) [?f..<?f + ?p] s1 = (Ok s2 :: ('a list, 'e) result) \<and> ?I s2"
    unfolding s2_def by (rule part) (use 1 in \<open>auto simp: rounds\<close>)
  have "rfold (full_round params) [?f + ?p..<p2_rounds params] s2 =
      (Ok (poseidon2_spec params xs) :: ('a list, 'e) result) \<and> ?I (poseidon2_spec params xs)"
    unfolding poseidon2_spec_def Let_def s0_def [symmetric] s1_def [symmetric] s2_def [symmetric]
    by (rule full) (use 2 in \<open>auto simp: rounds\<close>)
  then show ?thesis by (simp add: permutation_run_def len m 1 2 Let_def)
qed

end
