(* ===== verification/Scalar_Field.thy ===== *)
theory Scalar_Field
  imports Soroban_Host
begin

text \<open>
  The scalar field of BN254 as the client code uses it: \<open>zkhash::fields::bn256::FpBN256\<close> (\<open>Scalar\<close>)
  and \<open>ark_bn254::Fr\<close>, both the integers modulo the prime that \<open>poseidon2/src/fields/bn256.rs\<close>
  declares.  The type carries its canonical representative, so equality is the equality of the
  library, and its ring structure is an instance of the class \<open>comm_ring_1\<close>, so the client's field
  arithmetic is ordinary ring arithmetic here.
\<close>

section \<open>The type\<close>

typedef scalar = "{0..<field_order}"
  by (intro exI [of _ 0]) simp

setup_lifting type_definition_scalar

lemma Rep_scalar_range: "0 \<le> Rep_scalar s" "Rep_scalar s < field_order"
  using Rep_scalar [of s] by simp_all

instantiation scalar :: comm_ring_1
begin

lift_definition zero_scalar :: scalar is 0
  by simp

lift_definition one_scalar :: scalar is 1
  by simp

lift_definition plus_scalar :: "scalar \<Rightarrow> scalar \<Rightarrow> scalar" is "\<lambda>a b. (a + b) mod field_order"
  by simp

lift_definition minus_scalar :: "scalar \<Rightarrow> scalar \<Rightarrow> scalar" is "\<lambda>a b. (a - b) mod field_order"
  by simp

lift_definition uminus_scalar :: "scalar \<Rightarrow> scalar" is "\<lambda>a. (- a) mod field_order"
  by simp

lift_definition times_scalar :: "scalar \<Rightarrow> scalar \<Rightarrow> scalar" is "\<lambda>a b. (a * b) mod field_order"
  by simp

instance
  by (standard; transfer) (simp_all add: algebra_simps mod_simps)

end

instantiation scalar :: equal
begin

definition equal_scalar :: "scalar \<Rightarrow> scalar \<Rightarrow> bool" where
  "equal_scalar a b \<longleftrightarrow> Rep_scalar a = Rep_scalar b"

instance
  by standard (simp add: equal_scalar_def Rep_scalar_inject)

end

section \<open>Canonical representatives\<close>

text \<open>\<open>into_bigint\<close>.\<close>

definition scalar_nat :: "scalar \<Rightarrow> nat" where
  "scalar_nat s = nat (Rep_scalar s)"

lemma int_scalar_nat: "int (scalar_nat s) = Rep_scalar s"
  by (simp add: scalar_nat_def Rep_scalar_range)

lemma scalar_nat_inject [simp]: "scalar_nat a = scalar_nat b \<longleftrightarrow> a = b"
  by (metis int_scalar_nat Rep_scalar_inject)

lemma scalar_nat_less: "scalar_nat s < nat field_order"
  by (simp add: scalar_nat_def nat_less_iff Rep_scalar_range del: nat_numeral)

lemma scalar_nat_less_pow: "scalar_nat s < 2 ^ 254"
  using scalar_nat_less [of s] by simp

lemma Rep_scalar_of_nat: "Rep_scalar (of_nat n) = int n mod field_order"
proof (induction n)
  case 0
  show ?case by (simp add: zero_scalar.rep_eq)
next
  case (Suc n)
  have "Rep_scalar (of_nat (Suc n)) = (Rep_scalar 1 + Rep_scalar (of_nat n)) mod field_order"
    by (simp only: of_nat_Suc plus_scalar.rep_eq)
  also have "\<dots> = int (Suc n) mod field_order"
    unfolding Suc.IH one_scalar.rep_eq by (simp add: mod_simps)
  finally show ?case .
qed

lemma Rep_scalar_of_int: "Rep_scalar (of_int i) = i mod field_order"
proof (cases i)
  case (nonneg n)
  then show ?thesis using Rep_scalar_of_nat [of n] by simp
next
  case (neg n)
  have "Rep_scalar (of_int i) = (- Rep_scalar (of_nat (Suc n))) mod field_order"
    unfolding neg by (simp only: of_int_minus of_int_of_nat_eq uminus_scalar.rep_eq)
  then show ?thesis unfolding Rep_scalar_of_nat neg by (simp add: mod_minus_eq)
qed

lemma scalar_nat_of_nat: "scalar_nat (of_nat n) = n mod nat field_order"
proof -
  have "int (scalar_nat (of_nat n)) = int n mod field_order"
    unfolding int_scalar_nat Rep_scalar_of_nat ..
  also have "\<dots> = int (n mod nat field_order)" by (simp add: zmod_int)
  finally show ?thesis by (simp only: of_nat_eq_iff)
qed

lemma of_nat_scalar_nat [simp]: "of_nat (scalar_nat s) = s"
proof -
  have "Rep_scalar (of_nat (scalar_nat s)) = Rep_scalar s"
    unfolding Rep_scalar_of_nat int_scalar_nat using Rep_scalar_range [of s]
    by (intro mod_pos_pos_trivial) simp_all
  then show ?thesis by (simp only: Rep_scalar_inject)
qed

lemma of_nat_eq_scalar_iff:
  "(of_nat m :: scalar) = of_nat n \<longleftrightarrow> m mod nat field_order = n mod nat field_order"
  by (simp only: scalar_nat_inject [symmetric] scalar_nat_of_nat)

section \<open>Scalars and contract integers\<close>

definition scalar_u256 :: "scalar \<Rightarrow> u256" where
  "scalar_u256 s = of_nat (scalar_nat s)"

definition u256_scalar :: "u256 \<Rightarrow> scalar" where
  "u256_scalar w = of_nat (unat w)"

lemma unat_scalar_u256 [simp]: "unat (scalar_u256 s) = scalar_nat s"
proof -
  have "scalar_nat s < 2 ^ 256" using scalar_nat_less_pow [of s] by simp
  then show ?thesis by (simp add: scalar_u256_def unat_of_nat take_bit_eq_mod)
qed

lemma u256_scalar_u256 [simp]: "u256_scalar (scalar_u256 s) = s"
  by (simp add: u256_scalar_def)

lemma scalar_u256_inject [simp]: "scalar_u256 a = scalar_u256 b \<longleftrightarrow> a = b"
  by (metis u256_scalar_u256)

lemma scalar_u256_0 [simp]: "scalar_u256 0 = 0"
  by (simp add: scalar_u256_def scalar_nat_def zero_scalar.rep_eq)

lemma scalar_u256_eq_0_iff [simp]: "scalar_u256 s = 0 \<longleftrightarrow> s = 0"
  by (metis scalar_u256_0 scalar_u256_inject)

end
