(* ===== verification/Prover_Serialization.thy ===== *)
theory Prover_Serialization
  imports Scalar_Field
begin

text \<open>
  The client's codecs (\<open>app/crates/prover/src/serialization.rs\<close>): 32-byte little-endian field
  elements, hexadecimal and decimal strings, and the length checks on witness bytes.  A \<open>&str\<close> is
  its UTF-8 bytes as a char list; an error is the message of the \<open>JsValue\<close>.  The types \<open>Fr\<close> of
  arkworks and \<open>FpBN256\<close> of the crate are the same field, so both are \<open>scalar\<close>.
\<close>

type_synonym js_value = string

definition FIELD_SIZE :: nat where
  "FIELD_SIZE = 32"

text \<open>Decimal and hexadecimal rendering, as \<open>format!\<close> does it.\<close>

definition digit_char :: "nat \<Rightarrow> char" where
  "digit_char d = (if d < 10 then char_of (48 + d) else char_of (87 + d))"

fun show_nat :: "nat \<Rightarrow> string" where
  "show_nat n = (if n < 10 then [digit_char n] else show_nat (n div 10) @ [digit_char (n mod 10)])"

declare show_nat.simps [simp del]

section \<open>Bytes\<close>

definition expected_bytes :: "nat \<Rightarrow> js_value" where
  "expected_bytes n = ''Expected '' @ show_nat FIELD_SIZE @ '' bytes, got '' @ show_nat n"

definition bytes_to_fr :: "bytes \<Rightarrow> (scalar, js_value) result" where
  "bytes_to_fr bs =
     (if length bs \<noteq> FIELD_SIZE then Err (expected_bytes (length bs)) else Ok (of_nat (le_to_nat bs)))"

text \<open>\<open>into_bigint\<close>: four 64-bit limbs, least significant first.\<close>

definition into_bigint :: "scalar \<Rightarrow> u64 list" where
  "into_bigint s = map (\<lambda>i. of_nat (scalar_nat s div 2 ^ (64 * i))) [0..<4]"

definition fr_to_bytes :: "scalar \<Rightarrow> bytes" where
  "fr_to_bytes fr =
     take FIELD_SIZE (fold (\<lambda>limb acc. acc @ nat_to_le 8 (unat limb)) (into_bigint fr) [])"

definition bytes_to_scalar :: "bytes \<Rightarrow> (scalar, js_value) result" where
  "bytes_to_scalar bs =
     (if length bs \<noteq> FIELD_SIZE then Err (expected_bytes (length bs)) else Ok (of_nat (le_to_nat bs)))"

definition scalar_to_bytes :: "scalar \<Rightarrow> bytes" where
  "scalar_to_bytes s =
     take FIELD_SIZE (fold (\<lambda>limb acc. acc @ nat_to_le 8 (unat limb)) (into_bigint s) [])"

definition parse_witness :: "bytes \<Rightarrow> (bytes, js_value) result" where
  "parse_witness bs =
     (if length bs mod FIELD_SIZE \<noteq> 0
      then Err (''Witness bytes length '' @ show_nat (length bs) @ '' is not a multiple of '' @ show_nat FIELD_SIZE)
      else Ok bs)"

definition witness_element_count :: "bytes \<Rightarrow> (u32, js_value) result" where
  "witness_element_count bs =
     (if length bs mod FIELD_SIZE \<noteq> 0 then Err ''Invalid witness bytes length''
      else
        let n = length bs div FIELD_SIZE in
        if n < 2 ^ 32 then Ok (of_nat n) else Err ''Witness count exceeds u32'')"

definition u64_to_field_bytes :: "u64 \<Rightarrow> bytes" where
  "u64_to_field_bytes v = scalar_to_bytes (of_nat (unat v))"

section \<open>Hexadecimal strings\<close>

definition hex_byte :: "u8 \<Rightarrow> string" where
  "hex_byte b = [digit_char (unat b div 16), digit_char (unat b mod 16)]"

definition scalar_to_hex :: "scalar \<Rightarrow> string" where
  "scalar_to_hex s = ''0x'' @ concat (map hex_byte (rev (scalar_to_bytes s)))"

text \<open>\<open>char::to_digit(16)\<close>, and \<open>u8::from_str_radix(s, 16)\<close>, which accepts a leading plus sign.\<close>

definition hex_digit :: "char \<Rightarrow> nat option" where
  "hex_digit c =
     (let n = of_char c :: nat in
      if 48 \<le> n \<and> n \<le> 57 then Some (n - 48)
      else if 97 \<le> n \<and> n \<le> 102 then Some (n - 87)
      else if 65 \<le> n \<and> n \<le> 70 then Some (n - 55)
      else None)"

fun hex_digits :: "nat \<Rightarrow> string \<Rightarrow> nat option" where
  "hex_digits acc [] = Some acc"
| "hex_digits acc (c # cs) =
     (case hex_digit c of
        None \<Rightarrow> None
      | Some d \<Rightarrow> if 16 * acc + d < 256 then hex_digits (16 * acc + d) cs else None)"

definition u8_from_hex :: "string \<Rightarrow> u8 option" where
  "u8_from_hex s =
     (let body = (if 1 < length s \<and> hd s = CHR ''+'' then tl s else s) in
      if body = [] then None else map_option of_nat (hex_digits 0 body))"

definition strip_prefix :: "string \<Rightarrow> string \<Rightarrow> string option" where
  "strip_prefix p s = (if take (length p) s = p then Some (drop (length p) s) else None)"

text \<open>\<open>format!("{:0>64}")\<close> pads to 64 characters: bytes that do not continue a UTF-8 sequence.\<close>

definition char_count :: "string \<Rightarrow> nat" where
  "char_count s = length (filter (\<lambda>c. \<not> (128 \<le> (of_char c :: nat) \<and> (of_char c :: nat) < 192)) s)"

definition pad_64 :: "string \<Rightarrow> string" where
  "pad_64 s = replicate (64 - char_count s) (CHR ''0'') @ s"

fun chunks_2 :: "'a list \<Rightarrow> 'a list list" where
  "chunks_2 [] = []"
| "chunks_2 [x] = [[x]]"
| "chunks_2 (x # y # zs) = [x, y] # chunks_2 zs"

text \<open>\<open>from_utf8\<close> on a chunk of at most two bytes: ASCII, or one two-byte character.\<close>

definition utf8_chunk :: "string \<Rightarrow> bool" where
  "utf8_chunk c =
     (let ns = map of_char c :: nat list in
      list_all (\<lambda>n. n < 128) ns \<or>
      (length ns = 2 \<and> 194 \<le> ns ! 0 \<and> ns ! 0 < 224 \<and> 128 \<le> ns ! 1 \<and> ns ! 1 < 192))"

fun hex_chunks :: "nat \<Rightarrow> string list \<Rightarrow> bytes \<Rightarrow> (bytes, js_value) result" where
  "hex_chunks i [] bs = Ok bs"
| "hex_chunks i (c # cs) bs =
     (if \<not> utf8_chunk c then Err ''Invalid hex character''
      else if FIELD_SIZE - 1 < i then Err ''Index overflow''
      else
        case u8_from_hex c of
          None \<Rightarrow> Err ''Invalid hex character''
        | Some b \<Rightarrow> hex_chunks (i + 1) cs (bs[FIELD_SIZE - 1 - i := b]))"

definition hex_to_scalar :: "string \<Rightarrow> (scalar, js_value) result" where
  "hex_to_scalar hex0 =
     (let hex = (case strip_prefix ''0x'' hex0 of Some h \<Rightarrow> h | None \<Rightarrow> hex0) in
      if 64 < length hex then Err ''Hex string too long''
      else
        rbind (hex_chunks 0 (chunks_2 (pad_64 hex)) (replicate FIELD_SIZE 0)) (\<lambda>bs.
        Ok (of_nat (le_to_nat bs))))"

definition field_bytes_to_hex :: "bytes \<Rightarrow> (string, js_value) result" where
  "field_bytes_to_hex bs = rbind (bytes_to_scalar bs) (\<lambda>s. Ok (scalar_to_hex s))"

definition hex_to_field_bytes :: "string \<Rightarrow> (bytes, js_value) result" where
  "hex_to_field_bytes hex = rbind (hex_to_scalar hex) (\<lambda>s. Ok (scalar_to_bytes s))"

section \<open>Decimal strings\<close>

text \<open>\<open>str::parse::<u128>\<close>: optional plus sign, at least one digit, checked accumulation.\<close>

definition dec_digit :: "char \<Rightarrow> nat option" where
  "dec_digit c = (let n = of_char c :: nat in if 48 \<le> n \<and> n \<le> 57 then Some (n - 48) else None)"

fun u128_digits :: "nat \<Rightarrow> string \<Rightarrow> nat option" where
  "u128_digits acc [] = Some acc"
| "u128_digits acc (c # cs) =
     (case dec_digit c of
        None \<Rightarrow> None
      | Some d \<Rightarrow> if 10 * acc + d < 2 ^ 128 then u128_digits (10 * acc + d) cs else None)"

definition u128_parse :: "string \<Rightarrow> nat option" where
  "u128_parse s =
     (let body = (if 1 < length s \<and> hd s = CHR ''+'' then tl s else s) in
      if body = [] then None else u128_digits 0 body)"

definition decimal_to_field_bytes :: "string \<Rightarrow> (bytes, js_value) result" where
  "decimal_to_field_bytes decimal =
     rbind (ok_or (u128_parse decimal) ''Invalid decimal string'') (\<lambda>v.
     let low = v mod 2 ^ 64;
         high = v div 2 ^ 64;
         s = (of_nat low :: scalar) + of_nat high * (of_nat (2 ^ 32)) ^ 2 in
     Ok (scalar_to_bytes s))"

section \<open>Bytes and field elements\<close>

lemma nat_to_le_append: "nat_to_le (j + k) n = nat_to_le j n @ nat_to_le k (n div 256 ^ j)"
  by (induction j arbitrary: n) (simp_all add: div_mult2_eq)

lemma nat_to_le_mod: "nat_to_le k (n mod 256 ^ k) = nat_to_le k n"
  by (metis le_to_nat_nat_to_le length_nat_to_le nat_to_le_le_to_nat)

lemma scalar_to_bytes_eq: "scalar_to_bytes s = nat_to_le 32 (scalar_nat s)"
proof -
  have limb: "nat_to_le 8 (unat (of_nat n :: u64)) = nat_to_le 8 n" for n
    using nat_to_le_mod [of 8 n] by (simp add: unat_of_nat take_bit_eq_mod)
  have step: "nat_to_le (8 + k) n = nat_to_le 8 n @ nat_to_le k (n div 2 ^ 64)" for k n
    using nat_to_le_append [of 8 k n] by simp
  have "nat_to_le 32 n = nat_to_le 8 n @ nat_to_le 8 (n div 2 ^ 64) @ nat_to_le 8 (n div 2 ^ 64 div 2 ^ 64) @
      nat_to_le 8 (n div 2 ^ 64 div 2 ^ 64 div 2 ^ 64)" for n
  proof -
    have "(32::nat) = 8 + (8 + (8 + (8 + 0)))" by simp
    then show ?thesis by (simp only: step nat_to_le.simps append_Nil2)
  qed
  moreover have "n div 2 ^ 64 div 2 ^ 64 = n div 2 ^ 128" "n div 2 ^ 128 div 2 ^ 64 = n div 2 ^ 192" for n :: nat
    by (simp_all add: div_mult2_eq [symmetric])
  moreover have "[0..<4] = [0, 1, 2, 3::nat]" by (simp add: numeral_eq_Suc)
  ultimately show ?thesis
    by (simp add: scalar_to_bytes_def into_bigint_def limb FIELD_SIZE_def del: power_numeral)
qed

lemma fr_to_bytes_eq: "fr_to_bytes s = scalar_to_bytes s"
  by (simp add: fr_to_bytes_def scalar_to_bytes_def)

lemma bytes_to_fr_eq: "bytes_to_fr bs = bytes_to_scalar bs"
  by (simp add: bytes_to_fr_def bytes_to_scalar_def)

lemma length_scalar_to_bytes [simp]: "length (scalar_to_bytes s) = 32"
  by (simp add: scalar_to_bytes_eq)

lemma le_to_nat_scalar_to_bytes: "le_to_nat (scalar_to_bytes s) = scalar_nat s"
proof -
  have "scalar_nat s < 256 ^ 32" using scalar_nat_less_pow [of s] by simp
  then show ?thesis by (simp add: scalar_to_bytes_eq le_to_nat_nat_to_le)
qed

lemma bytes_scalar_roundtrip [simp]: "bytes_to_scalar (scalar_to_bytes s) = Ok s"
  by (simp add: bytes_to_scalar_def FIELD_SIZE_def le_to_nat_scalar_to_bytes)

lemma scalar_bytes_canonical:
  "bytes_to_scalar bs = Ok s \<Longrightarrow> scalar_to_bytes s = bs \<longleftrightarrow> le_to_nat bs < nat field_order"
  using nat_to_le_le_to_nat [of bs] scalar_nat_less [of s] le_to_nat_scalar_to_bytes [of s]
  by (auto simp: bytes_to_scalar_def FIELD_SIZE_def scalar_to_bytes_eq scalar_nat_of_nat split: if_splits)

section \<open>Hexadecimal strings\<close>

lemma of_char_digit [simp]: "d < 16 \<Longrightarrow> (of_char (digit_char d) :: nat) = (if d < 10 then 48 + d else 87 + d)"
  by (simp add: digit_char_def)

lemma hex_digit_char [simp]: "d < 16 \<Longrightarrow> hex_digit (digit_char d) = Some d"
  by (simp add: hex_digit_def Let_def)

lemma digit_char_not_plus [simp]: "d < 16 \<Longrightarrow> digit_char d \<noteq> CHR ''+''"
proof
  assume "d < 16" and "digit_char d = CHR ''+''"
  then have "hex_digit (CHR ''+'') = Some d" using hex_digit_char by fastforce
  then show False by (simp add: hex_digit_def)
qed

lemma u8_digits: "unat (b :: u8) div 16 < 16" "unat b mod 16 < 16"
  using unat_u8_less [of b] by auto

lemma u8_from_hex_byte [simp]: "u8_from_hex (hex_byte b) = Some b"
  using unat_u8_less [of b] u8_digits [of b] by (simp add: u8_from_hex_def hex_byte_def Let_def)

lemma ascii_hex_byte: "list_all (\<lambda>c. (of_char c :: nat) < 128) (hex_byte b)"
  using u8_digits [of b] by (auto simp: hex_byte_def intro: less_trans [where y = 16])

lemma utf8_hex_byte [simp]: "utf8_chunk (hex_byte b)"
  using ascii_hex_byte [of b] by (simp add: utf8_chunk_def list.pred_map comp_def Let_def)

lemma chunks_2_hex: "chunks_2 (concat (map hex_byte bs)) = map hex_byte bs"
  by (induction bs) (simp_all add: hex_byte_def)

lemma char_count_ascii: "list_all (\<lambda>c. (of_char c :: nat) < 128) s \<Longrightarrow> char_count s = length s"
  by (induction s) (auto simp: char_count_def)

lemma hex_text_ascii: "list_all (\<lambda>c. (of_char c :: nat) < 128) (concat (map hex_byte bs))"
  using ascii_hex_byte by (induction bs) simp_all

lemma hex_text_length: "length (concat (map hex_byte bs)) = 2 * length bs"
  by (induction bs) (simp_all add: hex_byte_def)

lemma hex_chunks_bytes:
  "i + length bs \<le> 32 \<Longrightarrow> length acc = 32 \<Longrightarrow>
    hex_chunks i (map hex_byte bs) acc = Ok (take (32 - i - length bs) acc @ rev bs @ drop (32 - i) acc)"
proof (induction bs arbitrary: i acc)
  case (Cons b bs)
  have i: "31 - i < length acc" using Cons.prems by simp
  have "hex_chunks i (map hex_byte (b # bs)) acc = hex_chunks (i + 1) (map hex_byte bs) (acc[31 - i := b])"
    using Cons.prems by (simp add: FIELD_SIZE_def)
  also have "\<dots> = Ok (take (32 - (i + 1) - length bs) (acc[31 - i := b]) @ rev bs @
      drop (32 - (i + 1)) (acc[31 - i := b]))"
    using Cons.prems by (intro Cons.IH) simp_all
  also have "take (32 - (i + 1) - length bs) (acc[31 - i := b]) = take (32 - i - length (b # bs)) acc" by simp
  also have "drop (32 - (i + 1)) (acc[31 - i := b]) = b # drop (32 - i) acc"
  proof -
    have "32 - (i + 1) = 31 - i" "Suc (31 - i) = 32 - i" using Cons.prems by auto
    then show ?thesis using i Cons_nth_drop_Suc [of "31 - i" "acc[31 - i := b]"] by simp
  qed
  finally show ?case by simp
qed simp

lemma hex_scalar_roundtrip [simp]: "hex_to_scalar (scalar_to_hex s) = Ok s"
proof -
  let ?bs = "rev (scalar_to_bytes s)" and ?t = "concat (map hex_byte (rev (scalar_to_bytes s)))"
  have len: "length ?t = 64" by (simp only: hex_text_length length_rev length_scalar_to_bytes)
  then have pad: "pad_64 ?t = ?t" by (simp only: pad_64_def char_count_ascii [OF hex_text_ascii]) simp
  have strip: "strip_prefix ''0x'' (scalar_to_hex s) = Some ?t" by (simp add: strip_prefix_def scalar_to_hex_def)
  have "hex_chunks 0 (chunks_2 ?t) (replicate FIELD_SIZE 0) = Ok (scalar_to_bytes s)"
    unfolding chunks_2_hex by (subst hex_chunks_bytes) (simp_all add: FIELD_SIZE_def)
  then show ?thesis
    unfolding hex_to_scalar_def strip option.case Let_def pad
    using len by (simp add: le_to_nat_scalar_to_bytes)
qed

lemma hex_chunks_neq_Panic: "hex_chunks i cs bs \<noteq> Panic"
  by (induction i cs bs rule: hex_chunks.induct) (auto split: option.splits)

lemma hex_to_scalar_neq_Panic: "hex_to_scalar h \<noteq> Panic"
  using hex_chunks_neq_Panic by (auto simp: hex_to_scalar_def Let_def rbind_eq_Panic_iff split: option.splits)

section \<open>Decimal strings\<close>

lemma dec_digit_char [simp]: "d < 10 \<Longrightarrow> dec_digit (digit_char d) = Some d"
  by (simp add: dec_digit_def Let_def)

lemma u128_digits_append:
  "u128_digits acc (xs @ ys) = Option.bind (u128_digits acc xs) (\<lambda>a. u128_digits a ys)"
  by (induction acc xs rule: u128_digits.induct) (auto split: option.splits)

lemma u128_digits_show: "u128_digits 0 (show_nat n) = (if n < 2 ^ 128 then Some n else None)"
proof (induction n rule: show_nat.induct)
  case (1 n)
  show ?case
  proof (cases "n < 10")
    case False
    have "10 * (n div 10) + n mod 10 = n" by simp
    moreover have "n div 10 < 2 ^ 128 \<or> \<not> n < 2 ^ 128" by auto
    ultimately show ?thesis
      using 1 [OF False] False by (auto simp: show_nat.simps [of n] u128_digits_append)
  qed (simp add: show_nat.simps [of n])
qed

lemma show_nat_shape: "show_nat n \<noteq> [] \<and> hd (show_nat n) \<noteq> CHR ''+''"
  by (induction n rule: show_nat.induct) (subst (1 2) show_nat.simps, auto)

lemma u128_parse_show: "u128_parse (show_nat n) = (if n < 2 ^ 128 then Some n else None)"
  using show_nat_shape [of n] by (simp add: u128_parse_def Let_def u128_digits_show)

lemma u128_parse_bound: "u128_parse s = Some v \<Longrightarrow> v < 2 ^ 128"
proof -
  have "u128_digits acc cs = Some v \<Longrightarrow> acc < 2 ^ 128 \<Longrightarrow> v < 2 ^ 128" for acc cs
    by (induction acc cs rule: u128_digits.induct) (auto split: option.splits if_splits)
  then show "u128_parse s = Some v \<Longrightarrow> v < 2 ^ 128"
    by (auto simp: u128_parse_def Let_def split: if_splits)
qed

lemma decimal_value:
  "decimal_to_field_bytes d =
    (case u128_parse d of Some v \<Rightarrow> Ok (scalar_to_bytes (of_nat v)) | None \<Rightarrow> Err ''Invalid decimal string'')"
proof -
  have "(of_nat (v mod 2 ^ 64) :: scalar) + of_nat (v div 2 ^ 64) * of_nat (2 ^ 32) ^ 2 = of_nat v" for v
  proof -
    have "(of_nat (v mod 2 ^ 64) :: scalar) + of_nat (v div 2 ^ 64) * of_nat (2 ^ 32) ^ 2 =
        of_nat (v mod 2 ^ 64 + v div 2 ^ 64 * (2 ^ 32) ^ 2)"
      by (simp only: of_nat_add of_nat_mult of_nat_power)
    also have "v mod 2 ^ 64 + v div 2 ^ 64 * (2 ^ 32) ^ 2 = v" by simp
    finally show ?thesis .
  qed
  then show ?thesis by (simp only: decimal_to_field_bytes_def Let_def) (simp split: option.split)
qed

end
