(* ===== verification/Prover_Crypto.thy ===== *)
theory Prover_Crypto
  imports Poseidon2_Bn256 Prover_Serialization
begin

text \<open>
  The client's hashing (\<open>app/crates/prover/src/crypto.rs\<close>, and the compression of
  \<open>circuits/src/core/merkle.rs\<close> it re-exports), over the crate's own permutation.  No call can fail:
  the three parameter sets are well-formed, so the hashes are total functions of their inputs.  A
  contract whose host computes the same permutation hashes to the same values.
\<close>

section \<open>The hash functions\<close>

definition poseidon2_hash2_internal :: "scalar \<Rightarrow> scalar \<Rightarrow> scalar option \<Rightarrow> (scalar, 'e) result" where
  "poseidon2_hash2_internal a b domain =
     rbind POSEIDON2_BN256_PARAMS_3 (\<lambda>poseidon2.
     let input = (case domain of Some d \<Rightarrow> [a, b, d] | None \<Rightarrow> [a, b, 0]) in
     rbind (permutation_run poseidon2 input) (\<lambda>perm.
     unwrap (vec_get perm 0)))"

definition poseidon2_hash3_internal ::
  "scalar \<Rightarrow> scalar \<Rightarrow> scalar \<Rightarrow> scalar option \<Rightarrow> (scalar, 'e) result" where
  "poseidon2_hash3_internal a b c domain =
     rbind POSEIDON2_BN256_PARAMS_4 (\<lambda>poseidon2.
     let input = (case domain of Some d \<Rightarrow> [a, b, c, d] | None \<Rightarrow> [a, b, c, 0]) in
     rbind (permutation_run poseidon2 input) (\<lambda>perm.
     unwrap (vec_get perm 0)))"

definition poseidon2_compression :: "scalar \<Rightarrow> scalar \<Rightarrow> (scalar, 'e) result" where
  "poseidon2_compression left right =
     rbind POSEIDON2_BN256_PARAMS_2 (\<lambda>poseidon2.
     let input = [left, right] in
     rbind (permutation_run poseidon2 input) (\<lambda>perm.
     rbind (unwrap (vec_get perm 0)) (\<lambda>p0.
     rbind (unwrap (vec_get input 0)) (\<lambda>i0.
     Ok (p0 + i0)))))"

section \<open>The exported functions on bytes\<close>

definition poseidon2_compression_wasm :: "bytes \<Rightarrow> bytes \<Rightarrow> (bytes, js_value) result" where
  "poseidon2_compression_wasm input0 input1 =
     rbind (bytes_to_scalar input0) (\<lambda>a.
     rbind (bytes_to_scalar input1) (\<lambda>b.
     rbind (poseidon2_compression a b) (\<lambda>res.
     Ok (scalar_to_bytes res))))"

definition poseidon2_hash2_wasm :: "bytes \<Rightarrow> bytes \<Rightarrow> u8 \<Rightarrow> (bytes, js_value) result" where
  "poseidon2_hash2_wasm input0 input1 domain_separation =
     rbind (bytes_to_scalar input0) (\<lambda>a.
     rbind (bytes_to_scalar input1) (\<lambda>b.
     let domain = of_nat (unat domain_separation) in
     rbind (poseidon2_hash2_internal a b (Some domain)) (\<lambda>res.
     Ok (scalar_to_bytes res))))"

definition derive_public_key_internal :: "scalar \<Rightarrow> (scalar, 'e) result" where
  "derive_public_key_internal private_key = poseidon2_hash2_internal private_key 0 (Some 3)"

definition derive_public_key :: "bytes \<Rightarrow> (bytes, js_value) result" where
  "derive_public_key private_key =
     rbind (bytes_to_scalar private_key) (\<lambda>sk.
     rbind (derive_public_key_internal sk) (\<lambda>pk.
     Ok (scalar_to_bytes pk)))"

definition derive_public_key_hex :: "bytes \<Rightarrow> (string, js_value) result" where
  "derive_public_key_hex private_key =
     rbind (bytes_to_scalar private_key) (\<lambda>sk.
     rbind (derive_public_key_internal sk) (\<lambda>pk.
     Ok (scalar_to_hex pk)))"

definition compute_commitment :: "bytes \<Rightarrow> bytes \<Rightarrow> bytes \<Rightarrow> (bytes, js_value) result" where
  "compute_commitment amount public_key blinding =
     rbind (bytes_to_scalar amount) (\<lambda>amt.
     rbind (bytes_to_scalar public_key) (\<lambda>pk.
     rbind (bytes_to_scalar blinding) (\<lambda>blind.
     rbind (poseidon2_hash3_internal amt pk blind (Some 1)) (\<lambda>commitment.
     Ok (scalar_to_bytes commitment)))))"

definition compute_signature :: "bytes \<Rightarrow> bytes \<Rightarrow> bytes \<Rightarrow> (bytes, js_value) result" where
  "compute_signature private_key commitment merkle_path =
     rbind (bytes_to_scalar private_key) (\<lambda>sk.
     rbind (bytes_to_scalar commitment) (\<lambda>comm.
     rbind (bytes_to_scalar merkle_path) (\<lambda>path.
     rbind (poseidon2_hash3_internal sk comm path (Some 4)) (\<lambda>sig.
     Ok (scalar_to_bytes sig)))))"

definition compute_nullifier :: "bytes \<Rightarrow> bytes \<Rightarrow> bytes \<Rightarrow> (bytes, js_value) result" where
  "compute_nullifier commitment path_indices signature =
     rbind (bytes_to_scalar commitment) (\<lambda>comm.
     rbind (bytes_to_scalar path_indices) (\<lambda>indices.
     rbind (bytes_to_scalar signature) (\<lambda>sig.
     rbind (poseidon2_hash3_internal comm indices sig (Some 2)) (\<lambda>nullifier.
     Ok (scalar_to_bytes nullifier)))))"

definition BN256_MOD_BYTES :: bytes where
  "BN256_MOD_BYTES =
     [48, 100, 78, 114, 225, 49, 160, 41, 184, 80, 69, 182, 129, 129, 88, 93, 40, 51, 232, 72, 121,
      185, 112, 145, 67, 225, 245, 147, 240, 0, 0, 1]"

definition ZERO_LEAF_BYTES :: bytes where
  "ZERO_LEAF_BYTES =
     [37, 48, 34, 136, 219, 153, 53, 3, 68, 151, 65, 131, 206, 49, 13, 99, 181, 58, 187, 158, 240,
      248, 87, 87, 83, 238, 211, 110, 1, 24, 249, 206]"

definition bn256_modulus_wasm :: bytes where
  "bn256_modulus_wasm = BN256_MOD_BYTES"

definition zero_leaf :: bytes where
  "zero_leaf = ZERO_LEAF_BYTES"

section \<open>The values\<close>

definition compress2 :: "scalar \<Rightarrow> scalar \<Rightarrow> scalar" where
  "compress2 l r = poseidon2_spec (bn256_params 2) [l, r] ! 0 + l"

definition hash2 :: "scalar \<Rightarrow> scalar \<Rightarrow> scalar \<Rightarrow> scalar" where
  "hash2 a b d = poseidon2_spec (bn256_params 3) [a, b, d] ! 0"

definition hash3 :: "scalar \<Rightarrow> scalar \<Rightarrow> scalar \<Rightarrow> scalar \<Rightarrow> scalar" where
  "hash3 a b c d = poseidon2_spec (bn256_params 4) [a, b, c, d] ! 0"

lemma bn256_permutation:
  assumes "t \<in> {2, 3, 4}" and "length xs = t"
  shows "permutation_run (bn256_params t) xs = (Ok (poseidon2_spec (bn256_params t) xs) :: (scalar list, 'e) result)"
    and "length (poseidon2_spec (bn256_params t) xs) = t"
  using permutation_run_spec [OF bn256_params_ok [OF assms(1)], of xs, where 'e = 'e] assms(2) by simp_all

lemma compression_value [simp]: "poseidon2_compression l r = Ok (compress2 l r)"
  by (simp add: poseidon2_compression_def compress2_def bn256_permutation)

lemma hash2_value [simp]: "poseidon2_hash2_internal a b d = Ok (hash2 a b (case d of Some x \<Rightarrow> x | None \<Rightarrow> 0))"
  by (cases d) (simp_all add: poseidon2_hash2_internal_def hash2_def bn256_permutation)

lemma hash3_value [simp]:
  "poseidon2_hash3_internal a b c d = Ok (hash3 a b c (case d of Some x \<Rightarrow> x | None \<Rightarrow> 0))"
  by (cases d) (simp_all add: poseidon2_hash3_internal_def hash3_def bn256_permutation)

lemma zero_leaf_value: "u256_from_be_bytes zero_leaf = zero_at 0"
  by (simp add: zero_at_def get_zeroes_def zeroes_1_def zero_leaf_def ZERO_LEAF_BYTES_def)

section \<open>Agreement with the contracts\<close>

text \<open>
  A host function that evaluates the crate's permutation on the parameters a contract passes; the
  contracts rely on the Soroban host computing this function.
\<close>

definition crate_host :: permutation where
  "crate_host xs field t d rounds_f rounds_p diag rc =
     (if field = ''BN254'' then
        case (rbind (poseidon2_params_new t d rounds_f rounds_p (map u256_scalar diag) []
                 (map (map u256_scalar) rc)) (\<lambda>params.
              permutation_run params (map u256_scalar xs)) :: (scalar list, unit) result) of
          Ok ys \<Rightarrow> Some (map scalar_u256 ys)
        | _ \<Rightarrow> None
      else None)"

definition host_is_poseidon2 :: "permutation \<Rightarrow> bool" where
  "host_is_poseidon2 P \<longleftrightarrow>
     (\<forall>a b. P [a, b] ''BN254'' 2 5 8 56 [1, 2] get_round_constants_t2 =
        crate_host [a, b] ''BN254'' 2 5 8 56 [1, 2] get_round_constants_t2) \<and>
     (\<forall>a b c. P [a, b, c] ''BN254'' 3 5 8 56 [1, 1, 2] get_round_constants_t3 =
        crate_host [a, b, c] ''BN254'' 3 5 8 56 [1, 1, 2] get_round_constants_t3)"

lemma u256_scalar_1_2: "u256_scalar 1 = 1" "u256_scalar 2 = 2"
  by (simp_all add: u256_scalar_def)

lemma spec_mat_internal: "poseidon2_spec (p\<lparr>p2_mat_internal := m\<rparr>) = poseidon2_spec p"
proof -
  have rounds: "spec_full_round (p\<lparr>p2_mat_internal := m\<rparr>) = spec_full_round p"
    "spec_partial_round (p\<lparr>p2_mat_internal := m\<rparr>) = spec_partial_round p"
    by (simp_all add: fun_eq_iff spec_full_round_def spec_partial_round_def)
  show ?thesis unfolding fun_eq_iff poseidon2_spec_def Let_def rounds by simp
qed

lemma crate_host_2:
  "crate_host [a, b] ''BN254'' 2 5 8 56 [1, 2] get_round_constants_t2 =
    Some (map scalar_u256 (poseidon2_spec (bn256_params 2) [u256_scalar a, u256_scalar b]))"
proof -
  let ?q = "bn256_params 2\<lparr>p2_mat_internal := []\<rparr>" and ?rc = "RC2[29 := [hd (RC2 ! 29)]]"
  have ok: "params_ok ?q" using bn256_params_ok [of 2] by (simp add: params_ok_def)
  have l29: "length (RC2 ! 29) = 2" and len: "29 < length RC2" by (simp_all add: RC_row_lengths RC_shape)
  then obtain c cs where row: "RC2 ! 29 = c # cs" by (cases "RC2 ! 29") auto
  have rc: "p2_round_constants ?q = RC2" by (simp add: bn256_params_def)
  have "permutation_run (?q\<lparr>p2_round_constants := ?rc\<rparr>) [u256_scalar a, u256_scalar b] =
      (permutation_run ?q [u256_scalar a, u256_scalar b] :: (scalar list, unit) result)"
    by (rule permutation_run_partial_rows [where k = 29 and c = c and cs = cs])
      (use len in \<open>simp_all add: rc row vec_get_def bn256_params_def\<close>)
  moreover have "poseidon2_params_new 2 5 8 56 (map u256_scalar [1, 2]) [] (map (map u256_scalar) get_round_constants_t2) =
      (Ok (?q\<lparr>p2_round_constants := ?rc\<rparr>) :: (scalar poseidon2_params, unit) result)"
    by (simp add: poseidon2_params_new_def constants_t2 u256_scalar_1_2 bn256_params_def Let_def
        MAT_DIAG2_M_1_def from_hex_def)
  moreover have "poseidon2_spec ?q = poseidon2_spec (bn256_params 2)"
    by (rule spec_mat_internal)
  ultimately show ?thesis
    using permutation_run_spec [OF ok, of "[u256_scalar a, u256_scalar b]", where 'e = unit]
    by (simp add: crate_host_def)
qed

lemma crate_host_3:
  "crate_host [a, b, c] ''BN254'' 3 5 8 56 [1, 1, 2] get_round_constants_t3 =
    Some (map scalar_u256 (poseidon2_spec (bn256_params 3) [u256_scalar a, u256_scalar b, u256_scalar c]))"
proof -
  let ?q = "bn256_params 3\<lparr>p2_mat_internal := []\<rparr>"
  have ok: "params_ok ?q" using bn256_params_ok [of 3] by (simp add: params_ok_def)
  have "poseidon2_params_new 3 5 8 56 (map u256_scalar [1, 1, 2]) [] (map (map u256_scalar) get_round_constants_t3) =
      (Ok ?q :: (scalar poseidon2_params, unit) result)"
    by (simp add: poseidon2_params_new_def constants_t3 u256_scalar_1_2 bn256_params_def Let_def
        MAT_DIAG3_M_1_def from_hex_def)
  then show ?thesis
    using permutation_run_spec [OF ok, of "[u256_scalar a, u256_scalar b, u256_scalar c]", where 'e = unit]
    by (simp add: crate_host_def spec_mat_internal)
qed

lemma scalar_u256_less [simp]: "scalar_u256 s < bn256_modulus"
  using scalar_nat_less [of s] by (simp add: word_less_nat_alt)

lemma scalar_nat_u256_scalar: "scalar_nat (u256_scalar w) = unat w mod nat field_order"
  unfolding u256_scalar_def by (rule scalar_nat_of_nat)

lemma scalar_u256_scalar: "w < bn256_modulus \<Longrightarrow> scalar_u256 (u256_scalar w) = w"
  by (simp add: word_less_nat_alt word_unat_eq_iff scalar_nat_u256_scalar)

lemma scalar_nat_add: "scalar_nat (a + b) = (scalar_nat a + scalar_nat b) mod nat field_order"
  by (metis of_nat_add of_nat_scalar_nat scalar_nat_of_nat)

lemma client_contract_compress:
  assumes P: "host_is_poseidon2 P" and l: "l < bn256_modulus" and r: "r < bn256_modulus"
  shows "poseidon2_compress P l r = (Ok (scalar_u256 (compress2 (u256_scalar l) (u256_scalar r))) :: (u256, 'e) result)"
proof -
  define o0 where "o0 = poseidon2_spec (bn256_params 2) [u256_scalar l, u256_scalar r] ! 0"
  have "length (poseidon2_spec (bn256_params 2) [u256_scalar l, u256_scalar r]) = 2"
    by (rule bn256_permutation) simp_all
  then obtain o1 where out: "poseidon2_spec (bn256_params 2) [u256_scalar l, u256_scalar r] = [o0, o1]"
    unfolding list_length_2 o0_def by auto
  have call: "P [l, r] ''BN254'' 2 5 8 56 [1, 2] get_round_constants_t2 = Some [scalar_u256 o0, scalar_u256 o1]"
    using P unfolding host_is_poseidon2_def by (simp only: crate_host_2 out list.map)
  have fits: "unat (scalar_u256 o0) + unat l < 2 ^ 256" by (rule field_sum_fits) (simp_all add: l)
  define w where "w = scalar_u256 o0 + l"
  have uw: "unat w = scalar_nat o0 + unat l" using fits by (simp add: w_def unat_word_ariths)
  have val: "scalar_nat (compress2 (u256_scalar l) (u256_scalar r)) = unat w mod nat field_order"
    using l by (simp add: compress2_def out scalar_nat_add uw scalar_nat_u256_scalar word_less_nat_alt)
  have "(if bn256_modulus \<le> w then u256_rem_euclid w bn256_modulus else Ok w) =
      (Ok (scalar_u256 (compress2 (u256_scalar l) (u256_scalar r))) :: (u256, 'e) result)"
    by (simp add: u256_rem_euclid_def word_unat_eq_iff unat_mod val word_le_nat_alt)
  then show ?thesis using l r fits
    by (auto simp: poseidon2_compress_def call u256_add_def w_def not_le less_le_not_le [THEN iffD1, OF scalar_u256_less] split: if_splits)
qed

lemma client_contract_hash2:
  assumes P: "host_is_poseidon2 P" and a: "a < bn256_modulus" and b: "b < bn256_modulus"
  shows "poseidon2_hash2 P a b (Some 1) = (Ok (scalar_u256 (hash2 (u256_scalar a) (u256_scalar b) 1)) :: (u256, 'e) result)"
proof -
  have "length (poseidon2_spec (bn256_params 3) [u256_scalar a, u256_scalar b, 1]) = 3"
    by (rule bn256_permutation) simp_all
  moreover have "(1 :: u256) < bn256_modulus" by (simp add: word_less_nat_alt)
  moreover have "P [a, b, 1] ''BN254'' 3 5 8 56 [1, 1, 2] get_round_constants_t3 =
      Some (map scalar_u256 (poseidon2_spec (bn256_params 3) [u256_scalar a, u256_scalar b, 1]))"
    using P unfolding host_is_poseidon2_def by (simp only: crate_host_3 u256_scalar_1_2)
  ultimately show ?thesis using a b by (simp add: poseidon2_hash2_def hash2_def not_le)
qed

lemma client_node_hash:
  "host_is_poseidon2 P \<Longrightarrow> node_hash P (scalar_u256 l) (scalar_u256 r) = scalar_u256 (compress2 l r)"
  using compress_Ok [OF client_contract_compress [of P "scalar_u256 l" "scalar_u256 r"]] by simp

lemma client_leaf_hash:
  "host_is_poseidon2 P \<Longrightarrow> leaf_hash P (scalar_u256 k) (scalar_u256 v) = scalar_u256 (hash2 k v 1)"
  using hash_leaf_Ok [OF client_contract_hash2 [of P "scalar_u256 k" "scalar_u256 v"]] by simp

lemma crate_host_ok: "host_is_poseidon2 crate_host" "poseidon2_host crate_host"
proof -
  show "host_is_poseidon2 crate_host" by (simp add: host_is_poseidon2_def)
  have two: "\<exists>x y. crate_host [a, b] ''BN254'' 2 5 8 56 [1, 2] get_round_constants_t2 = Some [x, y] \<and>
      x < bn256_modulus \<and> y < bn256_modulus" for a b
  proof -
    have "length (poseidon2_spec (bn256_params 2) [u256_scalar a, u256_scalar b]) = 2"
      by (rule bn256_permutation) simp_all
    then show ?thesis unfolding crate_host_2 list_length_2 by auto
  qed
  have three: "\<exists>x y z. crate_host [a, b, c] ''BN254'' 3 5 8 56 [1, 1, 2] get_round_constants_t3 = Some [x, y, z] \<and>
      x < bn256_modulus \<and> y < bn256_modulus \<and> z < bn256_modulus" for a b c
  proof -
    have "length (poseidon2_spec (bn256_params 3) [u256_scalar a, u256_scalar b, u256_scalar c]) = 3"
      by (rule bn256_permutation) simp_all
    then show ?thesis unfolding crate_host_3 list_length_3 by auto
  qed
  show "poseidon2_host crate_host" unfolding poseidon2_host_def using two three by blast
qed

end
