(* ===== verification/Client_Smt.thy ===== *)
theory Client_Smt
  imports Prover_Crypto
begin

unbundle bit_operations_syntax

text \<open>
  The client's sparse Merkle tree (\<open>app/crates/prover/src/sparse_merkle.rs\<close>): nodes in a map keyed
  by the bytes of their hash, the zero hash standing for the empty tree.  Nodes are only ever added,
  never removed.  This theory holds the operations; \<open>Client_Smt_Correct\<close> relates them to the tree of
  \<open>Sparse_Merkle\<close> that the non-membership contract refines as well.
\<close>

section \<open>Data\<close>

datatype smt_node = NEmpty | NLeaf scalar scalar | NInternal scalar scalar

record client_find =
  cf_found :: bool
  cf_siblings :: "scalar list"
  cf_found_value :: scalar
  cf_not_found_key :: scalar
  cf_not_found_value :: scalar
  cf_is_old0 :: bool

record smt_result =
  sr_old_root :: scalar
  sr_new_root :: scalar
  sr_siblings :: "scalar list"
  sr_old_key :: scalar
  sr_old_value :: scalar
  sr_new_key :: scalar
  sr_new_value :: scalar
  sr_is_old0 :: bool

record sparse_merkle_tree =
  cs_db :: "bytes \<Rightarrow> smt_node option"
  cs_root :: scalar

definition poseidon2_hash_leaf :: "scalar \<Rightarrow> scalar \<Rightarrow> (scalar, 'e) result" where
  "poseidon2_hash_leaf key val = poseidon2_hash2_internal key val (Some 1)"

text \<open>256 bits, least significant first.\<close>

definition limb_bits :: "u64 \<Rightarrow> bool list" where
  "limb_bits limb = map (\<lambda>i. drop_bit i limb AND 1 = 1) [0..<64]"

definition scalar_to_bits :: "scalar \<Rightarrow> bool list" where
  "scalar_to_bits s = take 256 (fold (\<lambda>limb bits. bits @ limb_bits limb) (into_bigint s) [])"

definition cs_new :: sparse_merkle_tree where
  "cs_new = \<lparr>cs_db = Map.empty, cs_root = 0\<rparr>"

definition scalar_to_key :: "scalar \<Rightarrow> bytes" where
  "scalar_to_key s = scalar_to_bytes s"

definition cs_get_node :: "sparse_merkle_tree \<Rightarrow> scalar \<Rightarrow> smt_node option" where
  "cs_get_node t hash = (if hash = 0 then Some NEmpty else cs_db t (scalar_to_key hash))"

definition cs_put_node :: "scalar \<Rightarrow> smt_node \<Rightarrow> sparse_merkle_tree \<Rightarrow> sparse_merkle_tree" where
  "cs_put_node hash node t =
     (if hash \<noteq> 0 then t\<lparr>cs_db := (cs_db t)(scalar_to_key hash \<mapsto> node)\<rparr> else t)"

section \<open>Search\<close>

function cs_find_internal ::
  "sparse_merkle_tree \<Rightarrow> scalar \<Rightarrow> bool list \<Rightarrow> scalar \<Rightarrow> nat \<Rightarrow> (client_find, string) result" where
  "cs_find_internal t key key_bits current_hash level =
     (if 256 \<le> level then Err ''Maximum tree depth exceeded''
      else if current_hash = 0 then
        Ok \<lparr>cf_found = False, cf_siblings = [], cf_found_value = 0, cf_not_found_key = key,
            cf_not_found_value = 0, cf_is_old0 = True\<rparr>
      else
        case cs_get_node t current_hash of
          Some (NLeaf leaf_key leaf_value) \<Rightarrow>
            if leaf_key = key then
              Ok \<lparr>cf_found = True, cf_siblings = [], cf_found_value = leaf_value,
                  cf_not_found_key = 0, cf_not_found_value = 0, cf_is_old0 = False\<rparr>
            else
              Ok \<lparr>cf_found = False, cf_siblings = [], cf_found_value = 0,
                  cf_not_found_key = leaf_key, cf_not_found_value = leaf_value, cf_is_old0 = False\<rparr>
        | Some (NInternal left right) \<Rightarrow>
            (case vec_get key_bits level of
               None \<Rightarrow> Panic
             | Some b \<Rightarrow>
                 let (child, sibling) = (if b then (right, left) else (left, right)) in
                 rbind (cs_find_internal t key key_bits child (level + 1)) (\<lambda>result.
                 Ok (result\<lparr>cf_siblings := cf_siblings result @ [sibling]\<rparr>)))
        | Some NEmpty \<Rightarrow>
            Ok \<lparr>cf_found = False, cf_siblings = [], cf_found_value = 0, cf_not_found_key = key,
                cf_not_found_value = 0, cf_is_old0 = True\<rparr>
        | None \<Rightarrow> Err ''Node not found in database'')"
  by pat_completeness auto
termination
  by (relation "measure (\<lambda>(t, key, key_bits, current_hash, level). 256 - level)") auto

declare cs_find_internal.simps [simp del]

definition cs_find :: "sparse_merkle_tree \<Rightarrow> scalar \<Rightarrow> (client_find, string) result" where
  "cs_find t key =
     (let key_bits = scalar_to_bits key in
      rbind (cs_find_internal t key key_bits (cs_root t) 0) (\<lambda>result.
      Ok (result\<lparr>cf_siblings := rev (cf_siblings result)\<rparr>)))"

section \<open>Insertion and update\<close>

function cs_diverge :: "bool list \<Rightarrow> bool list \<Rightarrow> nat \<Rightarrow> scalar list \<Rightarrow> (scalar list, string) result" where
  "cs_diverge old_key_bits key_bits diverge_level siblings =
     (if diverge_level < 256 then
        rbind (unwrap (vec_get old_key_bits diverge_level)) (\<lambda>x.
        rbind (unwrap (vec_get key_bits diverge_level)) (\<lambda>y.
        if x = y then cs_diverge old_key_bits key_bits (diverge_level + 1) (siblings @ [0])
        else Ok siblings))
      else Ok siblings)"
  by pat_completeness auto
termination
  by (relation "measure (\<lambda>(old_key_bits, key_bits, diverge_level, siblings). 256 - diverge_level)") auto

declare cs_diverge.simps [simp del]

text \<open>One level of the path from the leaf to the root.\<close>

definition cs_path_step ::
  "bool list \<Rightarrow> nat \<times> scalar \<Rightarrow> sparse_merkle_tree \<times> scalar
     \<Rightarrow> (sparse_merkle_tree \<times> scalar, string) result" where
  "cs_path_step key_bits = (\<lambda>(level, sibling) (t, current_hash).
     rbind (unwrap (vec_get key_bits level)) (\<lambda>b.
     let (left, right) = (if b then (sibling, current_hash) else (current_hash, sibling)) in
     rbind (poseidon2_compression left right) (\<lambda>current_hash'.
     Ok (cs_put_node current_hash' (NInternal left right) t, current_hash'))))"

fun cs_trim :: "scalar list \<Rightarrow> scalar list" where
  "cs_trim xs = (if xs \<noteq> [] \<and> last xs = 0 then cs_trim (butlast xs) else xs)"

declare cs_trim.simps [simp del]

definition cs_insert ::
  "sparse_merkle_tree \<Rightarrow> scalar \<Rightarrow> scalar \<Rightarrow> (smt_result \<times> sparse_merkle_tree, string) result" where
  "cs_insert t key val =
     rbind (cs_find t key) (\<lambda>find_result.
     if cf_found find_result then Err ''Key already exists''
     else
       let old_root = cs_root t; key_bits = scalar_to_bits key in
       rbind (poseidon2_hash_leaf key val) (\<lambda>new_leaf_hash.
       let t1 = cs_put_node new_leaf_hash (NLeaf key val) t in
       rbind
         (if \<not> cf_is_old0 find_result then
            let old_key_bits = scalar_to_bits (cf_not_found_key find_result) in
            rbind (cs_diverge old_key_bits key_bits (length (cf_siblings find_result))
                     (cf_siblings find_result)) (\<lambda>siblings.
            rbind (poseidon2_hash_leaf (cf_not_found_key find_result) (cf_not_found_value find_result))
              (\<lambda>old_leaf_hash. Ok (siblings @ [old_leaf_hash])))
          else Ok (cf_siblings find_result)) (\<lambda>siblings.
       rbind (rfold (cs_path_step key_bits) (rev (List.enumerate 0 siblings)) (t1, new_leaf_hash))
         (\<lambda>(t2, current_hash).
       let t3 = t2\<lparr>cs_root := current_hash\<rparr>;
           trimmed = cs_trim siblings;
           result_siblings =
             (if \<not> cf_is_old0 find_result \<and> trimmed \<noteq> [] then butlast trimmed else trimmed) in
       Ok (\<lparr>sr_old_root = old_root, sr_new_root = cs_root t3, sr_siblings = result_siblings,
            sr_old_key = cf_not_found_key find_result, sr_old_value = cf_not_found_value find_result,
            sr_new_key = key, sr_new_value = val, sr_is_old0 = cf_is_old0 find_result\<rparr>, t3)))))"

definition cs_update ::
  "sparse_merkle_tree \<Rightarrow> scalar \<Rightarrow> scalar \<Rightarrow> (smt_result \<times> sparse_merkle_tree, string) result" where
  "cs_update t key new_value =
     rbind (cs_find t key) (\<lambda>find_result.
     if \<not> cf_found find_result then Err ''Key does not exist''
     else
       let old_root = cs_root t; old_value = cf_found_value find_result;
           key_bits = scalar_to_bits key in
       rbind (poseidon2_hash_leaf key new_value) (\<lambda>new_leaf_hash.
       let t1 = cs_put_node new_leaf_hash (NLeaf key new_value) t in
       rbind (rfold (cs_path_step key_bits) (rev (List.enumerate 0 (cf_siblings find_result)))
           (t1, new_leaf_hash)) (\<lambda>(t2, current_hash).
       let t3 = t2\<lparr>cs_root := current_hash\<rparr> in
       Ok (\<lparr>sr_old_root = old_root, sr_new_root = cs_root t3, sr_siblings = cf_siblings find_result,
            sr_old_key = key, sr_old_value = old_value, sr_new_key = key, sr_new_value = new_value,
            sr_is_old0 = False\<rparr>, t3))))"

section \<open>The exported wrapper\<close>

record wasm_smt_result =
  ws_old_root :: bytes
  ws_new_root :: bytes
  ws_siblings :: bytes
  ws_old_key :: bytes
  ws_old_value :: bytes
  ws_new_key :: bytes
  ws_new_value :: bytes
  ws_is_old0 :: bool
  ws_num_siblings :: nat

record wasm_smt_proof =
  wp_found :: bool
  wp_siblings :: bytes
  wp_found_value :: bytes
  wp_not_found_key :: bytes
  wp_not_found_value :: bytes
  wp_is_old0 :: bool
  wp_root :: bytes
  wp_num_siblings :: nat

definition flat_scalars :: "scalar list \<Rightarrow> bytes" where
  "flat_scalars xs = concat (map scalar_to_bytes xs)"

definition smt_result_bytes :: "smt_result \<Rightarrow> wasm_smt_result" where
  "smt_result_bytes r =
     \<lparr>ws_old_root = scalar_to_bytes (sr_old_root r), ws_new_root = scalar_to_bytes (sr_new_root r),
      ws_siblings = flat_scalars (sr_siblings r), ws_old_key = scalar_to_bytes (sr_old_key r),
      ws_old_value = scalar_to_bytes (sr_old_value r), ws_new_key = scalar_to_bytes (sr_new_key r),
      ws_new_value = scalar_to_bytes (sr_new_value r), ws_is_old0 = sr_is_old0 r,
      ws_num_siblings = length (sr_siblings r)\<rparr>"

definition find_result_bytes :: "client_find \<Rightarrow> scalar \<Rightarrow> wasm_smt_proof" where
  "find_result_bytes r root =
     \<lparr>wp_found = cf_found r, wp_siblings = flat_scalars (cf_siblings r),
      wp_found_value = scalar_to_bytes (cf_found_value r),
      wp_not_found_key = scalar_to_bytes (cf_not_found_key r),
      wp_not_found_value = scalar_to_bytes (cf_not_found_value r), wp_is_old0 = cf_is_old0 r,
      wp_root = scalar_to_bytes root, wp_num_siblings = length (cf_siblings r)\<rparr>"

definition wasm_root :: "sparse_merkle_tree \<Rightarrow> bytes" where
  "wasm_root t = scalar_to_bytes (cs_root t)"

definition wasm_insert ::
  "sparse_merkle_tree \<Rightarrow> bytes \<Rightarrow> bytes \<Rightarrow> (wasm_smt_result \<times> sparse_merkle_tree, js_value) result" where
  "wasm_insert t key_bytes value_bytes =
     rbind (bytes_to_scalar key_bytes) (\<lambda>key.
     rbind (bytes_to_scalar value_bytes) (\<lambda>val.
     rbind (cs_insert t key val) (\<lambda>(res, t').
     Ok (smt_result_bytes res, t'))))"

definition wasm_update ::
  "sparse_merkle_tree \<Rightarrow> bytes \<Rightarrow> bytes \<Rightarrow> (wasm_smt_result \<times> sparse_merkle_tree, js_value) result" where
  "wasm_update t key_bytes new_value_bytes =
     rbind (bytes_to_scalar key_bytes) (\<lambda>key.
     rbind (bytes_to_scalar new_value_bytes) (\<lambda>new_value.
     rbind (cs_update t key new_value) (\<lambda>(res, t').
     Ok (smt_result_bytes res, t'))))"

definition wasm_find :: "sparse_merkle_tree \<Rightarrow> bytes \<Rightarrow> (wasm_smt_proof, js_value) result" where
  "wasm_find t key_bytes =
     rbind (bytes_to_scalar key_bytes) (\<lambda>key.
     rbind (cs_find t key) (\<lambda>res.
     Ok (find_result_bytes res (cs_root t))))"

definition wasm_get_proof :: "sparse_merkle_tree \<Rightarrow> bytes \<Rightarrow> nat \<Rightarrow> (wasm_smt_proof, js_value) result" where
  "wasm_get_proof t key_bytes max_levels =
     rbind (bytes_to_scalar key_bytes) (\<lambda>key.
     rbind (cs_find t key) (\<lambda>find_result.
     let siblings = cf_siblings find_result @
           replicate (max_levels - length (cf_siblings find_result)) 0 in
     Ok \<lparr>wp_found = cf_found find_result, wp_siblings = flat_scalars siblings,
         wp_found_value = scalar_to_bytes (cf_found_value find_result),
         wp_not_found_key = scalar_to_bytes (cf_not_found_key find_result),
         wp_not_found_value = scalar_to_bytes (cf_not_found_value find_result),
         wp_is_old0 = cf_is_old0 find_result, wp_root = scalar_to_bytes (cs_root t),
         wp_num_siblings = length siblings\<rparr>))"

definition smt_hash_pair :: "bytes \<Rightarrow> bytes \<Rightarrow> (bytes, js_value) result" where
  "smt_hash_pair left right =
     rbind (bytes_to_scalar left) (\<lambda>l.
     rbind (bytes_to_scalar right) (\<lambda>r.
     rbind (poseidon2_compression l r) (\<lambda>res.
     Ok (scalar_to_bytes res))))"

definition smt_hash_leaf :: "bytes \<Rightarrow> bytes \<Rightarrow> (bytes, js_value) result" where
  "smt_hash_leaf key val =
     rbind (bytes_to_scalar key) (\<lambda>k.
     rbind (bytes_to_scalar val) (\<lambda>v.
     rbind (poseidon2_hash_leaf k v) (\<lambda>res.
     Ok (scalar_to_bytes res))))"

end
