(* ===== verification/Asp_Non_Membership_Correct.thy ===== *)
theory Asp_Non_Membership_Correct
  imports Asp_Non_Membership
begin

text \<open>
  The non-membership contract refines the sparse Merkle tree of \<open>Sparse_Merkle\<close>.  \<open>nm_repr\<close> ties
  a storage to a canonical tree; every entry point is computed on the tree: the search finds the
  tree's entry and siblings, and insertion, update and deletion issue exactly the sequences of
  node writes and removals of \<open>Smt_Storage\<close> and end with the root of the new tree.
\<close>

section \<open>Key bits\<close>

lemma word_mod_2_bit: "(w :: u256) mod 2 = 1 \<longleftrightarrow> bit w 0"
  by (simp add: bit_0 odd_iff_mod_2_eq_one)

lemma nm_split_loop:
  "rfold nm_split_step [0..<n] ([], key) = Ok (map (bit key) [0..<n], drop_bit n key)"
proof (induction n)
  case (Suc n)
  have "drop_bit n key mod 2 = 1 \<longleftrightarrow> bit key n" by (simp add: word_mod_2_bit bit_drop_bit_eq)
  moreover have "drop_bit n key div 2 = drop_bit (Suc n) key"
    using drop_bit_eq_div [of 1 "drop_bit n key"] by (simp add: drop_bit_drop_bit)
  ultimately show ?case using Suc by (simp add: rfold_append)
qed simp

lemma nm_split_bits_eq: "nm_split_bits key = Ok (map (bit key) [0..<256])"
  by (simp only: nm_split_bits_def nm_split_loop rbind.simps prod.case)

lemma vec_get_bits: "l < 256 \<Longrightarrow> vec_get (map (bit key) [0..<256]) l = Some (bit key l)"
  by (simp add: vec_get_def)

section \<open>Hashes of trees\<close>

primrec in_field :: "smt \<Rightarrow> bool" where
  "in_field SE = True"
| "in_field (SL k v) = (k < bn256_modulus \<and> v < bn256_modulus)"
| "in_field (SN a b) = (in_field a \<and> in_field b)"

abbreviation tree_hash :: "permutation \<Rightarrow> smt \<Rightarrow> u256" where
  "tree_hash P \<equiv> smt_hash (leaf_hash P) (node_hash P)"

abbreviation no_collision :: "permutation \<Rightarrow> smt set \<Rightarrow> bool" where
  "no_collision P \<equiv> collision_free (leaf_hash P) (node_hash P)"

lemma modulus_pos: "(0 :: u256) < bn256_modulus"
  by (simp add: word_less_nat_alt)

lemma tree_hash_in_field: "poseidon2_host P \<Longrightarrow> in_field t \<Longrightarrow> tree_hash P t < bn256_modulus"
  by (induction t) (simp_all add: modulus_pos leaf_hash_in_field node_hash_in_field)

lemma hash_internal_tree:
  assumes "poseidon2_host P" and "in_field a" and "in_field b"
  shows "nm_hash_internal P (tree_hash P a) (tree_hash P b) = Ok (tree_hash P (SN a b))"
  using assms by (simp add: nm_hash_internal_def compress_total_Ok tree_hash_in_field)

lemma hash_leaf_tree:
  "poseidon2_host P \<Longrightarrow> k < bn256_modulus \<Longrightarrow> v < bn256_modulus \<Longrightarrow>
    nm_hash_leaf P k v = Ok (tree_hash P (SL k v))"
  by (simp add: nm_hash_leaf_def hash_leaf_total_Ok)

section \<open>The contract storage as a node database\<close>

interpretation nm_db: node_db nm_nodes nm_put_node nm_del_node
  by unfold_locales (simp_all add: nm_put_node_def nm_del_node_def)

interpretation nm_slot: admin_slot nm_admin nm_set_admin "\<lambda>st. (nm_root st, nm_nodes st, nm_events st)"
  by unfold_locales (simp_all add: nm_set_admin_def)

abbreviation nm_run :: "permutation \<Rightarrow> smt_op list \<Rightarrow> asp_non_membership \<Rightarrow> asp_non_membership" where
  "nm_run P \<equiv> nm_db.run_ops (leaf_hash P) (node_hash P)"

abbreviation nm_holds :: "permutation \<Rightarrow> smt \<Rightarrow> asp_non_membership \<Rightarrow> bool" where
  "nm_holds P \<equiv> nm_db.holds (leaf_hash P) (node_hash P)"

abbreviation nm_holds_only :: "permutation \<Rightarrow> smt \<Rightarrow> asp_non_membership \<Rightarrow> bool" where
  "nm_holds_only P \<equiv> nm_db.holds_only (leaf_hash P) (node_hash P)"

section \<open>The path of a key\<close>

fun s_sibs :: "nat \<Rightarrow> u256 \<Rightarrow> smt \<Rightarrow> smt list" where
  "s_sibs l k (SN a b) = (if bit k l then a # s_sibs (Suc l) k b else b # s_sibs (Suc l) k a)"
| "s_sibs l k t = []"

fun s_end :: "nat \<Rightarrow> u256 \<Rightarrow> smt \<Rightarrow> smt" where
  "s_end l k (SN a b) = (if bit k l then s_end (Suc l) k b else s_end (Suc l) k a)"
| "s_end l k t = t"

lemma s_end_subtree: "s_end l k t \<in> subtrees t"
  by (induction l k t rule: s_end.induct) auto

lemma s_end_not_SN: "\<not> is_SN (s_end l k t)"
  by (induction l k t rule: s_end.induct) auto

lemma s_end_entries:
  assumes "canon l t"
  shows "entries t k = (case s_end l k t of SL k' v \<Rightarrow> (if k' = k then Some v else None) | _ \<Rightarrow> None)"
  using assms
proof (induction l k t rule: s_end.induct)
  case (1 l k a b)
  have "bit k l \<Longrightarrow> entries a k = None" "\<not> bit k l \<Longrightarrow> entries b k = None"
    using 1(3) by (auto simp: keys_entries)
  with 1 show ?case by (auto simp: map_add_def split: option.splits)
qed auto

text \<open>What the search of the contract reports about a tree.\<close>

definition s_report :: "permutation \<Rightarrow> u256 \<Rightarrow> u256 list \<Rightarrow> smt \<Rightarrow> find_result" where
  "s_report P key sibs e =
     (case e of
        SL k v \<Rightarrow>
          if k = key then
            \<lparr>fr_found = True, fr_siblings = sibs, fr_found_value = v, fr_not_found_key = 0,
             fr_not_found_value = 0, fr_is_old0 = False\<rparr>
          else
            \<lparr>fr_found = False, fr_siblings = sibs, fr_found_value = 0, fr_not_found_key = k,
             fr_not_found_value = v, fr_is_old0 = False\<rparr>
      | _ \<Rightarrow> \<lparr>fr_found = False, fr_siblings = sibs, fr_found_value = 0, fr_not_found_key = key,
             fr_not_found_value = 0, fr_is_old0 = True\<rparr>)"

lemma s_report_siblings:
  "fr_siblings (s_report P key sibs e) = sibs"
  "s_report P key sibs e\<lparr>fr_siblings := sibs'\<rparr> = s_report P key sibs' e"
  by (auto simp: s_report_def split: smt.splits)

lemma nm_find_internal_tree:
  assumes "canon l t" and "nm_holds P t st" and "no_collision P (subtrees t)"
  shows "nm_find_key_internal (nm_nodes st) key (map (bit key) [0..<256]) (tree_hash P t) l =
    Ok (s_report P key (map (tree_hash P) (s_sibs l key t)) (s_end l key t))"
  using assms
proof (induction t arbitrary: l)
  case SE
  then show ?case by (simp add: nm_find_key_internal.simps s_report_def)
next
  case (SL k v)
  then have "tree_hash P (SL k v) \<noteq> 0" "nm_nodes st (tree_hash P (SL k v)) = Some [1, k, v]"
    using collision_free_nonzero [OF SL(3), of "SL k v"] by (auto simp: nm_db.holds_def)
  then show ?case
    by (subst nm_find_key_internal.simps) (simp add: s_report_def Let_def)
next
  case (SN a b)
  have nz: "tree_hash P (SN a b) \<noteq> 0"
    and node: "nm_nodes st (tree_hash P (SN a b)) = Some [tree_hash P a, tree_hash P b]"
    using collision_free_nonzero [OF SN.prems(3), of "SN a b"] SN.prems(2)
    by (auto simp: nm_db.holds_def)
  have l: "l < 256" using SN.prems(1) by simp
  have sub: "canon (Suc l) a" "canon (Suc l) b" "nm_holds P a st" "nm_holds P b st"
    "no_collision P (subtrees a)" "no_collision P (subtrees b)"
    using SN.prems by (auto simp: nm_db.holds_def elim: collision_free_subset)
  show ?case
    using SN.IH(1) [OF sub(1,3,5)] SN.IH(2) [OF sub(2,4,6)] nz node
    by (subst nm_find_key_internal.simps)
      (simp add: vec_get_bits [OF l] s_report_siblings Let_def)
qed

section \<open>The insertion loop\<close>

lemma internal_Ok:
  "poseidon2_host P \<Longrightarrow> a < bn256_modulus \<Longrightarrow> b < bn256_modulus \<Longrightarrow>
    nm_hash_internal P a b = Ok (node_hash P a b)"
  by (simp add: nm_hash_internal_def compress_total_Ok)

lemmas field_simps_host = internal_Ok tree_hash_in_field leaf_hash_in_field node_hash_in_field modulus_pos

text \<open>The siblings of the extended path, down to the leaf that is pushed aside.\<close>

function split_sibs :: "nat \<Rightarrow> u256 \<Rightarrow> u256 \<Rightarrow> u256 \<Rightarrow> smt list" where
  "split_sibs l k k' v' =
     (if 256 \<le> l then []
      else if bit k l = bit k' l then SE # split_sibs (Suc l) k k' v' else [SL k' v'])"
  by pat_completeness auto
termination by (relation "measure (\<lambda>(l, k, k', v'). 256 - l)") auto

declare split_sibs.simps [simp del]

fun full_sibs :: "nat \<Rightarrow> u256 \<Rightarrow> smt \<Rightarrow> smt list" where
  "full_sibs l k SE = []"
| "full_sibs l k (SL k' v') = split_sibs l k k' v'"
| "full_sibs l k (SN a b) = (if bit k l then a # full_sibs (Suc l) k b else b # full_sibs (Suc l) k a)"

lemma split_sibs_nonempty: "agree l k k' \<Longrightarrow> k \<noteq> k' \<Longrightarrow> split_sibs l k k' v' \<noteq> []"
  using agree_256 [of l k k'] by (subst split_sibs.simps) auto

lemma nm_extend_split:
  assumes "k \<noteq> k'" and "agree l k k'"
  shows "nm_extend (map (bit k') [0..<256]) (map (bit k) [0..<256]) l sibs @ [tree_hash P (SL k' v')] =
    sibs @ map (tree_hash P) (split_sibs l k k' v')"
  using assms
proof (induction l k k' v' arbitrary: sibs rule: split_sibs.induct)
  case (1 l k k' v')
  from 1(3,2) have "l < 256" by (rule agree_256)
  with 1 show ?case
    by (subst nm_extend.simps, subst split_sibs.simps) (auto simp: agree_Suc)
qed

lemma rev_enumerate_Cons:
  "rev (List.enumerate l (x # xs)) = rev (List.enumerate (Suc l) xs) @ [(l, x)]"
  by simp

lemma nm_split_rebuild:
  assumes host: "poseidon2_host P" and "k < bn256_modulus" "v < bn256_modulus"
    and "k' < bn256_modulus" "v' < bn256_modulus"
    and "k \<noteq> k'" and "agree l k k'" and "n = l + length (split_sibs l k k' v')"
  shows "rfold (nm_insert_step P (map (bit k) [0..<256]) n fs True)
      (rev (List.enumerate l (map (tree_hash P) (split_sibs l k k' v'))))
      (s, tree_hash P (SL k v), ro, False) =
    Ok (nm_run P (split_ops l k v k' v') s, tree_hash P (s_split l k v k' v'), ro, False)"
  using assms(2-)
proof (induction l k k' v' arbitrary: n rule: split_sibs.induct)
  case (1 l k k' v')
  from 1(7,6) have l: "l < 256" by (rule agree_256)
  then have nl: "\<not> 256 \<le> l" by simp
  have sf: "tree_hash P (s_split (Suc l) k v k' v') < bn256_modulus" if "agree (Suc l) k k'"
  proof -
    have "in_field (s_split j k v k' v')" for j
      using 1(2-5) by (induction j k v k' v' rule: s_split.induct) (subst s_split.simps; simp)
    then show ?thesis by (rule tree_hash_in_field [OF host])
  qed
  show ?case
  proof (cases "bit k l = bit k' l")
    case True
    with 1(7) have ag: "agree (Suc l) k k'" by (simp add: agree_Suc)
    have sibs: "split_sibs l k k' v' = SE # split_sibs (Suc l) k k' v'"
      using nl True by (subst split_sibs.simps) simp
    have n: "n = Suc l + length (split_sibs (Suc l) k k' v')" using 1(8) sibs by simp
    have "l \<noteq> n - 1" using split_sibs_nonempty [OF ag 1(6), of v'] n by (cases "split_sibs (Suc l) k k' v'") auto
    then show ?thesis
      unfolding sibs list.map rev_enumerate_Cons rfold_append 1(1) [OF nl True 1(2-6) ag n]
      using nl True sf [OF ag] host
      by (simp add: vec_get_bits [OF l] field_simps_host split_ops.simps [of l k v k' v']
          s_split.simps [of l k v k' v'])
  next
    case False
    have sibs: "split_sibs l k k' v' = [SL k' v']"
      using nl False by (subst split_sibs.simps) simp
    then show ?thesis
      using nl False 1(2-5,8) host
      by (simp add: vec_get_bits [OF l] field_simps_host split_ops.simps [of l k v k' v']
          s_split.simps [of l k v k' v'])
  qed
qed

lemma in_field_subtree: "in_field t \<Longrightarrow> x \<in> subtrees t \<Longrightarrow> in_field x"
  by (induction t) auto

lemma in_field_split:
  "k < bn256_modulus \<Longrightarrow> v < bn256_modulus \<Longrightarrow> k' < bn256_modulus \<Longrightarrow> v' < bn256_modulus \<Longrightarrow>
    in_field (s_split l k v k' v')"
  by (induction l k v k' v' rule: s_split.induct) (subst s_split.simps; simp)

lemma in_field_put:
  "in_field t \<Longrightarrow> k < bn256_modulus \<Longrightarrow> v < bn256_modulus \<Longrightarrow> in_field (s_put l k v t)"
  by (induction l k v t rule: s_put.induct) (auto simp: in_field_split)

lemma in_field_collapse: "in_field a \<Longrightarrow> in_field b \<Longrightarrow> in_field (collapse a b)"
  by (cases "(a, b)" rule: collapse.cases) auto

lemma in_field_delete: "in_field t \<Longrightarrow> in_field (s_delete l k t)"
  by (induction l k t rule: s_delete.induct) (auto simp: in_field_collapse)

lemma full_sibs_nonempty:
  "canon l t \<Longrightarrow> \<forall>k' \<in> keys t. agree l k k' \<Longrightarrow> k \<notin> keys t \<Longrightarrow> s_end l k t \<noteq> SE \<Longrightarrow> full_sibs l k t \<noteq> []"
  by (cases t) (auto simp: split_sibs_nonempty)

lemma nm_rebuild:
  assumes host: "poseidon2_host P" and kv: "k < bn256_modulus" "v < bn256_modulus"
    and "canon l t" and "\<forall>k' \<in> keys t. agree l k k'" and "k \<notin> keys t" and "in_field t"
    and "no_collision P (subtrees t)"
    and "n = l + length (full_sibs l k t)" and "fs = pre @ map (tree_hash P) (s_sibs l k t)"
    and "length pre = l" and e: "e = s_end l k t"
  shows "rfold (nm_insert_step P (map (bit k) [0..<256]) n fs (e \<noteq> SE))
      (rev (List.enumerate l (map (tree_hash P) (full_sibs l k t))))
      (nm_run P [Put (SL k v)] st, tree_hash P (SL k v), tree_hash P e, e = SE \<and> n \<noteq> 0) =
    Ok (nm_run P (put_ops l k v t) st, tree_hash P (s_put l k v t), tree_hash P t,
      is_SN t \<or> (e = SE \<and> n \<noteq> 0))"
  using assms(4-)
proof (induction t arbitrary: l pre)
  case SE
  then show ?case by simp
next
  case (SL k' v')
  then have ne: "k \<noteq> k'" "agree l k k'" "e = SL k' v'" by auto
  note R = nm_split_rebuild [OF host kv _ _ ne(1,2), of v' n fs "nm_run P [Put (SL k v)] st"
      "tree_hash P (SL k' v')"]
  have "nm_run P (split_ops l k v k' v') (nm_run P [Put (SL k v)] st) =
      nm_run P (put_ops l k v (SL k' v')) st"
    by simp
  with R SL ne show ?case by simp
next
  case (SN a b)
  define c where "c = (if bit k l then b else a)"
  define s where "s = (if bit k l then a else b)"
  have l: "l < 256" using SN.prems(1) by simp
  have c: "canon (Suc l) c" "\<forall>k' \<in> keys c. agree (Suc l) k k'" "k \<notin> keys c" "in_field c"
    "no_collision P (subtrees c)" "e = s_end (Suc l) k c"
    using SN.prems by (auto simp: c_def agree_Suc elim: collision_free_subset)
  have br: "\<not> is_SN c \<Longrightarrow> s \<noteq> SE" using SN.prems(1) by (auto simp: c_def s_def branching_def)
  have sf: "in_field s" using SN.prems(4) by (simp add: s_def)
  have s0: "tree_hash P s = 0 \<longleftrightarrow> s = SE"
    by (rule collision_free_nonzero [OF SN.prems(5)]) (simp add: s_def)
  have sibs: "full_sibs l k (SN a b) = s # full_sibs (Suc l) k c"
    "s_sibs l k (SN a b) = s # s_sibs (Suc l) k c"
    by (simp_all add: c_def s_def)
  have n: "n = Suc l + length (full_sibs (Suc l) k c)" using SN.prems(6) sibs by simp
  have fs: "fs = (pre @ [tree_hash P s]) @ map (tree_hash P) (s_sibs (Suc l) k c)"
    using SN.prems(7) sibs by simp
  have len: "length (pre @ [tree_hash P s]) = Suc l" using SN.prems(8) by simp
  have IH: "rfold (nm_insert_step P (map (bit k) [0..<256]) n fs (e \<noteq> SE))
      (rev (List.enumerate (Suc l) (map (tree_hash P) (full_sibs (Suc l) k c))))
      (nm_run P [Put (SL k v)] st, tree_hash P (SL k v), tree_hash P e, e = SE \<and> n \<noteq> 0) =
    Ok (nm_run P (put_ops (Suc l) k v c) st, tree_hash P (s_put (Suc l) k v c), tree_hash P c,
      is_SN c \<or> (e = SE \<and> n \<noteq> 0))"
  proof (cases "bit k l")
    case True
    then have cb: "c = b" by (simp add: c_def)
    show ?thesis unfolding cb
      by (rule SN.IH(2) [OF c(1-5) [unfolded cb] n [unfolded cb] fs [unfolded cb] len c(6) [unfolded cb]])
  next
    case False
    then have cb: "c = a" by (simp add: c_def)
    show ?thesis unfolding cb
      by (rule SN.IH(1) [OF c(1-5) [unfolded cb] n [unfolded cb] fs [unfolded cb] len c(6) [unfolded cb]])
  qed
  have last: "e \<noteq> SE \<Longrightarrow> l < n - 1"
    using full_sibs_nonempty [OF c(1-3)] c(6) n by (cases "full_sibs (Suc l) k c") auto
  have mixed: "\<not> is_SN c \<Longrightarrow> e \<noteq> SE \<Longrightarrow> l < n - 1 \<and> tree_hash P s \<noteq> 0"
    using last br s0 by simp
  have old: "l < length fs" "vec_get fs l = Some (tree_hash P s)"
    using fs SN.prems(8) by (simp_all add: vec_get_def nth_append)
  have cf: "tree_hash P c < bn256_modulus" "tree_hash P (s_put (Suc l) k v c) < bn256_modulus"
    "tree_hash P s < bn256_modulus"
    using host c(4) sf kv by (simp_all add: tree_hash_in_field in_field_put)
  have ops: "put_ops l k v (SN a b) = put_ops (Suc l) k v c @
      [Del (join (bit k l) c s), Put (join (bit k l) (s_put (Suc l) k v c) s)]"
    "s_put l k v (SN a b) = join (bit k l) (s_put (Suc l) k v c) s" "SN a b = join (bit k l) c s"
    by (simp_all add: c_def s_def join_def)
  have "nm_insert_step P (map (bit k) [0..<256]) n fs (e \<noteq> SE) (l, tree_hash P s)
      (nm_run P (put_ops (Suc l) k v c) st, tree_hash P (s_put (Suc l) k v c), tree_hash P c,
        is_SN c \<or> (e = SE \<and> n \<noteq> 0)) =
    Ok (nm_run P (put_ops l k v (SN a b)) st, tree_hash P (s_put l k v (SN a b)),
      tree_hash P (SN a b), True)"
  proof -
    have lst: "\<not> (e \<noteq> SE \<and> l = n - 1)" using last by auto
    have mx: "(if \<not> (e \<noteq> SE \<and> l = n - 1) \<and> l < n - 1 \<and> tree_hash P s \<noteq> 0 then True
        else is_SN c \<or> (e = SE \<and> n \<noteq> 0)) = True"
      using mixed n by auto
    show ?thesis
      unfolding nm_insert_step.simps Let_def mx ops using lst old cf host
      by (simp add: vec_get_bits [OF l] internal_Ok join_def)
  qed
  then show ?case
    unfolding sibs list.map rev_enumerate_Cons rfold_append IH by simp
qed

section \<open>The update loop\<close>

lemma nm_levels_up_rev: "nm_levels_up n = rev [0..<n]"
  by (rule nth_equalityI) (simp_all add: nm_levels_up_def rev_nth)

lemma rev_levels_Cons: "xs = y # ys \<Longrightarrow> rev [l..<l + length xs] = rev [Suc l..<Suc l + length ys] @ [l]"
  by (simp add: upt_conv_Cons del: upt_Suc)

lemma path_split:
  assumes "canon l (SN a b)"
  obtains c s where "c = (if bit k l then b else a)" "s = (if bit k l then a else b)"
    "canon (Suc l) c" "SN a b = join (bit k l) c s" "s_sibs l k (SN a b) = s # s_sibs (Suc l) k c"
    "s_end l k (SN a b) = s_end (Suc l) k c" "l < 256" "k \<notin> keys s"
    "entries (SN a b) k = entries c k" "branching a b"
proof
  let ?c = "if bit k l then b else a" and ?s = "if bit k l then a else b"
  show "k \<notin> keys ?s" using assms by auto
  then have "entries ?s k = None" by (simp add: keys_entries domIff)
  then show "entries (SN a b) k = entries ?c k"
    by (auto simp: map_add_def split: if_splits option.splits)
qed (use assms in \<open>auto simp: join_def\<close>)

lemma in_field_join: "in_field (join r c s) \<longleftrightarrow> in_field c \<and> in_field s"
  by (auto simp: join_def)

lemma in_field_entry: "in_field t \<Longrightarrow> entries t k = Some v \<Longrightarrow> k < bn256_modulus \<and> v < bn256_modulus"
  by (induction t) (auto simp: map_add_def split: if_splits option.splits)

lemma nm_update_loop:
  assumes host: "poseidon2_host P" and v: "v < bn256_modulus"
    and "canon l t" and "in_field t" and "entries t k = Some v0"
    and "S = pre @ map (tree_hash P) (s_sibs l k t)" and "length pre = l"
  shows "rfold (nm_update_step P (map (bit k) [0..<256]) S) (rev [l..<l + length (s_sibs l k t)])
      (nm_run P [Put (SL k v), Del (SL k v0)] st, tree_hash P (SL k v), tree_hash P (SL k v0)) =
    Ok (nm_run P (upd_ops l k v t) st, tree_hash P (s_put l k v t), tree_hash P t)"
  using assms(3-)
proof (induction t arbitrary: l pre)
  case SE
  then show ?case by simp
next
  case (SL k' v')
  then have "k' = k" "v' = v0" by (auto split: if_splits)
  then show ?case by simp
next
  case (SN a b)
  obtain c s where cs: "c = (if bit k l then b else a)" "s = (if bit k l then a else b)"
    "canon (Suc l) c" "SN a b = join (bit k l) c s" "s_sibs l k (SN a b) = s # s_sibs (Suc l) k c"
    "l < 256" "entries (SN a b) k = entries c k"
    using path_split [OF SN.prems(1), of k] by metis
  have f: "in_field c" "in_field s" using SN.prems(2) unfolding cs(4) in_field_join by simp_all
  have e: "entries c k = Some v0" using SN.prems(3) cs(7) by simp
  have kf: "k < bn256_modulus" using in_field_entry [OF f(1) e] by simp
  have S: "S = (pre @ [tree_hash P s]) @ map (tree_hash P) (s_sibs (Suc l) k c)"
    "length (pre @ [tree_hash P s]) = Suc l"
    using SN.prems(4,5) cs(5) by simp_all
  have IH: "rfold (nm_update_step P (map (bit k) [0..<256]) S)
      (rev [Suc l..<Suc l + length (s_sibs (Suc l) k c)])
      (nm_run P [Put (SL k v), Del (SL k v0)] st, tree_hash P (SL k v), tree_hash P (SL k v0)) =
    Ok (nm_run P (upd_ops (Suc l) k v c) st, tree_hash P (s_put (Suc l) k v c), tree_hash P c)"
  proof (cases "bit k l")
    case True
    then have cb: "c = b" by (simp add: cs(1))
    show ?thesis unfolding cb
      by (rule SN.IH(2) [OF cs(3) [unfolded cb] f(1) [unfolded cb] e [unfolded cb] S [unfolded cb]])
  next
    case False
    then have cb: "c = a" by (simp add: cs(1))
    show ?thesis unfolding cb
      by (rule SN.IH(1) [OF cs(3) [unfolded cb] f(1) [unfolded cb] e [unfolded cb] S [unfolded cb]])
  qed
  have get: "vec_get S l = Some (tree_hash P s)"
    using S SN.prems(5) by (simp add: vec_get_def nth_append)
  have hf: "tree_hash P c < bn256_modulus" "tree_hash P (s_put (Suc l) k v c) < bn256_modulus"
    "tree_hash P s < bn256_modulus"
    using host f v kf by (simp_all add: tree_hash_in_field in_field_put)
  have ops: "upd_ops l k v (SN a b) = upd_ops (Suc l) k v c @
      [Put (join (bit k l) (s_put (Suc l) k v c) s), Del (join (bit k l) c s)]"
    "s_put l k v (SN a b) = join (bit k l) (s_put (Suc l) k v c) s"
    by (simp_all add: cs(1,2) join_def)
  have levels: "rev [l..<l + length (s_sibs l k (SN a b))] =
      rev [Suc l..<Suc l + length (s_sibs (Suc l) k c)] @ [l]"
    using cs(5) by (rule rev_levels_Cons)
  have step: "nm_update_step P (map (bit k) [0..<256]) S l
      (nm_run P (upd_ops (Suc l) k v c) st, tree_hash P (s_put (Suc l) k v c), tree_hash P c) =
    Ok (nm_run P (upd_ops l k v (SN a b)) st, tree_hash P (s_put l k v (SN a b)), tree_hash P (SN a b))"
    unfolding ops cs(4) using hf host
    by (simp add: get vec_get_bits [OF cs(6)] internal_Ok join_def)
  show ?case unfolding levels rfold_append IH rbind.simps rfold_single by (rule step)
qed

section \<open>Recomputing the root from a path\<close>

text \<open>The tree above a subtree, given the siblings on its path.\<close>

primrec climb_tree :: "nat \<Rightarrow> u256 \<Rightarrow> smt list \<Rightarrow> smt \<Rightarrow> smt" where
  "climb_tree l k [] s = s"
| "climb_tree l k (x # xs) s = join (bit k l) (climb_tree (Suc l) k xs s) x"

lemma in_field_climb:
  "in_field s \<Longrightarrow> \<forall>x \<in> set xs. in_field x \<Longrightarrow> in_field (climb_tree l k xs s)"
  by (induction xs arbitrary: l) (auto simp: in_field_join)

lemma climb_end: "climb_tree l k (s_sibs l k t) (s_end l k t) = t"
  by (induction t arbitrary: l) (auto simp: join_def)

lemma sibs_subtrees: "x \<in> set (s_sibs l k t) \<Longrightarrow> subtrees x \<subseteq> subtrees t"
  by (induction l k t rule: s_sibs.induct) (auto split: if_splits)

lemma sibs_length: "canon l t \<Longrightarrow> l \<le> 256 \<Longrightarrow> l + length (s_sibs l k t) \<le> 256"
  by (induction l k t rule: s_sibs.induct) auto

lemma join_eq_iff: "join b c s = join b c' s' \<longleftrightarrow> c = c' \<and> s = s'"
  by (auto simp: join_def)

lemma climb_tree_eq_iff: "climb_tree l k xs s = climb_tree l k xs s' \<longleftrightarrow> s = s'"
  by (induction xs arbitrary: l) (simp_all add: join_eq_iff)

text \<open>Whatever stands at the end of the path, the loop computes the hash of the tree above it.\<close>

lemma nm_climb_loop:
  assumes host: "poseidon2_host P" and "in_field e" and "\<forall>x \<in> set xs. in_field x" and "l + length xs \<le> 256"
    and "S = pre @ map (tree_hash P) xs" and "length pre = l"
  shows "rfold (nm_root_step P (map (bit k) [0..<256]) S) (rev [l..<l + length xs]) (tree_hash P e) =
    Ok (tree_hash P (climb_tree l k xs e))"
  using assms(2-)
proof (induction xs arbitrary: l pre)
  case (Cons x xs)
  let ?c = "climb_tree (Suc l) k xs e"
  have S: "S = (pre @ [tree_hash P x]) @ map (tree_hash P) xs" "length (pre @ [tree_hash P x]) = Suc l"
    using Cons.prems(4,5) by simp_all
  have IH: "rfold (nm_root_step P (map (bit k) [0..<256]) S) (rev [Suc l..<Suc l + length xs]) (tree_hash P e) =
      Ok (tree_hash P ?c)"
    using Cons.prems(1-3) by (intro Cons.IH [OF _ _ _ S]) simp_all
  have get: "vec_get S l = Some (tree_hash P x)"
    using S Cons.prems(5) by (simp add: vec_get_def nth_append)
  have hf: "tree_hash P ?c < bn256_modulus" "tree_hash P x < bn256_modulus"
    using host Cons.prems(1,2) by (simp_all add: tree_hash_in_field in_field_climb)
  have levels: "rev [l..<l + length (x # xs)] = rev [Suc l..<Suc l + length xs] @ [l]"
    by (rule rev_levels_Cons) simp
  have "l < 256" using Cons.prems(3) by simp
  then have step: "nm_root_step P (map (bit k) [0..<256]) S l (tree_hash P ?c) =
      Ok (tree_hash P (climb_tree l k (x # xs) e))"
    using hf host by (simp add: nm_root_step_def get vec_get_bits internal_Ok join_def)
  show ?case unfolding levels rfold_append IH rbind.simps rfold_single by (rule step)
qed simp

lemma nm_path_loop:
  assumes "poseidon2_host P" and t: "canon 0 t" "in_field t" and "in_field e"
  shows "rfold (nm_root_step P (map (bit k) [0..<256]) (map (tree_hash P) (s_sibs 0 k t)))
      (rev [0..<length (s_sibs 0 k t)]) (tree_hash P e) =
    Ok (tree_hash P (climb_tree 0 k (s_sibs 0 k t) e))"
proof -
  have "\<forall>x \<in> set (s_sibs 0 k t). in_field x"
    using sibs_subtrees [of _ 0 k t] subtrees_refl in_field_subtree [OF t(2)] by blast
  then show ?thesis
    using nm_climb_loop [OF assms(1,4), of "s_sibs 0 k t" 0 "map (tree_hash P) (s_sibs 0 k t)" "[]" k]
      sibs_length [OF t(1), of k] by simp
qed

lemma nm_root_loop:
  assumes "poseidon2_host P" and "canon 0 t" "in_field t"
  shows "rfold (nm_root_step P (map (bit k) [0..<256]) (map (tree_hash P) (s_sibs 0 k t)))
      (rev [0..<length (s_sibs 0 k t)]) (tree_hash P (s_end 0 k t)) = Ok (tree_hash P t)"
  using nm_path_loop [OF assms, of "s_end 0 k t" k] in_field_subtree [OF assms(3) s_end_subtree]
  by (simp add: climb_end)

section \<open>The deletion loop\<close>

definition s_promo :: "nat \<Rightarrow> u256 \<Rightarrow> smt \<Rightarrow> bool" where
  "s_promo l k t \<longleftrightarrow> s_sibs l k t \<noteq> [] \<and> \<not> is_SN (last (s_sibs l k t))"

definition s_used :: "nat \<Rightarrow> u256 \<Rightarrow> smt \<Rightarrow> smt list" where
  "s_used l k t = (if s_promo l k t then butlast (s_sibs l k t) else s_sibs l k t)"

definition s_start :: "nat \<Rightarrow> u256 \<Rightarrow> smt \<Rightarrow> smt" where
  "s_start l k t = (if s_promo l k t then last (s_sibs l k t) else SE)"

lemma s_sibs_nonempty: "is_SN t \<Longrightarrow> s_sibs l k t \<noteq> []"
  by (cases t) auto

lemma s_sibs_last:
  assumes "canon l t" and "k \<in> keys t" and "is_SN t"
  shows "last (s_sibs l k t) \<noteq> SE \<and> last (s_sibs l k t) \<in> subtrees t \<and> k \<notin> keys (last (s_sibs l k t))"
  using assms
proof (induction t arbitrary: l)
  case (SN a b)
  obtain c s where cs: "c = (if bit k l then b else a)" "s = (if bit k l then a else b)"
    "canon (Suc l) c" "SN a b = join (bit k l) c s" "s_sibs l k (SN a b) = s # s_sibs (Suc l) k c"
    "k \<notin> keys s" "branching a b"
    using path_split [OF SN.prems(1), of k] by metis
  have kc: "k \<in> keys c" using SN.prems(2) cs(6) unfolding cs(4) by simp
  have sub: "subtrees (SN a b) = insert (SN a b) (subtrees c \<union> subtrees s)" by (auto simp: cs(1,2))
  show ?case
  proof (cases "is_SN c")
    case True
    with SN.IH cs(1,3) kc have "last (s_sibs (Suc l) k c) \<noteq> SE \<and> last (s_sibs (Suc l) k c) \<in> subtrees c \<and>
        k \<notin> keys (last (s_sibs (Suc l) k c))" by (cases "bit k l") simp_all
    with True sub show ?thesis unfolding cs(5) by (simp add: s_sibs_nonempty)
  next
    case False
    then have "s_sibs (Suc l) k c = []" "s \<noteq> SE"
      using cs(1,2,7) by (cases c; auto simp: branching_def)+
    with sub cs(6) show ?thesis unfolding cs(5) by simp
  qed
qed simp_all

lemma del_run_in_field:
  "in_field t \<Longrightarrow> del_run l k t = (ops, old, new, mixed) \<Longrightarrow> in_field old \<and> in_field new"
proof (induction t arbitrary: l ops old new mixed)
  case (SN a b)
  obtain ops' old' new' mixed' where run:
    "del_run (Suc l) k (if bit k l then b else a) = (ops', old', new', mixed')"
    by (metis prod_cases4)
  have "in_field old' \<and> in_field new'"
  proof (cases "bit k l")
    case True
    from SN.prems(1) run True SN.IH(2) [of "Suc l" ops' old' new' mixed'] show ?thesis by simp
  next
    case False
    from SN.prems(1) run False SN.IH(1) [of "Suc l" ops' old' new' mixed'] show ?thesis by simp
  qed
  with SN.prems show ?case
    unfolding del_run_node [OF run] by (auto simp: Let_def in_field_join split: if_splits)
qed auto

lemma nm_delete_loop:
  assumes host: "poseidon2_host P"
    and "canon l t" and "in_field t" and "entries t k = Some v0" and "no_collision P (subtrees t)"
    and "S = pre @ map (tree_hash P) (s_used l k t)" and "length pre = l"
    and "del_run l k t = (ops, old, new, mixed)"
  shows "rfold (nm_delete_step P (map (bit k) [0..<256]) S) (rev [l..<l + length (s_used l k t)])
      (nm_run P [Del (SL k v0)] st, tree_hash P (SL k v0), tree_hash P (s_start l k t), False) =
    Ok (nm_run P ops st, tree_hash P old, tree_hash P new, mixed)"
  using assms(2-)
proof (induction t arbitrary: l pre ops old new mixed)
  case SE
  then show ?case by simp
next
  case (SL k' v')
  then have "k' = k" "v' = v0" by (auto split: if_splits)
  with SL show ?case by (auto simp: s_used_def s_promo_def s_start_def)
next
  case (SN a b)
  obtain c s where cs: "c = (if bit k l then b else a)" "s = (if bit k l then a else b)"
    "canon (Suc l) c" "SN a b = join (bit k l) c s" "s_sibs l k (SN a b) = s # s_sibs (Suc l) k c"
    "l < 256" "entries (SN a b) k = entries c k" "branching a b"
    using path_split [OF SN.prems(1), of k] by metis
  have f: "in_field c" "in_field s" using SN.prems(2) unfolding cs(4) in_field_join by simp_all
  have e: "entries c k = Some v0" using SN.prems(3) cs(7) by simp
  have free: "no_collision P (subtrees c)"
    using SN.prems(4) by (rule collision_free_subset) (auto simp: cs(1))
  have s0: "tree_hash P s = 0 \<longleftrightarrow> s = SE"
    by (rule collision_free_nonzero [OF SN.prems(4)]) (simp add: cs(2))
  obtain ops' old' new' mixed' where run: "del_run (Suc l) k c = (ops', old', new', mixed')"
    by (metis prod_cases4)
  note eq = del_run_node [OF run [unfolded cs(1)], folded cs(1,2)]
  show ?case
  proof (cases "\<not> is_SN c \<and> \<not> is_SN s")
    case True
    then have "c = SL k v0" using e by (cases c) (auto split: if_splits)
    with True SN.prems(7) run show ?thesis
      using cs(5) unfolding eq by (auto simp: s_used_def s_promo_def s_start_def)
  next
    case False
    have promo: "s_promo l k (SN a b) = s_promo (Suc l) k c"
      and used: "s_used l k (SN a b) = s # s_used (Suc l) k c"
      and start: "s_start l k (SN a b) = s_start (Suc l) k c"
    proof -
      have "s_sibs (Suc l) k c = [] \<Longrightarrow> is_SN s" using False s_sibs_nonempty by blast
      then show "s_promo l k (SN a b) = s_promo (Suc l) k c" unfolding s_promo_def cs(5) by auto
      then show "s_used l k (SN a b) = s # s_used (Suc l) k c"
        and "s_start l k (SN a b) = s_start (Suc l) k c"
        unfolding s_used_def s_start_def cs(5) by (auto simp: s_promo_def)
    qed
    have S: "S = (pre @ [tree_hash P s]) @ map (tree_hash P) (s_used (Suc l) k c)"
      "length (pre @ [tree_hash P s]) = Suc l"
      using SN.prems(5,6) used by simp_all
    have IH: "rfold (nm_delete_step P (map (bit k) [0..<256]) S)
        (rev [Suc l..<Suc l + length (s_used (Suc l) k c)])
        (nm_run P [Del (SL k v0)] st, tree_hash P (SL k v0), tree_hash P (s_start (Suc l) k c), False) =
      Ok (nm_run P ops' st, tree_hash P old', tree_hash P new', mixed')"
    proof (cases "bit k l")
      case True
      then have cb: "c = b" by (simp add: cs(1))
      show ?thesis unfolding cb
        by (rule SN.IH(2) [OF cs(3) [unfolded cb] f(1) [unfolded cb] e [unfolded cb]
            free [unfolded cb] S [unfolded cb] run [unfolded cb]])
    next
      case False
      then have cb: "c = a" by (simp add: cs(1))
      show ?thesis unfolding cb
        by (rule SN.IH(1) [OF cs(3) [unfolded cb] f(1) [unfolded cb] e [unfolded cb]
            free [unfolded cb] S [unfolded cb] run [unfolded cb]])
    qed
    have get: "vec_get S l = Some (tree_hash P s)"
      using S SN.prems(6) by (simp add: vec_get_def nth_append)
    have hf: "tree_hash P old' < bn256_modulus" "tree_hash P new' < bn256_modulus"
      "tree_hash P s < bn256_modulus"
      using host f del_run_in_field [OF f(1) run] by (simp_all add: tree_hash_in_field)
    have step: "nm_delete_step P (map (bit k) [0..<256]) S l
        (nm_run P ops' st, tree_hash P old', tree_hash P new', mixed') =
      Ok (nm_run P ops st, tree_hash P old, tree_hash P new, mixed)"
      using hf host False SN.prems(7) s0 unfolding eq
      by (auto simp: get vec_get_bits [OF cs(6)] internal_Ok join_def Let_def split: if_splits)
    show ?thesis
      unfolding used start rev_levels_Cons [OF refl] rfold_append IH rbind.simps rfold_single
      by (rule step)
  qed
qed

end
