(* ===== verification/Asp_Non_Membership_Props.thy ===== *)
theory Asp_Non_Membership_Props
  imports Asp_Non_Membership_Correct
begin

text \<open>
  The entry points of the non-membership contract against the sparse tree, outcome by outcome.
  \<open>nm_repr P st t\<close>: the storage \<open>st\<close> holds the canonical tree \<open>t\<close> of reduced keys and values
  and its root.  Hash collisions cannot be excluded for a concrete hash function, so each theorem
  asks for \<open>no_collision\<close> on the finitely many trees the call touches.
\<close>

section \<open>Representation\<close>

definition nm_repr :: "permutation \<Rightarrow> asp_non_membership \<Rightarrow> smt \<Rightarrow> bool" where
  "nm_repr P st t \<longleftrightarrow> canon 0 t \<and> in_field t \<and> nm_holds P t st \<and>
     nm_root st = Some (tree_hash P t) \<and> nm_admin st \<noteq> None"

lemma nm_node_frame [simp]:
  "nm_admin (nm_put_node h d st) = nm_admin st" "nm_admin (nm_del_node h st) = nm_admin st"
  "nm_root (nm_put_node h d st) = nm_root st" "nm_root (nm_del_node h st) = nm_root st"
  "nm_events (nm_put_node h d st) = nm_events st" "nm_events (nm_del_node h st) = nm_events st"
  by (simp_all add: nm_put_node_def nm_del_node_def)

lemma nm_op_frame:
  "nm_admin (nm_db.apply_op hl hn op st) = nm_admin st"
  "nm_root (nm_db.apply_op hl hn op st) = nm_root st"
  "nm_events (nm_db.apply_op hl hn op st) = nm_events st"
  by (cases op; simp)+

lemma nm_run_frame:
  "nm_admin (nm_run P ops st) = nm_admin st \<and> nm_root (nm_run P ops st) = nm_root st \<and>
    nm_events (nm_run P ops st) = nm_events st"
  by (induction ops arbitrary: st) (simp_all add: nm_op_frame)

lemma nm_holds_cong: "nm_nodes st' = nm_nodes st \<Longrightarrow> nm_holds P t st' = nm_holds P t st"
  by (simp add: nm_db.holds_def)

lemma nm_find_tree:
  assumes "nm_repr P st t" and "no_collision P (subtrees t)"
  shows "nm_find_key_internal (nm_nodes st) k (map (bit k) [0..<256]) (nm_root_or_zero st) 0 =
    Ok (s_report P k (map (tree_hash P) (s_sibs 0 k t)) (s_end 0 k t))"
  using assms nm_find_internal_tree [of 0 t P st k] by (simp add: nm_repr_def nm_root_or_zero_def)

lemma end_present:
  assumes "canon l t" and "entries t k = Some v"
  shows "s_end l k t = SL k v"
  using s_end_entries [OF assms(1), of k] assms(2) by (auto split: smt.splits if_splits)

lemma end_absent:
  assumes "canon l t" and "entries t k = None"
  shows "s_end l k t = SE \<or> (\<exists>k' v'. s_end l k t = SL k' v' \<and> k' \<noteq> k)"
  using s_end_entries [OF assms(1), of k] s_end_not_SN [of l k t] assms(2)
  by (cases "s_end l k t") (auto split: if_splits)

definition nm_authorized :: "env \<Rightarrow> asp_non_membership \<Rightarrow> bool" where
  "nm_authorized env st \<longleftrightarrow> (\<exists>a. nm_admin st = Some a \<and> authorized env a)"

lemma nm_repr_new:
  assumes "canon 0 t" "in_field t" "nm_holds P t (nm_run P ops st)" "nm_admin st \<noteq> None"
  shows "nm_repr P (nm_emit ev (nm_run P ops st\<lparr>nm_root := Some (tree_hash P t)\<rparr>)) t"
  using assms by (simp add: nm_repr_def nm_emit_def nm_run_frame nm_db.holds_def)

section \<open>Insertion\<close>

lemma nm_siblings_full:
  assumes "canon l t" and "\<forall>k' \<in> keys t. agree l k k'" and "k \<notin> keys t"
  shows "full_sibs l k t = s_sibs l k t @
    (case s_end l k t of SL k' v' \<Rightarrow> split_sibs (l + length (s_sibs l k t)) k k' v' | _ \<Rightarrow> [])"
  using assms by (induction l k t rule: full_sibs.induct) (auto simp: agree_Suc split: smt.splits)

lemma end_agrees:
  assumes "canon l t" and "\<forall>k' \<in> keys t. agree l k k'" and "s_end l k t = SL k' v'"
  shows "agree (l + length (s_sibs l k t)) k k'"
  using assms by (induction l k t rule: full_sibs.induct) (auto simp: agree_Suc split: if_splits)

lemma nm_insert_refines:
  assumes host: "poseidon2_host P" and repr: "nm_repr P st t"
    and free: "no_collision P (subtrees t \<union> subtrees (s_put 0 k v t))"
    and auth: "nm_authorized env st" and new: "entries t k = None"
    and k: "k < bn256_modulus" and v: "v < bn256_modulus"
  shows "nm_insert_leaf P env k v st =
    Ok (nm_emit (LeafInserted k v (tree_hash P (s_put 0 k v t)))
      (nm_run P (put_ops 0 k v t) st\<lparr>nm_root := Some (tree_hash P (s_put 0 k v t))\<rparr>))"
proof -
  have t: "canon 0 t" "in_field t" using repr by (simp_all add: nm_repr_def)
  have nk: "k \<notin> keys t" using new by (simp add: keys_entries domIff)
  have ag: "\<forall>k' \<in> keys t. agree 0 k k'" by simp
  have free_t: "no_collision P (subtrees t)" using free by (rule collision_free_subset) simp
  note loop = nm_rebuild [OF host k v t(1) ag nk t(2) free_t refl, of "map (tree_hash P) (s_sibs 0 k t)" "[]" "s_end 0 k t" st]
  have fin: "rbind (nm_hash_leaf P k v) (\<lambda>rt.
      let st1 = nm_put_node rt [1, k, v] st in
      rbind (rfold (nm_insert_step P (map (bit k) [0..<256]) (length sibs) (map (tree_hash P) (s_sibs 0 k t)) added)
          (rev (List.enumerate 0 sibs)) (st1, rt, ro, mixed))
        (\<lambda>(st2, rt', _, _). Ok (nm_emit (LeafInserted k v rt') (st2\<lparr>nm_root := Some rt'\<rparr>)))) =
    Ok (nm_emit (LeafInserted k v (tree_hash P (s_put 0 k v t)))
      (nm_run P (put_ops 0 k v t) st\<lparr>nm_root := Some (tree_hash P (s_put 0 k v t))\<rparr>))"
    if "sibs = map (tree_hash P) (full_sibs 0 k t)" "added = (s_end 0 k t \<noteq> SE)"
      "ro = tree_hash P (s_end 0 k t)" "mixed = (s_end 0 k t = SE \<and> length (full_sibs 0 k t) \<noteq> 0)"
    for sibs added ro mixed
    using loop hash_leaf_tree [OF host k v] that by (simp add: Let_def)
  from auth obtain a where a: "nm_admin st = Some a" "authorized env a"
    by (auto simp: nm_authorized_def)
  note found = nm_find_tree [OF repr free_t, of k]
  from end_absent [OF t(1) new] show ?thesis
  proof
    assume e: "s_end 0 k t = SE"
    then have sibs: "full_sibs 0 k t = s_sibs 0 k t"
      using nm_siblings_full [OF t(1) ag nk] by simp
    show ?thesis
      using a found fin [of "map (tree_hash P) (s_sibs 0 k t)" False 0 "s_sibs 0 k t \<noteq> []"] e sibs
      unfolding nm_insert_leaf_def nm_split_bits_eq
      by (simp add: s_report_def)
  next
    assume "\<exists>k' v'. s_end 0 k t = SL k' v' \<and> k' \<noteq> k"
    then obtain k' v' where e: "s_end 0 k t = SL k' v'" "k' \<noteq> k" by blast
    let ?S = "map (tree_hash P) (s_sibs 0 k t)"
    have sibs: "full_sibs 0 k t = s_sibs 0 k t @ split_sibs (length (s_sibs 0 k t)) k k' v'"
      using nm_siblings_full [OF t(1) ag nk] e by simp
    have "agree (length (s_sibs 0 k t)) k k'" using end_agrees [OF t(1) ag e(1)] by simp
    from nm_extend_split [OF not_sym [OF e(2)] this, of ?S P v']
    have ext: "nm_extend (map (bit k') [0..<256]) (map (bit k) [0..<256]) (length ?S) ?S @
        [leaf_hash P k' v'] = map (tree_hash P) (full_sibs 0 k t)"
      using sibs by simp
    have "SL k' v' \<in> subtrees t" using s_end_subtree [of 0 k t] e by simp
    then have "k' < bn256_modulus" "v' < bn256_modulus" using in_field_subtree [OF t(2)] by fastforce+
    then have leaf: "nm_hash_leaf P k' v' = Ok (leaf_hash P k' v')" using hash_leaf_tree [OF host] by simp
    show ?thesis
      using a found fin [OF ext, of True "leaf_hash P k' v'" False] e leaf
      unfolding nm_insert_leaf_def nm_split_bits_eq
      by (simp add: s_report_def Let_def nm_split_bits_eq)
  qed
qed

lemma agree_start: "\<forall>k' \<in> keys t. agree 0 k k'"
  by simp

lemma nm_insert_holds:
  assumes "canon 0 t" and "nm_holds P t st" and "entries t k = None"
    and free: "no_collision P (subtrees t \<union> subtrees (s_put 0 k v t))"
  shows "nm_holds P (s_put 0 k v t) (nm_run P (put_ops 0 k v t) st)"
proof -
  have nk: "k \<notin> keys t" using assms(3) by (simp add: keys_entries domIff)
  note pr = put_ops_props [OF assms(1) agree_start nk, of v]
  have disj: "puts (put_ops 0 k v t) \<inter> dels (put_ops 0 k v t) = {}"
    using pr nk subtrees_keys by blast
  have "subtrees t \<union> subtrees (s_put 0 k v t) \<union> dels (put_ops 0 k v t) =
      subtrees t \<union> subtrees (s_put 0 k v t)" using pr by blast
  with free show ?thesis
    using pr disj by (intro nm_db.holds_run_ops [OF assms(2)]) auto
qed

lemma nm_insert_exact:
  assumes "canon 0 t" and "nm_holds_only P t st" and "entries t k = None"
    and free: "no_collision P (subtrees t \<union> subtrees (s_put 0 k v t))"
  shows "nm_holds_only P (s_put 0 k v t) (nm_run P (put_ops 0 k v t) st)"
proof -
  have nk: "k \<notin> keys t" using assms(3) by (simp add: keys_entries domIff)
  note pr = put_ops_props [OF assms(1) agree_start nk, of v]
  have disj: "puts (put_ops 0 k v t) \<inter> dels (put_ops 0 k v t) = {}"
    using pr nk subtrees_keys by blast
  have "subtrees t \<union> subtrees (s_put 0 k v t) \<union> dels (put_ops 0 k v t) =
      subtrees t \<union> subtrees (s_put 0 k v t)" using pr by blast
  with free show ?thesis
    using pr disj by (intro nm_db.holds_only_run_ops [OF assms(2)]) auto
qed

lemma nm_insert_unauthorized:
  assumes "nm_repr P st t" and "\<not> nm_authorized env st"
  shows "nm_insert_leaf P env k v st = Panic"
  using assms by (auto simp: nm_insert_leaf_def nm_repr_def nm_authorized_def)

lemma nm_insert_present:
  assumes "nm_repr P st t" and "no_collision P (subtrees t)" and "nm_authorized env st"
    and "entries t k = Some w"
  shows "nm_insert_leaf P env k v st = Err NM_KeyAlreadyExists"
proof -
  from assms(1) have "canon 0 t" by (simp add: nm_repr_def)
  with assms show ?thesis
    using nm_find_tree [OF assms(1,2), of k] end_present [of 0 t k w]
    by (auto simp: nm_insert_leaf_def nm_authorized_def nm_split_bits_eq s_report_def)
qed

lemma hash_leaf_unreduced: "bn256_modulus \<le> k \<or> bn256_modulus \<le> v \<Longrightarrow> nm_hash_leaf P k v = Panic"
  by (auto simp: nm_hash_leaf_def poseidon2_hash2_def)

lemma hash_leaf_not_Err: "nm_hash_leaf P k v \<noteq> Err e"
  by (auto simp: nm_hash_leaf_def poseidon2_hash2_def Let_def rbind_eq_Err_iff)

lemma nm_insert_unreduced:
  assumes "nm_repr P st t" and "no_collision P (subtrees t)" and "nm_authorized env st"
    and "entries t k = None" and "bn256_modulus \<le> k \<or> bn256_modulus \<le> v"
  shows "nm_insert_leaf P env k v st = Panic"
proof -
  from assms(1) have c: "canon 0 t" by (simp add: nm_repr_def)
  note r = nm_find_tree [OF assms(1,2), of k] hash_leaf_unreduced [OF assms(5), of P]
  from end_absent [OF c assms(4)] show ?thesis
  proof
    assume "s_end 0 k t = SE"
    with r assms(3) show ?thesis
      by (auto simp: nm_insert_leaf_def nm_authorized_def nm_split_bits_eq s_report_def)
  next
    assume "\<exists>k' v'. s_end 0 k t = SL k' v' \<and> k' \<noteq> k"
    then obtain k' v' where "s_end 0 k t = SL k' v'" "k' \<noteq> k" by blast
    with r assms(3) hash_leaf_not_Err [of P k' v'] show ?thesis
      by (cases "nm_hash_leaf P k' v'")
        (auto simp: nm_insert_leaf_def nm_authorized_def nm_split_bits_eq s_report_def Let_def)
  qed
qed

section \<open>Update\<close>

lemma nm_update_runs:
  assumes host: "poseidon2_host P" and repr: "nm_repr P st t"
    and free: "no_collision P (subtrees t)"
    and auth: "nm_authorized env st" and old: "entries t k = Some v0" and v: "v < bn256_modulus"
  shows "nm_update_leaf P env k v st =
    Ok (nm_emit (LeafUpdated k v0 v (tree_hash P (s_put 0 k v t)))
      (nm_run P (upd_ops 0 k v t) st\<lparr>nm_root := Some (tree_hash P (s_put 0 k v t))\<rparr>))"
proof -
  have t: "canon 0 t" "in_field t" using repr by (simp_all add: nm_repr_def)
  from auth obtain a where a: "nm_admin st = Some a" "authorized env a"
    by (auto simp: nm_authorized_def)
  have f: "k < bn256_modulus" "v0 < bn256_modulus" using in_field_entry [OF t(2) old] by auto
  note found = nm_find_tree [OF repr free, of k]
  note loop = nm_update_loop [OF host v t old, of "map (tree_hash P) (s_sibs 0 k t)" "[]" st]
  from loop have "rfold (nm_update_step P (map (bit k) [0..<256]) (map (tree_hash P) (s_sibs 0 k t)))
      (nm_levels_up (length (s_sibs 0 k t)))
      (nm_del_node (leaf_hash P k v0) (nm_put_node (leaf_hash P k v) [1, k, v] st), leaf_hash P k v, leaf_hash P k v0) =
    Ok (nm_run P (upd_ops 0 k v t) st, tree_hash P (s_put 0 k v t), tree_hash P t)"
    by (simp add: nm_levels_up_rev)
  with a found end_present [OF t(1) old] hash_leaf_tree [OF host f(1)] f v show ?thesis
    by (simp add: nm_update_leaf_def nm_split_bits_eq s_report_def Let_def)
qed

lemma nm_update_holds:
  assumes "canon 0 t" and "nm_holds P t st" and "entries t k = Some v0" and "v \<noteq> v0"
    and free: "no_collision P (subtrees t \<union> subtrees (s_put 0 k v t))"
  shows "nm_holds P (s_put 0 k v t) (nm_run P (upd_ops 0 k v t) st)"
proof -
  note pr = upd_ops_props [OF assms(1) agree_start assms(3), of v]
  have disj: "puts (upd_ops 0 k v t) \<inter> dels (upd_ops 0 k v t) = {}"
    using pr assms(4) by fastforce
  have "subtrees t \<union> subtrees (s_put 0 k v t) \<union> dels (upd_ops 0 k v t) =
      subtrees t \<union> subtrees (s_put 0 k v t)" using pr by blast
  with free show ?thesis
    using pr disj by (intro nm_db.holds_run_ops [OF assms(2)]) auto
qed

lemma s_put_same:
  assumes "canon l t" and "\<forall>k' \<in> keys t. agree l k k'" and "entries t k = Some v"
  shows "s_put l k v t = t"
proof (rule canon_unique)
  from s_put_props [OF assms(1,2), of v] assms(3)
  show "canon l (s_put l k v t)" "entries (s_put l k v t) = entries t" by auto
qed (rule assms(1))

lemma upd_ops_last: "t \<noteq> SE \<Longrightarrow> \<exists>ops. upd_ops l k v t = ops @ [Del t]"
  by (cases t) auto

section \<open>Deletion\<close>

lemma nm_promote_tree:
  assumes "canon 0 t" and "nm_holds P t st" and "no_collision P (subtrees t)" and "entries t k = Some v0"
  shows "nm_promote (nm_del_node (leaf_hash P k v0) st) (map (tree_hash P) (s_sibs 0 k t)) =
    Ok (tree_hash P (s_start 0 k t), map (tree_hash P) (s_used 0 k t))"
proof (cases "s_sibs 0 k t = []")
  case True
  then show ?thesis by (simp add: nm_promote_def s_start_def s_used_def s_promo_def)
next
  case False
  let ?s = "last (s_sibs 0 k t)"
  have key: "k \<in> keys t" using assms(4) by (simp add: keys_entries domIff)
  have sn: "is_SN t" using False by (cases t) auto
  note s = s_sibs_last [OF assms(1) key sn]
  have "SL k v0 \<in> subtrees t" using s_end_subtree [of 0 k t] end_present [OF assms(1,4)] by simp
  have "?s \<noteq> SL k v0" using s by auto
  then have "tree_hash P ?s \<noteq> leaf_hash P k v0"
    using collision_freeD [OF assms(3), of ?s "SL k v0"] s \<open>SL k v0 \<in> subtrees t\<close> by auto
  moreover have "nm_nodes st (tree_hash P ?s) = Some (smt_data (leaf_hash P) (node_hash P) ?s)"
    using assms(2) s by (simp add: nm_db.holds_def)
  ultimately have "nm_nodes (nm_del_node (leaf_hash P k v0) st) (tree_hash P ?s) =
      Some (smt_data (leaf_hash P) (node_hash P) ?s)"
    by (simp add: nm_db.get_del)
  with False s show ?thesis
    by (cases ?s) (simp_all add: nm_promote_def s_start_def s_used_def s_promo_def last_map map_butlast
        flip: map_butlast)
qed

lemma nm_delete_runs:
  assumes host: "poseidon2_host P" and repr: "nm_repr P st t"
    and free: "no_collision P (subtrees t)"
    and auth: "nm_authorized env st" and old: "entries t k = Some v0"
    and run: "del_run 0 k t = (ops, o', new, mixed)"
  shows "nm_delete_leaf P env k st =
    Ok (nm_emit (LeafDeleted k (tree_hash P new)) (nm_run P ops st\<lparr>nm_root := Some (tree_hash P new)\<rparr>))"
proof -
  have t: "canon 0 t" "in_field t" "nm_holds P t st" "nm_root st = Some (tree_hash P t)"
    using repr by (simp_all add: nm_repr_def)
  from auth obtain a where a: "nm_admin st = Some a" "authorized env a"
    by (auto simp: nm_authorized_def)
  have f: "k < bn256_modulus" "v0 < bn256_modulus" using in_field_entry [OF t(2) old] by auto
  have found: "nm_find_key_internal (nm_nodes st) k (map (bit k) [0..<256]) (tree_hash P t) 0 =
    Ok (s_report P k (map (tree_hash P) (s_sibs 0 k t)) (s_end 0 k t))"
    using nm_find_tree [OF repr free, of k] t(4) by (simp add: nm_root_or_zero_def)
  from nm_delete_loop [OF host t(1,2) old free, of "map (tree_hash P) (s_used 0 k t)" "[]" ops o' new mixed st] run
  have "rfold (nm_delete_step P (map (bit k) [0..<256]) (map (tree_hash P) (s_used 0 k t)))
      (nm_levels_up (length (s_used 0 k t)))
      (nm_del_node (leaf_hash P k v0) st, leaf_hash P k v0, tree_hash P (s_start 0 k t), False) =
    Ok (nm_run P ops st, tree_hash P o', tree_hash P new, mixed)"
    by (simp add: nm_levels_up_rev)
  with a found end_present [OF t(1) old] hash_leaf_tree [OF host f] t(4)
    nm_promote_tree [OF t(1,3) free old] show ?thesis
    by (simp add: nm_delete_leaf_def nm_split_bits_eq s_report_def Let_def)
qed

lemma nm_delete_holds:
  assumes "canon 0 t" and "nm_holds P t st" and "entries t k = Some v0"
    and run: "del_run 0 k t = (ops, o', new, mixed)"
    and free: "no_collision P (subtrees t \<union> subtrees new \<union> dels ops)"
  shows "nm_holds P new (nm_run P ops st)"
proof -
  have key: "k \<in> keys t" using assms(3) by (simp add: keys_entries domIff)
  from del_run_props [OF assms(1) key run] free show ?thesis
    by (intro nm_db.holds_run_ops [OF assms(2)]) auto
qed

lemma nm_missing_key:
  assumes "nm_repr P st t" and "no_collision P (subtrees t)" and "nm_authorized env st"
    and "entries t k = None"
  shows "nm_update_leaf P env k v st = Err NM_KeyNotFound" "nm_delete_leaf P env k st = Err NM_KeyNotFound"
proof -
  from assms(1) have c: "canon 0 t" and r: "nm_root st = Some (tree_hash P t)"
    by (simp_all add: nm_repr_def)
  have nf: "\<not> fr_found (s_report P k sibs (s_end 0 k t))" for sibs
    using end_absent [OF c assms(4)] by (auto simp: s_report_def)
  show "nm_update_leaf P env k v st = Err NM_KeyNotFound" "nm_delete_leaf P env k st = Err NM_KeyNotFound"
    using nm_find_tree [OF assms(1,2), of k] assms(3) r nf
    by (auto simp: nm_update_leaf_def nm_delete_leaf_def nm_authorized_def nm_split_bits_eq
        nm_root_or_zero_def)
qed

section \<open>Non-membership proofs\<close>

lemma nm_check_siblings_loop:
  assumes "length expected = l + length xs"
  shows "rfold (nm_check_siblings expected) (List.enumerate l xs) () =
    (if drop l expected = xs then Ok () else Err NM_InvalidProof)"
  using assms
proof (induction xs arbitrary: l)
  case (Cons x xs)
  then have l: "l < length expected" by simp
  then have "drop l expected = expected ! l # drop (Suc l) expected" by (simp add: Cons_nth_drop_Suc)
  with Cons l show ?case by (cases "x = expected ! l") auto
qed simp

definition honest_proof :: "permutation \<Rightarrow> u256 \<Rightarrow> smt \<Rightarrow> u256 list \<Rightarrow> u256 \<Rightarrow> u256 \<Rightarrow> bool" where
  "honest_proof P k t sibs nfk nfv \<longleftrightarrow>
     sibs = map (tree_hash P) (s_sibs 0 k t) \<and>
     (case s_end 0 k t of SL k' v' \<Rightarrow> nfk = k' \<and> nfv = v' | _ \<Rightarrow> nfk = k \<and> nfv = 0)"

lemma nm_verify_present:
  assumes "nm_repr P st t" and "no_collision P (subtrees t)" and "entries t k = Some v"
  shows "nm_verify_non_membership P k sibs nfk nfv st = Ok False"
proof -
  from assms(1) have "canon 0 t" by (simp add: nm_repr_def)
  with assms show ?thesis
    using nm_find_tree [OF assms(1,2), of k] end_present [of 0 t k v]
    by (simp add: nm_verify_non_membership_def nm_split_bits_eq s_report_def)
qed

lemma nm_verify_dishonest:
  assumes "nm_repr P st t" and "no_collision P (subtrees t)" and "entries t k = None"
    and "\<not> honest_proof P k t sibs nfk nfv"
  shows "nm_verify_non_membership P k sibs nfk nfv st = Err NM_InvalidProof"
proof -
  from assms(1) have c: "canon 0 t" by (simp add: nm_repr_def)
  from end_absent [OF c assms(3)] nm_find_tree [OF assms(1,2), of k] assms(4) show ?thesis
    using nm_check_siblings_loop [of "map (tree_hash P) (s_sibs 0 k t)" 0 sibs]
    by (auto simp: nm_verify_non_membership_def nm_split_bits_eq s_report_def honest_proof_def)
qed

lemma nm_verify_honest:
  assumes host: "poseidon2_host P" and repr: "nm_repr P st t" and free: "no_collision P (subtrees t)"
    and new: "entries t k = None" and hon: "honest_proof P k t sibs nfk nfv"
    and nz: "s_end 0 k t = SE \<or> nfv \<noteq> 0"
  shows "nm_verify_non_membership P k sibs nfk nfv st = Ok True"
proof -
  have t: "canon 0 t" "in_field t" "nm_root st = Some (tree_hash P t)"
    using repr by (simp_all add: nm_repr_def)
  have sibs: "sibs = map (tree_hash P) (s_sibs 0 k t)" using hon by (simp add: honest_proof_def)
  have loop: "rfold (nm_root_step P (map (bit k) [0..<256]) sibs) (nm_levels_up (length sibs))
      (tree_hash P (s_end 0 k t)) = Ok (tree_hash P t)"
    using nm_root_loop [OF host t(1,2), of k] sibs by (simp add: nm_levels_up_rev)
  have chk: "rfold (nm_check_siblings sibs) (List.enumerate 0 sibs) () = Ok ()"
    using nm_check_siblings_loop [of sibs 0 sibs] by simp
  note found = nm_find_tree [OF repr free, of k]
  from end_absent [OF t(1) new] show ?thesis
  proof
    assume e: "s_end 0 k t = SE"
    with hon loop chk found t(3) show ?thesis
      by (simp add: nm_verify_non_membership_def nm_split_bits_eq s_report_def honest_proof_def
          nm_root_or_zero_def flip: sibs)
  next
    assume "\<exists>k' v'. s_end 0 k t = SL k' v' \<and> k' \<noteq> k"
    then obtain k' v' where e: "s_end 0 k t = SL k' v'" "k' \<noteq> k" by blast
    have "SL k' v' \<in> subtrees t" using s_end_subtree [of 0 k t] e by simp
    then have "nm_hash_leaf P k' v' = Ok (leaf_hash P k' v')"
      using in_field_subtree [OF t(2)] hash_leaf_tree [OF host] by fastforce
    with e hon loop chk found t(3) nz show ?thesis
      by (simp add: nm_verify_non_membership_def nm_split_bits_eq s_report_def honest_proof_def
          nm_root_or_zero_def flip: sibs)
  qed
qed

text \<open>A leaf that stores 0 is taken for no leaf: the root is recomputed from the empty hash, so what the
  answer compares with the root is the hash of the tree without that leaf.\<close>

lemma nm_verify_zero_leaf:
  assumes host: "poseidon2_host P" and repr: "nm_repr P st t" and free: "no_collision P (subtrees t)"
    and new: "entries t k = None" and hon: "honest_proof P k t sibs nfk 0" and leaf: "s_end 0 k t \<noteq> SE"
  shows "climb_tree 0 k (s_sibs 0 k t) SE \<noteq> t \<and> nm_verify_non_membership P k sibs nfk 0 st =
    (if tree_hash P (climb_tree 0 k (s_sibs 0 k t) SE) = tree_hash P t then Ok True else Err NM_InvalidProof)"
proof -
  have t: "canon 0 t" "in_field t" "nm_root st = Some (tree_hash P t)"
    using repr by (simp_all add: nm_repr_def)
  have sibs: "sibs = map (tree_hash P) (s_sibs 0 k t)" using hon by (simp add: honest_proof_def)
  have loop: "rfold (nm_root_step P (map (bit k) [0..<256]) sibs) (nm_levels_up (length sibs)) 0 =
      Ok (tree_hash P (climb_tree 0 k (s_sibs 0 k t) SE))"
    using nm_path_loop [OF host t(1,2), of SE k] sibs by (simp add: nm_levels_up_rev)
  have chk: "rfold (nm_check_siblings sibs) (List.enumerate 0 sibs) () = Ok ()"
    using nm_check_siblings_loop [of sibs 0 sibs] by simp
  from end_absent [OF t(1) new] leaf obtain k' v' where e: "s_end 0 k t = SL k' v'" "k' \<noteq> k" by blast
  have "climb_tree 0 k (s_sibs 0 k t) SE \<noteq> t"
    using climb_tree_eq_iff [of 0 k "s_sibs 0 k t" SE "s_end 0 k t"] leaf by (simp add: climb_end)
  moreover have "nfk = k'" "v' = 0" using hon e(1) by (simp_all add: honest_proof_def)
  ultimately show ?thesis using e loop chk nm_find_tree [OF repr free, of k] t(3)
    by (simp add: nm_verify_non_membership_def nm_split_bits_eq s_report_def nm_root_or_zero_def flip: sibs)
qed

section \<open>A concrete tree\<close>

text \<open>
  A host whose hashes are small linear combinations, and a contract that blocks keys 5 and 6: the
  concrete inputs on which the theorems below are applied.
\<close>

definition nm_demo_host :: permutation where
  "nm_demo_host xs field t d r_f r_p diag rc =
     (case xs of
        [a, b] \<Rightarrow> Some [(2 * a + 5 * b + 7) mod bn256_modulus, 0]
      | [a, b, c] \<Rightarrow> Some [(1000 * a + 10 * b + c) mod bn256_modulus, 0, 0]
      | _ \<Rightarrow> None)"

lemma nm_demo_host_ok: "poseidon2_host nm_demo_host"
  by (simp add: poseidon2_host_def nm_demo_host_def mod_modulus_less modulus_pos)

lemma bn256_modulus_num:
  "bn256_modulus = 21888242871839275222246405745257275088548364400416034343698204186575808495617"
  by (simp add: word_unat_eq_iff)

lemma modulus_gt_1: "\<not> bn256_modulus \<le> 1"
  by (simp add: word_le_nat_alt)

lemma nm_demo_leaf [simp]:
  "leaf_hash nm_demo_host 5 3 = 5031" "leaf_hash nm_demo_host 6 4 = 6041"
  "leaf_hash nm_demo_host 7 2 = 7021" "leaf_hash nm_demo_host 5 9 = 5091"
  using modulus_gt_1
  by (simp_all add: leaf_hash_def poseidon2_hash2_def nm_demo_host_def bn256_modulus_num)

lemma nm_demo_node [simp]:
  "node_hash nm_demo_host 6041 5031 = 43285" "node_hash nm_demo_host 5031 7021 = 50205"
  "node_hash nm_demo_host 6041 50205 = 269155" "node_hash nm_demo_host 6041 5091 = 43585"
  by (simp_all add: node_hash_def poseidon2_compress_def nm_demo_host_def bn256_modulus_num u256_add_def)

definition nm_demo_tree :: smt where
  "nm_demo_tree = SN (SL 6 4) (SL 5 3)"

definition nm_demo :: asp_non_membership where
  "nm_demo = \<lparr>nm_admin = Some 7, nm_root = Some 43285,
     nm_nodes = [43285 \<mapsto> [6041, 5031], 6041 \<mapsto> [1, 6, 4], 5031 \<mapsto> [1, 5, 3]], nm_events = []\<rparr>"

definition nm_demo_env :: env where
  "nm_demo_env = \<lparr>current_contract = 2, authorized = (\<lambda>a. a = 7)\<rparr>"

lemma nm_demo_repr: "nm_repr nm_demo_host nm_demo nm_demo_tree"
  by (simp add: nm_repr_def nm_demo_def nm_demo_tree_def branching_def nm_db.holds_def
      bn256_modulus_num)

lemma nm_demo_auth: "nm_authorized nm_demo_env nm_demo"
  by (simp add: nm_authorized_def nm_demo_env_def nm_demo_def)

lemma nm_demo_free: "no_collision nm_demo_host (subtrees nm_demo_tree)"
  by (simp add: collision_free_def nm_demo_tree_def inj_on_def)

lemma nm_demo_put:
  "s_put 0 7 2 nm_demo_tree = SN (SL 6 4) (SN (SL 5 3) (SL 7 2))"
  "s_put 0 5 9 nm_demo_tree = SN (SL 6 4) (SL 5 9)"
  by (simp_all add: nm_demo_tree_def s_split.simps)

lemma nm_demo_entries: "entries nm_demo_tree = [6 \<mapsto> 4, 5 \<mapsto> 3]"
  by (simp add: nm_demo_tree_def map_add_def fun_eq_iff)

lemma nm_demo_holds_only: "nm_holds_only nm_demo_host nm_demo_tree nm_demo"
  by (auto simp: nm_db.holds_only_def nm_demo_def nm_demo_tree_def image_iff split: if_splits)

lemma nm_insert_repr:
  assumes "poseidon2_host P" and "nm_repr P st t" and "nm_authorized env st"
    and "entries t k = None" and "k < bn256_modulus" and "v < bn256_modulus"
    and "no_collision P (subtrees t \<union> subtrees (s_put 0 k v t))"
  shows "\<exists>st'. nm_insert_leaf P env k v st = Ok st' \<and> nm_repr P st' (s_put 0 k v t) \<and>
    nm_events st' = nm_events st @ [LeafInserted k v (tree_hash P (s_put 0 k v t))] \<and>
    (nm_holds_only P t st \<longrightarrow> nm_holds_only P (s_put 0 k v t) st')"
proof -
  have t: "canon 0 t" "in_field t" "nm_holds P t st" "nm_admin st \<noteq> None"
    using assms(2) by (simp_all add: nm_repr_def)
  let ?t = "s_put 0 k v t"
  let ?st = "nm_emit (LeafInserted k v (tree_hash P ?t)) (nm_run P (put_ops 0 k v t) st\<lparr>nm_root := Some (tree_hash P ?t)\<rparr>)"
  have "nm_repr P ?st ?t"
    using t s_put_props [OF t(1) agree_start, of k v] in_field_put [OF t(2) assms(5,6)]
    by (intro nm_repr_new nm_insert_holds) (simp_all add: assms)
  moreover have "nm_holds_only P t st \<longrightarrow> nm_holds_only P ?t ?st"
    using nm_insert_exact [OF t(1) _ assms(4,7)] by (simp add: nm_db.holds_only_def nm_emit_def)
  moreover have "nm_events ?st = nm_events st @ [LeafInserted k v (tree_hash P ?t)]"
    by (simp add: nm_emit_def nm_run_frame)
  ultimately show ?thesis using nm_insert_refines [OF assms(1,2,7,3-6)] by blast
qed

lemma nm_update_repr:
  assumes "poseidon2_host P" and "nm_repr P st t" and "nm_authorized env st"
    and "entries t k = Some v0" and "v \<noteq> v0" and "v < bn256_modulus"
    and "no_collision P (subtrees t \<union> subtrees (s_put 0 k v t))"
  shows "\<exists>st'. nm_update_leaf P env k v st = Ok st' \<and> nm_repr P st' (s_put 0 k v t) \<and>
    nm_events st' = nm_events st @ [LeafUpdated k v0 v (tree_hash P (s_put 0 k v t))]"
proof -
  have t: "canon 0 t" "in_field t" "nm_holds P t st" "nm_admin st \<noteq> None"
    using assms(2) by (simp_all add: nm_repr_def)
  have free: "no_collision P (subtrees t)" using assms(7) by (rule collision_free_subset) simp
  let ?t = "s_put 0 k v t"
  let ?st = "nm_emit (LeafUpdated k v0 v (tree_hash P ?t)) (nm_run P (upd_ops 0 k v t) st\<lparr>nm_root := Some (tree_hash P ?t)\<rparr>)"
  have k: "k < bn256_modulus" using in_field_entry [OF t(2) assms(4)] by simp
  have "nm_repr P ?st ?t"
    using t s_put_props [OF t(1) agree_start, of k v] in_field_put [OF t(2) k assms(6)]
    by (intro nm_repr_new nm_update_holds [OF _ _ assms(4,5)]) (simp_all add: assms)
  moreover have "nm_events ?st = nm_events st @ [LeafUpdated k v0 v (tree_hash P ?t)]"
    by (simp add: nm_emit_def nm_run_frame)
  ultimately show ?thesis using nm_update_runs [OF assms(1,2) free assms(3,4,6)] by blast
qed

section \<open>Properties\<close>

text \<open>C4: Inserting an absent, reduced key with the administrator's signature succeeds, adds exactly
  this entry to the represented map, stores the root of the new canonical tree, logs it, and leaves
  no stale node behind.\<close>

theorem nm_insert_correct:
  assumes "poseidon2_host P" and "nm_repr P st t" and "nm_authorized env st"
    and "entries t k = None" and "k < bn256_modulus" and "v < bn256_modulus"
    and "no_collision P (subtrees t \<union> subtrees (s_put 0 k v t))"
  shows "\<exists>st' t'. nm_insert_leaf P env k v st = Ok st' \<and> nm_repr P st' t' \<and>
    entries t' = (entries t)(k \<mapsto> v) \<and>
    nm_events st' = nm_events st @ [LeafInserted k v (tree_hash P t')] \<and>
    (nm_holds_only P t st \<longrightarrow> nm_holds_only P t' st')"
proof -
  have "canon 0 t" using assms(2) by (simp add: nm_repr_def)
  then show ?thesis
    using nm_insert_repr [OF assms] s_put_props [OF _ agree_start, of t k v] by blast
qed

theorem nm_insert_correct_witness:
  "\<exists>st' t'. nm_insert_leaf nm_demo_host nm_demo_env 7 2 nm_demo = Ok st' \<and> nm_repr nm_demo_host st' t' \<and>
    entries t' = [6 \<mapsto> 4, 5 \<mapsto> 3, 7 \<mapsto> 2] \<and> nm_holds_only nm_demo_host t' st'"
proof -
  have "no_collision nm_demo_host (subtrees nm_demo_tree \<union> subtrees (s_put 0 7 2 nm_demo_tree))"
    unfolding nm_demo_put by (simp add: collision_free_def nm_demo_tree_def inj_on_def)
  from nm_insert_correct [OF nm_demo_host_ok nm_demo_repr nm_demo_auth _ _ _ this]
  show ?thesis using nm_demo_holds_only by (simp add: nm_demo_entries bn256_modulus_num) blast
qed

text \<open>Updating a present key to a different reduced value succeeds and replaces exactly this
  entry of the represented map.\<close>

theorem nm_update_correct:
  assumes "poseidon2_host P" and "nm_repr P st t" and "nm_authorized env st"
    and "entries t k = Some v0" and "v \<noteq> v0" and "v < bn256_modulus"
    and "no_collision P (subtrees t \<union> subtrees (s_put 0 k v t))"
  shows "\<exists>st' t'. nm_update_leaf P env k v st = Ok st' \<and> nm_repr P st' t' \<and>
    entries t' = (entries t)(k \<mapsto> v) \<and>
    nm_events st' = nm_events st @ [LeafUpdated k v0 v (tree_hash P t')]"
proof -
  have "canon 0 t" using assms(2) by (simp add: nm_repr_def)
  then show ?thesis
    using nm_update_repr [OF assms] s_put_props [OF _ agree_start, of t k v] by blast
qed

theorem nm_update_correct_witness:
  "\<exists>st' t'. nm_update_leaf nm_demo_host nm_demo_env 5 9 nm_demo = Ok st' \<and> nm_repr nm_demo_host st' t' \<and>
    entries t' = [6 \<mapsto> 4, 5 \<mapsto> 9]"
proof -
  have "no_collision nm_demo_host (subtrees nm_demo_tree \<union> subtrees (s_put 0 5 9 nm_demo_tree))"
    unfolding nm_demo_put by (simp add: collision_free_def nm_demo_tree_def inj_on_def)
  from nm_update_correct [OF nm_demo_host_ok nm_demo_repr nm_demo_auth _ _ _ this]
  show ?thesis by (simp add: nm_demo_entries bn256_modulus_num) blast
qed

text \<open>C18: Updating a present key to the value it already has is accepted but removes the nodes it has
  just written: the stored root stays the same while its node is gone, so that from then on every
  search fails with \<open>KeyNotFound\<close>.\<close>

theorem nm_update_same_value_breaks:
  assumes "poseidon2_host P" and "nm_repr P st t" and "nm_authorized env st"
    and "entries t k = Some v" and "no_collision P (subtrees t)"
  shows "\<exists>st'. nm_update_leaf P env k v st = Ok st' \<and> nm_get_root st' = nm_get_root st \<and>
    (\<forall>k'. nm_find_key k' st' = Err NM_KeyNotFound)"
proof -
  have t: "canon 0 t" "in_field t" "nm_root st = Some (tree_hash P t)"
    using assms(2) by (simp_all add: nm_repr_def)
  have v: "v < bn256_modulus" using in_field_entry [OF t(2) assms(4)] by simp
  have same: "s_put 0 k v t = t" by (rule s_put_same [OF t(1) agree_start assms(4)])
  have "t \<noteq> SE" using assms(4) by auto
  then have nz: "tree_hash P t \<noteq> 0" using collision_free_nonzero [OF assms(5), of t] by simp
  from upd_ops_last [OF \<open>t \<noteq> SE\<close>] obtain ops where "upd_ops 0 k v t = ops @ [Del t]" by blast
  then have gone: "nm_nodes (nm_run P (upd_ops 0 k v t) st) (tree_hash P t) = None"
    by (simp add: nm_db.get_del)
  let ?st = "nm_emit (LeafUpdated k v v (tree_hash P t)) (nm_run P (upd_ops 0 k v t) st\<lparr>nm_root := Some (tree_hash P t)\<rparr>)"
  have "nm_find_key k' ?st = Err NM_KeyNotFound" for k'
    using gone nz
    by (simp add: nm_find_key_def nm_split_bits_eq nm_root_or_zero_def nm_emit_def
        nm_find_key_internal.simps [of _ _ _ "tree_hash P t"])
  moreover have "nm_get_root ?st = nm_get_root st" using t(3) by (simp add: nm_get_root_def nm_emit_def)
  ultimately show ?thesis
    using nm_update_runs [OF assms(1,2,5,3,4) v] unfolding same by blast
qed

theorem nm_update_same_value_breaks_witness:
  "\<exists>st'. nm_update_leaf nm_demo_host nm_demo_env 5 3 nm_demo = Ok st' \<and>
    nm_find_key 6 st' = Err NM_KeyNotFound"
  using nm_update_same_value_breaks [OF nm_demo_host_ok nm_demo_repr nm_demo_auth _ nm_demo_free, of 5 3]
  by (auto simp: nm_demo_entries)

text \<open>C16: Deleting a present key succeeds and removes exactly this entry of the represented map; a
  lone sibling leaf moves up, so that the tree stays canonical.\<close>

theorem nm_delete_correct:
  assumes "poseidon2_host P" and "nm_repr P st t" and "nm_authorized env st"
    and "entries t k = Some v0"
    and "no_collision P (subtrees t \<union> subtrees (s_delete 0 k t) \<union> dels (fst (del_run 0 k t)))"
  shows "\<exists>st' t'. nm_delete_leaf P env k st = Ok st' \<and> nm_repr P st' t' \<and>
    entries t' = (entries t)(k := None) \<and>
    nm_events st' = nm_events st @ [LeafDeleted k (tree_hash P t')]"
proof -
  have t: "canon 0 t" "in_field t" "nm_holds P t st" "nm_admin st \<noteq> None"
    using assms(2) by (simp_all add: nm_repr_def)
  have free: "no_collision P (subtrees t)" using assms(5) by (rule collision_free_subset) blast
  have key: "k \<in> keys t" using assms(4) by (simp add: keys_entries domIff)
  obtain ops o' new mixed where run: "del_run 0 k t = (ops, o', new, mixed)" by (metis prod_cases4)
  have new: "new = s_delete 0 k t" using del_run_props [OF t(1) key run] by simp
  let ?st = "nm_emit (LeafDeleted k (tree_hash P new)) (nm_run P ops st\<lparr>nm_root := Some (tree_hash P new)\<rparr>)"
  have "nm_holds P new (nm_run P ops st)"
    using assms(5) by (intro nm_delete_holds [OF t(1,3) assms(4) run]) (simp add: run new)
  then have "nm_repr P ?st new"
    using s_delete_props [OF t(1), of k] in_field_delete [OF t(2), of 0 k] t(4)
    by (intro nm_repr_new) (simp_all add: new)
  moreover have "nm_events ?st = nm_events st @ [LeafDeleted k (tree_hash P new)]"
    by (simp add: nm_emit_def nm_run_frame)
  ultimately show ?thesis
    using nm_delete_runs [OF assms(1,2) free assms(3,4) run] s_delete_props [OF t(1), of k] new by blast
qed

theorem nm_delete_correct_witness:
  "\<exists>st' t'. nm_delete_leaf nm_demo_host nm_demo_env 5 nm_demo = Ok st' \<and> nm_repr nm_demo_host st' t' \<and>
    entries t' = [6 \<mapsto> 4]"
proof -
  have "no_collision nm_demo_host (subtrees nm_demo_tree \<union> subtrees (s_delete 0 5 nm_demo_tree) \<union>
      dels (fst (del_run 0 5 nm_demo_tree)))"
    by (simp add: collision_free_def nm_demo_tree_def inj_on_def)
  from nm_delete_correct [OF nm_demo_host_ok nm_demo_repr nm_demo_auth _ this, of 3]
  show ?thesis by (simp add: nm_demo_entries) blast
qed

text \<open>What the calls refuse: without the administrator's signature every write traps; inserting a
  present key is \<open>KeyAlreadyExists\<close>; inserting an unreduced key or value traps; updating or
  deleting an absent key is \<open>KeyNotFound\<close>.\<close>

theorem nm_refusals:
  assumes "nm_repr P st t" and "no_collision P (subtrees t)"
  shows "(\<not> nm_authorized env st \<longrightarrow> nm_insert_leaf P env k v st = Panic \<and>
      nm_update_leaf P env k v st = Panic \<and> nm_delete_leaf P env k st = Panic) \<and>
    (nm_authorized env st \<longrightarrow>
      (entries t k \<noteq> None \<longrightarrow> nm_insert_leaf P env k v st = Err NM_KeyAlreadyExists) \<and>
      (entries t k = None \<longrightarrow> nm_update_leaf P env k v st = Err NM_KeyNotFound \<and>
        nm_delete_leaf P env k st = Err NM_KeyNotFound \<and>
        (bn256_modulus \<le> k \<or> bn256_modulus \<le> v \<longrightarrow> nm_insert_leaf P env k v st = Panic)))"
proof -
  have "\<not> nm_authorized env st \<Longrightarrow> nm_update_leaf P env k v st = Panic \<and> nm_delete_leaf P env k st = Panic"
    using assms(1) by (auto simp: nm_update_leaf_def nm_delete_leaf_def nm_repr_def nm_authorized_def)
  then show ?thesis
    using nm_insert_unauthorized [OF assms(1)] nm_insert_present [OF assms]
      nm_insert_unreduced [OF assms] nm_missing_key [OF assms] by blast
qed

theorem nm_refusals_witness:
  "nm_insert_leaf nm_demo_host nm_demo_env 5 1 nm_demo = Err NM_KeyAlreadyExists \<and>
    nm_delete_leaf nm_demo_host nm_demo_env 7 nm_demo = Err NM_KeyNotFound"
  using nm_refusals [OF nm_demo_repr nm_demo_free, of nm_demo_env 5 1]
    nm_refusals [OF nm_demo_repr nm_demo_free, of nm_demo_env 7 1]
  by (simp add: nm_demo_auth nm_demo_entries)

text \<open>C17: Every outcome of a non-membership query: a present key is answered \<open>false\<close> whatever the
  proof; for an absent key every proof but the honest one (the siblings on the key's path and the
  leaf, if any, at its end) is \<open>InvalidProof\<close>, and the honest one is answered \<open>true\<close> when the path ends
  in nothing or in a leaf with a value other than 0. When it ends in a leaf that stores 0, the code
  takes the leaf for an empty place and recomputes the root of a different tree: the absent key is
  then answered \<open>InvalidProof\<close>, against the documented \<open>true\<close>, unless the two trees have the same hash.\<close>

theorem nm_verify_outcomes:
  assumes "poseidon2_host P" and "nm_repr P st t" and "no_collision P (subtrees t)"
  shows "(entries t k \<noteq> None \<longrightarrow> nm_verify_non_membership P k sibs nfk nfv st = Ok False) \<and>
    (entries t k = None \<and> honest_proof P k t sibs nfk nfv \<and> (s_end 0 k t = SE \<or> nfv \<noteq> 0) \<longrightarrow>
      nm_verify_non_membership P k sibs nfk nfv st = Ok True) \<and>
    (entries t k = None \<and> honest_proof P k t sibs nfk nfv \<and> s_end 0 k t \<noteq> SE \<and> nfv = 0 \<longrightarrow>
      climb_tree 0 k (s_sibs 0 k t) SE \<noteq> t \<and> nm_verify_non_membership P k sibs nfk nfv st =
        (if tree_hash P (climb_tree 0 k (s_sibs 0 k t) SE) = tree_hash P t then Ok True else Err NM_InvalidProof)) \<and>
    (entries t k = None \<and> \<not> honest_proof P k t sibs nfk nfv \<longrightarrow>
      nm_verify_non_membership P k sibs nfk nfv st = Err NM_InvalidProof)"
  using nm_verify_present [OF assms(2,3)] nm_verify_honest [OF assms] nm_verify_zero_leaf [OF assms]
    nm_verify_dishonest [OF assms(2,3)] by blast

text \<open>A tree whose only leaf stores 0.\<close>

definition nm_zero_demo :: asp_non_membership where
  "nm_zero_demo = \<lparr>nm_admin = Some 7, nm_root = Some 5001, nm_nodes = [5001 \<mapsto> [1, 5, 0]], nm_events = []\<rparr>"

lemma nm_zero_leaf_hash: "leaf_hash nm_demo_host 5 0 = 5001"
  using modulus_gt_1 by (simp add: leaf_hash_def poseidon2_hash2_def nm_demo_host_def bn256_modulus_num)

lemma nm_zero_demo_repr:
  "nm_repr nm_demo_host nm_zero_demo (SL 5 0)" "no_collision nm_demo_host (subtrees (SL 5 0))"
  by (simp_all add: nm_repr_def nm_zero_demo_def nm_zero_leaf_hash nm_db.holds_def bn256_modulus_num
      collision_free_def inj_on_def)

theorem nm_verify_outcomes_witness:
  "nm_verify_non_membership nm_demo_host 7 [6041] 5 3 nm_demo = Ok True \<and>
    nm_verify_non_membership nm_demo_host 5 [] 0 0 nm_demo = Ok False \<and>
    nm_verify_non_membership nm_demo_host 7 [] 5 0 nm_zero_demo = Err NM_InvalidProof"
  using nm_verify_outcomes [OF nm_demo_host_ok nm_demo_repr nm_demo_free, of 7 "[6041]" 5 3]
    nm_verify_outcomes [OF nm_demo_host_ok nm_demo_repr nm_demo_free, of 5 "[]" 0 0]
    nm_verify_outcomes [OF nm_demo_host_ok nm_zero_demo_repr, of 7 "[]" 5 0]
  by (simp add: nm_demo_entries honest_proof_def nm_demo_tree_def nm_zero_leaf_hash)

text \<open>The root commits to the map and to nothing else: two contracts publish the same root exactly
  when they block the same keys with the same values, whatever calls led there.\<close>

theorem nm_root_commits:
  assumes "nm_repr P st t" and "nm_repr P st' t'" and "no_collision P (subtrees t \<union> subtrees t')"
  shows "nm_get_root st = nm_get_root st' \<longleftrightarrow> entries t = entries t'"
proof
  assume "nm_get_root st = nm_get_root st'"
  with assms(1,2) have "tree_hash P t = tree_hash P t'" by (simp add: nm_repr_def nm_get_root_def)
  then have "t = t'" by (intro collision_freeD [OF assms(3)]) simp_all
  then show "entries t = entries t'" by simp
next
  assume "entries t = entries t'"
  with assms(1,2) have "t = t'" by (intro canon_unique [of 0]) (simp_all add: nm_repr_def)
  with assms(1,2) show "nm_get_root st = nm_get_root st'" by (simp add: nm_repr_def nm_get_root_def)
qed

theorem nm_root_commits_witness:
  "\<exists>st. nm_constructor 7 nm_empty = Ok st \<and> nm_get_root nm_demo \<noteq> nm_get_root st"
proof -
  let ?st = "nm_empty\<lparr>nm_admin := Some 7, nm_root := Some 0\<rparr>"
  have "nm_repr nm_demo_host ?st SE" by (simp add: nm_repr_def nm_db.holds_def)
  moreover have "no_collision nm_demo_host (subtrees nm_demo_tree \<union> subtrees SE)"
    by (simp add: collision_free_def nm_demo_tree_def inj_on_def)
  ultimately have "nm_get_root nm_demo = nm_get_root ?st \<longleftrightarrow> entries nm_demo_tree = entries SE"
    by (intro nm_root_commits [OF nm_demo_repr])
  moreover have "entries nm_demo_tree 5 \<noteq> entries SE 5" by (simp add: nm_demo_entries)
  ultimately have "nm_get_root nm_demo \<noteq> nm_get_root ?st" by metis
  then show ?thesis by (simp add: nm_constructor_def)
qed

text \<open>The search decides membership in the represented map and returns a path that leads from the
  leaf it found back to the published root.\<close>

theorem nm_find_correct:
  assumes "poseidon2_host P" and "nm_repr P st t" and "no_collision P (subtrees t)"
  shows "\<exists>r. nm_find_key k st = Ok r \<and> (fr_found r \<longleftrightarrow> entries t k \<noteq> None) \<and>
    (fr_found r \<longrightarrow> entries t k = Some (fr_found_value r)) \<and>
    (\<not> fr_found r \<and> \<not> fr_is_old0 r \<longrightarrow> entries t (fr_not_found_key r) = Some (fr_not_found_value r)) \<and>
    rfold (nm_root_step P (map (bit k) [0..<256]) (fr_siblings r)) (nm_levels_up (length (fr_siblings r)))
      (if fr_found r then leaf_hash P k (fr_found_value r)
       else if fr_is_old0 r then 0 else leaf_hash P (fr_not_found_key r) (fr_not_found_value r)) =
      nm_get_root st"
proof -
  have t: "canon 0 t" "in_field t" "nm_root st = Some (tree_hash P t)"
    using assms(2) by (simp_all add: nm_repr_def)
  let ?r = "s_report P k (map (tree_hash P) (s_sibs 0 k t)) (s_end 0 k t)"
  have run: "nm_find_key k st = Ok ?r"
    using nm_find_tree [OF assms(2,3), of k] by (simp add: nm_find_key_def nm_split_bits_eq)
  have loop: "rfold (nm_root_step P (map (bit k) [0..<256]) (map (tree_hash P) (s_sibs 0 k t)))
      (nm_levels_up (length (s_sibs 0 k t))) (tree_hash P (s_end 0 k t)) = nm_get_root st"
    using nm_root_loop [OF assms(1) t(1,2), of k] t(3)
    by (simp add: nm_levels_up_rev nm_get_root_def)
  show ?thesis
  proof (cases "entries t k")
    case (Some v)
    with end_present [OF t(1) Some] run loop show ?thesis
      by (simp add: s_report_def)
  next
    case None
    from end_absent [OF t(1) None] show ?thesis
    proof
      assume "s_end 0 k t = SE"
      with run loop None show ?thesis by (simp add: s_report_def)
    next
      assume "\<exists>k' v'. s_end 0 k t = SL k' v' \<and> k' \<noteq> k"
      then obtain k' v' where e: "s_end 0 k t = SL k' v'" "k' \<noteq> k" by blast
      have "entries t k' = Some v'"
        using subtree_entry [OF t(1), of k' v'] s_end_subtree [of 0 k t] e(1) by simp
      with e run loop None show ?thesis by (simp add: s_report_def)
    qed
  qed
qed

theorem nm_find_correct_witness:
  "\<exists>r. nm_find_key 7 nm_demo = Ok r \<and> \<not> fr_found r"
  using nm_find_correct [OF nm_demo_host_ok nm_demo_repr nm_demo_free, of 7]
  by (auto simp: nm_demo_entries)

end
