(* ===== verification/Client_Smt_Correct.thy ===== *)
theory Client_Smt_Correct
  imports Client_Smt Asp_Non_Membership_Props
begin

text \<open>
  The client's sparse tree holds the tree of \<open>Sparse_Merkle\<close>: \<open>cs_repr c t\<close>.  Search, insertion and
  update compute on the tree; since the nodes of replaced paths stay in the map, the only way to lose
  the representation is a hash collision, which the lemmas then exhibit.  The client and a contract
  whose host computes the same permutation hash the same tree to the same root.
\<close>

section \<open>Hashes of trees as scalars\<close>

abbreviation crate_hash :: "smt \<Rightarrow> u256" where
  "crate_hash \<equiv> tree_hash crate_host"

definition thash :: "smt \<Rightarrow> scalar" where
  "thash t = u256_scalar (crate_hash t)"

lemma scalar_u256_thash: "in_field t \<Longrightarrow> scalar_u256 (thash t) = crate_hash t"
  unfolding thash_def by (intro scalar_u256_scalar tree_hash_in_field crate_host_ok)

lemma thash_SE [simp]: "thash SE = 0"
  by (simp add: thash_def u256_scalar_def)

lemma thash_SL:
  assumes "k < bn256_modulus" "v < bn256_modulus"
  shows "thash (SL k v) = hash2 (u256_scalar k) (u256_scalar v) 1"
  using client_leaf_hash [OF crate_host_ok(1), of "u256_scalar k" "u256_scalar v"] assms
  by (simp add: thash_def scalar_u256_scalar)

lemma thash_SN:
  assumes "in_field a" "in_field b"
  shows "thash (SN a b) = compress2 (thash a) (thash b)"
  using client_node_hash [OF crate_host_ok(1), of "thash a" "thash b"] assms
  by (simp add: scalar_u256_thash) (simp add: thash_def)

lemma thash_inject: "in_field x \<Longrightarrow> in_field y \<Longrightarrow> thash x = thash y \<longleftrightarrow> crate_hash x = crate_hash y"
  by (metis scalar_u256_thash thash_def)

text \<open>A contract with such a host hashes every tree alike.\<close>

lemma contract_tree_hash: "host_is_poseidon2 P \<Longrightarrow> in_field t \<Longrightarrow> tree_hash P t = crate_hash t"
proof (induction t)
  case (SL k v)
  then show ?case
    using client_leaf_hash [OF SL(1), of "u256_scalar k" "u256_scalar v"]
      client_leaf_hash [OF crate_host_ok(1), of "u256_scalar k" "u256_scalar v"]
    by (simp add: scalar_u256_scalar)
next
  case (SN a b)
  then show ?case
    using client_node_hash [OF SN(3), of "thash a" "thash b"]
      client_node_hash [OF crate_host_ok(1), of "thash a" "thash b"]
    by (simp add: scalar_u256_thash)
qed simp

section \<open>Key bits\<close>

lemma into_bigint_bits:
  "i < 4 \<Longrightarrow> j < 64 \<Longrightarrow> bit (into_bigint s ! i) j = bit (scalar_nat s) (64 * i + j)"
  by (simp add: into_bigint_def bit_of_nat_iff bit_drop_bit_eq ac_simps flip: drop_bit_eq_div)

lemma limb_bits_eq: "limb_bits x = map (bit x) [0..<64]"
  by (auto simp: limb_bits_def bit_iff_odd_drop_bit and_one_eq odd_iff_mod_2_eq_one)

lemma scalar_to_bits_eq: "scalar_to_bits s = map (bit (scalar_u256 s)) [0..<256]"
proof -
  have bits: "bit (scalar_u256 s) n = bit (scalar_nat s) n" if "n < 256" for n
    using that by (simp add: scalar_u256_def bit_of_nat_iff)
  have limb: "limb_bits (into_bigint s ! i) = map (bit (scalar_u256 s)) [64 * i..<64 * i + 64]" if "i < 4" for i
    by (rule nth_equalityI) (use that in \<open>simp_all add: limb_bits_eq into_bigint_bits bits\<close>)
  have "into_bigint s = map (\<lambda>i. into_bigint s ! i) [0..<4]"
    by (rule nth_equalityI) (simp_all add: into_bigint_def)
  also have "[0..<4] = [0, 1, 2, 3::nat]" by (simp add: numeral_eq_Suc)
  finally have four: "into_bigint s = [into_bigint s ! 0, into_bigint s ! 1, into_bigint s ! 2, into_bigint s ! 3]"
    by simp
  have "fold (\<lambda>limb bits. bits @ limb_bits limb) (into_bigint s) [] =
      limb_bits (into_bigint s ! 0) @ limb_bits (into_bigint s ! 1) @ limb_bits (into_bigint s ! 2) @
      limb_bits (into_bigint s ! 3)"
    by (subst four) simp
  also have "\<dots> = map (bit (scalar_u256 s)) ([0..<64] @ [64..<128] @ [128..<192] @ [192..<256])"
    using limb [of 0] limb [of 1] limb [of 2] limb [of 3] by simp
  also have "[0..<64] @ [64..<128] @ [128..<192] @ [192..<256] = [0..<256::nat]"
    using upt_add_eq_append [of 0 64 64] upt_add_eq_append [of 0 128 64] upt_add_eq_append [of 0 192 64]
    by simp
  finally show ?thesis by (simp add: scalar_to_bits_def)
qed

lemma vec_get_scalar_bits: "l < 256 \<Longrightarrow> vec_get (scalar_to_bits s) l = Some (bit (scalar_u256 s) l)"
  by (simp add: scalar_to_bits_eq vec_get_bits)

section \<open>Representation\<close>

fun node_of :: "smt \<Rightarrow> smt_node" where
  "node_of SE = NEmpty"
| "node_of (SL k v) = NLeaf (u256_scalar k) (u256_scalar v)"
| "node_of (SN a b) = NInternal (thash a) (thash b)"

definition cs_holds :: "sparse_merkle_tree \<Rightarrow> smt \<Rightarrow> bool" where
  "cs_holds c t \<longleftrightarrow> (\<forall>x \<in> subtrees t. x \<noteq> SE \<longrightarrow>
     thash x \<noteq> 0 \<and> cs_db c (scalar_to_key (thash x)) = Some (node_of x))"

definition cs_repr :: "sparse_merkle_tree \<Rightarrow> smt \<Rightarrow> bool" where
  "cs_repr c t \<longleftrightarrow> canon 0 t \<and> in_field t \<and> cs_root c = thash t \<and> cs_holds c t"

text \<open>Two trees of a set (or a tree and the empty tree) with the same hash.\<close>

definition found_collision :: "smt set \<Rightarrow> bool" where
  "found_collision S \<longleftrightarrow>
     (\<exists>x \<in> insert SE S. \<exists>y \<in> insert SE S. x \<noteq> y \<and> crate_hash x = crate_hash y)"

lemma found_collision_iff: "found_collision S \<longleftrightarrow> \<not> no_collision crate_host S"
  by (auto simp: found_collision_def collision_free_def inj_on_def)

lemma cs_repr_new: "cs_repr cs_new SE"
  by (simp add: cs_repr_def cs_holds_def cs_new_def)

lemma cs_holds_sub: "cs_holds c (SN a b) \<Longrightarrow> cs_holds c a \<and> cs_holds c b"
  by (simp add: cs_holds_def)

section \<open>Search\<close>

lemma in_field_bit:
  assumes "k < bn256_modulus" and "bit k n"
  shows "n < 254"
proof (rule ccontr)
  assume "\<not> n < 254"
  have "unat k < 2 ^ 254" using assms(1) by (simp add: word_less_nat_alt)
  also have "(2::nat) ^ 254 \<le> 2 ^ n" using \<open>\<not> n < 254\<close> by (intro power_increasing) simp_all
  finally have "\<not> bit (unat k) n" by (simp add: bit_iff_odd)
  with assms(2) show False by (simp add: bit_unsigned_iff)
qed

lemma in_field_agree:
  assumes "agree l k k'" and "k \<noteq> k'" and "k < bn256_modulus" and "k' < bn256_modulus"
  shows "l < 254"
proof (rule ccontr)
  assume "\<not> l < 254"
  then have "bit k i = bit k' i" if "i < 254" for i using assms(1) that by (simp add: agree_def)
  then have "bit k i = bit k' i" for i using in_field_bit assms(3,4) by (cases "i < 254") blast+
  then have "k = k'" by (intro bit_word_eqI) simp
  with assms(2) show False by simp
qed

lemma in_field_keys: "in_field t \<Longrightarrow> k \<in> keys t \<Longrightarrow> k < bn256_modulus"
  by (induction t) auto

lemma node_level:
  assumes "canon l (SN a b)" and "in_field (SN a b)"
    and "\<forall>k \<in> keys (SN a b). \<forall>k' \<in> keys (SN a b). agree l k k'"
  shows "l < 254"
proof -
  from two_keys [OF assms(1)] obtain k k' where
    k: "k \<in> keys (SN a b)" "k' \<in> keys (SN a b)" "k \<noteq> k'" by blast
  have "agree l k k'" using assms(3) k(1,2) by blast
  moreover have "k < bn256_modulus" "k' < bn256_modulus" using in_field_keys [OF assms(2)] k(1,2) by blast+
  ultimately show ?thesis using k(3) in_field_agree by blast
qed

definition cs_report :: "scalar \<Rightarrow> scalar list \<Rightarrow> smt \<Rightarrow> client_find" where
  "cs_report key sibs e =
     (case e of
        SL k v \<Rightarrow>
          if u256_scalar k = key then
            \<lparr>cf_found = True, cf_siblings = sibs, cf_found_value = u256_scalar v, cf_not_found_key = 0,
             cf_not_found_value = 0, cf_is_old0 = False\<rparr>
          else
            \<lparr>cf_found = False, cf_siblings = sibs, cf_found_value = 0, cf_not_found_key = u256_scalar k,
             cf_not_found_value = u256_scalar v, cf_is_old0 = False\<rparr>
      | _ \<Rightarrow> \<lparr>cf_found = False, cf_siblings = sibs, cf_found_value = 0, cf_not_found_key = key,
             cf_not_found_value = 0, cf_is_old0 = True\<rparr>)"

lemma cs_report_siblings [simp]:
  "cf_siblings (cs_report key sibs e) = sibs"
  "cs_report key sibs e\<lparr>cf_siblings := sibs'\<rparr> = cs_report key sibs' e"
  by (auto simp: cs_report_def split: smt.splits)

lemma cs_find_internal_tree:
  assumes "canon l t" and "in_field t" and "cs_holds c t" and "l \<le> 254"
    and "\<forall>k \<in> keys t. \<forall>k' \<in> keys t. agree l k k'"
  shows "cs_find_internal c key (scalar_to_bits key) (thash t) l =
    Ok (cs_report key (rev (map thash (s_sibs l (scalar_u256 key) t))) (s_end l (scalar_u256 key) t))"
  using assms
proof (induction t arbitrary: l)
  case SE
  then show ?case by (simp add: cs_find_internal.simps cs_report_def)
next
  case (SL k v)
  then have "thash (SL k v) \<noteq> 0" "cs_get_node c (thash (SL k v)) = Some (NLeaf (u256_scalar k) (u256_scalar v))"
    by (auto simp: cs_holds_def cs_get_node_def)
  with SL.prems(4) show ?case
    by (subst cs_find_internal.simps) (simp add: cs_report_def)
next
  case (SN a b)
  have l: "l < 254" using SN.prems by (intro node_level)
  have nz: "thash (SN a b) \<noteq> 0" and node: "cs_get_node c (thash (SN a b)) = Some (NInternal (thash a) (thash b))"
    using SN.prems(3) by (auto simp: cs_holds_def cs_get_node_def)
  have "canon (Suc l) a" "canon (Suc l) b" "in_field a" "in_field b" "cs_holds c a" "cs_holds c b"
    using SN.prems(1,2) cs_holds_sub [OF SN.prems(3)] by simp_all
  moreover have "\<forall>k \<in> keys a. \<not> bit k l" "\<forall>k \<in> keys b. bit k l" using SN.prems(1) by simp_all
  then have "\<forall>k \<in> keys a. \<forall>k' \<in> keys a. agree (Suc l) k k'" "\<forall>k \<in> keys b. \<forall>k' \<in> keys b. agree (Suc l) k k'"
    using SN.prems(5) by (simp_all add: agree_Suc)
  ultimately have sub: "canon (Suc l) a" "canon (Suc l) b" "in_field a" "in_field b" "cs_holds c a" "cs_holds c b"
    "\<forall>k \<in> keys a. \<forall>k' \<in> keys a. agree (Suc l) k k'" "\<forall>k \<in> keys b. \<forall>k' \<in> keys b. agree (Suc l) k k'"
    by blast+
  have b: "vec_get (scalar_to_bits key) l = Some (bit (scalar_u256 key) l)" using l by (simp add: vec_get_scalar_bits)
  show ?case
    using SN.IH(1) [OF sub(1,3,5) _ sub(7)] SN.IH(2) [OF sub(2,4,6) _ sub(8)] nz node l b
    by (subst cs_find_internal.simps) simp
qed

lemma cs_find_tree:
  assumes "cs_repr c t"
  shows "cs_find c key =
    Ok (cs_report key (map thash (s_sibs 0 (scalar_u256 key) t)) (s_end 0 (scalar_u256 key) t))"
  using assms cs_find_internal_tree [of 0 t c key] by (simp add: cs_repr_def cs_find_def)

section \<open>The path to the root\<close>

text \<open>The nodes written on the way from a subtree to the root (\<open>climb_tree\<close>).\<close>

primrec climb_nodes :: "nat \<Rightarrow> u256 \<Rightarrow> smt list \<Rightarrow> smt \<Rightarrow> smt list" where
  "climb_nodes l k [] s = []"
| "climb_nodes l k (x # xs) s = climb_nodes (Suc l) k xs s @ [climb_tree l k (x # xs) s]"

definition put_tree :: "smt \<Rightarrow> sparse_merkle_tree \<Rightarrow> sparse_merkle_tree" where
  "put_tree x c = cs_put_node (thash x) (node_of x) c"

lemma cs_path_loop:
  assumes "l + length xs \<le> 256" and "in_field s" and "\<forall>x \<in> set xs. in_field x"
  shows "rfold (cs_path_step (scalar_to_bits key)) (rev (List.enumerate l (map thash xs))) (c, thash s) =
    Ok (fold put_tree (climb_nodes l (scalar_u256 key) xs s) c, thash (climb_tree l (scalar_u256 key) xs s))"
  using assms
proof (induction xs arbitrary: l)
  case (Cons x xs)
  have b: "vec_get (scalar_to_bits key) l = Some (bit (scalar_u256 key) l)"
    using Cons.prems by (simp add: vec_get_scalar_bits)
  have "in_field (climb_tree (Suc l) (scalar_u256 key) xs s)" "in_field x"
    using Cons.prems by (auto intro: in_field_climb)
  then show ?case
    using Cons.IH [of "Suc l"] Cons.prems
    by (simp add: rfold_append cs_path_step_def b put_tree_def join_def thash_SN)
qed simp

lemma put_tree_root [simp]: "cs_root (fold put_tree xs c) = cs_root c"
  by (induction xs arbitrary: c) (simp_all add: put_tree_def cs_put_node_def)

lemma scalar_to_key_inject [simp]: "scalar_to_key a = scalar_to_key b \<longleftrightarrow> a = b"
  by (metis bytes_scalar_roundtrip result.inject(1) scalar_to_key_def)

lemma put_trees_get:
  assumes "\<forall>y \<in> set ys. thash y = thash x \<longrightarrow> y = x" and "thash x \<noteq> 0"
  shows "cs_db (fold put_tree ys c) (scalar_to_key (thash x)) =
    (if x \<in> set ys then Some (node_of x) else cs_db c (scalar_to_key (thash x)))"
  using assms(1)
  by (induction ys rule: rev_induct) (auto simp: put_tree_def cs_put_node_def assms(2))

lemma cs_holds_puts:
  assumes holds: "cs_holds c t" and fld: "in_field t" "in_field t'"
    and ys: "set ys \<subseteq> subtrees t'" and covered: "subtrees t' - {SE} \<subseteq> set ys \<union> subtrees t"
    and free: "no_collision crate_host (subtrees t \<union> subtrees t')"
  shows "cs_holds (fold put_tree ys c) t'"
  unfolding cs_holds_def
proof (intro ballI impI conjI)
  fix x assume x: "x \<in> subtrees t'" "x \<noteq> SE"
  have fx: "in_field x" by (rule in_field_subtree [OF fld(2) x(1)])
  have "crate_hash x \<noteq> 0" using collision_free_nonzero [OF free, of x] x by simp
  then show nz: "thash x \<noteq> 0" using scalar_u256_thash [OF fx] by auto
  have inj: "y = x" if "y \<in> subtrees t'" "thash y = thash x" for y
    using collision_freeD [OF free, of y x] that x fx in_field_subtree [OF fld(2)] by (simp add: thash_inject)
  have "cs_db (fold put_tree ys c) (scalar_to_key (thash x)) =
      (if x \<in> set ys then Some (node_of x) else cs_db c (scalar_to_key (thash x)))"
    by (rule put_trees_get [OF _ nz]) (use ys inj in blast)
  moreover have "x \<notin> set ys \<Longrightarrow> cs_db c (scalar_to_key (thash x)) = Some (node_of x)"
    using covered holds x by (auto simp: cs_holds_def)
  ultimately show "cs_db (fold put_tree ys c) (scalar_to_key (thash x)) = Some (node_of x)" by simp
qed

lemma climb_subtrees:
  "set (climb_nodes l k xs s) \<subseteq> subtrees (climb_tree l k xs s) \<and>
   subtrees s \<subseteq> subtrees (climb_tree l k xs s) \<and>
   subtrees (climb_tree l k xs s) \<subseteq> set (climb_nodes l k xs s) \<union> subtrees s \<union> (\<Union>x \<in> set xs. subtrees x)"
proof (induction xs arbitrary: l)
  case (Cons x xs)
  show ?case using Cons [of "Suc l"] by (simp add: subset_insertI2) blast
qed simp

lemma climb_split:
  "k \<noteq> k' \<Longrightarrow> agree l k k' \<Longrightarrow> climb_tree l k (split_sibs l k k' v') (SL k v) = s_split l k v k' v'"
proof (induction l k k' v' rule: split_sibs.induct)
  case (1 l k k' v')
  from 1(3,2) have "l < 256" by (rule agree_256)
  with 1 show ?case
    by (subst split_sibs.simps, subst s_split.simps) (auto simp: agree_Suc join_def)
qed

lemma climb_full:
  assumes "\<forall>k' \<in> keys t. agree l k k'" and "canon l t" and "k \<notin> keys t"
  shows "climb_tree l k (full_sibs l k t) (SL k v) = s_put l k v t"
  using assms
  by (induction l k t rule: full_sibs.induct) (auto simp: climb_split agree_Suc join_def)

lemma climb_present:
  assumes "canon l t" and "entries t k = Some v0"
  shows "climb_tree l k (s_sibs l k t) (SL k v) = s_put l k v t"
  using assms
proof (induction l k v t rule: s_put.induct)
  case (3 l k v a b)
  have "bit k l \<Longrightarrow> entries a k = None" "\<not> bit k l \<Longrightarrow> entries b k = None"
    using 3(3) by (auto simp: keys_entries)
  with 3 show ?case by (auto simp: join_def map_add_def split: option.splits)
qed (auto split: if_splits)

lemma split_sibs_set: "set (split_sibs l k k' v') \<subseteq> {SE, SL k' v'}"
  by (induction l k k' v' rule: split_sibs.induct) (subst split_sibs.simps, auto)

lemma full_sibs_subtrees: "x \<in> set (full_sibs l k t) \<Longrightarrow> subtrees x \<subseteq> insert SE (subtrees t)"
proof (induction l k t rule: full_sibs.induct)
  case (2 l k k' v')
  then show ?case using split_sibs_set [of l k k' v'] by auto
qed (auto split: if_splits)

lemma full_sibs_length: "canon l t \<Longrightarrow> l \<le> 256 \<Longrightarrow> l + length (full_sibs l k t) \<le> 256"
proof (induction l k t rule: full_sibs.induct)
  case (2 l k k' v')
  have "j \<le> 256 \<Longrightarrow> j + length (split_sibs j k k' v') \<le> 256" for j
    by (induction j k k' v' rule: split_sibs.induct) (subst split_sibs.simps, auto)
  with 2 show ?case by simp
qed auto

lemma in_field_sibs:
  "in_field t \<Longrightarrow> \<forall>x \<in> set (s_sibs l k t). in_field x"
  "in_field t \<Longrightarrow> \<forall>x \<in> set (full_sibs l k t). in_field x"
proof -
  assume t: "in_field t"
  show "\<forall>x \<in> set (s_sibs l k t). in_field x"
    using sibs_subtrees in_field_subtree [OF t] subtrees_refl by blast
  show "\<forall>x \<in> set (full_sibs l k t). in_field x"
  proof
    fix x assume "x \<in> set (full_sibs l k t)"
    then have "x = SE \<or> x \<in> subtrees t" using full_sibs_subtrees subtrees_refl [of x] by blast
    then show "in_field x" using in_field_subtree [OF t] by auto
  qed
qed

section \<open>Insertion\<close>

lemma cs_diverge_split:
  assumes "k \<noteq> k'" and "agree l k k'"
  shows "\<exists>ys. cs_diverge (map (bit k') [0..<256]) (map (bit k) [0..<256]) l sibs = Ok ys \<and>
    ys @ [thash (SL k' v')] = sibs @ map thash (split_sibs l k k' v')"
  using assms
proof (induction l k k' v' arbitrary: sibs rule: split_sibs.induct)
  case (1 l k k' v')
  from 1(3,2) have l: "l < 256" by (rule agree_256)
  then have nl: "\<not> 256 \<le> l" by simp
  show ?case
  proof (cases "bit k l = bit k' l")
    case True
    then have "agree (Suc l) k k'" using 1(3) by (simp add: agree_Suc)
    from 1(1) [OF nl True 1(2) this, of "sibs @ [0]"] show ?thesis
      using True l by (subst cs_diverge.simps, subst split_sibs.simps) (simp add: vec_get_bits)
  next
    case False
    then show ?thesis using l by (subst cs_diverge.simps, subst split_sibs.simps) (simp add: vec_get_bits)
  qed
qed

lemma cs_trim_id: "xs = [] \<or> last xs \<noteq> 0 \<Longrightarrow> cs_trim xs = xs"
  by (subst cs_trim.simps) auto

lemma s_sibs_last_nonempty:
  assumes "canon l t" and "s_end l k t = SE" and "s_sibs l k t \<noteq> []"
  shows "last (s_sibs l k t) \<noteq> SE \<and> last (s_sibs l k t) \<in> set (s_sibs l k t)"
  using assms
proof (induction t arbitrary: l)
  case (SN a b)
  define c where "c = (if bit k l then b else a)"
  define s where "s = (if bit k l then a else b)"
  have sibs: "s_sibs l k (SN a b) = s # s_sibs (Suc l) k c" by (simp add: c_def s_def)
  have c: "canon (Suc l) c" "s_end (Suc l) k c = SE" using SN.prems by (auto simp: c_def)
  have br: "c = SE \<longrightarrow> is_SN s" using SN.prems(1) by (auto simp: branching_def c_def s_def)
  show ?case
  proof (cases "s_sibs (Suc l) k c = []")
    case True
    then have "c = SE" using c(2) by (cases c) (auto split: if_splits)
    then have "s \<noteq> SE" using br by auto
    then show ?thesis unfolding sibs True by simp
  next
    case False
    then have "last (s_sibs (Suc l) k c) \<noteq> SE" using SN.IH c by (auto simp: c_def split: if_splits)
    then show ?thesis unfolding sibs using False by simp
  qed
qed auto

text \<open>The state after a path has been rewritten.\<close>

definition cs_after :: "sparse_merkle_tree \<Rightarrow> u256 \<Rightarrow> u256 \<Rightarrow> smt list \<Rightarrow> sparse_merkle_tree" where
  "cs_after c k v sibs =
     fold put_tree (SL k v # climb_nodes 0 k sibs (SL k v)) c\<lparr>cs_root := thash (climb_tree 0 k sibs (SL k v))\<rparr>"

lemma cs_after_repr:
  assumes repr: "cs_repr c t" and t': "climb_tree 0 k sibs (SL k v) = t'" "canon 0 t'" "in_field t'"
    and sibs: "\<forall>x \<in> set sibs. subtrees x \<subseteq> insert SE (subtrees t)"
  shows "cs_repr (cs_after c k v sibs) t' \<or> found_collision (subtrees t \<union> subtrees t')"
proof (cases "no_collision crate_host (subtrees t \<union> subtrees t')")
  case True
  note cl = climb_subtrees [of 0 k sibs "SL k v", unfolded t'(1)]
  have "cs_holds (fold put_tree (SL k v # climb_nodes 0 k sibs (SL k v)) c) t'"
  proof (rule cs_holds_puts [OF _ _ t'(3) _ _ True])
    show "cs_holds c t" "in_field t" using repr by (simp_all add: cs_repr_def)
    show "set (SL k v # climb_nodes 0 k sibs (SL k v)) \<subseteq> subtrees t'" using cl by auto
    show "subtrees t' - {SE} \<subseteq> set (SL k v # climb_nodes 0 k sibs (SL k v)) \<union> subtrees t"
    proof
      fix x assume "x \<in> subtrees t' - {SE}"
      then have "x \<noteq> SE" and "x \<in> set (climb_nodes 0 k sibs (SL k v)) \<union> {SL k v} \<union> (\<Union>y \<in> set sibs. subtrees y)"
        using cl by auto
      then show "x \<in> set (SL k v # climb_nodes 0 k sibs (SL k v)) \<union> subtrees t" using sibs by auto
    qed
  qed
  then show ?thesis using t' by (simp add: cs_repr_def cs_after_def cs_holds_def)
qed (simp add: found_collision_iff)

lemma leaf_put:
  "poseidon2_hash_leaf key val = Ok (thash (SL (scalar_u256 key) (scalar_u256 val)))"
  "cs_put_node (thash (SL (scalar_u256 key) (scalar_u256 val))) (NLeaf key val) c =
    put_tree (SL (scalar_u256 key) (scalar_u256 val)) c"
  by (simp_all add: poseidon2_hash_leaf_def thash_SL put_tree_def)

lemma cs_insert_runs:
  fixes key val :: scalar
  defines "k \<equiv> scalar_u256 key" and "v \<equiv> scalar_u256 val"
  assumes repr: "cs_repr c t" and new: "entries t k = None"
  shows "\<exists>res. cs_insert c key val = Ok (res, cs_after c k v (full_sibs 0 k t)) \<and>
    sr_old_root res = thash t \<and> sr_new_root res = thash (s_put 0 k v t) \<and>
    sr_new_key res = key \<and> sr_new_value res = val \<and> sr_is_old0 res = (s_end 0 k t = SE) \<and>
    sr_siblings res = map thash (if s_end 0 k t = SE then full_sibs 0 k t else butlast (full_sibs 0 k t))"
proof -
  have t: "canon 0 t" "in_field t" "cs_holds c t" "cs_root c = thash t" using repr by (simp_all add: cs_repr_def)
  have nk: "k \<notin> keys t" using new by (simp add: keys_entries domIff)
  have ag: "\<forall>k' \<in> keys t. agree 0 k k'" by simp
  have climb: "climb_tree 0 k (full_sibs 0 k t) (SL k v) = s_put 0 k v t" by (rule climb_full [OF ag t(1) nk])
  have len: "0 + length (full_sibs 0 k t) \<le> 256" by (rule full_sibs_length [OF t(1)]) simp
  have fs: "in_field (SL k v)" by (simp add: k_def v_def)
  have loop: "rfold (cs_path_step (scalar_to_bits key)) (rev (List.enumerate 0 (map thash (full_sibs 0 k t))))
      (put_tree (SL k v) c, thash (SL k v)) =
    Ok (fold put_tree (climb_nodes 0 k (full_sibs 0 k t) (SL k v)) (put_tree (SL k v) c), thash (s_put 0 k v t))"
    using cs_path_loop [OF len fs in_field_sibs(2) [OF t(2)], of key "put_tree (SL k v) c"] climb
    by (simp add: k_def)
  note leaf = leaf_put [of key val, folded k_def v_def]
  note find = cs_find_tree [OF repr, of key, folded k_def]
  have nz: "x \<in> subtrees t \<Longrightarrow> x \<noteq> SE \<Longrightarrow> thash x \<noteq> 0" for x using t(3) by (simp add: cs_holds_def)
  from end_absent [OF t(1) new] show ?thesis
  proof
    assume e: "s_end 0 k t = SE"
    then have sibs: "full_sibs 0 k t = s_sibs 0 k t" using nm_siblings_full [OF t(1) ag nk] by simp
    have "cs_trim (map thash (s_sibs 0 k t)) = map thash (s_sibs 0 k t)"
      using s_sibs_last_nonempty [OF t(1) e] nz sibs_subtrees
      by (intro cs_trim_id) (metis last_map list.map_disc_iff subtrees_refl subsetD)
    then show ?thesis
      using loop e t(4) climb unfolding sibs
      by (simp add: cs_insert_def find cs_report_def leaf Let_def cs_after_def)
  next
    assume "\<exists>k' v'. s_end 0 k t = SL k' v' \<and> k' \<noteq> k"
    then obtain k' v' where e: "s_end 0 k t = SL k' v'" "k' \<noteq> k" by blast
    let ?S = "map thash (s_sibs 0 k t)"
    have sub: "SL k' v' \<in> subtrees t" using s_end_subtree [of 0 k t] e by simp
    then have fld: "k' < bn256_modulus" "v' < bn256_modulus" using in_field_subtree [OF t(2)] by fastforce+
    then have key': "scalar_u256 (u256_scalar k') = k'" "u256_scalar k' \<noteq> key"
      using e(2) by (auto simp: k_def scalar_u256_scalar)
    have sibs: "full_sibs 0 k t = s_sibs 0 k t @ split_sibs (length (s_sibs 0 k t)) k k' v'"
      using nm_siblings_full [OF t(1) ag nk] e by simp
    have agk: "agree (length (s_sibs 0 k t)) k k'" using end_agrees [OF t(1) ag e(1)] by simp
    have bits: "scalar_to_bits key = map (bit k) [0..<256]" "scalar_to_bits (u256_scalar k') = map (bit k') [0..<256]"
      by (simp_all add: scalar_to_bits_eq k_def key'(1))
    from cs_diverge_split [OF not_sym [OF e(2)] agk, of ?S v'] obtain ys where
      ys: "cs_diverge (scalar_to_bits (u256_scalar k')) (scalar_to_bits key) (length ?S) ?S = Ok ys"
        "ys @ [thash (SL k' v')] = map thash (full_sibs 0 k t)"
      by (auto simp: sibs bits)
    have old: "poseidon2_hash_leaf (u256_scalar k') (u256_scalar v') = Ok (thash (SL k' v'))"
      using leaf_put(1) [of "u256_scalar k'" "u256_scalar v'"] fld by (simp add: scalar_u256_scalar)
    have "thash (SL k' v') \<noteq> 0" by (rule nz [OF sub]) simp
    then have "cs_trim (map thash (full_sibs 0 k t)) = map thash (full_sibs 0 k t)"
      by (intro cs_trim_id) (simp flip: ys(2))
    then show ?thesis
      using loop e t(4) climb ys key'(2) full_sibs_nonempty [OF t(1) ag nk]
      by (simp add: cs_insert_def find cs_report_def leaf old Let_def cs_after_def map_butlast)
  qed
qed

lemma cs_after_put:
  fixes key val :: scalar
  defines "k \<equiv> scalar_u256 key" and "v \<equiv> scalar_u256 val"
  assumes repr: "cs_repr c t" and "climb_tree 0 k sibs (SL k v) = s_put 0 k v t"
    and "\<forall>x \<in> set sibs. subtrees x \<subseteq> insert SE (subtrees t)"
  shows "cs_root (cs_after c k v sibs) = thash (s_put 0 k v t) \<and>
    (cs_repr (cs_after c k v sibs) (s_put 0 k v t) \<or> found_collision (subtrees t \<union> subtrees (s_put 0 k v t)))"
proof -
  have t: "canon 0 t" "in_field t" using repr by (simp_all add: cs_repr_def)
  have "canon 0 (s_put 0 k v t)" using s_put_props [OF t(1) agree_start] by blast
  moreover have "in_field (s_put 0 k v t)" using t(2) by (simp add: in_field_put k_def v_def)
  ultimately show ?thesis
    using cs_after_repr [OF repr assms(4) _ _ assms(5)] assms(4) by (simp add: cs_after_def)
qed

lemma cs_insert_refines:
  fixes key val :: scalar
  defines "k \<equiv> scalar_u256 key" and "v \<equiv> scalar_u256 val"
  assumes repr: "cs_repr c t"
  shows "case entries t k of
      Some _ \<Rightarrow> cs_insert c key val = Err ''Key already exists''
    | None \<Rightarrow> \<exists>res c'. cs_insert c key val = Ok (res, c') \<and>
        sr_old_root res = cs_root c \<and> sr_new_root res = cs_root c' \<and> cs_root c' = thash (s_put 0 k v t) \<and>
        (cs_repr c' (s_put 0 k v t) \<or> found_collision (subtrees t \<union> subtrees (s_put 0 k v t)))"
proof (cases "entries t k")
  case None
  have t: "canon 0 t" "cs_root c = thash t" using repr by (simp_all add: cs_repr_def)
  have nk: "k \<notin> keys t" using None by (simp add: keys_entries domIff)
  have climb: "climb_tree 0 k (full_sibs 0 k t) (SL k v) = s_put 0 k v t" by (rule climb_full [OF agree_start t(1) nk])
  have sub: "\<forall>x \<in> set (full_sibs 0 k t). subtrees x \<subseteq> insert SE (subtrees t)" using full_sibs_subtrees by blast
  note after = cs_after_put [of c t key "full_sibs 0 k t" val, folded k_def v_def, OF repr climb sub]
  from cs_insert_runs [OF repr, of key val, folded k_def v_def, OF None] after t(2) None show ?thesis by auto
next
  case (Some v0)
  have "canon 0 t" using repr by (simp add: cs_repr_def)
  from end_present [OF this Some] have e: "s_end 0 k t = SL k v0" .
  have "u256_scalar k = key" by (simp add: k_def)
  then show ?thesis
    using cs_find_tree [OF repr, of key, folded k_def] e Some by (simp add: cs_insert_def cs_report_def)
qed

lemma cs_update_refines:
  fixes key val :: scalar
  defines "k \<equiv> scalar_u256 key" and "v \<equiv> scalar_u256 val"
  assumes repr: "cs_repr c t"
  shows "case entries t k of
      None \<Rightarrow> cs_update c key val = Err ''Key does not exist''
    | Some v0 \<Rightarrow> \<exists>res c'. cs_update c key val = Ok (res, c') \<and> sr_old_value res = u256_scalar v0 \<and>
        sr_old_root res = cs_root c \<and> sr_new_root res = cs_root c' \<and> cs_root c' = thash (s_put 0 k v t) \<and>
        (cs_repr c' (s_put 0 k v t) \<or> found_collision (subtrees t \<union> subtrees (s_put 0 k v t)))"
proof (cases "entries t k")
  case None
  have c: "canon 0 t" using repr by (simp add: cs_repr_def)
  have "s_end 0 k t = SL k' v' \<Longrightarrow> k' \<noteq> k \<Longrightarrow> u256_scalar k' \<noteq> key" for k' v'
  proof -
    assume e: "s_end 0 k t = SL k' v'" "k' \<noteq> k"
    have "in_field t" using repr by (simp add: cs_repr_def)
    then have "in_field (SL k' v')" using s_end_subtree [of 0 k t] e(1) in_field_subtree by metis
    then show "u256_scalar k' \<noteq> key" using e(2) by (auto simp: k_def scalar_u256_scalar)
  qed
  with cs_find_tree [OF repr, of key, folded k_def] end_absent [OF c None] None show ?thesis
    by (auto simp: cs_update_def cs_report_def)
next
  case (Some v0)
  have t: "canon 0 t" "in_field t" "cs_root c = thash t" using repr by (simp_all add: cs_repr_def)
  have e: "s_end 0 k t = SL k v0" by (rule end_present [OF t(1) Some])
  have key: "u256_scalar k = key" by (simp add: k_def)
  have climb: "climb_tree 0 k (s_sibs 0 k t) (SL k v) = s_put 0 k v t" by (rule climb_present [OF t(1) Some])
  have sub: "\<forall>x \<in> set (s_sibs 0 k t). subtrees x \<subseteq> insert SE (subtrees t)" using sibs_subtrees by blast
  have len: "0 + length (s_sibs 0 k t) \<le> 256" by (rule sibs_length [OF t(1)]) simp
  have fs: "in_field (SL k v)" by (simp add: k_def v_def)
  have loop: "rfold (cs_path_step (scalar_to_bits key)) (rev (List.enumerate 0 (map thash (s_sibs 0 k t))))
      (put_tree (SL k v) c, thash (SL k v)) =
    Ok (fold put_tree (climb_nodes 0 k (s_sibs 0 k t) (SL k v)) (put_tree (SL k v) c), thash (s_put 0 k v t))"
    using cs_path_loop [OF len fs in_field_sibs(1) [OF t(2)], of key "put_tree (SL k v) c"] climb
    by (simp add: k_def)
  have "\<exists>res. cs_update c key val = Ok (res, cs_after c k v (s_sibs 0 k t)) \<and> sr_old_value res = u256_scalar v0 \<and>
      sr_old_root res = cs_root c \<and> sr_new_root res = thash (s_put 0 k v t)"
    using cs_find_tree [OF repr, of key, folded k_def] e loop climb
    by (simp add: cs_update_def cs_report_def key Let_def cs_after_def leaf_put [of key val, folded k_def v_def])
  with cs_after_put [of c t key "s_sibs 0 k t" val, folded k_def v_def, OF repr climb sub] Some show ?thesis by auto
qed

section \<open>Client and contract\<close>

lemma host_is_poseidon2_ok: "host_is_poseidon2 P \<Longrightarrow> poseidon2_host P"
  using crate_host_ok(2) unfolding poseidon2_host_def host_is_poseidon2_def by simp

lemma same_root:
  "host_is_poseidon2 P \<Longrightarrow> nm_repr P st t \<Longrightarrow> cs_repr c t \<Longrightarrow> nm_get_root st = Ok (scalar_u256 (cs_root c))"
  by (simp add: nm_repr_def cs_repr_def nm_get_root_def scalar_u256_thash contract_tree_hash)

lemma find_honest:
  fixes key :: scalar
  defines "k \<equiv> scalar_u256 key"
  assumes P: "host_is_poseidon2 P" and repr: "cs_repr c t" and new: "entries t k = None"
  shows "\<exists>r. cs_find c key = Ok r \<and> \<not> cf_found r \<and> cf_is_old0 r = (s_end 0 k t = SE) \<and>
    honest_proof P k t (map scalar_u256 (cf_siblings r)) (scalar_u256 (cf_not_found_key r))
      (scalar_u256 (cf_not_found_value r))"
proof -
  have t: "canon 0 t" "in_field t" using repr by (simp_all add: cs_repr_def)
  have sibs: "map scalar_u256 (map thash (s_sibs 0 k t)) = map (tree_hash P) (s_sibs 0 k t)"
    using in_field_sibs(1) [OF t(2)] by (simp add: scalar_u256_thash contract_tree_hash [OF P])
  from end_absent [OF t(1) new] show ?thesis
  proof
    assume "s_end 0 k t = SE"
    then show ?thesis
      using cs_find_tree [OF repr, of key, folded k_def] sibs
      by (simp add: cs_report_def honest_proof_def) (simp add: k_def)
  next
    assume "\<exists>k' v'. s_end 0 k t = SL k' v' \<and> k' \<noteq> k"
    then obtain k' v' where e: "s_end 0 k t = SL k' v'" "k' \<noteq> k" by blast
    then have "in_field (SL k' v')" using s_end_subtree [of 0 k t] in_field_subtree [OF t(2)] by metis
    then have kv: "scalar_u256 (u256_scalar k') = k'" "scalar_u256 (u256_scalar v') = v'" "u256_scalar k' \<noteq> key"
      using e(2) by (auto simp: k_def scalar_u256_scalar)
    then show ?thesis
      using cs_find_tree [OF repr, of key, folded k_def] sibs e by (simp add: cs_report_def honest_proof_def)
  qed
qed

end
