(* ===== verification/Core_Merkle.thy ===== *)
theory Core_Merkle
  imports Prover_Crypto Merkle_Spec
begin

unbundle bit_operations_syntax

text \<open>
  The Merkle functions shared by the client and the circuits crate (\<open>circuits/src/core/merkle.rs\<close>):
  the root of a full list of leaves and the authentication path of one of them.  The lemmas show that
  the root is the textbook root and that every path leads back to it.
\<close>

section \<open>Root and path\<close>

text \<open>\<open>is_power_of_two\<close> and \<open>ilog2\<close> on a 64-bit \<open>usize\<close>.\<close>

definition is_power_of_two :: "nat \<Rightarrow> bool" where
  "is_power_of_two n \<longleftrightarrow> list_ex (\<lambda>k. n = 2 ^ k) [0..<64]"

fun ilog2 :: "nat \<Rightarrow> nat" where
  "ilog2 n = (if n \<le> 1 then 0 else Suc (ilog2 (n div 2)))"

declare ilog2.simps [simp del]

text \<open>One pass over \<open>chunks_exact(2)\<close>.\<close>

fun hash_pairs :: "scalar list \<Rightarrow> (scalar list, 'e) result" where
  "hash_pairs (l # r # rest) =
     rbind (poseidon2_compression l r) (\<lambda>h. rbind (hash_pairs rest) (\<lambda>hs. Ok (h # hs)))"
| "hash_pairs rest = Ok []"

lemma hash_pairs_value [simp]: "hash_pairs xs = Ok (pair_up compress2 xs)"
  by (induction xs rule: hash_pairs.induct) simp_all

declare rbind_cong [fundef_cong]

function merkle_root_loop :: "scalar list \<Rightarrow> (scalar, 'e) result" where
  "merkle_root_loop leaves =
     (if 1 < length leaves then rbind (hash_pairs leaves) merkle_root_loop
      else unwrap (vec_get leaves 0))"
  by pat_completeness auto

termination by (relation "measure length") auto

declare merkle_root_loop.simps [simp del]

definition merkle_root :: "scalar list \<Rightarrow> (scalar, 'e) result" where
  "merkle_root leaves =
     (if leaves = [] then Panic
      else if \<not> is_power_of_two (length leaves) then Panic
      else merkle_root_loop leaves)"

type_synonym path_state = "scalar list \<times> scalar list \<times> u64 list \<times> nat"

definition merkle_proof_step :: "nat \<Rightarrow> path_state \<Rightarrow> (path_state, 'e) result" where
  "merkle_proof_step lvl = (\<lambda>(level_nodes, path_elems, path_indices_bits_lsb, index).
     let sib_index = (if even index then index + 1 else index - 1) in
     rbind (unwrap (vec_get level_nodes sib_index)) (\<lambda>sib.
     rbind (hash_pairs level_nodes) (\<lambda>next_nodes.
     Ok (next_nodes, path_elems @ [sib], path_indices_bits_lsb @ [of_nat (index mod 2)], index div 2))))"

definition path_bits :: "u64 list \<Rightarrow> u64" where
  "path_bits bits = fold (\<lambda>(i, b) acc. acc OR push_bit i b) (List.enumerate 0 bits) 0"

definition merkle_proof :: "scalar list \<Rightarrow> nat \<Rightarrow> (scalar list \<times> u64 \<times> nat, 'e) result" where
  "merkle_proof leaves index =
     (if leaves = [] \<or> \<not> is_power_of_two (length leaves) then Panic
      else
        let levels = ilog2 (length leaves) in
        rbind (rfold merkle_proof_step [0..<levels] (leaves, [], [], index))
          (\<lambda>(level_nodes, path_elems, path_indices_bits_lsb, index').
        Ok (path_elems, path_bits path_indices_bits_lsb, levels)))"

section \<open>Reference\<close>

text \<open>Recomputing a root from a leaf, its position and its authentication path.\<close>

primrec climb :: "('a \<Rightarrow> 'a \<Rightarrow> 'a) \<Rightarrow> nat \<Rightarrow> 'a \<Rightarrow> 'a list \<Rightarrow> 'a" where
  "climb H i x [] = x"
| "climb H i x (s # ss) = climb H (i div 2) (if even i then H x s else H s x) ss"

text \<open>The siblings of position \<open>i\<close>, level by level.\<close>

primrec siblings :: "('a \<Rightarrow> 'a \<Rightarrow> 'a) \<Rightarrow> nat \<Rightarrow> 'a list \<Rightarrow> nat \<Rightarrow> 'a list" where
  "siblings H 0 xs i = []"
| "siblings H (Suc l) xs i =
     xs ! (if even i then i + 1 else i - 1) # siblings H l (pair_up H xs) (i div 2)"

lemma length_siblings [simp]: "length (siblings H l xs i) = l"
  by (induction l arbitrary: xs i) simp_all

lemma pair_up_nth: "i < length xs div 2 \<Longrightarrow> pair_up H xs ! i = H (xs ! (2 * i)) (xs ! (2 * i + 1))"
proof (induction H xs arbitrary: i rule: pair_up.induct)
  case (1 H x y xs)
  then show ?case by (cases i) auto
qed auto

lemma full_root_pair_up:
  "length xs = 2 ^ Suc l \<Longrightarrow> full_root H (Suc l) xs = full_root H l (pair_up H xs)"
proof (induction l arbitrary: xs)
  case 0
  then show ?case by (cases "(H, xs)" rule: pair_up.cases) (auto simp: numeral_2_eq_2)
next
  case (Suc l)
  have "full_root H (Suc (Suc l)) xs =
      H (full_root H (Suc l) (take (2 ^ Suc l) xs)) (full_root H (Suc l) (drop (2 ^ Suc l) xs))" by simp
  also have "full_root H (Suc l) (take (2 ^ Suc l) xs) = full_root H l (take (2 ^ l) (pair_up H xs))"
    using Suc.prems pair_up_take [of H "2 ^ l" xs] by (subst Suc.IH) simp_all
  also have "full_root H (Suc l) (drop (2 ^ Suc l) xs) = full_root H l (drop (2 ^ l) (pair_up H xs))"
    using Suc.prems pair_up_drop [of H "2 ^ l" xs] by (subst Suc.IH) simp_all
  finally show ?case by simp
qed

lemma climb_siblings:
  "length xs = 2 ^ l \<Longrightarrow> i < 2 ^ l \<Longrightarrow> climb H i (xs ! i) (siblings H l xs i) = full_root H l xs"
proof (induction l arbitrary: xs i)
  case 0
  then show ?case by (cases xs) auto
next
  case (Suc l)
  have "(if even i then H (xs ! i) (xs ! (i + 1)) else H (xs ! (i - 1)) (xs ! i)) =
      H (xs ! (2 * (i div 2))) (xs ! (2 * (i div 2) + 1))"
    by (cases "even i") (auto elim!: evenE oddE)
  also have "\<dots> = pair_up H xs ! (i div 2)" using Suc.prems by (subst pair_up_nth) auto
  finally have step: "climb H i (xs ! i) (siblings H (Suc l) xs i) =
      climb H (i div 2) (pair_up H xs ! (i div 2)) (siblings H l (pair_up H xs) (i div 2))"
    by (cases "even i") simp_all
  have "climb H (i div 2) (pair_up H xs ! (i div 2)) (siblings H l (pair_up H xs) (i div 2)) =
      full_root H l (pair_up H xs)"
    using Suc.prems by (intro Suc.IH) auto
  then show ?case unfolding step using Suc.prems by (simp add: full_root_pair_up del: full_root.simps)
qed

section \<open>The code computes it\<close>

lemma is_power_of_two_iff: "is_power_of_two n \<longleftrightarrow> (\<exists>k < 64. n = 2 ^ k)"
  by (auto simp: is_power_of_two_def list_ex_iff)

lemma ilog2_power [simp]: "ilog2 (2 ^ k) = k"
proof (induction k)
  case (Suc k)
  have "(2::nat) ^ Suc k \<noteq> 0" "(2::nat) ^ Suc k \<noteq> 1" by simp_all
  then have "\<not> (2::nat) ^ Suc k \<le> 1" by linarith
  then show ?case using Suc by (subst ilog2.simps) simp
qed (simp add: ilog2.simps)

lemma merkle_root_loop_value:
  "length leaves = 2 ^ l \<Longrightarrow> merkle_root_loop leaves = (Ok (full_root compress2 l leaves) :: (scalar, 'e) result)"
proof (induction l arbitrary: leaves)
  case 0
  then show ?case by (cases leaves) (simp_all add: merkle_root_loop.simps)
next
  case (Suc l)
  have "1 < length leaves" using Suc.prems one_less_power [of "2::nat" "Suc l"] by simp
  then have "merkle_root_loop leaves = (merkle_root_loop (pair_up compress2 leaves) :: (scalar, 'e) result)"
    by (simp add: merkle_root_loop.simps [of leaves])
  then show ?case using Suc by (simp add: full_root_pair_up del: full_root.simps)
qed

lemma merkle_root_value:
  "length leaves = 2 ^ l \<Longrightarrow> l < 64 \<Longrightarrow> merkle_root leaves = Ok (full_root compress2 l leaves)"
  by (auto simp: merkle_root_def is_power_of_two_iff merkle_root_loop_value)

lemma merkle_root_panics: "\<not> is_power_of_two (length leaves) \<Longrightarrow> merkle_root leaves = Panic"
  by (simp add: merkle_root_def)

lemma merkle_proof_steps:
  "length xs = 2 ^ l \<Longrightarrow> i < 2 ^ l \<Longrightarrow>
    rfold merkle_proof_step [b..<b + l] (xs, path, bits, i) =
      (Ok ([full_root compress2 l xs], path @ siblings compress2 l xs i,
         bits @ map (\<lambda>j. of_nat (i div 2 ^ j mod 2)) [0..<l], 0) :: (path_state, 'e) result)"
proof (induction l arbitrary: b xs path bits i)
  case 0
  then show ?case by (cases xs) auto
next
  case (Suc l)
  let ?s = "if even i then i + 1 else i - 1"
  have "?s < length xs" using Suc.prems by (auto elim!: evenE oddE)
  then have step: "merkle_proof_step b (xs, path, bits, i) =
      (Ok (pair_up compress2 xs, path @ [xs ! ?s], bits @ [of_nat (i mod 2)], i div 2) :: (path_state, 'e) result)"
    by (simp add: merkle_proof_step_def Let_def)
  have upt: "[b..<b + Suc l] = b # [Suc b..<Suc b + l]" by (simp add: upt_rec)
  have bits: "map (\<lambda>j. of_nat (i div 2 ^ j mod 2)) [0..<Suc l] =
      (of_nat (i mod 2) :: u64) # map (\<lambda>j. of_nat (i div 2 div 2 ^ j mod 2)) [0..<l]"
    by (simp add: map_upt_Suc div_mult2_eq del: upt_Suc)
  show ?case unfolding upt rfold.simps step rbind.simps bits
    using Suc.prems by (subst Suc.IH) (simp_all add: full_root_pair_up del: full_root.simps)
qed

lemma path_bits_snoc: "path_bits (bits @ [b]) = path_bits bits OR push_bit (length bits) b"
  by (simp add: path_bits_def enumerate_append_eq)

lemma path_bits_index:
  "path_bits (map (\<lambda>j. of_nat (i div 2 ^ j mod 2)) [0..<l]) = (of_nat (i mod 2 ^ l) :: u64)"
proof (induction l)
  case (Suc l)
  have digit: "i div 2 ^ l mod 2 = of_bool (bit i l)" by (simp add: bit_iff_odd mod2_eq_if)
  have "(of_nat (i mod 2 ^ l) :: u64) OR push_bit l (of_nat (i div 2 ^ l mod 2)) = of_nat (i mod 2 ^ Suc l)"
    unfolding digit take_bit_eq_mod [symmetric]
    by (rule bit_eqI) (auto simp: bit_or_iff bit_push_bit_iff bit_of_nat_iff bit_take_bit_iff less_Suc_eq bit_1_iff)
  then show ?case by (simp add: path_bits_snoc Suc)
qed (simp add: path_bits_def)

lemma merkle_proof_value:
  assumes "length leaves = 2 ^ l" and "l < 64" and "i < 2 ^ l"
  shows "merkle_proof leaves i = (Ok (siblings compress2 l leaves i, of_nat i, l) :: (_, 'e) result)"
proof -
  have "is_power_of_two (length leaves)" and "leaves \<noteq> []" using assms by (auto simp: is_power_of_two_iff)
  then show ?thesis
    using merkle_proof_steps [of leaves l i 0 "[]" "[]", where 'e = 'e] assms
    by (simp add: merkle_proof_def Let_def path_bits_index)
qed

lemma merkle_proof_out_of_range:
  assumes "length leaves = 2 ^ l" and "l < 64" and "2 ^ l \<le> i" and "0 < l"
  shows "merkle_proof leaves i = (Panic :: (_, 'e) result)"
proof -
  have "\<not> (if even i then i + 1 else i - 1) < 2 ^ l"
  proof (cases "even i")
    case False
    then have "i \<noteq> 2 ^ l" using assms(4) by auto
    then show ?thesis using assms(3) False by simp
  qed (use assms(3) in simp)
  then have "merkle_proof_step 0 (leaves, [], [], i) = (Panic :: (path_state, 'e) result)"
    using assms(1) by (simp add: merkle_proof_step_def Let_def vec_get_def)
  moreover have "[0..<l] = 0 # [1..<l]" using assms(4) by (simp add: upt_conv_Cons)
  moreover have "is_power_of_two (length leaves)" and "leaves \<noteq> []" using assms by (auto simp: is_power_of_two_iff)
  ultimately show ?thesis by (simp add: merkle_proof_def Let_def assms(1))
qed

end
