(* ===== verification/Prover_Merkle.thy ===== *)
theory Prover_Merkle
  imports Core_Merkle
begin

text \<open>
  The client's Merkle tree (\<open>app/crates/prover/src/merkle.rs\<close>): all levels are kept in memory, a leaf
  is written at the next index and the path above it is rehashed.  The refinement relation
  \<open>mt_refines\<close> says that every stored node is the root of its subtree of the inserted leaves padded
  with the zero leaf; the operations keep it, and the exported proofs lead back to the root.

  \<open>pw\<close> is the pointer width of the compilation target (32 for wasm32): a \<open>usize\<close> is a natural
  number, shifts and checked operations on it fail beyond that width, and the vectors of the tree
  are requested from the allocator, which refuses more than \<open>isize::MAX\<close> bytes. A tree of \<open>depth\<close>
  levels stores \<open>2 ^ (depth + 5)\<close> bytes of leaves, so \<open>depth + 6 < pw\<close> is exactly what it needs. The vectors of
  \<open>compute_merkle_root\<close> are no longer than the bytes it is given and cannot exceed that bound.
\<close>

section \<open>Data and operations\<close>

record merkle_proof_js =
  mp_path_elements :: bytes
  mp_path_indices :: bytes
  mp_root :: bytes
  mp_levels :: nat

record merkle_tree =
  mt_levels_data :: "scalar list list"
  mt_depth :: nat
  mt_next_index :: u64

text \<open>Reading and writing \<open>levels_data[level][index]\<close>; out of range panics.\<close>

definition get_node :: "scalar list list \<Rightarrow> nat \<Rightarrow> nat \<Rightarrow> (scalar, 'e) result" where
  "get_node ld lvl i = rbind (unwrap (vec_get ld lvl)) (\<lambda>row. unwrap (vec_get row i))"

definition set_node :: "scalar list list \<Rightarrow> nat \<Rightarrow> nat \<Rightarrow> scalar \<Rightarrow> (scalar list list, 'e) result" where
  "set_node ld lvl i x =
     rbind (unwrap (vec_get ld lvl)) (\<lambda>row.
     if i < length row then Ok (ld[lvl := row[i := x]]) else Panic)"

text \<open>A \<open>Scalar\<close> takes 32 bytes (four 64-bit limbs), a vector three words.\<close>

definition scalar_size :: nat where
  "scalar_size = 32"

definition vec_size :: "nat \<Rightarrow> nat" where
  "vec_size pw = 3 * (pw div 8)"

definition build_step ::
  "nat \<Rightarrow> nat \<Rightarrow> scalar list list \<times> nat \<times> scalar \<Rightarrow> (scalar list list \<times> nat \<times> scalar, 'e) result" where
  "build_step pw lvl = (\<lambda>(levels_data, current_level_size, prev_hash).
     let current_level_size' = current_level_size div 2 in
     rbind (poseidon2_compression prev_hash prev_hash) (\<lambda>prev_hash'.
     rbind (vec_filled pw scalar_size current_level_size' prev_hash') (\<lambda>row.
     Ok (levels_data @ [row], current_level_size', prev_hash'))))"

definition build_tree :: "nat \<Rightarrow> nat \<Rightarrow> scalar \<Rightarrow> (merkle_tree, js_value) result" where
  "build_tree pw depth zero =
     (if depth = 0 \<or> 32 < depth then Err ''Depth must be between 1 and 32''
      else if pw \<le> depth then Err ''Depth too large for this platform, would overflow''
      else
        let num_leaves = 2 ^ depth; capacity = depth + 1 in
        if 2 ^ pw \<le> capacity then Err ''Depth overflow''
        else
          rbind (with_capacity pw capacity (vec_size pw)) (\<lambda>_.
          rbind (vec_filled pw scalar_size num_leaves zero) (\<lambda>leaves.
          rbind (rfold (build_step pw) [0..<depth] ([leaves], num_leaves, zero))
            (\<lambda>(levels_data, current_level_size, prev_hash).
          Ok \<lparr>mt_levels_data = levels_data, mt_depth = depth, mt_next_index = 0\<rparr>))))"

definition merkle_tree_new :: "nat \<Rightarrow> nat \<Rightarrow> (merkle_tree, js_value) result" where
  "merkle_tree_new pw depth = build_tree pw depth 0"

definition new_with_zero_leaf :: "nat \<Rightarrow> nat \<Rightarrow> bytes \<Rightarrow> (merkle_tree, js_value) result" where
  "new_with_zero_leaf pw depth zero_leaf_bytes =
     rbind (bytes_to_scalar zero_leaf_bytes) (\<lambda>zero. build_tree pw depth zero)"

definition insert_step ::
  "nat \<Rightarrow> scalar list list \<times> nat \<times> scalar \<Rightarrow> (scalar list list \<times> nat \<times> scalar, js_value) result" where
  "insert_step lvl = (\<lambda>(levels_data, current_index, current_hash).
     let sibling_index = current_index XOR 1 in
     rbind (get_node levels_data lvl sibling_index) (\<lambda>sibling.
     let (left, right) =
       (if even current_index then (current_hash, sibling) else (sibling, current_hash)) in
     rbind (poseidon2_compression left right) (\<lambda>current_hash'.
     let current_index' = current_index div 2 in
     rbind (set_node levels_data (lvl + 1) current_index' current_hash') (\<lambda>levels_data'.
     Ok (levels_data', current_index', current_hash')))))"

definition mt_insert :: "nat \<Rightarrow> merkle_tree \<Rightarrow> bytes \<Rightarrow> (u32 \<times> merkle_tree, js_value) result" where
  "mt_insert pw t leaf_bytes =
     rbind (bytes_to_scalar leaf_bytes) (\<lambda>leaf.
     let index = mt_next_index t in
     if 64 \<le> mt_depth t then Panic
     else if push_bit (mt_depth t) 1 \<le> index then Err ''Merkle tree is full''
     else if 2 ^ pw \<le> unat index then Err ''Index too large''
     else
       let index_usize = unat index in
       rbind (set_node (mt_levels_data t) 0 index_usize leaf) (\<lambda>ld.
       rbind (rfold insert_step [0..<mt_depth t] (ld, index_usize, leaf))
         (\<lambda>(ld', current_index, current_hash).
       if unat index + 1 = 2 ^ 64 then Err ''Index overflow''
       else
         let t' = t\<lparr>mt_levels_data := ld', mt_next_index := index + 1\<rparr> in
         if unat index < 2 ^ 32 then Ok (of_nat (unat index), t')
         else Err ''Index too large for u32'')))"

definition mt_root :: "merkle_tree \<Rightarrow> (bytes, 'e) result" where
  "mt_root t = rbind (get_node (mt_levels_data t) (mt_depth t) 0) (\<lambda>root. Ok (scalar_to_bytes root))"

definition get_proof_step ::
  "merkle_tree \<Rightarrow> nat \<Rightarrow> bytes \<times> u64 \<times> nat \<Rightarrow> (bytes \<times> u64 \<times> nat, js_value) result" where
  "get_proof_step t lvl = (\<lambda>(path_elements, path_indices_bits, current_index).
     let sibling_index = current_index XOR 1 in
     rbind (get_node (mt_levels_data t) lvl sibling_index) (\<lambda>sibling.
     let path_elements' = path_elements @ scalar_to_bytes sibling in
     if odd current_index \<and> 64 \<le> lvl then Panic
     else
       let path_indices_bits' =
         (if odd current_index then path_indices_bits OR push_bit lvl 1 else path_indices_bits) in
       Ok (path_elements', path_indices_bits', current_index div 2)))"

definition get_proof :: "nat \<Rightarrow> merkle_tree \<Rightarrow> u32 \<Rightarrow> (merkle_proof_js, js_value) result" where
  "get_proof pw t index =
     (if pw \<le> mt_depth t then Panic
      else if 2 ^ mt_depth t \<le> unat index then Err ''Index out of bounds''
      else if 2 ^ pw \<le> mt_depth t * FIELD_SIZE then Err ''Overflow calculating path capacity''
      else
        rbind (with_capacity pw (mt_depth t * FIELD_SIZE) 1) (\<lambda>_.
        rbind (rfold (get_proof_step t) [0..<mt_depth t] ([], 0, unat index))
          (\<lambda>(path_elements, path_indices_bits, current_index).
        let path_indices = scalar_to_bytes (of_nat (unat path_indices_bits)) in
        rbind (get_node (mt_levels_data t) (mt_depth t) 0) (\<lambda>r.
        Ok \<lparr>mp_path_elements = path_elements, mp_path_indices = path_indices,
            mp_root = scalar_to_bytes r, mp_levels = mt_depth t\<rparr>))))"

text \<open>\<open>compute_merkle_root\<close>: \<open>chunks(2)\<close> with both elements read.\<close>

fun hash_chunks :: "scalar list \<Rightarrow> (scalar list, 'e) result" where
  "hash_chunks [] = Ok []"
| "hash_chunks [x] = Panic"
| "hash_chunks (l # r # rest) =
     rbind (poseidon2_compression l r) (\<lambda>h. rbind (hash_chunks rest) (\<lambda>hs. Ok (h # hs)))"

primrec parse_leaves :: "bytes \<Rightarrow> nat list \<Rightarrow> (scalar list, js_value) result" where
  "parse_leaves bs [] = Ok []"
| "parse_leaves bs (i # is) =
     rbind (bytes_to_scalar (take FIELD_SIZE (drop (i * FIELD_SIZE) bs))) (\<lambda>x.
     rbind (parse_leaves bs is) (\<lambda>xs. Ok (x # xs)))"

definition compute_merkle_root :: "nat \<Rightarrow> bytes \<Rightarrow> nat \<Rightarrow> (bytes, js_value) result" where
  "compute_merkle_root pw leaves_bytes depth =
     (if length leaves_bytes mod FIELD_SIZE \<noteq> 0 then Err ''Leaves bytes must be multiple of 32''
      else
        let num_leaves = length leaves_bytes div FIELD_SIZE in
        if pw \<le> depth then Panic
        else if num_leaves \<noteq> 2 ^ depth
        then Err (''Expected '' @ show_nat (2 ^ depth) @ '' leaves for depth '' @ show_nat depth @
                  '', got '' @ show_nat num_leaves)
        else
          rbind (parse_leaves leaves_bytes [0..<num_leaves]) (\<lambda>current_level.
          rbind (rfold (\<lambda>_ lv. hash_chunks lv) [0..<depth] current_level) (\<lambda>top.
          rbind (unwrap (vec_get top 0)) (\<lambda>r.
          Ok (scalar_to_bytes r)))))"

section \<open>Refinement of the padded tree\<close>

definition zero_hash :: "scalar \<Rightarrow> nat \<Rightarrow> scalar" where
  "zero_hash z i = ((\<lambda>h. compress2 h h) ^^ i) z"

lemma zero_hash_simps [simp]:
  "zero_hash z 0 = z" "zero_hash z (Suc i) = compress2 (zero_hash z i) (zero_hash z i)"
  by (simp_all add: zero_hash_def)

lemma zero_hash_shift: "zero_hash (compress2 z z) i = zero_hash z (Suc i)"
  by (induction i) simp_all

abbreviation subtree :: "scalar \<Rightarrow> nat \<Rightarrow> nat \<Rightarrow> scalar list \<Rightarrow> scalar" where
  "subtree z \<equiv> node compress2 (zero_hash z)"

definition mt_refines :: "merkle_tree \<Rightarrow> scalar \<Rightarrow> scalar list \<Rightarrow> bool" where
  "mt_refines t z xs \<longleftrightarrow>
     0 < mt_depth t \<and> mt_depth t \<le> 32 \<and> length xs \<le> 2 ^ mt_depth t \<and>
     mt_next_index t = of_nat (length xs) \<and>
     mt_levels_data t =
       map (\<lambda>l. map (\<lambda>k. subtree z l k xs) [0..<2 ^ (mt_depth t - l)]) [0..<Suc (mt_depth t)]"

lemma xor_1: "(k :: nat) XOR 1 = (if even k then k + 1 else k - 1)"
  using xor_Suc_0_eq [of k] by simp

text \<open>With the zero law a node is the hash of its children wherever it is.\<close>

lemma subtree_Suc: "subtree z (Suc l) k xs = compress2 (subtree z l (2 * k) xs) (subtree z l (Suc (2 * k)) xs)"
proof (cases "k * 2 ^ Suc l < length xs")
  case False
  then have "length xs \<le> 2 * k * 2 ^ l" "length xs \<le> Suc (2 * k) * 2 ^ l" by auto
  then show ?thesis using False by (simp add: not_less)
qed (rule node_Suc)

lemma subtree_parent:
  "subtree z (Suc l) (k div 2) xs =
    (if even k then compress2 (subtree z l k xs) (subtree z l (k XOR 1) xs)
     else compress2 (subtree z l (k XOR 1) xs) (subtree z l k xs))"
  unfolding subtree_Suc xor_1 by (cases "even k") (auto elim!: evenE oddE)

text \<open>A new leaf changes only the nodes above it.\<close>

lemma node_snoc_other:
  assumes "k \<noteq> length xs div 2 ^ l"
  shows "node H zs l k (xs @ [x]) = node H zs l k xs"
proof (cases "k < length xs div 2 ^ l")
  case True
  then have "Suc k * 2 ^ l \<le> length xs div 2 ^ l * 2 ^ l" by (intro mult_le_mono1) simp
  also have "\<dots> \<le> length xs" by simp
  finally show ?thesis by (rule node_prefix)
next
  case False
  then have "Suc (length xs div 2 ^ l) * 2 ^ l \<le> k * 2 ^ l" using assms by (intro mult_le_mono1) simp
  moreover have "length xs < Suc (length xs div 2 ^ l) * 2 ^ l"
    using dividend_less_times_div [of "2 ^ l" "length xs"] by (simp add: algebra_simps)
  ultimately have "length (xs @ [x]) \<le> k * 2 ^ l" "length xs \<le> k * 2 ^ l" by auto
  then show ?thesis by (simp only: node_beyond)
qed

lemma row_update:
  assumes "i < n" and "\<And>k. k < n \<Longrightarrow> k \<noteq> i \<Longrightarrow> f k = g k"
  shows "(map f [0..<n])[i := g i] = map g [0..<n]"
  by (rule nth_equalityI) (use assms in \<open>auto simp: nth_list_update\<close>)

lemma build_steps:
  assumes "2 ^ n * scalar_size < 2 ^ (pw - 1)"
  shows "rfold (build_step pw) [b..<b + n] (ld, 2 ^ n, h) =
    (Ok (ld @ map (\<lambda>j. replicate (2 ^ (n - j)) (zero_hash h j)) [1..<Suc n], 1, zero_hash h n) :: (_, 'e) result)"
  using assms
proof (induction n arbitrary: b ld h)
  case (Suc n)
  have upt: "[b..<b + Suc n] = b # [Suc b..<Suc b + n]" by (simp add: upt_rec)
  have rows: "map (\<lambda>j. replicate (2 ^ (Suc n - j)) (zero_hash h j)) [1..<Suc (Suc n)] =
      replicate (2 ^ n) (compress2 h h) #
      map (\<lambda>j. replicate (2 ^ (n - j)) (zero_hash (compress2 h h) j)) [1..<Suc n]"
    by (simp add: upt_conv_Cons map_Suc_upt [symmetric] zero_hash_shift del: upt_Suc)
  have fits: "2 ^ n * scalar_size < 2 ^ (pw - 1)" using Suc.prems by simp
  have step: "build_step pw b (ld, 2 ^ Suc n, h) =
      (Ok (ld @ [replicate (2 ^ n) (compress2 h h)], 2 ^ n, compress2 h h) :: (_, 'e) result)"
    by (simp add: build_step_def Let_def vec_filled_fits [OF fits])
  show ?case unfolding upt rfold.simps step rbind.simps rows Suc.IH [OF fits] zero_hash_shift by simp
qed (simp add: build_step_def)

lemma leaves_fit: "depth + 6 < pw \<longleftrightarrow> 2 ^ depth * scalar_size < 2 ^ (pw - 1)"
proof -
  have "2 ^ depth * scalar_size = (2::nat) ^ (depth + 5)" by (simp add: scalar_size_def power_add)
  then show ?thesis by (auto simp: power_strict_increasing_iff)
qed

lemma path_fits:
  assumes "0 < depth" and "depth + 6 < pw"
  shows "(depth + 1) * vec_size pw < 2 ^ (pw - 1)" "depth * 32 < 2 ^ (pw - 1)" "depth + 1 < 2 ^ pw"
    "depth * 32 < 2 ^ pw"
proof -
  have sq: "pw * pw < 2 ^ (pw - 1)" using assms by (intro pw_square_fits) simp
  have "vec_size pw \<le> pw" by (simp add: vec_size_def)
  then have "(depth + 1) * vec_size pw \<le> pw * pw" using assms by (intro mult_le_mono) simp_all
  with sq show cap: "(depth + 1) * vec_size pw < 2 ^ (pw - 1)" by simp
  have "depth * 32 < 2 ^ depth * 32" by (simp add: less_exp)
  also have "2 ^ depth * 32 < (2::nat) ^ (pw - 1)" using assms(2) by (simp add: leaves_fit scalar_size_def)
  finally show path: "depth * 32 < 2 ^ (pw - 1)" .
  have "(2::nat) ^ (pw - 1) \<le> 2 ^ pw" by (intro power_increasing) simp_all
  with path show wide: "depth * 32 < 2 ^ pw" by (rule less_le_trans)
  show "depth + 1 < 2 ^ pw" using wide assms(1) by linarith
qed

lemma build_tree_refines:
  assumes "0 < depth" and "depth \<le> 32" and "depth + 6 < pw"
  shows "\<exists>t. build_tree pw depth z = Ok t \<and> mt_depth t = depth \<and> mt_refines t z []"
proof -
  let ?ld = "replicate (2 ^ depth) z # map (\<lambda>j. replicate (2 ^ (depth - j)) (zero_hash z j)) [1..<Suc depth]"
  have "[0..<Suc depth] = 0 # [1..<Suc depth]" by (simp add: upt_conv_Cons del: upt_Suc)
  then have rows: "?ld = map (\<lambda>l. map (\<lambda>k. subtree z l k []) [0..<2 ^ (depth - l)]) [0..<Suc depth]"
    by (simp add: map_replicate_const del: upt_Suc)
  have fits: "2 ^ depth * scalar_size < 2 ^ (pw - 1)" using assms(3) by (simp only: leaves_fit)
  have "rfold (build_step pw) [0..<depth] ([replicate (2 ^ depth) z], 2 ^ depth, z) =
      (Ok (?ld, 1, zero_hash z depth) :: (_, js_value) result)"
    using build_steps [OF fits, of 0 "[replicate (2 ^ depth) z]" z, where 'e = js_value] by simp
  moreover have "with_capacity pw (depth + 1) (vec_size pw) = (Ok () :: (unit, js_value) result)"
    using path_fits(1) [OF assms(1,3)] by (simp add: with_capacity_def)
  ultimately have "build_tree pw depth z = Ok \<lparr>mt_levels_data = ?ld, mt_depth = depth, mt_next_index = 0\<rparr>"
    using assms path_fits(3) [OF assms(1,3)] by (simp add: build_tree_def Let_def vec_filled_fits [OF fits])
  then show ?thesis using assms unfolding rows by (auto simp: mt_refines_def simp del: upt_Suc)
qed

text \<open>The depths for which the tree cannot be built.\<close>

lemma build_tree_refused:
  assumes "0 < depth" and "depth \<le> 32" and "pw \<le> depth + 6"
  shows "build_tree pw depth z =
    (if pw \<le> depth then Err ''Depth too large for this platform, would overflow'' else Panic)"
proof (cases "pw \<le> depth")
  case False
  have "\<not> 2 ^ pw \<le> depth + 1"
  proof -
    have "pw < 2 ^ pw" by (rule less_exp)
    with False show ?thesis by linarith
  qed
  have over: "2 ^ (pw - 1) \<le> 2 ^ depth * scalar_size" using assms(3) leaves_fit [of depth pw] by simp
  show ?thesis using assms False \<open>\<not> 2 ^ pw \<le> depth + 1\<close>
    by (simp add: build_tree_def Let_def with_capacity_def vec_filled_overflow [OF over])
qed (use assms in \<open>simp add: build_tree_def\<close>)

section \<open>Insertion\<close>

text \<open>The levels while the path is being rehashed: up to \<open>l\<close> of the new leaves, above of the old.\<close>

definition mid_levels :: "scalar \<Rightarrow> nat \<Rightarrow> scalar list \<Rightarrow> scalar list \<Rightarrow> nat \<Rightarrow> scalar list list" where
  "mid_levels z d xs ys l =
     map (\<lambda>j. map (\<lambda>k. subtree z j k (if j \<le> l then ys else xs)) [0..<2 ^ (d - j)]) [0..<Suc d]"

lemma div_pow_less: "(i :: nat) < 2 ^ d \<Longrightarrow> l \<le> d \<Longrightarrow> i div 2 ^ l < 2 ^ (d - l)"
  by (simp add: less_mult_imp_div_less flip: power_add)

lemma get_node_row:
  "l \<le> d \<Longrightarrow> k < 2 ^ (d - l) \<Longrightarrow> get_node (map (\<lambda>j. map (f j) [0..<2 ^ (d - j)]) [0..<Suc d]) l k = Ok (f l k)"
  by (simp add: get_node_def del: upt_Suc)

lemma xor_1_less: "(k :: nat) < 2 ^ n \<Longrightarrow> 0 < n \<Longrightarrow> k XOR 1 < 2 ^ n"
  unfolding xor_1 by (cases n) (auto elim!: evenE oddE)

lemma insert_step_mid:
  assumes i: "length xs < 2 ^ d" and l: "l < d" and ys: "ys = xs @ [x]"
  shows "insert_step l (mid_levels z d xs ys l, length xs div 2 ^ l, subtree z l (length xs div 2 ^ l) ys) =
    Ok (mid_levels z d xs ys (Suc l), length xs div 2 ^ Suc l, subtree z (Suc l) (length xs div 2 ^ Suc l) ys)"
proof -
  let ?k = "length xs div 2 ^ l"
  have k: "?k < 2 ^ (d - l)" and k': "?k div 2 < 2 ^ (d - Suc l)"
    using div_pow_less [OF i, of l] div_pow_less [OF i, of "Suc l"] l by (simp_all add: div_pow_Suc)
  have sib: "get_node (mid_levels z d xs ys l) l (?k XOR 1) = Ok (subtree z l (?k XOR 1) ys)"
    using get_node_row [of l d "?k XOR 1" "\<lambda>j k. subtree z j k (if j \<le> l then ys else xs)"] l
      xor_1_less [OF k] by (simp add: mid_levels_def)
  have row: "mid_levels z d xs ys l ! Suc l = map (\<lambda>k. subtree z (Suc l) k xs) [0..<2 ^ (d - Suc l)]"
    using l by (simp add: mid_levels_def del: upt_Suc)
  have "(map (\<lambda>k. subtree z (Suc l) k xs) [0..<2 ^ (d - Suc l)])[?k div 2 := subtree z (Suc l) (?k div 2) ys] =
      map (\<lambda>k. subtree z (Suc l) k ys) [0..<2 ^ (d - Suc l)]"
    by (rule row_update [OF k', where g = "\<lambda>k. subtree z (Suc l) k ys"])
      (simp add: ys node_snoc_other div_pow_Suc)
  then have "set_node (mid_levels z d xs ys l) (Suc l) (?k div 2) (subtree z (Suc l) (?k div 2) ys) =
      (Ok ((mid_levels z d xs ys l)[Suc l := map (\<lambda>k. subtree z (Suc l) k ys) [0..<2 ^ (d - Suc l)]]) :: (_, js_value) result)"
    using l k' row by (simp add: set_node_def mid_levels_def del: upt_Suc)
  also have "(mid_levels z d xs ys l)[Suc l := map (\<lambda>k. subtree z (Suc l) k ys) [0..<2 ^ (d - Suc l)]] =
      mid_levels z d xs ys (Suc l)"
    by (rule nth_equalityI) (use l in \<open>auto simp: mid_levels_def nth_list_update simp del: upt_Suc\<close>)
  finally have set: "set_node (mid_levels z d xs ys l) (Suc l) (?k div 2) (subtree z (Suc l) (?k div 2) ys) =
      (Ok (mid_levels z d xs ys (Suc l)) :: (_, js_value) result)" .
  show ?thesis
    unfolding insert_step_def prod.case Let_def sib rbind.simps
    using set subtree_parent [of z l ?k ys] by (cases "even ?k") (simp_all add: div_pow_Suc)
qed

lemma insert_steps:
  assumes "length xs < 2 ^ d" and "l \<le> d" and "ys = xs @ [x]"
  shows "rfold insert_step [0..<l] (mid_levels z d xs ys 0, length xs, x) =
    Ok (mid_levels z d xs ys l, length xs div 2 ^ l, subtree z l (length xs div 2 ^ l) ys)"
  using assms(2)
proof (induction l)
  case 0
  then show ?case using assms(3) by simp
next
  case (Suc l)
  then show ?case using insert_step_mid [OF assms(1) _ assms(3), of l z] by (simp add: rfold_append)
qed

lemma mt_insert_refines:
  assumes t: "mt_refines t z xs" and room: "length xs < 2 ^ mt_depth t" and pw: "mt_depth t < pw"
    and leaf: "bytes_to_scalar leaf_bytes = Ok x"
  shows "\<exists>t'. mt_insert pw t leaf_bytes = Ok (of_nat (length xs), t') \<and>
    mt_depth t' = mt_depth t \<and> mt_refines t' z (xs @ [x])"
proof -
  let ?d = "mt_depth t" and ?i = "length xs"
  let ?t' = "t\<lparr>mt_levels_data := mid_levels z ?d xs (xs @ [x]) ?d, mt_next_index := of_nat (Suc ?i)\<rparr>"
  have d: "0 < ?d" "?d \<le> 32" using t by (auto simp: mt_refines_def)
  have "?i < 2 ^ 32" using room d(2) by (meson less_le_trans one_le_numeral power_increasing)
  have small: "?i < 2 ^ 32" by fact
  have idx: "unat (mt_next_index t) = ?i"
    using t small by (simp add: mt_refines_def unat_of_nat take_bit_eq_mod)
  have "(2::nat) ^ ?d \<le> 2 ^ 32" using d(2) by (intro power_increasing) simp_all
  then have "unat (of_nat (2 ^ ?d) :: u64) = 2 ^ ?d" by (simp only: unat_of_nat take_bit_eq_mod) simp
  then have lim: "unat (2 ^ ?d :: u64) = 2 ^ ?d" by simp
  have not_full: "\<not> push_bit ?d 1 \<le> mt_next_index t" using room by (simp add: word_le_nat_alt lim idx)
  have usize: "\<not> 2 ^ pw \<le> ?i" using room pw by (meson less_le_trans not_less one_le_numeral order_less_imp_le power_increasing)
  have set: "set_node (mt_levels_data t) 0 ?i x = Ok (mid_levels z ?d xs (xs @ [x]) 0)"
  proof -
    let ?ld = "map (\<lambda>l. map (\<lambda>k. subtree z l k xs) [0..<2 ^ (?d - l)]) [0..<Suc ?d]"
    have "(map (\<lambda>k. subtree z 0 k xs) [0..<2 ^ ?d])[?i := subtree z 0 ?i (xs @ [x])] =
        map (\<lambda>k. subtree z 0 k (xs @ [x])) [0..<2 ^ ?d]"
      by (rule row_update [OF room, where g = "\<lambda>k. subtree z 0 k (xs @ [x])"]) (simp add: node_snoc_other)
    then have "set_node ?ld 0 ?i x = Ok (?ld[0 := map (\<lambda>k. subtree z 0 k (xs @ [x])) [0..<2 ^ ?d]])"
      using room by (simp add: set_node_def del: upt_Suc)
    also have "?ld[0 := map (\<lambda>k. subtree z 0 k (xs @ [x])) [0..<2 ^ ?d]] = mid_levels z ?d xs (xs @ [x]) 0"
      by (rule nth_equalityI) (auto simp: mid_levels_def nth_list_update simp del: upt_Suc)
    finally show ?thesis using t by (simp add: mt_refines_def)
  qed
  have nx: "mt_next_index t + 1 = 1 + of_nat ?i" using t by (simp add: mt_refines_def)
  have "mt_insert pw t leaf_bytes = Ok (of_nat ?i, ?t')"
    using insert_steps [OF room order_refl refl, of z x] d small usize not_full idx
    by (simp add: mt_insert_def leaf set Let_def unat_arith_simps nx)
  moreover have "mt_refines ?t' z (xs @ [x])"
    using t room by (simp add: mt_refines_def mid_levels_def del: upt_Suc cong: map_cong)
  ultimately show ?thesis by auto
qed

lemma mt_insert_full:
  assumes t: "mt_refines t z xs" and full: "length xs = 2 ^ mt_depth t"
    and leaf: "bytes_to_scalar leaf_bytes = Ok x"
  shows "mt_insert pw t leaf_bytes = Err ''Merkle tree is full''"
proof -
  have d: "mt_depth t \<le> 32" using t by (simp add: mt_refines_def)
  have "mt_next_index t = push_bit (mt_depth t) 1" using t full by (simp add: mt_refines_def)
  then show ?thesis using d by (simp add: mt_insert_def leaf Let_def)
qed

section \<open>Roots and proofs\<close>

lemma mt_levels:
  "mt_refines t z xs \<Longrightarrow> mt_levels_data t =
    map (\<lambda>l. map (\<lambda>k. subtree z l k xs) [0..<2 ^ (mt_depth t - l)]) [0..<Suc (mt_depth t)]"
  by (simp add: mt_refines_def)

lemma mt_top: "mt_refines t z xs \<Longrightarrow>
    get_node (mt_levels_data t) (mt_depth t) 0 = Ok (mroot compress2 (zero_hash z) (mt_depth t) xs)"
  using get_node_row [of "mt_depth t" "mt_depth t" 0 "\<lambda>l k. subtree z l k xs"]
  by (simp only: mt_levels) (simp add: node_top mt_refines_def)

lemma mt_root_refines:
  "mt_refines t z xs \<Longrightarrow> mt_root t = Ok (scalar_to_bytes (mroot compress2 (zero_hash z) (mt_depth t) xs))"
  by (simp add: mt_root_def mt_top)

text \<open>The path of position \<open>i\<close>: the sibling at every level.\<close>

definition tree_path :: "scalar \<Rightarrow> nat \<Rightarrow> scalar list \<Rightarrow> nat \<Rightarrow> scalar list" where
  "tree_path z d xs i = map (\<lambda>l. subtree z l ((i div 2 ^ l) XOR 1) xs) [0..<d]"

lemma climb_append: "climb H i x (as @ bs) = climb H (i div 2 ^ length as) (climb H i x as) bs"
  by (induction as arbitrary: i x) (simp_all add: div_mult2_eq)

lemma climb_tree_path:
  "climb compress2 i (subtree z 0 i xs) (tree_path z d xs i) = subtree z d (i div 2 ^ d) xs"
proof (induction d)
  case (Suc d)
  have "climb compress2 i (subtree z 0 i xs) (tree_path z (Suc d) xs i) =
      climb compress2 (i div 2 ^ d) (subtree z d (i div 2 ^ d) xs) [subtree z d ((i div 2 ^ d) XOR 1) xs]"
    using Suc by (simp add: tree_path_def climb_append)
  also have "\<dots> = subtree z (Suc d) (i div 2 ^ d div 2) xs"
    unfolding subtree_parent by simp
  finally show ?case by (simp only: div_pow_Suc)
qed (simp add: tree_path_def)

lemma get_proof_steps:
  assumes t: "mt_refines t z xs" and i: "i < 2 ^ mt_depth t" and l: "l \<le> mt_depth t"
  shows "rfold (get_proof_step t) [0..<l] ([], 0, i) =
    Ok (concat (map scalar_to_bytes (tree_path z l xs i)), of_nat (i mod 2 ^ l), i div 2 ^ l)"
  using l
proof (induction l)
  case (Suc l)
  let ?k = "i div 2 ^ l"
  have l: "l < mt_depth t" and l64: "l < 64" using Suc.prems t by (auto simp: mt_refines_def)
  have k: "?k < 2 ^ (mt_depth t - l)" using div_pow_less [OF i] l by simp
  have sib: "get_node (mt_levels_data t) l (?k XOR 1) = (Ok (subtree z l (?k XOR 1) xs) :: (scalar, js_value) result)"
    unfolding mt_levels [OF t] using get_node_row [of l "mt_depth t" "?k XOR 1" "\<lambda>l k. subtree z l k xs"] l
      xor_1_less [OF k] by simp
  have bits: "(if odd ?k then of_nat (i mod 2 ^ l) OR push_bit l 1 else of_nat (i mod 2 ^ l)) =
      (of_nat (i mod 2 ^ Suc l) :: u64)"
  proof -
    have "(of_nat (i mod 2 ^ l) :: u64) OR push_bit l (of_nat (?k mod 2)) = of_nat (i mod 2 ^ Suc l)"
      using path_bits_index [of i "Suc l"] by (simp add: path_bits_snoc path_bits_index)
    moreover have "odd ?k \<Longrightarrow> ?k mod 2 = 1" "even ?k \<Longrightarrow> ?k mod 2 = 0" by presburger+
    ultimately show ?thesis by auto
  qed
  have "get_proof_step t l (concat (map scalar_to_bytes (tree_path z l xs i)), of_nat (i mod 2 ^ l), ?k) =
      Ok (concat (map scalar_to_bytes (tree_path z (Suc l) xs i)), of_nat (i mod 2 ^ Suc l), ?k div 2)"
    unfolding get_proof_step_def prod.case Let_def sib rbind.simps bits using l64 by (simp add: tree_path_def)
  then show ?case using Suc.IH l by (simp add: rfold_append div_pow_Suc)
qed (simp add: tree_path_def)

lemma get_proof_value:
  assumes t: "mt_refines t z xs" and i: "unat i < 2 ^ mt_depth t" and pw: "mt_depth t + 6 < pw"
  shows "get_proof pw t i = Ok \<lparr>mp_path_elements = concat (map scalar_to_bytes (tree_path z (mt_depth t) xs (unat i))),
    mp_path_indices = scalar_to_bytes (of_nat (unat i)),
    mp_root = scalar_to_bytes (mroot compress2 (zero_hash z) (mt_depth t) xs), mp_levels = mt_depth t\<rparr>"
proof -
  have d: "mt_depth t \<le> 32" "0 < mt_depth t" using t by (auto simp: mt_refines_def)
  from path_fits(2,4) [OF d(2) pw]
  have cap: "\<not> 2 ^ pw \<le> mt_depth t * FIELD_SIZE" "\<not> 2 ^ (pw - 1) \<le> mt_depth t * FIELD_SIZE"
    by (simp_all add: FIELD_SIZE_def)
  have small: "unat (of_nat n :: u64) = n" if "n < 2 ^ 32" for n
    using that by (simp add: unat_of_nat take_bit_eq_mod)
  define b :: u64 where "b = of_nat (unat i)"
  have b: "unat b = unat i"
    unfolding b_def by (rule small) (use unsigned_less [of i, where 'a = nat] in simp)
  have steps: "rfold (get_proof_step t) [0..<mt_depth t] ([], 0, unat i) =
      Ok (concat (map scalar_to_bytes (tree_path z (mt_depth t) xs (unat i))), b, 0)"
    unfolding b_def using get_proof_steps [OF t i order_refl] i by (simp del: of_nat_unat)
  show ?thesis using i pw cap
    by (simp add: get_proof_def with_capacity_def steps mt_top [OF t] Let_def b del: of_nat_unat)
qed

lemma get_proof_out_of_range:
  "mt_depth t < pw \<Longrightarrow> 2 ^ mt_depth t \<le> unat i \<Longrightarrow> get_proof pw t i = Err ''Index out of bounds''"
  by (simp add: get_proof_def)

lemma climb_proof:
  assumes "mt_refines t z xs" and "i < 2 ^ mt_depth t"
  shows "climb compress2 i (if i < length xs then xs ! i else z) (tree_path z (mt_depth t) xs i) =
    mroot compress2 (zero_hash z) (mt_depth t) xs"
proof -
  have "subtree z 0 i xs = (if i < length xs then xs ! i else z)" by simp
  then show ?thesis using climb_tree_path [of i z xs "mt_depth t"] assms
    by (simp add: node_top mt_refines_def)
qed

section \<open>The root of a list of leaves\<close>

lemma hash_chunks_value: "even (length xs) \<Longrightarrow> hash_chunks xs = Ok (pair_up compress2 xs)"
  by (induction xs rule: hash_chunks.induct) simp_all

lemma hash_chunks_loop:
  "length xs = 2 ^ d \<Longrightarrow>
    rfold (\<lambda>_ lv. hash_chunks lv) [b..<b + d] xs = (Ok [full_root compress2 d xs] :: (scalar list, 'e) result)"
proof (induction d arbitrary: b xs)
  case 0
  then show ?case by (cases xs) auto
next
  case (Suc d)
  have "[b..<b + Suc d] = b # [Suc b..<Suc b + d]" by (simp add: upt_rec)
  moreover have "hash_chunks xs = (Ok (pair_up compress2 xs) :: (scalar list, 'e) result)"
    using Suc.prems by (intro hash_chunks_value) simp
  moreover have "rfold (\<lambda>_ lv. hash_chunks lv) [Suc b..<Suc b + d] (pair_up compress2 xs) =
      (Ok [full_root compress2 d (pair_up compress2 xs)] :: (scalar list, 'e) result)"
    using Suc.prems by (intro Suc.IH) simp
  ultimately show ?case using Suc.prems by (simp only: rfold.simps rbind.simps full_root_pair_up)
qed

lemma concat_chunk:
  assumes "\<And>x. length (f x) = k" and "i < length xs"
  shows "take k (drop (i * k) (concat (map f xs))) = f (xs ! i)"
  using assms(2)
proof (induction xs arbitrary: i)
  case (Cons x xs)
  then show ?case by (cases i) (simp_all add: assms(1))
qed simp

lemma length_concat_const: "(\<And>x. length (f x) = k) \<Longrightarrow> length (concat (map f xs)) = length xs * k"
  by (induction xs) simp_all

lemma parse_leaves_value:
  assumes "set js \<subseteq> {..<length xs}"
  shows "parse_leaves (concat (map scalar_to_bytes xs)) js = Ok (map (\<lambda>i. xs ! i) js)"
  using assms by (induction js) (simp_all add: concat_chunk [where f = scalar_to_bytes] FIELD_SIZE_def)

lemma compute_merkle_root_value:
  assumes "length xs = 2 ^ d" and "d < pw"
  shows "compute_merkle_root pw (concat (map scalar_to_bytes xs)) d = Ok (scalar_to_bytes (full_root compress2 d xs))"
proof -
  have "length (concat (map scalar_to_bytes xs)) = 2 ^ d * 32"
    using length_concat_const [of scalar_to_bytes 32 xs] assms(1) by simp
  moreover have "parse_leaves (concat (map scalar_to_bytes xs)) [0..<2 ^ d] = Ok xs"
    using parse_leaves_value [of "[0..<2 ^ d]" xs] assms(1) map_nth [of xs] by (simp add: atLeast0LessThan)
  ultimately show ?thesis
    using hash_chunks_loop [of xs d 0, where 'e = js_value] assms
    by (simp add: compute_merkle_root_def FIELD_SIZE_def Let_def)
qed

lemma compute_merkle_root_wrong_length:
  "length bs \<noteq> 32 * 2 ^ d \<Longrightarrow> d < pw \<Longrightarrow> \<exists>e. compute_merkle_root pw bs d = Err e"
  by (auto simp: compute_merkle_root_def FIELD_SIZE_def Let_def)

end
