(* ===== verification/Client_Sync.thy ===== *)
theory Client_Sync
  imports Client_Smt_Correct Prover_Merkle Pool_Merkle Asp_Membership
begin

text \<open>
  Client and contracts together.  The client rebuilds each contract tree from the leaves the contract
  has published: its append-only Merkle trees and its sparse tree then have the contract's root, and
  the paths it exports lead to that root.  The lemmas here compare the two sides; the properties
  are in \<open>Client_Props\<close>.
\<close>

section \<open>Append-only trees\<close>

text \<open>What the client does with a list of published leaves: a tree whose empty leaf is the contract's
  zero leaf (exported big-endian, hence reversed), and one insertion per leaf.\<close>

definition client_replay :: "nat \<Rightarrow> nat \<Rightarrow> scalar list \<Rightarrow> (merkle_tree, js_value) result" where
  "client_replay pw depth leaves =
     rbind (new_with_zero_leaf pw depth (rev zero_leaf))
       (rfold (\<lambda>x t. rbind (mt_insert pw t (scalar_to_bytes x)) (\<lambda>(_, t'). Ok t')) leaves)"

lemma client_inserts:
  assumes "mt_refines t z xs" and "length xs + length ys \<le> 2 ^ mt_depth t" and "mt_depth t < pw"
  shows "\<exists>t'. rfold (\<lambda>x t. rbind (mt_insert pw t (scalar_to_bytes x)) (\<lambda>(_, t'). Ok t')) ys t = Ok t' \<and>
    mt_depth t' = mt_depth t \<and> mt_refines t' z (xs @ ys)"
  using assms
proof (induction ys arbitrary: t xs)
  case (Cons y ys)
  have "length xs < 2 ^ mt_depth t" using Cons.prems(2) by simp
  from mt_insert_refines [OF Cons.prems(1) this Cons.prems(3) bytes_scalar_roundtrip [of y]] obtain t1 where
    t1: "mt_insert pw t (scalar_to_bytes y) = Ok (of_nat (length xs), t1)" "mt_depth t1 = mt_depth t"
      "mt_refines t1 z (xs @ [y])" by blast
  with Cons.IH [OF t1(3)] Cons.prems show ?case by simp
qed simp

lemma zero_leaf_scalar: "bytes_to_scalar (rev zero_leaf) = Ok (u256_scalar (zero_at 0))"
proof -
  have len: "length zero_leaf = 32" by (simp add: zero_leaf_def ZERO_LEAF_BYTES_def)
  then have "be_to_nat zero_leaf < 2 ^ 256" using be_to_nat_bound [of zero_leaf] by simp
  then have "unat (zero_at 0) = be_to_nat zero_leaf"
    by (simp add: u256_from_be_bytes_def unat_of_nat take_bit_eq_mod flip: zero_leaf_value)
  with len show ?thesis by (simp add: bytes_to_scalar_def FIELD_SIZE_def u256_scalar_def be_to_nat_def)
qed

lemma client_replay_refines:
  assumes "0 < h" and "h \<le> 32" and "h + 6 < pw" and "length xs \<le> 2 ^ h"
  shows "\<exists>t. client_replay pw h xs = Ok t \<and> mt_depth t = h \<and> mt_refines t (u256_scalar (zero_at 0)) xs"
proof -
  from build_tree_refines [OF assms(1-3), of "u256_scalar (zero_at 0)"] obtain t0 where
    t0: "build_tree pw h (u256_scalar (zero_at 0)) = Ok t0" "mt_depth t0 = h"
      "mt_refines t0 (u256_scalar (zero_at 0)) []" by blast
  from client_inserts [OF t0(3), of xs pw] t0 assms show ?thesis
    by (simp add: client_replay_def new_with_zero_leaf_def zero_leaf_scalar)
qed

text \<open>A client that cannot hold the tree does not get past its construction.\<close>

lemma client_replay_refused:
  assumes "0 < h" and "h \<le> 32" and "pw \<le> h + 6"
  shows "client_replay pw h xs =
    (if pw \<le> h then Err ''Depth too large for this platform, would overflow'' else Panic)"
  using build_tree_refused [OF assms, of "u256_scalar (zero_at 0)"]
  by (simp add: client_replay_def new_with_zero_leaf_def zero_leaf_scalar split: if_splits)

text \<open>The law of the zero table, as far as a non-empty tree of height \<open>h\<close> uses it.\<close>

definition zero_law_below :: "permutation \<Rightarrow> nat \<Rightarrow> bool" where
  "zero_law_below P h \<longleftrightarrow> (\<forall>i. Suc i < h \<longrightarrow> zero_at (Suc i) = node_hash P (zero_at i) (zero_at i))"

lemma zero_hash_contract:
  assumes P: "host_is_poseidon2 P" and law: "zero_law_below P h"
  shows "i < h \<Longrightarrow> zero_at i = scalar_u256 (zero_hash (u256_scalar (zero_at 0)) i)"
proof (induction i)
  case 0
  then show ?case using zero_at_in_field [of 0] by (simp add: scalar_u256_scalar)
next
  case (Suc i)
  then have "zero_at (Suc i) = node_hash P (zero_at i) (zero_at i)" using law by (simp add: zero_law_below_def)
  with Suc show ?case using client_node_hash [OF P] by simp
qed

lemma mroot_map:
  assumes H: "\<And>a b. H (f a) (f b) = f (H' a b)"
  shows "(\<And>i. i < l \<Longrightarrow> zs i = f (zs' i)) \<Longrightarrow> xs \<noteq> [] \<or> zs l = f (zs' l) \<Longrightarrow>
    mroot H zs l (map f xs) = f (mroot H' zs' l xs)"
proof (induction l arbitrary: xs)
  case 0
  then show ?case by (cases xs) auto
next
  case (Suc l)
  show ?case
  proof (cases "xs = []")
    case False
    have "mroot H zs l (map f ys) = f (mroot H' zs' l ys)" for ys using Suc.IH [of ys] Suc.prems(1) by auto
    with False H show ?thesis by (simp add: take_map drop_map)
  qed (use Suc.prems(2) in auto)
qed

lemma field_map_scalar: "\<forall>x \<in> set xs. x < bn256_modulus \<Longrightarrow> map scalar_u256 (map u256_scalar xs) = xs"
  by (induction xs) (simp_all add: scalar_u256_scalar)

lemma client_root_contract:
  assumes "host_is_poseidon2 P" and "zero_law_below P h" and "xs \<noteq> []" and "\<forall>x \<in> set xs. x < bn256_modulus"
  shows "mroot (node_hash P) zero_at h xs =
    scalar_u256 (mroot compress2 (zero_hash (u256_scalar (zero_at 0))) h (map u256_scalar xs))"
proof -
  let ?z = "u256_scalar (zero_at 0)"
  have "mroot (node_hash P) zero_at h (map scalar_u256 (map u256_scalar xs)) =
      scalar_u256 (mroot compress2 (zero_hash ?z) h (map u256_scalar xs))"
  proof (rule mroot_map)
    show "node_hash P (scalar_u256 a) (scalar_u256 b) = scalar_u256 (compress2 a b)" for a b
      by (rule client_node_hash [OF assms(1)])
    show "zero_at i = scalar_u256 (zero_hash ?z i)" if "i < h" for i
      by (rule zero_hash_contract [OF assms(1,2) that])
    show "map u256_scalar xs \<noteq> [] \<or> zero_at h = scalar_u256 (zero_hash ?z h)" using assms(3) by simp
  qed
  then show ?thesis by (simp only: field_map_scalar [OF assms(4)])
qed

lemma climb_map:
  assumes H: "\<And>a b. H (f a) (f b) = f (H' a b)"
  shows "climb H i (f x) (map f ss) = f (climb H' i x ss)"
proof (induction ss arbitrary: i x)
  case (Cons s ss)
  then show ?case using H by (cases "even i") simp_all
qed simp

text \<open>The exported path of a leaf, checked with the contract's hash, leads to the contract's root.\<close>

lemma client_tree_agrees:
  assumes P: "host_is_poseidon2 P" and law: "zero_law_below P h"
    and h: "0 < h" "h \<le> 32" "h + 6 < pw"
    and xs: "length xs \<le> 2 ^ h" "\<forall>x \<in> set xs. x < bn256_modulus" and i: "i < length xs"
  shows "\<exists>t pf path. client_replay pw h (map u256_scalar xs) = Ok t \<and>
    mt_root t = Ok (scalar_to_bytes (u256_scalar (mroot (node_hash P) zero_at h xs))) \<and>
    get_proof pw t (of_nat i) = Ok pf \<and>
    mp_path_elements pf = concat (map scalar_to_bytes path) \<and> length path = h \<and> mp_levels pf = h \<and>
    mp_path_indices pf = scalar_to_bytes (of_nat i) \<and>
    mp_root pf = scalar_to_bytes (u256_scalar (mroot (node_hash P) zero_at h xs)) \<and>
    climb (node_hash P) i (xs ! i) (map scalar_u256 path) = mroot (node_hash P) zero_at h xs"
proof -
  let ?z = "u256_scalar (zero_at 0)" and ?ys = "map u256_scalar xs"
  from client_replay_refines [OF h(1-3), of ?ys] xs(1) obtain t where
    t: "client_replay pw h ?ys = Ok t" "mt_depth t = h" "mt_refines t ?z ?ys" by auto
  have ne: "xs \<noteq> []" using i by auto
  have root: "mroot (node_hash P) zero_at h xs = scalar_u256 (mroot compress2 (zero_hash ?z) h ?ys)"
    by (rule client_root_contract [OF P law ne xs(2)])
  have "i < 2 ^ h" using i xs(1) by simp
  moreover have "(2::nat) ^ h \<le> 2 ^ 32" using h(2) by (intro power_increasing) simp_all
  ultimately have u: "unat (of_nat i :: u32) = i" by (simp add: unat_of_nat take_bit_eq_mod)
  let ?path = "tree_path ?z h ?ys i"
  have top: "climb compress2 i (?ys ! i) ?path = mroot compress2 (zero_hash ?z) h ?ys"
    using climb_proof [OF t(3), of i] i \<open>i < 2 ^ h\<close> t(2) by simp
  have "climb (node_hash P) i (scalar_u256 (?ys ! i)) (map scalar_u256 ?path) =
      scalar_u256 (climb compress2 i (?ys ! i) ?path)"
    by (rule climb_map) (rule client_node_hash [OF P])
  moreover have "scalar_u256 (?ys ! i) = xs ! i" using i xs(2) by (simp add: scalar_u256_scalar)
  ultimately have path: "climb (node_hash P) i (xs ! i) (map scalar_u256 ?path) = mroot (node_hash P) zero_at h xs"
    by (simp add: top root)
  have "get_proof pw t (of_nat i) = Ok \<lparr>mp_path_elements = concat (map scalar_to_bytes ?path),
      mp_path_indices = scalar_to_bytes (of_nat i),
      mp_root = scalar_to_bytes (mroot compress2 (zero_hash ?z) h ?ys), mp_levels = h\<rparr>"
    using get_proof_value [OF t(3), of "of_nat i" pw] \<open>i < 2 ^ h\<close> h t(2) u by (simp del: of_nat_unat)
  moreover have "mt_root t = Ok (scalar_to_bytes (mroot compress2 (zero_hash ?z) h ?ys))"
    using mt_root_refines [OF t(3)] t(2) by simp
  moreover have "length ?path = h" by (simp add: tree_path_def)
  ultimately show ?thesis using t(1) path root by fastforce
qed

end
