(* ===== verification/R1cs.thy ===== *)
theory R1cs
  imports Prover_Serialization
begin

text \<open>
  The parser of Circom's binary constraint files (\<open>app/crates/prover/src/r1cs.rs\<close>): a cursor over
  the bytes, sections in any order, a header and a list of constraints.  \<open>pw\<close> is the pointer width
  of the target: \<open>checked_add\<close> on a cursor position fails beyond it, and \<open>Vec::with_capacity\<close> panics
  when the requested bytes exceed \<open>isize::MAX\<close>.
\<close>

section \<open>Data\<close>

record r1cs_term =
  tm_wire_id :: u32
  tm_coefficient :: scalar

type_synonym linear_combination = "r1cs_term list"

record r1cs_constraint =
  ct_a :: linear_combination
  ct_b :: linear_combination
  ct_c :: linear_combination

record r1cs =
  r1_num_wires :: u32
  r1_num_pub_out :: u32
  r1_num_pub_in :: u32
  r1_num_prv_in :: u32
  r1_num_public :: u32
  r1_constraints :: "r1cs_constraint list"

record r1cs_header =
  hd_field_size :: u32
  hd_num_wires :: u32
  hd_num_pub_out :: u32
  hd_num_pub_in :: u32
  hd_num_prv_in :: u32
  hd_num_constraints :: u32

record cursor =
  cur_data :: bytes
  cur_position :: nat

section \<open>The cursor\<close>

definition cursor_new :: "bytes \<Rightarrow> cursor" where
  "cursor_new bs = \<lparr>cur_data = bs, cur_position = 0\<rparr>"

definition read_bytes :: "nat \<Rightarrow> nat \<Rightarrow> cursor \<Rightarrow> (bytes \<times> cursor, js_value) result" where
  "read_bytes pw n cur =
     (let end_pos = cur_position cur + n in
      if 2 ^ pw \<le> end_pos then Err ''Overflow in cursor position''
      else if length (cur_data cur) < end_pos then Err ''Unexpected end of R1CS data''
      else Ok (take n (drop (cur_position cur) (cur_data cur)), cur\<lparr>cur_position := end_pos\<rparr>))"

definition read_u32_le :: "nat \<Rightarrow> cursor \<Rightarrow> (u32 \<times> cursor, js_value) result" where
  "read_u32_le pw cur = rbind (read_bytes pw 4 cur) (\<lambda>(bs, cur'). Ok (of_nat (le_to_nat bs), cur'))"

definition read_u64_le :: "nat \<Rightarrow> cursor \<Rightarrow> (u64 \<times> cursor, js_value) result" where
  "read_u64_le pw cur = rbind (read_bytes pw 8 cur) (\<lambda>(bs, cur'). Ok (of_nat (le_to_nat bs), cur'))"

definition cursor_skip :: "nat \<Rightarrow> nat \<Rightarrow> cursor \<Rightarrow> (cursor, js_value) result" where
  "cursor_skip pw n cur =
     (let end_pos = cur_position cur + n in
      if 2 ^ pw \<le> end_pos then Err ''Overflow in cursor skip''
      else if length (cur_data cur) < end_pos then Err ''Unexpected end of R1CS data''
      else Ok (cur\<lparr>cur_position := end_pos\<rparr>))"

section \<open>Header and constraints\<close>

definition parse_header :: "nat \<Rightarrow> cursor \<Rightarrow> (r1cs_header \<times> cursor, js_value) result" where
  "parse_header pw cur0 =
     rbind (read_u32_le pw cur0) (\<lambda>(field_size, cur1).
     if field_size \<noteq> 32
     then Err (''Unsupported field size: '' @ show_nat (unat field_size) @ '' (expected 32)'')
     else
       rbind (cursor_skip pw (unat field_size) cur1) (\<lambda>cur2.
       rbind (read_u32_le pw cur2) (\<lambda>(num_wires, cur3).
       rbind (read_u32_le pw cur3) (\<lambda>(num_pub_out, cur4).
       rbind (read_u32_le pw cur4) (\<lambda>(num_pub_in, cur5).
       rbind (read_u32_le pw cur5) (\<lambda>(num_prv_in, cur6).
       rbind (read_u64_le pw cur6) (\<lambda>(num_labels, cur7).
       rbind (read_u32_le pw cur7) (\<lambda>(num_constraints, cur8).
       Ok (\<lparr>hd_field_size = field_size, hd_num_wires = num_wires, hd_num_pub_out = num_pub_out,
            hd_num_pub_in = num_pub_in, hd_num_prv_in = num_prv_in,
            hd_num_constraints = num_constraints\<rparr>, cur8)))))))))"

text \<open>A \<open>Term\<close> takes 40 bytes (a \<open>u32\<close> and four aligned limbs), a \<open>Constraint\<close> three vectors of three words.\<close>

definition term_size :: nat where
  "term_size = 40"

definition constraint_size :: "nat \<Rightarrow> nat" where
  "constraint_size pw = 9 * (pw div 8)"

definition parse_term_step ::
  "nat \<Rightarrow> u32 \<Rightarrow> nat \<Rightarrow> linear_combination \<times> cursor \<Rightarrow> (linear_combination \<times> cursor, js_value) result" where
  "parse_term_step pw field_size i = (\<lambda>(terms, cur).
     rbind (read_u32_le pw cur) (\<lambda>(wire_id, cur1).
     rbind (read_bytes pw (unat field_size) cur1) (\<lambda>(coeff_bytes, cur2).
     Ok (terms @ [\<lparr>tm_wire_id = wire_id, tm_coefficient = of_nat (le_to_nat coeff_bytes)\<rparr>], cur2))))"

definition parse_linear_combination ::
  "nat \<Rightarrow> u32 \<Rightarrow> cursor \<Rightarrow> (linear_combination \<times> cursor, js_value) result" where
  "parse_linear_combination pw field_size cur =
     rbind (read_u32_le pw cur) (\<lambda>(num_terms, cur1).
     rbind (with_capacity pw (unat num_terms) term_size) (\<lambda>_.
     rfold (parse_term_step pw field_size) [0..<unat num_terms] ([], cur1)))"

definition parse_constraint_step ::
  "nat \<Rightarrow> u32 \<Rightarrow> nat \<Rightarrow> r1cs_constraint list \<times> cursor \<Rightarrow> (r1cs_constraint list \<times> cursor, js_value) result" where
  "parse_constraint_step pw field_size i = (\<lambda>(constraints, cur).
     rbind (parse_linear_combination pw field_size cur) (\<lambda>(a, cur1).
     rbind (parse_linear_combination pw field_size cur1) (\<lambda>(b, cur2).
     rbind (parse_linear_combination pw field_size cur2) (\<lambda>(c, cur3).
     Ok (constraints @ [\<lparr>ct_a = a, ct_b = b, ct_c = c\<rparr>], cur3)))))"

definition parse_constraints ::
  "nat \<Rightarrow> r1cs_header \<Rightarrow> cursor \<Rightarrow> (r1cs_constraint list \<times> cursor, js_value) result" where
  "parse_constraints pw header cur =
     rbind (with_capacity pw (unat (hd_num_constraints header)) (constraint_size pw)) (\<lambda>_.
     rfold (parse_constraint_step pw (hd_field_size header)) [0..<unat (hd_num_constraints header)] ([], cur))"

section \<open>The file\<close>

text \<open>One section: header and constraints are noted, everything else is skipped.\<close>

type_synonym section_state = "r1cs_header option \<times> (nat \<times> nat) option \<times> cursor"

definition section_body ::
  "nat \<Rightarrow> u32 \<Rightarrow> nat \<Rightarrow> section_state \<Rightarrow> (section_state, js_value) result" where
  "section_body pw section_type section_size_usize = (\<lambda>(header, constraints_data, cur).
     if section_type = 1 then
       rbind (parse_header pw cur) (\<lambda>(h, cur'). Ok (Some h, constraints_data, cur'))
     else if section_type = 2 then
       rbind (cursor_skip pw section_size_usize cur) (\<lambda>cur'.
       Ok (header, Some (cur_position cur, section_size_usize), cur'))
     else rbind (cursor_skip pw section_size_usize cur) (\<lambda>cur'. Ok (header, constraints_data, cur')))"

definition parse_section :: "nat \<Rightarrow> nat \<Rightarrow> section_state \<Rightarrow> (section_state, js_value) result" where
  "parse_section pw i = (\<lambda>(header, constraints_data, cur).
     rbind (read_u32_le pw cur) (\<lambda>(section_type, cur1).
     rbind (read_u64_le pw cur1) (\<lambda>(section_size, cur2).
     let section_start = cur_position cur2 in
     if 2 ^ pw \<le> unat section_size then Err ''Section size too large''
     else
       let section_size_usize = unat section_size in
       rbind (section_body pw section_type section_size_usize (header, constraints_data, cur2))
         (\<lambda>(header', constraints_data', cur3).
       if cur_position cur3 < section_start then Err ''Invalid cursor position''
       else
         let consumed = cur_position cur3 - section_start in
         if consumed < section_size_usize then
           rbind (cursor_skip pw (section_size_usize - consumed) cur3) (\<lambda>cur4.
           Ok (header', constraints_data', cur4))
         else Ok (header', constraints_data', cur3)))))"

definition r1cs_magic :: bytes where
  "r1cs_magic = [114, 49, 99, 115]"

text \<open>After the first pass: the constraints are read with the header at hand.\<close>

definition r1cs_assemble :: "nat \<Rightarrow> section_state \<Rightarrow> (r1cs, js_value) result" where
  "r1cs_assemble pw = (\<lambda>(header0, constraints_data, cur).
     rbind (ok_or header0 ''Missing R1CS header section'') (\<lambda>header.
     rbind
       (case constraints_data of
          Some (start, sz) \<Rightarrow>
            rbind (parse_constraints pw header (cur\<lparr>cur_position := start\<rparr>)) (\<lambda>(cs, _). Ok cs)
        | None \<Rightarrow> Ok [])
       (\<lambda>constraints.
     if 2 ^ 32 \<le> unat (hd_num_pub_out header) + unat (hd_num_pub_in header)
     then Err ''Overflow calculating num_public''
     else
       Ok \<lparr>r1_num_wires = hd_num_wires header, r1_num_pub_out = hd_num_pub_out header,
           r1_num_pub_in = hd_num_pub_in header, r1_num_prv_in = hd_num_prv_in header,
           r1_num_public = hd_num_pub_out header + hd_num_pub_in header,
           r1_constraints = constraints\<rparr>)))"

definition r1cs_parse :: "nat \<Rightarrow> bytes \<Rightarrow> (r1cs, js_value) result" where
  "r1cs_parse pw bs =
     rbind (read_bytes pw 4 (cursor_new bs)) (\<lambda>(magic, cur1).
     if magic \<noteq> r1cs_magic then Err ''Invalid R1CS magic number''
     else
       rbind (read_u32_le pw cur1) (\<lambda>(version, cur2).
       if version \<noteq> 1 then Err (''Unsupported R1CS version: '' @ show_nat (unat version))
       else
         rbind (read_u32_le pw cur2) (\<lambda>(num_sections, cur3).
         rbind (rfold (parse_section pw) [0..<unat num_sections] (None, None, cur3)) (r1cs_assemble pw))))"

definition r1cs_num_constraints :: "r1cs \<Rightarrow> nat" where
  "r1cs_num_constraints r = length (r1_constraints r)"

section \<open>Reading what was written\<close>

text \<open>The cursor stands before \<open>rest\<close>.\<close>

definition cursor_at :: "nat \<Rightarrow> bytes \<Rightarrow> cursor \<Rightarrow> bytes \<Rightarrow> bool" where
  "cursor_at pw bs cur rest \<longleftrightarrow>
     cur_data cur = bs \<and> length bs < 2 ^ pw \<and> cur_position cur \<le> length bs \<and>
     drop (cur_position cur) bs = rest"

abbreviation advance :: "cursor \<Rightarrow> nat \<Rightarrow> cursor" where
  "advance cur n \<equiv> cur\<lparr>cur_position := cur_position cur + n\<rparr>"

lemma cursor_at_advance:
  assumes "cursor_at pw bs cur (xs @ rest)"
  shows "cur_position cur + length xs \<le> length bs" "cursor_at pw bs (advance cur (length xs)) rest"
proof -
  have "length (drop (cur_position cur) bs) = length xs + length rest"
    using assms by (simp add: cursor_at_def)
  then show le: "cur_position cur + length xs \<le> length bs" using assms by (auto simp: cursor_at_def)
  have "drop (length xs) (drop (cur_position cur) bs) = rest" using assms by (simp add: cursor_at_def)
  then show "cursor_at pw bs (advance cur (length xs)) rest"
    using assms le by (simp add: cursor_at_def add.commute)
qed

lemma read_bytes_at:
  "cursor_at pw bs cur (xs @ rest) \<Longrightarrow> length xs = n \<Longrightarrow> read_bytes pw n cur = Ok (xs, advance cur n)"
  using cursor_at_advance(1) [of pw bs cur xs rest] by (simp add: read_bytes_def cursor_at_def)

lemma cursor_skip_at:
  "cursor_at pw bs cur (xs @ rest) \<Longrightarrow> length xs = n \<Longrightarrow> cursor_skip pw n cur = Ok (advance cur n)"
  using cursor_at_advance(1) [of pw bs cur xs rest] by (simp add: cursor_skip_def cursor_at_def)

lemma read_u32_at:
  "cursor_at pw bs cur (nat_to_le 4 n @ rest) \<Longrightarrow> n < 2 ^ 32 \<Longrightarrow>
    read_u32_le pw cur = Ok (of_nat n, advance cur 4) \<and> cursor_at pw bs (advance cur 4) rest"
  using cursor_at_advance(2) [of pw bs cur "nat_to_le 4 n" rest]
  by (simp add: read_u32_le_def read_bytes_at [where xs = "nat_to_le 4 n"] le_to_nat_nat_to_le)

lemma read_u64_at:
  "cursor_at pw bs cur (nat_to_le 8 n @ rest) \<Longrightarrow> n < 2 ^ 64 \<Longrightarrow>
    read_u64_le pw cur = Ok (of_nat n, advance cur 8) \<and> cursor_at pw bs (advance cur 8) rest"
  using cursor_at_advance(2) [of pw bs cur "nat_to_le 8 n" rest]
  by (simp add: read_u64_le_def read_bytes_at [where xs = "nat_to_le 8 n"] le_to_nat_nat_to_le)

section \<open>The file format\<close>

definition enc_term :: "r1cs_term \<Rightarrow> bytes" where
  "enc_term t = nat_to_le 4 (unat (tm_wire_id t)) @ scalar_to_bytes (tm_coefficient t)"

definition enc_lc :: "linear_combination \<Rightarrow> bytes" where
  "enc_lc ts = nat_to_le 4 (length ts) @ concat (map enc_term ts)"

definition enc_constraint :: "r1cs_constraint \<Rightarrow> bytes" where
  "enc_constraint c = enc_lc (ct_a c) @ enc_lc (ct_b c) @ enc_lc (ct_c c)"

definition enc_header :: "bytes \<Rightarrow> nat \<Rightarrow> r1cs \<Rightarrow> bytes" where
  "enc_header prime labels r =
     nat_to_le 4 32 @ prime @ nat_to_le 4 (unat (r1_num_wires r)) @ nat_to_le 4 (unat (r1_num_pub_out r)) @
     nat_to_le 4 (unat (r1_num_pub_in r)) @ nat_to_le 4 (unat (r1_num_prv_in r)) @ nat_to_le 8 labels @
     nat_to_le 4 (length (r1_constraints r))"

definition enc_section :: "nat \<times> bytes \<Rightarrow> bytes" where
  "enc_section s = nat_to_le 4 (fst s) @ nat_to_le 8 (length (snd s)) @ snd s"

definition enc_file :: "(nat \<times> bytes) list \<Rightarrow> bytes" where
  "enc_file secs = r1cs_magic @ nat_to_le 4 1 @ nat_to_le 4 (length secs) @ concat (map enc_section secs)"

text \<open>What fits: 32-bit counts, vectors the target can allocate.\<close>

definition lc_fits :: "nat \<Rightarrow> linear_combination \<Rightarrow> bool" where
  "lc_fits pw ts \<longleftrightarrow> length ts < 2 ^ 32 \<and> length ts * term_size < 2 ^ (pw - 1)"

definition r1cs_fits :: "nat \<Rightarrow> r1cs \<Rightarrow> bool" where
  "r1cs_fits pw r \<longleftrightarrow>
     length (r1_constraints r) < 2 ^ 32 \<and>
     length (r1_constraints r) * constraint_size pw < 2 ^ (pw - 1) \<and>
     (\<forall>c \<in> set (r1_constraints r). lc_fits pw (ct_a c) \<and> lc_fits pw (ct_b c) \<and> lc_fits pw (ct_c c)) \<and>
     unat (r1_num_pub_out r) + unat (r1_num_pub_in r) < 2 ^ 32 \<and>
     r1_num_public r = r1_num_pub_out r + r1_num_pub_in r"

lemma u32_lt: "unat (x :: u32) < 2 ^ 32"
  using unsigned_less [of x, where 'a = nat] by simp

lemma terms_loop:
  "cursor_at pw bs cur (concat (map enc_term ts) @ rest) \<Longrightarrow>
    \<exists>cur'. rfold (parse_term_step pw 32) [b..<b + length ts] (acc, cur) = Ok (acc @ ts, cur') \<and>
      cursor_at pw bs cur' rest"
proof (induction ts arbitrary: cur acc b)
  case (Cons t ts)
  have upt: "[b..<b + length (t # ts)] = b # [Suc b..<Suc b + length ts]" by (simp add: upt_rec)
  have at: "cursor_at pw bs cur (nat_to_le 4 (unat (tm_wire_id t)) @ scalar_to_bytes (tm_coefficient t) @
      concat (map enc_term ts) @ rest)"
    using Cons.prems by (simp add: enc_term_def [of t])
  note w = read_u32_at [OF at u32_lt]
  from read_bytes_at [OF w [THEN conjunct2], of 32] cursor_at_advance(2) [OF w [THEN conjunct2]]
  obtain cur2 where cur2: "read_bytes pw 32 (advance cur 4) = Ok (scalar_to_bytes (tm_coefficient t), cur2)"
    "cursor_at pw bs cur2 (concat (map enc_term ts) @ rest)" by simp
  have step: "parse_term_step pw 32 b (acc, cur) = Ok (acc @ [t], cur2)"
    using w cur2(1) by (simp add: parse_term_step_def le_to_nat_scalar_to_bytes)
  show ?case unfolding upt rfold.simps step rbind.simps
    using Cons.IH [OF cur2(2), of "Suc b" "acc @ [t]"] by (simp del: upt_Suc)
qed auto

lemma lc_at:
  assumes at: "cursor_at pw bs cur (enc_lc ts @ rest)" and fits: "lc_fits pw ts"
  shows "\<exists>cur'. parse_linear_combination pw 32 cur = Ok (ts, cur') \<and> cursor_at pw bs cur' rest"
proof -
  have "cursor_at pw bs cur (nat_to_le 4 (length ts) @ concat (map enc_term ts) @ rest)"
    using at by (simp add: enc_lc_def)
  from read_u32_at [OF this] fits have n: "read_u32_le pw cur = Ok (of_nat (length ts), advance cur 4)"
    "cursor_at pw bs (advance cur 4) (concat (map enc_term ts) @ rest)" by (simp_all add: lc_fits_def)
  have "unat (of_nat (length ts) :: u32) = length ts"
    using fits by (simp add: lc_fits_def unat_of_nat take_bit_eq_mod)
  then show ?thesis
    using terms_loop [OF n(2), of 0 "[]"] n(1) fits
    by (auto simp: parse_linear_combination_def with_capacity_def lc_fits_def)
qed

lemma constraints_loop:
  assumes "cursor_at pw bs cur (concat (map enc_constraint cs) @ rest)"
    and "\<forall>c \<in> set cs. lc_fits pw (ct_a c) \<and> lc_fits pw (ct_b c) \<and> lc_fits pw (ct_c c)"
  shows "\<exists>cur'. rfold (parse_constraint_step pw 32) [b..<b + length cs] (acc, cur) = Ok (acc @ cs, cur')"
  using assms
proof (induction cs arbitrary: cur acc b)
  case (Cons c cs)
  have "cursor_at pw bs cur (enc_lc (ct_a c) @ enc_lc (ct_b c) @ enc_lc (ct_c c) @ concat (map enc_constraint cs) @ rest)"
    using Cons.prems(1) by (simp add: enc_constraint_def [of c])
  from lc_at [OF this] Cons.prems(2) obtain cur1 where
    1: "parse_linear_combination pw 32 cur = Ok (ct_a c, cur1)"
      "cursor_at pw bs cur1 (enc_lc (ct_b c) @ enc_lc (ct_c c) @ concat (map enc_constraint cs) @ rest)" by auto
  from lc_at [OF 1(2)] Cons.prems(2) obtain cur2 where
    2: "parse_linear_combination pw 32 cur1 = Ok (ct_b c, cur2)"
      "cursor_at pw bs cur2 (enc_lc (ct_c c) @ concat (map enc_constraint cs) @ rest)" by auto
  from lc_at [OF 2(2)] Cons.prems(2) obtain cur3 where
    3: "parse_linear_combination pw 32 cur2 = Ok (ct_c c, cur3)"
      "cursor_at pw bs cur3 (concat (map enc_constraint cs) @ rest)" by auto
  have upt: "[b..<b + length (c # cs)] = b # [Suc b..<Suc b + length cs]" by (simp add: upt_rec)
  have step: "parse_constraint_step pw 32 b (acc, cur) = Ok (acc @ [c], cur3)"
    by (simp add: parse_constraint_step_def 1(1) 2(1) 3(1))
  show ?case unfolding upt rfold.simps step rbind.simps
    using Cons.IH [OF 3(2), of "Suc b" "acc @ [c]"] Cons.prems(2) by (simp del: upt_Suc)
qed auto

lemma parse_constraints_at:
  assumes at: "cursor_at pw bs cur (concat (map enc_constraint (r1_constraints r)) @ rest)"
    and fits: "r1cs_fits pw r" and h: "unat (hd_num_constraints h) = length (r1_constraints r)" "hd_field_size h = 32"
  shows "\<exists>cur'. parse_constraints pw h cur = Ok (r1_constraints r, cur')"
proof -
  have "\<forall>c \<in> set (r1_constraints r). lc_fits pw (ct_a c) \<and> lc_fits pw (ct_b c) \<and> lc_fits pw (ct_c c)"
    using fits by (simp add: r1cs_fits_def)
  from constraints_loop [OF at this, of 0 "[]"] show ?thesis
    using fits h by (auto simp: parse_constraints_def with_capacity_def r1cs_fits_def)
qed

definition header_of :: "r1cs \<Rightarrow> r1cs_header" where
  "header_of r = \<lparr>hd_field_size = 32, hd_num_wires = r1_num_wires r, hd_num_pub_out = r1_num_pub_out r,
     hd_num_pub_in = r1_num_pub_in r, hd_num_prv_in = r1_num_prv_in r,
     hd_num_constraints = of_nat (length (r1_constraints r))\<rparr>"

lemma header_at:
  assumes at: "cursor_at pw bs cur (enc_header prime labels r @ rest)"
    and p: "length prime = 32" and l: "labels < 2 ^ 64" and n: "length (r1_constraints r) < 2 ^ 32"
  shows "parse_header pw cur = Ok (header_of r, advance cur 64) \<and> cursor_at pw bs (advance cur 64) rest"
proof -
  have "cursor_at pw bs cur (nat_to_le 4 32 @ prime @ nat_to_le 4 (unat (r1_num_wires r)) @
      nat_to_le 4 (unat (r1_num_pub_out r)) @ nat_to_le 4 (unat (r1_num_pub_in r)) @
      nat_to_le 4 (unat (r1_num_prv_in r)) @ nat_to_le 8 labels @ nat_to_le 4 (length (r1_constraints r)) @ rest)"
    using at by (simp add: enc_header_def)
  from read_u32_at [OF this] have 1: "read_u32_le pw cur = Ok (32, advance cur 4)"
    and at1: "cursor_at pw bs (advance cur 4) (prime @ nat_to_le 4 (unat (r1_num_wires r)) @
      nat_to_le 4 (unat (r1_num_pub_out r)) @ nat_to_le 4 (unat (r1_num_pub_in r)) @
      nat_to_le 4 (unat (r1_num_prv_in r)) @ nat_to_le 8 labels @ nat_to_le 4 (length (r1_constraints r)) @ rest)"
    by simp_all
  note 2 = cursor_skip_at [OF at1 p] cursor_at_advance(2) [OF at1, unfolded p]
  note 3 = read_u32_at [OF 2(2) u32_lt]
  note 4 = read_u32_at [OF 3 [THEN conjunct2] u32_lt]
  note 5 = read_u32_at [OF 4 [THEN conjunct2] u32_lt]
  note 6 = read_u32_at [OF 5 [THEN conjunct2] u32_lt]
  note 7 = read_u64_at [OF 6 [THEN conjunct2] l]
  note 8 = read_u32_at [OF 7 [THEN conjunct2] n]
  show ?thesis
    using 1 2 3 4 5 6 7 8 by (simp add: parse_header_def header_of_def add.commute [of "cur_position cur"])
qed

lemma section_at:
  assumes at: "cursor_at pw bs cur (enc_section (ty, body) @ rest)" and ty: "ty < 2 ^ 32" and pw: "pw \<le> 64"
    and hdr: "ty = 1 \<Longrightarrow> body = enc_header prime labels r"
    and r: "length prime = 32" "labels < 2 ^ 64" "length (r1_constraints r) < 2 ^ 32"
  shows "\<exists>cur' start. parse_section pw i (h0, d0, cur) =
      Ok (if ty = 1 then Some (header_of r) else h0, if ty = 2 then Some (start, length body) else d0, cur') \<and>
    cursor_at pw bs cur' rest \<and> start \<le> length bs \<and> drop start bs = body @ rest"
proof -
  have at0: "cursor_at pw bs cur (nat_to_le 4 ty @ nat_to_le 8 (length body) @ body @ rest)"
    using at by (simp add: enc_section_def)
  note 1 = read_u32_at [OF at0 ty]
  have "length body \<le> length bs"
    using cursor_at_advance(1) [OF at] by (simp add: enc_section_def)
  also have "\<dots> < 2 ^ pw" using at by (simp add: cursor_at_def)
  finally have lb: "length body < 2 ^ pw" .
  also have "(2::nat) ^ pw \<le> 2 ^ 64" using pw by (intro power_increasing) simp_all
  finally have lb64: "length body < 2 ^ 64" .
  note 2 = read_u64_at [OF 1 [THEN conjunct2] lb64]
  let ?cur = "advance (advance cur 4) 8"
  have n: "unat (of_nat (length body) :: u64) = length body"
    using lb64 by (simp add: unat_of_nat take_bit_eq_mod)
  have tyw: "(of_nat ty :: u32) = 1 \<longleftrightarrow> ty = 1" "(of_nat ty :: u32) = 2 \<longleftrightarrow> ty = 2"
    using ty by (simp_all add: word_unat_eq_iff unat_of_nat take_bit_eq_mod)
  note skip = cursor_skip_at [OF 2 [THEN conjunct2] refl] cursor_at_advance(2) [OF 2 [THEN conjunct2]]
  have start: "cur_position ?cur \<le> length bs" "drop (cur_position ?cur) bs = body @ rest"
    using 2 by (simp_all add: cursor_at_def)
  show ?thesis
  proof (cases "ty = 1")
    case True
    have lenb: "length body = 64" unfolding hdr [OF True] enc_header_def by (simp add: r)
    have "parse_header pw ?cur = Ok (header_of r, advance ?cur 64)"
      using header_at [OF _ r] 2 [THEN conjunct2] hdr [OF True] by blast
    then show ?thesis
      using 1 2 n lb tyw True lenb skip start
      by (intro exI [of _ "advance ?cur 64"] exI [of _ "cur_position ?cur"]) (simp add: parse_section_def section_body_def Let_def)
  next
    case False
    then show ?thesis
      using 1 2 n lb tyw skip start
      by (intro exI [of _ "advance ?cur (length body)"] exI [of _ "cur_position ?cur"])
        (simp add: parse_section_def section_body_def Let_def)
  qed
qed

text \<open>The sections of a file, in any order; what is noted when they have been read.\<close>

definition sections_ok :: "bytes \<Rightarrow> nat \<Rightarrow> r1cs \<Rightarrow> (nat \<times> bytes) list \<Rightarrow> bool" where
  "sections_ok prime labels r secs \<longleftrightarrow>
     (\<forall>(ty, body) \<in> set secs. ty < 2 ^ 32 \<and> (ty = 1 \<longrightarrow> body = enc_header prime labels r) \<and>
        (ty = 2 \<longrightarrow> body = concat (map enc_constraint (r1_constraints r))))"

lemma sections_loop:
  assumes "cursor_at pw bs cur (concat (map enc_section secs) @ rest)" and "sections_ok prime labels r secs"
    and "pw \<le> 64" and "length prime = 32" "labels < 2 ^ 64" "length (r1_constraints r) < 2 ^ 32"
  shows "\<exists>d cur'. rfold (parse_section pw) [b..<b + length secs] (h0, d0, cur) =
      Ok (if 1 \<in> fst ` set secs then Some (header_of r) else h0, d, cur') \<and> cur_data cur' = bs \<and>
    (if 2 \<in> fst ` set secs
     then \<exists>start sz rest'. d = Some (start, sz) \<and> start \<le> length bs \<and>
       drop start bs = concat (map enc_constraint (r1_constraints r)) @ rest'
     else d = d0)"
  using assms(1,2)
proof (induction secs arbitrary: b cur h0 d0)
  case Nil
  then show ?case by (simp add: cursor_at_def)
next
  case (Cons s secs)
  obtain ty body where s: "s = (ty, body)" by (cases s)
  have ok: "ty < 2 ^ 32" "ty = 1 \<Longrightarrow> body = enc_header prime labels r"
    "ty = 2 \<Longrightarrow> body = concat (map enc_constraint (r1_constraints r))" "sections_ok prime labels r secs"
    using Cons.prems(2) by (auto simp: sections_ok_def s)
  have at: "cursor_at pw bs cur (enc_section (ty, body) @ concat (map enc_section secs) @ rest)"
    using Cons.prems(1) by (simp add: s)
  from section_at [OF at ok(1) assms(3) ok(2) assms(4-6), of b h0 d0]
  obtain cur' start where step: "parse_section pw b (h0, d0, cur) =
      Ok (if ty = 1 then Some (header_of r) else h0, if ty = 2 then Some (start, length body) else d0, cur')"
    and at': "cursor_at pw bs cur' (concat (map enc_section secs) @ rest)"
    and st: "start \<le> length bs" "drop start bs = body @ concat (map enc_section secs) @ rest" by blast
  have upt: "[b..<b + length (s # secs)] = b # [Suc b..<Suc b + length secs]" by (simp add: upt_rec)
  let ?h = "if ty = 1 then Some (header_of r) else h0" and ?d = "if ty = 2 then Some (start, length body) else d0"
  from Cons.IH [OF at' ok(4), of "Suc b" ?h ?d] obtain d cur'' where
    IH: "rfold (parse_section pw) [Suc b..<Suc b + length secs] (?h, ?d, cur') =
        Ok (if 1 \<in> fst ` set secs then Some (header_of r) else ?h, d, cur'')" "cur_data cur'' = bs"
      "if 2 \<in> fst ` set secs then \<exists>start sz rest'. d = Some (start, sz) \<and> start \<le> length bs \<and>
         drop start bs = concat (map enc_constraint (r1_constraints r)) @ rest' else d = ?d" by blast
  have "rfold (parse_section pw) [b..<b + length (s # secs)] (h0, d0, cur) =
      Ok (if 1 \<in> fst ` set (s # secs) then Some (header_of r) else h0, d, cur'')"
    unfolding upt rfold.simps step rbind.simps IH(1) by (simp add: s)
  moreover have "if 2 \<in> fst ` set (s # secs) then \<exists>start sz rest'. d = Some (start, sz) \<and> start \<le> length bs \<and>
      drop start bs = concat (map enc_constraint (r1_constraints r)) @ rest' else d = d0"
  proof (cases "2 \<in> fst ` set secs")
    case True
    with IH(3) show ?thesis by simp
  next
    case False
    show ?thesis using IH(3) False st ok(3) by (cases "ty = 2") (auto simp: s)
  qed
  ultimately show ?case using IH(2) by blast
qed

lemma parse_preamble:
  assumes "length (enc_file secs) < 2 ^ pw" and "length secs < 2 ^ 32"
  obtains cur where "cursor_at pw (enc_file secs) cur (concat (map enc_section secs))"
    and "r1cs_parse pw (enc_file secs) =
      rbind (rfold (parse_section pw) [0..<length secs] (None, None, cur)) (r1cs_assemble pw)"
proof -
  let ?bs = "enc_file secs"
  have at: "cursor_at pw ?bs (cursor_new ?bs) (r1cs_magic @ nat_to_le 4 1 @ nat_to_le 4 (length secs) @
      concat (map enc_section secs))"
    using assms by (simp add: cursor_at_def cursor_new_def enc_file_def)
  have m: "length r1cs_magic = 4" by (simp add: r1cs_magic_def)
  note 1 = read_bytes_at [OF at m] cursor_at_advance(2) [OF at, unfolded m]
  have 2: "read_u32_le pw (advance (cursor_new ?bs) 4) = Ok (1, advance (advance (cursor_new ?bs) 4) 4)"
    "cursor_at pw ?bs (advance (advance (cursor_new ?bs) 4) 4) (nat_to_le 4 (length secs) @ concat (map enc_section secs))"
    using read_u32_at [OF 1(2)] by simp_all
  note 3 = read_u32_at [OF 2(2) assms(2)]
  have nsec: "unat (of_nat (length secs) :: u32) = length secs"
    using assms(2) by (simp add: unat_of_nat take_bit_eq_mod)
  show thesis by (rule that [OF 3 [THEN conjunct2]]) (use 1(1) 2(1) 3 nsec in \<open>simp add: r1cs_parse_def\<close>)
qed

lemma header_of_count:
  "length (r1_constraints r) < 2 ^ 32 \<Longrightarrow> unat (hd_num_constraints (header_of r)) = length (r1_constraints r)"
  "hd_field_size (header_of r) = 32"
  by (simp_all add: header_of_def unat_of_nat take_bit_eq_mod)

lemma parse_file:
  assumes fits: "r1cs_fits pw r" and secs: "sections_ok prime labels r secs" "1 \<in> fst ` set secs" "2 \<in> fst ` set secs"
    and pw: "pw \<le> 64" and sz: "length (enc_file secs) < 2 ^ pw" "length secs < 2 ^ 32"
    and p: "length prime = 32" "labels < 2 ^ 64"
  shows "r1cs_parse pw (enc_file secs) = Ok r"
proof -
  let ?bs = "enc_file secs"
  have n: "length (r1_constraints r) < 2 ^ 32" using fits by (simp add: r1cs_fits_def)
  obtain cur where cur: "cursor_at pw ?bs cur (concat (map enc_section secs))"
    and run: "r1cs_parse pw ?bs =
      rbind (rfold (parse_section pw) [0..<length secs] (None, None, cur)) (r1cs_assemble pw)"
    by (rule parse_preamble [OF sz])
  from sections_loop [OF _ secs(1) pw p n, of ?bs cur "[]" 0 None None] cur secs(2,3)
  obtain start size rest' cur' where loop: "rfold (parse_section pw) [0..<length secs] (None, None, cur) =
      Ok (Some (header_of r), Some (start, size), cur')" "cur_data cur' = ?bs" "start \<le> length ?bs"
      "drop start ?bs = concat (map enc_constraint (r1_constraints r)) @ rest'" by auto
  have at2: "cursor_at pw ?bs (cur'\<lparr>cur_position := start\<rparr>) (concat (map enc_constraint (r1_constraints r)) @ rest')"
    using loop sz(1) by (simp add: cursor_at_def)
  from parse_constraints_at [OF at2 fits header_of_count(1) [OF n] header_of_count(2)] obtain cur'' where
    cs: "parse_constraints pw (header_of r) (cur'\<lparr>cur_position := start\<rparr>) = Ok (r1_constraints r, cur'')" by blast
  have "r1cs_parse pw ?bs = Ok \<lparr>r1_num_wires = r1_num_wires r, r1_num_pub_out = r1_num_pub_out r,
      r1_num_pub_in = r1_num_pub_in r, r1_num_prv_in = r1_num_prv_in r, r1_num_public = r1_num_public r,
      r1_constraints = r1_constraints r\<rparr>"
    using fits loop(1) cs by (simp add: run r1cs_assemble_def r1cs_fits_def header_of_def)
  then show ?thesis by simp
qed

text \<open>The vector of constraints is allocated before a single constraint has been read.\<close>

lemma parse_claimed_count:
  assumes big: "2 ^ (pw - 1) \<le> length (r1_constraints r) * constraint_size pw" and n: "length (r1_constraints r) < 2 ^ 32"
    and p: "length prime = 32" "labels < 2 ^ 64" and pw: "pw \<le> 64" and sz: "length (enc_file secs) < 2 ^ pw"
    and secs: "secs = [(1, enc_header prime labels r), (2, body)]"
  shows "r1cs_parse pw (enc_file secs) = Panic"
proof -
  let ?bs = "enc_file secs" and ?hb = "enc_header prime labels r"
  obtain cur where cur: "cursor_at pw ?bs cur (concat (map enc_section secs))"
    and run: "r1cs_parse pw ?bs =
      rbind (rfold (parse_section pw) [0..<length secs] (None, None, cur)) (r1cs_assemble pw)"
    by (rule parse_preamble [OF sz]) (simp_all add: secs)
  have at1: "cursor_at pw ?bs cur (enc_section (1, ?hb) @ enc_section (2, body))" using cur by (simp add: secs)
  from section_at [OF at1 _ pw refl p n, of 0 None None] obtain cur1 where
    s1: "parse_section pw 0 (None, None, cur) = Ok (Some (header_of r), None, cur1)"
    and at2: "cursor_at pw ?bs cur1 (enc_section (2, body) @ [])" by auto
  from section_at [OF at2 _ pw _ p n, of "1" "Some (header_of r)" None] obtain cur2 start where
    s2: "parse_section pw 1 (Some (header_of r), None, cur1) = Ok (Some (header_of r), Some (start, length body), cur2)"
    by auto
  have "rfold (parse_section pw) [0..<length secs] (None, None, cur) =
      Ok (Some (header_of r), Some (start, length body), cur2)"
    using s1 s2 by (simp add: secs upt_rec)
  moreover have "parse_constraints pw (header_of r) c = Panic" for c
    using big header_of_count(1) [OF n] by (simp add: parse_constraints_def with_capacity_def)
  ultimately show ?thesis by (simp add: run r1cs_assemble_def)
qed

section \<open>Bounds\<close>

text \<open>The cursor stays inside the data, and what is parsed takes up space in it.\<close>

definition in_data :: "bytes \<Rightarrow> cursor \<Rightarrow> bool" where
  "in_data bs cur \<longleftrightarrow> cur_data cur = bs \<and> cur_position cur \<le> length bs"

lemma read_bytes_bounds:
  "read_bytes pw n cur = Ok (xs, cur') \<Longrightarrow> in_data bs cur \<Longrightarrow>
    in_data bs cur' \<and> cur_position cur' = cur_position cur + n \<and> length xs = n"
  by (auto simp: read_bytes_def in_data_def Let_def split: if_splits)

lemma read_u32_bounds:
  "read_u32_le pw cur = Ok (x, cur') \<Longrightarrow> in_data bs cur \<Longrightarrow>
    in_data bs cur' \<and> cur_position cur' = cur_position cur + 4"
  by (auto simp: read_u32_le_def result_simps dest: read_bytes_bounds)

lemma read_u64_bounds:
  "read_u64_le pw cur = Ok (x, cur') \<Longrightarrow> in_data bs cur \<Longrightarrow>
    in_data bs cur' \<and> cur_position cur' = cur_position cur + 8"
  by (auto simp: read_u64_le_def result_simps dest: read_bytes_bounds)

lemma cursor_skip_bounds:
  "cursor_skip pw n cur = Ok cur' \<Longrightarrow> in_data bs cur \<Longrightarrow>
    in_data bs cur' \<and> cur_position cur' = cur_position cur + n"
  by (auto simp: cursor_skip_def in_data_def Let_def split: if_splits)

lemma parse_header_bounds:
  assumes "parse_header pw cur = Ok (h, cur')" and "in_data bs cur"
  shows "in_data bs cur' \<and> hd_field_size h = 32"
  using assms
  by (auto simp: parse_header_def result_simps split: if_splits
      dest!: read_u32_bounds [where bs = bs] read_u64_bounds [where bs = bs] cursor_skip_bounds [where bs = bs])

lemma parse_lc_bounds:
  assumes "parse_linear_combination pw 32 cur = Ok (ts, cur')" and cur: "in_data bs cur"
  shows "in_data bs cur' \<and> cur_position cur' = cur_position cur + (4 + 36 * length ts)"
proof -
  let ?I = "\<lambda>(ts, c). in_data bs c \<and> cur_position c = cur_position cur + (4 + 36 * length ts)"
  from assms(1) obtain n cur1 where n: "read_u32_le pw cur = Ok (n, cur1)"
    "rfold (parse_term_step pw 32) [0..<unat n] ([], cur1) = Ok (ts, cur')"
    by (auto simp: parse_linear_combination_def result_simps)
  have "?I (ts, cur')"
    by (rule rfold_invariant [OF n(2)])
      (use read_u32_bounds [OF n(1) cur] in \<open>auto simp: parse_term_step_def result_simps
        dest!: read_u32_bounds [where bs = bs] read_bytes_bounds [where bs = bs]\<close>)
  then show ?thesis by simp
qed

definition constraint_bytes :: "r1cs_constraint \<Rightarrow> nat" where
  "constraint_bytes c = 12 + 36 * (length (ct_a c) + length (ct_b c) + length (ct_c c))"

lemma parse_constraints_bounds:
  assumes "parse_constraints pw h cur = Ok (cs, cur')" and "hd_field_size h = 32" and cur: "in_data bs cur"
  shows "cur_position cur + (\<Sum>c \<leftarrow> cs. constraint_bytes c) \<le> length bs \<and> length cs = unat (hd_num_constraints h)"
proof -
  let ?I = "\<lambda>(cs, c). in_data bs c \<and> cur_position c = cur_position cur + (\<Sum>c \<leftarrow> cs. constraint_bytes c)"
  have loop: "rfold (parse_constraint_step pw 32) [0..<unat (hd_num_constraints h)] ([], cur) = Ok (cs, cur')"
    using assms(1,2) by (auto simp: parse_constraints_def result_simps)
  have "?I (cs, cur')"
  proof (rule rfold_invariant [OF loop])
    fix x t t' assume t: "?I t" and step: "parse_constraint_step pw 32 x t = Ok t'"
    obtain l c where tl: "t = (l, c)" by (cases t)
    from step obtain a b d c1 c2 c3 where
      p: "parse_linear_combination pw 32 c = Ok (a, c1)" "parse_linear_combination pw 32 c1 = Ok (b, c2)"
        "parse_linear_combination pw 32 c2 = Ok (d, c3)" and t': "t' = (l @ [\<lparr>ct_a = a, ct_b = b, ct_c = d\<rparr>], c3)"
      by (auto simp: parse_constraint_step_def result_simps tl)
    have c: "in_data bs c" using t by (simp add: tl)
    note 1 = parse_lc_bounds [OF p(1) c]
    note 2 = parse_lc_bounds [OF p(2) 1 [THEN conjunct1]]
    note 3 = parse_lc_bounds [OF p(3) 2 [THEN conjunct1]]
    show "?I t'" using t 1 2 3 by (simp add: tl t' constraint_bytes_def)
  qed (use cur in simp)
  moreover have "length (fst (cs, cur')) = length (fst ([] :: r1cs_constraint list, cur)) + length [0..<unat (hd_num_constraints h)]"
  proof -
    have "rfold (parse_constraint_step pw 32) xs (l, c) = Ok (l', c') \<Longrightarrow> length l' = length l + length xs" for xs l c l' c'
      by (induction xs arbitrary: l c) (fastforce simp: result_simps parse_constraint_step_def)+
    from this [OF loop] show ?thesis by simp
  qed
  ultimately show ?thesis by (simp add: in_data_def)
qed

lemma parse_section_bounds:
  assumes "parse_section pw i (h, d, cur) = Ok (h', d', cur')" and "in_data bs cur"
    and "\<And>x. h = Some x \<Longrightarrow> hd_field_size x = 32" and "\<And>st sz. d = Some (st, sz) \<Longrightarrow> st \<le> length bs"
  shows "in_data bs cur' \<and> (\<forall>x. h' = Some x \<longrightarrow> hd_field_size x = 32) \<and>
    (\<forall>st sz. d' = Some (st, sz) \<longrightarrow> st \<le> length bs)"
proof -
  obtain ty cur1 where r1: "read_u32_le pw cur = Ok (ty, cur1)"
    using assms(1) by (cases "read_u32_le pw cur") (auto simp: parse_section_def)
  obtain sz cur2 where r2: "read_u64_le pw cur1 = Ok (sz, cur2)"
    using assms(1) by (cases "read_u64_le pw cur1") (auto simp: parse_section_def r1)
  note r = r1 r2
  from assms(1) [unfolded parse_section_def r1 r2 rbind.simps prod.case Let_def]
  obtain cur3 where body: "section_body pw ty (unat sz) (h, d, cur2) = Ok (h', d', cur3)"
    and tail: "cur' = cur3 \<or> (\<exists>n. cursor_skip pw n cur3 = Ok cur')"
    by (auto simp: result_simps split: if_splits)
  have c2: "in_data bs cur2" using r assms(2) read_u32_bounds read_u64_bounds by blast
  have "in_data bs cur3 \<and> (\<forall>x. h' = Some x \<longrightarrow> hd_field_size x = 32) \<and> (\<forall>st sz. d' = Some (st, sz) \<longrightarrow> st \<le> length bs)"
    using body assms(3,4) c2
    by (auto simp: section_body_def result_simps in_data_def [of bs cur2] split: if_splits
        dest: parse_header_bounds [OF _ c2] cursor_skip_bounds [OF _ c2])
  with tail cursor_skip_bounds show ?thesis by blast
qed

lemma r1cs_parse_bounds:
  assumes "r1cs_parse pw bs = Ok r"
  shows "(\<Sum>c \<leftarrow> r1_constraints r. constraint_bytes c) \<le> length bs"
proof -
  let ?I = "\<lambda>(h, d, cur). in_data bs cur \<and> (\<forall>x. h = Some x \<longrightarrow> hd_field_size x = 32) \<and>
    (\<forall>st sz. d = Some (st, sz) \<longrightarrow> st \<le> length bs)"
  from assms obtain m cur1 v cur2 n cur3 h d cur4 where
    r: "read_bytes pw 4 (cursor_new bs) = Ok (m, cur1)" "read_u32_le pw cur1 = Ok (v, cur2)"
      "read_u32_le pw cur2 = Ok (n, cur3)"
    and loop: "rfold (parse_section pw) [0..<unat n] (None, None, cur3) = Ok (Some h, d, cur4)"
    and cs: "(case d of Some (start, sz) \<Rightarrow>
        rbind (parse_constraints pw h (cur4\<lparr>cur_position := start\<rparr>)) (\<lambda>(cs, _). Ok cs) | None \<Rightarrow> Ok []) =
      Ok (r1_constraints r)"
    by (auto simp: r1cs_parse_def r1cs_assemble_def result_simps split: if_splits)
  have c0: "in_data bs (cursor_new bs)" by (simp add: in_data_def cursor_new_def)
  note c1 = read_bytes_bounds [OF r(1) c0]
  note c2 = read_u32_bounds [OF r(2) c1 [THEN conjunct1]]
  note c3 = read_u32_bounds [OF r(3) c2 [THEN conjunct1], THEN conjunct1]
  have I: "?I (Some h, d, cur4)"
  proof (rule rfold_invariant [OF loop])
    fix x t t' assume "?I t" "parse_section pw x t = Ok t'"
    moreover obtain h0 d0 c0 h1 d1 c1 where "t = (h0, d0, c0)" "t' = (h1, d1, c1)"
      by (metis prod_cases3)
    ultimately show "?I t'" using parse_section_bounds [of pw x h0 d0 c0 h1 d1 c1 bs] by simp
  qed (use c3 in simp)
  show ?thesis
  proof (cases d)
    case (Some p)
    obtain start sz where p: "p = (start, sz)" by (cases p)
    from cs obtain cur5 where "parse_constraints pw h (cur4\<lparr>cur_position := start\<rparr>) = Ok (r1_constraints r, cur5)"
      by (auto simp: Some p result_simps)
    from parse_constraints_bounds [OF this, of bs] I show ?thesis by (simp add: Some p in_data_def)
  qed (use cs in simp)
qed

section \<open>Errors instead of panics\<close>

lemma read_neq_Panic [simp]:
  "read_bytes pw n cur \<noteq> Panic" "read_u32_le pw cur \<noteq> Panic" "read_u64_le pw cur \<noteq> Panic"
  "cursor_skip pw n cur \<noteq> Panic" "parse_header pw cur \<noteq> Panic"
  by (auto simp: read_bytes_def read_u32_le_def read_u64_le_def cursor_skip_def parse_header_def Let_def
      rbind_eq_Panic_iff split: if_splits)

lemma rfold_neq_Panic: "(\<And>x s. f x s \<noteq> Panic) \<Longrightarrow> rfold f xs s \<noteq> Panic"
  by (induction xs arbitrary: s) (auto simp: rbind_eq_Panic_iff)

lemma parse_section_neq_Panic: "parse_section pw i s \<noteq> Panic"
  by (cases s) (auto simp: parse_section_def section_body_def Let_def rbind_eq_Panic_iff split: if_splits)

lemma parse_lc_neq_Panic: "parse_linear_combination 64 f cur \<noteq> Panic"
proof -
  have "parse_term_step 64 f i s \<noteq> Panic" for i s
    by (cases s) (auto simp: parse_term_step_def rbind_eq_Panic_iff)
  moreover have "with_capacity 64 (unat n) term_size \<noteq> (Panic :: (unit, js_value) result)" for n :: u32
    using u32_lt [of n] by (simp add: with_capacity_def term_size_def)
  ultimately show ?thesis
    using rfold_neq_Panic [of "parse_term_step 64 f"] by (auto simp: parse_linear_combination_def rbind_eq_Panic_iff)
qed

lemma r1cs_parse_neq_Panic: "r1cs_parse 64 bs \<noteq> Panic"
proof -
  have "parse_constraint_step 64 f i s \<noteq> Panic" for f i s
    by (cases s) (auto simp: parse_constraint_step_def rbind_eq_Panic_iff parse_lc_neq_Panic)
  moreover have "with_capacity 64 (unat n) (constraint_size 64) \<noteq> (Panic :: (unit, js_value) result)" for n :: u32
    using u32_lt [of n] by (simp add: with_capacity_def constraint_size_def)
  ultimately have "parse_constraints 64 h cur \<noteq> Panic" for h cur
    using rfold_neq_Panic [of "parse_constraint_step 64 _"] by (auto simp: parse_constraints_def rbind_eq_Panic_iff)
  moreover have "rfold (parse_section 64) xs s \<noteq> Panic" for xs s
    by (rule rfold_neq_Panic) (rule parse_section_neq_Panic)
  ultimately show ?thesis
    by (auto simp: r1cs_parse_def r1cs_assemble_def rbind_eq_Panic_iff split: if_splits option.splits)
qed

end
