(* ===== verification/Client_Props.thy ===== *)
theory Client_Props
  imports Client_Sync Asp_Non_Membership_Props R1cs
begin

text \<open>
  The properties of the client library: hashing and its agreement with the contracts, codecs, the
  append-only and the sparse tree against the contracts' trees, and the circuit-file parser.
  Properties that compare hashes of two trees end in an explicit collision where the code relies on
  the absence of one.
\<close>

section \<open>Hashing\<close>

text \<open>On well-formed parameters the crate's permutation, with its additive formulas for the
  linear layers and its in-place rounds, never panics and computes the textbook Poseidon2
  permutation, written with matrices and powers, on every input of the right width; its result has
  that width again.\<close>

theorem poseidon2_permutation_is_textbook:
  fixes params :: "'a::comm_ring_1 poseidon2_params"
  assumes "params_ok params" and "length xs = p2_t params"
  shows "permutation_run params xs = (Ok (poseidon2_spec params xs) :: ('a list, 'e) result) \<and>
    length (poseidon2_spec params xs) = p2_t params"
  using permutation_run_spec [OF assms] .

theorem poseidon2_permutation_is_textbook_witness:
  "\<exists>ys. permutation_run (bn256_params 4) [1, 2, 3, 4] = (Ok ys :: (scalar list, unit) result) \<and> length ys = 4"
proof -
  have "length [1, 2, 3, 4 :: scalar] = p2_t (bn256_params 4)" by (simp add: bn256_params_def)
  from poseidon2_permutation_is_textbook [OF _ this, where 'e = unit] bn256_params_ok [of 4] show ?thesis
    by (auto simp: bn256_params_def)
qed

text \<open>A contract whose host function evaluates the crate's permutation on the arguments the
  contract passes hashes reduced field elements to the same values as the client: the 2-to-1
  compression of tree nodes and the domain-separated hash of sparse-tree leaves agree, in spite of
  the short row in the contract's constant table.\<close>

theorem contract_hash_is_client_hash:
  assumes "host_is_poseidon2 P" and "a < bn256_modulus" and "b < bn256_modulus"
  shows "rbind (poseidon2_compression (u256_scalar a) (u256_scalar b)) (\<lambda>h. Ok (scalar_u256 h)) =
      (poseidon2_compress P a b :: (u256, 'e) result) \<and>
    rbind (poseidon2_hash_leaf (u256_scalar a) (u256_scalar b)) (\<lambda>h. Ok (scalar_u256 h)) =
      (poseidon2_hash2 P a b (Some 1) :: (u256, 'e) result)"
  using client_contract_compress [OF assms, where 'e = 'e] client_contract_hash2 [OF assms, where 'e = 'e]
  by (simp add: poseidon2_hash_leaf_def)

theorem contract_hash_is_client_hash_witness:
  "\<exists>h. poseidon2_compress crate_host 1 2 = (Ok h :: (u256, unit) result) \<and>
    poseidon2_compression 1 2 = (Ok (u256_scalar h) :: (scalar, unit) result)"
proof -
  have "(1 :: u256) < bn256_modulus" "(2 :: u256) < bn256_modulus" by (simp_all add: bn256_modulus_num)
  from contract_hash_is_client_hash [OF crate_host_ok(1) this, where 'e = unit] show ?thesis
    by (auto simp: u256_scalar_1_2 result_simps intro!: exI [of _ "scalar_u256 (compress2 1 2)"])
qed

section \<open>Encodings\<close>

text \<open>The encodings of field elements invert each other: bytes and hexadecimal text give the
  element back; an arbitrary 32-byte string is the encoding of its element exactly when it is
  canonical; a decimal number converts exactly when it fits 128 bits, to the encoding of its value;
  no hexadecimal input makes the parser panic.\<close>

theorem field_codecs:
  "bytes_to_scalar (scalar_to_bytes s) = Ok s \<and> hex_to_scalar (scalar_to_hex s) = Ok s \<and>
   rbind (field_bytes_to_hex bs) hex_to_field_bytes =
     (if length bs = 32 then Ok (scalar_to_bytes (of_nat (le_to_nat bs))) else Err (expected_bytes (length bs))) \<and>
   (scalar_to_bytes (of_nat (le_to_nat bs)) = bs \<longleftrightarrow> length bs = 32 \<and> le_to_nat bs < nat field_order) \<and>
   decimal_to_field_bytes (show_nat n) =
     (if n < 2 ^ 128 then Ok (scalar_to_bytes (of_nat n)) else Err ''Invalid decimal string'') \<and>
   hex_to_scalar h \<noteq> Panic"
proof -
  have "scalar_to_bytes (of_nat (le_to_nat bs)) = bs \<longleftrightarrow> length bs = 32 \<and> le_to_nat bs < nat field_order"
  proof (cases "length bs = 32")
    case True
    then have "bytes_to_scalar bs = Ok (of_nat (le_to_nat bs))" by (simp add: bytes_to_scalar_def FIELD_SIZE_def)
    from scalar_bytes_canonical [OF this] True show ?thesis by simp
  qed (metis length_scalar_to_bytes)
  then show ?thesis
    by (simp add: hex_to_scalar_neq_Panic decimal_value u128_parse_show field_bytes_to_hex_def
        hex_to_field_bytes_def bytes_to_scalar_def [of bs] FIELD_SIZE_def)
qed

section \<open>Append-only trees\<close>

text \<open>C10: A client that inserts the commitments of any history of the pool's tree into its own tree
  has the pool's root, and the path it exports for any of the commitments, folded with the
  contract's own hash from that commitment along the bits of its index, arrives at that root: the
  inputs of a spending proof match the chain. This holds exactly when the leaves of the tree fit one
  allocation of the client's platform (32 bytes a leaf, at most \<open>isize::MAX\<close>): the contract allows
  up to 32 levels, but on a 32-bit target the construction of the client's tree panics from 26
  levels on and returns an error from 32. The zero table is used only below the root of the
  non-empty tree, so only those entries need its law.\<close>

theorem client_pool_tree_agrees:
  assumes "host_is_poseidon2 P" and "mk_history P levels prs = Ok st" and "zero_law_below P (unat levels)"
    and "i < 2 * length prs"
  shows "if unat levels + 6 < pw
    then \<exists>t pf path root. client_replay pw (unat levels) (map u256_scalar (pair_leaves prs)) = Ok t \<and>
      mk_get_last_root st = Ok root \<and> mt_root t = Ok (scalar_to_bytes (u256_scalar root)) \<and>
      get_proof pw t (of_nat i) = Ok pf \<and> mp_root pf = scalar_to_bytes (u256_scalar root) \<and>
      mp_path_indices pf = scalar_to_bytes (of_nat i) \<and>
      mp_path_elements pf = concat (map scalar_to_bytes path) \<and> length path = unat levels \<and>
      climb (node_hash P) i (pair_leaves prs ! i) (map scalar_u256 path) = root
    else client_replay pw (unat levels) (map u256_scalar (pair_leaves prs)) =
      (if pw \<le> unat levels then Err ''Depth too large for this platform, would overflow'' else Panic)"
proof -
  from mk_history_needs [OF host_is_poseidon2_ok [OF assms(1)] assms(2)] have
    r: "1 \<le> levels" "levels \<le> 32" "2 * length prs \<le> 2 ^ unat levels"
    "\<forall>x \<in> set (pair_leaves prs). x < bn256_modulus" by auto
  from r(1,2) have h: "0 < unat levels" "unat levels \<le> 32" by (simp_all add: word_le_nat_alt)
  have len: "length (pair_leaves prs) = 2 * length prs" by (induction prs) auto
  show ?thesis
  proof (cases "unat levels + 6 < pw")
    case True
    from client_tree_agrees [OF assms(1,3) h True, of "pair_leaves prs" i] r len assms(4)
      mk_last_root [OF mk_history_repr [OF assms(2)]]
    show ?thesis using True by (simp only: len if_True) blast
  next
    case False
    then show ?thesis using client_replay_refused [OF h, of pw] by simp
  qed
qed

theorem client_pool_tree_agrees_witness:
  "(\<exists>st t pf root. mk_history crate_host 1 [(5, 6)] = Ok st \<and> mk_get_last_root st = Ok root \<and>
    client_replay 32 1 [u256_scalar 5, u256_scalar 6] = Ok t \<and> get_proof 32 t 1 = Ok pf \<and>
    mp_root pf = scalar_to_bytes (u256_scalar root)) \<and>
   client_replay 32 26 [u256_scalar 5, u256_scalar 6] = Panic \<and>
   client_replay 32 32 [u256_scalar 5, u256_scalar 6] = Err ''Depth too large for this platform, would overflow''"
proof -
  have "\<forall>x \<in> set (pair_leaves [(5, 6)]). x < bn256_modulus" by (simp add: bn256_modulus_num)
  then obtain st where st: "mk_history crate_host 1 [(5, 6)] = Ok st"
    using mk_history_possible [OF crate_host_ok(2), of 1 "[(5, 6)]"] by auto
  have law: "zero_law_below crate_host (unat (1 :: u32))" by (simp add: zero_law_below_def)
  from client_pool_tree_agrees [OF crate_host_ok(1) st law, of 1 32] st
  show ?thesis by (auto simp: client_replay_refused)
qed

lemma am_leaves_reduced:
  assumes "am_reachable P h st" and "poseidon2_host P"
  shows "\<forall>x \<in> set (am_leaves st). x < bn256_modulus"
  using assms(1)
proof (induction rule: am_reachable.induct)
  case (am_reach_init admin levels st)
  then show ?case using am_constructor_Ok [of levels admin P] am_constructor_levels by fastforce
next
  case (am_reach_step st env st')
  from am_reach_step(2) show ?case
  proof (cases rule: am_step.cases)
    case (am_step_insert leaf)
    note inv = am_reachable_inv [OF am_reach_step(1)]
    have "am_permitted env st"
      using am_insert_leaf_denied [OF inv, of env leaf] am_step_insert by (cases "am_permitted env st") auto
    then have "length (am_leaves st) < 2 ^ h"
      using inv am_insert_leaf_full [OF inv] am_step_insert
      by (cases "length (am_leaves st) = 2 ^ h") (auto simp: am_inv_def)
    then have "leaf < bn256_modulus"
      using am_insert_leaf_out_of_field [OF inv] am_step_insert
      by (cases "bn256_modulus \<le> leaf") (auto simp: not_le)
    with am_reach_step.IH am_insert_leaf_inv [OF inv am_step_insert] show ?thesis by simp
  next
    case (am_step_mode b)
    with am_reach_step.IH am_mode_frame [OF am_step_mode] show ?thesis by (auto simp: am_leaves_def)
  next
    case (am_step_admin a)
    with am_reach_step.IH am_update_admin_frame [OF am_step_admin] show ?thesis by (auto simp: am_leaves_def)
  qed
qed

text \<open>The same for the membership policy: a client that inserts the leaves a reachable membership
  contract has logged has the contract's root, and the path it exports for any approved leaf leads
  from that leaf to the root under the contract's hash.\<close>

theorem client_membership_tree_agrees:
  assumes "host_is_poseidon2 P" and "am_reachable P h st" and "zero_law_below P h"
    and "h + 6 < pw" and "i < length (am_leaves st)"
  shows "\<exists>t pf path root. client_replay pw h (map u256_scalar (am_leaves st)) = Ok t \<and>
    am_get_root st = Ok root \<and> mt_root t = Ok (scalar_to_bytes (u256_scalar root)) \<and>
    get_proof pw t (of_nat i) = Ok pf \<and> mp_root pf = scalar_to_bytes (u256_scalar root) \<and>
    mp_path_elements pf = concat (map scalar_to_bytes path) \<and> length path = h \<and>
    climb (node_hash P) i (am_leaves st ! i) (map scalar_u256 path) = root"
proof -
  from am_reachable_inv [OF assms(2)] have inv: "0 < h" "h \<le> 32" "length (am_leaves st) \<le> 2 ^ h"
    "am_get_root st = Ok (mroot (node_hash P) zero_at h (am_leaves st))"
    by (auto simp: am_inv_def am_get_root_def)
  from client_tree_agrees [OF assms(1,3) inv(1,2) assms(4) inv(3) _ assms(5)]
    am_leaves_reduced [OF assms(2) host_is_poseidon2_ok [OF assms(1)]] inv(4)
  show ?thesis by blast
qed

theorem client_membership_tree_agrees_witness:
  "\<exists>st t pf root. am_reachable crate_host 1 st \<and> am_leaves st = [5] \<and> am_get_root st = Ok root \<and>
    client_replay 32 1 [u256_scalar 5] = Ok t \<and> get_proof 32 t 0 = Ok pf \<and>
    mp_root pf = scalar_to_bytes (u256_scalar root)"
proof -
  from am_constructor_Ok [of 1 7 crate_host] obtain st where
    st: "am_constructor 7 1 am_empty = Ok st" "am_inv crate_host 1 st" "am_reduced 1 st" "am_leaves st = []"
      "am_admin st = Some 7" by auto
  then have "am_permitted am_demo_env st" by (simp add: am_permitted_def am_demo_env_def)
  with am_insert_leaf_succeeds [OF crate_host_ok(2) st(2,3), of am_demo_env 5] st(4) obtain st' where
    st': "am_insert_leaf crate_host am_demo_env 5 st = Ok st'" by (auto simp: bn256_modulus_num)
  have "am_reachable crate_host 1 st" by (rule am_reach_init [OF st(1)]) simp
  then have reach: "am_reachable crate_host 1 st'" by (rule am_reach_step) (rule am_step_insert [OF st'])
  have leaves: "am_leaves st' = [5]" using am_insert_leaf_inv [OF st(2) st'] st(4) by simp
  have law: "zero_law_below crate_host 1" by (simp add: zero_law_below_def)
  from client_membership_tree_agrees [OF crate_host_ok(1) reach law, of 32 0] leaves reach show ?thesis by auto
qed

section \<open>The sparse tree\<close>

lemma no_collision_contract:
  assumes P: "host_is_poseidon2 P" and fld: "\<forall>x \<in> S. in_field x" and free: "\<not> found_collision S"
  shows "no_collision P S"
proof -
  have eq: "tree_hash P x = crate_hash x" if "x \<in> insert SE S" for x
    using that fld contract_tree_hash [OF P] by auto
  then have "inj_on (tree_hash P) (insert SE S) = inj_on crate_hash (insert SE S)"
    by (intro inj_on_cong) simp
  with free show ?thesis by (simp add: found_collision_iff collision_free_def)
qed

text \<open>C11: The client's sparse tree and the non-membership contract stay in step: from states that
  represent the same map, inserting an absent key, or updating a present key to a different value,
  succeeds on both sides, both then represent the map with exactly this entry changed, and the root
  the client reports is the root the contract publishes, unless the call exhibits two trees with the
  same hash.\<close>

theorem client_tree_mirrors_contract:
  fixes key val :: scalar
  defines "k \<equiv> scalar_u256 key" and "v \<equiv> scalar_u256 val"
  assumes P: "host_is_poseidon2 P" and st: "nm_repr P st t" and c: "cs_repr c t" and env: "nm_authorized env st"
    and change: "entries t k \<noteq> Some v"
  shows "(\<exists>st' res c' t'. nm_repr P st' t' \<and> cs_repr c' t' \<and> entries t' = (entries t)(k \<mapsto> v) \<and>
      nm_get_root st' = Ok (scalar_u256 (sr_new_root res)) \<and> sr_new_root res = cs_root c' \<and>
      (if entries t k = None then nm_insert_leaf P env k v st = Ok st' \<and> cs_insert c key val = Ok (res, c')
       else nm_update_leaf P env k v st = Ok st' \<and> cs_update c key val = Ok (res, c'))) \<or>
    found_collision (subtrees t \<union> subtrees (s_put 0 k v t))"
proof (cases "found_collision (subtrees t \<union> subtrees (s_put 0 k v t))")
  case False
  let ?t = "s_put 0 k v t"
  have t: "canon 0 t" "in_field t" using c by (simp_all add: cs_repr_def)
  have kv: "k < bn256_modulus" "v < bn256_modulus" by (simp_all add: k_def v_def)
  have "in_field ?t" using t(2) kv by (rule in_field_put)
  then have free: "no_collision P (subtrees t \<union> subtrees ?t)"
    using no_collision_contract [OF P _ False] in_field_subtree t(2) by blast
  have put: "entries ?t = (entries t)(k \<mapsto> v)" using s_put_props [OF t(1) agree_start] by blast
  note host = host_is_poseidon2_ok [OF P]
  show ?thesis
  proof (cases "entries t k")
    case None
    from nm_insert_repr [OF host st env None kv free] obtain st' where
      st': "nm_insert_leaf P env k v st = Ok st'" "nm_repr P st' ?t" by blast
    from cs_insert_refines [OF c, of key val, folded k_def v_def] None False obtain res c' where
      c': "cs_insert c key val = Ok (res, c')" "sr_new_root res = cs_root c'" "cs_repr c' ?t" by auto
    from st' c' None put same_root [OF P st'(2) c'(3)] show ?thesis by auto
  next
    case (Some v0)
    then have "v \<noteq> v0" using change by simp
    from nm_update_repr [OF host st env Some this kv(2) free] obtain st' where
      st': "nm_update_leaf P env k v st = Ok st'" "nm_repr P st' ?t" by blast
    from cs_update_refines [OF c, of key val, folded k_def v_def] Some False obtain res c' where
      c': "cs_update c key val = Ok (res, c')" "sr_new_root res = cs_root c'" "cs_repr c' ?t" by auto
    from st' c' Some put same_root [OF P st'(2) c'(3)] show ?thesis by auto
  qed
qed simp

text \<open>An empty contract, to apply the theorems to.\<close>

definition nm_fresh :: asp_non_membership where
  "nm_fresh = nm_empty\<lparr>nm_admin := Some 7, nm_root := Some 0\<rparr>"

lemma nm_fresh_ok: "nm_repr P nm_fresh SE" "nm_authorized am_demo_env nm_fresh"
  by (simp_all add: nm_fresh_def nm_repr_def nm_db.holds_def nm_authorized_def am_demo_env_def)

theorem client_tree_mirrors_contract_witness:
  "(\<exists>st' res c'. nm_insert_leaf crate_host am_demo_env (scalar_u256 5) (scalar_u256 3) nm_fresh = Ok st' \<and>
      cs_insert cs_new 5 3 = Ok (res, c') \<and> nm_get_root st' = Ok (scalar_u256 (cs_root c'))) \<or>
    found_collision {SE, SL (scalar_u256 5) (scalar_u256 3)}"
  using client_tree_mirrors_contract [OF crate_host_ok(1) nm_fresh_ok(1) cs_repr_new nm_fresh_ok(2), of 5 3]
  by (auto simp: insert_commute)

text \<open>C12: The answers of the client's search are what the non-membership contract accepts: from states
  that represent the same map, the search for a blocked key finds its value and the contract
  answers \<open>false\<close> to whatever proof; for a key that is not blocked the siblings and the colliding
  leaf that the client reports are accepted, unless that leaf stores the value zero or two nodes of
  the tree have the same hash.\<close>

theorem client_proof_accepted:
  fixes key :: scalar
  defines "k \<equiv> scalar_u256 key"
  assumes P: "host_is_poseidon2 P" and st: "nm_repr P st t" and c: "cs_repr c t" and nz: "\<forall>k'. k' \<noteq> k \<longrightarrow> s_end 0 k t \<noteq> SL k' 0"
  shows "(\<exists>r. cs_find c key = Ok r \<and> cf_found r = (entries t k \<noteq> None) \<and>
      (case entries t k of
         Some v \<Rightarrow> cf_found_value r = u256_scalar v \<and>
           nm_verify_non_membership P k sibs nfk nfv st = Ok False
       | None \<Rightarrow> nm_verify_non_membership P k (map scalar_u256 (cf_siblings r))
           (scalar_u256 (cf_not_found_key r)) (scalar_u256 (cf_not_found_value r)) st = Ok True)) \<or>
    found_collision (subtrees t)"
proof (cases "found_collision (subtrees t)")
  case False
  have t: "canon 0 t" "in_field t" using c by (simp_all add: cs_repr_def)
  have free: "no_collision P (subtrees t)"
    using no_collision_contract [OF P _ False] in_field_subtree t(2) by blast
  show ?thesis
  proof (cases "entries t k")
    case None
    from find_honest [OF P c None [unfolded k_def]] obtain r where
      r: "cs_find c key = Ok r" "\<not> cf_found r" "cf_is_old0 r = (s_end 0 k t = SE)"
        "honest_proof P k t (map scalar_u256 (cf_siblings r)) (scalar_u256 (cf_not_found_key r))
          (scalar_u256 (cf_not_found_value r))" by (auto simp: k_def)
    have "s_end 0 k t = SE \<or> scalar_u256 (cf_not_found_value r) \<noteq> 0"
    proof (rule disjCI)
      assume "\<not> scalar_u256 (cf_not_found_value r) \<noteq> 0"
      then have zero: "scalar_u256 (cf_not_found_value r) = 0" by blast
      from end_absent [OF t(1) None] show "s_end 0 k t = SE"
      proof
        assume "\<exists>k' v'. s_end 0 k t = SL k' v' \<and> k' \<noteq> k"
        then obtain k' v' where e: "s_end 0 k t = SL k' v'" "k' \<noteq> k" by blast
        with r(4) have "v' = 0" by (simp add: honest_proof_def zero del: scalar_u256_eq_0_iff)
        then show ?thesis using nz e by blast
      qed
    qed
    from nm_verify_honest [OF host_is_poseidon2_ok [OF P] st free None r(4) this] r None show ?thesis by auto
  next
    case (Some v)
    from end_present [OF t(1) Some] have "s_end 0 k t = SL k v" .
    then have "cs_find c key = Ok (cs_report key (map thash (s_sibs 0 k t)) (SL k v))"
      using cs_find_tree [OF c, of key] by (simp add: k_def)
    with nm_verify_present [OF st free Some] Some show ?thesis
      by (auto simp: cs_report_def k_def)
  qed
qed simp

theorem client_proof_accepted_witness:
  "(\<exists>r. cs_find cs_new 5 = Ok r \<and> \<not> cf_found r \<and>
      nm_verify_non_membership crate_host (scalar_u256 5) (map scalar_u256 (cf_siblings r))
        (scalar_u256 (cf_not_found_key r)) (scalar_u256 (cf_not_found_value r)) nm_fresh = Ok True) \<or>
    found_collision {SE}"
  using client_proof_accepted [OF crate_host_ok(1) nm_fresh_ok(1) cs_repr_new, of 5] by simp

section \<open>The circuit file\<close>

text \<open>C36: The parser of circuit files reads back what the file format writes: from a file of any
  number of sections in any order, among them the header and the constraints of a system, it
  returns that system, whatever prime and label count the header states, on 32-bit and 64-bit
  targets alike.\<close>

theorem r1cs_file_roundtrip:
  assumes "r1cs_fits pw r" and "sections_ok prime labels r secs" and "1 \<in> fst ` set secs" and "2 \<in> fst ` set secs"
    and "pw \<le> 64" and "length (enc_file secs) < 2 ^ pw" and "length secs < 2 ^ 32"
    and "length prime = 32" and "labels < 2 ^ 64"
  shows "r1cs_parse pw (enc_file secs) = Ok r"
  using parse_file [OF assms] .

text \<open>One constraint, wire 1 times wire 1 equals wire 2, with the constraints before the header.\<close>

definition demo_r1cs :: r1cs where
  "demo_r1cs = \<lparr>r1_num_wires = 3, r1_num_pub_out = 1, r1_num_pub_in = 0, r1_num_prv_in = 1, r1_num_public = 1,
     r1_constraints = [\<lparr>ct_a = [\<lparr>tm_wire_id = 2, tm_coefficient = 1\<rparr>],
       ct_b = [\<lparr>tm_wire_id = 2, tm_coefficient = 1\<rparr>], ct_c = [\<lparr>tm_wire_id = 1, tm_coefficient = 1\<rparr>]\<rparr>]\<rparr>"

definition demo_sections :: "(nat \<times> bytes) list" where
  "demo_sections = [(2, concat (map enc_constraint (r1_constraints demo_r1cs))),
     (1, enc_header (replicate 32 0) 0 demo_r1cs)]"

lemma enc_lengths:
  "length (enc_term t) = 36" "length (enc_lc ts) = 4 + 36 * length ts"
  "length prime = 32 \<Longrightarrow> length (enc_header prime labels r) = 64"
  by (simp_all add: enc_term_def enc_lc_def enc_header_def length_concat comp_def sum_list_triv)

lemma demo_file:
  "r1cs_fits 32 demo_r1cs" "sections_ok (replicate 32 0) 0 demo_r1cs demo_sections"
  "length (enc_file demo_sections) < 2 ^ 32"
  by (simp_all add: r1cs_fits_def demo_r1cs_def lc_fits_def constraint_size_def term_size_def sections_ok_def
      demo_sections_def enc_file_def enc_section_def enc_constraint_def enc_lengths r1cs_magic_def)

lemma demo_parse: "r1cs_parse 32 (enc_file demo_sections) = Ok demo_r1cs"
  by (rule parse_file [OF demo_file(1,2)]) (use demo_file(3) in \<open>simp_all add: demo_sections_def\<close>)

theorem r1cs_file_roundtrip_witness: "r1cs_parse 32 (enc_file demo_sections) = Ok demo_r1cs"
  by (rule r1cs_file_roundtrip [OF demo_file(1,2)]) (use demo_file(3) in \<open>simp_all add: demo_sections_def\<close>)

text \<open>C38: The parser never reads outside its input and builds nothing the input does not contain: an
  accepted file holds at least twelve bytes for every constraint and thirty-six for every term of the
  result, on every pointer width.\<close>

theorem r1cs_result_bounded:
  assumes "r1cs_parse pw bs = Ok r"
  shows "length (r1_constraints r) * 12 +
    36 * (\<Sum>c \<leftarrow> r1_constraints r. length (ct_a c) + length (ct_b c) + length (ct_c c)) \<le> length bs"
proof -
  have "(\<Sum>c \<leftarrow> cs. constraint_bytes c) =
      length cs * 12 + 36 * (\<Sum>c \<leftarrow> cs. length (ct_a c) + length (ct_b c) + length (ct_c c))" for cs
    by (induction cs) (simp_all add: constraint_bytes_def algebra_simps)
  with r1cs_parse_bounds [OF assms] show ?thesis by simp
qed

theorem r1cs_result_bounded_witness: "120 \<le> length (enc_file demo_sections)"
  using r1cs_result_bounded [OF demo_parse] by (simp add: demo_r1cs_def)

text \<open>C39: On a 64-bit target no input makes the parser panic: everything malformed is an error value.
  On a 32-bit target, the one the client is compiled for, it reserves memory for the number of
  constraints the header claims before it has read one, so a file of 100 bytes that claims more than
  fit the address space makes it panic.\<close>

theorem r1cs_parse_panics:
  "r1cs_parse 64 bs \<noteq> Panic \<and>
   (length prime = 32 \<and> labels < 2 ^ 64 \<and> 2 ^ 31 \<le> length (r1_constraints r) * 36 \<and>
      length (r1_constraints r) < 2 ^ 32 \<longrightarrow>
    length (enc_file [(1, enc_header prime labels r), (2, [])]) = 100 \<and>
    r1cs_parse 32 (enc_file [(1, enc_header prime labels r), (2, [])]) = Panic)"
proof -
  have "length (enc_file [(1, enc_header prime labels r), (2, [])]) = 100" if "length prime = 32"
    using enc_lengths(3) [OF that] by (simp add: enc_file_def enc_section_def r1cs_magic_def)
  then show ?thesis
    using r1cs_parse_neq_Panic parse_claimed_count [of 32 r prime labels, OF _ _ _ _ _ _ refl]
    by (auto simp: constraint_size_def)
qed

theorem r1cs_parse_panics_witness:
  "r1cs_parse 32 (enc_file [(1, enc_header (replicate 32 0) 0
     (demo_r1cs\<lparr>r1_constraints := replicate 60000000 \<lparr>ct_a = [], ct_b = [], ct_c = []\<rparr>\<rparr>)), (2, [])]) = Panic"
  using r1cs_parse_panics [of "[]" "replicate 32 0" 0
      "demo_r1cs\<lparr>r1_constraints := replicate 60000000 \<lparr>ct_a = [], ct_b = [], ct_c = []\<rparr>\<rparr>"] by simp

end
