(* ===== verification/Prover_Groth16.thy ===== *)
theory Prover_Groth16
  imports R1cs Prover_Serialization Groth16
begin

text \<open>
  The proving component of the client (\<open>app/crates/prover/src/prover.rs\<close>, \<open>types.rs\<close>): the circuit
  that replays a parsed constraint system with a finished witness, the encodings of proofs, and the
  exported prover.  Proving, verifying and the compressed point encodings belong to arkworks: they
  are the fields of the records \<open>cs_ops\<close> (the constraint system a circuit is synthesised into) and
  \<open>ark_groth16\<close>.  A constraint system is whatever those operations make of it; what the code relies
  on is stated as \<open>cs_contract\<close> below. \<open>var_size\<close> is the size of a variable in bytes: the vector of the wires'
  variables is requested before the length of the witness is looked at. The other vectors here are
  proportional to byte strings that already exist, so their requests cannot be too large.
\<close>

section \<open>Encoding of proofs\<close>

text \<open>Affine points by their coordinates, base-field elements in canonical form (\<open>into_bigint\<close>).\<close>

record g1_affine =
  g1_x :: nat
  g1_y :: nat

record g2_affine =
  g2_x_c0 :: nat
  g2_x_c1 :: nat
  g2_y_c0 :: nat
  g2_y_c1 :: nat

record ark_proof =
  ap_a :: g1_affine
  ap_b :: g2_affine
  ap_c :: g1_affine

text \<open>\<open>to_bytes_be\<close> of a four-limb integer gives 32 bytes.\<close>

definition bigint_to_be_32 :: "nat \<Rightarrow> bytes" where
  "bigint_to_be_32 val =
     (let bs = nat_to_be 32 val;
          start = 32 - length bs in
      replicate start 0 @ take (min (length bs) 32) bs)"

definition g1_bytes_uncompressed :: "g1_affine \<Rightarrow> bytes" where
  "g1_bytes_uncompressed p =
     (let x_bytes = bigint_to_be_32 (g1_x p);
          y_bytes = bigint_to_be_32 (g1_y p) in
      x_bytes @ y_bytes)"

definition g2_bytes_uncompressed :: "g2_affine \<Rightarrow> bytes" where
  "g2_bytes_uncompressed p =
     (let x0 = bigint_to_be_32 (g2_x_c0 p);
          x1 = bigint_to_be_32 (g2_x_c1 p);
          y0 = bigint_to_be_32 (g2_y_c0 p);
          y1 = bigint_to_be_32 (g2_y_c1 p) in
      x1 @ x0 @ y1 @ y0)"

definition proof_to_uncompressed_bytes :: "ark_proof \<Rightarrow> bytes" where
  "proof_to_uncompressed_bytes p =
     g1_bytes_uncompressed (ap_a p) @ g2_bytes_uncompressed (ap_b p) @ g1_bytes_uncompressed (ap_c p)"

text \<open>The compressed proof handed to JavaScript.\<close>

record groth16_proof_js =
  gj_a :: bytes
  gj_b :: bytes
  gj_c :: bytes

definition groth16_proof_to_bytes :: "groth16_proof_js \<Rightarrow> bytes" where
  "groth16_proof_to_bytes p = gj_a p @ gj_b p @ gj_c p"

text \<open>The input builder: named signals in a sorted map (\<open>BTreeMap::insert\<close> replaces).\<close>

datatype input_value = Single string | Array "string list"

record circuit_inputs =
  ci_signals :: "string \<Rightarrow> input_value option"

definition circuit_inputs_new :: circuit_inputs where
  "circuit_inputs_new = \<lparr>ci_signals = Map.empty\<rparr>"

definition set_single :: "string \<Rightarrow> string \<Rightarrow> circuit_inputs \<Rightarrow> circuit_inputs" where
  "set_single name val ci = ci\<lparr>ci_signals := (ci_signals ci)(name \<mapsto> Single val)\<rparr>"

definition set_array :: "string \<Rightarrow> string list \<Rightarrow> circuit_inputs \<Rightarrow> circuit_inputs" where
  "set_array name values ci = ci\<lparr>ci_signals := (ci_signals ci)(name \<mapsto> Array values)\<rparr>"

section \<open>Replaying the constraints\<close>

record r1cs_circuit =
  rc_r1cs :: r1cs
  rc_witness :: "scalar list"

datatype synthesis_error = Unsatisfiable | Synthesis_Failed string

text \<open>A linear combination is the sequence of terms added to the empty one (\<open>lc!()\<close>).\<close>

type_synonym 'v ark_lc = "(scalar \<times> 'v) list"

record ('v, 'cs) cs_ops =
  var_one :: 'v
  var_size :: nat
  new_input_variable :: "scalar \<Rightarrow> 'cs \<Rightarrow> ('v \<times> 'cs, synthesis_error) result"
  new_witness_variable :: "scalar \<Rightarrow> 'cs \<Rightarrow> ('v \<times> 'cs, synthesis_error) result"
  enforce_r1cs_constraint :: "'v ark_lc \<Rightarrow> 'v ark_lc \<Rightarrow> 'v ark_lc \<Rightarrow> 'cs \<Rightarrow> ('cs, synthesis_error) result"

definition alloc_input ::
  "('v, 'cs) cs_ops \<Rightarrow> scalar list \<Rightarrow> nat \<Rightarrow> 'v list \<times> 'cs \<Rightarrow> ('v list \<times> 'cs, synthesis_error) result" where
  "alloc_input ops witness i = (\<lambda>(variables, cs).
     case vec_get witness i of
       None \<Rightarrow> Err Unsatisfiable
     | Some val \<Rightarrow> rbind (new_input_variable ops val cs) (\<lambda>(var, cs'). Ok (variables @ [var], cs')))"

definition alloc_witness ::
  "('v, 'cs) cs_ops \<Rightarrow> scalar list \<Rightarrow> nat \<Rightarrow> 'v list \<times> 'cs \<Rightarrow> ('v list \<times> 'cs, synthesis_error) result" where
  "alloc_witness ops witness i = (\<lambda>(variables, cs).
     let val = (case vec_get witness i of Some x \<Rightarrow> x | None \<Rightarrow> 0) in
     rbind (new_witness_variable ops val cs) (\<lambda>(var, cs'). Ok (variables @ [var], cs')))"

definition check_constraint :: "nat \<Rightarrow> r1cs_constraint \<Rightarrow> unit \<Rightarrow> (unit, synthesis_error) result" where
  "check_constraint max_wire c u =
     rfold (\<lambda>t u. fail_if (max_wire \<le> unat (tm_wire_id t)) Unsatisfiable) (ct_a c @ ct_b c @ ct_c c) ()"

primrec build_lc :: "'v list \<Rightarrow> linear_combination \<Rightarrow> ('v ark_lc, synthesis_error) result" where
  "build_lc variables [] = Ok []"
| "build_lc variables (t # ts) =
     rbind (unwrap (vec_get variables (unat (tm_wire_id t)))) (\<lambda>var.
     rbind (build_lc variables ts) (\<lambda>lc. Ok ((tm_coefficient t, var) # lc)))"

definition enforce_constraint ::
  "('v, 'cs) cs_ops \<Rightarrow> 'v list \<Rightarrow> r1cs_constraint \<Rightarrow> 'cs \<Rightarrow> ('cs, synthesis_error) result" where
  "enforce_constraint ops variables c cs =
     rbind (build_lc variables (ct_a c)) (\<lambda>lc_a.
     rbind (build_lc variables (ct_b c)) (\<lambda>lc_b.
     rbind (build_lc variables (ct_c c)) (\<lambda>lc_c.
     enforce_r1cs_constraint ops lc_a lc_b lc_c cs)))"

definition generate_constraints ::
  "nat \<Rightarrow> ('v, 'cs) cs_ops \<Rightarrow> r1cs_circuit \<Rightarrow> 'cs \<Rightarrow> ('cs, synthesis_error) result" where
  "generate_constraints pw ops circuit cs =
     (let r = rc_r1cs circuit; witness = rc_witness circuit in
      if vec_get witness 0 \<noteq> Some 1 then Err Unsatisfiable
      else
        rbind (u32_add (r1_num_public r) 1) (\<lambda>need.
        if r1_num_wires r < need then Err Unsatisfiable
        else
          let num_public = unat (r1_num_public r); num_wires = unat (r1_num_wires r) in
          rbind (with_capacity pw num_wires (var_size ops)) (\<lambda>_.
          if length witness < num_wires then Err Unsatisfiable
          else
            rbind (rfold (alloc_input ops witness) [1..<num_public + 1] ([var_one ops], cs)) (\<lambda>s1.
            rbind (rfold (alloc_witness ops witness) [num_public + 1..<num_wires] s1) (\<lambda>(variables, cs2).
            rbind (rfold (check_constraint num_wires) (r1_constraints r) ()) (\<lambda>_.
            rfold (enforce_constraint ops variables) (r1_constraints r) cs2))))))"

section \<open>The prover\<close>

record ('pk, 'vk, 'pvk) ark_groth16 =
  ark_load_pk :: "bytes \<Rightarrow> ('pk, string) result"
  ark_load_vk :: "bytes \<Rightarrow> ('vk, string) result"
  ark_load_proof :: "bytes \<Rightarrow> (ark_proof, string) result"
  ark_vk :: "'pk \<Rightarrow> 'vk"
  ark_vk_points :: "'vk \<Rightarrow> nat"
  ark_store_vk :: "'vk \<Rightarrow> (bytes, string) result"
  ark_store_g1 :: "g1_affine \<Rightarrow> (bytes, string) result"
  ark_store_g2 :: "g2_affine \<Rightarrow> (bytes, string) result"
  ark_process_vk :: "'vk \<Rightarrow> ('pvk, string) result"
  ark_prove :: "'pk \<Rightarrow> r1cs_circuit \<Rightarrow> (ark_proof, string) result"
  ark_verify :: "'pvk \<Rightarrow> scalar list \<Rightarrow> ark_proof \<Rightarrow> (bool, string) result"

record ('pk, 'pvk) prover =
  pr_pk :: 'pk
  pr_pvk :: 'pvk
  pr_r1cs :: r1cs

definition prover_new ::
  "('pk, 'vk, 'pvk) ark_groth16 \<Rightarrow> nat \<Rightarrow> bytes \<Rightarrow> bytes \<Rightarrow> (('pk, 'pvk) prover, js_value) result" where
  "prover_new ark pw pk_bytes r1cs_bytes =
     rbind (map_err (\<lambda>e. ''Failed to load proving key: '' @ e) (ark_load_pk ark pk_bytes)) (\<lambda>pk.
     let vk = ark_vk ark pk in
     rbind (r1cs_parse pw r1cs_bytes) (\<lambda>r.
     if ark_vk_points ark vk - 1 \<noteq> unat (r1_num_public r)
     then Err ''VK public input count doesn't match R1CS''
     else
       rbind (map_err (\<lambda>e. ''Failed to process VK: '' @ e) (ark_process_vk ark vk)) (\<lambda>pvk.
       Ok \<lparr>pr_pk = pk, pr_pvk = pvk, pr_r1cs = r\<rparr>)))"

definition prover_num_public_inputs :: "('pk, 'pvk) prover \<Rightarrow> u32" where
  "prover_num_public_inputs p = r1_num_public (pr_r1cs p)"

definition prover_num_constraints :: "('pk, 'pvk) prover \<Rightarrow> nat" where
  "prover_num_constraints p = r1cs_num_constraints (pr_r1cs p)"

definition prover_num_wires :: "('pk, 'pvk) prover \<Rightarrow> u32" where
  "prover_num_wires p = r1_num_wires (pr_r1cs p)"

definition get_verifying_key ::
  "('pk, 'vk, 'pvk) ark_groth16 \<Rightarrow> ('pk, 'pvk) prover \<Rightarrow> (bytes, js_value) result" where
  "get_verifying_key ark p =
     map_err (\<lambda>e. ''Failed to serialize VK: '' @ e) (ark_store_vk ark (ark_vk ark (pr_pk p)))"

text \<open>\<open>chunks_exact(FIELD_SIZE)\<close>, and the field elements in the chunks.\<close>

function chunks_exact :: "bytes \<Rightarrow> bytes list" where
  "chunks_exact bs =
     (if length bs < FIELD_SIZE then [] else take FIELD_SIZE bs # chunks_exact (drop FIELD_SIZE bs))"
  by pat_completeness auto
termination
  by (relation "measure length") (auto simp: FIELD_SIZE_def)

declare chunks_exact.simps [simp del]

primrec parse_elements :: "bytes list \<Rightarrow> (scalar list, js_value) result" where
  "parse_elements [] = Ok []"
| "parse_elements (c # cs) = rbind (bytes_to_fr c) (\<lambda>x. rbind (parse_elements cs) (\<lambda>xs. Ok (x # xs)))"

text \<open>The part that \<open>prove\<close> and \<open>prove_bytes_uncompressed\<close> repeat literally.\<close>

definition prove_circuit ::
  "('pk, 'vk, 'pvk) ark_groth16 \<Rightarrow> ('pk, 'pvk) prover \<Rightarrow> bytes \<Rightarrow> (ark_proof, js_value) result" where
  "prove_circuit ark p witness_bytes =
     (if length witness_bytes mod FIELD_SIZE \<noteq> 0
      then Err (''Invalid witness size: '' @ show_nat (length witness_bytes) @ '' bytes (not multiple of '' @
             show_nat FIELD_SIZE @ '')'')
      else
        let num_witness_elements = length witness_bytes div FIELD_SIZE in
        if num_witness_elements < unat (r1_num_wires (pr_r1cs p))
        then Err (''Witness too short: '' @ show_nat num_witness_elements @ '' elements, circuit needs '' @
               show_nat (unat (r1_num_wires (pr_r1cs p))) @ '' wires'')
        else
          rbind (parse_elements (chunks_exact witness_bytes)) (\<lambda>witness.
          let circuit = \<lparr>rc_r1cs = pr_r1cs p, rc_witness = witness\<rparr> in
          map_err (\<lambda>e. ''Proof generation failed: '' @ e) (ark_prove ark (pr_pk p) circuit)))"

definition prove ::
  "('pk, 'vk, 'pvk) ark_groth16 \<Rightarrow> ('pk, 'pvk) prover \<Rightarrow> bytes \<Rightarrow> (groth16_proof_js, js_value) result" where
  "prove ark p witness_bytes =
     rbind (prove_circuit ark p witness_bytes) (\<lambda>pf.
     rbind (map_err (\<lambda>e. ''Failed to serialize A: '' @ e) (ark_store_g1 ark (ap_a pf))) (\<lambda>a_bytes.
     rbind (map_err (\<lambda>e. ''Failed to serialize B: '' @ e) (ark_store_g2 ark (ap_b pf))) (\<lambda>b_bytes.
     rbind (map_err (\<lambda>e. ''Failed to serialize C: '' @ e) (ark_store_g1 ark (ap_c pf))) (\<lambda>c_bytes.
     Ok \<lparr>gj_a = a_bytes, gj_b = b_bytes, gj_c = c_bytes\<rparr>))))"

definition prove_bytes ::
  "('pk, 'vk, 'pvk) ark_groth16 \<Rightarrow> ('pk, 'pvk) prover \<Rightarrow> bytes \<Rightarrow> (bytes, js_value) result" where
  "prove_bytes ark p witness_bytes =
     rbind (prove ark p witness_bytes) (\<lambda>pf. Ok (groth16_proof_to_bytes pf))"

definition prove_bytes_uncompressed ::
  "('pk, 'vk, 'pvk) ark_groth16 \<Rightarrow> ('pk, 'pvk) prover \<Rightarrow> bytes \<Rightarrow> (bytes, js_value) result" where
  "prove_bytes_uncompressed ark p witness_bytes =
     rbind (prove_circuit ark p witness_bytes) (\<lambda>pf. Ok (proof_to_uncompressed_bytes pf))"

definition proof_bytes_to_uncompressed ::
  "('pk, 'vk, 'pvk) ark_groth16 \<Rightarrow> bytes \<Rightarrow> (bytes, js_value) result" where
  "proof_bytes_to_uncompressed ark proof_bytes =
     rbind (map_err (\<lambda>e. ''Failed to load proof: '' @ e) (ark_load_proof ark proof_bytes)) (\<lambda>pf.
     Ok (proof_to_uncompressed_bytes pf))"

definition convert_proof_to_soroban ::
  "('pk, 'vk, 'pvk) ark_groth16 \<Rightarrow> bytes \<Rightarrow> (bytes, js_value) result" where
  "convert_proof_to_soroban ark proof_bytes =
     rbind (map_err (\<lambda>e. ''Failed to deserialize proof: '' @ e) (ark_load_proof ark proof_bytes)) (\<lambda>pf.
     Ok (proof_to_uncompressed_bytes pf))"

definition extract_public_inputs ::
  "nat \<Rightarrow> ('pk, 'pvk) prover \<Rightarrow> bytes \<Rightarrow> (bytes, js_value) result" where
  "extract_public_inputs pw p witness_bytes =
     (if length witness_bytes mod FIELD_SIZE \<noteq> 0 then Err ''Invalid witness size''
      else
        let num_public = unat (r1_num_public (pr_r1cs p));
            start = FIELD_SIZE;
            public_size = num_public * FIELD_SIZE in
        if 2 ^ pw \<le> public_size then Err ''Overflow calculating public inputs size''
        else
          let end_pos = start + public_size in
          if 2 ^ pw \<le> end_pos then Err ''Overflow calculating end offset''
          else if length witness_bytes < end_pos
          then Err (''Witness too short: expected at least '' @ show_nat end_pos @ '' bytes for '' @
                 show_nat num_public @ '' public inputs'')
          else Ok (slice start end_pos witness_bytes))"

definition prover_verify ::
  "('pk, 'vk, 'pvk) ark_groth16 \<Rightarrow> ('pk, 'pvk) prover \<Rightarrow> bytes \<Rightarrow> bytes \<Rightarrow> (bool, js_value) result" where
  "prover_verify ark p proof_bytes public_inputs_bytes =
     rbind (map_err (\<lambda>e. ''Failed to load proof: '' @ e) (ark_load_proof ark proof_bytes)) (\<lambda>pf.
     if length public_inputs_bytes mod FIELD_SIZE \<noteq> 0 then Err ''Invalid public inputs size''
     else
       let num_inputs = length public_inputs_bytes div FIELD_SIZE;
           points = ark_vk_points ark (ark_vk ark (pr_pk p)) in
       if points = 0 then Err ''Invalid verifying key''
       else
         let expected_inputs = points - 1 in
         if num_inputs \<noteq> expected_inputs
         then Err (''Public input count mismatch: got '' @ show_nat num_inputs @ '', expected '' @
                show_nat expected_inputs)
         else
           rbind (parse_elements (chunks_exact public_inputs_bytes)) (\<lambda>public_inputs.
           map_err (\<lambda>e. ''Verification error: '' @ e) (ark_verify ark (pr_pvk p) public_inputs pf)))"

definition verify_proof ::
  "('pk, 'vk, 'pvk) ark_groth16 \<Rightarrow> bytes \<Rightarrow> bytes \<Rightarrow> bytes \<Rightarrow> (bool, js_value) result" where
  "verify_proof ark vk_bytes proof_bytes public_inputs_bytes =
     rbind (map_err (\<lambda>e. ''Failed to load VK: '' @ e) (ark_load_vk ark vk_bytes)) (\<lambda>vk.
     rbind (map_err (\<lambda>e. ''Failed to process VK: '' @ e) (ark_process_vk ark vk)) (\<lambda>pvk.
     rbind (map_err (\<lambda>e. ''Failed to load proof: '' @ e) (ark_load_proof ark proof_bytes)) (\<lambda>pf.
     if length public_inputs_bytes mod FIELD_SIZE \<noteq> 0 then Err ''Invalid public inputs size''
     else
       rbind (parse_elements (chunks_exact public_inputs_bytes)) (\<lambda>public_inputs.
       map_err (\<lambda>e. ''Verification error: '' @ e) (ark_verify ark pvk public_inputs pf)))))"

section \<open>The encoded proof and the contract's parser\<close>

definition g1_fits :: "g1_affine \<Rightarrow> bool" where
  "g1_fits p \<longleftrightarrow> g1_x p < 2 ^ 256 \<and> g1_y p < 2 ^ 256"

definition g2_fits :: "g2_affine \<Rightarrow> bool" where
  "g2_fits p \<longleftrightarrow> g2_x_c0 p < 2 ^ 256 \<and> g2_x_c1 p < 2 ^ 256 \<and> g2_y_c0 p < 2 ^ 256 \<and> g2_y_c1 p < 2 ^ 256"

lemma bigint_to_be_32_eq: "bigint_to_be_32 n = nat_to_be 32 n"
  by (simp add: bigint_to_be_32_def Let_def)

lemma length_bigint [simp]: "length (bigint_to_be_32 n) = 32"
  by (simp add: bigint_to_be_32_eq)

lemma be_to_nat_bigint: "n < 2 ^ 256 \<Longrightarrow> be_to_nat (bigint_to_be_32 n) = n"
  by (simp add: bigint_to_be_32_eq be_to_nat_nat_to_be)

lemma length_points [simp]:
  "length (g1_bytes_uncompressed p) = 64" "length (g2_bytes_uncompressed q) = 128"
  by (simp_all add: g1_bytes_uncompressed_def g2_bytes_uncompressed_def Let_def)

lemma try_from_proof:
  "groth16_try_from (proof_to_uncompressed_bytes p) =
    Ok \<lparr>g16_a = g1_bytes_uncompressed (ap_a p), g16_b = g2_bytes_uncompressed (ap_b p),
        g16_c = g1_bytes_uncompressed (ap_c p)\<rparr>"
  by (simp add: groth16_try_from_def proof_to_uncompressed_bytes_def to_bytes_n_def slice_def g16_sizes)

lemma point_coordinates:
  "g1_fits p \<Longrightarrow> map be_to_nat [slice 0 32 (g1_bytes_uncompressed p), slice 32 64 (g1_bytes_uncompressed p)] =
    [g1_x p, g1_y p]"
  "g2_fits q \<Longrightarrow> map (\<lambda>i. be_to_nat (slice (32 * i) (32 * i + 32) (g2_bytes_uncompressed q))) [0, 1, 2, 3] =
    [g2_x_c1 q, g2_x_c0 q, g2_y_c1 q, g2_y_c0 q]"
  by (simp_all add: g1_fits_def g2_fits_def slice_def g1_bytes_uncompressed_def g2_bytes_uncompressed_def
      Let_def be_to_nat_bigint)

section \<open>Witness bytes\<close>

lemma chunks_exact_Nil [simp]: "chunks_exact [] = []"
  by (subst chunks_exact.simps) (simp add: FIELD_SIZE_def)

lemma chunks_exact_append: "length c = 32 \<Longrightarrow> chunks_exact (c @ bs) = c # chunks_exact bs"
  by (subst chunks_exact.simps) (simp add: FIELD_SIZE_def)

lemma chunks_exact_take_drop:
  "chunks_exact (take (32 * k) bs) = take k (chunks_exact bs)"
  "chunks_exact (drop (32 * k) bs) = drop k (chunks_exact bs)"
proof (induction k arbitrary: bs)
  case (Suc k)
  {
    case 1
    show ?case
    proof (cases "length bs < 32")
      case False
      then have "take (32 * Suc k) bs = take 32 bs @ take (32 * k) (drop 32 bs)" by (simp add: take_add)
      with False show ?thesis using Suc.IH(1) [of "drop 32 bs"]
        by (simp add: chunks_exact_append chunks_exact.simps [of bs] FIELD_SIZE_def)
    qed (simp add: chunks_exact.simps [of bs] FIELD_SIZE_def)
  next
    case 2
    show ?case
    proof (cases "length bs < 32")
      case False
      have "drop (32 * Suc k) bs = drop (32 * k) (drop 32 bs)" by (simp add: add.commute)
      with False show ?thesis using Suc.IH(2) [of "drop 32 bs"]
        by (simp add: chunks_exact.simps [of bs] FIELD_SIZE_def)
    qed (simp add: chunks_exact.simps [of bs] FIELD_SIZE_def)
  }
qed simp_all

lemma chunks_exact_length: "length (chunks_exact bs) = length bs div 32" "c \<in> set (chunks_exact bs) \<Longrightarrow> length c = 32"
proof (induction bs rule: chunks_exact.induct)
  case (1 bs)
  {
    case 1
    show ?case using "1.IH"(1) by (subst chunks_exact.simps) (auto simp: FIELD_SIZE_def le_div_geq)
  next
    case 2
    then show ?case using "1.IH"(2) by (subst (asm) chunks_exact.simps) (auto simp: FIELD_SIZE_def split: if_splits)
  }
qed

definition elements :: "bytes \<Rightarrow> scalar list" where
  "elements bs = map (\<lambda>c. of_nat (le_to_nat c)) (chunks_exact bs)"

lemma parse_elements_value: "parse_elements (chunks_exact bs) = Ok (elements bs)"
proof -
  have "(\<And>c. c \<in> set cs \<Longrightarrow> length c = 32) \<Longrightarrow> parse_elements cs = Ok (map (\<lambda>c. of_nat (le_to_nat c)) cs)" for cs
    by (induction cs) (simp_all add: bytes_to_fr_def FIELD_SIZE_def)
  from this [OF chunks_exact_length(2)] show ?thesis by (simp add: elements_def)
qed

lemma elements_scalars [simp]: "elements (concat (map scalar_to_bytes xs)) = xs"
  by (induction xs) (simp_all add: elements_def chunks_exact_append le_to_nat_scalar_to_bytes)

lemma extracted_elements:
  assumes "extract_public_inputs pw p wb = Ok bs"
  shows "elements bs = take (unat (r1_num_public (pr_r1cs p))) (drop 1 (elements wb))" "length bs mod 32 = 0"
    "length bs div 32 = unat (r1_num_public (pr_r1cs p))"
proof -
  let ?n = "unat (r1_num_public (pr_r1cs p))"
  from assms have bs: "bs = slice 32 (32 + 32 * ?n) wb" "32 + 32 * ?n \<le> length wb"
    by (auto simp: extract_public_inputs_def FIELD_SIZE_def Let_def mult.commute split: if_splits)
  then have "bs = take (32 * ?n) (drop 32 wb)" by (simp add: slice_def drop_take)
  then show "elements bs = take ?n (drop 1 (elements wb))"
    using chunks_exact_take_drop(2) [of 1 wb]
    by (simp add: elements_def chunks_exact_take_drop(1) take_map drop_map)
  from bs show "length bs mod 32 = 0" "length bs div 32 = ?n" by (simp_all add: slice_def)
qed

section \<open>What the circuit synthesises\<close>

text \<open>
  The observations on a constraint system that its documentation speaks of, and what its operations
  do to them: allocation gives a fresh variable that has the assigned value, an input is public, and
  a constraint is recorded.
\<close>

record ('v, 'cs) cs_view =
  cv_vars :: "'cs \<Rightarrow> 'v set"
  cv_value :: "'cs \<Rightarrow> 'v \<Rightarrow> scalar"
  cv_inputs :: "'cs \<Rightarrow> scalar list"
  cv_enforced :: "'cs \<Rightarrow> ('v ark_lc \<times> 'v ark_lc \<times> 'v ark_lc) list"

definition cs_contract :: "('v, 'cs) cs_ops \<Rightarrow> ('v, 'cs) cs_view \<Rightarrow> bool" where
  "cs_contract ops V \<longleftrightarrow>
     (\<forall>x cs. \<exists>v cs'. new_input_variable ops x cs = Ok (v, cs') \<and> v \<notin> cv_vars V cs \<and>
        cv_vars V cs' = insert v (cv_vars V cs) \<and> cv_value V cs' = (cv_value V cs)(v := x) \<and>
        cv_inputs V cs' = cv_inputs V cs @ [x] \<and> cv_enforced V cs' = cv_enforced V cs) \<and>
     (\<forall>x cs. \<exists>v cs'. new_witness_variable ops x cs = Ok (v, cs') \<and> v \<notin> cv_vars V cs \<and>
        cv_vars V cs' = insert v (cv_vars V cs) \<and> cv_value V cs' = (cv_value V cs)(v := x) \<and>
        cv_inputs V cs' = cv_inputs V cs \<and> cv_enforced V cs' = cv_enforced V cs) \<and>
     (\<forall>a b c cs. \<exists>cs'. enforce_r1cs_constraint ops a b c cs = Ok cs' \<and> cv_vars V cs' = cv_vars V cs \<and>
        cv_value V cs' = cv_value V cs \<and> cv_inputs V cs' = cv_inputs V cs \<and>
        cv_enforced V cs' = cv_enforced V cs @ [(a, b, c)])"

definition lc_value :: "('v \<Rightarrow> scalar) \<Rightarrow> 'v ark_lc \<Rightarrow> scalar" where
  "lc_value val lc = (\<Sum>(k, v) \<leftarrow> lc. k * val v)"

definition cs_satisfied :: "('v, 'cs) cs_view \<Rightarrow> 'cs \<Rightarrow> bool" where
  "cs_satisfied V cs \<longleftrightarrow> (\<forall>(a, b, c) \<in> set (cv_enforced V cs).
     lc_value (cv_value V cs) a * lc_value (cv_value V cs) b = lc_value (cv_value V cs) c)"

text \<open>The meaning of the parsed file: every constraint holds of the witness.\<close>

definition row_value :: "scalar list \<Rightarrow> linear_combination \<Rightarrow> scalar" where
  "row_value w ts = (\<Sum>t \<leftarrow> ts. tm_coefficient t * w ! unat (tm_wire_id t))"

definition r1cs_satisfied :: "r1cs \<Rightarrow> scalar list \<Rightarrow> bool" where
  "r1cs_satisfied r w \<longleftrightarrow> (\<forall>c \<in> set (r1_constraints r).
     row_value w (ct_a c) * row_value w (ct_b c) = row_value w (ct_c c))"

definition wires_below :: "nat \<Rightarrow> r1cs_constraint \<Rightarrow> bool" where
  "wires_below n c \<longleftrightarrow> (\<forall>t \<in> set (ct_a c @ ct_b c @ ct_c c). unat (tm_wire_id t) < n)"

definition wires_in_range :: "r1cs \<Rightarrow> bool" where
  "wires_in_range r \<longleftrightarrow> (\<forall>c \<in> set (r1_constraints r). wires_below (unat (r1_num_wires r)) c)"

definition circuit_ok :: "r1cs \<Rightarrow> scalar list \<Rightarrow> bool" where
  "circuit_ok r w \<longleftrightarrow> vec_get w 0 = Some 1 \<and> unat (r1_num_public r) < unat (r1_num_wires r) \<and>
     unat (r1_num_wires r) \<le> length w \<and> wires_in_range r"

definition assigned :: "('v, 'cs) cs_view \<Rightarrow> scalar list \<Rightarrow> 'v list \<Rightarrow> 'cs \<Rightarrow> bool" where
  "assigned V w vs cs \<longleftrightarrow> (\<forall>j < length vs. vs ! j \<in> cv_vars V cs \<and> cv_value V cs (vs ! j) = w ! j)"

lemma assigned_snoc:
  assumes "assigned V w vs cs" and "v \<notin> cv_vars V cs" and "cv_vars V cs' = insert v (cv_vars V cs)"
    and "cv_value V cs' = (cv_value V cs)(v := w ! length vs)"
  shows "assigned V w (vs @ [v]) cs'"
  using assms by (auto simp: assigned_def nth_append less_Suc_eq)

lemma alloc_steps:
  assumes "cs_contract ops V" and "assigned V w vs cs" and "length vs < length w"
  shows "\<exists>vs' cs'. alloc_input ops w (length vs) (vs, cs) = Ok (vs', cs') \<and> assigned V w vs' cs' \<and>
      length vs' = Suc (length vs) \<and> cv_inputs V cs' = cv_inputs V cs @ [w ! length vs] \<and>
      cv_enforced V cs' = cv_enforced V cs"
    and "\<exists>vs' cs'. alloc_witness ops w (length vs) (vs, cs) = Ok (vs', cs') \<and> assigned V w vs' cs' \<and>
      length vs' = Suc (length vs) \<and> cv_inputs V cs' = cv_inputs V cs \<and> cv_enforced V cs' = cv_enforced V cs"
proof -
  from assms(1) obtain v cs' where 1: "new_input_variable ops (w ! length vs) cs = Ok (v, cs')" "v \<notin> cv_vars V cs"
    "cv_vars V cs' = insert v (cv_vars V cs)" "cv_value V cs' = (cv_value V cs)(v := w ! length vs)"
    "cv_inputs V cs' = cv_inputs V cs @ [w ! length vs]" "cv_enforced V cs' = cv_enforced V cs"
    unfolding cs_contract_def by meson
  with assigned_snoc [OF assms(2) 1(2-4)] assms(3)
  show "\<exists>vs' cs'. alloc_input ops w (length vs) (vs, cs) = Ok (vs', cs') \<and> assigned V w vs' cs' \<and>
      length vs' = Suc (length vs) \<and> cv_inputs V cs' = cv_inputs V cs @ [w ! length vs] \<and>
      cv_enforced V cs' = cv_enforced V cs" by (simp add: alloc_input_def)
  from assms(1) obtain v cs' where 2: "new_witness_variable ops (w ! length vs) cs = Ok (v, cs')" "v \<notin> cv_vars V cs"
    "cv_vars V cs' = insert v (cv_vars V cs)" "cv_value V cs' = (cv_value V cs)(v := w ! length vs)"
    "cv_inputs V cs' = cv_inputs V cs" "cv_enforced V cs' = cv_enforced V cs"
    unfolding cs_contract_def by meson
  with assigned_snoc [OF assms(2) 2(2-4)] assms(3)
  show "\<exists>vs' cs'. alloc_witness ops w (length vs) (vs, cs) = Ok (vs', cs') \<and> assigned V w vs' cs' \<and>
      length vs' = Suc (length vs) \<and> cv_inputs V cs' = cv_inputs V cs \<and> cv_enforced V cs' = cv_enforced V cs"
    by (simp add: alloc_witness_def)
qed

lemma alloc_loop:
  assumes step: "\<And>vs cs. assigned V w vs cs \<Longrightarrow> length vs < length w \<Longrightarrow>
      \<exists>vs' cs'. f (length vs) (vs, cs) = Ok (vs', cs') \<and> assigned V w vs' cs' \<and> length vs' = Suc (length vs) \<and>
        cv_inputs V cs' = cv_inputs V cs @ ins (w ! length vs) \<and> cv_enforced V cs' = cv_enforced V cs"
  shows "assigned V w vs cs \<Longrightarrow> length vs = n \<Longrightarrow> n + k \<le> length w \<Longrightarrow>
    \<exists>vs' cs'. rfold f [n..<n + k] (vs, cs) = Ok (vs', cs') \<and> assigned V w vs' cs' \<and> length vs' = n + k \<and>
      cv_inputs V cs' = cv_inputs V cs @ concat (map (\<lambda>i. ins (w ! i)) [n..<n + k]) \<and>
      cv_enforced V cs' = cv_enforced V cs"
proof (induction k arbitrary: n vs cs)
  case (Suc k)
  from step [OF Suc.prems(1)] Suc.prems obtain vs1 cs1 where
    1: "f n (vs, cs) = Ok (vs1, cs1)" "assigned V w vs1 cs1" "length vs1 = Suc n"
      "cv_inputs V cs1 = cv_inputs V cs @ ins (w ! n)" "cv_enforced V cs1 = cv_enforced V cs" by fastforce
  have upt: "[n..<n + Suc k] = n # [Suc n..<Suc n + k]" by (simp add: upt_rec)
  from Suc.IH [OF 1(2,3)] Suc.prems(3) obtain vs2 cs2 where
    "rfold f [Suc n..<Suc n + k] (vs1, cs1) = Ok (vs2, cs2)" "assigned V w vs2 cs2" "length vs2 = Suc n + k"
      "cv_inputs V cs2 = cv_inputs V cs1 @ concat (map (\<lambda>i. ins (w ! i)) [Suc n..<Suc n + k])"
      "cv_enforced V cs2 = cv_enforced V cs1" by auto
  with 1 show ?case unfolding upt by simp
qed simp

lemma build_lc_value:
  assumes "assigned V w vs cs" and "\<forall>t \<in> set ts. unat (tm_wire_id t) < length vs"
  shows "\<exists>lc. build_lc vs ts = Ok lc \<and> lc_value (cv_value V cs) lc = row_value w ts"
  using assms(2)
proof (induction ts)
  case (Cons t ts)
  then obtain lc where "build_lc vs ts = Ok lc" "lc_value (cv_value V cs) lc = row_value w ts" by auto
  with Cons.prems assms(1) show ?case by (auto simp: lc_value_def row_value_def assigned_def)
qed (simp add: lc_value_def row_value_def)

definition lc_triple :: "('v \<Rightarrow> scalar) \<Rightarrow> 'v ark_lc \<times> 'v ark_lc \<times> 'v ark_lc \<Rightarrow> scalar \<times> scalar \<times> scalar" where
  "lc_triple val = (\<lambda>(a, b, c). (lc_value val a, lc_value val b, lc_value val c))"

definition row_triple :: "scalar list \<Rightarrow> r1cs_constraint \<Rightarrow> scalar \<times> scalar \<times> scalar" where
  "row_triple w c = (row_value w (ct_a c), row_value w (ct_b c), row_value w (ct_c c))"

lemma enforce_loop:
  assumes contract: "cs_contract ops V"
    and "assigned V w vs cs" and "\<forall>c \<in> set rows. wires_below (length vs) c"
  shows "\<exists>cs' new. rfold (enforce_constraint ops vs) rows cs = Ok cs' \<and> cv_value V cs' = cv_value V cs \<and>
    cv_inputs V cs' = cv_inputs V cs \<and> cv_enforced V cs' = cv_enforced V cs @ new \<and>
    map (lc_triple (cv_value V cs)) new = map (row_triple w) rows"
  using assms(2,3)
proof (induction rows arbitrary: cs)
  case (Cons r rows)
  have rng: "\<forall>t \<in> set (ct_a r). unat (tm_wire_id t) < length vs" "\<forall>t \<in> set (ct_b r). unat (tm_wire_id t) < length vs"
    "\<forall>t \<in> set (ct_c r). unat (tm_wire_id t) < length vs" using Cons.prems(2) by (simp_all add: wires_below_def)
  obtain a b c where lcs: "build_lc vs (ct_a r) = Ok a" "build_lc vs (ct_b r) = Ok b" "build_lc vs (ct_c r) = Ok c"
    and tr: "lc_triple (cv_value V cs) (a, b, c) = row_triple w r"
    using rng [THEN build_lc_value [OF Cons.prems(1)]] by (auto simp: lc_triple_def row_triple_def)
  from contract obtain cs1 where 1: "enforce_r1cs_constraint ops a b c cs = Ok cs1" "cv_vars V cs1 = cv_vars V cs"
    "cv_value V cs1 = cv_value V cs" "cv_inputs V cs1 = cv_inputs V cs" "cv_enforced V cs1 = cv_enforced V cs @ [(a, b, c)]"
    unfolding cs_contract_def by meson
  have step: "enforce_constraint ops vs r cs = Ok cs1" using lcs 1(1) by (simp add: enforce_constraint_def)
  have "assigned V w vs cs1" using Cons.prems(1) 1(2,3) by (simp add: assigned_def)
  from Cons.IH [OF this] Cons.prems(2) obtain cs2 new where
    "rfold (enforce_constraint ops vs) rows cs1 = Ok cs2" "cv_value V cs2 = cv_value V cs1"
    "cv_inputs V cs2 = cv_inputs V cs1" "cv_enforced V cs2 = cv_enforced V cs1 @ new"
    "map (lc_triple (cv_value V cs1)) new = map (row_triple w) rows" by auto
  with 1 tr step show ?case
    by (intro exI [of _ cs2] exI [of _ "(a, b, c) # new"]) simp
qed simp

lemma check_row:
  "check_constraint n c u =
    (if wires_below n c then Ok () else Err Unsatisfiable)"
proof -
  have "rfold (\<lambda>t u. fail_if (n \<le> unat (tm_wire_id t)) Unsatisfiable) ts () =
      (if \<forall>t \<in> set ts. unat (tm_wire_id t) < n then Ok () else Err Unsatisfiable)" for ts
    by (induction ts) (auto simp: fail_if_def)
  then show ?thesis unfolding check_constraint_def wires_below_def .
qed

lemma check_rows:
  "rfold (check_constraint n) rows u =
    (if \<forall>c \<in> set rows. wires_below n c then Ok () else Err Unsatisfiable)"
proof (induction rows)
  case (Cons c rows)
  then show ?case by (simp add: check_row)
qed simp

lemma satisfied_triples:
  "cs_satisfied V cs \<longleftrightarrow> (\<forall>(x, y, z) \<in> set (map (lc_triple (cv_value V cs)) (cv_enforced V cs)). x * y = z)"
  "r1cs_satisfied r w \<longleftrightarrow> (\<forall>(x, y, z) \<in> set (map (row_triple w) (r1_constraints r)). x * y = z)"
  by (auto simp: cs_satisfied_def r1cs_satisfied_def lc_triple_def row_triple_def)

definition fresh_cs :: "('v, 'cs) cs_ops \<Rightarrow> ('v, 'cs) cs_view \<Rightarrow> 'cs \<Rightarrow> bool" where
  "fresh_cs ops V cs \<longleftrightarrow> var_one ops \<in> cv_vars V cs \<and> cv_value V cs (var_one ops) = 1 \<and>
     cv_inputs V cs = [] \<and> cv_enforced V cs = []"

lemma alloc_all:
  assumes contract: "cs_contract ops V" and fresh: "fresh_cs ops V cs"
    and w: "w ! 0 = 1" "unat np < unat nw" "unat nw \<le> length w"
  shows "\<exists>s1 vs cs2. rfold (alloc_input ops w) [1..<unat (np :: u32) + 1] ([var_one ops], cs) = Ok s1 \<and>
    rfold (alloc_witness ops w) [unat np + 1..<unat (nw :: u32)] s1 = Ok (vs, cs2) \<and> assigned V w vs cs2 \<and>
    length vs = unat nw \<and> cv_inputs V cs2 = take (unat np) (drop 1 w) \<and> cv_enforced V cs2 = []"
proof -
  have one: "assigned V w [var_one ops] cs" using fresh w(1) by (simp add: assigned_def fresh_cs_def)
  have "\<exists>vs cs'. rfold (alloc_input ops w) [1..<1 + unat np] ([var_one ops], cs) = Ok (vs, cs') \<and> assigned V w vs cs' \<and>
      length vs = 1 + unat np \<and> cv_inputs V cs' = cv_inputs V cs @ concat (map (\<lambda>i. [w ! i]) [1..<1 + unat np]) \<and>
      cv_enforced V cs' = cv_enforced V cs"
    by (rule alloc_loop [OF _ one]) (use alloc_steps(1) [OF contract] w in auto)
  then obtain vs1 cs1 where 1: "rfold (alloc_input ops w) [1..<1 + unat np] ([var_one ops], cs) = Ok (vs1, cs1)"
    "assigned V w vs1 cs1" "length vs1 = 1 + unat np" "cv_inputs V cs1 = map (\<lambda>i. w ! i) [1..<1 + unat np]"
    "cv_enforced V cs1 = []" using fresh by (auto simp: fresh_cs_def)
  have nw: "unat nw = (1 + unat np) + (unat nw - unat np - 1)" using w(2) by simp
  have "\<exists>vs cs'. rfold (alloc_witness ops w) [1 + unat np..<(1 + unat np) + (unat nw - unat np - 1)] (vs1, cs1) = Ok (vs, cs') \<and>
      assigned V w vs cs' \<and> length vs = (1 + unat np) + (unat nw - unat np - 1) \<and>
      cv_inputs V cs' = cv_inputs V cs1 @ concat (map (\<lambda>i. []) [1 + unat np..<(1 + unat np) + (unat nw - unat np - 1)]) \<and>
      cv_enforced V cs' = cv_enforced V cs1"
    by (rule alloc_loop [OF _ 1(2,3)]) (use alloc_steps(2) [OF contract] w in auto)
  moreover have "map (\<lambda>i. w ! i) [1..<1 + unat np] = take (unat np) (drop 1 w)"
    by (rule nth_equalityI) (use w in \<open>auto simp del: upt_Suc\<close>)
  ultimately show ?thesis using 1 nw by (auto simp: concat_eq_Nil_conv)
qed

lemma generate_constraints_ok:
  assumes contract: "cs_contract ops V" and fresh: "fresh_cs ops V cs" and ok: "circuit_ok r w"
    and fits: "unat (r1_num_wires r) * var_size ops < 2 ^ (pw - 1)"
  shows "\<exists>cs'. generate_constraints pw ops \<lparr>rc_r1cs = r, rc_witness = w\<rparr> cs = Ok cs' \<and>
    cv_inputs V cs' = take (unat (r1_num_public r)) (drop 1 w) \<and> (cs_satisfied V cs' \<longleftrightarrow> r1cs_satisfied r w)"
proof -
  let ?np = "unat (r1_num_public r)" and ?nw = "unat (r1_num_wires r)"
  have w: "vec_get w 0 = Some 1" "w ! 0 = 1" "?np < ?nw" "?nw \<le> length w" and rng: "wires_in_range r"
    using ok by (auto simp: circuit_ok_def result_simps)
  have "?nw < 2 ^ 32" by (rule u32_lt)
  then have need: "u32_add (r1_num_public r) 1 = (Ok (r1_num_public r + 1) :: (u32, synthesis_error) result)" "\<not> r1_num_wires r < r1_num_public r + 1"
    using w(3) unat_u32_add [of "r1_num_public r" 1] by (simp_all add: u32_add_def word_less_nat_alt)
  from alloc_all [OF contract fresh w(2-4)] obtain s1 vs cs2 where
    alloc: "rfold (alloc_input ops w) [1..<?np + 1] ([var_one ops], cs) = Ok s1"
      "rfold (alloc_witness ops w) [?np + 1..<?nw] s1 = Ok (vs, cs2)" "assigned V w vs cs2" "length vs = ?nw"
      "cv_inputs V cs2 = take ?np (drop 1 w)" "cv_enforced V cs2 = []" by blast
  have rng': "\<forall>c \<in> set (r1_constraints r). wires_below (length vs) c"
    using rng alloc(4) by (simp add: wires_in_range_def)
  from enforce_loop [OF contract alloc(3) rng'] obtain cs3 new where
    enf: "rfold (enforce_constraint ops vs) (r1_constraints r) cs2 = Ok cs3" "cv_value V cs3 = cv_value V cs2"
      "cv_inputs V cs3 = cv_inputs V cs2" "cv_enforced V cs3 = new"
      "map (lc_triple (cv_value V cs2)) new = map (row_triple w) (r1_constraints r)" using alloc(6) by auto
  have "rfold (check_constraint ?nw) (r1_constraints r) () = Ok ()"
    using rng by (simp add: check_rows wires_in_range_def)
  then have "generate_constraints pw ops \<lparr>rc_r1cs = r, rc_witness = w\<rparr> cs = Ok cs3"
    using w need alloc(1,2) enf(1) fits by (simp add: generate_constraints_def with_capacity_def Let_def)
  moreover have "cs_satisfied V cs3 \<longleftrightarrow> r1cs_satisfied r w"
    unfolding satisfied_triples enf(2,4,5) ..
  ultimately show ?thesis using enf(3) alloc(5) by auto
qed

lemma generate_constraints_refuses:
  assumes contract: "cs_contract ops V" and fresh: "fresh_cs ops V cs"
    and bad: "\<not> circuit_ok r w \<or> 2 ^ (pw - 1) \<le> unat (r1_num_wires r) * var_size ops"
  shows "generate_constraints pw ops \<lparr>rc_r1cs = r, rc_witness = w\<rparr> cs =
    (if vec_get w 0 = Some 1 \<and> (unat (r1_num_public r) = 2 ^ 32 - 1 \<or>
        unat (r1_num_public r) < unat (r1_num_wires r) \<and> 2 ^ (pw - 1) \<le> unat (r1_num_wires r) * var_size ops)
     then Panic else Err Unsatisfiable)"
proof (cases "vec_get w 0 = Some 1 \<and> unat (r1_num_public r) \<noteq> 2 ^ 32 - 1")
  case True
  then have need: "u32_add (r1_num_public r) 1 = (Ok (r1_num_public r + 1) :: (u32, synthesis_error) result)" "unat (r1_num_public r + 1) = unat (r1_num_public r) + 1"
    using u32_lt [of "r1_num_public r"] unat_u32_add [of "r1_num_public r" 1] by (auto simp: u32_add_def)
  show ?thesis
  proof (cases "unat (r1_num_public r) < unat (r1_num_wires r) \<and> unat (r1_num_wires r) \<le> length w \<and>
      unat (r1_num_wires r) * var_size ops < 2 ^ (pw - 1)")
    case False
    then show ?thesis using True need
      by (auto simp: generate_constraints_def with_capacity_def Let_def word_less_nat_alt)
  next
    case enough: True
    from True have "w ! 0 = 1" by (simp add: result_simps)
    from alloc_all [OF contract fresh this] enough obtain s1 vs cs2 where
      alloc: "rfold (alloc_input ops w) [1..<unat (r1_num_public r) + 1] ([var_one ops], cs) = Ok s1"
        "rfold (alloc_witness ops w) [unat (r1_num_public r) + 1..<unat (r1_num_wires r)] s1 = Ok (vs, cs2)" by blast
    have "\<not> wires_in_range r" using bad True enough by (auto simp: circuit_ok_def)
    then have "rfold (check_constraint (unat (r1_num_wires r))) (r1_constraints r) () = Err Unsatisfiable"
      by (simp add: check_rows wires_in_range_def)
    then show ?thesis
      using True need enough alloc by (simp add: generate_constraints_def with_capacity_def Let_def word_less_nat_alt)
  qed
next
  case False
  then show ?thesis by (auto simp: generate_constraints_def Let_def u32_add_def)
qed

end
