(* ===== verification/Witness.thy ===== *)
theory Witness
  imports Prover_Groth16
begin

text \<open>
  The witness component of the client (\<open>app/crates/witness/src/lib.rs\<close>): flattening of JSON inputs to
  the signals of a circuit, field elements from signed integers, and the witness bytes for the
  prover.  JSON parsing, big-integer text and bytes, and the circuit's own calculator belong to
  libraries: they are parameters.  A JSON number is what the code observes of it, its readings as
  \<open>u64\<close> and as \<open>i64\<close>; an object is the list of its fields in the order the library iterates them.
\<close>

section \<open>Data\<close>

datatype json =
    JNull
  | JBool bool
  | JNumber "u64 option" "64 word option"
  | JString string
  | JArray "json list"
  | JObject "(string \<times> json) list"

type_synonym signals = "string \<Rightarrow> int list option"

record bigint_ops =
  bi_parse_bytes :: "string \<Rightarrow> nat \<Rightarrow> int option"
  bi_to_bytes_be :: "int \<Rightarrow> int \<times> bytes"

definition BN254_FIELD_MODULUS :: int where
  "BN254_FIELD_MODULUS = 21888242871839275222246405745257275088548364400416034343698204186575808495617"

section \<open>Field elements\<close>

definition to_field_element :: "int \<Rightarrow> (int, js_value) result" where
  "to_field_element bi =
     (let modulus = BN254_FIELD_MODULUS in
      if bi < 0 then
        let abs_value = bi * - 1 in
        if \<not> abs_value < modulus then Panic else Ok (modulus - abs_value)
      else if \<not> bi < modulus then Panic
      else Ok bi)"

text \<open>\<open>inputs.entry(key).or_default().push(x)\<close>.\<close>

definition push_signal :: "string \<Rightarrow> int \<Rightarrow> signals \<Rightarrow> signals" where
  "push_signal key x inputs = inputs(key \<mapsto> (case inputs key of Some xs \<Rightarrow> xs | None \<Rightarrow> []) @ [x])"

definition number_bigint :: "string \<Rightarrow> u64 option \<Rightarrow> 64 word option \<Rightarrow> (int, js_value) result" where
  "number_bigint key n_u64 n_i64 =
     (case n_u64 of
        Some i \<Rightarrow> Ok (uint i)
      | None \<Rightarrow> (case n_i64 of
          Some i \<Rightarrow> Ok (sint i)
        | None \<Rightarrow> Err (''Invalid number for '' @ key)))"

definition string_bigint :: "bigint_ops \<Rightarrow> string \<Rightarrow> string \<Rightarrow> (int, js_value) result" where
  "string_bigint ops key s =
     ok_or (case strip_prefix ''0x'' s of
        Some hex \<Rightarrow> bi_parse_bytes ops hex 16
      | None \<Rightarrow> bi_parse_bytes ops s 10) (''Invalid bigint for '' @ key @ '': '' @ s)"

section \<open>Pure arrays\<close>

text \<open>The loops work on explicit stacks; the head of the list is the top of the stack.\<close>

function pure_loop :: "json list \<Rightarrow> bool" where
  "pure_loop [] = True"
| "pure_loop (JNull # stack) = pure_loop stack"
| "pure_loop (JBool b # stack) = pure_loop stack"
| "pure_loop (JNumber n i # stack) = pure_loop stack"
| "pure_loop (JString s # stack) = pure_loop stack"
| "pure_loop (JArray arr # stack) = pure_loop (rev arr @ stack)"
| "pure_loop (JObject obj # stack) = False"
  by pat_completeness auto

lemma size_list_append [simp]: "size_list f (xs @ ys) = size_list f xs + size_list f ys"
  by (induction xs) simp_all

lemma size_list_rev [simp]: "size_list f (rev xs) = size_list f xs"
  by (induction xs) simp_all

termination pure_loop
  by (relation "measure (size_list size)") simp_all

definition is_pure_array :: "json \<Rightarrow> bool" where
  "is_pure_array val = pure_loop [val]"

datatype work_item = WValue json | WIter "json list" nat

fun work_size :: "work_item \<Rightarrow> nat" where
  "work_size (WValue v) = 2 * size v + 1"
| "work_size (WIter arr idx) = 2 * size_list size (drop idx arr)"

function pure_array_loop ::
  "bigint_ops \<Rightarrow> string \<Rightarrow> work_item list \<Rightarrow> signals \<Rightarrow> (signals, js_value) result" where
  "pure_array_loop ops key [] inputs = Ok inputs"
| "pure_array_loop ops key (WValue (JNumber n i) # stack) inputs =
     rbind (number_bigint key n i) (\<lambda>bi.
     rbind (to_field_element bi) (\<lambda>x.
     pure_array_loop ops key stack (push_signal key x inputs)))"
| "pure_array_loop ops key (WValue (JString s) # stack) inputs =
     rbind (string_bigint ops key s) (\<lambda>bi.
     rbind (to_field_element bi) (\<lambda>x.
     pure_array_loop ops key stack (push_signal key x inputs)))"
| "pure_array_loop ops key (WValue (JArray arr) # stack) inputs =
     pure_array_loop ops key ((if arr \<noteq> [] then [WIter arr 0] else []) @ stack) inputs"
| "pure_array_loop ops key (WValue (JBool b) # stack) inputs =
     pure_array_loop ops key stack (push_signal key (if b then 1 else 0) inputs)"
| "pure_array_loop ops key (WValue JNull # stack) inputs =
     pure_array_loop ops key stack (push_signal key 0 inputs)"
| "pure_array_loop ops key (WValue (JObject obj) # stack) inputs =
     Err (''Unexpected object in pure array: '' @ key)"
| "pure_array_loop ops key (WIter arr idx # stack) inputs =
     (case vec_get arr idx of
        None \<Rightarrow> Panic
      | Some v \<Rightarrow>
          pure_array_loop ops key
            (WValue v # (if idx + 1 < length arr then [WIter arr (idx + 1)] else []) @ stack) inputs)"
  by pat_completeness auto

lemma work_size_next:
  assumes "vec_get arr idx = Some v"
  shows "Suc (2 * size v + 2 * size_list size (drop (Suc idx) arr)) < 2 * size_list size (drop idx arr)"
  using assms by (simp add: result_simps Cons_nth_drop_Suc [symmetric])

termination pure_array_loop
  by (relation "measure (\<lambda>(ops, key, stack, inputs). sum_list (map work_size stack))")
    (auto dest: work_size_next)

definition flatten_pure_array :: "bigint_ops \<Rightarrow> string \<Rightarrow> json \<Rightarrow> signals \<Rightarrow> (signals, js_value) result" where
  "flatten_pure_array ops key val inputs = pure_array_loop ops key [WValue val] inputs"

section \<open>Nested inputs\<close>

definition indexed_key :: "string \<Rightarrow> nat \<Rightarrow> string" where
  "indexed_key key idx = key @ ''['' @ show_nat idx @ '']''"

definition field_key :: "string \<Rightarrow> string \<Rightarrow> string" where
  "field_key key field = key @ ''.'' @ field"

function flatten_loop :: "bigint_ops \<Rightarrow> (string \<times> json) list \<Rightarrow> signals \<Rightarrow> (signals, js_value) result" where
  "flatten_loop ops [] inputs = Ok inputs"
| "flatten_loop ops ((key, JNumber n i) # stack) inputs =
     rbind (number_bigint key n i) (\<lambda>bi.
     rbind (to_field_element bi) (\<lambda>x.
     flatten_loop ops stack (push_signal key x inputs)))"
| "flatten_loop ops ((key, JString s) # stack) inputs =
     rbind (string_bigint ops key s) (\<lambda>bi.
     rbind (to_field_element bi) (\<lambda>x.
     flatten_loop ops stack (push_signal key x inputs)))"
| "flatten_loop ops ((key, JArray arr) # stack) inputs =
     (if is_pure_array (JArray arr) then
        rbind (flatten_pure_array ops key (JArray arr) inputs) (flatten_loop ops stack)
      else
        flatten_loop ops
          (fold (\<lambda>(idx, item) st. (indexed_key key idx, item) # st) (rev (List.enumerate 0 arr)) stack) inputs)"
| "flatten_loop ops ((key, JObject obj) # stack) inputs =
     flatten_loop ops (fold (\<lambda>(field, val) st. (field_key key field, val) # st) obj stack) inputs"
| "flatten_loop ops ((key, JBool b) # stack) inputs =
     flatten_loop ops stack (push_signal key (if b then 1 else 0) inputs)"
| "flatten_loop ops ((key, JNull) # stack) inputs = flatten_loop ops stack (push_signal key 0 inputs)"
  by pat_completeness auto

lemma pushed_items:
  "fold (\<lambda>(idx, item) st. (indexed_key key idx, item) # st) (rev (List.enumerate n arr)) stack =
    map (\<lambda>(idx, item). (indexed_key key idx, item)) (List.enumerate n arr) @ stack"
  "fold (\<lambda>(field, val) st. (field_key key field, val) # st) obj stack =
    map (\<lambda>(field, val). (field_key key field, val)) (rev obj) @ stack"
  by (induction arr arbitrary: n) (simp_all, induction obj arbitrary: stack, auto)

lemma pushed_sizes:
  "sum_list (map ((\<lambda>(k, v). Suc (size v)) \<circ> (\<lambda>(idx, item). (f idx, item))) (List.enumerate n arr)) = size_list size arr"
  "sum_list (map ((\<lambda>(k, v). Suc (size v)) \<circ> (\<lambda>(field, val). (g field, val))) (rev obj)) \<le>
    size_list (size_prod (\<lambda>_. 0) size) obj"
  by (induction arr arbitrary: n) (simp_all, induction obj, auto)

termination flatten_loop
  by (relation "measure (\<lambda>(ops, stack, inputs). \<Sum>(k, v) \<leftarrow> stack. Suc (size v))")
    (simp_all add: pushed_items pushed_sizes less_Suc_eq_le le_SucI)

definition flatten_input :: "bigint_ops \<Rightarrow> string \<Rightarrow> json \<Rightarrow> signals \<Rightarrow> (signals, js_value) result" where
  "flatten_input ops key val inputs = flatten_loop ops [(key, val)] inputs"

section \<open>Witness bytes\<close>

definition witness_element :: "bigint_ops \<Rightarrow> int \<Rightarrow> (bytes, js_value) result" where
  "witness_element ops bi =
     (let (sign, be_bytes) = bi_to_bytes_be ops bi in
      if 32 < length be_bytes then Panic
      else if sign = - 1 then Panic
      else
        let offset = 32 - length be_bytes;
            padded = replicate offset 0 @ take (min (length be_bytes) 32) be_bytes in
        Ok (rev padded))"

text \<open>\<open>checked_mul(32)\<close> with \<open>expect\<close>, then the allocation of that many bytes on a target of pointer
  width \<open>pw\<close>.\<close>

definition witness_to_bytes :: "nat \<Rightarrow> bigint_ops \<Rightarrow> int list \<Rightarrow> (bytes, js_value) result" where
  "witness_to_bytes pw ops witness =
     (if 2 ^ pw \<le> length witness * 32 then Panic
      else
        rbind (with_capacity pw (length witness * 32) 1) (\<lambda>_.
        rfold (\<lambda>bi bs. rbind (witness_element ops bi) (\<lambda>padded. Ok (bs @ padded))) witness []))"

section \<open>The calculator\<close>

record 'st witness_calculator =
  wc_store :: 'st
  wc_witness_size :: u32
  wc_num_public_inputs :: u32

text \<open>
  The constructor; the constraint file is read for its header only (\<open>n_wires\<close>, \<open>n_pub_in\<close>), and the store
  that comes with the loaded module is what later calls run on.
\<close>

definition witness_calculator_new ::
  "(bytes \<Rightarrow> (u32 \<times> u32, string) result) \<Rightarrow> (bytes \<Rightarrow> ('md, string) result) \<Rightarrow> ('md \<Rightarrow> ('st, string) result) \<Rightarrow>
   bytes \<Rightarrow> bytes \<Rightarrow> ('st witness_calculator, js_value) result" where
  "witness_calculator_new r1cs_file_new module_new from_module circuit_wasm r1cs_bytes =
     rbind (map_err (\<lambda>e. ''Failed to parse R1CS: '' @ e) (r1cs_file_new r1cs_bytes)) (\<lambda>(n_wires, n_pub_in).
     rbind (map_err (\<lambda>e. ''Failed to load circuit WASM: '' @ e) (module_new circuit_wasm)) (\<lambda>md.
     rbind (map_err (\<lambda>e. ''Failed to init witness calc: '' @ e) (from_module md)) (\<lambda>store.
     Ok \<lparr>wc_store = store, wc_witness_size = n_wires, wc_num_public_inputs = n_pub_in\<rparr>)))"

definition compute_witness ::
  "nat \<Rightarrow> bigint_ops \<Rightarrow> (string \<Rightarrow> (json, string) result) \<Rightarrow> ('st \<Rightarrow> signals \<Rightarrow> (int list \<times> 'st, string) result)
     \<Rightarrow> string \<Rightarrow> 'st witness_calculator \<Rightarrow> (bytes \<times> 'st witness_calculator, js_value) result" where
  "compute_witness pw ops from_str calculate_witness inputs_json wc =
     rbind (map_err (\<lambda>e. ''Invalid JSON: '' @ e) (from_str inputs_json)) (\<lambda>inputs.
     rbind (ok_or (case inputs of JObject obj \<Rightarrow> Some obj | _ \<Rightarrow> None) ''Inputs must be a JSON object'') (\<lambda>inputs_map.
     rbind (rfold (\<lambda>(key, val) m. flatten_input ops key val m) inputs_map Map.empty) (\<lambda>inputs_hashmap.
     rbind (map_err (\<lambda>e. ''Witness calculation failed: '' @ e) (calculate_witness (wc_store wc) inputs_hashmap))
       (\<lambda>(witness, store).
     rbind (witness_to_bytes pw ops witness) (\<lambda>bs.
     Ok (bs, wc\<lparr>wc_store := store\<rparr>))))))"

section \<open>What flattening computes\<close>

text \<open>The reference: recursion over the value instead of a stack.\<close>

fun no_object :: "json \<Rightarrow> bool" where
  "no_object (JArray arr) \<longleftrightarrow> (\<forall>v \<in> set arr. no_object v)"
| "no_object (JObject obj) \<longleftrightarrow> False"
| "no_object v \<longleftrightarrow> True"

fun row_major :: "bigint_ops \<Rightarrow> string \<Rightarrow> json \<Rightarrow> (int list, js_value) result"
  and row_major_list :: "bigint_ops \<Rightarrow> string \<Rightarrow> json list \<Rightarrow> (int list, js_value) result" where
  "row_major ops key JNull = Ok [0]"
| "row_major ops key (JBool b) = Ok [if b then 1 else 0]"
| "row_major ops key (JNumber n i) =
     rbind (number_bigint key n i) (\<lambda>bi. rbind (to_field_element bi) (\<lambda>x. Ok [x]))"
| "row_major ops key (JString s) =
     rbind (string_bigint ops key s) (\<lambda>bi. rbind (to_field_element bi) (\<lambda>x. Ok [x]))"
| "row_major ops key (JArray arr) = row_major_list ops key arr"
| "row_major ops key (JObject obj) = Err (''Unexpected object in pure array: '' @ key)"
| "row_major_list ops key [] = Ok []"
| "row_major_list ops key (v # vs) =
     rbind (row_major ops key v) (\<lambda>xs. rbind (row_major_list ops key vs) (\<lambda>ys. Ok (xs @ ys)))"

definition push_signals :: "string \<Rightarrow> int list \<Rightarrow> signals \<Rightarrow> signals" where
  "push_signals key xs inputs = fold (push_signal key) xs inputs"

lemma push_signals_simps [simp]:
  "push_signals key [] m = m" "push_signals key (x # xs) m = push_signals key xs (push_signal key x m)"
  "push_signals key (xs @ ys) m = push_signals key ys (push_signals key xs m)"
  by (simp_all add: push_signals_def)

lemma push_signals_value:
  "push_signals key xs m =
    (if xs = [] then m else m(key \<mapsto> (case m key of Some ys \<Rightarrow> ys | None \<Rightarrow> []) @ xs))"
  by (induction xs arbitrary: m) (auto simp: push_signal_def)

lemma is_pure_array_iff: "is_pure_array v \<longleftrightarrow> no_object v"
proof -
  have "pure_loop stack \<longleftrightarrow> (\<forall>v \<in> set stack. no_object v)" for stack
    by (induction stack rule: pure_loop.induct) auto
  then show ?thesis by (simp add: is_pure_array_def)
qed

lemma pure_array_loop_row_major:
  "pure_array_loop ops key (WValue v # stack) m =
    rbind (row_major ops key v) (\<lambda>xs. pure_array_loop ops key stack (push_signals key xs m))"
  "idx < length arr \<Longrightarrow> drop idx arr = vs \<Longrightarrow> pure_array_loop ops key (WIter arr idx # stack) m =
    rbind (row_major_list ops key vs) (\<lambda>xs. pure_array_loop ops key stack (push_signals key xs m))"
proof (induction ops key v and ops key vs arbitrary: stack m and stack m idx arr rule: row_major_row_major_list.induct)
  case (5 ops key arr')
  then show ?case by (cases "arr' = []") simp_all
next
  case (8 ops key v vs)
  from 8(3,4) have v: "vec_get arr idx = Some v" "vs = drop (Suc idx) arr"
    by (simp_all flip: Cons_nth_drop_Suc)
  show ?case
  proof (cases "Suc idx < length arr")
    case True
    then show ?thesis using v 8(1) 8(2) [OF True] by simp
  next
    case False
    then show ?thesis using v 8(1) by simp
  qed
qed simp_all

lemma flatten_pure_array_value:
  "flatten_pure_array ops key v m = rbind (row_major ops key v) (\<lambda>xs. Ok (push_signals key xs m))"
  by (simp add: flatten_pure_array_def pure_array_loop_row_major)

fun flat :: "bigint_ops \<Rightarrow> string \<Rightarrow> json \<Rightarrow> signals \<Rightarrow> (signals, js_value) result"
  and flat_items :: "bigint_ops \<Rightarrow> string \<Rightarrow> nat \<Rightarrow> json list \<Rightarrow> signals \<Rightarrow> (signals, js_value) result"
  and flat_fields :: "bigint_ops \<Rightarrow> string \<Rightarrow> (string \<times> json) list \<Rightarrow> signals \<Rightarrow> (signals, js_value) result" where
  "flat ops key (JArray arr) m =
     (if no_object (JArray arr) then rbind (row_major ops key (JArray arr)) (\<lambda>xs. Ok (push_signals key xs m))
      else flat_items ops key 0 arr m)"
| "flat ops key (JObject obj) m = flat_fields ops key obj m"
| "flat ops key v m = rbind (row_major ops key v) (\<lambda>xs. Ok (push_signals key xs m))"
| "flat_items ops key i [] m = Ok m"
| "flat_items ops key i (v # vs) m = rbind (flat ops (indexed_key key i) v m) (flat_items ops key (i + 1) vs)"
| "flat_fields ops key [] m = Ok m"
| "flat_fields ops key ((f, v) # fs) m = rbind (flat_fields ops key fs m) (flat ops (field_key key f) v)"

lemma flatten_loop_flat:
  "flatten_loop ops ((key, v) # stack) m = rbind (flat ops key v m) (flatten_loop ops stack)"
  "flatten_loop ops (map (\<lambda>(idx, item). (indexed_key key idx, item)) (List.enumerate i vs) @ stack) m =
    rbind (flat_items ops key i vs m) (flatten_loop ops stack)"
  "flatten_loop ops (map (\<lambda>(field, val). (field_key key field, val)) (rev fs) @ stack) m =
    rbind (flat_fields ops key fs m) (flatten_loop ops stack)"
proof (induction ops key v m and ops key i vs m and ops key fs m arbitrary: stack and stack and stack
    rule: flat_flat_items_flat_fields.induct)
  case (1 ops key arr m)
  then show ?case by (simp add: is_pure_array_iff pushed_items flatten_pure_array_value)
next
  case (2 ops key obj m)
  then show ?case by (simp add: pushed_items)
qed (auto intro!: rbind_cong)

lemma flatten_input_flat: "flatten_input ops key v m = flat ops key v m"
  using flatten_loop_flat(1) [of ops key v "[]" m] by (simp add: flatten_input_def cong: rbind_cong)

section \<open>Signed integers and bytes\<close>

lemma modulus_order: "BN254_FIELD_MODULUS = field_order"
  by (simp add: BN254_FIELD_MODULUS_def)

lemma to_field_element_value:
  "to_field_element n = (if \<bar>n\<bar> < field_order then Ok (n mod field_order) else Panic)"
proof (cases "n < 0")
  case True
  then have "n mod field_order = n + field_order" if "- n < field_order"
    using that mod_add_self2 [of n field_order] by (simp add: mod_pos_pos_trivial del: mod_add_self2)
  with True show ?thesis by (simp add: to_field_element_def modulus_order Let_def)
qed (simp add: to_field_element_def modulus_order)

text \<open>What the big-integer library documents of \<open>to_bytes_be\<close>: the sign, and the shortest big-endian
  digits of the magnitude (one zero byte for zero).\<close>

definition bigint_contract :: "bigint_ops \<Rightarrow> bool" where
  "bigint_contract ops \<longleftrightarrow> (\<forall>n sign bs. bi_to_bytes_be ops n = (sign, bs) \<longrightarrow>
     sign = sgn n \<and> be_to_nat bs = nat \<bar>n\<bar> \<and> (\<forall>k > 0. nat \<bar>n\<bar> < 256 ^ k \<longrightarrow> length bs \<le> k))"

lemma be_to_nat_padded: "be_to_nat (replicate k 0 @ bs) = be_to_nat bs"
proof -
  have "le_to_nat (xs @ replicate k 0) = le_to_nat xs" for xs
  proof (induction xs)
    case Nil
    show ?case by (induction k) simp_all
  qed simp
  then show ?thesis by (simp add: be_to_nat_def)
qed

lemma witness_element_value:
  assumes "bigint_contract ops"
  shows "witness_element ops n = (if 0 \<le> n \<and> n < 2 ^ 256 then Ok (nat_to_le 32 (nat n)) else Panic)"
proof -
  obtain sign bs where bs: "bi_to_bytes_be ops n = (sign, bs)" by fastforce
  with assms have v: "sign = sgn n" "be_to_nat bs = nat \<bar>n\<bar>" "nat \<bar>n\<bar> < 256 ^ 32 \<Longrightarrow> length bs \<le> 32"
    by (auto simp: bigint_contract_def)
  show ?thesis
  proof (cases "length bs \<le> 32")
    case True
    have "nat \<bar>n\<bar> < 256 ^ length bs" using be_to_nat_bound [of bs] v(2) by simp
    also have "(256::nat) ^ length bs \<le> 256 ^ 32" using True by (intro power_increasing) simp_all
    finally have small: "\<bar>n\<bar> < 2 ^ 256" by simp
    let ?padded = "replicate (32 - length bs) 0 @ bs"
    have "nat_to_be 32 (nat \<bar>n\<bar>) = ?padded"
      using nat_to_be_be_to_nat [of ?padded] True v(2) by (simp add: be_to_nat_padded)
    then have "rev ?padded = nat_to_le 32 (nat \<bar>n\<bar>)" by (metis nat_to_be_def rev_rev_ident)
    then show ?thesis using True small v(1) bs by (auto simp: witness_element_def sgn_if)
  next
    case False
    with v(3) have "\<not> nat \<bar>n\<bar> < 256 ^ 32" by blast
    then have "\<not> (0 \<le> n \<and> n < 2 ^ 256)" by auto
    then show ?thesis using False bs by (auto simp: witness_element_def)
  qed
qed

lemma witness_to_bytes_value:
  assumes "bigint_contract ops"
  shows "witness_to_bytes pw ops ws =
    (if length ws * 32 < 2 ^ (pw - 1) \<and> (\<forall>w \<in> set ws. 0 \<le> w \<and> w < 2 ^ 256)
     then Ok (concat (map (\<lambda>w. nat_to_le 32 (nat w)) ws)) else Panic)"
proof -
  have "rfold (\<lambda>bi bs. rbind (witness_element ops bi) (\<lambda>padded. Ok (bs @ padded))) ws acc =
    (if \<forall>w \<in> set ws. 0 \<le> w \<and> w < 2 ^ 256 then Ok (acc @ concat (map (\<lambda>w. nat_to_le 32 (nat w)) ws)) else Panic)" for acc
    by (induction ws arbitrary: acc) (auto simp: witness_element_value [OF assms])
  from this [of "[]"] have loop: "rfold (\<lambda>bi bs. rbind (witness_element ops bi) (\<lambda>padded. Ok (bs @ padded))) ws [] =
    (if \<forall>w \<in> set ws. 0 \<le> w \<and> w < 2 ^ 256 then Ok (concat (map (\<lambda>w. nat_to_le 32 (nat w)) ws)) else Panic)" by simp
  have "(2::nat) ^ (pw - 1) \<le> 2 ^ pw" by (intro power_increasing) simp_all
  then have "\<not> 2 ^ (pw - 1) \<le> length ws * 32 \<Longrightarrow> \<not> 2 ^ pw \<le> length ws * 32" by (meson order_trans)
  then show ?thesis unfolding witness_to_bytes_def loop with_capacity_def by auto
qed

lemma elements_witness:
  assumes "\<forall>w \<in> set ws. 0 \<le> w \<and> w < 2 ^ 256"
  shows "elements (concat (map (\<lambda>w. nat_to_le 32 (nat w)) ws)) = map of_int ws"
  using assms
proof (induction ws)
  case (Cons w ws)
  then have "le_to_nat (nat_to_le 32 (nat w)) = nat w" by (simp add: le_to_nat_nat_to_le nat_less_iff)
  moreover have "(of_nat (nat w) :: scalar) = of_int w" using Cons.prems by simp
  ultimately show ?case using Cons by (simp add: elements_def chunks_exact_append)
qed (simp add: elements_def)

end
