(* ===== verification/Prover_Props.thy ===== *)
theory Prover_Props
  imports Witness Pool_Amounts
begin

text \<open>
  The properties of the proving component: the circuit means what the parsed file means, proofs reach
  the contract with the coordinates they have, and the prover's own verifier accepts them with the
  inputs extracted from the same witness.
\<close>

section \<open>A recording constraint system\<close>

text \<open>The constraint system that only records what is done to it; it satisfies the contract. Its
  variables take no space, so that replaying a circuit into it never runs out of it.\<close>

record log_cs =
  lg_values :: "scalar list"
  lg_inputs :: "scalar list"
  lg_rows :: "(nat ark_lc \<times> nat ark_lc \<times> nat ark_lc) list"

definition log_new :: log_cs where
  "log_new = \<lparr>lg_values = [1], lg_inputs = [], lg_rows = []\<rparr>"

definition log_ops :: "(nat, log_cs) cs_ops" where
  "log_ops =
     \<lparr>var_one = 0, var_size = 0,
      new_input_variable = (\<lambda>x cs. Ok (length (lg_values cs),
        cs\<lparr>lg_values := lg_values cs @ [x], lg_inputs := lg_inputs cs @ [x]\<rparr>)),
      new_witness_variable = (\<lambda>x cs. Ok (length (lg_values cs), cs\<lparr>lg_values := lg_values cs @ [x]\<rparr>)),
      enforce_r1cs_constraint = (\<lambda>a b c cs. Ok (cs\<lparr>lg_rows := lg_rows cs @ [(a, b, c)]\<rparr>))\<rparr>"

definition log_view :: "(nat, log_cs) cs_view" where
  "log_view =
     \<lparr>cv_vars = (\<lambda>cs. {..<length (lg_values cs)}),
      cv_value = (\<lambda>cs i. if i < length (lg_values cs) then lg_values cs ! i else 0),
      cv_inputs = lg_inputs, cv_enforced = lg_rows\<rparr>"

lemma log_contract: "cs_contract log_ops log_view"
  by (auto simp: cs_contract_def log_ops_def log_view_def nth_append fun_eq_iff)

lemma log_fresh: "fresh_cs log_ops log_view log_new"
  by (simp add: fresh_cs_def log_ops_def log_view_def log_new_def)

lemma log_fits: "n * var_size log_ops < 2 ^ (pw - 1)"
  by (simp add: log_ops_def)

lemma log_simps: "cv_inputs log_view = lg_inputs" "cv_enforced log_view = lg_rows"
  by (simp_all add: log_view_def)

section \<open>The circuit\<close>

definition square_r1cs :: r1cs where
  "square_r1cs = \<lparr>r1_num_wires = 3, r1_num_pub_out = 1, r1_num_pub_in = 0, r1_num_prv_in = 1, r1_num_public = 1,
     r1_constraints = [\<lparr>ct_a = [\<lparr>tm_wire_id = 2, tm_coefficient = 1\<rparr>],
       ct_b = [\<lparr>tm_wire_id = 2, tm_coefficient = 1\<rparr>], ct_c = [\<lparr>tm_wire_id = 1, tm_coefficient = 1\<rparr>]\<rparr>]\<rparr>"

lemma square_ok: "circuit_ok square_r1cs [1, 9, 3]"
  by (simp add: circuit_ok_def square_r1cs_def wires_in_range_def wires_below_def)

lemma square_satisfied: "r1cs_satisfied square_r1cs [1, 9, 3]"
  by (simp add: r1cs_satisfied_def square_r1cs_def row_value_def)

text \<open>C23: Replaying a parsed constraint system with a witness gives the constraint system that the
  file means: when the witness begins with the constant 1 and covers all wires, every wire number is
  in range and the vector of the wires' variables fits one allocation of the target, synthesis
  succeeds, the public inputs it declares are the witness elements from 1 to the number of public
  signals, in order, and the enforced constraints hold exactly when the witness satisfies the file.
  Otherwise synthesis fails, with a panic only where the number of public signals has no successor
  or the variables of a circuit whose wire 0 is 1 do not fit.\<close>

theorem circuit_means_r1cs:
  assumes "cs_contract ops V" and "fresh_cs ops V cs"
  shows "if circuit_ok r w \<and> unat (r1_num_wires r) * var_size ops < 2 ^ (pw - 1)
    then \<exists>cs'. generate_constraints pw ops \<lparr>rc_r1cs = r, rc_witness = w\<rparr> cs = Ok cs' \<and>
      cv_inputs V cs' = take (unat (r1_num_public r)) (drop 1 w) \<and> (cs_satisfied V cs' \<longleftrightarrow> r1cs_satisfied r w)
    else generate_constraints pw ops \<lparr>rc_r1cs = r, rc_witness = w\<rparr> cs =
      (if vec_get w 0 = Some 1 \<and> (unat (r1_num_public r) = 2 ^ 32 - 1 \<or>
          unat (r1_num_public r) < unat (r1_num_wires r) \<and> 2 ^ (pw - 1) \<le> unat (r1_num_wires r) * var_size ops)
       then Panic else Err Unsatisfiable)"
proof (cases "circuit_ok r w \<and> unat (r1_num_wires r) * var_size ops < 2 ^ (pw - 1)")
  case True
  then show ?thesis using generate_constraints_ok [OF assms, of r w pw] by simp
next
  case False
  then show ?thesis unfolding if_not_P [OF False]
    by (intro generate_constraints_refuses [OF assms]) auto
qed

theorem circuit_means_r1cs_witness:
  "\<exists>cs. generate_constraints 32 log_ops \<lparr>rc_r1cs = square_r1cs, rc_witness = [1, 9, 3]\<rparr> log_new = Ok cs \<and>
    lg_inputs cs = [9] \<and> cs_satisfied log_view cs"
  using circuit_means_r1cs [OF log_contract log_fresh, of square_r1cs "[1, 9, 3]" 32] square_ok square_satisfied
    log_fits [of _ 32]
  by (auto simp: log_simps square_r1cs_def)

section \<open>Proofs\<close>

text \<open>C24: The encoding of a proof is what the verifier contract reads: the contract's parser accepts
  it, splits it at the right places, and the coordinates stand in the order the contract's host
  expects, big-endian and with the imaginary part of every extension-field coordinate first; two
  proofs with the same encoding are equal.\<close>

theorem proof_encoding:
  assumes "g1_fits (ap_a p)" and "g2_fits (ap_b p)" and "g1_fits (ap_c p)"
  shows "length (proof_to_uncompressed_bytes p) = PROOF_SIZE \<and>
    (\<exists>a b c. groth16_try_from (proof_to_uncompressed_bytes p) = Ok \<lparr>g16_a = a, g16_b = b, g16_c = c\<rparr> \<and>
      map be_to_nat [slice 0 32 a, slice 32 64 a, slice 0 32 c, slice 32 64 c] =
        [g1_x (ap_a p), g1_y (ap_a p), g1_x (ap_c p), g1_y (ap_c p)] \<and>
      map be_to_nat [slice 0 32 b, slice 32 64 b, slice 64 96 b, slice 96 128 b] =
        [g2_x_c1 (ap_b p), g2_x_c0 (ap_b p), g2_y_c1 (ap_b p), g2_y_c0 (ap_b p)])"
  using point_coordinates(1) [OF assms(1)] point_coordinates(2) [OF assms(2)] point_coordinates(1) [OF assms(3)]
  by (simp add: try_from_proof) (simp add: proof_to_uncompressed_bytes_def g16_sizes)

definition demo_ark_proof :: ark_proof where
  "demo_ark_proof = \<lparr>ap_a = \<lparr>g1_x = 1, g1_y = 2\<rparr>, ap_b = \<lparr>g2_x_c0 = 3, g2_x_c1 = 4, g2_y_c0 = 5, g2_y_c1 = 6\<rparr>,
     ap_c = \<lparr>g1_x = 1, g1_y = 2\<rparr>\<rparr>"

theorem proof_encoding_witness:
  "\<exists>g. groth16_try_from (proof_to_uncompressed_bytes demo_ark_proof) = Ok g \<and> be_to_nat (slice 0 32 (g16_b g)) = 4"
  using proof_encoding [of demo_ark_proof]
  by (auto simp: demo_ark_proof_def g1_fits_def g2_fits_def)

text \<open>
  What the code relies on in arkworks: reading a compressed proof gives back the points it was made
  of, the key of a circuit has one point more than the circuit has public inputs, and proving is
  complete: a proof made for a circuit whose synthesised constraints hold is accepted with the public
  inputs the circuit declares.  \<open>K\<close> says which proving keys belong to which circuits.
\<close>

definition ark_correct :: "('pk, 'vk, 'pvk) ark_groth16 \<Rightarrow> ('pk \<Rightarrow> r1cs \<Rightarrow> bool) \<Rightarrow> bool" where
  "ark_correct ark K \<longleftrightarrow>
     (\<forall>pf a b c. ark_store_g1 ark (ap_a pf) = Ok a \<and> ark_store_g2 ark (ap_b pf) = Ok b \<and>
        ark_store_g1 ark (ap_c pf) = Ok c \<longrightarrow> ark_load_proof ark (a @ b @ c) = Ok pf) \<and>
     (\<forall>pk r. K pk r \<longrightarrow> ark_vk_points ark (ark_vk ark pk) = Suc (unat (r1_num_public r))) \<and>
     (\<forall>pk pvk circuit pf cs pw. K pk (rc_r1cs circuit) \<and> ark_process_vk ark (ark_vk ark pk) = Ok pvk \<and>
        generate_constraints pw log_ops circuit log_new = Ok cs \<and> cs_satisfied log_view cs \<and>
        ark_prove ark pk circuit = Ok pf \<longrightarrow> ark_verify ark pvk (lg_inputs cs) pf = Ok True)"

lemma ark_complete:
  assumes "ark_correct ark K" and "K pk (rc_r1cs circuit)" and "ark_process_vk ark (ark_vk ark pk) = Ok pvk"
    and "generate_constraints pw log_ops circuit log_new = Ok cs" and "cs_satisfied log_view cs"
    and "ark_prove ark pk circuit = Ok pf"
  shows "ark_verify ark pvk (lg_inputs cs) pf = Ok True"
  using assms unfolding ark_correct_def by blast

lemma prover_new_OkE:
  assumes "prover_new ark pw pk_bytes r1cs_bytes = Ok p"
  shows "r1cs_parse pw r1cs_bytes = Ok (pr_r1cs p)" "ark_load_pk ark pk_bytes = Ok (pr_pk p)"
    "ark_process_vk ark (ark_vk ark (pr_pk p)) = Ok (pr_pvk p)"
  using assms by (auto simp: prover_new_def Let_def result_simps split: if_splits)

text \<open>C25: A proof made by a loaded prover from a satisfying witness passes the prover's verifier
  together with the public inputs extracted from the same witness bytes, and its conversion for the
  contract is a well-formed contract proof.\<close>

theorem proved_is_verified:
  assumes ark: "ark_correct ark K" and p: "prover_new ark pw pk_bytes r1cs_bytes = Ok p" and key: "K (pr_pk p) (pr_r1cs p)"
    and wit: "circuit_ok (pr_r1cs p) (elements witness)" "r1cs_satisfied (pr_r1cs p) (elements witness)"
    and made: "prove_bytes ark p witness = Ok proof_bytes" and inputs: "extract_public_inputs pw p witness = Ok ins"
  shows "prover_verify ark p proof_bytes ins = Ok True \<and>
    (\<exists>bs g. proof_bytes_to_uncompressed ark proof_bytes = Ok bs \<and> groth16_try_from bs = Ok g)"
proof -
  from made obtain pf a b c where pf: "prove_circuit ark p witness = Ok pf"
    and st: "ark_store_g1 ark (ap_a pf) = Ok a" "ark_store_g2 ark (ap_b pf) = Ok b" "ark_store_g1 ark (ap_c pf) = Ok c"
    and proof_bytes: "proof_bytes = a @ b @ c"
    by (auto simp: prove_bytes_def prove_def groth16_proof_to_bytes_def result_simps)
  from ark st have load: "ark_load_proof ark proof_bytes = Ok pf" unfolding ark_correct_def proof_bytes by blast
  from pf have run: "ark_prove ark (pr_pk p) \<lparr>rc_r1cs = pr_r1cs p, rc_witness = elements witness\<rparr> = Ok pf"
    by (auto simp: prove_circuit_def parse_elements_value Let_def result_simps split: if_splits)
  from generate_constraints_ok [OF log_contract log_fresh wit(1) log_fits] wit(2) obtain cs where
    cs: "generate_constraints pw log_ops \<lparr>rc_r1cs = pr_r1cs p, rc_witness = elements witness\<rparr> log_new = Ok cs"
      "lg_inputs cs = take (unat (r1_num_public (pr_r1cs p))) (drop 1 (elements witness))" "cs_satisfied log_view cs"
    by (auto simp: log_simps)
  have "ark_verify ark (pr_pvk p) (lg_inputs cs) pf = Ok True"
    by (rule ark_complete [OF ark _ prover_new_OkE(3) [OF p] cs(1,3) run]) (simp add: key)
  moreover have "lg_inputs cs = elements ins" using cs(2) extracted_elements(1) [OF inputs] by simp
  moreover have "ark_vk_points ark (ark_vk ark (pr_pk p)) = Suc (unat (r1_num_public (pr_r1cs p)))"
    using ark key unfolding ark_correct_def by blast
  ultimately have "prover_verify ark p proof_bytes ins = Ok True"
    using load extracted_elements(2,3) [OF inputs]
    by (simp add: prover_verify_def parse_elements_value FIELD_SIZE_def)
  then show ?thesis using load by (simp add: proof_bytes_to_uncompressed_def try_from_proof)
qed

text \<open>A stand-in for the library: it proves exactly satisfied circuits, with a constant proof.\<close>

definition toy_ark :: "(unit, unit, unit) ark_groth16" where
  "toy_ark =
     \<lparr>ark_load_pk = (\<lambda>_. Ok ()), ark_load_vk = (\<lambda>_. Ok ()),
      ark_load_proof = (\<lambda>bs. if bs = [1, 2, 1] then Ok demo_ark_proof else Err ''proof''),
      ark_vk = (\<lambda>_. ()), ark_vk_points = (\<lambda>_. 2), ark_store_vk = (\<lambda>_. Ok []),
      ark_store_g1 = (\<lambda>p. if p = ap_a demo_ark_proof then Ok [1] else Err ''g1''),
      ark_store_g2 = (\<lambda>p. if p = ap_b demo_ark_proof then Ok [2] else Err ''g2''), ark_process_vk = (\<lambda>_. Ok ()),
      ark_prove = (\<lambda>_ c. case generate_constraints 64 log_ops c log_new of
        Ok cs \<Rightarrow> if \<forall>(a, b, c) \<in> set (lg_rows cs). lc_value (cv_value log_view cs) a * lc_value (cv_value log_view cs) b =
            lc_value (cv_value log_view cs) c then Ok demo_ark_proof else Err ''unsatisfied''
      | _ \<Rightarrow> Err ''synthesis''),
      ark_verify = (\<lambda>_ ins p. Ok (length ins = 1))\<rparr>"

definition demo_witness :: bytes where
  "demo_witness = concat (map scalar_to_bytes [1, 9, 3])"

definition demo_prover :: "(unit, unit) prover" where
  "demo_prover = \<lparr>pr_pk = (), pr_pvk = (), pr_r1cs = square_r1cs\<rparr>"

lemma toy_synthesis:
  obtains cs where "generate_constraints pw log_ops \<lparr>rc_r1cs = square_r1cs, rc_witness = [1, 9, 3]\<rparr> log_new = Ok cs"
    "cs_satisfied log_view cs"
  using generate_constraints_ok [OF log_contract log_fresh square_ok log_fits] square_satisfied by blast

lemma toy_proves: "ark_prove toy_ark () \<lparr>rc_r1cs = square_r1cs, rc_witness = [1, 9, 3]\<rparr> = Ok demo_ark_proof"
proof -
  obtain cs where "generate_constraints 64 log_ops \<lparr>rc_r1cs = square_r1cs, rc_witness = [1, 9, 3]\<rparr> log_new = Ok cs"
    "cs_satisfied log_view cs" by (rule toy_synthesis)
  then show ?thesis by (simp add: toy_ark_def cs_satisfied_def log_simps)
qed

lemma square_inputs:
  assumes "generate_constraints pw log_ops c log_new = Ok cs" and "rc_r1cs c = square_r1cs"
  shows "length (lg_inputs cs) = 1"
proof -
  have c: "c = \<lparr>rc_r1cs = square_r1cs, rc_witness = rc_witness c\<rparr>" using assms(2) by simp
  then have gen: "generate_constraints pw log_ops \<lparr>rc_r1cs = square_r1cs, rc_witness = rc_witness c\<rparr> log_new = Ok cs"
    using assms(1) by simp
  have ok: "circuit_ok square_r1cs (rc_witness c)"
    using generate_constraints_refuses [OF log_contract log_fresh, of square_r1cs "rc_witness c" pw] gen
    by (cases "circuit_ok square_r1cs (rc_witness c)") (auto split: if_splits)
  from generate_constraints_ok [OF log_contract log_fresh this log_fits [where pw = pw]] gen
  have "lg_inputs cs = take 1 (drop 1 (rc_witness c))" by (simp add: log_simps square_r1cs_def)
  with ok show ?thesis by (auto simp: circuit_ok_def square_r1cs_def min_def)
qed

lemma toy_correct: "ark_correct toy_ark (\<lambda>_ r. r = square_r1cs)"
proof -
  have "unat (r1_num_public square_r1cs) = 1" by (simp add: square_r1cs_def)
  then show ?thesis
    using square_inputs by (auto simp: ark_correct_def toy_ark_def demo_ark_proof_def split: if_splits)
qed

lemma demo_prover_new: "prover_new toy_ark 32 [] (enc_file [(1, enc_header (replicate 32 0) 0 square_r1cs),
    (2, concat (map enc_constraint (r1_constraints square_r1cs)))]) = Ok demo_prover"
proof -
  let ?secs = "[(1, enc_header (replicate 32 0) 0 square_r1cs), (2, concat (map enc_constraint (r1_constraints square_r1cs)))]"
  have "r1cs_parse 32 (enc_file ?secs) = Ok square_r1cs"
  proof (rule parse_file)
    show "r1cs_fits 32 square_r1cs"
      by (simp add: r1cs_fits_def square_r1cs_def lc_fits_def constraint_size_def term_size_def)
    show "sections_ok (replicate 32 0) 0 square_r1cs ?secs" by (simp add: sections_ok_def)
    show "length (enc_file ?secs) < 2 ^ 32"
      by (simp add: enc_file_def enc_section_def square_r1cs_def enc_constraint_def enc_lc_def enc_term_def
          enc_header_def r1cs_magic_def)
  qed simp_all
  then show ?thesis by (simp add: prover_new_def toy_ark_def demo_prover_def square_r1cs_def)
qed

theorem proved_is_verified_witness:
  "\<exists>proof_bytes ins. prove_bytes toy_ark demo_prover demo_witness = Ok proof_bytes \<and>
    extract_public_inputs 32 demo_prover demo_witness = Ok ins \<and> prover_verify toy_ark demo_prover proof_bytes ins = Ok True"
proof -
  have el: "elements demo_witness = [1, 9, 3]" unfolding demo_witness_def by (rule elements_scalars)
  have len: "length demo_witness = 96" by (simp add: demo_witness_def)
  from toy_proves have made: "prove_bytes toy_ark demo_prover demo_witness = Ok [1, 2, 1]"
    by (simp add: prove_bytes_def prove_def prove_circuit_def parse_elements_value el len FIELD_SIZE_def demo_prover_def)
      (simp add: toy_ark_def groth16_proof_to_bytes_def square_r1cs_def demo_ark_proof_def)
  obtain ins where ins: "extract_public_inputs 32 demo_prover demo_witness = Ok ins"
    by (simp add: extract_public_inputs_def len FIELD_SIZE_def demo_prover_def square_r1cs_def)
  have wit: "circuit_ok (pr_r1cs demo_prover) (elements demo_witness)"
    "r1cs_satisfied (pr_r1cs demo_prover) (elements demo_witness)"
    using square_ok square_satisfied by (simp_all add: el demo_prover_def)
  have "pr_r1cs demo_prover = square_r1cs" by (simp add: demo_prover_def)
  from proved_is_verified [OF toy_correct demo_prover_new this wit made ins] made ins show ?thesis by blast
qed

section \<open>The witness\<close>

text \<open>The flattening of an input, done with explicit stacks, computes what the recursion over
  the value would: a value without objects adds its numbers in row-major order under its own key and
  nothing else, and nested values are visited item by item under indexed and dotted keys, the fields
  of an object in reverse order, the first failure ending it. Both stack loops end on every input.\<close>

theorem flatten_is_recursion:
  "is_pure_array v = no_object v \<and> flatten_input ops key v m = flat ops key v m \<and>
   flatten_pure_array ops key v m = rbind (row_major ops key v) (\<lambda>xs. Ok (
     if xs = [] then m else m(key \<mapsto> (case m key of Some ys \<Rightarrow> ys | None \<Rightarrow> []) @ xs))) \<and>
   (if no_object v then flatten_input ops key v m = flatten_pure_array ops key v m else True)"
proof -
  have "no_object v \<Longrightarrow> flat ops key v m = rbind (row_major ops key v) (\<lambda>xs. Ok (push_signals key xs m))"
    by (cases v) auto
  then show ?thesis
    by (simp add: is_pure_array_iff flatten_input_flat flatten_pure_array_value flip: push_signals_value)
qed

text \<open>C26: The signed integers of the inputs become field elements by reduction modulo the field
  order, with a panic exactly when the magnitude reaches it; so the amount that the pool contract
  accepts from a transaction, given to the circuit as the same signed integer, is the public input
  the contract checks the proof against.\<close>

theorem signed_input_is_public_amount:
  "to_field_element n = (if \<bar>n\<bar> < field_order then Ok (n mod field_order) else Panic) \<and>
   (calculate_public_amount ext = Ok a \<longrightarrow> to_field_element (sint ext) = Ok (uint a))"
proof (intro conjI impI)
  assume a: "calculate_public_amount ext = Ok a"
  then have small: "\<bar>sint ext\<bar> < 2 ^ 248" and v: "a = word_of_int (sint ext mod field_order)"
    by (auto simp: public_amount_exact split: if_splits)
  have "0 \<le> sint ext mod field_order" "sint ext mod field_order < 2 ^ 256"
    using pos_mod_bound [of field_order "sint ext"] by auto
  then have "uint a = sint ext mod field_order" by (simp add: v uint_word_of_int)
  moreover have "\<bar>sint ext\<bar> < field_order" using small by simp
  ultimately show "to_field_element (sint ext) = Ok (uint a)" by (simp add: to_field_element_value)
qed (simp add: to_field_element_value)

theorem signed_input_is_public_amount_witness:
  "to_field_element (sint (- 5 :: i256)) = Ok (field_order - 5)"
proof -
  have "sint (- 5 :: i256) = - 5" by simp
  then have "calculate_public_amount (- 5) = Ok (word_of_int (field_order - 5))"
    by (simp add: public_amount_exact)
  then show ?thesis using signed_input_is_public_amount [of 0 "- 5" "word_of_int (field_order - 5)"] by simp
qed

lemma length_concat_32: "(\<And>x. length (f x) = 32) \<Longrightarrow> length (concat (map f xs)) = 32 * length xs"
  by (induction xs) simp_all

text \<open>Proving and extraction on a string of whole field elements.\<close>

lemma prove_circuit_outcome:
  assumes "length bs = 32 * n"
  shows "prove_circuit ark p bs =
    (if n < unat (r1_num_wires (pr_r1cs p))
     then Err (''Witness too short: '' @ show_nat n @ '' elements, circuit needs '' @
            show_nat (unat (r1_num_wires (pr_r1cs p))) @ '' wires'')
     else map_err (\<lambda>e. ''Proof generation failed: '' @ e)
            (ark_prove ark (pr_pk p) \<lparr>rc_r1cs = pr_r1cs p, rc_witness = elements bs\<rparr>))"
  using assms by (simp add: prove_circuit_def parse_elements_value FIELD_SIZE_def Let_def del: append_Cons)

lemma extract_outcome:
  assumes "length bs = 32 * n" and "32 * n < 2 ^ (pw - 1)"
  shows "if unat (r1_num_public (pr_r1cs p)) < n then \<exists>ins. extract_public_inputs pw p bs = Ok ins
    else \<exists>e. extract_public_inputs pw p bs = Err e"
proof -
  have "32 * n < 2 ^ pw" using assms(2) by (rule less_le_trans) (intro power_increasing, simp_all)
  then show ?thesis using assms(1) by (auto simp: extract_public_inputs_def FIELD_SIZE_def Let_def)
qed

text \<open>C29: What the calculator computes is what the prover works on. When \<open>compute_witness\<close> succeeds,
  the calculator was run on the flattened inputs, no value of its witness was negative or too large,
  and the prover's own parser reads the returned bytes back as those values, as field elements and
  in order. So the prover hands arkworks the circuit with exactly this witness, or refuses it as too
  short, whatever arkworks is; and the public inputs it extracts are read back as the elements after
  the first, when there are enough of them.\<close>

theorem witness_reaches_prover:
  assumes "bigint_contract ops" and "compute_witness pw ops from_str calc inputs_json wc = Ok (bs, wc')"
  shows "\<exists>obj m ws. from_str inputs_json = Ok (JObject obj) \<and>
    rfold (\<lambda>(key, val) m. flatten_input ops key val m) obj Map.empty = Ok m \<and>
    calc (wc_store wc) m = Ok (ws, wc_store wc') \<and> (\<forall>w \<in> set ws. 0 \<le> w \<and> w < 2 ^ 256) \<and>
    length bs = 32 * length ws \<and> parse_elements (chunks_exact bs) = Ok (map of_int ws) \<and>
    prove_circuit ark p bs =
      (if length ws < unat (r1_num_wires (pr_r1cs p))
       then Err (''Witness too short: '' @ show_nat (length ws) @ '' elements, circuit needs '' @
              show_nat (unat (r1_num_wires (pr_r1cs p))) @ '' wires'')
       else map_err (\<lambda>e. ''Proof generation failed: '' @ e)
              (ark_prove ark (pr_pk p) \<lparr>rc_r1cs = pr_r1cs p, rc_witness = map of_int ws\<rparr>)) \<and>
    (if unat (r1_num_public (pr_r1cs p)) < length ws
     then \<exists>ins. extract_public_inputs pw p bs = Ok ins \<and>
       parse_elements (chunks_exact ins) = Ok (map of_int (take (unat (r1_num_public (pr_r1cs p))) (drop 1 ws)))
     else \<exists>e. extract_public_inputs pw p bs = Err e)"
proof -
  from assms(2) obtain v obj m ws where v: "from_str inputs_json = Ok v" "(case v of JObject obj \<Rightarrow> Some obj | _ \<Rightarrow> None) = Some obj"
    and fl: "rfold (\<lambda>(key, val) m. flatten_input ops key val m) obj Map.empty = Ok m"
    and ws: "calc (wc_store wc) m = Ok (ws, wc_store wc')" "witness_to_bytes pw ops ws = Ok bs"
    unfolding compute_witness_def by (auto simp: result_simps)
  from v have src: "from_str inputs_json = Ok (JObject obj)" by (cases v) auto
  from ws(2) have fits: "32 * length ws < 2 ^ (pw - 1)" and nat: "\<forall>w \<in> set ws. 0 \<le> w \<and> w < 2 ^ 256"
    and bsd: "bs = concat (map (\<lambda>w. nat_to_le 32 (nat w)) ws)"
    by (auto simp: witness_to_bytes_value [OF assms(1)] mult.commute split: if_splits)
  from bsd have len: "length bs = 32 * length ws" by (simp add: length_concat_32)
  from elements_witness [OF nat] have el: "elements bs = map of_int ws" by (simp add: bsd)
  have "elements ins = map of_int (take (unat (r1_num_public (pr_r1cs p))) (drop 1 ws))"
    if "extract_public_inputs pw p bs = Ok ins" for ins
    using extracted_elements(1) [OF that] el by (simp add: take_map drop_map)
  with src fl ws(1) nat len el prove_circuit_outcome [OF len, of ark p] extract_outcome [OF len fits, of p]
  show ?thesis
    by (intro exI [of _ obj] exI [of _ m] exI [of _ ws]) (auto simp: parse_elements_value)
qed

text \<open>A big-integer library that keeps the contract, and a calculator that answers with a fixed witness.\<close>

fun be_digits :: "nat \<Rightarrow> bytes" where
  "be_digits n = (if n < 256 then [of_nat n] else be_digits (n div 256) @ [of_nat (n mod 256)])"

declare be_digits.simps [simp del]

definition plain_bigint :: bigint_ops where
  "plain_bigint = \<lparr>bi_parse_bytes = (\<lambda>_ _. None), bi_to_bytes_be = (\<lambda>n. (sgn n, be_digits (nat \<bar>n\<bar>)))\<rparr>"

lemma be_digits_value: "be_to_nat (be_digits n) = n"
proof (induction n rule: be_digits.induct)
  case (1 n)
  then show ?case by (subst be_digits.simps) (auto simp: be_to_nat_def unat_of_nat take_bit_eq_mod)
qed

lemma be_digits_length: "0 < k \<Longrightarrow> n < 256 ^ k \<Longrightarrow> length (be_digits n) \<le> k"
proof (induction n arbitrary: k rule: be_digits.induct)
  case (1 n)
  show ?case
  proof (cases "n < 256")
    case True
    then show ?thesis using "1.prems" by (subst be_digits.simps) simp
  next
    case False
    with "1.prems" obtain j where j: "k = Suc j" "0 < j" by (cases k; cases "k = 1") auto
    then have "n div 256 < 256 ^ j" using "1.prems"(2) by (simp add: less_mult_imp_div_less mult.commute)
    then show ?thesis using "1.IH" [OF False j(2)] False j(1) by (subst be_digits.simps) simp
  qed
qed

lemma plain_bigint_ok: "bigint_contract plain_bigint"
  by (simp add: bigint_contract_def plain_bigint_def be_digits_value be_digits_length)

theorem witness_reaches_prover_witness:
  "\<exists>bs ins wc. compute_witness 32 plain_bigint (\<lambda>_. Ok (JObject [])) (\<lambda>st m. Ok ([1, 9, 3], st)) ''{}''
      \<lparr>wc_store = (), wc_witness_size = 3, wc_num_public_inputs = 0\<rparr> = Ok (bs, wc) \<and>
    parse_elements (chunks_exact bs) = Ok [1, 9, 3] \<and> prove_circuit toy_ark demo_prover bs = Ok demo_ark_proof \<and>
    extract_public_inputs 32 demo_prover bs = Ok ins \<and> parse_elements (chunks_exact ins) = Ok [9]"
proof -
  let ?wc = "\<lparr>wc_store = (), wc_witness_size = 3, wc_num_public_inputs = 0\<rparr>"
  let ?bs = "concat (map (\<lambda>w. nat_to_le 32 (nat w)) [1, 9, 3])"
  let ?calc = "\<lambda>(st :: unit) (m :: signals). (Ok ([1, 9, 3], st) :: (int list \<times> unit, string) result)"
  have run: "compute_witness 32 plain_bigint (\<lambda>_. Ok (JObject [])) ?calc ''{}'' ?wc = Ok (?bs, ?wc)"
    by (simp add: compute_witness_def witness_to_bytes_value [OF plain_bigint_ok])
  have r: "pr_r1cs demo_prover = square_r1cs" "unat (r1_num_public square_r1cs) = 1" "unat (r1_num_wires square_r1cs) = 3"
    by (simp_all add: demo_prover_def square_r1cs_def)
  have made: "ark_prove toy_ark () \<lparr>rc_r1cs = square_r1cs, rc_witness = [1, 9, 3]\<rparr> = Ok demo_ark_proof"
    by (rule toy_proves)
  have pk: "pr_pk demo_prover = ()" by (simp add: demo_prover_def)
  from witness_reaches_prover [OF plain_bigint_ok run, of toy_ark demo_prover] r made pk
  show ?thesis using run by auto
qed

end
