(* ===== verification/Encryption.thy ===== *)
theory Encryption
  imports Prover_Serialization
begin

text \<open>
  Key derivation and note encryption of the client (\<open>app/crates/prover/src/encryption.rs\<close>).  SHA-256,
  X25519, XSalsa20-Poly1305 and the system's random generator are third-party: they are the fields of
  the record \<open>crypto_ops\<close>, and what the code relies on is \<open>crypto_contract\<close>.  The random generator
  is threaded through as a state.
\<close>

record 'rng crypto_ops =
  co_sha256 :: "bytes \<Rightarrow> bytes"
  co_secret_bytes :: "bytes \<Rightarrow> bytes"
  co_public :: "bytes \<Rightarrow> bytes"
  co_diffie_hellman :: "bytes \<Rightarrow> bytes \<Rightarrow> bytes"
  co_encrypt :: "bytes \<Rightarrow> bytes \<Rightarrow> bytes \<Rightarrow> (bytes, string) result"
  co_decrypt :: "bytes \<Rightarrow> bytes \<Rightarrow> bytes \<Rightarrow> (bytes, string) result"
  co_getrandom :: "nat \<Rightarrow> 'rng \<Rightarrow> (bytes \<times> 'rng, string) result"
  co_serialize :: "scalar \<Rightarrow> (bytes, string) result"

section \<open>Key derivation\<close>

definition derive_keypair_from_signature_internal :: "'rng crypto_ops \<Rightarrow> bytes \<Rightarrow> (bytes, string) result" where
  "derive_keypair_from_signature_internal ops signature =
     (if length signature \<noteq> 64 then Err ''Signature must be 64 bytes (Ed25519)''
      else
        let seed = co_sha256 ops signature in
        if length seed \<noteq> 32 then Panic
        else Ok (co_public ops seed @ co_secret_bytes ops seed))"

definition derive_keypair_from_signature :: "'rng crypto_ops \<Rightarrow> bytes \<Rightarrow> (bytes, js_value) result" where
  "derive_keypair_from_signature ops signature =
     map_err (\<lambda>e. e) (derive_keypair_from_signature_internal ops signature)"

definition derive_note_private_key :: "'rng crypto_ops \<Rightarrow> bytes \<Rightarrow> (bytes, js_value) result" where
  "derive_note_private_key ops signature =
     (if length signature \<noteq> 64 then Err ''Signature must be 64 bytes (Ed25519)''
      else
        let key = co_sha256 ops signature;
            field = of_nat (le_to_nat key) in
        case co_serialize ops field of Ok bs \<Rightarrow> Ok bs | _ \<Rightarrow> Panic)"

definition generate_random_blinding :: "'rng crypto_ops \<Rightarrow> 'rng \<Rightarrow> (bytes \<times> 'rng, js_value) result" where
  "generate_random_blinding ops rng =
     rbind (map_err (\<lambda>e. ''Random generation failed: '' @ e) (co_getrandom ops 32 rng)) (\<lambda>(random_bytes, rng').
     let s = of_nat (le_to_nat random_bytes) in
     rbind (map_err (\<lambda>e. ''Serialization failed: '' @ e) (co_serialize ops s)) (\<lambda>bs.
     Ok (bs, rng')))"

section \<open>Encryption\<close>

definition encrypt_note_data_internal ::
  "'rng crypto_ops \<Rightarrow> bytes \<Rightarrow> bytes \<Rightarrow> 'rng \<Rightarrow> (bytes \<times> 'rng, string) result" where
  "encrypt_note_data_internal ops recipient_pubkey_bytes plaintext rng =
     (if length recipient_pubkey_bytes \<noteq> 32 then Err ''Recipient public key must be 32 bytes''
      else if length plaintext \<noteq> 40 then Err ''Plaintext must be 40 bytes (8 amount + 32 blinding)''
      else
        rbind (map_err (\<lambda>e. ''Failed to generate ephemeral key: '' @ e) (co_getrandom ops 32 rng))
          (\<lambda>(ephemeral_bytes, rng1).
        let ephemeral_public = co_public ops ephemeral_bytes;
            shared_secret = co_diffie_hellman ops ephemeral_bytes recipient_pubkey_bytes in
        rbind (map_err (\<lambda>e. ''Failed to generate nonce: '' @ e) (co_getrandom ops 24 rng1))
          (\<lambda>(nonce_bytes, rng2).
        rbind (map_err (\<lambda>e. ''Encryption failed: '' @ e) (co_encrypt ops shared_secret nonce_bytes plaintext))
          (\<lambda>ciphertext.
        Ok (ephemeral_public @ nonce_bytes @ ciphertext, rng2)))))"

definition encrypt_note_data ::
  "'rng crypto_ops \<Rightarrow> bytes \<Rightarrow> bytes \<Rightarrow> 'rng \<Rightarrow> (bytes \<times> 'rng, js_value) result" where
  "encrypt_note_data ops recipient_pubkey_bytes plaintext rng =
     map_err (\<lambda>e. e) (encrypt_note_data_internal ops recipient_pubkey_bytes plaintext rng)"

definition decrypt_note_data_internal :: "'rng crypto_ops \<Rightarrow> bytes \<Rightarrow> bytes \<Rightarrow> (bytes, string) result" where
  "decrypt_note_data_internal ops private_key_bytes encrypted_data =
     (if length private_key_bytes \<noteq> 32 then Err ''Private key must be 32 bytes''
      else if length encrypted_data < 112 then Err ''Encrypted data too short''
      else
        let ephemeral_pubkey = take 32 encrypted_data;
            nonce_bytes = take 24 (drop 32 encrypted_data);
            ciphertext_with_tag = drop 56 encrypted_data;
            shared_secret = co_diffie_hellman ops private_key_bytes ephemeral_pubkey in
        case co_decrypt ops shared_secret nonce_bytes ciphertext_with_tag of
          Ok plaintext \<Rightarrow> Ok plaintext
        | Err _ \<Rightarrow> Ok []
        | Panic \<Rightarrow> Panic)"

definition decrypt_note_data :: "'rng crypto_ops \<Rightarrow> bytes \<Rightarrow> bytes \<Rightarrow> (bytes, js_value) result" where
  "decrypt_note_data ops private_key_bytes encrypted_data =
     map_err (\<lambda>e. e) (decrypt_note_data_internal ops private_key_bytes encrypted_data)"

section \<open>What the primitives promise\<close>

text \<open>
  Lengths; both sides of a key exchange compute the same secret, and exporting a secret key does not
  change its public key or the secrets it computes; decryption inverts encryption under the same key
  and nonce and adds a tag of 16 bytes; a field element serialises to its 32 little-endian bytes.
\<close>

definition crypto_contract :: "'rng crypto_ops \<Rightarrow> bool" where
  "crypto_contract ops \<longleftrightarrow>
     (\<forall>m. length (co_sha256 ops m) = 32) \<and>
     (\<forall>s. length s = 32 \<longrightarrow> length (co_secret_bytes ops s) = 32 \<and> length (co_public ops s) = 32 \<and>
        (\<forall>p. co_diffie_hellman ops (co_secret_bytes ops s) p = co_diffie_hellman ops s p)) \<and>
     (\<forall>a b. length a = 32 \<and> length b = 32 \<longrightarrow>
        co_diffie_hellman ops a (co_public ops b) = co_diffie_hellman ops b (co_public ops a)) \<and>
     (\<forall>k n m. \<exists>c. co_encrypt ops k n m = Ok c \<and> length c = length m + 16 \<and> co_decrypt ops k n c = Ok m) \<and>
     (\<forall>n r bs r'. co_getrandom ops n r = Ok (bs, r') \<longrightarrow> length bs = n) \<and>
     (\<forall>s. co_serialize ops s = Ok (scalar_to_bytes s))"

lemma keypair_value:
  assumes "crypto_contract ops" and "derive_keypair_from_signature ops sig = Ok kp"
  obtains seed where "length seed = 32" "take 32 kp = co_public ops seed" "drop 32 kp = co_secret_bytes ops seed"
    "length kp = 64"
proof
  let ?seed = "co_sha256 ops sig"
  show len: "length ?seed = 32" using assms(1) by (simp add: crypto_contract_def)
  then have "kp = co_public ops ?seed @ co_secret_bytes ops ?seed"
    using assms(2) by (auto simp: derive_keypair_from_signature_def derive_keypair_from_signature_internal_def
        Let_def result_simps split: if_splits)
  then show "take 32 kp = co_public ops ?seed" "drop 32 kp = co_secret_bytes ops ?seed" "length kp = 64"
    using len assms(1) by (simp_all add: crypto_contract_def)
qed

lemma encrypted_shape:
  assumes "crypto_contract ops" and "encrypt_note_data ops pk m rng = Ok (c, rng')"
  obtains eph nonce ct where "length eph = 32" "length nonce = 24" "length pk = 32" "length m = 40"
    "co_encrypt ops (co_diffie_hellman ops eph pk) nonce m = Ok ct" "c = co_public ops eph @ nonce @ ct" "length c = 112"
proof -
  from assms(2) obtain eph nonce ct r1 where r: "length pk = 32" "length m = 40" "co_getrandom ops 32 rng = Ok (eph, r1)"
    "co_getrandom ops 24 r1 = Ok (nonce, rng')"
    "co_encrypt ops (co_diffie_hellman ops eph pk) nonce m = Ok ct" "c = co_public ops eph @ nonce @ ct"
    by (auto simp: encrypt_note_data_def encrypt_note_data_internal_def Let_def result_simps split: if_splits)
  have len: "length eph = 32" "length nonce = 24" using r(3,4) assms(1) unfolding crypto_contract_def by blast+
  have pub: "length (co_public ops eph) = 32" using assms(1) len(1) by (simp add: crypto_contract_def)
  obtain ct' where "co_encrypt ops (co_diffie_hellman ops eph pk) nonce m = Ok ct'" "length ct' = length m + 16"
    using assms(1) unfolding crypto_contract_def by blast
  with r(2,5) have "length ct = 56" by simp
  with that [OF len r(1,2,5,6)] len pub r(6) show thesis by simp
qed

lemma decrypt_encrypted:
  assumes ops: "crypto_contract ops" and enc: "encrypt_note_data ops (co_public ops sk) m rng = Ok (c, rng')"
    and sk: "length sk = 32"
  shows "decrypt_note_data ops (co_secret_bytes ops sk) c = Ok m \<and> length c = 112"
proof -
  from encrypted_shape [OF ops enc] obtain eph nonce ct where c: "length eph = 32" "length nonce = 24"
    "co_encrypt ops (co_diffie_hellman ops eph (co_public ops sk)) nonce m = Ok ct" "c = co_public ops eph @ nonce @ ct"
    "length c = 112" by blast
  have pub: "length (co_public ops eph) = 32" "length (co_secret_bytes ops sk) = 32"
    using ops c(1) sk by (simp_all add: crypto_contract_def)
  have dh: "co_diffie_hellman ops (co_secret_bytes ops sk) (co_public ops eph) =
      co_diffie_hellman ops eph (co_public ops sk)"
    using ops c(1) sk unfolding crypto_contract_def by metis
  obtain ct' where "co_encrypt ops (co_diffie_hellman ops eph (co_public ops sk)) nonce m = Ok ct'"
    "co_decrypt ops (co_diffie_hellman ops eph (co_public ops sk)) nonce ct' = Ok m"
    using ops unfolding crypto_contract_def by blast
  with c(3) have "co_decrypt ops (co_diffie_hellman ops eph (co_public ops sk)) nonce ct = Ok m" by simp
  then show ?thesis using c pub dh by (simp add: decrypt_note_data_def decrypt_note_data_internal_def)
qed

end
