(* ===== verification/Encryption_Props.thy ===== *)
theory Encryption_Props
  imports Encryption Prover_Crypto
begin

text \<open>
  The properties of the client's notes: what a sender encrypts the owner of the key pair decrypts,
  and every secret, key and digest of a note is the canonical encoding of a field element, from the
  signature it is derived from to the nullifier that spends it.
\<close>

section \<open>Primitives that satisfy the contract\<close>

text \<open>A digest that keeps the first 32 bytes, a cipher that only appends its tag, and a generator
  that counts its calls.\<close>

definition plain_ops :: "nat crypto_ops" where
  "plain_ops =
     \<lparr>co_sha256 = (\<lambda>m. take 32 (m @ replicate 32 0)), co_secret_bytes = (\<lambda>s. s), co_public = (\<lambda>s. s),
      co_diffie_hellman = (\<lambda>a b. map2 (+) a b), co_encrypt = (\<lambda>k n m. Ok (m @ replicate 16 0)),
      co_decrypt = (\<lambda>k n c. Ok (take (length c - 16) c)),
      co_getrandom = (\<lambda>n r. Ok (replicate n (of_nat r), r + 1)), co_serialize = (\<lambda>s. Ok (scalar_to_bytes s))\<rparr>"

lemma map2_add_commute: "map2 (+) a b = map2 (+) b (a :: bytes)"
  by (rule nth_equalityI) (simp_all add: add.commute min.commute)

lemma plain_contract: "crypto_contract plain_ops"
  unfolding crypto_contract_def by (auto simp: plain_ops_def intro: map2_add_commute)

section \<open>Encryption\<close>

text \<open>C30: A note encrypted to the public half of a derived key pair is decrypted by the private half:
  the plaintext of 40 bytes comes back, the message has exactly 112 bytes, and a message cut short
  anywhere is reported as an error, not as a note for somebody else.\<close>

theorem note_encryption_roundtrip:
  assumes "crypto_contract ops" and "derive_keypair_from_signature ops sig = Ok kp"
    and "encrypt_note_data ops (take 32 kp) m rng = Ok (c, rng')"
  shows "decrypt_note_data ops (drop 32 kp) c = Ok m \<and> length m = 40 \<and> length c = 112 \<and>
    (\<forall>n < 112. decrypt_note_data ops (drop 32 kp) (take n c) = Err ''Encrypted data too short'')"
proof -
  from keypair_value [OF assms(1,2)] obtain seed where kp: "length seed = 32" "take 32 kp = co_public ops seed"
    "drop 32 kp = co_secret_bytes ops seed" "length kp = 64" by blast
  have "decrypt_note_data ops (drop 32 kp) c = Ok m \<and> length c = 112"
    using decrypt_encrypted [OF assms(1) _ kp(1)] assms(3) kp(2,3) by simp
  moreover have "length m = 40" by (rule encrypted_shape [OF assms(1,3)])
  moreover have "\<forall>n < 112. decrypt_note_data ops (drop 32 kp) (take n c) = Err ''Encrypted data too short''"
    using kp(4) by (auto simp: decrypt_note_data_def decrypt_note_data_internal_def)
  ultimately show ?thesis by blast
qed

theorem note_encryption_roundtrip_witness:
  "\<exists>kp c. derive_keypair_from_signature plain_ops (replicate 64 7) = Ok kp \<and>
    encrypt_note_data plain_ops (take 32 kp) (replicate 40 5) 3 = Ok (c, 5) \<and>
    decrypt_note_data plain_ops (drop 32 kp) c = Ok (replicate 40 5) \<and> length c = 112"
proof -
  let ?kp = "replicate 64 7 :: bytes"
  have kp: "derive_keypair_from_signature plain_ops (replicate 64 7) = Ok ?kp"
    by (simp add: derive_keypair_from_signature_def derive_keypair_from_signature_internal_def plain_ops_def
        replicate_add [symmetric] Let_def)
  moreover obtain c where c: "encrypt_note_data plain_ops (take 32 ?kp) (replicate 40 5) 3 = Ok (c, 5)"
    by (simp add: encrypt_note_data_def encrypt_note_data_internal_def plain_ops_def Let_def)
  ultimately show ?thesis using note_encryption_roundtrip [OF plain_contract kp c] by blast
qed

section \<open>The life of a note\<close>

text \<open>The 32-byte encodings that name one field element each.\<close>

definition canonical :: "bytes \<Rightarrow> bool" where
  "canonical bs \<longleftrightarrow> length bs = 32 \<and> le_to_nat bs < nat field_order"

lemma canonical_scalar [simp]: "canonical (scalar_to_bytes s)"
  unfolding canonical_def le_to_nat_scalar_to_bytes by (simp only: length_scalar_to_bytes scalar_nat_less simp_thms)

lemma private_key_value:
  assumes "crypto_contract ops" and "derive_note_private_key ops sig = Ok sk"
  shows "sk = scalar_to_bytes (of_nat (le_to_nat (co_sha256 ops sig)))"
  using assms by (simp add: derive_note_private_key_def crypto_contract_def Let_def split: if_splits)

lemma blinding_value:
  assumes "crypto_contract ops" and "generate_random_blinding ops rng = Ok (bl, rng')"
  obtains bs where "bl = scalar_to_bytes (of_nat (le_to_nat bs))" "co_getrandom ops 32 rng = Ok (bs, rng')"
  using assms by (auto simp: generate_random_blinding_def crypto_contract_def Let_def result_simps)

text \<open>C31: Whatever the wallet signs and the generator returns, the derived spending key and the
  blinding are canonical encodings of field elements, and from them the public key, the commitment
  of any amount, the signature and the nullifier can be computed without an error, each again a
  canonical encoding: that of the corresponding Poseidon2 digest with its domain separator.\<close>

theorem note_secrets_well_typed:
  assumes "crypto_contract ops" and "derive_note_private_key ops sig = Ok sk"
    and "generate_random_blinding ops rng = Ok (bl, rng')" and "length path = 32"
  shows "\<exists>s b pk c sg nf. bytes_to_scalar sk = Ok s \<and> bytes_to_scalar bl = Ok b \<and>
    derive_public_key sk = Ok pk \<and> compute_commitment (u64_to_field_bytes amt) pk bl = Ok c \<and>
    compute_signature sk c path = Ok sg \<and> compute_nullifier c path sg = Ok nf \<and>
    list_all canonical [sk, bl, pk, c, sg, nf] \<and>
    pk = scalar_to_bytes (hash2 s 0 3) \<and>
    c = scalar_to_bytes (hash3 (of_nat (unat amt)) (hash2 s 0 3) b 1) \<and>
    sg = scalar_to_bytes (hash3 s (hash3 (of_nat (unat amt)) (hash2 s 0 3) b 1) (of_nat (le_to_nat path)) 4) \<and>
    nf = scalar_to_bytes (hash3 (hash3 (of_nat (unat amt)) (hash2 s 0 3) b 1) (of_nat (le_to_nat path))
      (hash3 s (hash3 (of_nat (unat amt)) (hash2 s 0 3) b 1) (of_nat (le_to_nat path)) 4) 2)"
proof -
  from private_key_value [OF assms(1,2)] obtain s where s: "sk = scalar_to_bytes s" by blast
  from blinding_value [OF assms(1,3)] obtain b where b: "bl = scalar_to_bytes b" by blast
  have p: "bytes_to_scalar path = Ok (of_nat (le_to_nat path))"
    using assms(4) by (simp add: bytes_to_scalar_def FIELD_SIZE_def)
  show ?thesis
    by (simp add: s b p derive_public_key_def derive_public_key_internal_def compute_commitment_def
        compute_signature_def compute_nullifier_def u64_to_field_bytes_def)
qed

theorem note_secrets_well_typed_witness:
  "\<exists>sk bl pk c. derive_note_private_key plain_ops (replicate 64 255) = Ok sk \<and>
    generate_random_blinding plain_ops 200 = Ok (bl, 201) \<and> derive_public_key sk = Ok pk \<and>
    compute_commitment (u64_to_field_bytes 1000) pk bl = Ok c \<and> canonical sk \<and> canonical bl \<and> canonical c"
proof -
  obtain sk where sk: "derive_note_private_key plain_ops (replicate 64 255) = Ok sk"
    by (simp add: derive_note_private_key_def plain_ops_def Let_def)
  moreover obtain bl where bl: "generate_random_blinding plain_ops 200 = Ok (bl, 201)"
    by (simp add: generate_random_blinding_def plain_ops_def Let_def)
  ultimately show ?thesis
    using note_secrets_well_typed [OF plain_contract sk bl, of "replicate 32 0" 1000] by auto
qed

end
