(* ===== verification/Poseidon2_Instances.thy ===== *)
theory Poseidon2_Instances
  imports Poseidon2_Perm "HOL-Library.Numeral_Type"
begin

text \<open>
  What a parameter set of the crate has to satisfy to be an instance of Poseidon2, as a check on its
  tables that evaluates.  The tables of the fields the crate ships beside BN254 are in the theories
  that import this one; their fields are the numeral types of the library, the integers modulo the
  number that names the type.
\<close>

section \<open>The instance a parameter set means\<close>

text \<open>The permutation of the Poseidon2 paper, read off the tables as they are stored: every round adds
  a whole row of constants, and the inner rounds multiply by the stored matrix.\<close>

definition stored_full_round :: "'a::comm_ring_1 poseidon2_params \<Rightarrow> nat \<Rightarrow> 'a list \<Rightarrow> 'a list" where
  "stored_full_round params r xs = mat_apply (p2_t params) (external_matrix (p2_t params))
     (map (\<lambda>x. x ^ p2_d params) (map2 (+) xs (p2_round_constants params ! r)))"

definition stored_partial_round :: "'a::comm_ring_1 poseidon2_params \<Rightarrow> nat \<Rightarrow> 'a list \<Rightarrow> 'a list" where
  "stored_partial_round params r xs =
     (let ys = map2 (+) xs (p2_round_constants params ! r) in
      mat_vec (p2_mat_internal params) (ys[0 := ys ! 0 ^ p2_d params]))"

definition stored_poseidon2 :: "'a::comm_ring_1 poseidon2_params \<Rightarrow> 'a list \<Rightarrow> 'a list" where
  "stored_poseidon2 params xs =
     (let f = p2_rounds_f_div_2 params; p = p2_rounds_p params in
      fold (stored_full_round params) [f + p..<2 * f + p]
        (fold (stored_partial_round params) [f..<f + p]
          (fold (stored_full_round params) [0..<f]
            (mat_apply (p2_t params) (external_matrix (p2_t params)) xs))))"

definition is_instance :: "('a::comm_ring_1 poseidon2_params, unit) result \<Rightarrow> bool" where
  "is_instance r \<longleftrightarrow>
     (\<exists>params. r = Ok params \<and>
        (\<forall>xs. length xs = p2_t params \<longrightarrow>
           permutation_run params xs = (Ok (stored_poseidon2 params xs) :: ('a list, unit) result)))"

section \<open>A check on tables\<close>

named_theorems table_simps \<open>the tables of the instances\<close>

definition tables_ok :: "nat \<Rightarrow> nat \<Rightarrow> nat \<Rightarrow> nat list \<Rightarrow> nat list list \<Rightarrow> nat list list \<Rightarrow> bool" where
  "tables_ok t f p diag mat rc \<longleftrightarrow>
     length diag = t \<and> length rc = 2 * f + p \<and> list_all (\<lambda>row. length row = t) rc \<and>
     list_all (\<lambda>row. list_all (\<lambda>c. c = 0) (tl row)) (take p (drop f rc)) \<and>
     mat = map (\<lambda>i. replicate i 1 @ Suc (diag ! i) # replicate (t - Suc i) 1) [0..<t] \<and>
     (t = 2 \<longrightarrow> diag = [1, 2]) \<and> (t = 3 \<longrightarrow> diag = [1, 1, 2])"

lemma replicate_numeral: "replicate (numeral k) x = x # replicate (pred_numeral k) x"
  by (simp add: numeral_eq_Suc)

lemmas check_tables = tables_ok_def upt_rec replicate_numeral

lemma mat_rows:
  assumes "mat = map (\<lambda>i. replicate i 1 @ Suc (diag ! i) # replicate (t - Suc i) 1) [0..<t]" and "length diag = t"
  shows "map (map from_hex) mat =
    map (\<lambda>i. map (internal_matrix (map from_hex diag) i) [0..<t]) [0..<t :: nat] \<and> length mat = t"
proof -
  have rows: "map from_hex (replicate i 1 @ Suc (diag ! i) # replicate (t - Suc i) 1) =
      map (internal_matrix (map from_hex diag) i) [0..<t]" if "i < t" for i
  proof (rule nth_equalityI)
    fix j assume "j < length (map from_hex (replicate i 1 @ Suc (diag ! i) # replicate (t - Suc i) 1))"
    then have "j < t" using that by simp
    then show "map from_hex (replicate i 1 @ Suc (diag ! i) # replicate (t - Suc i) 1) ! j =
        map (internal_matrix (map from_hex diag) i) [0..<t] ! j"
      using that assms(2) by (cases j i rule: linorder_cases)
        (simp_all add: nth_append internal_matrix_def from_hex_def)
  qed (use that in simp)
  have "map (map from_hex) mat =
      map (\<lambda>i. map from_hex (replicate i 1 @ Suc (diag ! i) # replicate (t - Suc i) 1)) [0..<t]"
    unfolding assms(1) map_map comp_def ..
  also have "\<dots> = map (\<lambda>i. map (internal_matrix (map from_hex diag) i) [0..<t]) [0..<t]"
    by (rule map_cong [OF refl], rule rows) simp
  finally show ?thesis by (simp add: assms(1))
qed

lemma first_lane:
  assumes "length xs = length rc" and "list_all (\<lambda>c. c = 0) (tl rc)"
  shows "map2 (+) xs (map from_hex rc) = xs[0 := xs ! 0 + map from_hex rc ! (0::nat)]"
proof (cases rc)
  case (Cons c cs)
  then obtain x ys where xs: "xs = x # ys" "length ys = length cs" using assms(1) by (cases xs) auto
  have "list_all (\<lambda>c. c = 0) cs" using assms(2) Cons by simp
  with xs(2) have "map2 (+) ys (map from_hex cs) = ys"
    by (induction ys cs rule: list_induct2) (simp_all add: from_hex_def)
  then show ?thesis by (simp add: Cons xs)
qed (use assms(1) in simp)

lemma fold_agree:
  assumes "\<And>r s. r \<in> set rs \<Longrightarrow> length s = t \<Longrightarrow> g r s = f r s \<and> length (f r s) = t" and "length s = t"
  shows "fold g rs s = fold f rs s \<and> length (fold f rs s) = t"
  using assms by (induction rs arbitrary: s) simp_all

definition table_params :: "nat \<Rightarrow> nat \<Rightarrow> nat \<Rightarrow> nat \<Rightarrow> nat list \<Rightarrow> nat list list \<Rightarrow> nat list list \<Rightarrow>
    'a::comm_ring_1 poseidon2_params" where
  "table_params t d f p diag mat rc =
     \<lparr>p2_t = t, p2_d = d, p2_rounds_f_div_2 = f, p2_rounds_p = p, p2_rounds = 2 * f + p,
      p2_mat_internal_diag_m_1 = map from_hex diag, p2_mat_internal = map (map from_hex) mat,
      p2_round_constants = map (map from_hex) rc\<rparr>"

lemma table_params_ok:
  assumes "tables_ok t f p diag mat rc" and "t \<in> {2, 3, 4, 8, 12, 16, 20, 24}" and "d \<in> {3, 5, 7}"
  shows "params_ok (table_params t d f p diag mat rc)"
  using assms by (auto simp: params_ok_def table_params_def tables_ok_def list_all_length from_hex_def)

lemma stored_is_spec:
  assumes ok: "tables_ok t f p diag mat rc" and len: "length xs = t" and t: "0 < t"
  shows "stored_poseidon2 (table_params t d f p diag mat rc) xs = poseidon2_spec (table_params t d f p diag mat rc) xs"
proof -
  define P where "P = (table_params t d f p diag mat rc :: 'a poseidon2_params)"
  have sel: "p2_t P = t" "p2_d P = d" "p2_rounds_f_div_2 P = f" "p2_rounds_p P = p" "p2_rounds P = 2 * f + p"
    "p2_mat_internal_diag_m_1 P = map from_hex diag" "p2_mat_internal P = map (map from_hex) mat"
    "p2_round_constants P = map (map from_hex) rc" by (simp_all add: P_def table_params_def)
  have rows: "length rc = 2 * f + p" "r < length rc \<Longrightarrow> length (rc ! r) = t" for r
    using ok by (auto simp: tables_ok_def list_all_length)
  have full: "stored_full_round P r s = spec_full_round P r s \<and> length (spec_full_round P r s) = t"
    if "r < 2 * f + p" "length s = t" for r s
  proof -
    have "map (\<lambda>x. x ^ d) (map2 (+) s (map from_hex (rc ! r))) = map (\<lambda>i. (s ! i + map from_hex (rc ! r) ! i) ^ d) [0..<t]"
      by (rule nth_equalityI) (use that rows in simp_all)
    then show ?thesis using that rows by (simp add: stored_full_round_def spec_full_round_def sel)
  qed
  have part: "stored_partial_round P r s = spec_partial_round P r s \<and> length (spec_partial_round P r s) = t"
    if r: "r \<in> {f..<f + p}" and s: "length s = t" for r s
  proof -
    have lr: "r < length rc" using r rows by auto
    have nth: "take p (drop f rc) ! (r - f) = rc ! r" using r rows(1) by auto
    have "r - f < length (take p (drop f rc))" using r rows(1) by auto
    moreover have "list_all (\<lambda>row. list_all (\<lambda>c. c = 0) (tl row)) (take p (drop f rc))"
      using ok by (simp only: tables_ok_def)
    ultimately have "list_all (\<lambda>c. c = 0) (tl (rc ! r))" 
      unfolding nth [symmetric] list_all_iff by (blast intro: nth_mem)
    from first_lane [OF _ this, of s] have
      add: "map2 (+) s (map from_hex (rc ! r)) = s[0 := s ! 0 + map from_hex (rc ! r) ! 0]"
      using rows(2) [OF lr] s by simp
    have "map (map from_hex) mat = map (\<lambda>i. map (internal_matrix (map from_hex diag :: 'a list) i) [0..<t]) [0..<t]"
      using mat_rows [of mat diag t] ok by (simp add: tables_ok_def)
    then show ?thesis using s t lr
      by (simp add: stored_partial_round_def spec_partial_round_def sel add Let_def mat_vec_apply)
  qed
  define s0 where "s0 = mat_apply t (external_matrix t) xs"
  have 1: "fold (stored_full_round P) [0..<f] s0 = fold (spec_full_round P) [0..<f] s0 \<and>
      length (fold (spec_full_round P) [0..<f] s0) = t"
    by (rule fold_agree) (use full in \<open>auto simp: s0_def\<close>)
  define s1 where "s1 = fold (spec_full_round P) [0..<f] s0"
  have 2: "fold (stored_partial_round P) [f..<f + p] s1 = fold (spec_partial_round P) [f..<f + p] s1 \<and>
      length (fold (spec_partial_round P) [f..<f + p] s1) = t"
    by (rule fold_agree) (use part 1 in \<open>auto simp: s1_def\<close>)
  define s2 where "s2 = fold (spec_partial_round P) [f..<f + p] s1"
  have "fold (stored_full_round P) [f + p..<2 * f + p] s2 = fold (spec_full_round P) [f + p..<2 * f + p] s2 \<and>
      length (fold (spec_full_round P) [f + p..<2 * f + p] s2) = t"
    by (rule fold_agree) (use full 2 in \<open>auto simp: s2_def\<close>)
  then show ?thesis using 1 2
    unfolding P_def [symmetric] stored_poseidon2_def poseidon2_spec_def Let_def sel s0_def [symmetric]
    by (simp only: s1_def [symmetric] s2_def [symmetric])
qed

lemma tables_instance:
  assumes "tables_ok t f p diag mat rc" and "t \<in> {2, 3, 4, 8, 12, 16, 20, 24}" and "d \<in> {3, 5, 7}"
    and "rounds_f = 2 * f"
  shows "is_instance (poseidon2_params_new t d rounds_f p (map from_hex diag) (map (map from_hex) mat)
    (map (map from_hex) rc) :: ('a::comm_ring_1 poseidon2_params, unit) result)"
proof -
  let ?P = "table_params t d f p diag mat rc :: 'a poseidon2_params"
  have new: "poseidon2_params_new t d rounds_f p (map from_hex diag) (map (map from_hex) mat) (map (map from_hex) rc) =
      (Ok ?P :: (_, unit) result)"
    using assms(3,4) by (auto simp: poseidon2_params_new_def table_params_def)
  have "permutation_run ?P xs = (Ok (stored_poseidon2 ?P xs) :: ('a list, unit) result)" if "length xs = t" for xs
    using permutation_run_spec [OF table_params_ok [OF assms(1-3)], of xs, where 'e = unit]
      stored_is_spec [OF assms(1) that, of d] that assms(2) by (auto simp: table_params_def)
  then show ?thesis unfolding is_instance_def new by (auto simp: table_params_def)
qed

end
