(* ===== verification/Poseidon2_Goldilocks.thy ===== *)
theory Poseidon2_Goldilocks
  imports Poseidon2_Instances
begin

text \<open>
  The parameter sets of the crate for the Goldilocks field
  (\<open>poseidon2_instance_goldilocks.rs\<close>, \<open>fields/goldilocks.rs\<close>): the internal
  diagonal, the internal matrix and the round constants.  A table is the list of its hexadecimal
  numerals; a parameter set reduces them into the field.
\<close>

type_synonym goldilocks = "18446744069414584321"

section \<open>Goldilocks, width 8\<close>

definition GOLDILOCKS_MAT_DIAG8_M_1 :: "nat list" where [table_simps]:
  "GOLDILOCKS_MAT_DIAG8_M_1 =
    [0xa98811a1fed4e3a5, 0x1cc48b54f377e2a0, 0xe40cd4f6c5609a26, 0x11de79ebca97a4a3, 0x9177c73d8b7e929c,
     0x2a6fe8085797e791, 0x3de6e93329f8d5ad, 0x3f7af9125da962fe]"

definition GOLDILOCKS_MAT_INTERNAL8 :: "nat list list" where [table_simps]:
  "GOLDILOCKS_MAT_INTERNAL8 = [
    [0xa98811a1fed4e3a6, 0x0000000000000001, 0x0000000000000001, 0x0000000000000001, 0x0000000000000001,
     0x0000000000000001, 0x0000000000000001, 0x0000000000000001],
    [0x0000000000000001, 0x1cc48b54f377e2a1, 0x0000000000000001, 0x0000000000000001, 0x0000000000000001,
     0x0000000000000001, 0x0000000000000001, 0x0000000000000001],
    [0x0000000000000001, 0x0000000000000001, 0xe40cd4f6c5609a27, 0x0000000000000001, 0x0000000000000001,
     0x0000000000000001, 0x0000000000000001, 0x0000000000000001],
    [0x0000000000000001, 0x0000000000000001, 0x0000000000000001, 0x11de79ebca97a4a4, 0x0000000000000001,
     0x0000000000000001, 0x0000000000000001, 0x0000000000000001],
    [0x0000000000000001, 0x0000000000000001, 0x0000000000000001, 0x0000000000000001, 0x9177c73d8b7e929d,
     0x0000000000000001, 0x0000000000000001, 0x0000000000000001],
    [0x0000000000000001, 0x0000000000000001, 0x0000000000000001, 0x0000000000000001, 0x0000000000000001,
     0x2a6fe8085797e792, 0x0000000000000001, 0x0000000000000001],
    [0x0000000000000001, 0x0000000000000001, 0x0000000000000001, 0x0000000000000001, 0x0000000000000001,
     0x0000000000000001, 0x3de6e93329f8d5ae, 0x0000000000000001],
    [0x0000000000000001, 0x0000000000000001, 0x0000000000000001, 0x0000000000000001, 0x0000000000000001,
     0x0000000000000001, 0x0000000000000001, 0x3f7af9125da962ff]]"

definition GOLDILOCKS_RC8_1 :: "nat list list" where [table_simps]:
  "GOLDILOCKS_RC8_1 = [
    [0xdd5743e7f2a5a5d9, 0xcb3a864e58ada44b, 0xffa2449ed32f8cdc, 0x42025f65d6bd13ee, 0x7889175e25506323,
     0x34b98bb03d24b737, 0xbdcc535ecc4faa2a, 0x5b20ad869fc0d033],
    [0xf1dda5b9259dfcb4, 0x27515210be112d59, 0x4227d1718c766c3f, 0x26d333161a5bd794, 0x49b938957bf4b026,
     0x4a56b5938b213669, 0x1120426b48c8353d, 0x6b323c3f10a56cad],
    [0xce57d6245ddca6b2, 0xb1fc8d402bba1eb1, 0xb5c5096ca959bd04, 0x6db55cd306d31f7f, 0xc49d293a81cb9641,
     0x1ce55a4fe979719f, 0xa92e60a9d178a4d1, 0x002cc64973bcfd8c],
    [0xcea721cce82fb11b, 0xe5b55eb8098ece81, 0x4e30525c6f1ddd66, 0x43c6702827070987, 0xaca68430a7b5762a,
     0x3674238634df9c93, 0x88cee1c825e33433, 0xde99ae8d74b57176],
    [0x488897d85ff51f56, 0x0000000000000000, 0x0000000000000000, 0x0000000000000000, 0x0000000000000000,
     0x0000000000000000, 0x0000000000000000, 0x0000000000000000],
    [0x1140737ccb162218, 0x0000000000000000, 0x0000000000000000, 0x0000000000000000, 0x0000000000000000,
     0x0000000000000000, 0x0000000000000000, 0x0000000000000000],
    [0xa7eeb9215866ed35, 0x0000000000000000, 0x0000000000000000, 0x0000000000000000, 0x0000000000000000,
     0x0000000000000000, 0x0000000000000000, 0x0000000000000000],
    [0x9bd2976fee49fcc9, 0x0000000000000000, 0x0000000000000000, 0x0000000000000000, 0x0000000000000000,
     0x0000000000000000, 0x0000000000000000, 0x0000000000000000],
    [0xc0c8f0de580a3fcc, 0x0000000000000000, 0x0000000000000000, 0x0000000000000000, 0x0000000000000000,
     0x0000000000000000, 0x0000000000000000, 0x0000000000000000],
    [0x4fb2dae6ee8fc793, 0x0000000000000000, 0x0000000000000000, 0x0000000000000000, 0x0000000000000000,
     0x0000000000000000, 0x0000000000000000, 0x0000000000000000],
    [0x343a89f35f37395b, 0x0000000000000000, 0x0000000000000000, 0x0000000000000000, 0x0000000000000000,
     0x0000000000000000, 0x0000000000000000, 0x0000000000000000],
    [0x223b525a77ca72c8, 0x0000000000000000, 0x0000000000000000, 0x0000000000000000, 0x0000000000000000,
     0x0000000000000000, 0x0000000000000000, 0x0000000000000000],
    [0x56ccb62574aaa918, 0x0000000000000000, 0x0000000000000000, 0x0000000000000000, 0x0000000000000000,
     0x0000000000000000, 0x0000000000000000, 0x0000000000000000],
    [0xc4d507d8027af9ed, 0x0000000000000000, 0x0000000000000000, 0x0000000000000000, 0x0000000000000000,
     0x0000000000000000, 0x0000000000000000, 0x0000000000000000]]"

definition GOLDILOCKS_RC8_2 :: "nat list list" where [table_simps]:
  "GOLDILOCKS_RC8_2 = [
    [0xa080673cf0b7e95c, 0x0000000000000000, 0x0000000000000000, 0x0000000000000000, 0x0000000000000000,
     0x0000000000000000, 0x0000000000000000, 0x0000000000000000],
    [0xf0184884eb70dcf8, 0x0000000000000000, 0x0000000000000000, 0x0000000000000000, 0x0000000000000000,
     0x0000000000000000, 0x0000000000000000, 0x0000000000000000],
    [0x044f10b0cb3d5c69, 0x0000000000000000, 0x0000000000000000, 0x0000000000000000, 0x0000000000000000,
     0x0000000000000000, 0x0000000000000000, 0x0000000000000000],
    [0xe9e3f7993938f186, 0x0000000000000000, 0x0000000000000000, 0x0000000000000000, 0x0000000000000000,
     0x0000000000000000, 0x0000000000000000, 0x0000000000000000],
    [0x1b761c80e772f459, 0x0000000000000000, 0x0000000000000000, 0x0000000000000000, 0x0000000000000000,
     0x0000000000000000, 0x0000000000000000, 0x0000000000000000],
    [0x606cec607a1b5fac, 0x0000000000000000, 0x0000000000000000, 0x0000000000000000, 0x0000000000000000,
     0x0000000000000000, 0x0000000000000000, 0x0000000000000000],
    [0x14a0c2e1d45f03cd, 0x0000000000000000, 0x0000000000000000, 0x0000000000000000, 0x0000000000000000,
     0x0000000000000000, 0x0000000000000000, 0x0000000000000000],
    [0x4eace8855398574f, 0x0000000000000000, 0x0000000000000000, 0x0000000000000000, 0x0000000000000000,
     0x0000000000000000, 0x0000000000000000, 0x0000000000000000],
    [0xf905ca7103eff3e6, 0x0000000000000000, 0x0000000000000000, 0x0000000000000000, 0x0000000000000000,
     0x0000000000000000, 0x0000000000000000, 0x0000000000000000],
    [0xf8c8f8d20862c059, 0x0000000000000000, 0x0000000000000000, 0x0000000000000000, 0x0000000000000000,
     0x0000000000000000, 0x0000000000000000, 0x0000000000000000],
    [0xb524fe8bdd678e5a, 0x0000000000000000, 0x0000000000000000, 0x0000000000000000, 0x0000000000000000,
     0x0000000000000000, 0x0000000000000000, 0x0000000000000000],
    [0xfbb7865901a1ec41, 0x0000000000000000, 0x0000000000000000, 0x0000000000000000, 0x0000000000000000,
     0x0000000000000000, 0x0000000000000000, 0x0000000000000000],
    [0x014ef1197d341346, 0x9725e20825d07394, 0xfdb25aef2c5bae3b, 0xbe5402dc598c971e, 0x93a5711f04cdca3d,
     0xc45a9a5b2f8fb97b, 0xfe8946a924933545, 0x2af997a27369091c],
    [0xaa62c88e0b294011, 0x058eb9d810ce9f74, 0xb3cb23eced349ae4, 0xa3648177a77b4a84, 0x43153d905992d95d,
     0xf4e2a97cda44aa4b, 0x5baa2702b908682f, 0x082923bdf4f750d1],
    [0x98ae09a325893803, 0xf8a6475077968838, 0xceb0735bf00b2c5f, 0x0a1a5d953888e072, 0x2fcb190489f94475,
     0xb5be06270dec69fc, 0x739cb934b09acf8b, 0x537750b75ec7f25b]]"

definition GOLDILOCKS_RC8_3 :: "nat list list" where [table_simps]:
  "GOLDILOCKS_RC8_3 = [
    [0xe9dd318bae1f3961, 0xf7462137299efe1a, 0xb1f6b8eee9adb940, 0xbdebcc8a809dfe6b, 0x40fc1f791b178113,
     0x3ac1c3362d014864, 0x9a016184bdb8aeba, 0x95f2394459fbc25e]]"

definition GOLDILOCKS_RC8 :: "nat list list" where [table_simps]:
  "GOLDILOCKS_RC8 =
     GOLDILOCKS_RC8_1 @ GOLDILOCKS_RC8_2 @ GOLDILOCKS_RC8_3"

section \<open>Goldilocks, width 12\<close>

definition GOLDILOCKS_MAT_DIAG12_M_1 :: "nat list" where [table_simps]:
  "GOLDILOCKS_MAT_DIAG12_M_1 =
    [0xc3b6c08e23ba9300, 0xd84b5de94a324fb6, 0x0d0c371c5b35b84f, 0x7964f570e7188037, 0x5daf18bbd996604b,
     0x6743bc47b9595257, 0x5528b9362c59bb70, 0xac45e25b7127b68b, 0xa2077d7dfbb606b5, 0xf3faac6faee378ae,
     0x0c6388b51545e883, 0xd27dbb6944917b60]"

definition GOLDILOCKS_MAT_INTERNAL12_1 :: "nat list list" where [table_simps]:
  "GOLDILOCKS_MAT_INTERNAL12_1 = [
    [0xc3b6c08e23ba9301, 0x0000000000000001, 0x0000000000000001, 0x0000000000000001, 0x0000000000000001,
     0x0000000000000001, 0x0000000000000001, 0x0000000000000001, 0x0000000000000001, 0x0000000000000001,
     0x0000000000000001, 0x0000000000000001],
    [0x0000000000000001, 0xd84b5de94a324fb7, 0x0000000000000001, 0x0000000000000001, 0x0000000000000001,
     0x0000000000000001, 0x0000000000000001, 0x0000000000000001, 0x0000000000000001, 0x0000000000000001,
     0x0000000000000001, 0x0000000000000001],
    [0x0000000000000001, 0x0000000000000001, 0x0d0c371c5b35b850, 0x0000000000000001, 0x0000000000000001,
     0x0000000000000001, 0x0000000000000001, 0x0000000000000001, 0x0000000000000001, 0x0000000000000001,
     0x0000000000000001, 0x0000000000000001],
    [0x0000000000000001, 0x0000000000000001, 0x0000000000000001, 0x7964f570e7188038, 0x0000000000000001,
     0x0000000000000001, 0x0000000000000001, 0x0000000000000001, 0x0000000000000001, 0x0000000000000001,
     0x0000000000000001, 0x0000000000000001],
    [0x0000000000000001, 0x0000000000000001, 0x0000000000000001, 0x0000000000000001, 0x5daf18bbd996604c,
     0x0000000000000001, 0x0000000000000001, 0x0000000000000001, 0x0000000000000001, 0x0000000000000001,
     0x0000000000000001, 0x0000000000000001],
    [0x0000000000000001, 0x0000000000000001, 0x0000000000000001, 0x0000000000000001, 0x0000000000000001,
     0x6743bc47b9595258, 0x0000000000000001, 0x0000000000000001, 0x0000000000000001, 0x0000000000000001,
     0x0000000000000001, 0x0000000000000001],
    [0x0000000000000001, 0x0000000000000001, 0x0000000000000001, 0x0000000000000001, 0x0000000000000001,
     0x0000000000000001, 0x5528b9362c59bb71, 0x0000000000000001, 0x0000000000000001, 0x0000000000000001,
     0x0000000000000001, 0x0000000000000001],
    [0x0000000000000001, 0x0000000000000001, 0x0000000000000001, 0x0000000000000001, 0x0000000000000001,
     0x0000000000000001, 0x0000000000000001, 0xac45e25b7127b68c, 0x0000000000000001, 0x0000000000000001,
     0x0000000000000001, 0x0000000000000001],
    [0x0000000000000001, 0x0000000000000001, 0x0000000000000001, 0x0000000000000001, 0x0000000000000001,
     0x0000000000000001, 0x0000000000000001, 0x0000000000000001, 0xa2077d7dfbb606b6, 0x0000000000000001,
     0x0000000000000001, 0x0000000000000001],
    [0x0000000000000001, 0x0000000000000001, 0x0000000000000001, 0x0000000000000001, 0x0000000000000001,
     0x0000000000000001, 0x0000000000000001, 0x0000000000000001, 0x0000000000000001, 0xf3faac6faee378af,
     0x0000000000000001, 0x0000000000000001]]"

definition GOLDILOCKS_MAT_INTERNAL12_2 :: "nat list list" where [table_simps]:
  "GOLDILOCKS_MAT_INTERNAL12_2 = [
    [0x0000000000000001, 0x0000000000000001, 0x0000000000000001, 0x0000000000000001, 0x0000000000000001,
     0x0000000000000001, 0x0000000000000001, 0x0000000000000001, 0x0000000000000001, 0x0000000000000001,
     0x0c6388b51545e884, 0x0000000000000001],
    [0x0000000000000001, 0x0000000000000001, 0x0000000000000001, 0x0000000000000001, 0x0000000000000001,
     0x0000000000000001, 0x0000000000000001, 0x0000000000000001, 0x0000000000000001, 0x0000000000000001,
     0x0000000000000001, 0xd27dbb6944917b61]]"

definition GOLDILOCKS_MAT_INTERNAL12 :: "nat list list" where [table_simps]:
  "GOLDILOCKS_MAT_INTERNAL12 =
     GOLDILOCKS_MAT_INTERNAL12_1 @ GOLDILOCKS_MAT_INTERNAL12_2"

definition GOLDILOCKS_RC12_1 :: "nat list list" where [table_simps]:
  "GOLDILOCKS_RC12_1 = [
    [0x13dcf33aba214f46, 0x30b3b654a1da6d83, 0x1fc634ada6159b56, 0x937459964dc03466, 0xedd2ef2ca7949924,
     0xede9affde0e22f68, 0x8515b9d6bac9282d, 0x6b5c07b4e9e900d8, 0x1ec66368838c8a08, 0x9042367d80d1fbab,
     0x400283564a3c3799, 0x4a00be0466bca75e],
    [0x7913beee58e3817f, 0xf545e88532237d90, 0x22f8cb8736042005, 0x6f04990e247a2623, 0xfe22e87ba37c38cd,
     0xd20e32c85ffe2815, 0x117227674048fe73, 0x4e9fb7ea98a6b145, 0xe0866c232b8af08b, 0x00bbc77916884964,
     0x7031c0fb990d7116, 0x240a9e87cf35108f],
    [0x2e6363a5a12244b3, 0x5e1c3787d1b5011c, 0x4132660e2a196e8b, 0x3a013b648d3d4327, 0xf79839f49888ea43,
     0xfe85658ebafe1439, 0xb6889825a14240bd, 0x578453605541382b, 0x4508cda8f6b63ce9, 0x9c3ef35848684c91,
     0x0812bde23c87178c, 0xfe49638f7f722c14],
    [0x8e3f688ce885cbf5, 0xb8e110acf746a87d, 0xb4b2e8973a6dabef, 0x9e714c5da3d462ec, 0x6438f9033d3d0c15,
     0x24312f7cf1a27199, 0x23f843bb47acbf71, 0x9183f11a34be9f01, 0x839062fbb9d45dbf, 0x24b56e7e6c2e43fa,
     0xe1683da61c962a72, 0xa95c63971a19bfa7],
    [0x4adf842aa75d4316, 0x0000000000000000, 0x0000000000000000, 0x0000000000000000, 0x0000000000000000,
     0x0000000000000000, 0x0000000000000000, 0x0000000000000000, 0x0000000000000000, 0x0000000000000000,
     0x0000000000000000, 0x0000000000000000],
    [0xf8fbb871aa4ab4eb, 0x0000000000000000, 0x0000000000000000, 0x0000000000000000, 0x0000000000000000,
     0x0000000000000000, 0x0000000000000000, 0x0000000000000000, 0x0000000000000000, 0x0000000000000000,
     0x0000000000000000, 0x0000000000000000],
    [0x68e85b6eb2dd6aeb, 0x0000000000000000, 0x0000000000000000, 0x0000000000000000, 0x0000000000000000,
     0x0000000000000000, 0x0000000000000000, 0x0000000000000000, 0x0000000000000000, 0x0000000000000000,
     0x0000000000000000, 0x0000000000000000],
    [0x07a0b06b2d270380, 0x0000000000000000, 0x0000000000000000, 0x0000000000000000, 0x0000000000000000,
     0x0000000000000000, 0x0000000000000000, 0x0000000000000000, 0x0000000000000000, 0x0000000000000000,
     0x0000000000000000, 0x0000000000000000],
    [0xd94e0228bd282de4, 0x0000000000000000, 0x0000000000000000, 0x0000000000000000, 0x0000000000000000,
     0x0000000000000000, 0x0000000000000000, 0x0000000000000000, 0x0000000000000000, 0x0000000000000000,
     0x0000000000000000, 0x0000000000000000],
    [0x8bdd91d3250c5278, 0x0000000000000000, 0x0000000000000000, 0x0000000000000000, 0x0000000000000000,
     0x0000000000000000, 0x0000000000000000, 0x0000000000000000, 0x0000000000000000, 0x0000000000000000,
     0x0000000000000000, 0x0000000000000000]]"

definition GOLDILOCKS_RC12_2 :: "nat list list" where [table_simps]:
  "GOLDILOCKS_RC12_2 = [
    [0x209c68b88bba778f, 0x0000000000000000, 0x0000000000000000, 0x0000000000000000, 0x0000000000000000,
     0x0000000000000000, 0x0000000000000000, 0x0000000000000000, 0x0000000000000000, 0x0000000000000000,
     0x0000000000000000, 0x0000000000000000],
    [0xb5e18cdab77f3877, 0x0000000000000000, 0x0000000000000000, 0x0000000000000000, 0x0000000000000000,
     0x0000000000000000, 0x0000000000000000, 0x0000000000000000, 0x0000000000000000, 0x0000000000000000,
     0x0000000000000000, 0x0000000000000000],
    [0xb296a3e808da93fa, 0x0000000000000000, 0x0000000000000000, 0x0000000000000000, 0x0000000000000000,
     0x0000000000000000, 0x0000000000000000, 0x0000000000000000, 0x0000000000000000, 0x0000000000000000,
     0x0000000000000000, 0x0000000000000000],
    [0x8370ecbda11a327e, 0x0000000000000000, 0x0000000000000000, 0x0000000000000000, 0x0000000000000000,
     0x0000000000000000, 0x0000000000000000, 0x0000000000000000, 0x0000000000000000, 0x0000000000000000,
     0x0000000000000000, 0x0000000000000000],
    [0x3f9075283775dad8, 0x0000000000000000, 0x0000000000000000, 0x0000000000000000, 0x0000000000000000,
     0x0000000000000000, 0x0000000000000000, 0x0000000000000000, 0x0000000000000000, 0x0000000000000000,
     0x0000000000000000, 0x0000000000000000],
    [0xb78095bb23c6aa84, 0x0000000000000000, 0x0000000000000000, 0x0000000000000000, 0x0000000000000000,
     0x0000000000000000, 0x0000000000000000, 0x0000000000000000, 0x0000000000000000, 0x0000000000000000,
     0x0000000000000000, 0x0000000000000000],
    [0x3f36b9fe72ad4e5f, 0x0000000000000000, 0x0000000000000000, 0x0000000000000000, 0x0000000000000000,
     0x0000000000000000, 0x0000000000000000, 0x0000000000000000, 0x0000000000000000, 0x0000000000000000,
     0x0000000000000000, 0x0000000000000000],
    [0x69bc96780b10b553, 0x0000000000000000, 0x0000000000000000, 0x0000000000000000, 0x0000000000000000,
     0x0000000000000000, 0x0000000000000000, 0x0000000000000000, 0x0000000000000000, 0x0000000000000000,
     0x0000000000000000, 0x0000000000000000],
    [0x3f1d341f2eb7b881, 0x0000000000000000, 0x0000000000000000, 0x0000000000000000, 0x0000000000000000,
     0x0000000000000000, 0x0000000000000000, 0x0000000000000000, 0x0000000000000000, 0x0000000000000000,
     0x0000000000000000, 0x0000000000000000],
    [0x4e939e9815838818, 0x0000000000000000, 0x0000000000000000, 0x0000000000000000, 0x0000000000000000,
     0x0000000000000000, 0x0000000000000000, 0x0000000000000000, 0x0000000000000000, 0x0000000000000000,
     0x0000000000000000, 0x0000000000000000]]"

definition GOLDILOCKS_RC12_3 :: "nat list list" where [table_simps]:
  "GOLDILOCKS_RC12_3 = [
    [0xda366b3ae2a31604, 0x0000000000000000, 0x0000000000000000, 0x0000000000000000, 0x0000000000000000,
     0x0000000000000000, 0x0000000000000000, 0x0000000000000000, 0x0000000000000000, 0x0000000000000000,
     0x0000000000000000, 0x0000000000000000],
    [0xbc89db1e7287d509, 0x0000000000000000, 0x0000000000000000, 0x0000000000000000, 0x0000000000000000,
     0x0000000000000000, 0x0000000000000000, 0x0000000000000000, 0x0000000000000000, 0x0000000000000000,
     0x0000000000000000, 0x0000000000000000],
    [0x6102f411f9ef5659, 0x0000000000000000, 0x0000000000000000, 0x0000000000000000, 0x0000000000000000,
     0x0000000000000000, 0x0000000000000000, 0x0000000000000000, 0x0000000000000000, 0x0000000000000000,
     0x0000000000000000, 0x0000000000000000],
    [0x58725c5e7ac1f0ab, 0x0000000000000000, 0x0000000000000000, 0x0000000000000000, 0x0000000000000000,
     0x0000000000000000, 0x0000000000000000, 0x0000000000000000, 0x0000000000000000, 0x0000000000000000,
     0x0000000000000000, 0x0000000000000000],
    [0x0df5856c798883e7, 0x0000000000000000, 0x0000000000000000, 0x0000000000000000, 0x0000000000000000,
     0x0000000000000000, 0x0000000000000000, 0x0000000000000000, 0x0000000000000000, 0x0000000000000000,
     0x0000000000000000, 0x0000000000000000],
    [0xf7bb62a8da4c961b, 0x0000000000000000, 0x0000000000000000, 0x0000000000000000, 0x0000000000000000,
     0x0000000000000000, 0x0000000000000000, 0x0000000000000000, 0x0000000000000000, 0x0000000000000000,
     0x0000000000000000, 0x0000000000000000],
    [0xc68be7c94882a24d, 0xaf996d5d5cdaedd9, 0x9717f025e7daf6a5, 0x6436679e6e7216f4, 0x8a223d99047af267,
     0xbb512e35a133ba9a, 0xfbbf44097671aa03, 0xf04058ebf6811e61, 0x5cca84703fac7ffb, 0x9b55c7945de6469f,
     0x8e05bf09808e934f, 0x2ea900de876307d7],
    [0x7748fff2b38dfb89, 0x6b99a676dd3b5d81, 0xac4bb7c627cf7c13, 0xadb6ebe5e9e2f5ba, 0x2d33378cafa24ae3,
     0x1e5b73807543f8c2, 0x09208814bfebb10f, 0x782e64b6bb5b93dd, 0xadd5a48eac90b50f, 0xadd4c54c736ea4b1,
     0xd58dbb86ed817fd8, 0x6d5ed1a533f34ddd],
    [0x28686aa3e36b7cb9, 0x591abd3476689f36, 0x047d766678f13875, 0xa2a11112625f5b49, 0x21fd10a3f8304958,
     0xf9b40711443b0280, 0xd2697eb8b2bde88e, 0x3493790b51731b3f, 0x11caf9dd73764023, 0x7acfb8f72878164e,
     0x744ec4db23cefc26, 0x1e00e58f422c6340],
    [0x21dd28d906a62dda, 0xf32a46ab5f465b5f, 0xbfce13201f3f7e6b, 0xf30d2e7adb5304e2, 0xecdf4ee4abad48e9,
     0xf94e82182d395019, 0x4ee52e3744d887c5, 0xa1341c7cac0083b2, 0x2302fb26c30c834a, 0xaea3c587273bf7d3,
     0xf798e24961823ec7, 0x962deba3e9a2cd94]]"

definition GOLDILOCKS_RC12 :: "nat list list" where [table_simps]:
  "GOLDILOCKS_RC12 =
     GOLDILOCKS_RC12_1 @ GOLDILOCKS_RC12_2 @ GOLDILOCKS_RC12_3"

section \<open>Goldilocks, width 16\<close>

definition GOLDILOCKS_MAT_DIAG16_M_1 :: "nat list" where [table_simps]:
  "GOLDILOCKS_MAT_DIAG16_M_1 =
    [0xde9b91a467d6afc0, 0xc5f16b9c76a9be17, 0x0ab0fef2d540ac55, 0x3001d27009d05773, 0xed23b1f906d3d9eb,
     0x5ce73743cba97054, 0x1c3bab944af4ba24, 0x2faa105854dbafae, 0x53ffb3ae6d421a10, 0xbcda9df8884ba396,
     0xfc1273e4a31807bb, 0xc77952573d5142c0, 0x56683339a819b85e, 0x328fcbd8f0ddc8eb, 0xb5101e303fce9cb7,
     0x774487b8c40089bb]"

definition GOLDILOCKS_MAT_INTERNAL16_1 :: "nat list list" where [table_simps]:
  "GOLDILOCKS_MAT_INTERNAL16_1 = [
    [0xde9b91a467d6afc1, 0x0000000000000001, 0x0000000000000001, 0x0000000000000001, 0x0000000000000001,
     0x0000000000000001, 0x0000000000000001, 0x0000000000000001, 0x0000000000000001, 0x0000000000000001,
     0x0000000000000001, 0x0000000000000001, 0x0000000000000001, 0x0000000000000001, 0x0000000000000001,
     0x0000000000000001],
    [0x0000000000000001, 0xc5f16b9c76a9be18, 0x0000000000000001, 0x0000000000000001, 0x0000000000000001,
     0x0000000000000001, 0x0000000000000001, 0x0000000000000001, 0x0000000000000001, 0x0000000000000001,
     0x0000000000000001, 0x0000000000000001, 0x0000000000000001, 0x0000000000000001, 0x0000000000000001,
     0x0000000000000001],
    [0x0000000000000001, 0x0000000000000001, 0x0ab0fef2d540ac56, 0x0000000000000001, 0x0000000000000001,
     0x0000000000000001, 0x0000000000000001, 0x0000000000000001, 0x0000000000000001, 0x0000000000000001,
     0x0000000000000001, 0x0000000000000001, 0x0000000000000001, 0x0000000000000001, 0x0000000000000001,
     0x0000000000000001],
    [0x0000000000000001, 0x0000000000000001, 0x0000000000000001, 0x3001d27009d05774, 0x0000000000000001,
     0x0000000000000001, 0x0000000000000001, 0x0000000000000001, 0x0000000000000001, 0x0000000000000001,
     0x0000000000000001, 0x0000000000000001, 0x0000000000000001, 0x0000000000000001, 0x0000000000000001,
     0x0000000000000001],
    [0x0000000000000001, 0x0000000000000001, 0x0000000000000001, 0x0000000000000001, 0xed23b1f906d3d9ec,
     0x0000000000000001, 0x0000000000000001, 0x0000000000000001, 0x0000000000000001, 0x0000000000000001,
     0x0000000000000001, 0x0000000000000001, 0x0000000000000001, 0x0000000000000001, 0x0000000000000001,
     0x0000000000000001],
    [0x0000000000000001, 0x0000000000000001, 0x0000000000000001, 0x0000000000000001, 0x0000000000000001,
     0x5ce73743cba97055, 0x0000000000000001, 0x0000000000000001, 0x0000000000000001, 0x0000000000000001,
     0x0000000000000001, 0x0000000000000001, 0x0000000000000001, 0x0000000000000001, 0x0000000000000001,
     0x0000000000000001],
    [0x0000000000000001, 0x0000000000000001, 0x0000000000000001, 0x0000000000000001, 0x0000000000000001,
     0x0000000000000001, 0x1c3bab944af4ba25, 0x0000000000000001, 0x0000000000000001, 0x0000000000000001,
     0x0000000000000001, 0x0000000000000001, 0x0000000000000001, 0x0000000000000001, 0x0000000000000001,
     0x0000000000000001],
    [0x0000000000000001, 0x0000000000000001, 0x0000000000000001, 0x0000000000000001, 0x0000000000000001,
     0x0000000000000001, 0x0000000000000001, 0x2faa105854dbafaf, 0x0000000000000001, 0x0000000000000001,
     0x0000000000000001, 0x0000000000000001, 0x0000000000000001, 0x0000000000000001, 0x0000000000000001,
     0x0000000000000001]]"

definition GOLDILOCKS_MAT_INTERNAL16_2 :: "nat list list" where [table_simps]:
  "GOLDILOCKS_MAT_INTERNAL16_2 = [
    [0x0000000000000001, 0x0000000000000001, 0x0000000000000001, 0x0000000000000001, 0x0000000000000001,
     0x0000000000000001, 0x0000000000000001, 0x0000000000000001, 0x53ffb3ae6d421a11, 0x0000000000000001,
     0x0000000000000001, 0x0000000000000001, 0x0000000000000001, 0x0000000000000001, 0x0000000000000001,
     0x0000000000000001],
    [0x0000000000000001, 0x0000000000000001, 0x0000000000000001, 0x0000000000000001, 0x0000000000000001,
     0x0000000000000001, 0x0000000000000001, 0x0000000000000001, 0x0000000000000001, 0xbcda9df8884ba397,
     0x0000000000000001, 0x0000000000000001, 0x0000000000000001, 0x0000000000000001, 0x0000000000000001,
     0x0000000000000001],
    [0x0000000000000001, 0x0000000000000001, 0x0000000000000001, 0x0000000000000001, 0x0000000000000001,
     0x0000000000000001, 0x0000000000000001, 0x0000000000000001, 0x0000000000000001, 0x0000000000000001,
     0xfc1273e4a31807bc, 0x0000000000000001, 0x0000000000000001, 0x0000000000000001, 0x0000000000000001,
     0x0000000000000001],
    [0x0000000000000001, 0x0000000000000001, 0x0000000000000001, 0x0000000000000001, 0x0000000000000001,
     0x0000000000000001, 0x0000000000000001, 0x0000000000000001, 0x0000000000000001, 0x0000000000000001,
     0x0000000000000001, 0xc77952573d5142c1, 0x0000000000000001, 0x0000000000000001, 0x0000000000000001,
     0x0000000000000001],
    [0x0000000000000001, 0x0000000000000001, 0x0000000000000001, 0x0000000000000001, 0x0000000000000001,
     0x0000000000000001, 0x0000000000000001, 0x0000000000000001, 0x0000000000000001, 0x0000000000000001,
     0x0000000000000001, 0x0000000000000001, 0x56683339a819b85f, 0x0000000000000001, 0x0000000000000001,
     0x0000000000000001],
    [0x0000000000000001, 0x0000000000000001, 0x0000000000000001, 0x0000000000000001, 0x0000000000000001,
     0x0000000000000001, 0x0000000000000001, 0x0000000000000001, 0x0000000000000001, 0x0000000000000001,
     0x0000000000000001, 0x0000000000000001, 0x0000000000000001, 0x328fcbd8f0ddc8ec, 0x0000000000000001,
     0x0000000000000001],
    [0x0000000000000001, 0x0000000000000001, 0x0000000000000001, 0x0000000000000001, 0x0000000000000001,
     0x0000000000000001, 0x0000000000000001, 0x0000000000000001, 0x0000000000000001, 0x0000000000000001,
     0x0000000000000001, 0x0000000000000001, 0x0000000000000001, 0x0000000000000001, 0xb5101e303fce9cb8,
     0x0000000000000001],
    [0x0000000000000001, 0x0000000000000001, 0x0000000000000001, 0x0000000000000001, 0x0000000000000001,
     0x0000000000000001, 0x0000000000000001, 0x0000000000000001, 0x0000000000000001, 0x0000000000000001,
     0x0000000000000001, 0x0000000000000001, 0x0000000000000001, 0x0000000000000001, 0x0000000000000001,
     0x774487b8c40089bc]]"

definition GOLDILOCKS_MAT_INTERNAL16 :: "nat list list" where [table_simps]:
  "GOLDILOCKS_MAT_INTERNAL16 =
     GOLDILOCKS_MAT_INTERNAL16_1 @ GOLDILOCKS_MAT_INTERNAL16_2"

definition GOLDILOCKS_RC16_1 :: "nat list list" where [table_simps]:
  "GOLDILOCKS_RC16_1 = [
    [0x15ebea3fc73397c3, 0xd73cd9fbfe8e275c, 0x8c096bfce77f6c26, 0x4e128f68b53d8fea, 0x29b779a36b2763f6,
     0xfe2adc6fb65acd08, 0x8d2520e725ad0955, 0x1c2392b214624d2a, 0x37482118206dcc6e, 0x2f829bed19be019a,
     0x2fe298cb6f8159b0, 0x2bbad982deccdbbf, 0xbad568b8cc60a81e, 0xb86a814265baad10, 0xbec2005513b3acb3,
     0x6bf89b59a07c2a94],
    [0xa25deeb835e230f5, 0x3c5bad8512b8b12a, 0x7230f73c3cb7a4f2, 0xa70c87f095c74d0f, 0x6b7606b830bb2e80,
     0x6cd467cfc4f24274, 0xfeed794df42a9b0a, 0x8cf7cf6163b7dbd3, 0x9a6e9dda597175a0, 0xaa52295a684faf7b,
     0x017b811cc3589d8d, 0x55bfb699b6181648, 0xc2ccaf71501c2421, 0x1707950327596402, 0xdd2fcdcd42a8229f,
     0x8b9d7d5b27778a21],
    [0xac9a05525f9cf512, 0x2ba125c58627b5e8, 0xc74e91250a8147a5, 0xa3e64b640d5bb384, 0xf53047d18d1f9292,
     0xbaaeddacae3a6374, 0xf2d0914a808b3db1, 0x18af1a3742bfa3b0, 0x9a621ef50c55bdb8, 0xc615f4d1cc5466f3,
     0xb7fbac19a35cf793, 0xd2b1a15ba517e46d, 0x4a290c4d7fd26f6f, 0x4f0cf1bb1770c4c4, 0x548345386cd377f5,
     0x33978d2789fddd42],
    [0xab78c59deb77e211, 0xc485b2a933d2be7f, 0xbde3792c00c03c53, 0xab4cefe8f893d247, 0xc5c0e752eab7f85f,
     0xdbf5a76f893bafea, 0xa91f6003e3d984de, 0x099539077f311e87, 0x097ec52232f9559e, 0x53641bdf8991e48c,
     0x2afe9711d5ed9d7c, 0xa7b13d3661b5d117, 0x5a0e243fe7af6556, 0x1076fae8932d5f00, 0x9b53a83d434934e3,
     0xed3fd595a3c0344a],
    [0x28eff4b01103d100, 0x0000000000000000, 0x0000000000000000, 0x0000000000000000, 0x0000000000000000,
     0x0000000000000000, 0x0000000000000000, 0x0000000000000000, 0x0000000000000000, 0x0000000000000000,
     0x0000000000000000, 0x0000000000000000, 0x0000000000000000, 0x0000000000000000, 0x0000000000000000,
     0x0000000000000000],
    [0x60400ca3e2685a45, 0x0000000000000000, 0x0000000000000000, 0x0000000000000000, 0x0000000000000000,
     0x0000000000000000, 0x0000000000000000, 0x0000000000000000, 0x0000000000000000, 0x0000000000000000,
     0x0000000000000000, 0x0000000000000000, 0x0000000000000000, 0x0000000000000000, 0x0000000000000000,
     0x0000000000000000],
    [0x1c8636beb3389b84, 0x0000000000000000, 0x0000000000000000, 0x0000000000000000, 0x0000000000000000,
     0x0000000000000000, 0x0000000000000000, 0x0000000000000000, 0x0000000000000000, 0x0000000000000000,
     0x0000000000000000, 0x0000000000000000, 0x0000000000000000, 0x0000000000000000, 0x0000000000000000,
     0x0000000000000000],
    [0xac1332b60e13eff0, 0x0000000000000000, 0x0000000000000000, 0x0000000000000000, 0x0000000000000000,
     0x0000000000000000, 0x0000000000000000, 0x0000000000000000, 0x0000000000000000, 0x0000000000000000,
     0x0000000000000000, 0x0000000000000000, 0x0000000000000000, 0x0000000000000000, 0x0000000000000000,
     0x0000000000000000]]"

definition GOLDILOCKS_RC16_2 :: "nat list list" where [table_simps]:
  "GOLDILOCKS_RC16_2 = [
    [0x2adafcc364e20f87, 0x0000000000000000, 0x0000000000000000, 0x0000000000000000, 0x0000000000000000,
     0x0000000000000000, 0x0000000000000000, 0x0000000000000000, 0x0000000000000000, 0x0000000000000000,
     0x0000000000000000, 0x0000000000000000, 0x0000000000000000, 0x0000000000000000, 0x0000000000000000,
     0x0000000000000000],
    [0x79ffc2b14054ea0b, 0x0000000000000000, 0x0000000000000000, 0x0000000000000000, 0x0000000000000000,
     0x0000000000000000, 0x0000000000000000, 0x0000000000000000, 0x0000000000000000, 0x0000000000000000,
     0x0000000000000000, 0x0000000000000000, 0x0000000000000000, 0x0000000000000000, 0x0000000000000000,
     0x0000000000000000],
    [0x3f98e4c0908f0a05, 0x0000000000000000, 0x0000000000000000, 0x0000000000000000, 0x0000000000000000,
     0x0000000000000000, 0x0000000000000000, 0x0000000000000000, 0x0000000000000000, 0x0000000000000000,
     0x0000000000000000, 0x0000000000000000, 0x0000000000000000, 0x0000000000000000, 0x0000000000000000,
     0x0000000000000000],
    [0xcdb230bc4e8a06c4, 0x0000000000000000, 0x0000000000000000, 0x0000000000000000, 0x0000000000000000,
     0x0000000000000000, 0x0000000000000000, 0x0000000000000000, 0x0000000000000000, 0x0000000000000000,
     0x0000000000000000, 0x0000000000000000, 0x0000000000000000, 0x0000000000000000, 0x0000000000000000,
     0x0000000000000000],
    [0x1bcaf7705b152a74, 0x0000000000000000, 0x0000000000000000, 0x0000000000000000, 0x0000000000000000,
     0x0000000000000000, 0x0000000000000000, 0x0000000000000000, 0x0000000000000000, 0x0000000000000000,
     0x0000000000000000, 0x0000000000000000, 0x0000000000000000, 0x0000000000000000, 0x0000000000000000,
     0x0000000000000000],
    [0xd9bca249a82a7470, 0x0000000000000000, 0x0000000000000000, 0x0000000000000000, 0x0000000000000000,
     0x0000000000000000, 0x0000000000000000, 0x0000000000000000, 0x0000000000000000, 0x0000000000000000,
     0x0000000000000000, 0x0000000000000000, 0x0000000000000000, 0x0000000000000000, 0x0000000000000000,
     0x0000000000000000],
    [0x91e24af19bf82551, 0x0000000000000000, 0x0000000000000000, 0x0000000000000000, 0x0000000000000000,
     0x0000000000000000, 0x0000000000000000, 0x0000000000000000, 0x0000000000000000, 0x0000000000000000,
     0x0000000000000000, 0x0000000000000000, 0x0000000000000000, 0x0000000000000000, 0x0000000000000000,
     0x0000000000000000],
    [0xa62b43ba5cb78858, 0x0000000000000000, 0x0000000000000000, 0x0000000000000000, 0x0000000000000000,
     0x0000000000000000, 0x0000000000000000, 0x0000000000000000, 0x0000000000000000, 0x0000000000000000,
     0x0000000000000000, 0x0000000000000000, 0x0000000000000000, 0x0000000000000000, 0x0000000000000000,
     0x0000000000000000]]"

definition GOLDILOCKS_RC16_3 :: "nat list list" where [table_simps]:
  "GOLDILOCKS_RC16_3 = [
    [0xb4898117472e797f, 0x0000000000000000, 0x0000000000000000, 0x0000000000000000, 0x0000000000000000,
     0x0000000000000000, 0x0000000000000000, 0x0000000000000000, 0x0000000000000000, 0x0000000000000000,
     0x0000000000000000, 0x0000000000000000, 0x0000000000000000, 0x0000000000000000, 0x0000000000000000,
     0x0000000000000000],
    [0xb3228bca606cdaa0, 0x0000000000000000, 0x0000000000000000, 0x0000000000000000, 0x0000000000000000,
     0x0000000000000000, 0x0000000000000000, 0x0000000000000000, 0x0000000000000000, 0x0000000000000000,
     0x0000000000000000, 0x0000000000000000, 0x0000000000000000, 0x0000000000000000, 0x0000000000000000,
     0x0000000000000000],
    [0x844461051bca39c9, 0x0000000000000000, 0x0000000000000000, 0x0000000000000000, 0x0000000000000000,
     0x0000000000000000, 0x0000000000000000, 0x0000000000000000, 0x0000000000000000, 0x0000000000000000,
     0x0000000000000000, 0x0000000000000000, 0x0000000000000000, 0x0000000000000000, 0x0000000000000000,
     0x0000000000000000],
    [0xf3411581f6617d68, 0x0000000000000000, 0x0000000000000000, 0x0000000000000000, 0x0000000000000000,
     0x0000000000000000, 0x0000000000000000, 0x0000000000000000, 0x0000000000000000, 0x0000000000000000,
     0x0000000000000000, 0x0000000000000000, 0x0000000000000000, 0x0000000000000000, 0x0000000000000000,
     0x0000000000000000],
    [0xf7fd50646782b533, 0x0000000000000000, 0x0000000000000000, 0x0000000000000000, 0x0000000000000000,
     0x0000000000000000, 0x0000000000000000, 0x0000000000000000, 0x0000000000000000, 0x0000000000000000,
     0x0000000000000000, 0x0000000000000000, 0x0000000000000000, 0x0000000000000000, 0x0000000000000000,
     0x0000000000000000],
    [0x6ca664253c18fb48, 0x0000000000000000, 0x0000000000000000, 0x0000000000000000, 0x0000000000000000,
     0x0000000000000000, 0x0000000000000000, 0x0000000000000000, 0x0000000000000000, 0x0000000000000000,
     0x0000000000000000, 0x0000000000000000, 0x0000000000000000, 0x0000000000000000, 0x0000000000000000,
     0x0000000000000000],
    [0x2d2fcdec0886a08f, 0x0000000000000000, 0x0000000000000000, 0x0000000000000000, 0x0000000000000000,
     0x0000000000000000, 0x0000000000000000, 0x0000000000000000, 0x0000000000000000, 0x0000000000000000,
     0x0000000000000000, 0x0000000000000000, 0x0000000000000000, 0x0000000000000000, 0x0000000000000000,
     0x0000000000000000],
    [0x29da00dd799b575e, 0x0000000000000000, 0x0000000000000000, 0x0000000000000000, 0x0000000000000000,
     0x0000000000000000, 0x0000000000000000, 0x0000000000000000, 0x0000000000000000, 0x0000000000000000,
     0x0000000000000000, 0x0000000000000000, 0x0000000000000000, 0x0000000000000000, 0x0000000000000000,
     0x0000000000000000]]"

definition GOLDILOCKS_RC16_4 :: "nat list list" where [table_simps]:
  "GOLDILOCKS_RC16_4 = [
    [0x47d966cc3b6e1e93, 0x0000000000000000, 0x0000000000000000, 0x0000000000000000, 0x0000000000000000,
     0x0000000000000000, 0x0000000000000000, 0x0000000000000000, 0x0000000000000000, 0x0000000000000000,
     0x0000000000000000, 0x0000000000000000, 0x0000000000000000, 0x0000000000000000, 0x0000000000000000,
     0x0000000000000000],
    [0xde884e9a17ced59e, 0x0000000000000000, 0x0000000000000000, 0x0000000000000000, 0x0000000000000000,
     0x0000000000000000, 0x0000000000000000, 0x0000000000000000, 0x0000000000000000, 0x0000000000000000,
     0x0000000000000000, 0x0000000000000000, 0x0000000000000000, 0x0000000000000000, 0x0000000000000000,
     0x0000000000000000],
    [0xdacf46dc1c31a045, 0x5d2e3c121eb387f2, 0x51f8b0658b124499, 0x1e7dbd1daa72167d, 0x8275015a25c55b88,
     0xe8521c24ac7a70b3, 0x6521d121c40b3f67, 0xac12de797de135b0, 0xafa28ead79f6ed6a, 0x685174a7a8d26f0b,
     0xeff92a08d35d9874, 0x3058734b76dd123a, 0xfa55dcfba429f79c, 0x559294d4324c7728, 0x7a770f53012dc178,
     0xedd8f7c408f3883b],
    [0x39b533cf8d795fa5, 0x160ef9de243a8c0a, 0x431d52da6215fe3f, 0x54c51a2a2ef6d528, 0x9b13892b46ff9d16,
     0x263c46fcee210289, 0xb738c96d25aabdc4, 0x5c33a5203996d38f, 0x2626496e7c98d8dd, 0xc669e0a52785903a,
     0xaecde726c8ae1f47, 0x039343ef3a81e999, 0x2615ceaf044a54f9, 0x7e41e834662b66e1, 0x4ca5fd4895335783,
     0x64b334d02916f2b0],
    [0x87268837389a6981, 0x034b75bcb20a6274, 0x58e658296cc2cd6e, 0xe2d0f759acc31df4, 0x81a652e435093e20,
     0x0b72b6e0172eaf47, 0x4aec43cec577d66d, 0xde78365b028a84e6, 0x444e19569adc0ee4, 0x942b2451fa40d1da,
     0xe24506623ea5bd6c, 0x082854bf2ef7c743, 0x69dbbc566f59d62e, 0x248c38d02a7b5cb2, 0x4f4e8f8c09d15edb,
     0xd96682f188d310cf],
    [0x6f9a25d56818b54c, 0xb6cefed606546cd9, 0x5bc07523da38a67b, 0x7df5a3c35b8111cf, 0xaaa2cc5d4db34bb0,
     0x9e673ff22a4653f8, 0xbd8b278d60739c62, 0xe10d20f6925b8815, 0xf6c87b91dd4da2bf, 0xfed623e2f71b6f1a,
     0xa0f02fa52a94d0d3, 0xbb5794711b39fa16, 0xd3b94fba9d005c7f, 0x15a26e89fad946c9, 0xf3cb87db8a67cf49,
     0x400d2bf56aa2a577]]"

definition GOLDILOCKS_RC16 :: "nat list list" where [table_simps]:
  "GOLDILOCKS_RC16 =
     GOLDILOCKS_RC16_1 @ GOLDILOCKS_RC16_2 @ GOLDILOCKS_RC16_3 @ GOLDILOCKS_RC16_4"

section \<open>Goldilocks, width 20\<close>

definition GOLDILOCKS_MAT_DIAG20_M_1 :: "nat list" where [table_simps]:
  "GOLDILOCKS_MAT_DIAG20_M_1 =
    [0x95c381fda3b1fa57, 0xf36fe9eb1288f42c, 0x89f5dcdfef277944, 0x106f22eadeb3e2d2, 0x684e31a2530e5111,
     0x27435c5d89fd148e, 0x3ebed31c414dbf17, 0xfd45b0b2d294e3cc, 0x48c904473a7f6dbf, 0xe0d1b67809295b4d,
     0xddd1941e9d199dcb, 0x8cfe534eeb742219, 0xa6e5261d9e3b8524, 0x6897ee5ed0f82c1b, 0x0e7dcd0739ee5f78,
     0x493253f3d0d32363, 0xbb2737f5845f05c0, 0xa187e810b06ad903, 0xb635b995936c4918, 0x0b3694a940bd2394]"

definition GOLDILOCKS_MAT_INTERNAL20_1 :: "nat list list" where [table_simps]:
  "GOLDILOCKS_MAT_INTERNAL20_1 = [
    [0x95c381fda3b1fa58, 0x0000000000000001, 0x0000000000000001, 0x0000000000000001, 0x0000000000000001,
     0x0000000000000001, 0x0000000000000001, 0x0000000000000001, 0x0000000000000001, 0x0000000000000001,
     0x0000000000000001, 0x0000000000000001, 0x0000000000000001, 0x0000000000000001, 0x0000000000000001,
     0x0000000000000001, 0x0000000000000001, 0x0000000000000001, 0x0000000000000001, 0x0000000000000001],
    [0x0000000000000001, 0xf36fe9eb1288f42d, 0x0000000000000001, 0x0000000000000001, 0x0000000000000001,
     0x0000000000000001, 0x0000000000000001, 0x0000000000000001, 0x0000000000000001, 0x0000000000000001,
     0x0000000000000001, 0x0000000000000001, 0x0000000000000001, 0x0000000000000001, 0x0000000000000001,
     0x0000000000000001, 0x0000000000000001, 0x0000000000000001, 0x0000000000000001, 0x0000000000000001],
    [0x0000000000000001, 0x0000000000000001, 0x89f5dcdfef277945, 0x0000000000000001, 0x0000000000000001,
     0x0000000000000001, 0x0000000000000001, 0x0000000000000001, 0x0000000000000001, 0x0000000000000001,
     0x0000000000000001, 0x0000000000000001, 0x0000000000000001, 0x0000000000000001, 0x0000000000000001,
     0x0000000000000001, 0x0000000000000001, 0x0000000000000001, 0x0000000000000001, 0x0000000000000001],
    [0x0000000000000001, 0x0000000000000001, 0x0000000000000001, 0x106f22eadeb3e2d3, 0x0000000000000001,
     0x0000000000000001, 0x0000000000000001, 0x0000000000000001, 0x0000000000000001, 0x0000000000000001,
     0x0000000000000001, 0x0000000000000001, 0x0000000000000001, 0x0000000000000001, 0x0000000000000001,
     0x0000000000000001, 0x0000000000000001, 0x0000000000000001, 0x0000000000000001, 0x0000000000000001],
    [0x0000000000000001, 0x0000000000000001, 0x0000000000000001, 0x0000000000000001, 0x684e31a2530e5112,
     0x0000000000000001, 0x0000000000000001, 0x0000000000000001, 0x0000000000000001, 0x0000000000000001,
     0x0000000000000001, 0x0000000000000001, 0x0000000000000001, 0x0000000000000001, 0x0000000000000001,
     0x0000000000000001, 0x0000000000000001, 0x0000000000000001, 0x0000000000000001, 0x0000000000000001],
    [0x0000000000000001, 0x0000000000000001, 0x0000000000000001, 0x0000000000000001, 0x0000000000000001,
     0x27435c5d89fd148f, 0x0000000000000001, 0x0000000000000001, 0x0000000000000001, 0x0000000000000001,
     0x0000000000000001, 0x0000000000000001, 0x0000000000000001, 0x0000000000000001, 0x0000000000000001,
     0x0000000000000001, 0x0000000000000001, 0x0000000000000001, 0x0000000000000001, 0x0000000000000001]]"

definition GOLDILOCKS_MAT_INTERNAL20_2 :: "nat list list" where [table_simps]:
  "GOLDILOCKS_MAT_INTERNAL20_2 = [
    [0x0000000000000001, 0x0000000000000001, 0x0000000000000001, 0x0000000000000001, 0x0000000000000001,
     0x0000000000000001, 0x3ebed31c414dbf18, 0x0000000000000001, 0x0000000000000001, 0x0000000000000001,
     0x0000000000000001, 0x0000000000000001, 0x0000000000000001, 0x0000000000000001, 0x0000000000000001,
     0x0000000000000001, 0x0000000000000001, 0x0000000000000001, 0x0000000000000001, 0x0000000000000001],
    [0x0000000000000001, 0x0000000000000001, 0x0000000000000001, 0x0000000000000001, 0x0000000000000001,
     0x0000000000000001, 0x0000000000000001, 0xfd45b0b2d294e3cd, 0x0000000000000001, 0x0000000000000001,
     0x0000000000000001, 0x0000000000000001, 0x0000000000000001, 0x0000000000000001, 0x0000000000000001,
     0x0000000000000001, 0x0000000000000001, 0x0000000000000001, 0x0000000000000001, 0x0000000000000001],
    [0x0000000000000001, 0x0000000000000001, 0x0000000000000001, 0x0000000000000001, 0x0000000000000001,
     0x0000000000000001, 0x0000000000000001, 0x0000000000000001, 0x48c904473a7f6dc0, 0x0000000000000001,
     0x0000000000000001, 0x0000000000000001, 0x0000000000000001, 0x0000000000000001, 0x0000000000000001,
     0x0000000000000001, 0x0000000000000001, 0x0000000000000001, 0x0000000000000001, 0x0000000000000001],
    [0x0000000000000001, 0x0000000000000001, 0x0000000000000001, 0x0000000000000001, 0x0000000000000001,
     0x0000000000000001, 0x0000000000000001, 0x0000000000000001, 0x0000000000000001, 0xe0d1b67809295b4e,
     0x0000000000000001, 0x0000000000000001, 0x0000000000000001, 0x0000000000000001, 0x0000000000000001,
     0x0000000000000001, 0x0000000000000001, 0x0000000000000001, 0x0000000000000001, 0x0000000000000001],
    [0x0000000000000001, 0x0000000000000001, 0x0000000000000001, 0x0000000000000001, 0x0000000000000001,
     0x0000000000000001, 0x0000000000000001, 0x0000000000000001, 0x0000000000000001, 0x0000000000000001,
     0xddd1941e9d199dcc, 0x0000000000000001, 0x0000000000000001, 0x0000000000000001, 0x0000000000000001,
     0x0000000000000001, 0x0000000000000001, 0x0000000000000001, 0x0000000000000001, 0x0000000000000001],
    [0x0000000000000001, 0x0000000000000001, 0x0000000000000001, 0x0000000000000001, 0x0000000000000001,
     0x0000000000000001, 0x0000000000000001, 0x0000000000000001, 0x0000000000000001, 0x0000000000000001,
     0x0000000000000001, 0x8cfe534eeb74221a, 0x0000000000000001, 0x0000000000000001, 0x0000000000000001,
     0x0000000000000001, 0x0000000000000001, 0x0000000000000001, 0x0000000000000001, 0x0000000000000001]]"

definition GOLDILOCKS_MAT_INTERNAL20_3 :: "nat list list" where [table_simps]:
  "GOLDILOCKS_MAT_INTERNAL20_3 = [
    [0x0000000000000001, 0x0000000000000001, 0x0000000000000001, 0x0000000000000001, 0x0000000000000001,
     0x0000000000000001, 0x0000000000000001, 0x0000000000000001, 0x0000000000000001, 0x0000000000000001,
     0x0000000000000001, 0x0000000000000001, 0xa6e5261d9e3b8525, 0x0000000000000001, 0x0000000000000001,
     0x0000000000000001, 0x0000000000000001, 0x0000000000000001, 0x0000000000000001, 0x0000000000000001],
    [0x0000000000000001, 0x0000000000000001, 0x0000000000000001, 0x0000000000000001, 0x0000000000000001,
     0x0000000000000001, 0x0000000000000001, 0x0000000000000001, 0x0000000000000001, 0x0000000000000001,
     0x0000000000000001, 0x0000000000000001, 0x0000000000000001, 0x6897ee5ed0f82c1c, 0x0000000000000001,
     0x0000000000000001, 0x0000000000000001, 0x0000000000000001, 0x0000000000000001, 0x0000000000000001],
    [0x0000000000000001, 0x0000000000000001, 0x0000000000000001, 0x0000000000000001, 0x0000000000000001,
     0x0000000000000001, 0x0000000000000001, 0x0000000000000001, 0x0000000000000001, 0x0000000000000001,
     0x0000000000000001, 0x0000000000000001, 0x0000000000000001, 0x0000000000000001, 0x0e7dcd0739ee5f79,
     0x0000000000000001, 0x0000000000000001, 0x0000000000000001, 0x0000000000000001, 0x0000000000000001],
    [0x0000000000000001, 0x0000000000000001, 0x0000000000000001, 0x0000000000000001, 0x0000000000000001,
     0x0000000000000001, 0x0000000000000001, 0x0000000000000001, 0x0000000000000001, 0x0000000000000001,
     0x0000000000000001, 0x0000000000000001, 0x0000000000000001, 0x0000000000000001, 0x0000000000000001,
     0x493253f3d0d32364, 0x0000000000000001, 0x0000000000000001, 0x0000000000000001, 0x0000000000000001],
    [0x0000000000000001, 0x0000000000000001, 0x0000000000000001, 0x0000000000000001, 0x0000000000000001,
     0x0000000000000001, 0x0000000000000001, 0x0000000000000001, 0x0000000000000001, 0x0000000000000001,
     0x0000000000000001, 0x0000000000000001, 0x0000000000000001, 0x0000000000000001, 0x0000000000000001,
     0x0000000000000001, 0xbb2737f5845f05c1, 0x0000000000000001, 0x0000000000000001, 0x0000000000000001],
    [0x0000000000000001, 0x0000000000000001, 0x0000000000000001, 0x0000000000000001, 0x0000000000000001,
     0x0000000000000001, 0x0000000000000001, 0x0000000000000001, 0x0000000000000001, 0x0000000000000001,
     0x0000000000000001, 0x0000000000000001, 0x0000000000000001, 0x0000000000000001, 0x0000000000000001,
     0x0000000000000001, 0x0000000000000001, 0xa187e810b06ad904, 0x0000000000000001, 0x0000000000000001]]"

definition GOLDILOCKS_MAT_INTERNAL20_4 :: "nat list list" where [table_simps]:
  "GOLDILOCKS_MAT_INTERNAL20_4 = [
    [0x0000000000000001, 0x0000000000000001, 0x0000000000000001, 0x0000000000000001, 0x0000000000000001,
     0x0000000000000001, 0x0000000000000001, 0x0000000000000001, 0x0000000000000001, 0x0000000000000001,
     0x0000000000000001, 0x0000000000000001, 0x0000000000000001, 0x0000000000000001, 0x0000000000000001,
     0x0000000000000001, 0x0000000000000001, 0x0000000000000001, 0xb635b995936c4919, 0x0000000000000001],
    [0x0000000000000001, 0x0000000000000001, 0x0000000000000001, 0x0000000000000001, 0x0000000000000001,
     0x0000000000000001, 0x0000000000000001, 0x0000000000000001, 0x0000000000000001, 0x0000000000000001,
     0x0000000000000001, 0x0000000000000001, 0x0000000000000001, 0x0000000000000001, 0x0000000000000001,
     0x0000000000000001, 0x0000000000000001, 0x0000000000000001, 0x0000000000000001, 0x0b3694a940bd2395]]"

definition GOLDILOCKS_MAT_INTERNAL20 :: "nat list list" where [table_simps]:
  "GOLDILOCKS_MAT_INTERNAL20 =
     GOLDILOCKS_MAT_INTERNAL20_1 @ GOLDILOCKS_MAT_INTERNAL20_2 @ GOLDILOCKS_MAT_INTERNAL20_3 @ GOLDILOCKS_MAT_INTERNAL20_4"

definition GOLDILOCKS_RC20_1 :: "nat list list" where [table_simps]:
  "GOLDILOCKS_RC20_1 = [
    [0xf50674557d527f42, 0x8b33e51b9306c9fb, 0x04cfcb30bb344eb3, 0x5ea8bec44640c87d, 0xd84af685a9708e36,
     0x5b33851fa07aeba4, 0xeb7cbc374f3b5ca1, 0xecaaea4a76acdd63, 0x2b1fa14802fdf5ba, 0xabd29defd98c932a,
     0x280febc703c6f6bc, 0x8421653ddb551263, 0xd75332a308377a9a, 0xe45ce859b4936b93, 0xe78d6432dae2a36a,
     0x577b3e8e105daa7c, 0x81b584e5beba6b37, 0x0f68acc5174b4131, 0x9778789f2bdcf224, 0x2168764b99769f7b],
    [0x5a413448ea188080, 0x477f5ced7153ebcb, 0x5fd53ff5d03a419a, 0x1a2c5db9b1d8920f, 0xf72f9208355e32b9,
     0x48b703a56669bb32, 0x7cc279c1c07bc372, 0xd27e3611c012ce04, 0xf16771e825f6e903, 0x78e2f60a6f3be068,
     0x58e163e91557e816, 0x5b73573f7a257c27, 0x0061099de80b8dec, 0x455a75647c9d9667, 0x7098d056e4cf6d14,
     0x31678c815e7b8e0b, 0xe492d70c4a3b9961, 0x3229a663cdb553c1, 0x991dbb8e6bb94f68, 0xae0c1a23ab319d98],
    [0x68caee423f6c1ca8, 0x88d5d56d052133ad, 0x944cb4e601ab885b, 0xad0ad397c02cb6b6, 0x48eb1c25917f47ab,
     0x0b586ca072e551a5, 0x7620eec7fdf7caf2, 0xdc01964b2c304322, 0xdfce38c4e7eeb165, 0xc295f9569e1bb057,
     0xfaa09073be956353, 0x2bcd086ac04a51a8, 0xcebaf7d11c46f141, 0x2d8c6f303321f3db, 0xc6866bec13a24a73,
     0xf94822529997b647, 0x2e7c7fb5dadf4875, 0x7f217e80452ad2fd, 0x960769bf3f80475b, 0x6e474087b9c8ef41],
    [0x7a3c61782d3cdb1e, 0x34f6202a97d34913, 0x384eb863f122f34f, 0x0dd0a16eeef9f245, 0xc7b7a83c63c05ca0,
     0x5a9c01c5b1711fb3, 0x622bd3594411269e, 0x1411eedfa8800f63, 0x63264ba3307daa57, 0x650fcf71ce431a7c,
     0xb391425703d4db0b, 0x2527ee4c34183aaa, 0xbb8d239eb87d1b85, 0x1fee0fb1866e793d, 0xda1a1b59ed24ecbd,
     0xde4e502b21d3a750, 0x0ecfcc5d86a85661, 0xc6743030d6cdfff0, 0x1fdd06ecbc98c107, 0xdf68661118e969b4],
    [0xb4c4646b481ab94b, 0x0000000000000000, 0x0000000000000000, 0x0000000000000000, 0x0000000000000000,
     0x0000000000000000, 0x0000000000000000, 0x0000000000000000, 0x0000000000000000, 0x0000000000000000,
     0x0000000000000000, 0x0000000000000000, 0x0000000000000000, 0x0000000000000000, 0x0000000000000000,
     0x0000000000000000, 0x0000000000000000, 0x0000000000000000, 0x0000000000000000, 0x0000000000000000],
    [0x3a6dd8f34a4b672d, 0x0000000000000000, 0x0000000000000000, 0x0000000000000000, 0x0000000000000000,
     0x0000000000000000, 0x0000000000000000, 0x0000000000000000, 0x0000000000000000, 0x0000000000000000,
     0x0000000000000000, 0x0000000000000000, 0x0000000000000000, 0x0000000000000000, 0x0000000000000000,
     0x0000000000000000, 0x0000000000000000, 0x0000000000000000, 0x0000000000000000, 0x0000000000000000]]"

definition GOLDILOCKS_RC20_2 :: "nat list list" where [table_simps]:
  "GOLDILOCKS_RC20_2 = [
    [0xe4a13a0271f8c398, 0x0000000000000000, 0x0000000000000000, 0x0000000000000000, 0x0000000000000000,
     0x0000000000000000, 0x0000000000000000, 0x0000000000000000, 0x0000000000000000, 0x0000000000000000,
     0x0000000000000000, 0x0000000000000000, 0x0000000000000000, 0x0000000000000000, 0x0000000000000000,
     0x0000000000000000, 0x0000000000000000, 0x0000000000000000, 0x0000000000000000, 0x0000000000000000],
    [0xb8c4d81a0f3f87c6, 0x0000000000000000, 0x0000000000000000, 0x0000000000000000, 0x0000000000000000,
     0x0000000000000000, 0x0000000000000000, 0x0000000000000000, 0x0000000000000000, 0x0000000000000000,
     0x0000000000000000, 0x0000000000000000, 0x0000000000000000, 0x0000000000000000, 0x0000000000000000,
     0x0000000000000000, 0x0000000000000000, 0x0000000000000000, 0x0000000000000000, 0x0000000000000000],
    [0x3bb4717250f0add9, 0x0000000000000000, 0x0000000000000000, 0x0000000000000000, 0x0000000000000000,
     0x0000000000000000, 0x0000000000000000, 0x0000000000000000, 0x0000000000000000, 0x0000000000000000,
     0x0000000000000000, 0x0000000000000000, 0x0000000000000000, 0x0000000000000000, 0x0000000000000000,
     0x0000000000000000, 0x0000000000000000, 0x0000000000000000, 0x0000000000000000, 0x0000000000000000],
    [0x27ad39cf9b261444, 0x0000000000000000, 0x0000000000000000, 0x0000000000000000, 0x0000000000000000,
     0x0000000000000000, 0x0000000000000000, 0x0000000000000000, 0x0000000000000000, 0x0000000000000000,
     0x0000000000000000, 0x0000000000000000, 0x0000000000000000, 0x0000000000000000, 0x0000000000000000,
     0x0000000000000000, 0x0000000000000000, 0x0000000000000000, 0x0000000000000000, 0x0000000000000000],
    [0x153a3fc8b666d830, 0x0000000000000000, 0x0000000000000000, 0x0000000000000000, 0x0000000000000000,
     0x0000000000000000, 0x0000000000000000, 0x0000000000000000, 0x0000000000000000, 0x0000000000000000,
     0x0000000000000000, 0x0000000000000000, 0x0000000000000000, 0x0000000000000000, 0x0000000000000000,
     0x0000000000000000, 0x0000000000000000, 0x0000000000000000, 0x0000000000000000, 0x0000000000000000],
    [0x958023df70e2f9ba, 0x0000000000000000, 0x0000000000000000, 0x0000000000000000, 0x0000000000000000,
     0x0000000000000000, 0x0000000000000000, 0x0000000000000000, 0x0000000000000000, 0x0000000000000000,
     0x0000000000000000, 0x0000000000000000, 0x0000000000000000, 0x0000000000000000, 0x0000000000000000,
     0x0000000000000000, 0x0000000000000000, 0x0000000000000000, 0x0000000000000000, 0x0000000000000000]]"

definition GOLDILOCKS_RC20_3 :: "nat list list" where [table_simps]:
  "GOLDILOCKS_RC20_3 = [
    [0xe5a98af0507e5112, 0x0000000000000000, 0x0000000000000000, 0x0000000000000000, 0x0000000000000000,
     0x0000000000000000, 0x0000000000000000, 0x0000000000000000, 0x0000000000000000, 0x0000000000000000,
     0x0000000000000000, 0x0000000000000000, 0x0000000000000000, 0x0000000000000000, 0x0000000000000000,
     0x0000000000000000, 0x0000000000000000, 0x0000000000000000, 0x0000000000000000, 0x0000000000000000],
    [0xff4c17fffffd4ccb, 0x0000000000000000, 0x0000000000000000, 0x0000000000000000, 0x0000000000000000,
     0x0000000000000000, 0x0000000000000000, 0x0000000000000000, 0x0000000000000000, 0x0000000000000000,
     0x0000000000000000, 0x0000000000000000, 0x0000000000000000, 0x0000000000000000, 0x0000000000000000,
     0x0000000000000000, 0x0000000000000000, 0x0000000000000000, 0x0000000000000000, 0x0000000000000000],
    [0x3f033e0e60932043, 0x0000000000000000, 0x0000000000000000, 0x0000000000000000, 0x0000000000000000,
     0x0000000000000000, 0x0000000000000000, 0x0000000000000000, 0x0000000000000000, 0x0000000000000000,
     0x0000000000000000, 0x0000000000000000, 0x0000000000000000, 0x0000000000000000, 0x0000000000000000,
     0x0000000000000000, 0x0000000000000000, 0x0000000000000000, 0x0000000000000000, 0x0000000000000000],
    [0x79995f1fd8b0ed93, 0x0000000000000000, 0x0000000000000000, 0x0000000000000000, 0x0000000000000000,
     0x0000000000000000, 0x0000000000000000, 0x0000000000000000, 0x0000000000000000, 0x0000000000000000,
     0x0000000000000000, 0x0000000000000000, 0x0000000000000000, 0x0000000000000000, 0x0000000000000000,
     0x0000000000000000, 0x0000000000000000, 0x0000000000000000, 0x0000000000000000, 0x0000000000000000],
    [0x5fccc385058f90de, 0x0000000000000000, 0x0000000000000000, 0x0000000000000000, 0x0000000000000000,
     0x0000000000000000, 0x0000000000000000, 0x0000000000000000, 0x0000000000000000, 0x0000000000000000,
     0x0000000000000000, 0x0000000000000000, 0x0000000000000000, 0x0000000000000000, 0x0000000000000000,
     0x0000000000000000, 0x0000000000000000, 0x0000000000000000, 0x0000000000000000, 0x0000000000000000],
    [0x121495895f0337f2, 0x0000000000000000, 0x0000000000000000, 0x0000000000000000, 0x0000000000000000,
     0x0000000000000000, 0x0000000000000000, 0x0000000000000000, 0x0000000000000000, 0x0000000000000000,
     0x0000000000000000, 0x0000000000000000, 0x0000000000000000, 0x0000000000000000, 0x0000000000000000,
     0x0000000000000000, 0x0000000000000000, 0x0000000000000000, 0x0000000000000000, 0x0000000000000000]]"

definition GOLDILOCKS_RC20_4 :: "nat list list" where [table_simps]:
  "GOLDILOCKS_RC20_4 = [
    [0xea4329ff4a44fc89, 0x0000000000000000, 0x0000000000000000, 0x0000000000000000, 0x0000000000000000,
     0x0000000000000000, 0x0000000000000000, 0x0000000000000000, 0x0000000000000000, 0x0000000000000000,
     0x0000000000000000, 0x0000000000000000, 0x0000000000000000, 0x0000000000000000, 0x0000000000000000,
     0x0000000000000000, 0x0000000000000000, 0x0000000000000000, 0x0000000000000000, 0x0000000000000000],
    [0x9e582ef77f57587a, 0x0000000000000000, 0x0000000000000000, 0x0000000000000000, 0x0000000000000000,
     0x0000000000000000, 0x0000000000000000, 0x0000000000000000, 0x0000000000000000, 0x0000000000000000,
     0x0000000000000000, 0x0000000000000000, 0x0000000000000000, 0x0000000000000000, 0x0000000000000000,
     0x0000000000000000, 0x0000000000000000, 0x0000000000000000, 0x0000000000000000, 0x0000000000000000],
    [0xdd355989ec73626b, 0x0000000000000000, 0x0000000000000000, 0x0000000000000000, 0x0000000000000000,
     0x0000000000000000, 0x0000000000000000, 0x0000000000000000, 0x0000000000000000, 0x0000000000000000,
     0x0000000000000000, 0x0000000000000000, 0x0000000000000000, 0x0000000000000000, 0x0000000000000000,
     0x0000000000000000, 0x0000000000000000, 0x0000000000000000, 0x0000000000000000, 0x0000000000000000],
    [0xe1542c0dcd6602ad, 0x0000000000000000, 0x0000000000000000, 0x0000000000000000, 0x0000000000000000,
     0x0000000000000000, 0x0000000000000000, 0x0000000000000000, 0x0000000000000000, 0x0000000000000000,
     0x0000000000000000, 0x0000000000000000, 0x0000000000000000, 0x0000000000000000, 0x0000000000000000,
     0x0000000000000000, 0x0000000000000000, 0x0000000000000000, 0x0000000000000000, 0x0000000000000000],
    [0x9ce00cbfa5c788b7, 0x0000000000000000, 0x0000000000000000, 0x0000000000000000, 0x0000000000000000,
     0x0000000000000000, 0x0000000000000000, 0x0000000000000000, 0x0000000000000000, 0x0000000000000000,
     0x0000000000000000, 0x0000000000000000, 0x0000000000000000, 0x0000000000000000, 0x0000000000000000,
     0x0000000000000000, 0x0000000000000000, 0x0000000000000000, 0x0000000000000000, 0x0000000000000000],
    [0x5b5e142bd67da0e9, 0x0000000000000000, 0x0000000000000000, 0x0000000000000000, 0x0000000000000000,
     0x0000000000000000, 0x0000000000000000, 0x0000000000000000, 0x0000000000000000, 0x0000000000000000,
     0x0000000000000000, 0x0000000000000000, 0x0000000000000000, 0x0000000000000000, 0x0000000000000000,
     0x0000000000000000, 0x0000000000000000, 0x0000000000000000, 0x0000000000000000, 0x0000000000000000]]"

definition GOLDILOCKS_RC20_5 :: "nat list list" where [table_simps]:
  "GOLDILOCKS_RC20_5 = [
    [0xddae0051d202fd78, 0x0000000000000000, 0x0000000000000000, 0x0000000000000000, 0x0000000000000000,
     0x0000000000000000, 0x0000000000000000, 0x0000000000000000, 0x0000000000000000, 0x0000000000000000,
     0x0000000000000000, 0x0000000000000000, 0x0000000000000000, 0x0000000000000000, 0x0000000000000000,
     0x0000000000000000, 0x0000000000000000, 0x0000000000000000, 0x0000000000000000, 0x0000000000000000],
    [0xe8d5708621548b09, 0x0000000000000000, 0x0000000000000000, 0x0000000000000000, 0x0000000000000000,
     0x0000000000000000, 0x0000000000000000, 0x0000000000000000, 0x0000000000000000, 0x0000000000000000,
     0x0000000000000000, 0x0000000000000000, 0x0000000000000000, 0x0000000000000000, 0x0000000000000000,
     0x0000000000000000, 0x0000000000000000, 0x0000000000000000, 0x0000000000000000, 0x0000000000000000],
    [0x546948156f481f23, 0xb969557898da1c1f, 0xeb2fb3be05e81624, 0x5fd250a0ded7ddfc, 0x7abd52aa764e2a35,
     0xc8d101b1c0a4595e, 0x300cb802ad939c00, 0x16d4a6ac828e4842, 0xd763f9f3377a0d88, 0xb842c1778267fb5b,
     0x7998fca5e0508c18, 0x08980b89d5d95b1e, 0x5fc3c05cb8b2a5b7, 0xe8263579c08b15ed, 0x1c85bc5bdee01834,
     0x496efa05ae9f7e59, 0x26cdfc330f0c6d44, 0x2da38a687f2efd4e, 0x242721a16c92bd03, 0xd150bae390c7f3de],
    [0xa17440c7563bda85, 0x1b52c08ccc72cffc, 0x0853bbd066be2f8c, 0xb140631d97249d92, 0x31ed98f8f4e8bc2a,
     0xb7b4c6534fa6ad28, 0xc31ae7f908b28f94, 0xf2e7d14d33db910d, 0x408cd1daa30e5d85, 0x67635e708b67e913,
     0x0f41e00c44bbcddd, 0x306ec73b35427165, 0xb19cc1e7013a0c83, 0x598948784a1d8dfb, 0xcd0d07046113b3a4,
     0x9f5777a149e7100f, 0x52e16bce7d6ce553, 0x4dfd369bb3a4e49f, 0x6721381077a7facf, 0x84fae431fad2a352],
    [0xb57b0b6da95609a3, 0x1f3487a56048fd5f, 0x6de8f1ff46eb8de7, 0x790ff3c21234db43, 0x0fa75c59f4291147,
     0x41baef249921ddb6, 0x8f3049fb127bec11, 0x5d1239a25594fa4b, 0x011956aca10824ee, 0x25665f341261989b,
     0x7d12eaf643734d3c, 0xeace4b846cd0a06b, 0x6c7157cc1760a5ac, 0xb0e83ddf39a63764, 0xfab9e612681227fb,
     0x0cf7f0d62238655e, 0xc32a0826ca5643bb, 0x4fbd2e4d1bd8f2b0, 0xc6c94a369f4ac8d5, 0x8cf524c8b7774cb2],
    [0x8a8a7159ca118c8c, 0x7020e0efee7c62ed, 0xb82c8f0d0abaacf6, 0xdb1b8170627bcabd, 0x89f751dac47b2e6e,
     0xd5a68b7ad8b8ad75, 0x01c2c6f90a9cb8a9, 0x749f9c0919bff4f3, 0x52713fb5d3f6e8d0, 0x6c246db24bfafbd9,
     0x483e5244b3f8adf0, 0x670755cdb87a4c39, 0xa2bf8de7fd0b4d78, 0x3334c74fce39902b, 0x3885406d5ea81e21,
     0x8dfbd465694a0354, 0xce8f5388e86080d9, 0x89108c704fc3ced7, 0xf4896b0b26d80f23, 0xb4fd29f241f11176]]"

definition GOLDILOCKS_RC20 :: "nat list list" where [table_simps]:
  "GOLDILOCKS_RC20 =
     GOLDILOCKS_RC20_1 @ GOLDILOCKS_RC20_2 @ GOLDILOCKS_RC20_3 @ GOLDILOCKS_RC20_4 @
     GOLDILOCKS_RC20_5"

definition POSEIDON2_GOLDILOCKS_8_PARAMS :: "(goldilocks poseidon2_params, unit) result" where
  "POSEIDON2_GOLDILOCKS_8_PARAMS =
     poseidon2_params_new 8 7 8 22 (map from_hex GOLDILOCKS_MAT_DIAG8_M_1) (map (map from_hex) GOLDILOCKS_MAT_INTERNAL8)
       (map (map from_hex) GOLDILOCKS_RC8)"

lemma POSEIDON2_GOLDILOCKS_8_PARAMS_tables:
  "tables_ok 8 4 22 GOLDILOCKS_MAT_DIAG8_M_1 GOLDILOCKS_MAT_INTERNAL8 GOLDILOCKS_RC8"
  by (simp add: check_tables table_simps)

lemma POSEIDON2_GOLDILOCKS_8_PARAMS_instance: "is_instance POSEIDON2_GOLDILOCKS_8_PARAMS"
  unfolding POSEIDON2_GOLDILOCKS_8_PARAMS_def
  by (rule tables_instance [OF POSEIDON2_GOLDILOCKS_8_PARAMS_tables]) simp_all

definition POSEIDON2_GOLDILOCKS_12_PARAMS :: "(goldilocks poseidon2_params, unit) result" where
  "POSEIDON2_GOLDILOCKS_12_PARAMS =
     poseidon2_params_new 12 7 8 22 (map from_hex GOLDILOCKS_MAT_DIAG12_M_1) (map (map from_hex) GOLDILOCKS_MAT_INTERNAL12)
       (map (map from_hex) GOLDILOCKS_RC12)"

lemma POSEIDON2_GOLDILOCKS_12_PARAMS_tables:
  "tables_ok 12 4 22 GOLDILOCKS_MAT_DIAG12_M_1 GOLDILOCKS_MAT_INTERNAL12 GOLDILOCKS_RC12"
  by (simp add: check_tables table_simps)

lemma POSEIDON2_GOLDILOCKS_12_PARAMS_instance: "is_instance POSEIDON2_GOLDILOCKS_12_PARAMS"
  unfolding POSEIDON2_GOLDILOCKS_12_PARAMS_def
  by (rule tables_instance [OF POSEIDON2_GOLDILOCKS_12_PARAMS_tables]) simp_all

definition POSEIDON2_GOLDILOCKS_16_PARAMS :: "(goldilocks poseidon2_params, unit) result" where
  "POSEIDON2_GOLDILOCKS_16_PARAMS =
     poseidon2_params_new 16 7 8 22 (map from_hex GOLDILOCKS_MAT_DIAG16_M_1) (map (map from_hex) GOLDILOCKS_MAT_INTERNAL16)
       (map (map from_hex) GOLDILOCKS_RC16)"

lemma POSEIDON2_GOLDILOCKS_16_PARAMS_tables:
  "tables_ok 16 4 22 GOLDILOCKS_MAT_DIAG16_M_1 GOLDILOCKS_MAT_INTERNAL16 GOLDILOCKS_RC16"
  by (simp add: check_tables table_simps)

lemma POSEIDON2_GOLDILOCKS_16_PARAMS_instance: "is_instance POSEIDON2_GOLDILOCKS_16_PARAMS"
  unfolding POSEIDON2_GOLDILOCKS_16_PARAMS_def
  by (rule tables_instance [OF POSEIDON2_GOLDILOCKS_16_PARAMS_tables]) simp_all

definition POSEIDON2_GOLDILOCKS_20_PARAMS :: "(goldilocks poseidon2_params, unit) result" where
  "POSEIDON2_GOLDILOCKS_20_PARAMS =
     poseidon2_params_new 20 7 8 22 (map from_hex GOLDILOCKS_MAT_DIAG20_M_1) (map (map from_hex) GOLDILOCKS_MAT_INTERNAL20)
       (map (map from_hex) GOLDILOCKS_RC20)"

lemma POSEIDON2_GOLDILOCKS_20_PARAMS_tables:
  "tables_ok 20 4 22 GOLDILOCKS_MAT_DIAG20_M_1 GOLDILOCKS_MAT_INTERNAL20 GOLDILOCKS_RC20"
  by (simp add: check_tables table_simps)

lemma POSEIDON2_GOLDILOCKS_20_PARAMS_instance: "is_instance POSEIDON2_GOLDILOCKS_20_PARAMS"
  unfolding POSEIDON2_GOLDILOCKS_20_PARAMS_def
  by (rule tables_instance [OF POSEIDON2_GOLDILOCKS_20_PARAMS_tables]) simp_all

end
