(* ===== verification/Poseidon2_Shipped.thy ===== *)
theory Poseidon2_Shipped
  imports Poseidon2_Bn256 Poseidon2_Goldilocks Poseidon2_Babybear Poseidon2_Bls12 Poseidon2_Pasta
begin

text \<open>
  All parameter sets of the \<open>poseidon2\<close> crate together.
\<close>

lemma bn256_instances:
  "is_instance POSEIDON2_BN256_PARAMS_2" "is_instance POSEIDON2_BN256_PARAMS_3" "is_instance POSEIDON2_BN256_PARAMS_4"
  unfolding POSEIDON2_BN256_PARAMS_2_def POSEIDON2_BN256_PARAMS_3_def POSEIDON2_BN256_PARAMS_4_def
    MAT_DIAG2_M_1_def MAT_DIAG3_M_1_def MAT_DIAG4_M_1_def MAT_INTERNAL2_def MAT_INTERNAL3_def MAT_INTERNAL4_def
    RC2_def RC3_def RC4_def
  by (rule tables_instance [where f = 4]; simp add: check_tables RC2_1_def RC2_2_def RC3_1_def RC3_2_def
      RC3_3_def RC4_1_def RC4_2_def RC4_3_def)+

lemmas shipped_params =
  POSEIDON2_GOLDILOCKS_8_PARAMS_instance POSEIDON2_GOLDILOCKS_12_PARAMS_instance
  POSEIDON2_GOLDILOCKS_16_PARAMS_instance POSEIDON2_GOLDILOCKS_20_PARAMS_instance
  POSEIDON2_BABYBEAR_16_PARAMS_instance POSEIDON2_BABYBEAR_24_PARAMS_instance
  POSEIDON2_BLS_2_PARAMS_instance POSEIDON2_BLS_3_PARAMS_instance POSEIDON2_BLS_4_PARAMS_instance
  POSEIDON2_BLS_8_PARAMS_instance POSEIDON2_PALLAS_3_PARAMS_instance POSEIDON2_PALLAS_4_PARAMS_instance
  POSEIDON2_PALLAS_8_PARAMS_instance POSEIDON2_VESTA_PARAMS_instance

text \<open>C14: Each of the 17 parameter sets the crate ships, over six fields and of widths 2 to 24, passes the
  checks of the constructor, and for every state of its width the permutation returns, without a
  panic, what the textbook permutation computes from the stored tables: adding whole rows of
  constants where the code adds only the first lane, and multiplying by the stored internal matrix
  where the code uses its diagonal.\<close>

theorem shipped_instances:
  "list_all is_instance [POSEIDON2_BN256_PARAMS_2, POSEIDON2_BN256_PARAMS_3, POSEIDON2_BN256_PARAMS_4] \<and>
   list_all is_instance [POSEIDON2_GOLDILOCKS_8_PARAMS, POSEIDON2_GOLDILOCKS_12_PARAMS,
     POSEIDON2_GOLDILOCKS_16_PARAMS, POSEIDON2_GOLDILOCKS_20_PARAMS] \<and>
   list_all is_instance [POSEIDON2_BABYBEAR_16_PARAMS, POSEIDON2_BABYBEAR_24_PARAMS] \<and>
   list_all is_instance [POSEIDON2_BLS_2_PARAMS, POSEIDON2_BLS_3_PARAMS, POSEIDON2_BLS_4_PARAMS, POSEIDON2_BLS_8_PARAMS] \<and>
   list_all is_instance [POSEIDON2_PALLAS_3_PARAMS, POSEIDON2_PALLAS_4_PARAMS, POSEIDON2_PALLAS_8_PARAMS] \<and>
   is_instance POSEIDON2_VESTA_PARAMS"
  by (simp add: bn256_instances shipped_params del: bn256_params_Ok)

end
