(* ===== verification/Poseidon2_Regroup.thy ===== *)
theory Poseidon2_Regroup
  imports Poseidon2_Bn256
begin

text \<open>
  The matrix helpers of the \<open>poseidon2\<close> crate (\<open>poseidon2/src/utils.rs\<close>) and the regrouping of the
  round constants of the partial rounds (\<open>equivalent_round_constants\<close> in \<open>poseidon2_params.rs\<close>).
  Matrices are vectors of rows over a commutative ring; \<open>inv_el\<close> is the partial inversion of field
  elements, \<open>dbg\<close> says whether debug assertions are compiled in.  The elimination is shown to solve the
  linear system of the matrix, and the regrouped constants to compute the same rounds.
\<close>

section \<open>Entries\<close>

definition mat_get :: "'a list list \<Rightarrow> nat \<Rightarrow> nat \<Rightarrow> ('a, 'e) result" where
  "mat_get m i j = rbind (unwrap (vec_get m i)) (\<lambda>row. unwrap (vec_get row j))"

definition mat_set :: "'a list list \<Rightarrow> nat \<Rightarrow> nat \<Rightarrow> 'a \<Rightarrow> ('a list list, 'e) result" where
  "mat_set m i j x =
     rbind (unwrap (vec_get m i)) (\<lambda>row. if j < length row then Ok (m[i := row[j := x]]) else Panic)"

section \<open>Inversion\<close>

type_synonym 'a elim_state = "'a list list \<times> 'a list list"

text \<open>One column of subtracting \<open>el\<close> times row \<open>j\<close> from row \<open>row\<close>, below the diagonal.\<close>

definition lower_col :: "'a::comm_ring_1 \<Rightarrow> nat \<Rightarrow> nat \<Rightarrow> nat \<Rightarrow> 'a elim_state \<Rightarrow> ('a elim_state, 'e) result" where
  "lower_col el row j col = (\<lambda>(m, inv).
     rbind (if col < j then mat_set m row col 0
            else rbind (mat_get m j col) (\<lambda>tmp. rbind (mat_get m row col) (\<lambda>x. mat_set m row col (x - tmp * el)))) (\<lambda>m'.
     rbind (if row < col then mat_set inv row col 0
            else rbind (mat_get inv j col) (\<lambda>tmp. rbind (mat_get inv row col) (\<lambda>x. mat_set inv row col (x - tmp * el)))) (\<lambda>inv'.
     Ok (m', inv'))))"

definition lower_elim :: "nat \<Rightarrow> nat \<Rightarrow> nat \<Rightarrow> 'a::comm_ring_1 elim_state \<Rightarrow> ('a elim_state, 'e) result" where
  "lower_elim n row j = (\<lambda>(m, inv).
     rbind (mat_get m row j) (\<lambda>el. rfold (lower_col el row j) [0..<n] (m, inv)))"

definition scale_col :: "'a::comm_ring_1 \<Rightarrow> nat \<Rightarrow> nat \<Rightarrow> 'a elim_state \<Rightarrow> ('a elim_state, 'e) result" where
  "scale_col el_inv row col = (\<lambda>(m, inv).
     if col < row then
       rbind (mat_get inv row col) (\<lambda>x. rbind (mat_set inv row col (x * el_inv)) (\<lambda>inv'. Ok (m, inv')))
     else if col = row then
       rbind (mat_set m row col 1) (\<lambda>m'.
       rbind (mat_get inv row col) (\<lambda>x. rbind (mat_set inv row col (x * el_inv)) (\<lambda>inv'. Ok (m', inv'))))
     else
       rbind (mat_get m row col) (\<lambda>x. rbind (mat_set m row col (x * el_inv)) (\<lambda>m'. Ok (m', inv))))"

definition lower_row ::
  "('a::comm_ring_1 \<Rightarrow> 'a option) \<Rightarrow> nat \<Rightarrow> nat \<Rightarrow> 'a elim_state \<Rightarrow> ('a elim_state, 'e) result" where
  "lower_row inv_el n row s =
     rbind (rfold (lower_elim n row) [0..<row] s) (\<lambda>(m, inv).
     rbind (mat_get m row row) (\<lambda>d.
     rbind (unwrap (inv_el d)) (\<lambda>el_inv. rfold (scale_col el_inv row) [0..<n] (m, inv))))"

definition upper_col :: "bool \<Rightarrow> 'a::comm_ring_1 \<Rightarrow> nat \<Rightarrow> nat \<Rightarrow> nat \<Rightarrow> 'a elim_state \<Rightarrow> ('a elim_state, 'e) result" where
  "upper_col dbg el row j col = (\<lambda>(m, inv).
     rbind (if dbg \<and> j \<le> col then mat_set m row col 0 else Ok m) (\<lambda>m'.
     rbind (mat_get inv j col) (\<lambda>tmp.
     rbind (mat_get inv row col) (\<lambda>x.
     rbind (mat_set inv row col (x - tmp * el)) (\<lambda>inv'. Ok (m', inv'))))))"

definition upper_elim :: "bool \<Rightarrow> nat \<Rightarrow> nat \<Rightarrow> nat \<Rightarrow> 'a::comm_ring_1 elim_state \<Rightarrow> ('a elim_state, 'e) result" where
  "upper_elim dbg n row j = (\<lambda>(m, inv).
     rbind (mat_get m row j) (\<lambda>el. rfold (upper_col dbg el row j) [0..<n] (m, inv)))"

definition upper_row :: "bool \<Rightarrow> nat \<Rightarrow> nat \<Rightarrow> 'a::comm_ring_1 elim_state \<Rightarrow> ('a elim_state, 'e) result" where
  "upper_row dbg n row s = rfold (upper_elim dbg n row) (rev [Suc row..<n]) s"

definition is_identity :: "'a::comm_ring_1 list list \<Rightarrow> bool" where
  "is_identity m =
     list_all (\<lambda>(row, mrow). list_all (\<lambda>(col, v). v = (if row = col then 1 else 0)) (List.enumerate 0 mrow))
       (List.enumerate 0 m)"

definition identity_rows :: "nat \<Rightarrow> 'a::comm_ring_1 list list" where
  "identity_rows n = map (\<lambda>i. (replicate n 0)[i := 1]) [0..<n]"

definition mat_inverse ::
  "bool \<Rightarrow> ('a::comm_ring_1 \<Rightarrow> 'a option) \<Rightarrow> 'a list list \<Rightarrow> ('a list list, 'e) result" where
  "mat_inverse dbg inv_el mat =
     (let n = length mat in
      rbind (unwrap (vec_get mat 0)) (\<lambda>row0.
      if length row0 \<noteq> n then Panic
      else
        rbind (rfold (lower_row inv_el n) [0..<n] (mat, identity_rows n)) (\<lambda>s.
        rbind (rfold (upper_row dbg n) (rev [0..<n]) s) (\<lambda>(m, inv).
        if dbg \<and> \<not> is_identity m then Panic else Ok inv))))"

definition mat_transpose :: "'a::comm_ring_1 list list \<Rightarrow> ('a list list, 'e) result" where
  "mat_transpose mat =
     rbind (unwrap (vec_get mat 0)) (\<lambda>row0.
     let rows = length mat; cols = length row0 in
     rfold (\<lambda>(row, matrow) t.
         rfold (\<lambda>col t. rbind (unwrap (vec_get matrow col)) (\<lambda>x. mat_set t col row x)) [0..<cols] t)
       (List.enumerate 0 mat) (replicate cols (replicate rows 0)))"

section \<open>Loops over the columns of a row\<close>

definition square :: "nat \<Rightarrow> 'a list list \<Rightarrow> bool" where
  "square n m \<longleftrightarrow> length m = n \<and> (\<forall>i < n. length (m ! i) = n)"

lemma squareD [simp]: "square n m \<Longrightarrow> length m = n" "square n m \<Longrightarrow> i < n \<Longrightarrow> length (m ! i) = n"
  by (simp_all add: square_def)

lemma square_update [simp]: "square n m \<Longrightarrow> length r = n \<Longrightarrow> square n (m[i := r])"
  unfolding square_def length_list_update by (metis nth_list_update_eq nth_list_update_neq list_update_beyond not_less)

lemma mat_get_value: "square n m \<Longrightarrow> i < n \<Longrightarrow> j < n \<Longrightarrow> mat_get m i j = Ok (m ! i ! j)"
  by (simp add: mat_get_def)

lemma mat_set_value: "square n m \<Longrightarrow> i < n \<Longrightarrow> j < n \<Longrightarrow> mat_set m i j x = Ok (m[i := (m ! i)[j := x]])"
  by (simp add: mat_set_def)

lemma col_loop:
  assumes sq: "square n m" "square n v" and row: "row < n"
    and step: "\<And>col r s. col < n \<Longrightarrow> length r = n \<Longrightarrow> length s = n \<Longrightarrow> r ! col = m ! row ! col \<Longrightarrow>
      s ! col = v ! row ! col \<Longrightarrow>
      f col (m[row := r], v[row := s]) = Ok (m[row := r[col := g col]], v[row := s[col := h col]])"
  shows "rfold f [0..<n] (m, v) = Ok (m[row := map g [0..<n]], v[row := map h [0..<n]])"
proof -
  have "rfold f [0..<k] (m, v) =
      Ok (m[row := map g [0..<k] @ drop k (m ! row)], v[row := map h [0..<k] @ drop k (v ! row)])" if "k \<le> n" for k
    using that
  proof (induction k)
    case (Suc k)
    let ?r = "map g [0..<k] @ drop k (m ! row)" and ?s = "map h [0..<k] @ drop k (v ! row)"
    have len: "length ?r = n" "length ?s = n" using sq row Suc.prems by simp_all
    have "f k (m[row := ?r], v[row := ?s]) = Ok (m[row := ?r[k := g k]], v[row := ?s[k := h k]])"
      using Suc.prems sq row by (intro step len) (simp_all add: nth_append)
    moreover have "?r[k := g k] = map g [0..<Suc k] @ drop (Suc k) (m ! row)"
      "?s[k := h k] = map h [0..<Suc k] @ drop (Suc k) (v ! row)"
      using Suc.prems sq row by (simp_all add: list_update_append Cons_nth_drop_Suc [symmetric])
    ultimately show ?case using Suc by (simp add: rfold_append)
  qed simp
  from this [of n] sq row show ?thesis by simp
qed

lemma lower_elim_value:
  assumes "square n m" "square n v" and "row < n" and "j < row"
  shows "lower_elim n row j (m, v) = Ok
    (m[row := map (\<lambda>col. if col < j then 0 else m ! row ! col - m ! j ! col * m ! row ! j) [0..<n]],
     v[row := map (\<lambda>col. if row < col then 0 else v ! row ! col - v ! j ! col * m ! row ! j) [0..<n]])"
proof -
  have "rfold (lower_col (m ! row ! j) row j) [0..<n] (m, v) = Ok
    (m[row := map (\<lambda>col. if col < j then 0 else m ! row ! col - m ! j ! col * m ! row ! j) [0..<n]],
     v[row := map (\<lambda>col. if row < col then 0 else v ! row ! col - v ! j ! col * m ! row ! j) [0..<n]])"
    by (rule col_loop) (use assms in \<open>simp_all add: lower_col_def mat_get_value [where n = n] mat_set_value [where n = n]\<close>)
  then show ?thesis using assms by (simp add: lower_elim_def mat_get_value [where n = n])
qed

lemma scale_value:
  assumes "square n m" "square n v" and "row < n"
  shows "rfold (scale_col u row) [0..<n] (m, v) = Ok
    (m[row := map (\<lambda>col. if col < row then m ! row ! col else if col = row then 1 else m ! row ! col * u) [0..<n]],
     v[row := map (\<lambda>col. if row < col then v ! row ! col else v ! row ! col * u) [0..<n]])"
proof (rule col_loop [OF assms])
  fix col r s
  assume h: "col < n" "length r = n" "length s = n" "r ! col = m ! row ! col" "s ! col = v ! row ! col"
  then have same: "r[col := m ! row ! col] = r" "s[col := v ! row ! col] = s" by (metis list_update_id)+
  show "scale_col u row col (m[row := r], v[row := s]) =
    Ok (m[row := r[col := if col < row then m ! row ! col else if col = row then 1 else m ! row ! col * u]],
        v[row := s[col := if row < col then v ! row ! col else v ! row ! col * u]])"
    using h assms by (cases col row rule: linorder_cases)
      (simp_all add: scale_col_def mat_get_value [where n = n] mat_set_value [where n = n] same)
qed

lemma upper_elim_value:
  assumes "square n m" "square n v" and "row < n" and "row < j" and "j < n"
  shows "upper_elim dbg n row j (m, v) = Ok
    (m[row := map (\<lambda>col. if dbg \<and> j \<le> col then 0 else m ! row ! col) [0..<n]],
     v[row := map (\<lambda>col. v ! row ! col - v ! j ! col * m ! row ! j) [0..<n]])"
proof -
  have "rfold (upper_col dbg (m ! row ! j) row j) [0..<n] (m, v) = Ok
    (m[row := map (\<lambda>col. if dbg \<and> j \<le> col then 0 else m ! row ! col) [0..<n]],
     v[row := map (\<lambda>col. v ! row ! col - v ! j ! col * m ! row ! j) [0..<n]])"
  proof (rule col_loop [OF assms(1-3)])
    fix col r s
    assume h: "col < n" "length r = n" "length s = n" "r ! col = m ! row ! col" "s ! col = v ! row ! col"
    then have "r[col := m ! row ! col] = r" by (metis list_update_id)
    then show "upper_col dbg (m ! row ! j) row j col (m[row := r], v[row := s]) =
      Ok (m[row := r[col := if dbg \<and> j \<le> col then 0 else m ! row ! col]],
          v[row := s[col := v ! row ! col - v ! j ! col * m ! row ! j]])"
      using h assms by (simp add: upper_col_def mat_get_value [where n = n] mat_set_value [where n = n])
  qed
  then show ?thesis using assms by (simp add: upper_elim_def mat_get_value [where n = n])
qed

section \<open>Elimination keeps the solutions\<close>

definition dot :: "nat \<Rightarrow> 'a::comm_ring_1 list \<Rightarrow> 'a list \<Rightarrow> 'a" where
  "dot n r x = (\<Sum>k < n. r ! k * x ! k)"

text \<open>\<open>x\<close> and \<open>c\<close> satisfy the equations \<open>m x = v c\<close>.\<close>

definition solves :: "nat \<Rightarrow> 'a::comm_ring_1 list list \<Rightarrow> 'a list list \<Rightarrow> 'a list \<Rightarrow> 'a list \<Rightarrow> bool" where
  "solves n m v x c \<longleftrightarrow> (\<forall>i < n. dot n (m ! i) x = dot n (v ! i) c)"

lemma dot_cong: "(\<And>k. k < n \<Longrightarrow> r ! k = s ! k) \<Longrightarrow> dot n r x = dot n s x"
  by (simp add: dot_def)

lemma dot_sub:
  assumes "\<And>k. k < n \<Longrightarrow> r ! k = p ! k - q ! k * el"
  shows "dot n r x = dot n p x - el * dot n q x"
proof -
  have "dot n r x = (\<Sum>k < n. p ! k * x ! k - el * (q ! k * x ! k))"
    unfolding dot_def by (rule sum.cong) (simp_all add: assms algebra_simps)
  then show ?thesis by (simp add: dot_def sum_subtractf sum_distrib_left)
qed

lemma dot_scale:
  assumes "\<And>k. k < n \<Longrightarrow> r ! k = p ! k * u"
  shows "dot n r x = u * dot n p x"
proof -
  have "dot n r x = (\<Sum>k < n. u * (p ! k * x ! k))"
    unfolding dot_def by (rule sum.cong) (simp_all add: assms algebra_simps)
  then show ?thesis by (simp add: dot_def sum_distrib_left)
qed

lemma solves_sub:
  assumes "row < n" "j < n" "j \<noteq> row" and "length m = n" "length v = n"
    and "\<And>k. k < n \<Longrightarrow> r ! k = m ! row ! k - m ! j ! k * el"
    and "\<And>k. k < n \<Longrightarrow> s ! k = v ! row ! k - v ! j ! k * el"
  shows "solves n (m[row := r]) (v[row := s]) x c \<longleftrightarrow> solves n m v x c"
proof -
  have r: "dot n r x = dot n (m ! row) x - el * dot n (m ! j) x" by (rule dot_sub) (rule assms(6))
  have s: "dot n s c = dot n (v ! row) c - el * dot n (v ! j) c" by (rule dot_sub) (rule assms(7))
  have "(\<forall>i < n. dot n (m[row := r] ! i) x = dot n (v[row := s] ! i) c) \<longleftrightarrow>
      (\<forall>i < n. i \<noteq> row \<longrightarrow> dot n (m ! i) x = dot n (v ! i) c) \<and> dot n r x = dot n s c"
    using assms(1,4,5) by (auto simp: nth_list_update)
  also have "\<dots> \<longleftrightarrow> (\<forall>i < n. i \<noteq> row \<longrightarrow> dot n (m ! i) x = dot n (v ! i) c) \<and>
      dot n (m ! row) x = dot n (v ! row) c"
    using assms(2,3) by (auto simp: r s)
  also have "\<dots> \<longleftrightarrow> (\<forall>i < n. dot n (m ! i) x = dot n (v ! i) c)" using assms(1) by auto
  finally show ?thesis by (simp add: solves_def)
qed

lemma solves_scale:
  assumes "row < n" and "length m = n" "length v = n" and "d * u = 1"
    and "\<And>k. k < n \<Longrightarrow> r ! k = m ! row ! k * u" and "\<And>k. k < n \<Longrightarrow> s ! k = v ! row ! k * u"
  shows "solves n (m[row := r]) (v[row := s]) x c \<longleftrightarrow> solves n m v x c"
proof -
  have r: "dot n r x = u * dot n (m ! row) x" by (rule dot_scale) (rule assms(5))
  have s: "dot n s c = u * dot n (v ! row) c" by (rule dot_scale) (rule assms(6))
  have unit: "u * a = u * b \<longleftrightarrow> a = b" for a b
  proof
    assume "u * a = u * b"
    then have "d * u * a = d * u * b" by (simp add: mult.assoc)
    then show "a = b" by (simp add: assms(4))
  qed simp
  have "(\<forall>i < n. dot n (m[row := r] ! i) x = dot n (v[row := s] ! i) c) \<longleftrightarrow>
      (\<forall>i < n. i \<noteq> row \<longrightarrow> dot n (m ! i) x = dot n (v ! i) c) \<and> dot n r x = dot n s c"
    using assms(1-3) by (auto simp: nth_list_update)
  then show ?thesis using assms(1) by (auto simp: solves_def r s unit)
qed

section \<open>Below the diagonal\<close>

text \<open>Rows above \<open>row\<close> are done, and of \<open>row\<close> itself the first \<open>j\<close> entries are zero.\<close>

definition lower_ok ::
  "nat \<Rightarrow> ('a list \<Rightarrow> 'a list \<Rightarrow> bool) \<Rightarrow> nat \<Rightarrow> nat \<Rightarrow> 'a::comm_ring_1 elim_state \<Rightarrow> bool" where
  "lower_ok n P row j = (\<lambda>(m, v).
     square n m \<and> square n v \<and> (\<forall>x c. solves n m v x c \<longleftrightarrow> P x c) \<and>
     (\<forall>i < row. \<forall>k \<le> i. m ! i ! k = (if k = i then 1 else 0)) \<and> (\<forall>k < j. m ! row ! k = 0) \<and>
     (\<forall>i < n. \<forall>k < n. i < k \<longrightarrow> v ! i ! k = 0))"

lemma lower_elim_ok:
  assumes "lower_ok n P row j s" and "row < n" and "j < row"
  shows "\<exists>s'. lower_elim n row j s = (Ok s' :: (_, 'e) result) \<and> lower_ok n P row (Suc j) s'"
proof -
  obtain m v where s: "s = (m, v)" by (cases s)
  from assms(1) have sq: "square n m" "square n v" and sol: "\<And>x c. solves n m v x c \<longleftrightarrow> P x c"
    and ready: "\<forall>i < row. \<forall>k \<le> i. m ! i ! k = (if k = i then 1 else 0)" and zero: "\<forall>k < j. m ! row ! k = 0"
    and tri: "\<forall>i < n. \<forall>k < n. i < k \<longrightarrow> v ! i ! k = 0"
    by (simp_all add: lower_ok_def s)
  let ?r = "map (\<lambda>col. if col < j then 0 else m ! row ! col - m ! j ! col * m ! row ! j) [0..<n]"
  let ?s = "map (\<lambda>col. if row < col then 0 else v ! row ! col - v ! j ! col * m ! row ! j) [0..<n]"
  have r: "?r ! k = m ! row ! k - m ! j ! k * m ! row ! j" if "k < n" for k
    using that ready zero assms(3) by simp
  have s': "?s ! k = v ! row ! k - v ! j ! k * m ! row ! j" if "k < n" for k
    using that tri assms(2,3) by simp
  have "solves n (m[row := ?r]) (v[row := ?s]) x c \<longleftrightarrow> P x c" for x c
    unfolding sol [symmetric] by (rule solves_sub [where j = j]) (use assms sq r s' in auto)
  moreover have "square n (m[row := ?r])" "square n (v[row := ?s])" using sq by simp_all
  moreover have "\<forall>i < row. \<forall>k \<le> i. m[row := ?r] ! i ! k = (if k = i then 1 else 0)" using ready by simp
  moreover have "\<forall>k < Suc j. m[row := ?r] ! row ! k = 0"
    using assms(2,3) sq ready zero by (auto simp: less_Suc_eq)
  moreover have "v[row := ?s] ! i ! k = 0" if "i < n" "k < n" "i < k" for i k
    using that tri sq by (cases "i = row") simp_all
  ultimately have "lower_ok n P row (Suc j) (m[row := ?r], v[row := ?s])" by (simp add: lower_ok_def)
  then show ?thesis unfolding s lower_elim_value [OF sq assms(2,3)] by blast
qed

lemma lower_elims_ok:
  assumes "lower_ok n P row 0 s" and "row < n" and "j \<le> row"
  shows "\<exists>s'. rfold (lower_elim n row) [0..<j] s = (Ok s' :: (_, 'e) result) \<and> lower_ok n P row j s'"
  using assms(3)
proof (induction j)
  case (Suc j)
  then obtain s1 where "rfold (lower_elim n row) [0..<j] s = (Ok s1 :: (_, 'e) result)" "lower_ok n P row j s1" by auto
  with lower_elim_ok [OF this(2) assms(2)] Suc.prems show ?case by (simp add: rfold_append)
qed (use assms(1) in simp)

lemma lower_row_ok:
  assumes inv: "\<And>x y. inv_el x = Some y \<Longrightarrow> x * y = 1" and ok: "lower_ok n P row 0 s" and row: "row < n"
    and run: "lower_row inv_el n row s = (Ok s' :: (_, 'e) result)"
  shows "lower_ok n P (Suc row) 0 s'"
proof -
  obtain m v where 1: "rfold (lower_elim n row) [0..<row] s = (Ok (m, v) :: (_, 'e) result)" "lower_ok n P row row (m, v)"
    using lower_elims_ok [OF ok row order_refl, where 'e = 'e] by auto
  from 1(2) have sq: "square n m" "square n v" and sol: "\<And>x c. solves n m v x c \<longleftrightarrow> P x c"
    and ready: "\<forall>i < row. \<forall>k \<le> i. m ! i ! k = (if k = i then 1 else 0)" and zero: "\<forall>k < row. m ! row ! k = 0"
    and tri: "\<forall>i < n. \<forall>k < n. i < k \<longrightarrow> v ! i ! k = 0"
    by (simp_all add: lower_ok_def)
  from run 1(1) obtain u where u: "inv_el (m ! row ! row) = Some u"
    and scaled: "rfold (scale_col u row) [0..<n] (m, v) = (Ok s' :: (_, 'e) result)"
    by (auto simp: lower_row_def rbind_eq_Ok_iff unwrap_eq_Ok_iff mat_get_value [OF sq(1) row row])
  let ?r = "map (\<lambda>col. if col < row then m ! row ! col else if col = row then 1 else m ! row ! col * u) [0..<n]"
  let ?s = "map (\<lambda>col. if row < col then v ! row ! col else v ! row ! col * u) [0..<n]"
  have s': "s' = (m[row := ?r], v[row := ?s])" using scaled by (simp add: scale_value [OF sq row])
  have r: "?r ! k = m ! row ! k * u" if "k < n" for k using that zero inv [OF u] by auto
  have v: "?s ! k = v ! row ! k * u" if "k < n" for k using that tri row by simp
  have "solves n (m[row := ?r]) (v[row := ?s]) x c \<longleftrightarrow> P x c" for x c
    unfolding sol [symmetric] by (rule solves_scale [where d = "m ! row ! row"]) (use sq row r v inv [OF u] in auto)
  moreover have "square n (m[row := ?r])" "square n (v[row := ?s])" using sq by simp_all
  moreover have "\<forall>i < Suc row. \<forall>k \<le> i. m[row := ?r] ! i ! k = (if k = i then 1 else 0)"
    using ready zero row sq by (auto simp: less_Suc_eq nth_list_update)
  moreover have "v[row := ?s] ! i ! k = 0" if "i < n" "k < n" "i < k" for i k
    using that tri sq by (cases "i = row") simp_all
  ultimately show ?thesis by (simp add: s' lower_ok_def)
qed

section \<open>Above the diagonal\<close>

text \<open>
  The release build leaves the entries above the diagonal in place; \<open>g\<close> is the matrix a debug build
  holds.  Rows below \<open>row\<close> are rows of the identity in it, and \<open>row\<close> itself is cleared from \<open>j\<close> on.
\<close>

definition upper_ok ::
  "nat \<Rightarrow> ('a list \<Rightarrow> 'a list \<Rightarrow> bool) \<Rightarrow> bool \<Rightarrow> 'a list list \<Rightarrow> nat \<Rightarrow> nat \<Rightarrow> 'a::comm_ring_1 elim_state \<Rightarrow> bool" where
  "upper_ok n P dbg u row j = (\<lambda>(m, v).
     square n m \<and> square n v \<and> (\<forall>i < row. m ! i = u ! i) \<and> (\<forall>k < j. m ! row ! k = u ! row ! k) \<and>
     (\<exists>g. square n g \<and> (dbg \<longrightarrow> m = g) \<and> (\<forall>x c. solves n g v x c \<longleftrightarrow> P x c) \<and>
       (\<forall>i < n. \<forall>k < n. g ! i ! k = (if row < i then (if i = k then 1 else 0)
          else if i = row \<and> j \<le> k \<and> k \<noteq> row then 0 else u ! i ! k))))"

definition unit_upper :: "nat \<Rightarrow> 'a::comm_ring_1 list list \<Rightarrow> bool" where
  "unit_upper n u \<longleftrightarrow> (\<forall>i < n. \<forall>k \<le> i. u ! i ! k = (if k = i then 1 else 0))"

lemma upper_elim_ok:
  assumes "upper_ok n P dbg u row (Suc j) s" and "unit_upper n u" and "row < j" and "j < n"
  shows "\<exists>s'. upper_elim dbg n row j s = (Ok s' :: (_, 'e) result) \<and> upper_ok n P dbg u row j s'"
proof -
  obtain m v where s: "s = (m, v)" by (cases s)
  from assms(1) obtain g where sq: "square n m" "square n v" "square n g" and above: "\<forall>i < row. m ! i = u ! i"
    and left: "\<forall>k < Suc j. m ! row ! k = u ! row ! k" and same: "dbg \<longrightarrow> m = g"
    and sol: "\<And>x c. solves n g v x c \<longleftrightarrow> P x c"
    and g: "\<And>i k. i < n \<Longrightarrow> k < n \<Longrightarrow> g ! i ! k = (if row < i then (if i = k then 1 else 0)
          else if i = row \<and> Suc j \<le> k \<and> k \<noteq> row then 0 else u ! i ! k)"
    unfolding upper_ok_def s by auto
  have row: "row < n" using assms(3,4) by simp
  let ?m = "map (\<lambda>col. if dbg \<and> j \<le> col then 0 else m ! row ! col) [0..<n]"
  let ?g = "map (\<lambda>col. g ! row ! col - g ! j ! col * m ! row ! j) [0..<n]"
  let ?s = "map (\<lambda>col. v ! row ! col - v ! j ! col * m ! row ! j) [0..<n]"
  have el: "m ! row ! j = u ! row ! j" using left by simp
  have gr: "?g ! k = (if j \<le> k \<and> k \<noteq> row then 0 else u ! row ! k)" if "k < n" for k
    using that g [OF row that] g [OF assms(4) that] assms(3) by (cases k j rule: linorder_cases) (auto simp: el)
  have "solves n (g[row := ?g]) (v[row := ?s]) x c \<longleftrightarrow> P x c" for x c
    unfolding sol [symmetric] by (rule solves_sub [where j = j]) (use assms row sq in auto)
  moreover have "square n (m[row := ?m])" "square n (v[row := ?s])" "square n (g[row := ?g])" using sq by simp_all
  moreover have "\<forall>i < row. m[row := ?m] ! i = u ! i" using above by simp
  moreover have "\<forall>k < j. m[row := ?m] ! row ! k = u ! row ! k" using left sq row assms(4) by simp
  moreover have "m[row := ?m] = g[row := ?g]" if dbg
  proof -
    have "?m = ?g"
    proof (rule nth_equalityI)
      fix k
      assume "k < length ?m"
      then have k: "k < n" by simp
      show "?m ! k = ?g ! k"
        using gr [OF k] k that same g [OF row k] assms(3) by auto
    qed simp
    with that same arg_cong2 [of m g ?m ?g "\<lambda>a b. a[row := b]"] show ?thesis by blast
  qed
  moreover have "g[row := ?g] ! i ! k = (if row < i then (if i = k then 1 else 0)
          else if i = row \<and> j \<le> k \<and> k \<noteq> row then 0 else u ! i ! k)" if "i < n" "k < n" for i k
  proof (cases "i = row")
    case True
    then show ?thesis using gr [OF that(2)] sq that by (simp del: nth_map_upt)
  qed (use g [OF that] in simp)
  ultimately have "upper_ok n P dbg u row j (m[row := ?m], v[row := ?s])" unfolding upper_ok_def by blast
  then show ?thesis unfolding s upper_elim_value [OF sq(1,2) row assms(3,4)] by blast
qed

lemma upper_row_ok:
  assumes "upper_ok n P dbg u row n s" and "unit_upper n u" and "row < n"
  shows "\<exists>s'. upper_row dbg n row s = (Ok s' :: (_, 'e) result) \<and> upper_ok n P dbg u row (Suc row) s'"
proof -
  have "\<exists>s'. rfold (upper_elim dbg n row) (rev [Suc row..<j]) s = (Ok s' :: (_, 'e) result) \<and> upper_ok n P dbg u row (Suc row) s'"
    if "Suc row \<le> j" "j \<le> n" "upper_ok n P dbg u row j s" for j s
    using that
  proof (induction j arbitrary: s)
    case (Suc j)
    show ?case
    proof (cases "Suc row \<le> j")
      case True
      with Suc.prems assms(2) upper_elim_ok [where 'e = 'e, of n P dbg u row j s] obtain s1 where
        "upper_elim dbg n row j s = (Ok s1 :: (_, 'e) result)" "upper_ok n P dbg u row j s1" by auto
      with Suc.IH [of s1] Suc.prems True show ?thesis by simp
    qed (use Suc.prems in \<open>simp add: le_Suc_eq\<close>)
  qed simp
  from this [of n s] assms show ?thesis by (simp add: upper_row_def)
qed

lemma upper_next:
  assumes "upper_ok n P dbg u (Suc row) (Suc (Suc row)) s" and "unit_upper n u" and "Suc row < n"
  shows "upper_ok n P dbg u row n s"
proof -
  obtain m v where s: "s = (m, v)" by (cases s)
  from assms(1) obtain g where h: "square n m" "square n v" "square n g" "\<forall>i < Suc row. m ! i = u ! i"
    "dbg \<longrightarrow> m = g" "\<forall>x c. solves n g v x c \<longleftrightarrow> P x c"
    and g: "\<And>i k. i < n \<Longrightarrow> k < n \<Longrightarrow> g ! i ! k = (if Suc row < i then (if i = k then 1 else 0)
          else if i = Suc row \<and> Suc (Suc row) \<le> k \<and> k \<noteq> Suc row then 0 else u ! i ! k)"
    unfolding upper_ok_def s by auto
  have "g ! i ! k = (if row < i then (if i = k then 1 else 0)
          else if i = row \<and> n \<le> k \<and> k \<noteq> row then 0 else u ! i ! k)" if ik: "i < n" "k < n" for i k
  proof (cases "i = Suc row \<and> k \<le> Suc row")
    case True
    then show ?thesis using g [OF ik] assms(2,3) by (auto simp: unit_upper_def)
  qed (use g [OF ik] ik in auto)
  with h show ?thesis unfolding s upper_ok_def by auto
qed

lemma upper_rows_ok:
  assumes "upper_ok n P dbg u row n s" and "unit_upper n u" and "row < n"
  shows "\<exists>s'. rfold (upper_row dbg n) (rev [0..<Suc row]) s = (Ok s' :: (_, 'e) result) \<and> upper_ok n P dbg u 0 1 s'"
  using assms
proof (induction row arbitrary: s)
  case 0
  then show ?case using upper_row_ok [of n P dbg u 0 s] by simp
next
  case (Suc row)
  then obtain s1 where s1: "upper_row dbg n (Suc row) s = (Ok s1 :: (_, 'e) result)"
    "upper_ok n P dbg u (Suc row) (Suc (Suc row)) s1"
    using upper_row_ok [of n P dbg u "Suc row" s] by auto
  have "upper_ok n P dbg u row n s1" by (rule upper_next [OF s1(2) Suc.prems(2,3)])
  from Suc.IH [OF this Suc.prems(2)] Suc.prems(3) s1(1) show ?case by simp
qed

section \<open>The inverse\<close>

lemma identity_rows_nth: "i < n \<Longrightarrow> k < n \<Longrightarrow> identity_rows n ! i ! k = (if i = k then 1 else 0)"
  by (simp add: identity_rows_def nth_list_update)

lemma square_identity [simp]: "square n (identity_rows n)"
  by (simp add: square_def identity_rows_def)

lemma dot_unit: "i < n \<Longrightarrow> (\<And>k. k < n \<Longrightarrow> r ! k = (if i = k then 1 else 0)) \<Longrightarrow> dot n r x = x ! i"
  by (simp add: dot_def if_distrib [of "\<lambda>a. a * _"] cong: if_cong)

lemma is_identity_iff:
  assumes "square n m"
  shows "is_identity m \<longleftrightarrow> (\<forall>i < n. \<forall>k < n. m ! i ! k = (if i = k then 1 else 0))"
  using assms by (auto simp: is_identity_def list_all_length nth_enumerate_eq split_beta)

text \<open>The first pass reduces to a unit upper triangle, or stops at a pivot that has no inverse.\<close>

lemma lower_rows_ok:
  assumes inv: "\<And>x y. inv_el x = Some y \<Longrightarrow> x * y = 1" and sq: "square n A"
    and run: "rfold (lower_row inv_el n) [0..<n] (A, identity_rows n) = (Ok s :: (_, 'e) result)"
  shows "lower_ok n (solves n A (identity_rows n)) n 0 s"
proof -
  have "rfold (lower_row inv_el n) [0..<k] (A, identity_rows n) = (Ok t :: (_, 'e) result) \<Longrightarrow>
      k \<le> n \<Longrightarrow> lower_ok n (solves n A (identity_rows n)) k 0 t" for k t
  proof (induction k arbitrary: t)
    case 0
    then show ?case using sq by (auto simp: lower_ok_def identity_rows_nth)
  next
    case (Suc k)
    then obtain t0 where "rfold (lower_row inv_el n) [0..<k] (A, identity_rows n) = (Ok t0 :: (_, 'e) result)"
      "lower_row inv_el n k t0 = (Ok t :: (_, 'e) result)"
      by (auto simp: rfold_append rbind_eq_Ok_iff)
    with Suc.IH [of t0] Suc.prems(2) show ?case
      by (intro lower_row_ok [where inv_el = inv_el and s = t0]) (use inv in auto)
  qed
  from this [OF run] show ?thesis by simp
qed

lemma lower_then_upper:
  assumes "lower_ok n P n 0 (u, v)"
  shows "unit_upper n u" "0 < n \<Longrightarrow> upper_ok n P dbg u (n - 1) n (u, v)"
  using assms by (auto simp: lower_ok_def unit_upper_def upper_ok_def intro!: exI [of _ u])

text \<open>The second pass always returns, and its assertion holds.\<close>

lemma upper_pass:
  assumes "lower_ok n P n 0 s" and "0 < n"
  shows "\<exists>m v. rfold (upper_row dbg n) (rev [0..<n]) s = (Ok (m, v) :: (_, 'e) result) \<and> square n v \<and>
    (dbg \<longrightarrow> is_identity m) \<and> (\<forall>x c. P x c \<longleftrightarrow> (\<forall>i < n. x ! i = dot n (v ! i) c))"
proof -
  obtain u w where s: "s = (u, w)" by (cases s)
  from upper_rows_ok [OF lower_then_upper(2) [OF assms(1) [unfolded s] assms(2)] lower_then_upper(1) [OF assms(1) [unfolded s]],
      where 'e = 'e] assms(2)
  obtain m v where run: "rfold (upper_row dbg n) (rev [0..<n]) s = (Ok (m, v) :: (_, 'e) result)"
    and ok: "upper_ok n P dbg u 0 1 (m, v)" unfolding s by fastforce
  from ok obtain g where sq: "square n m" "square n v" "square n g" and dbg: "dbg \<longrightarrow> m = g"
    and sol: "\<And>x c. solves n g v x c \<longleftrightarrow> P x c"
    and g: "\<And>i k. i < n \<Longrightarrow> k < n \<Longrightarrow> g ! i ! k = (if 0 < i then (if i = k then 1 else 0)
          else if i = 0 \<and> 1 \<le> k \<and> k \<noteq> 0 then 0 else u ! i ! k)"
    unfolding upper_ok_def by auto
  have unit: "g ! i ! k = (if i = k then 1 else 0)" if "i < n" "k < n" for i k
    using g [OF that] that lower_then_upper(1) [OF assms(1) [unfolded s]] by (cases k) (auto simp: unit_upper_def)
  have "P x c \<longleftrightarrow> (\<forall>i < n. x ! i = dot n (v ! i) c)" for x c
    unfolding sol [symmetric] solves_def using unit by (simp add: dot_unit)
  moreover have "dbg \<longrightarrow> is_identity m" using dbg sq unit by (auto simp: is_identity_iff)
  ultimately show ?thesis using run sq(2) by blast
qed

text \<open>The vector product, and when it is a given vector.\<close>

lemma dot_loop:
  assumes "length r = n" and "length x = n"
  shows "rfold (\<lambda>(col, inp) out. rbind (unwrap (vec_get r col)) (\<lambda>m. Ok (out + m * inp))) (List.enumerate 0 x) 0 =
    Ok (dot n r x)"
proof -
  have "rfold (\<lambda>(col, inp) out. rbind (unwrap (vec_get r col)) (\<lambda>m. Ok (out + m * inp))) (List.enumerate 0 (take k x)) 0 =
      (Ok (dot k r x) :: (_, 'e) result)" if "k \<le> n" for k
    using that
  proof (induction k)
    case (Suc k)
    then have "take (Suc k) x = take k x @ [x ! k]" using assms by (simp add: take_Suc_conv_app_nth)
    with Suc assms show ?case by (simp add: enumerate_append_eq rfold_append dot_def)
  qed (simp add: dot_def)
  from this [of n] assms show ?thesis by simp
qed

lemma mat_vec_mul_value:
  assumes "square n m" and "length x = n"
  shows "mat_vec_mul dbg m x = Ok (map (\<lambda>r. dot n r x) m)"
proof -
  have "length r = n" if "r \<in> set m" for r using that squareD [OF assms(1)] by (metis in_set_conv_nth)
  then have "each (\<lambda>row. rfold (\<lambda>(col, inp) out. rbind (unwrap (vec_get row col)) (\<lambda>m. Ok (out + m * inp)))
      (List.enumerate 0 x) 0) m = Ok (map (\<lambda>r. dot n r x) m)"
    by (intro each_value) (simp add: dot_loop [OF _ assms(2)])
  then show ?thesis using assms by (simp add: mat_vec_mul_def)
qed

lemma mat_vec_mul_eq_iff:
  assumes "square n m" and "length x = n" and "length c = n"
  shows "mat_vec_mul dbg m x = Ok c \<longleftrightarrow> (\<forall>i < n. dot n (m ! i) x = c ! i)"
  using assms by (auto simp: mat_vec_mul_value list_eq_iff_nth_eq)

lemma mat_inverse_solves:
  assumes "\<And>x y. inv_el x = Some y \<Longrightarrow> x * y = 1" and sq: "square n A" and run: "mat_inverse dbg inv_el A = (Ok B :: (_, 'e) result)"
  shows "square n B" "length x = n \<Longrightarrow> length c = n \<Longrightarrow> mat_vec_mul d1 A x = Ok c \<longleftrightarrow> mat_vec_mul d2 B c = Ok x"
proof -
  from run have pos: "0 < n" using sq by (auto simp: mat_inverse_def vec_get_def split: if_splits)
  from run sq have "rbind (rfold (lower_row inv_el n) [0..<n] (A, identity_rows n)) (\<lambda>s.
      rbind (rfold (upper_row dbg n) (rev [0..<n]) s) (\<lambda>(m, inv). if dbg \<and> \<not> is_identity m then Panic else Ok inv)) = (Ok B :: (_, 'e) result)"
    by (auto simp: mat_inverse_def Let_def vec_get_def split: if_splits)
  then obtain s where s: "rfold (lower_row inv_el n) [0..<n] (A, identity_rows n) = (Ok s :: (_, 'e) result)"
    and up: "rbind (rfold (upper_row dbg n) (rev [0..<n]) s) (\<lambda>(m, inv). if dbg \<and> \<not> is_identity m then Panic else Ok inv) = (Ok B :: (_, 'e) result)"
    by (rule rbindE)
  from upper_pass [OF lower_rows_ok [OF assms(1) sq s] pos, where dbg = dbg and 'e = 'e] up
  have B: "square n B" "\<And>x c. solves n A (identity_rows n) x c \<longleftrightarrow> (\<forall>i < n. x ! i = dot n (B ! i) c)"
    by (auto split: if_splits)
  show "square n B" by (rule B(1))
  assume len: "length x = n" "length c = n"
  have "solves n A (identity_rows n) x c \<longleftrightarrow> (\<forall>i < n. dot n (A ! i) x = c ! i)"
    unfolding solves_def by (auto simp: dot_unit identity_rows_nth)
  then show "mat_vec_mul d1 A x = Ok c \<longleftrightarrow> mat_vec_mul d2 B c = Ok x"
    using B len sq by (auto simp: mat_vec_mul_eq_iff)
qed

lemma mat_inverse_debug:
  assumes "\<And>x y. inv_el x = Some y \<Longrightarrow> x * y = 1" and sq: "square n A"
  shows "mat_inverse True inv_el A = (mat_inverse False inv_el A :: (_, 'e) result)"
proof (cases "0 < n")
  case True
  then have A: "vec_get A 0 = Some (A ! 0)" "length (A ! 0) = n" using sq by simp_all
  show ?thesis
  proof (cases "rfold (lower_row inv_el n) [0..<n] (A, identity_rows n) :: (_, 'e) result")
    case (Ok s)
    note low = lower_rows_ok [OF assms(1) sq Ok]
    obtain m v where 1: "rfold (upper_row True n) (rev [0..<n]) s = (Ok (m, v) :: (_, 'e) result)" "is_identity m" "square n v"
      "\<And>x c. solves n A (identity_rows n) x c \<longleftrightarrow> (\<forall>i < n. x ! i = dot n (v ! i) c)"
      using upper_pass [OF low True, of True, where 'e = 'e] by auto
    obtain m' v' where 2: "rfold (upper_row False n) (rev [0..<n]) s = (Ok (m', v') :: (_, 'e) result)" "square n v'"
      "\<And>x c. solves n A (identity_rows n) x c \<longleftrightarrow> (\<forall>i < n. x ! i = dot n (v' ! i) c)"
      using upper_pass [OF low True, of False, where 'e = 'e] by auto
    have same: "(\<forall>i < n. x ! i = dot n (v ! i) c) \<longleftrightarrow> (\<forall>i < n. x ! i = dot n (v' ! i) c)" for x c
      using 1(4) 2(3) by blast
    have entry: "v ! i ! k = v' ! i ! k" if "i < n" "k < n" for i k
    proof -
      define c where "c = (replicate n (0 :: 'a))[k := 1]"
      have unit: "dot n r c = r ! k" for r
        using that by (simp add: c_def dot_def nth_list_update if_distrib [of "\<lambda>a. _ * a"] cong: if_cong)
      have "map (\<lambda>i. v ! i ! k) [0..<n] ! i = v' ! i ! k" if "i < n" for i
        using same [of "map (\<lambda>i. v ! i ! k) [0..<n]" c] that by (simp add: unit)
      then show ?thesis using that by simp
    qed
    have "v = v'"
      using 1(3) 2(2) entry by (intro nth_equalityI) (auto intro!: nth_equalityI)
    with 1 2 Ok A sq show ?thesis by (simp add: mat_inverse_def Let_def)
  qed (use A sq in \<open>simp_all add: mat_inverse_def Let_def\<close>)
next
  case False
  with squareD(1) [OF sq] have "A = []" by simp
  then show ?thesis by (simp add: mat_inverse_def)
qed

text \<open>There is no exchange of rows: a zero pivot ends the run, even in a matrix that has an inverse.\<close>

lemma mat_inverse_no_pivoting:
  "inv_el 0 = None \<Longrightarrow> mat_inverse dbg inv_el [[0, 1], [1, 0]] = Panic"
  by (simp add: mat_inverse_def lower_row_def mat_get_def upt_rec identity_rows_def Let_def)

section \<open>Transposition\<close>

lemma mat_transpose_value:
  assumes "mat \<noteq> []" and "\<And>r. r \<in> set mat \<Longrightarrow> length (hd mat) \<le> length r"
  shows "mat_transpose mat = Ok (map (\<lambda>c. map (\<lambda>r. r ! c) mat) [0..<length (hd mat)])"
proof -
  let ?rows = "length mat" and ?cols = "length (hd mat)"
  let ?t = "\<lambda>k j. map (\<lambda>c. map (\<lambda>r. if r < k \<or> r = k \<and> c < j then mat ! r ! c else 0) [0..<?rows]) [0..<?cols]"
  let ?put = "\<lambda>row matrow col t. rbind (unwrap (vec_get matrow col)) (\<lambda>x. mat_set t col row x)"
  have inner: "rfold (?put k (mat ! k)) [0..<j] (?t k 0) = (Ok (?t k j) :: (_, 'b) result)" if "k < ?rows" "j \<le> ?cols" for k j
    using that(2)
  proof (induction j)
    case (Suc j)
    have "j < length (mat ! k)" using assms(2) [of "mat ! k"] that(1) Suc.prems by simp
    moreover have "(?t k j)[j := (?t k j ! j)[k := mat ! k ! j]] = ?t k (Suc j)"
      using Suc.prems that(1) by (intro nth_equalityI) (auto simp: nth_list_update intro!: nth_equalityI)
    ultimately show ?case using Suc that(1) by (simp add: rfold_append mat_set_def)
  qed simp
  have outer: "rfold (\<lambda>(row, matrow) t. rfold (?put row matrow) [0..<?cols] t) (List.enumerate 0 (take k mat)) (?t 0 0) =
      (Ok (?t k 0) :: (_, 'b) result)" if "k \<le> ?rows" for k
    using that
  proof (induction k)
    case (Suc k)
    have "?t k ?cols = ?t (Suc k) 0" by (auto simp: less_Suc_eq)
    with Suc inner [of k ?cols] show ?case
      by (simp add: take_Suc_conv_app_nth enumerate_append_eq rfold_append)
  qed simp
  have "?t 0 0 = replicate ?cols (replicate ?rows 0)" by (simp add: map_replicate_const)
  moreover have "?t ?rows 0 = map (\<lambda>c. map (\<lambda>r. r ! c) mat) [0..<?cols]"
    by (auto intro!: nth_equalityI)
  ultimately show ?thesis
    using outer [of ?rows] assms(1) by (simp add: mat_transpose_def Let_def hd_conv_nth)
qed

section \<open>Regrouped round constants\<close>

definition regroup_step ::
  "bool \<Rightarrow> 'a::comm_ring_1 list list \<Rightarrow> 'a list list \<Rightarrow> nat \<Rightarrow> nat \<Rightarrow> 'a list list \<times> 'a list \<Rightarrow>
   ('a list list \<times> 'a list, 'e) result" where
  "regroup_step dbg mat_internal_inv round_constants rounds_f_beginning i = (\<lambda>(opt, tmp).
     rbind (mat_vec_mul dbg mat_internal_inv tmp) (\<lambda>inv_cip.
     rbind (unwrap (vec_get inv_cip 0)) (\<lambda>c0.
     if length opt \<le> i + 1 then Panic
     else
       rbind (unwrap (vec_get round_constants (rounds_f_beginning + i))) (\<lambda>rc.
       rbind (rfold (\<lambda>k tmp. rbind (unwrap (vec_get tmp k)) (\<lambda>x. Ok (tmp[k := x + inv_cip ! k]))) [1..<length inv_cip] rc)
         (\<lambda>tmp'. Ok (opt[i + 1 := [c0]], tmp'))))))"

definition equivalent_round_constants ::
  "bool \<Rightarrow> ('a::comm_ring_1 \<Rightarrow> 'a option) \<Rightarrow> 'a list list \<Rightarrow> 'a list list \<Rightarrow> nat \<Rightarrow> nat \<Rightarrow> ('a list list, 'e) result" where
  "equivalent_round_constants dbg inv_el round_constants mat_internal rounds_f_beginning rounds_p =
     rbind (mat_inverse dbg inv_el mat_internal) (\<lambda>mat_internal_inv.
     if rounds_p = 0 then Panic
     else
       let p_end = rounds_f_beginning + rounds_p - 1 in
       rbind (unwrap (vec_get round_constants p_end)) (\<lambda>tmp0.
       rbind (rfold (regroup_step dbg mat_internal_inv round_constants rounds_f_beginning) (rev [0..<rounds_p - 1])
           (replicate (rounds_p + 1) [], tmp0)) (\<lambda>(opt, tmp).
       Ok (opt[0 := tmp, rounds_p := replicate (length tmp) 0]))))"

text \<open>
  The reference: a partial round adds all its constants, applies the s-box \<open>S\<close> to the first lane and
  multiplies by the matrix.  With regrouped constants one vector is added first, and each round adds
  a single constant, after the s-box.
\<close>

definition mat_dot :: "'a::comm_ring_1 list list \<Rightarrow> 'a list \<Rightarrow> 'a list" where
  "mat_dot m x = map (\<lambda>r. dot (length m) r x) m"

definition plain_round :: "('a::comm_ring_1 \<Rightarrow> 'a) \<Rightarrow> 'a list list \<Rightarrow> 'a list \<Rightarrow> 'a list \<Rightarrow> 'a list" where
  "plain_round S m rc x = (let y = add_rc x rc in mat_dot m (y[0 := S (y ! 0)]))"

definition grouped_round :: "('a::comm_ring_1 \<Rightarrow> 'a) \<Rightarrow> 'a list list \<Rightarrow> 'a list \<Rightarrow> 'a list \<Rightarrow> 'a list" where
  "grouped_round S m cs x = mat_dot m (x[0 := S (x ! 0) + cs ! 0])"

lemma length_add_rc [simp]: "length (add_rc x c) = min (length x) (length c)"
  by (simp add: add_rc_def)

lemma add_rc_nth [simp]: "k < length x \<Longrightarrow> k < length c \<Longrightarrow> add_rc x c ! k = x ! k + c ! k"
  by (simp add: add_rc_def)

lemma length_mat_dot [simp]: "length (mat_dot m x) = length m"
  by (simp add: mat_dot_def)

lemma mat_dot_add:
  "length x = length m \<Longrightarrow> length y = length m \<Longrightarrow> add_rc (mat_dot m x) (mat_dot m y) = mat_dot m (add_rc x y)"
  by (intro nth_equalityI) (simp_all add: mat_dot_def dot_def sum.distrib [symmetric] algebra_simps)

lemma add_tail:
  assumes "length c \<le> length rc" and "0 < length c"
  shows "rfold (\<lambda>k tmp. rbind (unwrap (vec_get tmp k)) (\<lambda>x. Ok (tmp[k := x + c ! k]))) [1..<length c] rc =
    Ok (map (\<lambda>k. if 0 < k \<and> k < length c then rc ! k + c ! k else rc ! k) [0..<length rc])"
proof -
  have "rfold (\<lambda>k tmp. rbind (unwrap (vec_get tmp k)) (\<lambda>x. Ok (tmp[k := x + c ! k]))) [1..<Suc j] rc =
      (Ok (map (\<lambda>k. if 0 < k \<and> k < Suc j then rc ! k + c ! k else rc ! k) [0..<length rc]) :: (_, 'b) result)"
    if "Suc j \<le> length c" for j
    using that
  proof (induction j)
    case 0
    have "map (\<lambda>k. if 0 < k \<and> k < Suc 0 then rc ! k + c ! k else rc ! k) [0..<length rc] = rc"
      by (auto intro!: nth_equalityI)
    then show ?case by simp
  next
    case (Suc j)
    then have len: "Suc j < length rc" using assms by simp
    have "[1..<Suc (Suc j)] = [1..<Suc j] @ [Suc j]" by simp
    moreover have "(map (\<lambda>k. if 0 < k \<and> k < Suc j then rc ! k + c ! k else rc ! k) [0..<length rc])[Suc j := rc ! Suc j + c ! Suc j] =
        map (\<lambda>k. if 0 < k \<and> k < Suc (Suc j) then rc ! k + c ! k else rc ! k) [0..<length rc]" (is "?l = ?r")
    proof (rule nth_equalityI)
      show "?l ! k = ?r ! k" if "k < length ?l" for k
        using that len by (cases "k = Suc j") auto
    qed simp
    ultimately show ?case using Suc len by (simp add: rfold_append del: upt_Suc)
  qed
  note loop = this
  obtain j where j: "length c = Suc j" using assms(2) by (cases "length c") auto
  show ?thesis unfolding j by (rule loop) (simp add: j)
qed

text \<open>Moving the constants of a round through the round before it.\<close>

lemma move_constants:
  assumes "length m = n" and "0 < n" and "length x = n" "length rc = n" "length c = n" "length c' = n"
    and "mat_dot m c' = c"
    and "length t = n" "t ! 0 = rc ! 0" "\<And>k. 0 < k \<Longrightarrow> k < n \<Longrightarrow> t ! k = rc ! k + c' ! k"
  shows "add_rc (plain_round S m rc x) c = grouped_round S m [c' ! 0] (add_rc x t)"
proof -
  let ?y = "add_rc x rc"
  have "add_rc (plain_round S m rc x) c = mat_dot m (add_rc (?y[0 := S (?y ! 0)]) c')"
    unfolding assms(7) [symmetric] plain_round_def Let_def using assms by (intro mat_dot_add) simp_all
  also have "add_rc (?y[0 := S (?y ! 0)]) c' = (add_rc x t)[0 := S (add_rc x t ! 0) + [c' ! 0] ! 0]"
  proof (rule nth_equalityI)
    fix k
    assume "k < length (add_rc (?y[0 := S (?y ! 0)]) c')"
    then have "k < n" using assms by simp
    then show "add_rc (?y[0 := S (?y ! 0)]) c' ! k = (add_rc x t)[0 := S (add_rc x t ! 0) + [c' ! 0] ! 0] ! k"
      using assms(2-6,8-10) by (cases k) (simp_all add: add.assoc)
  qed (use assms in simp)
  finally show ?thesis by (simp add: grouped_round_def)
qed

lemma rfold_down:
  assumes "I m s" and "\<And>i s. i < m \<Longrightarrow> I (Suc i) s \<Longrightarrow> \<exists>s'. f i s = Ok s' \<and> I i s'"
  shows "\<exists>s'. rfold f (rev [0..<m]) s = (Ok s' :: (_, 'e) result) \<and> I 0 s'"
  using assms
proof (induction m arbitrary: s)
  case (Suc m)
  from Suc.prems(2) [of m s] Suc.prems(1) obtain s1 where s1: "f m s = Ok s1" "I m s1" by auto
  have "\<exists>s'. rfold f (rev [0..<m]) s1 = (Ok s' :: (_, 'e) result) \<and> I 0 s'"
    by (rule Suc.IH [OF s1(2)]) (rule Suc.prems(2), simp_all)
  with s1(1) show ?case by simp
qed simp

text \<open>The loop state after the rounds from \<open>k\<close> on.\<close>

definition regrouped ::
  "('a::comm_ring_1 \<Rightarrow> 'a) \<Rightarrow> 'a list list \<Rightarrow> 'a list list \<Rightarrow> nat \<Rightarrow> nat \<Rightarrow> nat \<Rightarrow> 'a list list \<times> 'a list \<Rightarrow> bool" where
  "regrouped S m rcs f p k = (\<lambda>(opt, tmp).
     length opt = p + 1 \<and> length tmp = length m \<and>
     (\<forall>x. length x = length m \<longrightarrow>
        fold (plain_round S m) (map (\<lambda>r. rcs ! (f + r)) [k..<p]) x =
        fold (grouped_round S m) (drop (Suc k) (opt[p := replicate (length m) 0])) (add_rc x tmp)))"

lemma length_plain_round [simp]: "length (plain_round S m rc x) = length m"
  by (simp add: plain_round_def Let_def)

lemma regroup_step_ok:
  assumes sq: "square n m" "square n v" and n: "0 < n"
    and inv: "\<And>c c'. length c = n \<Longrightarrow> length c' = n \<Longrightarrow> mat_vec_mul dbg v c = (Ok c' :: ('a list, 'e) result) \<Longrightarrow>
      mat_dot m c' = c"
    and rcs: "f + p \<le> length rcs" "\<And>r. r < p \<Longrightarrow> length (rcs ! (f + r)) = n" and i: "i + 1 < p"
    and ok: "\<And>S :: 'a::comm_ring_1 \<Rightarrow> 'a. regrouped S m rcs f p (Suc i) s"
  shows "\<exists>s'. regroup_step dbg v rcs f i s = (Ok s' :: (_, 'e) result) \<and> (\<forall>S. regrouped S m rcs f p i s')"
proof -
  obtain opt tmp where s: "s = (opt, tmp)" by (cases s)
  from ok [of id] have len: "length opt = p + 1" "length tmp = n" using sq by (simp_all add: s regrouped_def)
  define c where "c = map (\<lambda>r. dot n r tmp) v"
  have c: "mat_vec_mul dbg v tmp = (Ok c :: ('a list, 'e) result)" "length c = n"
    using mat_vec_mul_value [OF sq(2) len(2)] sq(2) by (simp_all add: c_def)
  have undo: "mat_dot m c = tmp" by (rule inv [OF len(2) c(2,1)])
  let ?rc = "rcs ! (f + i)"
  define t where "t = map (\<lambda>k. if 0 < k \<and> k < length c then ?rc ! k + c ! k else ?rc ! k) [0..<length ?rc]"
  have rc: "length ?rc = n" "f + i < length rcs" using rcs i by simp_all
  have t: "length t = n" "t ! 0 = ?rc ! 0" "\<And>k. 0 < k \<Longrightarrow> k < n \<Longrightarrow> t ! k = ?rc ! k + c ! k"
    using n c(2) by (simp_all add: t_def rc)
  have run: "regroup_step dbg v rcs f i s = (Ok (opt[i + 1 := [c ! 0]], t) :: (_, 'e) result)"
    using c(1) c(2) n len i rc add_tail [of c ?rc, where 'b = 'e] by (simp add: regroup_step_def s t_def)
  have "regrouped S m rcs f p i (opt[i + 1 := [c ! 0]], t)" for S
  proof -
    have "fold (plain_round S m) (map (\<lambda>r. rcs ! (f + r)) [i..<p]) x =
        fold (grouped_round S m) (drop (Suc i) (opt[i + 1 := [c ! 0], p := replicate n 0])) (add_rc x t)"
      if x: "length x = n" for x
    proof -
      have "[i..<p] = i # [Suc i..<p]" using i by (simp add: upt_conv_Cons)
      then have "fold (plain_round S m) (map (\<lambda>r. rcs ! (f + r)) [i..<p]) x =
          fold (plain_round S m) (map (\<lambda>r. rcs ! (f + r)) [Suc i..<p]) (plain_round S m ?rc x)" by simp
      also have "\<dots> = fold (grouped_round S m) (drop (Suc (Suc i)) (opt[p := replicate n 0]))
          (add_rc (plain_round S m ?rc x) tmp)"
        using ok [of S] sq by (simp add: s regrouped_def)
      also have "add_rc (plain_round S m ?rc x) tmp = grouped_round S m [c ! 0] (add_rc x t)"
        by (rule move_constants [where n = n and c' = c]) (use sq n x rc len c t undo in auto)
      also have "fold (grouped_round S m) (drop (Suc (Suc i)) (opt[p := replicate n 0])) (grouped_round S m [c ! 0] (add_rc x t)) =
          fold (grouped_round S m) ([c ! 0] # drop (Suc (Suc i)) (opt[p := replicate n 0])) (add_rc x t)" by simp
      also have "[c ! 0] # drop (Suc (Suc i)) (opt[p := replicate n 0]) = drop (Suc i) (opt[i + 1 := [c ! 0], p := replicate n 0])"
        using i len(1) by (subst Cons_nth_drop_Suc [symmetric]) (simp_all add: drop_update_cancel list_update_swap [of "Suc i" p])
      finally show ?thesis .
    qed
    then show ?thesis using len t sq by (simp add: regrouped_def)
  qed
  with run show ?thesis by blast
qed

lemma mat_dot_inverse:
  assumes "\<And>x y. inv_el x = Some y \<Longrightarrow> x * y = 1" and "square n m"
    and "mat_inverse dbg inv_el m = (Ok v :: (_, 'e) result)"
    and "length c = n" "length c' = n" and "mat_vec_mul dbg v c = Ok c'"
  shows "mat_dot m c' = c"
proof -
  have "mat_vec_mul dbg m c' = (Ok c :: (_, 'e) result)"
    using mat_inverse_solves(2) [OF assms(1-3,5,4)] assms(6) by blast
  then show ?thesis
    using mat_vec_mul_value [OF assms(2,5), of dbg, where 'b = 'e] squareD(1) [OF assms(2)] by (simp add: mat_dot_def)
qed

text \<open>C15: Regrouped round constants compute the same rounds: when the internal matrix can be inverted and
  there are partial rounds and constants for them, \<open>equivalent_round_constants\<close> returns one more entry
  than there are partial rounds, and adding its first entry once and a single constant after the s-box
  of each round gives, for every s-box and every state, what the plain partial rounds give.\<close>

theorem regrouped_constants_same_rounds:
  assumes law: "\<And>x y. inv_el x = Some y \<Longrightarrow> x * y = 1" and sq: "square n m"
    and inv: "mat_inverse dbg inv_el m = (Ok v :: ('a::comm_ring_1 list list, 'e) result)"
    and p: "0 < p" and rcs: "f + p \<le> length rcs" "\<And>r. r < p \<Longrightarrow> length (rcs ! (f + r)) = n"
  shows "\<exists>opt. equivalent_round_constants dbg inv_el rcs m f p = (Ok opt :: (_, 'e) result) \<and> length opt = p + 1 \<and>
    (\<forall>S x. length x = n \<longrightarrow>
       fold (grouped_round S m) (tl opt) (add_rc x (hd opt)) =
       fold (plain_round S m) (map (\<lambda>r. rcs ! (f + r)) [0..<p]) x)"
proof -
  from inv sq have n: "0 < n" by (auto simp: mat_inverse_def vec_get_def split: if_splits)
  let ?last = "rcs ! (f + p - 1)"
  have last: "length ?last = n" "f + p - 1 < length rcs" using rcs(1) rcs(2) [of "p - 1"] p by simp_all
  have start: "regrouped S m rcs f p (p - 1) (replicate (p + 1) [], ?last)" for S
  proof -
    have upt: "[p - 1..<p] = [p - 1]" using p by (simp add: upt_conv_Cons)
    have drop: "drop (Suc (p - 1)) ((replicate (p + 1) [])[p := replicate n 0]) = [replicate n 0]"
      using p by (intro nth_equalityI) (simp_all del: replicate.simps add: replicate_add [symmetric])
    show ?thesis
      unfolding regrouped_def prod.case squareD(1) [OF sq(1)] upt drop
      using n p last by (simp add: plain_round_def grouped_round_def Let_def)
  qed
  have step: "\<exists>s'. regroup_step dbg v rcs f i s = (Ok s' :: (_, 'e) result) \<and> (\<forall>S. regrouped S m rcs f p i s')"
    if "i < p - 1" "\<forall>S. regrouped S m rcs f p (Suc i) s" for i s
  proof (rule regroup_step_ok [OF sq mat_inverse_solves(1) [OF law sq inv] n _ rcs])
    show "mat_dot m c' = c" if "length c = n" "length c' = n" "mat_vec_mul dbg v c = (Ok c' :: (_, 'e) result)" for c c'
      by (rule mat_dot_inverse [OF law sq inv that])
  qed (use that in auto)
  obtain opt tmp where run: "rfold (regroup_step dbg v rcs f) (rev [0..<p - 1]) (replicate (p + 1) [], ?last) =
      (Ok (opt, tmp) :: (_, 'e) result)" and ok: "\<And>S. regrouped S m rcs f p 0 (opt, tmp)"
    using rfold_down [where I = "\<lambda>i s. \<forall>S. regrouped S m rcs f p i s" and f = "regroup_step dbg v rcs f" and m = "p - 1"
        and s = "(replicate (p + 1) [], ?last)" and 'e = 'e] start step by auto
  let ?opt = "opt[0 := tmp, p := replicate (length tmp) 0]"
  from ok [of id] have len: "length opt = p + 1" "length tmp = n" using sq by (simp_all add: regrouped_def)
  have "hd ?opt = tmp" using p len by (subst hd_conv_nth) auto
  moreover have "tl ?opt = drop 1 (opt[p := replicate n 0])"
    using p len by (intro nth_equalityI) (auto simp: nth_tl nth_list_update)
  ultimately have "fold (grouped_round S m) (tl ?opt) (add_rc x (hd ?opt)) =
      fold (plain_round S m) (map (\<lambda>r. rcs ! (f + r)) [0..<p]) x" if "length x = n" for S x
    using ok [of S] that sq by (simp add: regrouped_def)
  moreover have "equivalent_round_constants dbg inv_el rcs m f p = (Ok ?opt :: (_, 'e) result)"
    using inv p run last by (simp add: equivalent_round_constants_def Let_def)
  ultimately show ?thesis using len by (intro exI [of _ ?opt]) simp
qed

section \<open>The properties\<close>

text \<open>C37: Matrix inversion solves linear systems: over any field, when the elimination returns for a
  square matrix, \<open>m x = c\<close> holds exactly when \<open>x\<close> is the returned matrix applied to \<open>c\<close>; a debug build
  returns the same as a release build, so none of its assertions on the reduced matrix can fail.\<close>

theorem mat_inverse_solves_systems:
  assumes "\<And>x y. inv_el x = Some y \<Longrightarrow> x * y = 1" and "square n m"
  shows "mat_inverse True inv_el m = (mat_inverse False inv_el m :: ('a::comm_ring_1 list list, 'e) result) \<and>
    (\<forall>v x c. mat_inverse dbg inv_el m = (Ok v :: (_, 'e) result) \<longrightarrow> length x = n \<longrightarrow> length c = n \<longrightarrow>
      (mat_vec_mul dbg m x = (Ok c :: ('a list, 'e) result) \<longleftrightarrow> mat_vec_mul dbg v c = (Ok x :: ('a list, 'e) result)))"
  using mat_inverse_debug [OF assms] mat_inverse_solves(2) [OF assms] by blast

text \<open>The inverses of the two pivots of the internal matrix of width 2.\<close>

definition half :: scalar where
  "half = of_nat 10944121435919637611123202872628637544274182200208017171849102093287904247809"

definition two_fifths :: scalar where
  "two_fifths = of_nat 17510594297471420177797124596205820070838691520332827474958563349260646796494"

definition pivot_inverse :: "scalar \<Rightarrow> scalar option" where
  "pivot_inverse x = (if x = 2 then Some half else if x = 3 - half then Some two_fifths else None)"

lemma pivots: "2 * half = 1" "(3 - half) * two_fifths = 1" "3 - half \<noteq> 2"
proof -
  have two: "2 * half = of_nat (2 * 10944121435919637611123202872628637544274182200208017171849102093287904247809)"
    by (simp only: half_def of_nat_mult of_nat_numeral)
  also have "\<dots> = of_nat 1" unfolding of_nat_eq_scalar_iff by simp
  finally show h: "2 * half = 1" by simp
  have "2 * ((3 - half) * two_fifths) = (6 - 2 * half) * two_fifths" by (simp add: algebra_simps)
  then have five: "2 * ((3 - half) * two_fifths) = 5 * two_fifths" unfolding h by simp
  have "5 * two_fifths = of_nat (5 * 17510594297471420177797124596205820070838691520332827474958563349260646796494)"
    by (simp only: two_fifths_def of_nat_mult of_nat_numeral)
  also have "\<dots> = of_nat 2" unfolding of_nat_eq_scalar_iff by simp
  finally have "5 * two_fifths = 2" by simp
  with five have "2 * ((3 - half) * two_fifths) = 2 * 1" by simp
  then have "half * (2 * ((3 - half) * two_fifths)) = half * (2 * 1)" by (simp only:)
  then have "(2 * half) * ((3 - half) * two_fifths) = 2 * half" by (simp only: mult.assoc mult.left_commute [of half] mult_1_right mult.commute [of half])
  then show "(3 - half) * two_fifths = 1" by (simp only: h mult_1_left)
  have "half \<noteq> 1"
  proof
    assume "half = 1"
    with h have "(of_nat 2 :: scalar) = of_nat 1" by simp
    then show False unfolding of_nat_eq_scalar_iff by simp
  qed
  then show "3 - half \<noteq> 2" by (metis add_diff_cancel_left' diff_add_cancel numeral_plus_one semiring_norm(5) one_add_one add.commute)
qed

lemma pivot_inverse_law: "pivot_inverse x = Some y \<Longrightarrow> x * y = 1"
  by (auto simp: pivot_inverse_def pivots split: if_splits)

lemma internal2: "MAT_INTERNAL2 = [[2, 1], [1, 3]]"
  by (simp add: MAT_INTERNAL2_def from_hex_def)

lemma square_internal2: "square 2 MAT_INTERNAL2"
proof -
  have "length (MAT_INTERNAL2 ! i) = 2" if "i < 2" for i
    using that by (cases i) (auto simp: internal2)
  moreover have "length MAT_INTERNAL2 = 2" by (simp add: internal2)
  ultimately show ?thesis unfolding square_def by blast
qed

lemma identity_2: "identity_rows 2 = [[1, 0], [0, 1]]"
  by (simp add: identity_rows_def upt_small replicate_app_Cons_same eval_nat_numeral)

lemma internal2_lower:
  "rfold (lower_row pivot_inverse 2) [0..<2] (MAT_INTERNAL2, identity_rows 2) =
    (Ok ([[1, half], [0, 1]], [[half, 0], [- (half * two_fifths), two_fifths]]) :: (_, string) result)"
  unfolding internal2 identity_2 upt_small
  by (simp add: lower_row_def lower_elim_def lower_col_def scale_col_def mat_get_def mat_set_def pivot_inverse_def pivots upt_small)

lemma internal2_inverse:
  "\<exists>v. mat_inverse False pivot_inverse MAT_INTERNAL2 = (Ok v :: (_, string) result)"
proof -
  have "\<exists>m v. rfold (upper_row False 2) (rev [0..<2]) ([[1, half], [0, 1]], [[half, 0], [- (half * two_fifths), two_fifths]]) =
      (Ok (m, v) :: (_, string) result)"
    by (simp add: upper_row_def upper_elim_def upper_col_def mat_get_def mat_set_def upt_small upt_conv_Cons)
  moreover have "vec_get MAT_INTERNAL2 0 = Some [2, 1]" "length MAT_INTERNAL2 = 2" by (simp_all add: internal2)
  ultimately show ?thesis using internal2_lower by (auto simp del: upt.simps simp: mat_inverse_def Let_def)
qed

theorem mat_inverse_solves_systems_witness:
  "\<exists>v. mat_inverse True pivot_inverse MAT_INTERNAL2 = (Ok v :: (_, string) result) \<and>
    mat_vec_mul True v [3, 4] = (Ok [1, 1] :: (scalar list, string) result)"
proof -
  obtain v where v: "mat_inverse False pivot_inverse MAT_INTERNAL2 = (Ok v :: (_, string) result)"
    using internal2_inverse by blast
  have "mat_vec_mul True MAT_INTERNAL2 [1, 1] = (Ok [3, 4] :: (scalar list, string) result)"
    by (simp add: mat_vec_mul_def internal2)
  with v mat_inverse_solves_systems [OF pivot_inverse_law square_internal2, where dbg = True and 'e = string] show ?thesis
    by auto
qed

theorem regrouped_constants_same_rounds_witness:
  "\<exists>opt. equivalent_round_constants False pivot_inverse [[1, 2], [3, 4], [5, 6]] MAT_INTERNAL2 1 2 =
      (Ok opt :: (scalar list list, string) result) \<and> length opt = 3 \<and>
    fold (grouped_round (\<lambda>x. x ^ 5) MAT_INTERNAL2) (tl opt) (add_rc [7, 8] (hd opt)) =
      plain_round (\<lambda>x. x ^ 5) MAT_INTERNAL2 [5, 6] (plain_round (\<lambda>x. x ^ 5) MAT_INTERNAL2 [3, 4] [7, 8])"
proof -
  let ?rcs = "[[1, 2], [3, 4], [5, 6]] :: scalar list list"
  obtain v where v: "mat_inverse False pivot_inverse MAT_INTERNAL2 = (Ok v :: (_, string) result)"
    using internal2_inverse by blast
  have rows: "length (?rcs ! (1 + r)) = 2" if "r < 2" for r using that by (cases r) auto
  have "1 + 2 \<le> length ?rcs" by simp
  from regrouped_constants_same_rounds [OF pivot_inverse_law square_internal2 v _ this rows] obtain opt where
    opt: "equivalent_round_constants False pivot_inverse ?rcs MAT_INTERNAL2 1 2 = (Ok opt :: (scalar list list, string) result)"
    "length opt = 2 + 1"
    and same: "\<And>S x. length x = 2 \<Longrightarrow> fold (grouped_round S MAT_INTERNAL2) (tl opt) (add_rc x (hd opt)) =
       fold (plain_round S MAT_INTERNAL2) (map (\<lambda>r. ?rcs ! (1 + r)) [0..<2]) x" by auto
  show ?thesis using opt same [of "[7, 8]" "\<lambda>x. x ^ 5"] by (intro exI [of _ opt]) (simp add: upt_small)
qed

end
