(* ===== verification/Os_World.thy ===== *)
theory Os_World
  imports Enclave_Prelude
begin

text \<open>
  The world of the command-line tools: a file system that shows a node of type \<open>'n\<close> at each name that
  exists, the lines printed and the subprocesses started, and actions on it in sequence.  Paths are
  Unix paths as strings, with the operations of \<open>std::path\<close> the tools use.
\<close>

section \<open>Actions\<close>

record 'n os_world =
  ow_fs :: "string \<Rightarrow> 'n option"
  ow_stdout :: "string list"
  ow_calls :: "(string \<times> string list) list"

type_synonym ('n, 'a) action = "'n os_world \<Rightarrow> ('a, string) result \<times> 'n os_world"

definition act_bind :: "('n, 'a) action \<Rightarrow> ('a \<Rightarrow> ('n, 'b) action) \<Rightarrow> ('n, 'b) action" where
  "act_bind m f w =
     (case m w of (Ok x, w') \<Rightarrow> f x w' | (Err e, w') \<Rightarrow> (Err e, w') | (Panic, w') \<Rightarrow> (Panic, w'))"

definition act_lift :: "((string \<Rightarrow> 'n option) \<Rightarrow> ('a, string) result) \<Rightarrow> ('n, 'a) action" where
  "act_lift f w = (f (ow_fs w), w)"

text \<open>An operation of the system on the file system, the context an error is reported in, and a
  failure that is handled.\<close>

definition act_fs :: "((string \<Rightarrow> 'n option) \<Rightarrow> ('a, string) result \<times> (string \<Rightarrow> 'n option)) \<Rightarrow> ('n, 'a) action" where
  "act_fs f w = (case f (ow_fs w) of (r, fs) \<Rightarrow> (r, w\<lparr>ow_fs := fs\<rparr>))"

definition act_context :: "string \<Rightarrow> ('n, 'a) action \<Rightarrow> ('n, 'a) action" where
  "act_context msg m w = (case m w of (r, w') \<Rightarrow> (map_err (\<lambda>_. msg) r, w'))"

definition act_match :: "('n, 'a) action \<Rightarrow> ('a \<Rightarrow> ('n, 'b) action) \<Rightarrow> (string \<Rightarrow> ('n, 'b) action) \<Rightarrow> ('n, 'b) action" where
  "act_match m f h w =
     (case m w of (Ok x, w') \<Rightarrow> f x w' | (Err e, w') \<Rightarrow> h e w' | (Panic, w') \<Rightarrow> (Panic, w'))"

definition println :: "string \<Rightarrow> ('n, unit) action" where
  "println s w = (Ok (), w\<lparr>ow_stdout := ow_stdout w @ [s]\<rparr>)"

definition path_exists :: "(string \<Rightarrow> 'n option) \<Rightarrow> string \<Rightarrow> bool" where
  "path_exists fs p \<longleftrightarrow> fs p \<noteq> None"

lemma act_lift_apply [simp]: "act_lift f w = (f (ow_fs w), w)"
  by (simp add: act_lift_def)

lemma act_bind_Ok:
  "act_bind m f w = (Ok y, w2) \<longleftrightarrow> (\<exists>x w1. m w = (Ok x, w1) \<and> f x w1 = (Ok y, w2))"
  by (auto simp: act_bind_def split: prod.splits result.splits)

text \<open>Actions that only print.\<close>

definition prints :: "('n, 'a) action \<Rightarrow> bool" where
  "prints m \<longleftrightarrow> (\<forall>w. ow_fs (snd (m w)) = ow_fs w \<and> ow_calls (snd (m w)) = ow_calls w)"

lemma prints_basic [simp]: "prints (act_lift f)" "prints (println s)"
  by (simp_all add: prints_def println_def)

lemma prints_bind: "prints m \<Longrightarrow> (\<And>x. prints (f x)) \<Longrightarrow> prints (act_bind m f)"
  unfolding prints_def act_bind_def by (auto split: prod.splits result.splits) (metis snd_conv)+

lemma printsD: "prints m \<Longrightarrow> m w = (r, w') \<Longrightarrow> ow_fs w' = ow_fs w \<and> ow_calls w' = ow_calls w"
  by (metis prints_def snd_conv)

section \<open>Paths\<close>

text \<open>\<open>Path::components\<close> ignores repeated and trailing slashes and inner dots; on the reversed path
  those at the end are its first characters.\<close>

fun strip_tail :: "string \<Rightarrow> string" where
  "strip_tail (c # cs) =
     (if c = CHR ''/'' then strip_tail cs
      else if c = CHR ''.'' \<and> cs \<noteq> [] \<and> hd cs = CHR ''/'' then strip_tail cs
      else c # cs)"
| "strip_tail [] = []"

definition path_join :: "string \<Rightarrow> string \<Rightarrow> string" where
  "path_join dir f =
     (if f \<noteq> [] \<and> hd f = CHR ''/'' then f
      else if dir = [] \<or> last dir = CHR ''/'' then dir @ f
      else dir @ ''/'' @ f)"

definition file_name :: "string \<Rightarrow> string option" where
  "file_name p =
     (let name = rev (takeWhile (\<lambda>c. c \<noteq> CHR ''/'') (strip_tail (rev p))) in
      if name = [] \<or> name = ''.'' \<or> name = ''..'' then None else Some name)"

text \<open>The name split at its last dot; a name that only starts with a dot has no extension.\<close>

definition split_name :: "string \<Rightarrow> string \<times> string option" where
  "split_name name =
     (let ext = takeWhile (\<lambda>c. c \<noteq> CHR ''.'') (rev name);
          before = drop (length ext + 1) (rev name) in
      if before = [] then (name, None) else (rev before, Some (rev ext)))"

definition path_extension :: "string \<Rightarrow> string option" where
  "path_extension p = Option.bind (file_name p) (\<lambda>name. snd (split_name name))"

definition with_extension :: "string \<Rightarrow> string \<Rightarrow> string" where
  "with_extension p ext =
     (case file_name p of
        None \<Rightarrow> p
      | Some name \<Rightarrow>
          let stripped = rev (strip_tail (rev p)) in
          take (length stripped - length name) stripped @ fst (split_name name) @ ''.'' @ ext)"

text \<open>\<open>PathBuf::pop\<close>.\<close>

definition path_parent :: "string \<Rightarrow> string option" where
  "path_parent p =
     (let s = strip_tail (rev p);
          name = takeWhile (\<lambda>c. c \<noteq> CHR ''/'') s;
          rest = dropWhile (\<lambda>c. c \<noteq> CHR ''/'') s in
      if name = [] then None
      else if rest = [] then Some []
      else
        let r = strip_tail rest in
        Some (if r = [] then ''/'' else rev r))"

definition lower :: "char \<Rightarrow> char" where
  "lower c = (let n = of_char c :: nat in if 65 \<le> n \<and> n \<le> 90 then char_of (n + 32) else c)"

definition components :: "string \<Rightarrow> string list" where
  "components p =
     (let (parts, current) = foldr (\<lambda>c (parts, current).
        if c = CHR ''/'' then (current # parts, []) else (parts, c # current)) p ([], []) in
      filter (\<lambda>s. s \<noteq> []) (current # parts))"

lemma length_strip_tail: "length (strip_tail s) \<le> length s"
  by (induction s rule: strip_tail.induct) auto

lemma path_parent_shorter: "path_parent p = Some q \<Longrightarrow> length q < length p"
proof -
  assume r: "path_parent p = Some q"
  let ?s = "strip_tail (rev p)" and ?P = "\<lambda>c. c \<noteq> CHR ''/''"
  have len: "length (takeWhile ?P ?s) + length (dropWhile ?P ?s) \<le> length p"
    using length_strip_tail [of "rev p"] by (simp add: length_append [symmetric] del: length_append)
  have name: "takeWhile ?P ?s \<noteq> []" using r by (auto simp: path_parent_def Let_def)
  show ?thesis
  proof (cases "dropWhile ?P ?s = []")
    case True
    then have "q = []" using r name by (simp add: path_parent_def Let_def)
    then show ?thesis using name len by (cases "takeWhile ?P ?s") auto
  next
    case False
    then have "q = (if strip_tail (dropWhile ?P ?s) = [] then ''/'' else rev (strip_tail (dropWhile ?P ?s)))"
      using r name False by (auto simp: path_parent_def Let_def dropWhile_eq_Nil_conv split: if_splits)
    moreover have pos: "1 \<le> length (dropWhile ?P ?s)" "1 \<le> length (takeWhile ?P ?s)"
      using False name by (simp_all add: Suc_le_eq del: length_greater_0_conv) (simp_all add: length_greater_0_conv)
    ultimately have "length q \<le> length (dropWhile ?P ?s)" using length_strip_tail [of "dropWhile ?P ?s"] by simp
    with pos len show ?thesis by linarith
  qed
qed

end
