(* ===== verification/Ceremony.thy ===== *)
theory Ceremony
  imports Os_World Prover_Serialization "HOL-Library.Product_Lexorder"
begin

text \<open>
  The trusted-setup tool (\<open>tools/ceremony-cli/src/main.rs\<close>), a wrapper around \<open>snarkjs\<close>.  Every step is an
  action on a world: the metadata the tool can see of the file system, the lines it has printed and
  the subprocesses it has started.  Subprocesses, the random generator, the current directory, glob
  matching and shell quoting belong to the system or to libraries and are the fields of \<open>os_ops\<close>.
  An error is its message.
\<close>

section \<open>Metadata and system operations\<close>

datatype node = File u64 "nat option" | Directory u64

type_synonym file_system = "string \<Rightarrow> node option"

type_synonym ceremony_world = "node os_world"

text \<open>Metadata are the length and, where the system has it, the modification time of a file.  The exit
  status of a process and the error of a failed start are each a flag (success, not found) with its
  text; a process also returns the file system it leaves and the elapsed time.\<close>

record os_ops =
  os_status :: "string \<Rightarrow> string list \<Rightarrow> file_system \<Rightarrow>
    (bool \<times> string, bool \<times> string) result \<times> file_system \<times> string"
  os_random :: "nat \<Rightarrow> (bytes, string) result"
  os_current_dir :: "(string, string) result"
  os_glob :: "file_system \<Rightarrow> string \<Rightarrow> (string list, string) result"
  os_quote :: "string \<Rightarrow> string option"

section \<open>Checks\<close>

definition is_file :: "file_system \<Rightarrow> string \<Rightarrow> bool" where
  "is_file fs p = (case fs p of Some (File _ _) \<Rightarrow> True | _ \<Rightarrow> False)"

definition is_dir :: "file_system \<Rightarrow> string \<Rightarrow> bool" where
  "is_dir fs p = (case fs p of Some (Directory _) \<Rightarrow> True | _ \<Rightarrow> False)"

definition assert_readable_file :: "string \<Rightarrow> string \<Rightarrow> file_system \<Rightarrow> (unit, string) result" where
  "assert_readable_file path label fs =
     (if \<not> path_exists fs path then Err (label @ '' path does not exist: '' @ path)
      else if \<not> is_file fs path then Err (label @ '' path is not a file: '' @ path)
      else Ok ())"

definition assert_dir_exists :: "string \<Rightarrow> file_system \<Rightarrow> (unit, string) result" where
  "assert_dir_exists path fs =
     (if \<not> path_exists fs path then Err (''directory does not exist: '' @ path)
      else if \<not> is_dir fs path then Err (''path is not a directory: '' @ path)
      else Ok ())"

definition assert_output_allowed :: "string \<Rightarrow> bool \<Rightarrow> file_system \<Rightarrow> (unit, string) result" where
  "assert_output_allowed path force fs =
     fail_if (path_exists fs path \<and> \<not> force)
       (''refusing to overwrite existing output `'' @ path @ ''`; pass --force to allow'')"

definition validate_beacon_hash :: "string \<Rightarrow> (unit, string) result" where
  "validate_beacon_hash val =
     (let is_hex = list_all (\<lambda>c. hex_digit c \<noteq> None) val in
      fail_if (\<not> is_hex \<or> length val < 32)
        (''invalid beacon hash. expected hex string of length >= 32, got `'' @ val @ ''`''))"

section \<open>Printing\<close>

text \<open>A \<open>u64\<close> as an \<open>f64\<close>, and the format \<open>{:.2}\<close> of its quotient by a power of two, which is exact:
  both round to nearest, ties to even.\<close>

definition round_half_even :: "nat \<Rightarrow> nat \<Rightarrow> nat" where
  "round_half_even a b =
     (let q = a div b; r = a mod b in if 2 * r < b \<or> (2 * r = b \<and> even q) then q else q + 1)"

fun f64_of_u64 :: "nat \<Rightarrow> nat \<Rightarrow> nat" where
  "f64_of_u64 0 n = n"
| "f64_of_u64 (Suc k) n =
     (if n < 2 ^ 53 * 2 ^ k then f64_of_u64 k n else round_half_even n (2 ^ Suc k) * 2 ^ Suc k)"

definition fixed_2 :: "nat \<Rightarrow> nat \<Rightarrow> string" where
  "fixed_2 n unit_size =
     (let c = round_half_even (100 * f64_of_u64 11 n) unit_size in
      show_nat (c div 100) @ ''.'' @ [digit_char (c mod 100 div 10), digit_char (c mod 10)])"

definition format_bytes_human :: "u64 \<Rightarrow> string" where
  "format_bytes_human byte_count =
     (let n = unat byte_count; KB = 1024; MB = 1024 * KB; GB = 1024 * MB in
      if GB \<le> n then fixed_2 n GB @ '' GB''
      else if MB \<le> n then fixed_2 n MB @ '' MB''
      else if KB \<le> n then fixed_2 n KB @ '' KB''
      else show_nat n @ '' B'')"

definition print_file_size :: "string \<Rightarrow> (node, unit) action" where
  "print_file_size path w =
     (case ow_fs w path of
        None \<Rightarrow> (Err (''failed to read metadata for '' @ path), w)
      | Some n \<Rightarrow>
          let byte_count = (case n of File len _ \<Rightarrow> len | Directory len \<Rightarrow> len) in
          println (''[info] '' @ path @ '': '' @ format_bytes_human byte_count) w)"

fun render_args :: "(string \<Rightarrow> string option) \<Rightarrow> string list \<Rightarrow> bool \<Rightarrow> string list \<Rightarrow> string list" where
  "render_args quote sensitive_flags redacted_next [] = []"
| "render_args quote sensitive_flags True (arg # args) =
     ''[REDACTED]'' # render_args quote sensitive_flags False args"
| "render_args quote sensitive_flags False (arg # args) =
     (case find (\<lambda>f. take (length f + 1) arg = f @ ''='') sensitive_flags of
        Some flag \<Rightarrow> (flag @ ''=[REDACTED]'') # render_args quote sensitive_flags False args
      | None \<Rightarrow>
          if arg \<in> set sensitive_flags then arg # render_args quote sensitive_flags True args
          else (case quote arg of Some q \<Rightarrow> q | None \<Rightarrow> arg) # render_args quote sensitive_flags False args)"

fun join_words :: "string list \<Rightarrow> string" where
  "join_words [] = []"
| "join_words [s] = s"
| "join_words (s # ss) = s @ '' '' @ join_words ss"

definition format_command_with_redactions ::
  "(string \<Rightarrow> string option) \<Rightarrow> string \<Rightarrow> string list \<Rightarrow> string list \<Rightarrow> string" where
  "format_command_with_redactions quote program args sensitive_flags =
     program @ '' '' @ join_words (render_args quote sensitive_flags False args)"

definition format_command :: "(string \<Rightarrow> string option) \<Rightarrow> string \<Rightarrow> string list \<Rightarrow> string" where
  "format_command quote program args = format_command_with_redactions quote program args [''-e'', ''--entropy'']"

definition print_next_steps :: "string \<Rightarrow> string list \<Rightarrow> (node, unit) action" where
  "print_next_steps zkey_path actions w =
     (Ok (), w\<lparr>ow_stdout := ow_stdout w @
        [CHR 0x0A # ''=== Ceremony step complete ==='', ''Produced zkey artifact: '' @ zkey_path, ''Next actions:''] @
        map (\<lambda>a. ''  - '' @ a) actions\<rparr>)"

section \<open>Running commands\<close>

definition process_run :: "os_ops \<Rightarrow> string \<Rightarrow> string list \<Rightarrow> (node, unit) action" where
  "process_run ops program args =
     (let pretty = format_command (os_quote ops) program args in
      act_bind (println (''[snarkjs-wrapper] running: '' @ pretty)) (\<lambda>_ w.
        let (status, fs, elapsed) = os_status ops program args (ow_fs w);
            w1 = w\<lparr>ow_fs := fs, ow_calls := ow_calls w @ [(program, args)]\<rparr> in
        case status of
          Panic \<Rightarrow> (Panic, w1)
        | Err (not_found, e) \<Rightarrow>
            (Err (if not_found
               then ''`'' @ program @ ''` not found in PATH. Install with: npm install -g '' @ program
               else ''failed to start `'' @ pretty @ ''`: '' @ e), w1)
        | Ok (success, code) \<Rightarrow>
            act_bind (println (''[snarkjs-wrapper] completed in '' @ elapsed @ ''s: '' @ pretty)) (\<lambda>_.
              act_lift (\<lambda>_. fail_if (\<not> success) (''command failed with status '' @ code @ '': '' @ pretty))) w1))"

definition generate_entropy_hex :: "os_ops \<Rightarrow> (string, string) result" where
  "generate_entropy_hex ops =
     rbind (map_err (\<lambda>e. ''failed to obtain CSPRNG entropy from OS: '' @ e) (os_random ops 32)) (\<lambda>bs.
     Ok (concat (map hex_byte bs)))"

section \<open>Finding the circuit\<close>

definition resolve_snarkjs_circuit_path :: "string \<Rightarrow> file_system \<Rightarrow> (string, string) result" where
  "resolve_snarkjs_circuit_path path fs =
     rbind (assert_readable_file path ''circuit'' fs) (\<lambda>_.
     if (case path_extension path of Some ext \<Rightarrow> map lower ext = ''circom'' | None \<Rightarrow> False) then
       let r1cs_path = with_extension path ''r1cs'' in
       rbind (assert_readable_file r1cs_path ''compiled circuit (.r1cs)'' fs) (\<lambda>_. Ok r1cs_path)
     else Ok path)"

definition DEFAULT_R1CS_NAME :: string where
  "DEFAULT_R1CS_NAME = ''policy_tx_2_2.r1cs''"

function find_root :: "file_system \<Rightarrow> string \<Rightarrow> (string, string) result" where
  "find_root fs root =
     (if is_file fs (path_join root ''Cargo.lock'') then Ok root
      else case path_parent root of
        None \<Rightarrow> Err ''could not find workspace root (no Cargo.lock in any parent directory)''
      | Some p \<Rightarrow> find_root fs p)"
  by pat_completeness auto
termination
  by (relation "measure (\<lambda>(fs, root). length root)") (auto dest: path_parent_shorter)

declare find_root.simps [simp del]

definition is_release :: "string \<Rightarrow> bool" where
  "is_release p \<longleftrightarrow> ''release'' \<in> set (components p)"

definition mtime :: "file_system \<Rightarrow> string \<Rightarrow> nat" where
  "mtime fs p = (case fs p of Some (File _ (Some t)) \<Rightarrow> t | _ \<Rightarrow> 0)"

text \<open>The comparison orders by profile and then by descending time; \<open>sort_by\<close> is stable.\<close>

definition discover_r1cs :: "os_ops \<Rightarrow> string \<Rightarrow> file_system \<Rightarrow> (string, string) result" where
  "discover_r1cs ops name fs =
     rbind (map_err (\<lambda>_. ''failed to determine current directory'') (os_current_dir ops)) (\<lambda>cwd.
     rbind (find_root fs cwd) (\<lambda>root.
     let pattern = path_join root (''target/*/build/circuits-*/out/circuits/'' @ name) in
     rbind (map_err (\<lambda>_. ''invalid glob pattern: '' @ pattern) (os_glob ops fs pattern)) (\<lambda>entries.
     let candidates = filter (is_file fs) entries in
     if candidates = [] then
       Err (''no compiled circuit `'' @ name @
         ''` found.'' @ [CHR 0x0A] @ ''Run `cargo build -p circuits --release` first, or pass --circuits <path> explicitly.'')
     else
       case sort_key (\<lambda>p. (\<not> is_release p, - int (mtime fs p))) candidates of
         best # _ \<Rightarrow> Ok best
       | [] \<Rightarrow> Err ''unexpected empty candidate list'')))"

definition resolve_circuits :: "os_ops \<Rightarrow> string option \<Rightarrow> (node, string) action" where
  "resolve_circuits ops explicit =
     (case explicit of
        Some path \<Rightarrow> act_lift (resolve_snarkjs_circuit_path path)
      | None \<Rightarrow>
          act_bind (act_lift (discover_r1cs ops DEFAULT_R1CS_NAME)) (\<lambda>discovered.
          act_bind (println (''[info] auto-discovered circuit: '' @ discovered)) (\<lambda>_.
          act_lift (\<lambda>_. Ok discovered))))"

section \<open>The commands\<close>

record ceremony_args =
  ia_circuits :: "string option"
  ia_ptau :: string
  ia_output :: string
  ia_force :: bool

record contribute_args =
  ca_zkey :: string
  ca_circuits :: "string option"
  ca_ptau :: string
  ca_output :: string
  ca_name :: string
  ca_force :: bool

record finalize_args =
  fa_zkey :: string
  fa_beacon_hash :: string
  fa_beacon_power :: u32
  fa_out_dir :: string
  fa_basename :: string
  fa_force :: bool

datatype commands = Init ceremony_args | Contribute contribute_args | Finalize finalize_args

type_synonym runner = "string \<Rightarrow> string list \<Rightarrow> (node, unit) action"

definition verify_cmd :: "string \<Rightarrow> string \<Rightarrow> string \<Rightarrow> string list" where
  "verify_cmd circuit ptau zkey = [''zkey'', ''verify'', circuit, ptau, zkey]"

definition init :: "os_ops \<Rightarrow> runner \<Rightarrow> ceremony_args \<Rightarrow> (node, unit) action" where
  "init ops run args =
     act_bind (act_lift (assert_readable_file (ia_ptau args) ''ptau'')) (\<lambda>_.
     act_bind (act_lift (assert_output_allowed (ia_output args) (ia_force args))) (\<lambda>_.
     act_bind (resolve_circuits ops (ia_circuits args)) (\<lambda>circuit.
     act_bind (run ''snarkjs'' [''groth16'', ''setup'', circuit, ia_ptau args, ia_output args]) (\<lambda>_.
     act_bind (print_file_size (ia_output args)) (\<lambda>_.
     act_bind (run ''snarkjs'' (verify_cmd circuit (ia_ptau args) (ia_output args))) (\<lambda>_.
     print_next_steps (ia_output args)
       [''Share the new .zkey with the first contributor to begin the ceremony.'']))))))"

definition contribute_cmd :: "contribute_args \<Rightarrow> string \<Rightarrow> string list" where
  "contribute_cmd args entropy =
     [''zkey'', ''contribute'', ca_zkey args, ca_output args, ''--name='' @ ca_name args, ''-v'', ''-e='' @ entropy]"

definition contribute :: "os_ops \<Rightarrow> runner \<Rightarrow> contribute_args \<Rightarrow> (node, unit) action" where
  "contribute ops run args =
     act_bind (act_lift (assert_readable_file (ca_zkey args) ''input zkey'')) (\<lambda>_.
     act_bind (act_lift (assert_readable_file (ca_ptau args) ''ptau'')) (\<lambda>_.
     act_bind (resolve_circuits ops (ca_circuits args)) (\<lambda>circuit.
     act_bind (run ''snarkjs'' (verify_cmd circuit (ca_ptau args) (ca_zkey args))) (\<lambda>_.
     act_bind (act_lift (assert_output_allowed (ca_output args) (ca_force args))) (\<lambda>_.
     act_bind (act_lift (\<lambda>_. generate_entropy_hex ops)) (\<lambda>entropy.
     act_bind (run ''snarkjs'' (contribute_cmd args entropy)) (\<lambda>_.
     act_bind (print_file_size (ca_output args)) (\<lambda>_.
     act_bind (run ''snarkjs'' (verify_cmd circuit (ca_ptau args) (ca_output args))) (\<lambda>_.
     print_next_steps (ca_output args)
       [''Send only the contributed .zkey to the ceremony coordinator.'',
        ''Entropy is generated automatically with OS CSPRNG and never printed.''])))))))))"

definition final_zkey :: "finalize_args \<Rightarrow> string" where
  "final_zkey args = path_join (fa_out_dir args) (fa_basename args @ ''_final.zkey'')"

definition vkey_json :: "finalize_args \<Rightarrow> string" where
  "vkey_json args = path_join (fa_out_dir args) (fa_basename args @ ''_verification_key.json'')"

definition finalize :: "runner \<Rightarrow> finalize_args \<Rightarrow> (node, unit) action" where
  "finalize run args =
     act_bind (act_lift (assert_readable_file (fa_zkey args) ''input zkey'')) (\<lambda>_.
     act_bind (act_lift (assert_dir_exists (fa_out_dir args))) (\<lambda>_.
     act_bind (act_lift (assert_output_allowed (final_zkey args) (fa_force args))) (\<lambda>_.
     act_bind (act_lift (assert_output_allowed (vkey_json args) (fa_force args))) (\<lambda>_.
     act_bind (act_lift (\<lambda>_. validate_beacon_hash (fa_beacon_hash args))) (\<lambda>_.
     act_bind (run ''snarkjs'' [''zkey'', ''beacon'', fa_zkey args, final_zkey args, fa_beacon_hash args,
       show_nat (unat (fa_beacon_power args)), ''-n=Final Beacon phase2'']) (\<lambda>_.
     act_bind (print_file_size (final_zkey args)) (\<lambda>_.
     act_bind (run ''snarkjs'' [''zkey'', ''export'', ''verificationkey'', final_zkey args, vkey_json args]) (\<lambda>_.
     print_next_steps (final_zkey args)
       [''Publish the final zkey and verification key for public audit.'',
        ''Record beacon parameters (hash + power) in your ceremony transcript.'']))))))))"

fun execute :: "os_ops \<Rightarrow> runner \<Rightarrow> commands \<Rightarrow> (node, unit) action" where
  "execute ops run (Init args) = init ops run args"
| "execute ops run (Contribute args) = contribute ops run args"
| "execute ops run (Finalize args) = finalize run args"

text \<open>\<open>main\<close>, after the arguments are parsed.\<close>

definition ceremony_main :: "os_ops \<Rightarrow> commands \<Rightarrow> (node, unit) action" where
  "ceremony_main ops cli = execute ops (process_run ops) cli"

end
