(* ===== verification/Ceremony_Props.thy ===== *)
theory Ceremony_Props
  imports Ceremony
begin

text \<open>
  The properties of the trusted-setup tool: the toxic waste of a contribution never reaches its
  output, a contribution that succeeds was verified before and after, and nothing that exists is
  overwritten unless forced.
\<close>

section \<open>Running sequences\<close>

lemma prints_simps [simp]:
  "prints (print_next_steps p as)"
  "prints (print_file_size p)"
  by (auto simp: prints_def println_def print_next_steps_def print_file_size_def Let_def split: option.splits node.splits)

lemma prints_resolve [simp]: "prints (resolve_circuits ops c)"
  unfolding resolve_circuits_def by (auto intro!: prints_bind split: option.splits)

text \<open>Commands that succeed one after the other.\<close>

fun ran :: "os_ops \<Rightarrow> file_system \<Rightarrow> string list list \<Rightarrow> file_system \<Rightarrow> bool" where
  "ran ops fs [] fs' \<longleftrightarrow> fs' = fs"
| "ran ops fs (c # cs) fs' \<longleftrightarrow>
     (\<exists>code elapsed fs1. os_status ops ''snarkjs'' c fs = (Ok (True, code), fs1, elapsed) \<and> ran ops fs1 cs fs')"

lemma process_run_Ok:
  assumes "process_run ops ''snarkjs'' args w = (Ok u, w')"
  shows "ran ops (ow_fs w) [args] (ow_fs w') \<and> ow_calls w' = ow_calls w @ [(''snarkjs'', args)]"
  using assms by (auto simp: process_run_def Let_def act_bind_Ok println_def result_simps
      split: prod.splits result.splits if_splits)

lemma process_run_calls:
  "ow_calls (snd (process_run ops p args w)) = ow_calls w @ [(p, args)] \<and>
   ow_fs (snd (process_run ops p args w)) = fst (snd (os_status ops p args (ow_fs w)))"
  by (auto simp: process_run_def Let_def act_bind_def println_def split: prod.splits result.splits)

section \<open>Entropy\<close>

definition with_random :: "bytes \<Rightarrow> os_ops \<Rightarrow> os_ops" where
  "with_random bs ops = ops\<lparr>os_random := (\<lambda>_. Ok bs)\<rparr>"

text \<open>Two actions that look the same to whoever sees the output and the file system, but not the
  arguments of the subprocesses.\<close>

definition looks :: "('a, string) result \<times> ceremony_world \<Rightarrow> ('a, string) result \<times> file_system \<times> string list" where
  "looks rw = (fst rw, ow_fs (snd rw), ow_stdout (snd rw))"

definition alike :: "(node, 'a) action \<Rightarrow> (node, 'a) action \<Rightarrow> bool" where
  "alike m m' \<longleftrightarrow>
     (\<forall>w w'. ow_fs w = ow_fs w' \<and> ow_stdout w = ow_stdout w' \<longrightarrow> looks (m w) = looks (m' w'))"

lemma alike_bind:
  assumes "alike m m'" and "\<And>x. alike (f x) (f' x)"
  shows "alike (act_bind m f) (act_bind m' f')"
  unfolding alike_def
proof (intro allI impI)
  fix w w' :: ceremony_world assume low: "ow_fs w = ow_fs w' \<and> ow_stdout w = ow_stdout w'"
  obtain r w1 where m: "m w = (r, w1)" by (cases "m w")
  obtain r' w1' where m': "m' w' = (r', w1')" by (cases "m' w'")
  have "looks (m w) = looks (m' w')" using assms(1) low unfolding alike_def by blast
  then have "r = r'" "ow_fs w1 = ow_fs w1' \<and> ow_stdout w1 = ow_stdout w1'" by (simp_all add: looks_def m m')
  moreover have "looks (f x w1) = looks (f' x w1')" for x using assms(2) calculation(2) unfolding alike_def by blast
  ultimately show "looks (act_bind m f w) = looks (act_bind m' f' w')"
    by (cases r') (simp_all add: act_bind_def m m' looks_def)
qed

lemma alike_simps [simp]:
  "alike (act_lift f) (act_lift f)" "alike (println s) (println s)"
  "alike (print_next_steps p as) (print_next_steps p as)" "alike (print_file_size p) (print_file_size p)"
  by (auto simp: alike_def looks_def println_def print_next_steps_def print_file_size_def Let_def
      split: option.splits node.splits)

lemma alike_resolve [simp]: "alike (resolve_circuits ops c) (resolve_circuits ops c)"
  unfolding resolve_circuits_def by (auto intro!: alike_bind split: option.splits)

lemma alike_run:
  assumes "\<And>fs. os_status ops p args fs = os_status ops p args' fs"
    and "format_command (os_quote ops) p args = format_command (os_quote ops) p args'"
  shows "alike (process_run ops p args) (process_run ops p args')"
  using assms by (auto simp: alike_def looks_def process_run_def act_bind_def println_def Let_def
      split: prod.splits result.splits)

lemma discover_with_random: "discover_r1cs (with_random bs ops) = discover_r1cs ops"
  by (simp add: fun_eq_iff discover_r1cs_def with_random_def)

lemma with_random_simps [simp]:
  "process_run (with_random bs ops) = process_run ops"
  "resolve_circuits (with_random bs ops) = resolve_circuits ops"
  "generate_entropy_hex (with_random bs ops) = Ok (concat (map hex_byte bs))"
  unfolding resolve_circuits_def discover_with_random
  by (simp_all add: fun_eq_iff process_run_def with_random_def generate_entropy_hex_def)

lemma render_redacted:
  "render_args quote [''-e'', ''--entropy''] red (xs @ [''-e='' @ e]) =
   render_args quote [''-e'', ''--entropy''] red (xs @ [''-e='' @ e'])"
proof (induction xs arbitrary: red)
  case Nil
  show ?case by (cases red) simp_all
next
  case (Cons x xs)
  then show ?case by (cases red) (simp_all split: option.splits)
qed

lemma contribute_cmd_last: "contribute_cmd a e = butlast (contribute_cmd a []) @ [''-e='' @ e]"
  by (simp add: contribute_cmd_def)

text \<open>C32: A contribution does not leak its entropy: whatever the random generator returns, the printed
  lines, the returned error and the files are the same, as long as the exit status and the sizes of
  the files snarkjs leaves do not depend on the entropy.\<close>

theorem contribute_hides_entropy:
  assumes "\<And>xs e e' fs. os_status ops ''snarkjs'' (xs @ [''-e='' @ e]) fs = os_status ops ''snarkjs'' (xs @ [''-e='' @ e']) fs"
  shows "looks (ceremony_main (with_random bs ops) (Contribute a) w) =
    looks (ceremony_main (with_random bs' ops) (Contribute a) w)"
proof -
  have run: "alike (process_run ops ''snarkjs'' (contribute_cmd a e)) (process_run ops ''snarkjs'' (contribute_cmd a e'))" for e e'
    unfolding contribute_cmd_last [of a e] contribute_cmd_last [of a e']
  proof (rule alike_run)
    show "os_status ops ''snarkjs'' (butlast (contribute_cmd a []) @ [''-e='' @ e]) fs =
        os_status ops ''snarkjs'' (butlast (contribute_cmd a []) @ [''-e='' @ e']) fs" for fs by (rule assms)
    show "format_command (os_quote ops) ''snarkjs'' (butlast (contribute_cmd a []) @ [''-e='' @ e]) =
        format_command (os_quote ops) ''snarkjs'' (butlast (contribute_cmd a []) @ [''-e='' @ e'])"
      unfolding format_command_def format_command_with_redactions_def
      by (simp only: render_redacted [where e = e and e' = e'])
  qed
  have same: "alike (process_run ops ''snarkjs'' c) (process_run ops ''snarkjs'' c)" for c
    by (rule alike_run) simp_all
  have entropy: "act_bind (act_lift (\<lambda>_. Ok e)) f = f e" for e and f :: "string \<Rightarrow> (node, unit) action"
    by (simp add: fun_eq_iff act_bind_def)
  have "alike (ceremony_main (with_random bs ops) (Contribute a)) (ceremony_main (with_random bs' ops) (Contribute a))"
    by (simp add: ceremony_main_def contribute_def entropy) (intro alike_bind alike_simps alike_resolve run same)
  then show ?thesis unfolding alike_def by blast
qed

text \<open>A system for the witnesses: snarkjs writes files of fixed size.\<close>

definition zkey_file :: node where
  "zkey_file = File 1000 None"

definition demo_os :: os_ops where
  "demo_os =
     \<lparr>os_status = (\<lambda>p args fs.
        (Ok (True, ''exit status: 0''),
         (if length args = 7 \<and> take 2 args = [''zkey'', ''contribute''] then fs(args ! 3 \<mapsto> zkey_file) else fs), ''0.10'')),
      os_random = (\<lambda>n. Ok (replicate n 171)), os_current_dir = Ok ''/work'', os_glob = (\<lambda>fs p. Ok []),
      os_quote = (\<lambda>s. Some s)\<rparr>"

definition demo_world_c :: ceremony_world where
  "demo_world_c =
     \<lparr>ow_fs = [''a.zkey'' \<mapsto> zkey_file, ''pot.ptau'' \<mapsto> zkey_file, ''c.circom'' \<mapsto> zkey_file, ''c.r1cs'' \<mapsto> zkey_file],
      ow_stdout = [], ow_calls = []\<rparr>"

definition demo_contribution :: contribute_args where
  "demo_contribution =
     \<lparr>ca_zkey = ''a.zkey'', ca_circuits = Some ''c.circom'', ca_ptau = ''pot.ptau'', ca_output = ''b.zkey'',
      ca_name = ''alice'', ca_force = False\<rparr>"

lemma demo_circuit:
  "resolve_snarkjs_circuit_path ''c.circom'' (ow_fs demo_world_c) = Ok ''c.r1cs''"
  by (simp add: resolve_snarkjs_circuit_path_def assert_readable_file_def path_exists_def is_file_def
      demo_world_c_def zkey_file_def path_extension_def with_extension_def file_name_def split_name_def
      lower_def Let_def)

theorem contribute_hides_entropy_witness:
  "looks (ceremony_main (with_random (replicate 32 1) demo_os) (Contribute demo_contribution) demo_world_c) =
   looks (ceremony_main (with_random (replicate 32 2) demo_os) (Contribute demo_contribution) demo_world_c)"
proof (rule contribute_hides_entropy)
  show "os_status demo_os ''snarkjs'' (xs @ [''-e='' @ e]) fs = os_status demo_os ''snarkjs'' (xs @ [''-e='' @ e']) fs"
    for xs e fs e'
    by (cases "length xs = 6") (simp_all add: demo_os_def nth_append)
qed

section \<open>Verification and outputs\<close>

text \<open>A contribution that returns without an error has run three commands, each successfully and on
  the files the previous one left: the verification of the key it received, the contribution with
  64 hexadecimal digits of fresh entropy, and the verification of the key it produced, both against
  the same circuit and powers of tau; without the force flag, no file of the output's name existed
  when it wrote.\<close>

theorem contribution_is_verified:
  assumes "ceremony_main ops (Contribute a) w = (Ok (), w')"
  shows "\<exists>circuit bs code elapsed fs.
    (let verify_in = verify_cmd circuit (ca_ptau a) (ca_zkey a);
         verify_out = verify_cmd circuit (ca_ptau a) (ca_output a);
         contribution = contribute_cmd a (concat (map hex_byte bs)) in
     os_random ops 32 = Ok bs \<and>
     ow_calls w' = ow_calls w @ map (Pair ''snarkjs'') [verify_in, contribution, verify_out] \<and>
     os_status ops ''snarkjs'' verify_in (ow_fs w) = (Ok (True, code), fs, elapsed) \<and>
     ran ops fs [contribution, verify_out] (ow_fs w') \<and>
     (ca_force a \<or> \<not> path_exists fs (ca_output a)))"
proof -
  from assms obtain circuit w1 w2 entropy w3 w4 w5 where r: "resolve_circuits ops (ca_circuits a) w = (Ok circuit, w1)"
    "process_run ops ''snarkjs'' (verify_cmd circuit (ca_ptau a) (ca_zkey a)) w1 = (Ok (), w2)"
    "assert_output_allowed (ca_output a) (ca_force a) (ow_fs w2) = Ok ()" "generate_entropy_hex ops = Ok entropy"
    "process_run ops ''snarkjs'' (contribute_cmd a entropy) w2 = (Ok (), w3)"
    "print_file_size (ca_output a) w3 = (Ok (), w4)"
    "process_run ops ''snarkjs'' (verify_cmd circuit (ca_ptau a) (ca_output a)) w4 = (Ok (), w5)"
    "ow_fs w' = ow_fs w5" "ow_calls w' = ow_calls w5"
    by (auto simp: ceremony_main_def contribute_def act_bind_Ok print_next_steps_def)
  from r(4) obtain bs where bs: "os_random ops 32 = Ok bs" "entropy = concat (map hex_byte bs)"
    by (auto simp: generate_entropy_hex_def result_simps)
  have fs: "ow_fs w1 = ow_fs w" "ow_calls w1 = ow_calls w" "ow_fs w4 = ow_fs w3" "ow_calls w4 = ow_calls w3"
    using printsD [OF prints_resolve r(1)] printsD [OF prints_simps(2) r(6)] by simp_all
  have "ca_force a \<or> \<not> path_exists (ow_fs w2) (ca_output a)"
    using r(3) by (auto simp: assert_output_allowed_def result_simps)
  moreover obtain code elapsed where
    "os_status ops ''snarkjs'' (verify_cmd circuit (ca_ptau a) (ca_zkey a)) (ow_fs w) = (Ok (True, code), ow_fs w2, elapsed)"
    using process_run_Ok [OF r(2)] fs(1) by auto
  moreover have "ran ops (ow_fs w2) [contribute_cmd a entropy, verify_cmd circuit (ca_ptau a) (ca_output a)] (ow_fs w')"
    using process_run_Ok [OF r(5)] process_run_Ok [OF r(7)] fs(3) r(8) by auto
  moreover have "ow_calls w' = ow_calls w @ map (Pair ''snarkjs'') [verify_cmd circuit (ca_ptau a) (ca_zkey a),
      contribute_cmd a entropy, verify_cmd circuit (ca_ptau a) (ca_output a)]"
    using process_run_Ok [OF r(2)] process_run_Ok [OF r(5)] process_run_Ok [OF r(7)] fs(2,4) r(9) by simp
  ultimately show ?thesis unfolding Let_def bs(2) using bs(1) by blast
qed

text \<open>The demonstration run succeeds.\<close>

lemma demo_process:
  "\<exists>w1. process_run demo_os p args w = (Ok (), w1) \<and>
    ow_fs w1 = fst (snd (os_status demo_os p args (ow_fs w)))"
  by (simp add: process_run_def demo_os_def act_bind_def println_def Let_def)

lemma demo_run: "\<exists>w. ceremony_main demo_os (Contribute demo_contribution) demo_world_c = (Ok (), w)"
proof -
  let ?a = demo_contribution and ?w = demo_world_c
  have args: "ca_zkey ?a = ''a.zkey''" "ca_ptau ?a = ''pot.ptau''" "ca_output ?a = ''b.zkey''" "\<not> ca_force ?a"
    "ca_circuits ?a = Some ''c.circom''" by (simp_all add: demo_contribution_def)
  have files: "is_file (ow_fs ?w) ''a.zkey''" "is_file (ow_fs ?w) ''pot.ptau''" "\<not> path_exists (ow_fs ?w) ''b.zkey''"
    by (simp_all add: demo_world_c_def is_file_def path_exists_def zkey_file_def)
  have reads: "assert_readable_file p l (ow_fs ?w) = Ok ()" if "is_file (ow_fs ?w) p" for p l
    using that by (auto simp: assert_readable_file_def is_file_def path_exists_def split: option.splits)
  obtain w1 where w1: "process_run demo_os ''snarkjs'' (verify_cmd ''c.r1cs'' ''pot.ptau'' ''a.zkey'') ?w = (Ok (), w1)"
    "ow_fs w1 = ow_fs ?w"
    using demo_process [of "''snarkjs''" "verify_cmd ''c.r1cs'' ''pot.ptau'' ''a.zkey''" ?w]
    by (auto simp: demo_os_def verify_cmd_def)
  obtain e where e: "generate_entropy_hex demo_os = Ok e" by (simp add: generate_entropy_hex_def demo_os_def)
  obtain w2 where w2: "process_run demo_os ''snarkjs'' (contribute_cmd ?a e) w1 = (Ok (), w2)"
    "ow_fs w2 ''b.zkey'' = Some zkey_file"
    using demo_process [of "''snarkjs''" "contribute_cmd ?a e" w1]
    by (auto simp: demo_os_def contribute_cmd_def args)
  obtain w3 where w3: "print_file_size ''b.zkey'' w2 = (Ok (), w3)"
    by (simp add: print_file_size_def w2(2) println_def Let_def)
  obtain w4 where "process_run demo_os ''snarkjs'' (verify_cmd ''c.r1cs'' ''pot.ptau'' ''b.zkey'') w3 = (Ok (), w4)"
    using demo_process by blast
  then show ?thesis using files w1 w2(1) w3
    by (simp add: ceremony_main_def contribute_def act_bind_def resolve_circuits_def args demo_circuit reads
        assert_output_allowed_def e print_next_steps_def)
qed

theorem contribution_is_verified_witness:
  "\<exists>w circuit. ceremony_main demo_os (Contribute demo_contribution) demo_world_c = (Ok (), w) \<and>
    ow_calls w = map (Pair ''snarkjs'') [verify_cmd circuit ''pot.ptau'' ''a.zkey'',
      contribute_cmd demo_contribution (concat (map hex_byte (replicate 32 171))),
      verify_cmd circuit ''pot.ptau'' ''b.zkey'']"
proof -
  obtain w where w: "ceremony_main demo_os (Contribute demo_contribution) demo_world_c = (Ok (), w)"
    using demo_run by blast
  from contribution_is_verified [OF w] obtain circuit bs where "os_random demo_os 32 = Ok bs"
    "ow_calls w = ow_calls demo_world_c @ map (Pair ''snarkjs'')
      [verify_cmd circuit (ca_ptau demo_contribution) (ca_zkey demo_contribution),
       contribute_cmd demo_contribution (concat (map hex_byte bs)),
       verify_cmd circuit (ca_ptau demo_contribution) (ca_output demo_contribution)]"
    unfolding Let_def by blast
  moreover from this(1) have "bs = replicate 32 171" by (simp add: demo_os_def)
  moreover have "ca_ptau demo_contribution = ''pot.ptau''" "ca_zkey demo_contribution = ''a.zkey''"
    "ca_output demo_contribution = ''b.zkey''" "ow_calls demo_world_c = []"
    by (simp_all add: demo_contribution_def demo_world_c_def)
  ultimately show ?thesis using w by auto
qed

text \<open>The files a command creates.\<close>

primrec cli_outputs :: "commands \<Rightarrow> string list" where
  "cli_outputs (Init a) = [ia_output a]"
| "cli_outputs (Contribute a) = [ca_output a]"
| "cli_outputs (Finalize a) = [final_zkey a, vkey_json a]"

primrec cli_force :: "commands \<Rightarrow> bool" where
  "cli_force (Init a) = ia_force a"
| "cli_force (Contribute a) = ca_force a"
| "cli_force (Finalize a) = fa_force a"

lemma refuses: "path_exists fs p \<Longrightarrow> assert_output_allowed p False fs = Err (''refusing to overwrite existing output `'' @
    p @ ''`; pass --force to allow'')"
  by (simp add: assert_output_allowed_def)

text \<open>Without the force flag a command that would create a file which exists fails, with the file
  system as it was: the only subprocess that can have run is the verification of the received key,
  which is taken to leave the files alone.\<close>

theorem ceremony_never_overwrites:
  assumes "\<And>circuit ptau zkey fs. fst (snd (os_status ops ''snarkjs'' (verify_cmd circuit ptau zkey) fs)) = fs"
    and "\<not> cli_force cli" and "out \<in> set (cli_outputs cli)" and "path_exists (ow_fs w) out"
  shows "fst (ceremony_main ops cli w) \<noteq> Ok () \<and> ow_fs (snd (ceremony_main ops cli w)) = ow_fs w \<and>
    (\<exists>calls. ow_calls (snd (ceremony_main ops cli w)) = ow_calls w @ calls \<and>
      set calls \<subseteq> {(''snarkjs'', verify_cmd circuit ptau zkey) | circuit ptau zkey. True})"
proof (cases cli)
  case (Init a)
  with assms(2-4) show ?thesis by (auto simp: ceremony_main_def init_def act_bind_def refuses split: result.splits)
next
  case (Finalize a)
  with assms(2-4) show ?thesis
    by (auto simp: ceremony_main_def finalize_def act_bind_def refuses split: result.splits)
next
  case (Contribute a)
  have force: "\<not> ca_force a" "path_exists (ow_fs w) (ca_output a)" using Contribute assms(2-4) by auto
  obtain rc w1 where R: "resolve_circuits ops (ca_circuits a) w = (rc, w1)" by (cases "resolve_circuits ops (ca_circuits a) w")
  have w1: "ow_fs w1 = ow_fs w" "ow_calls w1 = ow_calls w" using printsD [OF prints_resolve R] by simp_all
  show ?thesis
  proof (cases rc)
    case (Ok circuit)
    let ?cmd = "verify_cmd circuit (ca_ptau a) (ca_zkey a)"
    obtain rv w2 where V: "process_run ops ''snarkjs'' ?cmd w1 = (rv, w2)" by (cases "process_run ops ''snarkjs'' ?cmd w1")
    have w2: "ow_fs w2 = ow_fs w" "ow_calls w2 = ow_calls w @ [(''snarkjs'', ?cmd)]"
      using process_run_calls [of ops "''snarkjs''" ?cmd w1] assms(1) by (simp_all add: V w1)
    show ?thesis using force w2 unfolding Contribute
      by (cases rv) (auto simp: ceremony_main_def contribute_def act_bind_def R Ok V refuses split: result.splits)
  qed (use w1 in \<open>auto simp: Contribute ceremony_main_def contribute_def act_bind_def R split: result.splits\<close>)
qed

theorem ceremony_never_overwrites_witness:
  "fst (ceremony_main demo_os (Contribute (demo_contribution\<lparr>ca_output := ''a.zkey''\<rparr>)) demo_world_c) \<noteq> Ok () \<and>
   ow_fs (snd (ceremony_main demo_os (Contribute (demo_contribution\<lparr>ca_output := ''a.zkey''\<rparr>)) demo_world_c)) =
     ow_fs demo_world_c"
  using ceremony_never_overwrites [of demo_os "Contribute (demo_contribution\<lparr>ca_output := ''a.zkey''\<rparr>)" "''a.zkey''"
      demo_world_c]
  by (simp add: demo_os_def verify_cmd_def demo_contribution_def demo_world_c_def path_exists_def)

end
