(* ===== verification/Build_Keys.thy ===== *)
theory Build_Keys
  imports Os_World Witness
begin

text \<open>
  The second half of the circuits' build script (\<open>circuits/build.rs\<close>): writing a verification key in its
  three formats, and the decision whether keys are generated at all.  The file system shows contents
  and modification times.  Writing, the environment, JSON text, the trusted setup and the encoding of
  a proving key are the fields of \<open>build_ops\<close>.
\<close>

section \<open>Disks and operations\<close>

datatype build_node = Regular bytes nat | Folder "string list" nat

type_synonym disk = "string \<Rightarrow> build_node option"

type_synonym 'a build = "(build_node, 'a) action"

record ark_verifying_key =
  av_alpha :: g1_affine
  av_beta :: g2_affine
  av_gamma :: g2_affine
  av_delta :: g2_affine
  av_ic :: "g1_affine list"

record ('cf, 'pk) build_ops =
  bo_pointer_width :: nat
  bo_env :: "string \<Rightarrow> string option"
  bo_write :: "string \<Rightarrow> bytes \<Rightarrow> disk \<Rightarrow> (unit, string) result \<times> disk"
  bo_create_dir_all :: "string \<Rightarrow> disk \<Rightarrow> (unit, string) result \<times> disk"
  bo_json_text :: "json \<Rightarrow> (string, string) result"
  bo_circom_config :: "string \<Rightarrow> string \<Rightarrow> disk \<Rightarrow> ('cf, string) result"
  bo_setup :: "'cf \<Rightarrow> ('pk \<times> ark_verifying_key, string) result"
  bo_store_pk :: "'pk \<Rightarrow> (bytes, string) result"

definition text_bytes :: "string \<Rightarrow> bytes" where
  "text_bytes s = map (\<lambda>c. of_nat (of_char c)) s"

definition modified :: "disk \<Rightarrow> string \<Rightarrow> nat option" where
  "modified fs p = map_option (\<lambda>n. case n of Regular _ t \<Rightarrow> t | Folder _ t \<Rightarrow> t) (fs p)"

section \<open>Formats of a verification key\<close>

text \<open>The decimal text of a base-field element and the points of the snarkjs format; \<open>usize\<close> numbers
  read as \<open>u64\<close>, and as \<open>i64\<close> where they fit.\<close>

definition fq_to_decimal :: "nat \<Rightarrow> string" where
  "fq_to_decimal f = show_nat (be_to_nat (nat_to_be 32 f))"

definition g1_to_snarkjs :: "g1_affine \<Rightarrow> json" where
  "g1_to_snarkjs p =
     JArray [JString (fq_to_decimal (g1_x p)), JString (fq_to_decimal (g1_y p)), JString ''1'']"

definition g2_to_snarkjs :: "g2_affine \<Rightarrow> json" where
  "g2_to_snarkjs p =
     JArray [
       JArray [JString (fq_to_decimal (g2_x_c1 p)), JString (fq_to_decimal (g2_x_c0 p))],
       JArray [JString (fq_to_decimal (g2_y_c1 p)), JString (fq_to_decimal (g2_y_c0 p))],
       JArray [JString ''1'', JString ''0'']]"

definition json_usize :: "nat \<Rightarrow> json" where
  "json_usize n = JNumber (Some (of_nat n)) (if n < 2 ^ 63 then Some (of_nat n) else None)"

definition vk_to_snarkjs_json :: "ark_verifying_key \<Rightarrow> json" where
  "vk_to_snarkjs_json vk =
     JObject [
       (''protocol'', JString ''groth16''),
       (''curve'', JString ''bn128''),
       (''nPublic'', json_usize (length (av_ic vk) - 1)),
       (''vk_alpha_1'', g1_to_snarkjs (av_alpha vk)),
       (''vk_beta_2'', g2_to_snarkjs (av_beta vk)),
       (''vk_gamma_2'', g2_to_snarkjs (av_gamma vk)),
       (''vk_delta_2'', g2_to_snarkjs (av_delta vk)),
       (''IC'', JArray (map g1_to_snarkjs (av_ic vk)))]"

definition g1_to_soroban_bytes :: "g1_affine \<Rightarrow> bytes" where
  "g1_to_soroban_bytes p = bigint_to_be_32 (g1_x p) @ bigint_to_be_32 (g1_y p)"

definition g2_to_soroban_bytes :: "g2_affine \<Rightarrow> bytes" where
  "g2_to_soroban_bytes p =
     bigint_to_be_32 (g2_x_c1 p) @ bigint_to_be_32 (g2_x_c0 p) @
     bigint_to_be_32 (g2_y_c1 p) @ bigint_to_be_32 (g2_y_c0 p)"

definition write_proving_key :: "('cf, 'pk) build_ops \<Rightarrow> 'pk \<Rightarrow> string \<Rightarrow> unit build" where
  "write_proving_key ops pk path =
     act_bind (act_lift (\<lambda>_. map_err (\<lambda>e. ''Failed to serialize proving key: '' @ e) (bo_store_pk ops pk))) (\<lambda>bs.
     act_context ''Failed to write proving key file'' (act_fs (bo_write ops path bs)))"

definition write_verification_key :: "('cf, 'pk) build_ops \<Rightarrow> ark_verifying_key \<Rightarrow> string \<Rightarrow> unit build" where
  "write_verification_key ops vk path =
     act_bind (act_lift (\<lambda>_. bo_json_text ops (vk_to_snarkjs_json vk))) (\<lambda>json_str.
     act_context ''Failed to write verification key'' (act_fs (bo_write ops path (text_bytes json_str))))"

text \<open>\<open>{:?}\<close> of a byte array.\<close>

fun comma_separated :: "string list \<Rightarrow> string" where
  "comma_separated [] = []"
| "comma_separated [s] = s"
| "comma_separated (s # ss) = s @ '', '' @ comma_separated ss"

definition show_bytes :: "bytes \<Rightarrow> string" where
  "show_bytes bs = ''['' @ comma_separated (map (\<lambda>b. show_nat (unat b)) bs) @ '']''"

abbreviation nl :: string where
  "nl \<equiv> [CHR 0x0A]"

definition vk_rust_const :: "ark_verifying_key \<Rightarrow> string" where
  "vk_rust_const vk =
     (let ic_count = length (av_ic vk);
          ic_arrays = map g1_to_soroban_bytes (av_ic vk) in
      ''//! Auto-generated verification key constants for Soroban contracts.'' @ nl @
      ''//! DO NOT EDIT - regenerate by running `BUILD_TESTS=1 cargo build` in circuits/'' @ nl @ nl @
      ''#![allow(dead_code)]'' @ nl @ nl @
      ''/// Alpha point (G1, 64 bytes)'' @ nl @
      ''pub const VK_ALPHA: [u8; 64] = '' @ show_bytes (g1_to_soroban_bytes (av_alpha vk)) @ '';'' @ nl @ nl @
      ''/// Beta point (G2, 128 bytes, c1||c0 ordering)'' @ nl @
      ''pub const VK_BETA: [u8; 128] = '' @ show_bytes (g2_to_soroban_bytes (av_beta vk)) @ '';'' @ nl @ nl @
      ''/// Gamma point (G2, 128 bytes, c1||c0 ordering)'' @ nl @
      ''pub const VK_GAMMA: [u8; 128] = '' @ show_bytes (g2_to_soroban_bytes (av_gamma vk)) @ '';'' @ nl @ nl @
      ''/// Delta point (G2, 128 bytes, c1||c0 ordering)'' @ nl @
      ''pub const VK_DELTA: [u8; 128] = '' @ show_bytes (g2_to_soroban_bytes (av_delta vk)) @ '';'' @ nl @ nl @
      ''/// Number of IC points (public inputs + 1)'' @ nl @
      ''pub const VK_IC_COUNT: usize = '' @ show_nat ic_count @ '';'' @ nl @ nl @
      ''/// IC points (G1, 64 bytes each)'' @ nl @
      ''pub const VK_IC: [[u8; 64]; '' @ show_nat ic_count @ ''] = ['' @ nl @
      concat (map (\<lambda>ic. ''    '' @ show_bytes ic @ '','' @ nl) ic_arrays) @
      ''];'' @ nl)"

definition write_verification_key_rust_const :: "('cf, 'pk) build_ops \<Rightarrow> ark_verifying_key \<Rightarrow> string \<Rightarrow> unit build" where
  "write_verification_key_rust_const ops vk path =
     act_context ''Failed to write VK Rust const file'' (act_fs (bo_write ops path (text_bytes (vk_rust_const vk))))"

definition vk_soroban_bytes :: "nat \<Rightarrow> ark_verifying_key \<Rightarrow> (bytes, string) result" where
  "vk_soroban_bytes pw vk =
     (let ic_count = length (av_ic vk);
          HEADER_SIZE = 452;
          ic_bytes = ic_count * 64 in
      if 2 ^ pw \<le> ic_bytes then Err ''IC count overflow''
      else if 2 ^ pw \<le> HEADER_SIZE + ic_bytes then Err ''Total size overflow''
      else if 2 ^ (pw - 1) \<le> HEADER_SIZE + ic_bytes then Panic
      else if 2 ^ 32 \<le> ic_count then Err ''IC count exceeds u32 max''
      else Ok (g1_to_soroban_bytes (av_alpha vk) @ g2_to_soroban_bytes (av_beta vk) @
             g2_to_soroban_bytes (av_gamma vk) @ g2_to_soroban_bytes (av_delta vk) @
             nat_to_le 4 ic_count @ concat (map g1_to_soroban_bytes (av_ic vk))))"

definition write_verification_key_soroban_bin :: "('cf, 'pk) build_ops \<Rightarrow> ark_verifying_key \<Rightarrow> string \<Rightarrow> unit build" where
  "write_verification_key_soroban_bin ops vk path =
     act_bind (act_lift (\<lambda>_. vk_soroban_bytes (bo_pointer_width ops) vk)) (\<lambda>bs.
     act_context ''Failed to write VK Soroban binary'' (act_fs (bo_write ops path bs)))"

section \<open>Whether keys are generated\<close>

definition check_essential_keys_exist :: "string \<Rightarrow> string \<Rightarrow> string \<Rightarrow> disk \<Rightarrow> bool \<times> string list" where
  "check_essential_keys_exist pk_path vk_path vk_soroban_path fs =
     (let missing =
        (if path_exists fs pk_path then [] else [''proving_key.bin'']) @
        (if path_exists fs vk_path then [] else [''vk.json'']) @
        (if path_exists fs vk_soroban_path then [] else [''vk_soroban.bin'']) in
      (missing = [], missing))"

definition act_when :: "bool \<Rightarrow> string list \<Rightarrow> unit build" where
  "act_when c lines w = (Ok (), if c then w\<lparr>ow_stdout := ow_stdout w @ lines\<rparr> else w)"

definition newer :: "disk \<Rightarrow> string \<Rightarrow> string \<Rightarrow> bool" where
  "newer fs a b = (case (modified fs a, modified fs b) of (Some s, Some t) \<Rightarrow> t < s | _ \<Rightarrow> False)"

definition check_keys_need_generation ::
  "string \<Rightarrow> string \<Rightarrow> string \<Rightarrow> string \<Rightarrow> string \<Rightarrow> bool \<Rightarrow> (bool \<times> string) build" where
  "check_keys_need_generation pk_path vk_path vk_soroban_path vk_const_path r1cs_file force_regen w =
     (let (essential_exist, missing) = check_essential_keys_exist pk_path vk_path vk_soroban_path (ow_fs w) in
      if \<not> essential_exist then (Ok (True, ''Missing essential key files: '' @ comma_separated missing), w)
      else if force_regen then (Ok (True, ''REGEN_KEYS=1 was set - forcing key regeneration''), w)
      else
        act_bind (act_when (newer (ow_fs w) r1cs_file pk_path)
          [''cargo:warning=WARNING: R1CS is newer than keys, but NOT regenerating to avoid breaking deployed contracts.'',
           ''cargo:warning=If you need new keys (e.g., circuit changed), run: REGEN_KEYS=1 BUILD_TESTS=1 cargo build'',
           ''cargo:warning=Then REDEPLOY contracts with the new verification key!'']) (\<lambda>_.
        act_bind (act_when (\<not> path_exists (ow_fs w) vk_const_path)
          [''cargo:warning=Note: vk_const.rs is missing but essential keys exist - skipping'',
           ''cargo:warning=Run REGEN_KEYS=1 BUILD_TESTS=1 cargo build if you need vk_const.rs'']) (\<lambda>_.
        act_lift (\<lambda>_. Ok (False, ''Essential keys exist and REGEN_KEYS not set'')))) w)"

definition keys_dir :: "string \<Rightarrow> string" where
  "keys_dir crate_dir = path_join crate_dir ''../scripts/testdata''"

definition key_path :: "string \<Rightarrow> string \<Rightarrow> string \<Rightarrow> string" where
  "key_path crate_dir circuit_name suffix = path_join (keys_dir crate_dir) (circuit_name @ suffix)"

definition wasm_path :: "string \<Rightarrow> string \<Rightarrow> string" where
  "wasm_path out_dir circuit_name =
     path_join (path_join (path_join out_dir ''wasm'') (circuit_name @ ''_js'')) (circuit_name @ ''.wasm'')"

definition report :: "unit build \<Rightarrow> string \<Rightarrow> string \<Rightarrow> unit build" where
  "report m failed written = act_match m (\<lambda>_. println written) (\<lambda>e. println (failed @ e))"

definition write_keys :: "('cf, 'pk) build_ops \<Rightarrow> string \<Rightarrow> string \<Rightarrow> 'pk \<times> ark_verifying_key \<Rightarrow> bool build" where
  "write_keys ops crate_dir circuit_name = (\<lambda>(pk, vk).
     let pk_path = key_path crate_dir circuit_name ''_proving_key.bin'';
         vk_path = key_path crate_dir circuit_name ''_vk.json'';
         vk_soroban_path = key_path crate_dir circuit_name ''_vk_soroban.bin'';
         vk_const_path = key_path crate_dir circuit_name ''_vk_const.rs'' in
     act_bind (report (write_proving_key ops pk pk_path)
       ''cargo:warning=Failed to write proving key: '' (''cargo:warning=Proving key written to '' @ pk_path)) (\<lambda>_.
     act_bind (report (write_verification_key ops vk vk_path)
       ''cargo:warning=Failed to write verification key JSON: ''
       (''cargo:warning=Verification key (snark JSON) written to '' @ vk_path)) (\<lambda>_.
     act_bind (report (write_verification_key_soroban_bin ops vk vk_soroban_path)
       ''cargo:warning=Failed to write VK Soroban binary: ''
       (''cargo:warning=Verification key (Soroban bin) written to '' @ vk_soroban_path)) (\<lambda>_.
     act_bind (report (write_verification_key_rust_const ops vk vk_const_path)
       ''cargo:warning=Failed to write VK Rust const: ''
       (''cargo:warning=Verification key (Rust const) written to '' @ vk_const_path)) (\<lambda>_.
     act_bind (println (''cargo:warning=VK has '' @ show_nat (length (av_ic vk)) @ '' IC points ('' @
       show_nat (length (av_ic vk) - 1) @ '' public inputs)'')) (\<lambda>_.
     act_lift (\<lambda>_. Ok True)))))))"

text \<open>The empty circuit of a configuration and the setup with fresh randomness are \<open>bo_setup\<close>.\<close>

definition generate_groth16_keys ::
  "('cf, 'pk) build_ops \<Rightarrow> string \<Rightarrow> string \<Rightarrow> disk \<Rightarrow> ('pk \<times> ark_verifying_key, string) result" where
  "generate_groth16_keys ops wasm r1cs fs =
     rbind (map_err (\<lambda>e. ''CircomConfig error: '' @ e) (bo_circom_config ops wasm r1cs fs)) (\<lambda>cfg.
     rbind (map_err (\<lambda>e. ''circuit_specific_setup failed: '' @ e) (bo_setup ops cfg)) (\<lambda>(pk, vk).
     Ok (pk, vk)))"

definition generate_keys_if_needed ::
  "('cf, 'pk) build_ops \<Rightarrow> string \<Rightarrow> string \<Rightarrow> string \<Rightarrow> string \<Rightarrow> bool build" where
  "generate_keys_if_needed ops crate_dir out_dir circuit_name r1cs_file =
     act_bind (act_context ''Could not create scripts/testdata''
       (act_fs (bo_create_dir_all ops (keys_dir crate_dir)))) (\<lambda>_.
     let force_regen = bo_env ops ''REGEN_KEYS'' \<noteq> None in
     act_bind (act_when force_regen
       [''cargo:warning=REGEN_KEYS=1 detected - will regenerate keys'',
        ''cargo:warning=WARNING: Remember to REDEPLOY contracts with the new VK!'']) (\<lambda>_.
     act_bind (check_keys_need_generation (key_path crate_dir circuit_name ''_proving_key.bin'')
       (key_path crate_dir circuit_name ''_vk.json'') (key_path crate_dir circuit_name ''_vk_soroban.bin'')
       (key_path crate_dir circuit_name ''_vk_const.rs'') r1cs_file force_regen) (\<lambda>(needs_generation, reason).
     if \<not> needs_generation then
       act_bind (println (''cargo:warning=Skipping key generation for '' @ circuit_name @ '' ('' @ reason @ '')'')) (\<lambda>_.
       act_lift (\<lambda>_. Ok False))
     else
       act_bind (println (''cargo:warning=Key generation needed for '' @ circuit_name @ '': '' @ reason)) (\<lambda>_.
       act_bind (act_lift (\<lambda>fs. Ok (path_exists fs (wasm_path out_dir circuit_name)))) (\<lambda>wasm_exists.
       if \<not> wasm_exists then
         act_bind (act_when True
           [''cargo:warning=ERROR: Cannot generate keys for '' @ circuit_name @ '' - WASM file not found at '' @
              wasm_path out_dir circuit_name,
            ''cargo:warning=This usually happens when:'',
            ''cargo:warning=  1. BUILD_TESTS=1 was not set (run: BUILD_TESTS=1 cargo build)'',
            ''cargo:warning=  2. WASM compilation failed earlier in the build'',
            ''cargo:warning=  3. OUT_DIR was cleaned (try: cargo clean && BUILD_TESTS=1 cargo build)'']) (\<lambda>_.
         act_lift (\<lambda>_. Err (''WASM file not found for key generation: '' @ wasm_path out_dir circuit_name)))
       else
         act_bind (println (''cargo:warning=Generating Groth16 keys for '' @ circuit_name @ ''...'')) (\<lambda>_.
         act_match (act_lift (generate_groth16_keys ops (wasm_path out_dir circuit_name) r1cs_file))
           (write_keys ops crate_dir circuit_name)
           (\<lambda>e. act_bind (println (''cargo:warning=Failed to generate keys for '' @ circuit_name @ '': '' @ e)) (\<lambda>_.
                act_lift (\<lambda>_. Err e)))))))))"

end
