(* ===== verification/Build_Circuits.thy ===== *)
theory Build_Circuits
  imports Build_Keys
begin

text \<open>
  The first part of the circuits' build script (\<open>circuits/build.rs\<close>): the compiler's version, finding the
  circuits, their include dependencies, and whether one is newer than what was built.  The circom
  compiler, the regular-expression engine, git and the WebAssembly encoder are fields of
  \<open>circuit_ops\<close> (\<open>co_captures p s\<close> is what the first group of the pattern \<open>p\<close> holds in the successive
  matches of \<open>captures_iter\<close> in \<open>s\<close>; the one pattern the script uses is \<open>include_pattern\<close>); lines printed to the error stream and the compiler's own reports are left out.  Texts
  are UTF-8; trimming and lower-casing treat ASCII.
\<close>

record ('cf, 'pk, 'ar, 'ex, 'vcp, 'cc) circuit_ops = "('cf, 'pk) build_ops" +
  co_path_max :: nat
  co_names :: "disk \<Rightarrow> (string \<times> string) list"
  co_captures :: "string \<Rightarrow> string \<Rightarrow> string list"
  co_remove_dir_all :: "string \<Rightarrow> disk \<Rightarrow> (unit, string) result \<times> disk"
  co_remove_file :: "string \<Rightarrow> disk \<Rightarrow> (unit, string) result \<times> disk"
  co_create :: "string \<Rightarrow> disk \<Rightarrow> (unit, string) result \<times> disk"
  co_git :: "string list \<Rightarrow> disk \<Rightarrow> (nat, string) result \<times> disk"
  co_parse :: "string \<Rightarrow> string \<Rightarrow> disk \<Rightarrow> ('ar, string) result"
  co_check_types :: "'ar \<Rightarrow> ('ar, string) result"
  co_custom_gates :: "'ar \<Rightarrow> bool"
  co_build_circuit :: "'ar \<Rightarrow> ('ex \<times> 'vcp, string) result"
  co_export_r1cs :: "string \<Rightarrow> 'ex \<Rightarrow> bool \<Rightarrow> disk \<Rightarrow> (unit, string) result \<times> disk"
  co_export_sym :: "string \<Rightarrow> 'ex \<Rightarrow> disk \<Rightarrow> (unit, string) result \<times> disk"
  co_run_compiler :: "'vcp \<Rightarrow> string \<Rightarrow> ('cc, string) result"
  co_write_wasm :: "'cc \<Rightarrow> string \<Rightarrow> string \<Rightarrow> string \<Rightarrow> disk \<Rightarrow> (unit, string) result \<times> disk"
  co_wat_encode :: "string \<Rightarrow> (bytes, string) result"

section \<open>Reading text\<close>

definition continuation :: "nat \<Rightarrow> bool" where
  "continuation b \<longleftrightarrow> 128 \<le> b \<and> b < 192"

fun utf8 :: "nat list \<Rightarrow> bool" where
  "utf8 [] \<longleftrightarrow> True"
| "utf8 (b # bs) \<longleftrightarrow>
     (if b < 128 then utf8 bs
      else case bs of
        [] \<Rightarrow> False
      | c1 # bs1 \<Rightarrow>
          if 194 \<le> b \<and> b < 224 then continuation c1 \<and> utf8 bs1
          else case bs1 of
            [] \<Rightarrow> False
          | c2 # bs2 \<Rightarrow>
              if 224 \<le> b \<and> b < 240 then
                continuation c1 \<and> (b = 224 \<longrightarrow> 160 \<le> c1) \<and> (b = 237 \<longrightarrow> c1 < 160) \<and> continuation c2 \<and> utf8 bs2
              else case bs2 of
                [] \<Rightarrow> False
              | c3 # bs3 \<Rightarrow>
                  240 \<le> b \<and> b < 245 \<and> continuation c1 \<and> (b = 240 \<longrightarrow> 144 \<le> c1) \<and> (b = 244 \<longrightarrow> c1 < 144) \<and>
                  continuation c2 \<and> continuation c3 \<and> utf8 bs3)"

definition read_to_string :: "string \<Rightarrow> disk \<Rightarrow> (string, string) result" where
  "read_to_string p fs =
     (case fs p of
        Some (Regular bs _) \<Rightarrow>
          if utf8 (map unat bs) then Ok (map (\<lambda>b. char_of (unat b)) bs)
          else Err ''stream did not contain valid UTF-8''
      | Some (Folder _ _) \<Rightarrow> Err ''Is a directory (os error 21)''
      | None \<Rightarrow> Err ''No such file or directory (os error 2)'')"

fun contains :: "string \<Rightarrow> string \<Rightarrow> bool" where
  "contains p [] \<longleftrightarrow> p = []"
| "contains p (c # cs) \<longleftrightarrow> take (length p) (c # cs) = p \<or> contains p cs"

text \<open>The rest of a text after the first occurrence of a pattern, and the text before a character.\<close>

fun after_first :: "string \<Rightarrow> string \<Rightarrow> string option" where
  "after_first p [] = (if p = [] then Some [] else None)"
| "after_first p (c # cs) = (if take (length p) (c # cs) = p then Some (drop (length p) (c # cs)) else after_first p cs)"

definition before_char :: "char \<Rightarrow> string \<Rightarrow> string option" where
  "before_char c s = (if c \<in> set s then Some (takeWhile (\<lambda>x. x \<noteq> c) s) else None)"

fun lines_from :: "string \<Rightarrow> string \<Rightarrow> string list" where
  "lines_from line [] = (if line = [] then [] else [line])"
| "lines_from line (c # cs) =
     (if c = CHR 0x0A then
        (if line \<noteq> [] \<and> last line = CHR 0x0D then butlast line else line) # lines_from [] cs
      else lines_from (line @ [c]) cs)"

definition is_space :: "char \<Rightarrow> bool" where
  "is_space c = (let n = of_char c :: nat in n = 32 \<or> (9 \<le> n \<and> n \<le> 13))"

definition trim :: "string \<Rightarrow> string" where
  "trim s = rev (dropWhile is_space (rev (dropWhile is_space s)))"

definition starts_with :: "string \<Rightarrow> string \<Rightarrow> bool" where
  "starts_with s p \<longleftrightarrow> take (length p) s = p"

section \<open>The compiler version\<close>

text \<open>The line flags: in \<open>[build-dependencies]\<close>, in \<open>[dependencies]\<close>.\<close>

fun version_lines :: "string \<Rightarrow> bool \<Rightarrow> bool \<Rightarrow> string list \<Rightarrow> string option" where
  "version_lines package_name in_build_deps in_deps [] = None"
| "version_lines package_name in_build_deps in_deps (line # ls) =
     (let trimmed = trim line in
      if trimmed = ''[build-dependencies]'' then version_lines package_name True False ls
      else if trimmed = ''[dependencies]'' then version_lines package_name False True ls
      else if starts_with trimmed ''['' then version_lines package_name False False ls
      else if (in_build_deps \<or> in_deps) \<and> starts_with trimmed package_name then
        (case Option.bind (after_first (''tag = '' @ [CHR 0x22]) trimmed) (before_char (CHR 0x22)) of
           Some tag \<Rightarrow> Some (filter (\<lambda>c. c \<noteq> CHR ''v'') tag)
         | None \<Rightarrow> version_lines package_name in_build_deps in_deps ls)
      else version_lines package_name in_build_deps in_deps ls)"

definition parse_circom_version :: "string \<Rightarrow> disk \<Rightarrow> string option" where
  "parse_circom_version package_name fs =
     (case read_to_string ''Cargo.toml'' fs of
        Ok content \<Rightarrow> version_lines package_name False False (lines_from [] content)
      | _ \<Rightarrow> None)"

section \<open>Finding circuits\<close>

text \<open>\<open>has_main_component\<close> and the search return what they print, too.  Names of entries are not empty
  and have no slash; the system opens no path longer than \<open>co_path_max\<close>.\<close>

definition debug_path :: "string \<Rightarrow> string" where
  "debug_path p =
     [CHR 0x22] @ concat (map (\<lambda>c. if c = CHR 0x22 \<or> c = CHR 0x5C then [CHR 0x5C, c] else [c]) p) @ [CHR 0x22]"

definition has_main_component :: "disk \<Rightarrow> string \<Rightarrow> bool \<times> string list" where
  "has_main_component fs file_path =
     (case read_to_string file_path fs of
        Ok content \<Rightarrow> (contains ''component main '' (map lower content), [])
      | Err e \<Rightarrow> (False, [''cargo:warning=Failed to read file '' @ debug_path file_path @ '': '' @ e])
      | Panic \<Rightarrow> (False, []))"

definition read_dir :: "nat \<Rightarrow> disk \<Rightarrow> string \<Rightarrow> string list option" where
  "read_dir path_max fs dir =
     (if path_max < length dir then None
      else case fs dir of
        Some (Folder entries _) \<Rightarrow> Some (filter (\<lambda>e. e \<noteq> [] \<and> hd e \<noteq> CHR ''/'') entries)
      | _ \<Rightarrow> None)"

definition regular :: "disk \<Rightarrow> string \<Rightarrow> bool" where
  "regular fs p = (case fs p of Some (Regular _ _) \<Rightarrow> True | _ \<Rightarrow> False)"

definition folder :: "disk \<Rightarrow> string \<Rightarrow> bool" where
  "folder fs p = (case fs p of Some (Folder _ _) \<Rightarrow> True | _ \<Rightarrow> False)"

lemma path_join_longer: "e \<noteq> [] \<and> hd e \<noteq> CHR ''/'' \<Longrightarrow> length dir < length (path_join dir e)"
  by (simp add: path_join_def)

lemma read_dir_measure:
  "read_dir path_max fs dir = Some es \<Longrightarrow> e \<in> set es \<Longrightarrow>
   Suc path_max - length (path_join dir e) < Suc path_max - length dir"
  using path_join_longer [of e dir]
  by (auto simp: read_dir_def split: if_splits option.splits build_node.splits)

function find_circom_files_impl :: "nat \<Rightarrow> disk \<Rightarrow> bool \<Rightarrow> string \<Rightarrow> string list \<times> string list" where
  "find_circom_files_impl path_max fs skip_test_dirs dir =
     (case read_dir path_max fs dir of
        None \<Rightarrow> ([], [''Failed to read directory: '' @ debug_path dir])
      | Some entries \<Rightarrow>
          let found = map (\<lambda>e.
            let path = path_join dir e in
            if regular fs path \<and> path_extension path = Some ''circom'' then
              (let (main, out) = has_main_component fs path in
               (if main then [path_join ''./'' path] else [], out))
            else if folder fs path then
              if skip_test_dirs \<and> file_name path = Some ''test'' then ([], [])
              else if file_name path = Some ''circomlib'' then ([], [])
              else find_circom_files_impl path_max fs skip_test_dirs path
            else ([], [])) entries in
          (concat (map fst found), concat (map snd found)))"
  by pat_completeness auto
termination
  by (relation "measure (\<lambda>(path_max, fs, skip, dir). Suc path_max - length dir)")
    (auto dest: read_dir_measure)

declare find_circom_files_impl.simps [simp del]

definition find_circom_files :: "nat \<Rightarrow> disk \<Rightarrow> string \<Rightarrow> string list \<times> string list" where
  "find_circom_files path_max fs dir = find_circom_files_impl path_max fs True dir"

section \<open>Include dependencies\<close>

text \<open>The pattern of an include: \<open>^\s*include\s+["']([^"']+)["']\<close>. It is valid, and its one group takes part in
  every match, so neither compiling it nor reading the group fails.\<close>

definition include_pattern :: string where
  "include_pattern =
     ''^'' @ [CHR 0x5C] @ ''s*include'' @ [CHR 0x5C] @ ''s+['' @ [CHR 0x22, CHR 0x27] @ '']([^'' @
     [CHR 0x22, CHR 0x27] @ '']+)['' @ [CHR 0x22, CHR 0x27] @ '']''"

text \<open>\<open>canonicalize\<close> is a finite table of the file system.\<close>

definition canonicalize :: "('cf, 'pk, 'ar, 'ex, 'vcp, 'cc) circuit_ops \<Rightarrow> disk \<Rightarrow> string \<Rightarrow> (string, string) result" where
  "canonicalize ops fs p =
     (case map_of (co_names ops fs) p of Some q \<Rightarrow> Ok q | None \<Rightarrow> Err ''No such file or directory (os error 2)'')"

definition resolve_include_path ::
  "('cf, 'pk, 'ar, 'ex, 'vcp, 'cc) circuit_ops \<Rightarrow> disk \<Rightarrow> string \<Rightarrow> string \<Rightarrow> string list \<Rightarrow>
   (string option, string) result" where
  "resolve_include_path ops fs include_path current_dir search_dirs =
     (let candidates =
        if starts_with include_path ''./'' \<or> starts_with include_path ''../'' then [current_dir] else search_dirs in
      case find (\<lambda>path. path_exists fs path) (map (\<lambda>dir. path_join dir include_path) candidates) of
        Some path \<Rightarrow> rbind (canonicalize ops fs path) (\<lambda>q. Ok (Some q))
      | None \<Rightarrow> Ok None)"

fun resolve_includes ::
  "('cf, 'pk, 'ar, 'ex, 'vcp, 'cc) circuit_ops \<Rightarrow> disk \<Rightarrow> string list \<Rightarrow> string \<Rightarrow> string list \<Rightarrow>
   (string list, string) result" where
  "resolve_includes ops fs search_dirs current_file [] = Ok []"
| "resolve_includes ops fs search_dirs current_file (include_path # captures) =
     (case path_parent current_file of
        None \<Rightarrow> Panic
      | Some dir \<Rightarrow>
          rbind (resolve_include_path ops fs include_path dir search_dirs) (\<lambda>resolved.
          rbind (resolve_includes ops fs search_dirs current_file captures) (\<lambda>ps.
          Ok (case resolved of Some path \<Rightarrow> path # ps | None \<Rightarrow> ps))))"

definition file_includes ::
  "('cf, 'pk, 'ar, 'ex, 'vcp, 'cc) circuit_ops \<Rightarrow> disk \<Rightarrow> string list \<Rightarrow> string \<Rightarrow> (string list, string) result" where
  "file_includes ops fs search_dirs current_file =
     rbind (read_to_string current_file fs) (\<lambda>content.
     resolve_includes ops fs search_dirs current_file (co_captures ops include_pattern content))"

definition real_paths :: "('cf, 'pk, 'ar, 'ex, 'vcp, 'cc) circuit_ops \<Rightarrow> disk \<Rightarrow> string set" where
  "real_paths ops fs = snd ` set (co_names ops fs)"

lemma finite_real_paths [simp]: "finite (real_paths ops fs)"
  by (simp add: real_paths_def)

lemma resolve_include_path_names:
  "resolve_include_path ops fs inc dir sd = Ok (Some q) \<Longrightarrow> q \<in> real_paths ops fs"
  by (force simp: resolve_include_path_def canonicalize_def real_paths_def Let_def split: option.splits
      dest: map_of_SomeD)

lemma resolve_includes_names:
  "resolve_includes ops fs sd cur caps = Ok ps \<Longrightarrow> set ps \<subseteq> real_paths ops fs"
proof (induction caps arbitrary: ps)
  case (Cons c caps)
  then show ?case
    apply (simp add: rbind_eq_Ok_iff split: option.splits)
    apply (elim exE conjE)
    subgoal for dir resolved xa
      using resolve_include_path_names [of ops fs c dir sd] by (cases resolved) force+
    done
qed simp

lemma file_includes_names: "file_includes ops fs sd cur = Ok ps \<Longrightarrow> set ps \<subseteq> real_paths ops fs"
  by (auto simp: file_includes_def rbind_eq_Ok_iff dest!: resolve_includes_names)

declare rbind_cong [fundef_cong]

text \<open>The stack's top is the head of \<open>to_process\<close>.\<close>

function extract_loop ::
  "('cf, 'pk, 'ar, 'ex, 'vcp, 'cc) circuit_ops \<Rightarrow> disk \<Rightarrow> string list \<Rightarrow> string list \<Rightarrow> string list \<Rightarrow> string list \<Rightarrow>
   (string list, string) result" where
  "extract_loop ops fs search_dirs visited [] dependencies = Ok dependencies"
| "extract_loop ops fs search_dirs visited (current_file # to_process) dependencies =
     (if current_file \<in> set visited then extract_loop ops fs search_dirs visited to_process dependencies
      else
        rbind (file_includes ops fs search_dirs current_file) (\<lambda>paths.
        extract_loop ops fs search_dirs (current_file # visited) (rev paths @ to_process) (dependencies @ paths)))"
  by pat_completeness auto
termination
proof (relation "(\<lambda>(ops, fs, sd, visited, st, deps). card ((set st \<union> real_paths ops fs) - set visited))
    <*mlex*> measure (\<lambda>(ops, fs, sd, visited, st, deps). length st)", goal_cases)
  case 1
  then show ?case by (simp add: wf_mlex)
next
  case (2 ops fs sd visited cur st deps)
  then show ?case by (intro mlex_leq) (auto intro!: card_mono)
next
  case (3 ops fs sd visited cur st deps paths)
  from file_includes_names [OF 3(2)] have names: "set paths \<subseteq> real_paths ops fs" .
  have "(set (rev paths @ st) \<union> real_paths ops fs) - set (cur # visited)
      \<subset> (set (cur # st) \<union> real_paths ops fs) - set visited"
    using names 3(1) by auto
  then show ?case by (intro mlex_less) (simp add: psubset_card_mono)
qed

definition extract_circom_dependencies ::
  "('cf, 'pk, 'ar, 'ex, 'vcp, 'cc) circuit_ops \<Rightarrow> disk \<Rightarrow> string \<Rightarrow> string \<Rightarrow> (string list, string) result" where
  "extract_circom_dependencies ops fs main_file base_dir =
     extract_loop ops fs [base_dir, path_join base_dir ''src'', path_join base_dir ''node_modules''] [] [main_file] []"

text \<open>Whether a file is newer than the artifacts.\<close>

fun check_dependencies_need_rebuild :: "string list \<Rightarrow> nat \<Rightarrow> bool build" where
  "check_dependencies_need_rebuild [] artifact_modified w = (Ok False, w)"
| "check_dependencies_need_rebuild (file_path # files) artifact_modified w =
     (case modified (ow_fs w) file_path of
        None \<Rightarrow> (Err ''No such file or directory (os error 2)'', w)
      | Some t \<Rightarrow>
          if artifact_modified < t then
            act_bind (println (''cargo:warning=File '' @ file_path @ '' is newer than artifacts, rebuilding...''))
              (\<lambda>_. act_lift (\<lambda>_. Ok True)) w
          else check_dependencies_need_rebuild files artifact_modified w)"

end
