(* ===== verification/Build_Script.thy ===== *)
theory Build_Script
  imports Build_Circuits
begin

text \<open>
  The last part of the circuits' build script (\<open>circuits/build.rs\<close>): fetching circomlib, compiling to
  WebAssembly, one circuit's stages in their order, and \<open>main\<close>.
\<close>

section \<open>Steps\<close>

type_synonym ('cf, 'pk, 'ar, 'ex, 'vcp, 'cc) script = "('cf, 'pk, 'ar, 'ex, 'vcp, 'cc) circuit_ops"

definition act_expect :: "'a build \<Rightarrow> 'a build" where
  "act_expect m w = (case m w of (Err _, w') \<Rightarrow> (Panic, w') | r \<Rightarrow> r)"

definition act_ok :: "'a \<Rightarrow> 'a build" where
  "act_ok x = act_lift (\<lambda>_. Ok x)"

definition act_some :: "string \<Rightarrow> 'a option \<Rightarrow> 'a build" where
  "act_some msg opt = act_lift (\<lambda>_. case opt of None \<Rightarrow> Err msg | Some x \<Rightarrow> Ok x)"

fun act_each :: "('b \<Rightarrow> unit build) \<Rightarrow> 'b list \<Rightarrow> unit build" where
  "act_each f [] = act_ok ()"
| "act_each f (x # xs) = act_bind (f x) (\<lambda>_. act_each f xs)"

definition file_stem :: "string \<Rightarrow> string option" where
  "file_stem p = map_option (\<lambda>name. fst (split_name name)) (file_name p)"

section \<open>Outputs of the compiler\<close>

definition generate_output_r1cs :: "('cf, 'pk, 'ar, 'ex, 'vcp, 'cc) script \<Rightarrow> string \<Rightarrow> 'ex \<Rightarrow> bool \<Rightarrow> unit build" where
  "generate_output_r1cs ops file exporter custom_gates =
     act_bind (act_fs (co_export_r1cs ops file exporter custom_gates)) (\<lambda>_.
     println (''Written successfully: '' @ file))"

definition generate_output_sym :: "('cf, 'pk, 'ar, 'ex, 'vcp, 'cc) script \<Rightarrow> string \<Rightarrow> 'ex \<Rightarrow> unit build" where
  "generate_output_sym ops file exporter =
     act_bind (act_fs (co_export_sym ops file exporter)) (\<lambda>_. println (''Written successfully: '' @ file))"

definition circomlib_args :: "string \<Rightarrow> string list" where
  "circomlib_args path = [''clone'', ''--depth=1'', ''https://github.com/iden3/circomlib.git'', path]"

text \<open>The exit status of git is a value, not an error.\<close>

definition run_git :: "('cf, 'pk, 'ar, 'ex, 'vcp, 'cc) script \<Rightarrow> string list \<Rightarrow> nat build" where
  "run_git ops args w =
     act_context ''Error cloning circomlib dependency'' (act_fs (co_git ops args))
       (w\<lparr>ow_calls := ow_calls w @ [(''git'', args)]\<rparr>)"

definition get_circomlib :: "('cf, 'pk, 'ar, 'ex, 'vcp, 'cc) script \<Rightarrow> string \<Rightarrow> nat build" where
  "get_circomlib ops directory =
     (let circomlib_path = path_join directory ''circomlib'';
          clone = act_bind (println ''cargo:warning=Cloning circomlib repository...'') (\<lambda>_.
            run_git ops (circomlib_args circomlib_path)) in
      act_bind (act_lift (\<lambda>fs. Ok (path_exists fs circomlib_path, path_exists fs (path_join circomlib_path ''.git''))))
        (\<lambda>(present, repository).
        if present \<and> repository then
          act_bind (println (''cargo:warning=circomlib already exists at '' @ debug_path circomlib_path))
            (\<lambda>_. act_ok 0)
        else if present then
          act_bind (act_fs (co_remove_dir_all ops circomlib_path)) (\<lambda>_. clone)
        else clone))"

section \<open>WebAssembly\<close>

definition wat_to_wasm :: "('cf, 'pk, 'ar, 'ex, 'vcp, 'cc) script \<Rightarrow> string \<Rightarrow> string \<Rightarrow> unit build" where
  "wat_to_wasm ops wat_file wasm_file =
     act_bind (act_lift (\<lambda>fs. map_err (\<lambda>e. ''read_to_string('' @ wat_file @ ''): '' @ e) (read_to_string wat_file fs)))
       (\<lambda>wat_contents.
     act_bind (act_lift (\<lambda>_. co_wat_encode ops wat_contents)) (\<lambda>wasm_bytes.
     act_bind (\<lambda>w. case act_fs (co_create ops wasm_file) w of
                (r, w') \<Rightarrow> (map_err (\<lambda>e. ''File::create('' @ wasm_file @ ''): '' @ e) r, w')) (\<lambda>_.
     act_bind (act_fs (bo_write ops wasm_file wasm_bytes)) (\<lambda>_.
     act_expect (act_fs (co_remove_file ops wat_file))))))"

definition js_folder :: "string \<Rightarrow> string \<Rightarrow> string" where
  "js_folder out_dir base = path_join (path_join out_dir ''wasm'') (base @ ''_js'')"

definition arrow :: string where
  "arrow = [CHR 0xE2, CHR 0x86, CHR 0x92]"

definition compile_wasm :: "('cf, 'pk, 'ar, 'ex, 'vcp, 'cc) script \<Rightarrow> string \<Rightarrow> string \<Rightarrow> 'vcp \<Rightarrow> unit build" where
  "compile_wasm ops entry_file out_dir vcp =
     act_bind (act_lift (\<lambda>fs. case parse_circom_version ''compiler'' fs of
         None \<Rightarrow> Err ''Could not parse Circom compiler version from Cargo.toml''
       | Some version \<Rightarrow> map_err (\<lambda>e. ''run_compiler failed: '' @ e) (co_run_compiler ops vcp version)))
       (\<lambda>circuit.
     act_bind (act_some ''Invalid circom filename'' (file_stem entry_file)) (\<lambda>base.
     let folder = js_folder out_dir base;
         wat_file = path_join folder (base @ ''.wat'');
         wasm_file = path_join folder (base @ ''.wasm'') in
     act_bind (\<lambda>w. if path_exists (ow_fs w) folder then act_fs (co_remove_dir_all ops folder) w else (Ok (), w)) (\<lambda>_.
     act_bind (act_fs (bo_create_dir_all ops folder)) (\<lambda>_.
     act_bind (act_context ''write_wasm failed'' (act_fs (co_write_wasm ops circuit folder base wat_file))) (\<lambda>_.
     act_match (wat_to_wasm ops wat_file wasm_file) act_ok
       (\<lambda>e. println (''cargo:warning=WAT '' @ arrow @ '' WASM compilation failed: '' @ e)))))))"

section \<open>One circuit\<close>

definition policy_circuit :: string where
  "policy_circuit = ''policy_tx_2_2''"

text \<open>Whether a circuit is done with what an earlier build left.\<close>

definition circuit_up_to_date ::
  "('cf, 'pk, 'ar, 'ex, 'vcp, 'cc) script \<Rightarrow> string \<Rightarrow> string \<Rightarrow> string \<Rightarrow> string \<Rightarrow> string \<Rightarrow> string \<Rightarrow> string list \<Rightarrow> bool build" where
  "circuit_up_to_date ops crate_dir out_dir circom_file circuit_name r1cs_file sym_file dependencies w =
     (case (modified (ow_fs w) r1cs_file, modified (ow_fs w) sym_file) of
        (Some r1cs_modified, Some sym_modified) \<Rightarrow>
          act_bind (check_dependencies_need_rebuild (circom_file # dependencies) (max r1cs_modified sym_modified))
            (\<lambda>needs_rebuild.
            if needs_rebuild then act_ok False
            else
              act_bind (println (''cargo:warning=Skipping '' @ circom_file @
                '' (already compiled, all dependencies up to date)'')) (\<lambda>_.
              if circuit_name \<noteq> policy_circuit then act_ok True
              else
                act_bind (act_lift (\<lambda>fs. Ok (path_exists fs (wasm_path out_dir circuit_name)))) (\<lambda>wasm_exists.
                if \<not> wasm_exists then
                  act_bind (println (''cargo:warning=WASM missing for '' @ circuit_name @
                    '' - forcing recompilation to enable key generation'')) (\<lambda>_. act_ok False)
                else
                  act_bind (act_match (generate_keys_if_needed (build_ops.truncate ops) crate_dir out_dir circuit_name r1cs_file)
                    (\<lambda>_. act_ok ()) (\<lambda>e. println (''cargo:warning=Key generation failed: '' @ e)))
                    (\<lambda>_. act_ok True)))) w
      | _ \<Rightarrow> (Ok False, w))"

definition compile_stages ::
  "('cf, 'pk, 'ar, 'ex, 'vcp, 'cc) script \<Rightarrow> string \<Rightarrow> string \<Rightarrow> string \<Rightarrow> string \<Rightarrow> string \<Rightarrow> 'ar \<Rightarrow> unit build" where
  "compile_stages ops crate_dir out_dir circom_file circuit_name out_file archive =
     act_bind (act_lift (\<lambda>_. co_check_types ops archive)) (\<lambda>checked.
     act_bind (act_context ''Error building circuit'' (act_lift (\<lambda>_. co_build_circuit ops checked))) (\<lambda>(exporter, vcp).
     act_bind (act_expect (generate_output_r1cs ops (with_extension out_file ''r1cs'') exporter (co_custom_gates ops checked))) (\<lambda>_.
     act_bind (act_expect (generate_output_sym ops (with_extension out_file ''sym'') exporter)) (\<lambda>_.
     act_bind (act_match (compile_wasm ops circom_file out_dir vcp) (\<lambda>_. act_ok True)
       (\<lambda>e. act_bind (println (''cargo:warning=WASM generation failed for '' @ debug_path circom_file @ '': '' @ e))
          (\<lambda>_. act_ok False))) (\<lambda>wasm_success.
     if circuit_name \<noteq> policy_circuit then act_ok ()
     else if \<not> wasm_success then
       println (''cargo:warning=Skipping key generation for '' @ circuit_name @ '' - WASM compilation failed'')
     else
       act_match (generate_keys_if_needed (build_ops.truncate ops) crate_dir out_dir circuit_name (with_extension out_file ''r1cs''))
         (\<lambda>generated. act_when generated [''cargo:warning=Key generation completed for '' @ circuit_name])
         (\<lambda>e. println (''cargo:warning=Key generation failed for '' @ circuit_name @ '': '' @ e)))))))"

definition compile_circuit :: "('cf, 'pk, 'ar, 'ex, 'vcp, 'cc) script \<Rightarrow> string \<Rightarrow> string \<Rightarrow> string \<Rightarrow> unit build" where
  "compile_circuit ops crate_dir out_dir circom_file =
     act_bind (println (''cargo:rerun-if-changed='' @ circom_file)) (\<lambda>_.
     act_bind (act_some ''Invalid circom filename'' (file_stem circom_file)) (\<lambda>stem.
     let out_file = path_join out_dir stem in
     act_bind (act_lift (\<lambda>fs. case parse_circom_version ''compiler'' fs of
         None \<Rightarrow> Panic
       | Some version \<Rightarrow> map_err (\<lambda>_. ''Parser failed to run on '' @ circom_file) (co_parse ops circom_file version fs)))
       (\<lambda>archive.
     act_bind (act_lift (\<lambda>fs. extract_circom_dependencies ops fs circom_file crate_dir)) (\<lambda>dependencies.
     act_bind (act_when True (map (\<lambda>dep. ''cargo:rerun-if-changed='' @ dep) dependencies)) (\<lambda>_.
     act_bind (circuit_up_to_date ops crate_dir out_dir circom_file stem
       (with_extension out_file ''r1cs'') (with_extension out_file ''sym'') dependencies) (\<lambda>up_to_date.
     if up_to_date then act_ok ()
     else compile_stages ops crate_dir out_dir circom_file stem out_file archive))))))"

section \<open>The script\<close>

definition search_circuits :: "(disk \<Rightarrow> string list \<times> string list) \<Rightarrow> string list build" where
  "search_circuits search =
     act_bind (act_lift (\<lambda>fs. Ok (search fs))) (\<lambda>(files, out).
     act_bind (act_when True out) (\<lambda>_. act_ok files))"

definition watched_keys :: "string \<Rightarrow> string list" where
  "watched_keys crate_dir =
     map (\<lambda>name. ''cargo:rerun-if-changed='' @ path_join (keys_dir crate_dir) name)
       [''policy_tx_2_2_proving_key.bin'', ''policy_tx_2_2_vk.json'', ''policy_tx_2_2_vk_soroban.bin'']"

definition env_var :: "('cf, 'pk, 'ar, 'ex, 'vcp, 'cc) script \<Rightarrow> string \<Rightarrow> string build" where
  "env_var ops name = act_some ''environment variable not found'' (bo_env ops name)"

definition build_main :: "('cf, 'pk, 'ar, 'ex, 'vcp, 'cc) script \<Rightarrow> unit build" where
  "build_main ops =
     act_bind (println (''cargo:warning=Circuits builder Copyright (C) 2025 Stellar Development Foundation. '' @
       ''This program comes with ABSOLUTELY NO WARRANTY. This is free software, and you are welcome to '' @
       ''redistribute it under certain conditions.'')) (\<lambda>_.
     act_bind (env_var ops ''CARGO_MANIFEST_DIR'') (\<lambda>crate_dir.
     let src_dir = path_join crate_dir ''src'' in
     act_bind (env_var ops ''OUT_DIR'') (\<lambda>out.
     let out_dir = path_join out ''circuits'' in
     act_bind (act_context ''Could not create OUT_DIR/circuits'' (act_fs (bo_create_dir_all ops out_dir))) (\<lambda>_.
     act_bind (act_when True ([''cargo:rustc-env=CIRCUIT_OUT_DIR='' @ out_dir, ''cargo:rerun-if-changed=build.rs'',
       ''cargo:rerun-if-env-changed=BUILD_TESTS'', ''cargo:rerun-if-env-changed=REGEN_KEYS''] @
       watched_keys crate_dir)) (\<lambda>_.
     act_bind (get_circomlib ops src_dir) (\<lambda>_.
     act_bind (search_circuits (\<lambda>fs. find_circom_files (co_path_max ops) fs src_dir)) (\<lambda>found.
     act_bind (if bo_env ops ''BUILD_TESTS'' \<noteq> None then
         act_bind (println ''cargo:warning=Including test circuits in build...'') (\<lambda>_.
         search_circuits (\<lambda>fs. find_circom_files_impl (co_path_max ops) fs False src_dir))
       else
         act_bind (println ''cargo:warning=Skipping test circuits (set BUILD_TESTS=1 to include)'') (\<lambda>_.
         act_ok found)) (\<lambda>circom_files.
     if circom_files = [] then println ''cargo:warning=No circom files found to compile''
     else act_each (compile_circuit ops crate_dir out_dir) circom_files))))))))"

end
