(* ===== verification/Deploy_Key.thy ===== *)
theory Deploy_Key
  imports Build_Keys
begin

text \<open>
  The conversion of a snarkjs verification key into the argument of the verifier's constructor that
  the deployment script makes (\<open>scripts/deploy.sh\<close>, the embedded Python program).  Values are the JSON
  values as Python reads them: a subscript, an iteration or a two-element unpacking fails where Python
  raises.  Unicode digits and white space, and the interpreter's limit on the length of a number, are
  left out; \<open>float_value\<close> is what \<open>int\<close> makes of a number that is no 64-bit integer.
\<close>

section \<open>Python values\<close>

fun py_digits :: "nat \<Rightarrow> bool \<Rightarrow> string \<Rightarrow> nat option" where
  "py_digits acc after_digit [] = (if after_digit then Some acc else None)"
| "py_digits acc after_digit (c # cs) =
     (if c = CHR ''_'' then if after_digit then py_digits acc False cs else None
      else case dec_digit c of None \<Rightarrow> None | Some d \<Rightarrow> py_digits (10 * acc + d) True cs)"

definition py_space :: "char \<Rightarrow> bool" where
  "py_space c = (let n = of_char c :: nat in n = 32 \<or> (9 \<le> n \<and> n \<le> 13) \<or> (28 \<le> n \<and> n \<le> 31))"

definition py_strip :: "string \<Rightarrow> string" where
  "py_strip s = rev (dropWhile py_space (rev (dropWhile py_space s)))"

definition py_int :: "string \<Rightarrow> int option" where
  "py_int s =
     (case py_strip s of
        [] \<Rightarrow> None
      | c # cs \<Rightarrow>
          if c = CHR ''-'' then map_option (\<lambda>n. - int n) (py_digits 0 False cs)
          else if c = CHR ''+'' then map_option int (py_digits 0 False cs)
          else map_option int (py_digits 0 False (c # cs)))"

fun py_int_of :: "int option \<Rightarrow> json \<Rightarrow> int option" where
  "py_int_of float_value (JString s) = py_int s"
| "py_int_of float_value (JNumber (Some u) _) = Some (uint u)"
| "py_int_of float_value (JNumber None (Some i)) = Some (sint i)"
| "py_int_of float_value (JNumber None None) = float_value"
| "py_int_of float_value (JBool b) = Some (if b then 1 else 0)"
| "py_int_of float_value _ = None"

text \<open>\<open>v[key]\<close>, \<open>v[i]\<close> and the elements of \<open>v\<close>; of equal keys the last counts.\<close>

fun py_key :: "string \<Rightarrow> json \<Rightarrow> json option" where
  "py_key key (JObject kvs) = map_of (rev kvs) key"
| "py_key key _ = None"

fun py_elements :: "json \<Rightarrow> json list option" where
  "py_elements (JArray xs) = Some xs"
| "py_elements (JString s) = Some (map (\<lambda>c. JString [c]) s)"
| "py_elements (JObject kvs) = Some (map JString (rev (remdups (rev (map fst kvs)))))"
| "py_elements _ = None"

fun py_index :: "nat \<Rightarrow> json \<Rightarrow> json option" where
  "py_index i (JArray xs) = vec_get xs i"
| "py_index i (JString s) = map_option (\<lambda>c. JString [c]) (vec_get s i)"
| "py_index i _ = None"

section \<open>The conversion\<close>

definition to_hex :: "bytes \<Rightarrow> string" where
  "to_hex bs = concat (map hex_byte bs)"

definition to_hex32 :: "int option \<Rightarrow> json \<Rightarrow> string option" where
  "to_hex32 float_value v =
     Option.bind (py_int_of float_value v) (\<lambda>n.
     if 0 \<le> n \<and> n < 2 ^ 256 then Some (to_hex (nat_to_be 32 (nat n))) else None)"

definition hex_append :: "string option \<Rightarrow> string option \<Rightarrow> string option" where
  "hex_append a b = Option.bind a (\<lambda>x. map_option (\<lambda>y. x @ y) b)"

definition deploy_g1_bytes :: "int option \<Rightarrow> json \<Rightarrow> string option" where
  "deploy_g1_bytes float_value pt =
     hex_append (Option.bind (py_index 0 pt) (to_hex32 float_value)) (Option.bind (py_index 1 pt) (to_hex32 float_value))"

definition py_pair :: "json \<Rightarrow> (json \<times> json) option" where
  "py_pair v = (case py_elements v of Some [a, b] \<Rightarrow> Some (a, b) | _ \<Rightarrow> None)"

definition deploy_g2_bytes :: "int option \<Rightarrow> json \<Rightarrow> string option" where
  "deploy_g2_bytes float_value pt =
     Option.bind (Option.bind (py_index 0 pt) py_pair) (\<lambda>(x_im, x_re).
     Option.bind (Option.bind (py_index 1 pt) py_pair) (\<lambda>(y_im, y_re).
     hex_append (hex_append (hex_append (to_hex32 float_value x_im) (to_hex32 float_value x_re))
       (to_hex32 float_value y_im)) (to_hex32 float_value y_re)))"

fun option_all :: "'a option list \<Rightarrow> 'a list option" where
  "option_all [] = Some []"
| "option_all (x # xs) = Option.bind x (\<lambda>a. map_option (\<lambda>as. a # as) (option_all xs))"

definition deploy_verification_key :: "int option \<Rightarrow> json \<Rightarrow> json option" where
  "deploy_verification_key float_value data =
     Option.bind (Option.bind (py_key ''vk_alpha_1'' data) (deploy_g1_bytes float_value)) (\<lambda>alpha.
     Option.bind (Option.bind (py_key ''vk_beta_2'' data) (deploy_g2_bytes float_value)) (\<lambda>beta.
     Option.bind (Option.bind (py_key ''vk_gamma_2'' data) (deploy_g2_bytes float_value)) (\<lambda>gamma.
     Option.bind (Option.bind (py_key ''vk_delta_2'' data) (deploy_g2_bytes float_value)) (\<lambda>delta.
     Option.bind (Option.bind (Option.bind (py_key ''IC'' data) py_elements)
       (\<lambda>ps. option_all (map (deploy_g1_bytes float_value) ps))) (\<lambda>ic.
     Some (JObject [(''alpha'', JString alpha), (''beta'', JString beta), (''gamma'', JString gamma),
       (''delta'', JString delta), (''ic'', JArray (map JString ic))]))))))"

section \<open>What the build script wrote\<close>

lemma plain_digit:
  assumes "dec_digit c = Some d"
  shows "c \<noteq> CHR ''_''" "c \<noteq> CHR ''-''" "c \<noteq> CHR ''+''" "\<not> py_space c"
  using assms by (auto simp: dec_digit_def py_space_def Let_def split: if_splits)

lemma py_digits_append:
  assumes "\<forall>c \<in> set xs. dec_digit c \<noteq> None" and "xs \<noteq> []"
  shows "py_digits acc a (xs @ ys) = Option.bind (py_digits acc a xs) (\<lambda>n. py_digits n True ys)"
  using assms
proof (induction xs arbitrary: acc a)
  case (Cons c cs)
  then obtain d where d: "dec_digit c = Some d" by auto
  show ?case
  proof (cases "cs = []")
    case False
    with Cons.IH Cons.prems show ?thesis by (simp add: d plain_digit [OF d])
  qed (simp add: d plain_digit [OF d])
qed simp

lemma show_nat_plain: "show_nat n \<noteq> [] \<and> (\<forall>c \<in> set (show_nat n). dec_digit c \<noteq> None)"
proof (induction n rule: show_nat.induct)
  case (1 n)
  then show ?case by (cases "n < 10") (auto simp: show_nat.simps [of n])
qed

lemma py_digits_show: "py_digits 0 False (show_nat n) = Some n"
proof (induction n rule: show_nat.induct)
  case (1 n)
  have last_digit: "py_digits acc a [digit_char d] = Some (10 * acc + d)" if "d < 10" for acc a d
    using that plain_digit(1) [OF dec_digit_char [OF that]] by simp
  show ?case
  proof (cases "n < 10")
    case False
    then have "show_nat n = show_nat (n div 10) @ [digit_char (n mod 10)]" by (simp add: show_nat.simps [of n])
    moreover have "10 * (n div 10) + n mod 10 = n" by simp
    ultimately show ?thesis
      using 1 [OF False] show_nat_plain [of "n div 10"] by (simp add: py_digits_append last_digit del: py_digits.simps)
  qed (simp add: show_nat.simps [of n] last_digit del: py_digits.simps)
qed

lemma py_int_show: "py_int (show_nat n) = Some (int n)"
proof -
  have plain: "\<forall>c \<in> set (show_nat n). \<not> py_space c" "\<forall>c \<in> set (show_nat n). c \<noteq> CHR ''-'' \<and> c \<noteq> CHR ''+''"
    using show_nat_plain [of n] plain_digit by fast+
  have "dropWhile py_space xs = xs" if "\<forall>c \<in> set xs. \<not> py_space c" for xs
    using that by (cases xs) auto
  from this [of "show_nat n"] this [of "rev (show_nat n)"] plain(1)
  have "py_strip (show_nat n) = show_nat n" by (simp add: py_strip_def)
  moreover obtain c cs where cs: "show_nat n = c # cs" using show_nat_plain [of n] by (cases "show_nat n") auto
  moreover have "c \<noteq> CHR ''-''" "c \<noteq> CHR ''+''" using plain(2) cs by auto
  moreover note py_digits_show [of n]
  ultimately show ?thesis by (simp add: py_int_def del: py_digits.simps)
qed

lemma to_hex32_decimal: "to_hex32 fv (JString (fq_to_decimal f)) = Some (to_hex (bigint_to_be_32 f))"
proof -
  have "nat_to_be 32 (f mod 256 ^ 32) = nat_to_be 32 f"
    using nat_to_be_be_to_nat [of "nat_to_be 32 f" 32] by (simp add: be_to_nat_nat_to_be)
  moreover have "f mod 256 ^ 32 < 2 ^ 256"
    using mod_less_divisor [of "256 ^ 32" f] by (simp add: power_mult [symmetric])
  ultimately show ?thesis
    by (simp add: to_hex32_def fq_to_decimal_def py_int_show be_to_nat_nat_to_be bigint_to_be_32_eq)
qed

lemma deploy_g1_snarkjs: "deploy_g1_bytes fv (g1_to_snarkjs p) = Some (to_hex (g1_to_soroban_bytes p))"
  by (simp add: deploy_g1_bytes_def g1_to_snarkjs_def g1_to_soroban_bytes_def vec_get_def hex_append_def
      to_hex32_decimal to_hex_def)

lemma deploy_g2_snarkjs: "deploy_g2_bytes fv (g2_to_snarkjs p) = Some (to_hex (g2_to_soroban_bytes p))"
  by (simp add: deploy_g2_bytes_def g2_to_snarkjs_def g2_to_soroban_bytes_def vec_get_def hex_append_def
      py_pair_def to_hex32_decimal to_hex_def)

lemma option_all_Some: "(\<And>x. f x = Some (g x)) \<Longrightarrow> option_all (map f xs) = Some (map g xs)"
  by (induction xs) auto

lemma deploy_snarkjs:
  "deploy_verification_key fv (vk_to_snarkjs_json vk) =
   Some (JObject [(''alpha'', JString (to_hex (g1_to_soroban_bytes (av_alpha vk)))),
     (''beta'', JString (to_hex (g2_to_soroban_bytes (av_beta vk)))),
     (''gamma'', JString (to_hex (g2_to_soroban_bytes (av_gamma vk)))),
     (''delta'', JString (to_hex (g2_to_soroban_bytes (av_delta vk)))),
     (''ic'', JArray (map (\<lambda>p. JString (to_hex (g1_to_soroban_bytes p))) (av_ic vk)))])"
  by (simp add: deploy_verification_key_def vk_to_snarkjs_json_def deploy_g1_snarkjs deploy_g2_snarkjs
      option_all_Some comp_def)

end
