(* ===== verification/Build_Props.thy ===== *)
theory Build_Props
  imports Build_Script Deploy_Key
begin

text \<open>
  What the build script guarantees: include dependencies are exactly the files reachable by includes,
  a circuit that is skipped is no older than any of them, existing keys are not replaced unasked, and
  the three forms of a verification key agree with what the deployment script passes to the verifier.
  The regular expression that finds includes is anchored, and a section draws the consequence of it.
\<close>

section \<open>Dependencies\<close>

definition search_dirs :: "string \<Rightarrow> string list" where
  "search_dirs base_dir = [base_dir, path_join base_dir ''src'', path_join base_dir ''node_modules'']"

definition build_includes ::
  "('cf, 'pk, 'ar, 'ex, 'vcp, 'cc) circuit_ops \<Rightarrow> disk \<Rightarrow> string \<Rightarrow> string \<Rightarrow> string \<Rightarrow> bool" where
  "build_includes ops fs base_dir p q \<longleftrightarrow> (\<exists>ps. file_includes ops fs (search_dirs base_dir) p = Ok ps \<and> q \<in> set ps)"

text \<open>The loop's state: files visited, the stack and the dependencies found.\<close>

definition extracting ::
  "('cf, 'pk, 'ar, 'ex, 'vcp, 'cc) circuit_ops \<Rightarrow> disk \<Rightarrow> string \<Rightarrow> string \<Rightarrow>
   string list \<Rightarrow> string list \<Rightarrow> string list \<Rightarrow> bool" where
  "extracting ops fs base main visited stack deps \<longleftrightarrow>
     main \<in> set visited \<union> set stack \<and> set deps \<subseteq> set visited \<union> set stack \<and>
     (\<forall>q \<in> set visited \<union> set stack. (build_includes ops fs base)\<^sup>*\<^sup>* main q) \<and>
     (\<forall>q \<in> set deps. (build_includes ops fs base)\<^sup>+\<^sup>+ main q) \<and>
     (\<forall>p \<in> set visited. \<exists>ps. file_includes ops fs (search_dirs base) p = Ok ps \<and> set ps \<subseteq> set deps)"

lemma extracting_skip:
  "extracting ops fs base main visited (p # st) deps \<Longrightarrow> p \<in> set visited \<Longrightarrow> extracting ops fs base main visited st deps"
  by (auto simp: extracting_def)

lemma extracting_visit:
  assumes e: "extracting ops fs base main visited (p # st) deps"
    and inc: "file_includes ops fs (search_dirs base) p = Ok ps"
  shows "extracting ops fs base main (p # visited) (rev ps @ st) (deps @ ps)"
proof -
  have "(build_includes ops fs base)\<^sup>*\<^sup>* main p" using e by (simp add: extracting_def)
  then have "(build_includes ops fs base)\<^sup>+\<^sup>+ main q" if "q \<in> set ps" for q
    using that inc by (auto simp: build_includes_def intro: rtranclp_into_tranclp1)
  moreover have "\<exists>qs. file_includes ops fs (search_dirs base) r = Ok qs \<and> set qs \<subseteq> set (deps @ ps)"
    if "r \<in> set (p # visited)" for r
  proof (cases "r = p")
    case False
    with that e have "\<exists>qs. file_includes ops fs (search_dirs base) r = Ok qs \<and> set qs \<subseteq> set deps"
      by (simp add: extracting_def)
    then show ?thesis by auto
  qed (use inc in auto)
  ultimately show ?thesis using e unfolding extracting_def by (auto dest: tranclp_into_rtranclp)
qed

lemma extracting_done:
  assumes "extracting ops fs base main visited [] deps"
  shows "set deps = {q. (build_includes ops fs base)\<^sup>+\<^sup>+ main q}"
    and "(build_includes ops fs base)\<^sup>*\<^sup>* main p \<Longrightarrow> \<exists>ps. file_includes ops fs (search_dirs base) p = Ok ps"
proof -
  have closed: "p \<in> set visited" if "(build_includes ops fs base)\<^sup>*\<^sup>* main p" for p
    using that
  proof (induction rule: rtranclp_induct)
    case base
    then show ?case using assms by (simp add: extracting_def)
  next
    case (step y z)
    then obtain ps where "file_includes ops fs (search_dirs base) y = Ok ps" "z \<in> set ps"
      by (auto simp: build_includes_def)
    with assms step.IH show ?case by (fastforce simp: extracting_def)
  qed
  have "q \<in> set deps" if q: "(build_includes ops fs base)\<^sup>+\<^sup>+ main q" for q
  proof -
    from q obtain y where "(build_includes ops fs base)\<^sup>*\<^sup>* main y" "build_includes ops fs base y q"
      by (metis tranclpD rtranclp.rtrancl_refl tranclp.cases tranclp_into_rtranclp)
    with closed [of y] assms show ?thesis by (fastforce simp: extracting_def build_includes_def)
  qed
  with assms show "set deps = {q. (build_includes ops fs base)\<^sup>+\<^sup>+ main q}" by (auto simp: extracting_def)
  assume "(build_includes ops fs base)\<^sup>*\<^sup>* main p"
  with closed assms show "\<exists>ps. file_includes ops fs (search_dirs base) p = Ok ps" by (auto simp: extracting_def)
qed

lemma extract_loop_ends:
  "extracting ops fs base main visited stack deps \<Longrightarrow>
   extract_loop ops fs (search_dirs base) visited stack deps = Ok out \<Longrightarrow>
   \<exists>visited. extracting ops fs base main visited [] out"
proof (induction ops fs "search_dirs base" visited stack deps rule: extract_loop.induct)
  case (2 ops fs visited p st deps)
  show ?case
  proof (cases "p \<in> set visited")
    case True
    with 2 show ?thesis by (auto dest: extracting_skip)
  next
    case False
    with 2(4) obtain ps where ps: "file_includes ops fs (search_dirs base) p = Ok ps"
      "extract_loop ops fs (search_dirs base) (p # visited) (rev ps @ st) (deps @ ps) = Ok out"
      by (auto simp: rbind_eq_Ok_iff)
    from 2(2) [OF False ps(1) extracting_visit [OF 2(3) ps(1)] ps(2)] show ?thesis .
  qed
qed auto

lemma extract_loop_succeeds:
  "extracting ops fs base main visited stack deps \<Longrightarrow>
   (\<And>p. (build_includes ops fs base)\<^sup>*\<^sup>* main p \<Longrightarrow> \<exists>ps. file_includes ops fs (search_dirs base) p = Ok ps) \<Longrightarrow>
   \<exists>out. extract_loop ops fs (search_dirs base) visited stack deps = Ok out"
proof (induction ops fs "search_dirs base" visited stack deps rule: extract_loop.induct)
  case (2 ops fs visited p st deps)
  show ?case
  proof (cases "p \<in> set visited")
    case True
    with 2 show ?thesis by (auto dest: extracting_skip)
  next
    case False
    have "(build_includes ops fs base)\<^sup>*\<^sup>* main p" using 2(3) by (simp add: extracting_def)
    from 2(4) [OF this] obtain ps where ps: "file_includes ops fs (search_dirs base) p = Ok ps" by blast
    from 2(2) [OF False ps extracting_visit [OF 2(3) ps] 2(4)] False ps show ?thesis by simp
  qed
qed simp

lemma extracting_start: "extracting ops fs base main [] [main] []"
  by (simp add: extracting_def)

lemma extract_circom_dependencies_loop:
  "extract_circom_dependencies ops fs main base = extract_loop ops fs (search_dirs base) [] [main] []"
  by (simp add: extract_circom_dependencies_def search_dirs_def)

lemma dependencies_reachable:
  assumes "extract_circom_dependencies ops fs main base = Ok deps"
  shows "set deps = {q. (build_includes ops fs base)\<^sup>+\<^sup>+ main q}"
  using extract_loop_ends [OF extracting_start] assms extracting_done(1)
  by (fastforce simp: extract_circom_dependencies_loop)

lemma dependencies_found_iff:
  "(\<exists>deps. extract_circom_dependencies ops fs main base = Ok deps) \<longleftrightarrow>
   (\<forall>p. (build_includes ops fs base)\<^sup>*\<^sup>* main p \<longrightarrow> (\<exists>ps. file_includes ops fs (search_dirs base) p = Ok ps))"
  unfolding extract_circom_dependencies_loop
  by (metis extract_loop_ends [OF extracting_start] extract_loop_succeeds [OF extracting_start] extracting_done(2))

section \<open>Example builds\<close>

text \<open>The engine of the examples knows one pattern: of \<open>include_pattern\<close> it finds the one include a text
  starts with.\<close>

definition quote_char :: "char \<Rightarrow> bool" where
  "quote_char c \<longleftrightarrow> c = CHR 0x22 \<or> c = CHR 0x27"

definition leading_include :: "string \<Rightarrow> string list" where
  "leading_include s =
     (let s1 = dropWhile is_space s; s2 = drop 7 s1; s3 = dropWhile is_space s2;
          path = takeWhile (\<lambda>c. \<not> quote_char c) (tl s3) in
      if starts_with s1 ''include'' \<and> s2 \<noteq> [] \<and> is_space (hd s2) \<and> s3 \<noteq> [] \<and> quote_char (hd s3) \<and>
         path \<noteq> [] \<and> length path < length (tl s3)
      then [path] else [])"

definition include_engine :: "string \<Rightarrow> string \<Rightarrow> string list" where
  "include_engine p s = (if p = include_pattern then leading_include s else [])"

definition example_disk :: "(string \<times> string \<times> nat) list \<Rightarrow> disk" where
  "example_disk files = map_of (map (\<lambda>(p, s, t). (p, Regular (text_bytes s) t)) files)"

definition example_ops :: "(string \<times> string) list \<Rightarrow> (unit, unit, unit, unit, unit, unit) circuit_ops" where
  "example_ops names =
     \<lparr>bo_pointer_width = 64, bo_env = (\<lambda>_. None), bo_write = (\<lambda>p bs fs. (Ok (), fs(p \<mapsto> Regular bs 20))),
      bo_create_dir_all = (\<lambda>p fs. (Ok (), fs(p \<mapsto> Folder [] 20))), bo_json_text = (\<lambda>_. Ok []),
      bo_circom_config = (\<lambda>_ _ _. Ok ()), bo_setup = (\<lambda>_. Err ''no setup''), bo_store_pk = (\<lambda>_. Ok []),
      co_path_max = 4096, co_names = (\<lambda>_. names), co_captures = include_engine,
      co_remove_dir_all = (\<lambda>p fs. (Ok (), fs(p := None))), co_remove_file = (\<lambda>p fs. (Ok (), fs(p := None))),
      co_create = (\<lambda>p fs. (Ok (), fs(p \<mapsto> Regular [] 20))), co_git = (\<lambda>_ fs. (Ok 0, fs)),
      co_parse = (\<lambda>_ _ _. Ok ()), co_check_types = (\<lambda>_. Ok ()), co_custom_gates = (\<lambda>_. False),
      co_build_circuit = (\<lambda>_. Ok ((), ())), co_export_r1cs = (\<lambda>_ _ _ fs. (Ok (), fs)),
      co_export_sym = (\<lambda>_ _ fs. (Ok (), fs)), co_run_compiler = (\<lambda>_ _. Ok ()),
      co_write_wasm = (\<lambda>_ _ _ _ fs. (Ok (), fs)), co_wat_encode = (\<lambda>_. Ok [])\<rparr>"

definition include_line :: string where
  "include_line = ''include '' @ [CHR 0x22] @ ''./y.circom'' @ [CHR 0x22] @ '';''"

definition two_files :: disk where
  "two_files = example_disk [(''/c/x.circom'', include_line, 1), (''/c/./y.circom'', ''template Y() {}'', 9),
     (''/c/y.circom'', ''template Y() {}'', 9), (''/o/x.r1cs'', [], 5), (''/o/x.sym'', [], 9)]"

definition two_names :: "(string \<times> string) list" where
  "two_names = [(''/c/./y.circom'', ''/c/y.circom'')]"

lemma two_files_dependencies:
  "extract_circom_dependencies (example_ops two_names) two_files ''/c/x.circom'' ''/c'' = Ok [''/c/y.circom'']"
  by code_simp

section \<open>Skipping a circuit\<close>

lemma check_dependencies_old:
  "check_dependencies_need_rebuild files t w = (Ok False, w') \<Longrightarrow>
   w' = w \<and> (\<forall>f \<in> set files. \<exists>u. modified (ow_fs w) f = Some u \<and> u \<le> t)"
proof (induction files)
  case (Cons f fs)
  then show ?case by (auto simp: act_bind_Ok split: option.splits if_splits)
qed simp

lemma act_bind_pair: "act_bind m f w = (case m w of (r, w1) \<Rightarrow> (case r of Ok x \<Rightarrow> f x w1 | Err e \<Rightarrow> (Err e, w1) | Panic \<Rightarrow> (Panic, w1)))"
  by (simp add: act_bind_def split: prod.splits result.splits)

lemma println_apply: "println s w = (Ok (), w\<lparr>ow_stdout := ow_stdout w @ [s]\<rparr>)"
  by (simp add: println_def)

lemma act_ok_apply [simp]: "act_ok x w = (Ok x, w)"
  by (simp add: act_ok_def)

lemma up_to_date_means:
  assumes "circuit_up_to_date ops crate_dir out_dir circom_file name r1cs symf deps w = (Ok True, w')"
  shows "\<exists>t1 t2. modified (ow_fs w) r1cs = Some t1 \<and> modified (ow_fs w) symf = Some t2 \<and>
    (\<forall>f \<in> set (circom_file # deps). \<exists>t. modified (ow_fs w) f = Some t \<and> t \<le> max t1 t2)"
    and "name \<noteq> policy_circuit \<Longrightarrow> ow_fs w' = ow_fs w \<and> ow_calls w' = ow_calls w"
proof -
  from assms obtain t1 t2 where t: "modified (ow_fs w) r1cs = Some t1" "modified (ow_fs w) symf = Some t2"
    by (auto simp: circuit_up_to_date_def split: option.splits)
  with assms obtain w1 where w1: "check_dependencies_need_rebuild (circom_file # deps) (max t1 t2) w = (Ok False, w1)"
    by (auto simp: circuit_up_to_date_def act_bind_Ok simp del: check_dependencies_need_rebuild.simps split: if_splits)
  note old = check_dependencies_old [OF w1]
  with t show "\<exists>t1 t2. modified (ow_fs w) r1cs = Some t1 \<and> modified (ow_fs w) symf = Some t2 \<and>
    (\<forall>f \<in> set (circom_file # deps). \<exists>t. modified (ow_fs w) f = Some t \<and> t \<le> max t1 t2)" by blast
  assume "name \<noteq> policy_circuit"
  with assms t w1 old show "ow_fs w' = ow_fs w \<and> ow_calls w' = ow_calls w"
    by (auto simp: circuit_up_to_date_def act_bind_Ok println_apply simp del: check_dependencies_need_rebuild.simps)
qed

text \<open>C34: The search for dependencies returns for every circuit, cyclic includes included: it succeeds
  exactly when each file reachable by includes can be read and its own includes resolved, and its
  result then names exactly the files reachable in one or more steps.\<close>

theorem dependencies_are_reachable_includes:
  "((\<exists>deps. extract_circom_dependencies ops fs main base = Ok deps) \<longleftrightarrow>
    (\<forall>p. (build_includes ops fs base)\<^sup>*\<^sup>* main p \<longrightarrow> (\<exists>ps. file_includes ops fs (search_dirs base) p = Ok ps))) \<and>
   (extract_circom_dependencies ops fs main base = Ok deps \<longrightarrow>
    set deps = {q. (build_includes ops fs base)\<^sup>+\<^sup>+ main q})"
  using dependencies_found_iff dependencies_reachable by blast

theorem dependencies_are_reachable_includes_witness:
  "{q. (build_includes (example_ops two_names) two_files ''/c'')\<^sup>+\<^sup>+ ''/c/x.circom'' q} = {''/c/y.circom''}"
  using dependencies_are_reachable_includes [of "example_ops two_names" two_files "''/c/x.circom''" "''/c''" "[''/c/y.circom'']"]
    two_files_dependencies by simp

text \<open>A circuit is skipped only when both of its artifacts exist and neither the circuit nor any file
  it reaches by includes is newer than the newer artifact; skipping any circuit but the one with keys
  leaves the disk alone.\<close>

theorem skipped_circuit_is_current:
  assumes "extract_circom_dependencies ops (ow_fs w) circom_file crate_dir = Ok deps"
    and "circuit_up_to_date ops crate_dir out_dir circom_file name r1cs symf deps w = (Ok True, w')"
  shows "\<exists>t1 t2. modified (ow_fs w) r1cs = Some t1 \<and> modified (ow_fs w) symf = Some t2 \<and>
    (\<forall>q. (build_includes ops (ow_fs w) crate_dir)\<^sup>*\<^sup>* circom_file q \<longrightarrow>
      (\<exists>t. modified (ow_fs w) q = Some t \<and> t \<le> max t1 t2)) \<and>
    (name \<noteq> policy_circuit \<longrightarrow> ow_fs w' = ow_fs w)"
proof -
  have "q \<in> set (circom_file # deps)" if "(build_includes ops (ow_fs w) crate_dir)\<^sup>*\<^sup>* circom_file q" for q
    using that dependencies_reachable [OF assms(1)] by (auto dest: rtranclpD)
  with up_to_date_means [OF assms(2)] show ?thesis by blast
qed

definition quiet_world :: "disk \<Rightarrow> build_node os_world" where
  "quiet_world fs = \<lparr>ow_fs = fs, ow_stdout = [], ow_calls = []\<rparr>"

lemma two_files_skipped:
  "fst (circuit_up_to_date (example_ops two_names) ''/c'' ''/o'' ''/c/x.circom'' ''x'' ''/o/x.r1cs'' ''/o/x.sym''
    [''/c/y.circom''] (quiet_world two_files)) = Ok True"
  by code_simp

theorem skipped_circuit_is_current_witness:
  "\<exists>t1 t2. modified two_files ''/o/x.r1cs'' = Some t1 \<and> modified two_files ''/o/x.sym'' = Some t2 \<and>
    (\<forall>q. (build_includes (example_ops two_names) two_files ''/c'')\<^sup>*\<^sup>* ''/c/x.circom'' q \<longrightarrow>
      (\<exists>t. modified two_files q = Some t \<and> t \<le> max t1 t2))"
proof -
  have fs: "ow_fs (quiet_world two_files) = two_files" by (simp add: quiet_world_def)
  obtain w' where "circuit_up_to_date (example_ops two_names) ''/c'' ''/o'' ''/c/x.circom'' ''x'' ''/o/x.r1cs''
      ''/o/x.sym'' [''/c/y.circom''] (quiet_world two_files) = (Ok True, w')"
    using two_files_skipped by (metis prod.collapse)
  from skipped_circuit_is_current [where w = "quiet_world two_files", unfolded fs, OF two_files_dependencies this]
  show ?thesis by blast
qed

section \<open>Headed circuits\<close>

text \<open>
  What the regex crate documents of its anchor: without the multi-line flag \<open>^\<close> holds at the start of a
  text only.  So when a pattern begins with \<open>^\s*\<close> and two letters and has no alternative, a text in which
  it matches anything starts with white space or the first of these letters.  Characters above ASCII
  stand for the bytes of other white space.
\<close>

definition letter :: "char \<Rightarrow> bool" where
  "letter c \<longleftrightarrow> c \<in> set ''abcdefghijklmnopqrstuvwxyz''"

definition starts_space_or :: "char \<Rightarrow> string \<Rightarrow> bool" where
  "starts_space_or c s \<longleftrightarrow> s \<noteq> [] \<and> (hd s = c \<or> is_space (hd s) \<or> 128 \<le> (of_char (hd s) :: nat))"

definition anchor_law :: "(string \<Rightarrow> string \<Rightarrow> string list) \<Rightarrow> bool" where
  "anchor_law captures \<longleftrightarrow>
     (\<forall>c d rest s. letter c \<and> letter d \<and> CHR ''|'' \<notin> set rest \<and>
        captures (''^'' @ [CHR 0x5C] @ ''s*'' @ c # d # rest) s \<noteq> [] \<longrightarrow> starts_space_or c s)"

lemma include_pattern_split:
  "\<exists>rest. include_pattern = ''^'' @ [CHR 0x5C] @ ''s*'' @ CHR ''i'' # CHR ''n'' # rest \<and> CHR ''|'' \<notin> set rest"
  by (simp add: include_pattern_def)

lemma include_pattern_anchored:
  assumes "anchor_law captures" and "captures include_pattern s \<noteq> []"
  shows "starts_space_or (CHR ''i'') s"
proof -
  obtain rest where rest: "include_pattern = ''^'' @ [CHR 0x5C] @ ''s*'' @ CHR ''i'' # CHR ''n'' # rest"
    "CHR ''|'' \<notin> set rest" using include_pattern_split by blast
  have "letter (CHR ''i'')" "letter (CHR ''n'')" by (simp_all add: letter_def)
  with assms rest show ?thesis unfolding anchor_law_def by metis
qed

lemma include_engine_law: "anchor_law include_engine"
proof -
  have lead: "starts_space_or (CHR ''i'') s" if "leading_include s \<noteq> []" for s
  proof (cases s)
    case (Cons c cs)
    show ?thesis
    proof (cases "is_space c")
      case False
      then have "dropWhile is_space s = s" by (simp add: Cons)
      with that have "take 7 s = ''include''"
        by (auto simp: leading_include_def Let_def starts_with_def numeral_eq_Suc split: if_splits)
      then show ?thesis by (simp add: Cons starts_space_or_def)
    qed (simp add: Cons starts_space_or_def)
  qed (use that in \<open>simp add: leading_include_def starts_with_def\<close>)
  have "c = CHR ''i''" if "''^'' @ [CHR 0x5C] @ ''s*'' @ c # d # rest = include_pattern" for c d rest
    using that by (simp add: include_pattern_def)
  with lead show ?thesis by (auto simp: anchor_law_def include_engine_def split: if_splits)
qed

lemma headed_dependencies:
  assumes "anchor_law (co_captures ops)" and "read_to_string main fs = Ok (''pragma'' @ rest)"
  shows "extract_circom_dependencies ops fs main base = Ok []"
proof -
  have "\<not> starts_space_or (CHR ''i'') (''pragma'' @ rest)" by (simp add: starts_space_or_def is_space_def)
  with include_pattern_anchored [OF assms(1)] have "co_captures ops include_pattern (''pragma'' @ rest) = []" by blast
  with assms(2) show ?thesis by (simp add: extract_circom_dependencies_def file_includes_def)
qed

text \<open>A circuit whose artifacts are not older than it is passed over; the one with keys needs its WASM as
  well, without which everything after the test (\<open>K\<close>) is done again.\<close>

lemma act_bind_unit: "act_bind (act_bind M (\<lambda>_. act_ok True)) (\<lambda>u. if u then act_ok () else K) v = M v"
  by (auto simp: act_bind_def act_ok_def split: prod.splits result.splits)

lemma act_bind_same: "m w = m' v \<Longrightarrow> act_bind m n w = act_bind m' n v"
  by (simp add: act_bind_def)

lemma current_circuit:
  assumes "modified (ow_fs w) r1cs = Some t1" and "modified (ow_fs w) symf = Some t2"
    and "modified (ow_fs w) circom_file = Some t" and "t \<le> max t1 t2"
  shows "\<exists>out. act_bind (circuit_up_to_date ops crate_dir out_dir circom_file stem r1cs symf [])
      (\<lambda>u. if u then act_ok () else K) w =
    (let v = w\<lparr>ow_stdout := ow_stdout w @ out\<rparr> in
     if stem \<noteq> policy_circuit then (Ok (), v)
     else if path_exists (ow_fs w) (wasm_path out_dir stem)
     then act_match (generate_keys_if_needed (build_ops.truncate ops) crate_dir out_dir stem r1cs)
            (\<lambda>_. act_ok ()) (\<lambda>e. println (''cargo:warning=Key generation failed: '' @ e)) v
     else K v)"
proof -
  have old: "\<not> max t1 t2 < t" by (simp only: not_less assms(4))
  let ?skip = "''cargo:warning=Skipping '' @ circom_file @ '' (already compiled, all dependencies up to date)''"
  let ?v = "w\<lparr>ow_stdout := ow_stdout w @ [?skip]\<rparr>"
  let ?keys = "act_match (generate_keys_if_needed (build_ops.truncate ops) crate_dir out_dir stem r1cs)
    (\<lambda>_. act_ok ()) (\<lambda>e. println (''cargo:warning=Key generation failed: '' @ e))"
  consider "stem \<noteq> policy_circuit" | "stem = policy_circuit" "path_exists (ow_fs w) (wasm_path out_dir stem)"
    | "stem = policy_circuit" "\<not> path_exists (ow_fs w) (wasm_path out_dir stem)" by blast
  then show ?thesis
  proof cases
    case 1
    then show ?thesis using assms(1-3) old
      by (intro exI [of _ "[?skip]"]) (simp add: circuit_up_to_date_def act_bind_def println_apply del: max_less_iff_conj append_Cons)
  next
    case 2
    have "circuit_up_to_date ops crate_dir out_dir circom_file stem r1cs symf [] w =
        act_bind ?keys (\<lambda>_. act_ok True) ?v"
      using 2 assms(1-3) old
      by (simp add: circuit_up_to_date_def act_bind_pair println_apply del: max_less_iff_conj append_Cons)
    then have "act_bind (circuit_up_to_date ops crate_dir out_dir circom_file stem r1cs symf [])
        (\<lambda>u. if u then act_ok () else K) w = act_bind (act_bind ?keys (\<lambda>_. act_ok True))
        (\<lambda>u. if u then act_ok () else K) ?v"
      by (rule act_bind_same)
    with 2 show ?thesis unfolding act_bind_unit by (intro exI [of _ "[?skip]"]) (simp add: Let_def)
  next
    case 3
    let ?missing = "''cargo:warning=WASM missing for '' @ stem @ '' - forcing recompilation to enable key generation''"
    from 3 show ?thesis using assms(1-3) old
      by (intro exI [of _ "[?skip] @ [?missing]"])
        (simp add: circuit_up_to_date_def act_bind_def println_apply del: max_less_iff_conj append_Cons)
  qed
qed

text \<open>C35: A circuit that opens with a pragma, as all of the repository's do, has no dependencies for the
  script. With its artifacts present and itself not newer it is passed over, however new the files it
  includes are: the build leaves the disk as it is and starts no program. The rule is the same for
  \<open>policy_tx_2_2\<close>, the circuit a default build compiles, except that its keys are looked after: with
  its WASM present only the generation of keys is run, and a missing WASM, alone, has it compiled
  again. In no case does the outcome depend on an included file.\<close>

theorem headed_circuit_ignores_its_includes:
  assumes "anchor_law (co_captures ops)"
    and "read_to_string circom_file (ow_fs w) = Ok (''pragma'' @ rest)"
    and "file_stem circom_file = Some stem"
    and "parse_circom_version ''compiler'' (ow_fs w) = Some version"
    and "co_parse ops circom_file version (ow_fs w) = Ok archive"
    and "modified (ow_fs w) (with_extension (path_join out_dir stem) ''r1cs'') = Some t1"
    and "modified (ow_fs w) (with_extension (path_join out_dir stem) ''sym'') = Some t2"
    and "modified (ow_fs w) circom_file = Some t" and "t \<le> max t1 t2"
  shows "\<exists>out. compile_circuit ops crate_dir out_dir circom_file w =
    (let v = w\<lparr>ow_stdout := ow_stdout w @ out\<rparr> in
     if stem \<noteq> policy_circuit then (Ok (), v)
     else if path_exists (ow_fs w) (wasm_path out_dir stem)
     then act_match (generate_keys_if_needed (build_ops.truncate ops) crate_dir out_dir stem
              (with_extension (path_join out_dir stem) ''r1cs''))
            (\<lambda>_. act_ok ()) (\<lambda>e. println (''cargo:warning=Key generation failed: '' @ e)) v
     else compile_stages ops crate_dir out_dir circom_file stem (path_join out_dir stem) archive v)"
proof -
  let ?v = "w\<lparr>ow_stdout := ow_stdout w @ [''cargo:rerun-if-changed='' @ circom_file]\<rparr>"
  have mod: "modified (ow_fs ?v) (with_extension (path_join out_dir stem) ''r1cs'') = Some t1"
    "modified (ow_fs ?v) (with_extension (path_join out_dir stem) ''sym'') = Some t2"
    "modified (ow_fs ?v) circom_file = Some t" using assms(6-8) by simp_all
  have "compile_circuit ops crate_dir out_dir circom_file w =
      act_bind (circuit_up_to_date ops crate_dir out_dir circom_file stem
          (with_extension (path_join out_dir stem) ''r1cs'') (with_extension (path_join out_dir stem) ''sym'') [])
        (\<lambda>u. if u then act_ok ()
             else compile_stages ops crate_dir out_dir circom_file stem (path_join out_dir stem) archive) ?v"
    using assms(3-5) headed_dependencies [OF assms(1,2)]
    by (simp add: compile_circuit_def act_bind_def println_apply act_some_def act_when_def Let_def)
  with current_circuit [OF mod assms(9), of ops crate_dir out_dir stem
      "compile_stages ops crate_dir out_dir circom_file stem (path_join out_dir stem) archive"]
  show ?thesis by (auto simp: Let_def) 
qed

definition headed_disk :: disk where
  "headed_disk = example_disk [(''/c/x.circom'', ''pragma circom 2.2.2;'' @ nl @ include_line, 1),
     (''/c/./y.circom'', ''template Y() {}'', 9), (''/c/y.circom'', ''template Y() {}'', 9),
     (''/o/x.r1cs'', [], 5), (''/o/x.sym'', [], 5),
     (''Cargo.toml'', ''[build-dependencies]'' @ nl @ ''compiler = { tag = '' @ [CHR 0x22] @ ''v2.2.2'' @ [CHR 0x22] @ '' }'', 1)]"

lemma headed_example:
  "read_to_string ''/c/x.circom'' headed_disk = Ok (''pragma'' @ '' circom 2.2.2;'' @ nl @ include_line)"
  "parse_circom_version ''compiler'' headed_disk = Some ''2.2.2''"
  "file_stem ''/c/x.circom'' = Some ''x''"
  "modified headed_disk (with_extension (path_join ''/o'' ''x'') ''r1cs'') = Some 5"
  "modified headed_disk (with_extension (path_join ''/o'' ''x'') ''sym'') = Some 5"
  "modified headed_disk ''/c/x.circom'' = Some 1"
  by code_simp+

text \<open>The same circuit under the name that has keys, without a WASM file.\<close>

definition policy_disk :: disk where
  "policy_disk = example_disk [(''/c/policy_tx_2_2.circom'', ''pragma circom 2.2.2;'' @ nl @ include_line, 1),
     (''/c/./y.circom'', ''template Y() {}'', 9), (''/c/y.circom'', ''template Y() {}'', 9),
     (''/o/policy_tx_2_2.r1cs'', [], 5), (''/o/policy_tx_2_2.sym'', [], 5),
     (''Cargo.toml'', ''[build-dependencies]'' @ nl @ ''compiler = { tag = '' @ [CHR 0x22] @ ''v2.2.2'' @ [CHR 0x22] @ '' }'', 1)]"

lemma policy_example:
  "read_to_string ''/c/policy_tx_2_2.circom'' policy_disk = Ok (''pragma'' @ '' circom 2.2.2;'' @ nl @ include_line)"
  "parse_circom_version ''compiler'' policy_disk = Some ''2.2.2''"
  "file_stem ''/c/policy_tx_2_2.circom'' = Some policy_circuit"
  "modified policy_disk (with_extension (path_join ''/o'' policy_circuit) ''r1cs'') = Some 5"
  "modified policy_disk (with_extension (path_join ''/o'' policy_circuit) ''sym'') = Some 5"
  "modified policy_disk ''/c/policy_tx_2_2.circom'' = Some 1"
  "\<not> path_exists policy_disk (wasm_path ''/o'' policy_circuit)"
  by code_simp+

theorem headed_circuit_ignores_its_includes_witness:
  "modified headed_disk ''/c/y.circom'' = Some 9 \<and>
   ow_fs (snd (compile_circuit (example_ops two_names) ''/c'' ''/o'' ''/c/x.circom'' (quiet_world headed_disk))) = headed_disk \<and>
   (\<exists>out. compile_circuit (example_ops two_names) ''/c'' ''/o'' ''/c/policy_tx_2_2.circom'' (quiet_world policy_disk) =
      compile_stages (example_ops two_names) ''/c'' ''/o'' ''/c/policy_tx_2_2.circom'' policy_circuit
        (path_join ''/o'' policy_circuit) () ((quiet_world policy_disk)\<lparr>ow_stdout := out\<rparr>))"
proof -
  have ops: "anchor_law (co_captures (example_ops two_names))"
    "co_parse (example_ops two_names) p v fs = Ok ()" for p v fs
    using include_engine_law by (simp_all add: example_ops_def)
  have fs: "ow_fs (quiet_world d) = d" "ow_stdout (quiet_world d) = []" for d by (simp_all add: quiet_world_def)
  have "''x'' \<noteq> policy_circuit" by (simp add: policy_circuit_def)
  with headed_circuit_ignores_its_includes [where w = "quiet_world headed_disk", unfolded fs, OF ops(1)
      headed_example(1,3,2) ops(2) headed_example(4-6), of "''/c''"]
  have "ow_fs (snd (compile_circuit (example_ops two_names) ''/c'' ''/o'' ''/c/x.circom'' (quiet_world headed_disk))) = headed_disk"
    by (auto simp: fs)
  moreover have "modified headed_disk ''/c/y.circom'' = Some 9" by code_simp
  moreover from headed_circuit_ignores_its_includes [where w = "quiet_world policy_disk", unfolded fs, OF ops(1)
      policy_example(1,3,2) ops(2) policy_example(4-6), of "''/c''"] policy_example(7)
  have "\<exists>out. compile_circuit (example_ops two_names) ''/c'' ''/o'' ''/c/policy_tx_2_2.circom'' (quiet_world policy_disk) =
      compile_stages (example_ops two_names) ''/c'' ''/o'' ''/c/policy_tx_2_2.circom'' policy_circuit
        (path_join ''/o'' policy_circuit) () ((quiet_world policy_disk)\<lparr>ow_stdout := out\<rparr>)"
    by (auto simp: Let_def)
  ultimately show ?thesis by blast
qed

section \<open>Keys\<close>

lemma act_when_apply: "act_when c ls w = (Ok (), w\<lparr>ow_stdout := ow_stdout w @ (if c then ls else [])\<rparr>)"
  by (simp add: act_when_def)

lemma keys_present_reason:
  assumes "path_exists (ow_fs w) pk" and "path_exists (ow_fs w) vk" and "path_exists (ow_fs w) vks"
  shows "\<exists>reason out. check_keys_need_generation pk vk vks vkc r1cs False w =
    (Ok (False, reason), w\<lparr>ow_stdout := ow_stdout w @ out\<rparr>)"
  using assms
  by (simp add: check_keys_need_generation_def check_essential_keys_exist_def act_bind_def act_when_apply
      split del: if_split) (rule exI, rule refl)

text \<open>Keys that exist are never replaced unasked: when the script's directory holds the proving key and
  both verification keys and \<open>REGEN_KEYS\<close> is unset, key generation succeeds with nothing generated
  and writes nothing to the disk after creating that directory, whether or not the circuit changed.\<close>

theorem existing_keys_are_kept:
  assumes "bo_create_dir_all ops (keys_dir crate_dir) (ow_fs w) = (Ok (), fs)"
    and "bo_env ops ''REGEN_KEYS'' = None"
    and "path_exists fs (key_path crate_dir name ''_proving_key.bin'')"
    and "path_exists fs (key_path crate_dir name ''_vk.json'')"
    and "path_exists fs (key_path crate_dir name ''_vk_soroban.bin'')"
  shows "\<exists>out. generate_keys_if_needed ops crate_dir out_dir name r1cs_file w =
    (Ok False, w\<lparr>ow_fs := fs, ow_stdout := ow_stdout w @ out\<rparr>)"
proof -
  let ?w = "w\<lparr>ow_fs := fs\<rparr>"
  obtain reason out where "check_keys_need_generation (key_path crate_dir name ''_proving_key.bin'')
      (key_path crate_dir name ''_vk.json'') (key_path crate_dir name ''_vk_soroban.bin'')
      (key_path crate_dir name ''_vk_const.rs'') r1cs_file False ?w =
      (Ok (False, reason), ?w\<lparr>ow_stdout := ow_stdout ?w @ out\<rparr>)"
    using keys_present_reason [of ?w, simplified, OF assms(3-5)] by (simp, blast)
  with assms(1,2) show ?thesis
    by (simp add: generate_keys_if_needed_def act_bind_def act_context_def act_fs_def act_when_apply println_apply)
      (rule exI, rule refl)
qed

definition keyed_disk :: disk where
  "keyed_disk = example_disk [(''/c/../scripts/testdata/x_proving_key.bin'', ''pk'', 3),
     (''/c/../scripts/testdata/x_vk.json'', ''vk'', 3), (''/c/../scripts/testdata/x_vk_soroban.bin'', ''vk'', 3),
     (''/o/x.r1cs'', [], 8)]"

theorem existing_keys_are_kept_witness:
  "fst (generate_keys_if_needed (build_ops.truncate (example_ops [])) ''/c'' ''/o'' ''x'' ''/o/x.r1cs'' (quiet_world keyed_disk)) = Ok False"
proof -
  let ?ops = "build_ops.truncate (example_ops [])" and ?fs = "keyed_disk(keys_dir ''/c'' \<mapsto> Folder [] 20)"
  have "bo_create_dir_all ?ops (keys_dir ''/c'') (ow_fs (quiet_world keyed_disk)) = (Ok (), ?fs)"
    "bo_env ?ops ''REGEN_KEYS'' = None"
    by (simp_all add: example_ops_def build_ops.defs quiet_world_def)
  moreover have "path_exists ?fs (key_path ''/c'' ''x'' ''_proving_key.bin'')"
    "path_exists ?fs (key_path ''/c'' ''x'' ''_vk.json'')" "path_exists ?fs (key_path ''/c'' ''x'' ''_vk_soroban.bin'')"
    by (simp_all add: path_exists_def key_path_def keys_dir_def path_join_def keyed_disk_def example_disk_def)
  ultimately show ?thesis
    using existing_keys_are_kept [of ?ops "''/c''" "quiet_world keyed_disk" ?fs "''x''" "''/o''" "''/o/x.r1cs''"] by auto
qed

section \<open>The three forms of a verification key\<close>

lemma soroban_points:
  "g1_to_soroban_bytes p = g1_bytes_uncompressed p" "g2_to_soroban_bytes q = g2_bytes_uncompressed q"
  "length (g1_to_soroban_bytes p) = 64" "length (g2_to_soroban_bytes q) = 128"
  by (simp_all add: g1_to_soroban_bytes_def g2_to_soroban_bytes_def g1_bytes_uncompressed_def
      g2_bytes_uncompressed_def Let_def bigint_to_be_32_eq)

lemma slice_concat:
  assumes "\<forall>x. length (f x) = k" and "i < length xs" and "length pre = n"
  shows "slice (n + i * k) (n + i * k + k) (pre @ concat (map f xs)) = f (xs ! i)"
proof -
  have len: "length (concat (map f ys)) = length ys * k" for ys using assms(1) by (induction ys) auto
  have "concat (map f xs) = concat (map f (take i xs)) @ f (xs ! i) @ concat (map f (drop (Suc i) xs))"
    using assms(2) by (subst id_take_nth_drop [of i xs]) (simp_all del: append_take_drop_id)
  moreover have "length (concat (map f (take i xs))) = i * k" using assms(2) by (simp add: len)
  ultimately show ?thesis using assms(1,3) by (simp add: slice_def)
qed

lemma vk_soroban_parts:
  assumes "vk_soroban_bytes pw vk = Ok bs"
  shows "length bs = 452 + 64 * length (av_ic vk)" and "slice 0 64 bs = g1_to_soroban_bytes (av_alpha vk)"
    and "slice 64 192 bs = g2_to_soroban_bytes (av_beta vk)" and "slice 192 320 bs = g2_to_soroban_bytes (av_gamma vk)"
    and "slice 320 448 bs = g2_to_soroban_bytes (av_delta vk)" and "le_to_nat (slice 448 452 bs) = length (av_ic vk)"
    and "i < length (av_ic vk) \<Longrightarrow> slice (452 + i * 64) (516 + i * 64) bs = g1_to_soroban_bytes (av_ic vk ! i)"
proof -
  let ?n = "length (av_ic vk)"
  from assms have small: "?n < 256 ^ 4" and
    bs: "bs = g1_to_soroban_bytes (av_alpha vk) @ g2_to_soroban_bytes (av_beta vk) @
      g2_to_soroban_bytes (av_gamma vk) @ g2_to_soroban_bytes (av_delta vk) @
      nat_to_le 4 ?n @ concat (map g1_to_soroban_bytes (av_ic vk))"
    by (simp_all add: vk_soroban_bytes_def Let_def not_le split: if_splits)
  have "length (concat (map g1_to_soroban_bytes ps)) = length ps * 64" for ps
    by (induction ps) (simp_all add: soroban_points)
  then show "length bs = 452 + 64 * ?n" by (simp add: bs soroban_points)
  show "slice 0 64 bs = g1_to_soroban_bytes (av_alpha vk)" "slice 64 192 bs = g2_to_soroban_bytes (av_beta vk)"
    "slice 192 320 bs = g2_to_soroban_bytes (av_gamma vk)" "slice 320 448 bs = g2_to_soroban_bytes (av_delta vk)"
    by (simp_all add: bs slice_def soroban_points(3,4))
  have "slice 448 452 bs = nat_to_le 4 ?n" by (simp add: bs slice_def soroban_points(3,4))
  then show "le_to_nat (slice 448 452 bs) = ?n" using small by (simp add: le_to_nat_nat_to_le)
  show "slice (452 + i * 64) (516 + i * 64) bs = g1_to_soroban_bytes (av_ic vk ! i)" if "i < ?n"
    using slice_concat [of g1_to_soroban_bytes 64 i "av_ic vk" "g1_to_soroban_bytes (av_alpha vk) @
        g2_to_soroban_bytes (av_beta vk) @ g2_to_soroban_bytes (av_gamma vk) @ g2_to_soroban_bytes (av_delta vk) @
        nat_to_le 4 ?n" 452] that
    by (simp add: bs soroban_points(3,4) add.commute add.left_commute)
qed

text \<open>C33: The build script's two key files agree and deploy the key that was set up: the deployment
  script accepts the JSON form of every key, and the hexadecimal arguments it hands the verifier are
  the parts of the binary form at their offsets, with the number of points read from its header; the
  points are encoded as the prover encodes those of a proof.\<close>

theorem deployed_key_is_stored_key:
  assumes "vk_soroban_bytes pw vk = Ok bs"
  shows "deploy_verification_key fv (vk_to_snarkjs_json vk) =
    Some (JObject [(''alpha'', JString (to_hex (slice 0 64 bs))), (''beta'', JString (to_hex (slice 64 192 bs))),
      (''gamma'', JString (to_hex (slice 192 320 bs))), (''delta'', JString (to_hex (slice 320 448 bs))),
      (''ic'', JArray (map (\<lambda>i. JString (to_hex (slice (452 + i * 64) (516 + i * 64) bs)))
        [0..<le_to_nat (slice 448 452 bs)]))]) \<and>
    slice 0 64 bs = g1_bytes_uncompressed (av_alpha vk) \<and> slice 64 192 bs = g2_bytes_uncompressed (av_beta vk)"
proof -
  have "map (\<lambda>p. JString (to_hex (g1_to_soroban_bytes p))) (av_ic vk) =
      map (\<lambda>i. JString (to_hex (slice (452 + i * 64) (516 + i * 64) bs))) [0..<length (av_ic vk)]"
    by (rule nth_equalityI) (simp_all add: vk_soroban_parts(7) [OF assms])
  then show ?thesis by (simp add: deploy_snarkjs vk_soroban_parts(2-6) [OF assms] soroban_points)
qed

definition example_key :: ark_verifying_key where
  "example_key =
     (let g1 = \<lparr>g1_x = 1, g1_y = 2\<rparr>; g2 = \<lparr>g2_x_c0 = 3, g2_x_c1 = 4, g2_y_c0 = 5, g2_y_c1 = 6\<rparr> in
      \<lparr>av_alpha = g1, av_beta = g2, av_gamma = g2, av_delta = g2, av_ic = [g1]\<rparr>)"

theorem deployed_key_is_stored_key_witness:
  "\<exists>bs. vk_soroban_bytes 32 example_key = Ok bs \<and> slice 64 192 bs = g2_bytes_uncompressed (av_beta example_key)"
proof -
  have "\<exists>bs. vk_soroban_bytes 32 example_key = Ok bs"
    by (simp add: vk_soroban_bytes_def example_key_def Let_def)
  then show ?thesis using deployed_key_is_stored_key [where pw = 32 and vk = example_key] by blast
qed

end
