(* ===== verification/Circuit_Inputs.thy ===== *)
theory Circuit_Inputs
  imports Core_Merkle Witness
begin

unbundle bit_operations_syntax

text \<open>
  What the circuits crate offers to code that proves a transaction natively
  (\<open>circuits/src/test/utils/general.rs\<close>, \<open>keypair.rs\<close>, \<open>transaction.rs\<close>, \<open>transaction_case.rs\<close> and the
  inputs of \<open>circom_tester.rs\<close>): hashes over field elements, notes and their witness, and named input
  signals.  \<open>usize\<close> has 64 bits.
\<close>

section \<open>Hashes\<close>

definition general_hash2 :: "scalar \<Rightarrow> scalar \<Rightarrow> scalar option \<Rightarrow> (scalar, 'e) result" where
  "general_hash2 a b dom_sep =
     rbind POSEIDON2_BN256_PARAMS_3 (\<lambda>h.
     rbind (case dom_sep of Some d \<Rightarrow> permutation_run h [a, b, d] | None \<Rightarrow> permutation_run h [a, b, 0]) (\<lambda>perm.
     unwrap (vec_get perm 0)))"

definition general_hash3 :: "scalar \<Rightarrow> scalar \<Rightarrow> scalar \<Rightarrow> scalar option \<Rightarrow> (scalar, 'e) result" where
  "general_hash3 a b c dom_sep =
     rbind POSEIDON2_BN256_PARAMS_4 (\<lambda>h.
     rbind (case dom_sep of Some d \<Rightarrow> permutation_run h [a, b, c, d] | None \<Rightarrow> permutation_run h [a, b, c, 0]) (\<lambda>perm.
     unwrap (vec_get perm 0)))"

definition scalar_to_bigint :: "scalar \<Rightarrow> int" where
  "scalar_to_bigint s = int (le_to_nat (nat_to_le 32 (scalar_nat s)))"

definition case_public_key :: "scalar \<Rightarrow> (scalar, 'e) result" where
  "case_public_key private_key = general_hash2 private_key 0 (Some 3)"

definition case_sign :: "scalar \<Rightarrow> scalar \<Rightarrow> scalar \<Rightarrow> (scalar, 'e) result" where
  "case_sign private_key cm merkle_path = general_hash3 private_key cm merkle_path (Some 4)"

definition note_commitment :: "scalar \<Rightarrow> scalar \<Rightarrow> scalar \<Rightarrow> (scalar, 'e) result" where
  "note_commitment amount pubkey blinding = general_hash3 amount pubkey blinding (Some 1)"

definition note_nullifier :: "scalar \<Rightarrow> scalar \<Rightarrow> scalar \<Rightarrow> (scalar, 'e) result" where
  "note_nullifier cm path_indices signature = general_hash3 cm path_indices signature (Some 2)"

section \<open>Filler leaves\<close>

text \<open>The xorshift generator; the number is the new state.\<close>

definition rng_next :: "u64 \<Rightarrow> u64" where
  "rng_next x0 =
     (let x1 = x0 XOR push_bit 13 x0;
          x2 = x1 XOR drop_bit 7 x1 in
      x2 XOR push_bit 17 x2)"

definition rand_commitment :: "u64 \<Rightarrow> (scalar, 'e) result \<times> u64" where
  "rand_commitment rng =
     (let a = rng_next rng; b = rng_next a; c = rng_next b in
      (note_commitment (of_nat (unat (a mod 1000000))) (of_nat (unat b)) (of_nat (unat c)), c))"

text \<open>The loop may draw the same taken positions for ever.\<close>

partial_function (option) fill_leaves ::
  "nat \<Rightarrow> nat list \<Rightarrow> nat \<Rightarrow> scalar list \<Rightarrow> nat \<Rightarrow> u64 \<Rightarrow> (scalar list, string) result option" where
  "fill_leaves n exclude_indices fill_count leaves placed rng =
     (if fill_count \<le> placed then Some (Ok leaves)
      else
        let rng1 = rng_next rng; idx = unat rng1 mod n in
        if idx \<in> set exclude_indices \<or> leaves ! idx \<noteq> 0 then
          fill_leaves n exclude_indices fill_count leaves placed rng1
        else
          case rand_commitment rng1 of
            (Ok c, rng2) \<Rightarrow> fill_leaves n exclude_indices fill_count (leaves[idx := c]) (placed + 1) rng2
          | (Err e, _) \<Rightarrow> Some (Err e)
          | (Panic, _) \<Rightarrow> Some Panic)"

definition prepopulated_leaves :: "nat \<Rightarrow> u64 \<Rightarrow> nat list \<Rightarrow> nat \<Rightarrow> (scalar list, string) result option" where
  "prepopulated_leaves levels seed exclude_indices fill_count =
     (let n = 2 ^ levels;
          capacity = n - length exclude_indices in
      if capacity < fill_count then Some Panic
      else fill_leaves n exclude_indices fill_count (replicate n 0) 0 seed)"

section \<open>Transactions\<close>

record input_note =
  in_leaf_index :: nat
  in_priv_key :: scalar
  in_blinding :: scalar
  in_amount :: scalar

record output_note =
  on_pub_key :: scalar
  on_blinding :: scalar
  on_amount :: scalar

record tx_case =
  tc_inputs :: "input_note list"
  tc_outputs :: "output_note list"

record transaction_witness =
  tw_root :: scalar
  tw_public_keys :: "scalar list"
  tw_nullifiers :: "scalar list"
  tw_path_indices :: "scalar list"
  tw_path_elements_flat :: "int list"

definition place_note ::
  "input_note \<Rightarrow> scalar list \<times> scalar list \<times> scalar list \<Rightarrow> (scalar list \<times> scalar list \<times> scalar list, string) result" where
  "place_note note = (\<lambda>(public_keys, commitments, leaves).
     rbind (case_public_key (in_priv_key note)) (\<lambda>pk.
     rbind (note_commitment (in_amount note) pk (in_blinding note)) (\<lambda>cm.
     if in_leaf_index note < length leaves then
       Ok (public_keys @ [pk], commitments @ [cm], leaves[in_leaf_index note := cm])
     else Panic)))"

type_synonym note_paths = "scalar list \<times> int list \<times> scalar list"

definition prove_note ::
  "scalar list \<Rightarrow> scalar list \<Rightarrow> nat \<Rightarrow> nat \<times> input_note \<Rightarrow> note_paths \<Rightarrow> (note_paths, string) result" where
  "prove_note leaves commitments expected_levels = (\<lambda>(i, note) (path_indices, path_elements_flat, nullifiers).
     rbind (merkle_proof leaves (in_leaf_index note)) (\<lambda>(sibs, path_idx_u64, depth).
     if depth \<noteq> expected_levels then
       Err (''unexpected depth for input '' @ show_nat i @ '', expected '' @ show_nat expected_levels @ '', got '' @
         show_nat depth)
     else
       let path_idx = of_nat (unat path_idx_u64) in
       rbind (unwrap (vec_get commitments i)) (\<lambda>cm.
       rbind (case_sign (in_priv_key note) cm path_idx) (\<lambda>sig.
       rbind (note_nullifier cm path_idx sig) (\<lambda>nul.
       Ok (path_indices @ [path_idx], path_elements_flat @ map scalar_to_bigint sibs, nullifiers @ [nul]))))))"

definition prepare_transaction_witness :: "tx_case \<Rightarrow> scalar list \<Rightarrow> nat \<Rightarrow> (transaction_witness, string) result" where
  "prepare_transaction_witness tx leaves expected_levels =
     rbind (rfold place_note (tc_inputs tx) ([], [], leaves)) (\<lambda>(public_keys, commitments, leaves').
     rbind (merkle_root leaves') (\<lambda>root.
     rbind (rfold (prove_note leaves' commitments expected_levels) (List.enumerate 0 (tc_inputs tx)) ([], [], []))
       (\<lambda>(path_indices, path_elements_flat, nullifiers).
     Ok \<lparr>tw_root = root, tw_public_keys = public_keys, tw_nullifiers = nullifiers,
         tw_path_indices = path_indices, tw_path_elements_flat = path_elements_flat\<rparr>)))"

section \<open>Input signals\<close>

datatype circuit_input = Single int | Array "int list"

type_synonym inputs = "string \<Rightarrow> circuit_input option"

definition set_input :: "string \<Rightarrow> circuit_input \<Rightarrow> inputs \<Rightarrow> inputs" where
  "set_input key val m = m(key \<mapsto> val)"

definition scalar_value :: "scalar \<Rightarrow> circuit_input" where
  "scalar_value s = Single (scalar_to_bigint s)"

definition scalars_value :: "scalar list \<Rightarrow> circuit_input" where
  "scalars_value ss = Array (map scalar_to_bigint ss)"

definition signal_idx :: "nat \<Rightarrow> string \<Rightarrow> string" where
  "signal_idx i key = key @ ''['' @ show_nat i @ '']''"

definition signal_field :: "string \<Rightarrow> string \<Rightarrow> string" where
  "signal_field name key = key @ ''.'' @ name"

text \<open>What reaches the circuit builder, which collects the values pushed under each name.\<close>

definition push_value :: "string \<Rightarrow> circuit_input \<Rightarrow> signals \<Rightarrow> signals" where
  "push_value path val builder =
     (case val of Single v \<Rightarrow> push_signal path v builder | Array arr \<Rightarrow> fold (push_signal path) arr builder)"

fun output_commitments :: "output_note list \<Rightarrow> (scalar list, 'e) result" where
  "output_commitments [] = Ok []"
| "output_commitments (out # outs) =
     rbind (note_commitment (on_amount out) (on_pub_key out) (on_blinding out)) (\<lambda>cm.
     rbind (output_commitments outs) (\<lambda>cms. Ok (cm # cms)))"

definition build_base_inputs :: "tx_case \<Rightarrow> transaction_witness \<Rightarrow> scalar \<Rightarrow> (inputs, string) result" where
  "build_base_inputs tx witness public_amount =
     rbind (output_commitments (tc_outputs tx)) (\<lambda>cms.
     Ok (
       (set_input ''outBlinding'' (scalars_value (map on_blinding (tc_outputs tx))) \<circ>
        set_input ''outPubkey'' (scalars_value (map on_pub_key (tc_outputs tx))) \<circ>
        set_input ''outAmount'' (scalars_value (map on_amount (tc_outputs tx))) \<circ>
        set_input ''outputCommitment'' (Array (map scalar_to_bigint cms)) \<circ>
        set_input ''inPathElements'' (Array (tw_path_elements_flat witness)) \<circ>
        set_input ''inPathIndices'' (scalars_value (tw_path_indices witness)) \<circ>
        set_input ''inBlinding'' (scalars_value (map in_blinding (tc_inputs tx))) \<circ>
        set_input ''inPrivateKey'' (scalars_value (map in_priv_key (tc_inputs tx))) \<circ>
        set_input ''inAmount'' (scalars_value (map in_amount (tc_inputs tx))) \<circ>
        set_input ''inputNullifier'' (scalars_value (tw_nullifiers witness)) \<circ>
        set_input ''extDataHash'' (Single 0) \<circ>
        set_input ''publicAmount'' (Single (scalar_to_bigint public_amount)) \<circ>
        set_input ''root'' (Single (scalar_to_bigint (tw_root witness)))) Map.empty))"

section \<open>Values\<close>

lemma general_hash2_value [simp]: "general_hash2 a b d = Ok (hash2 a b (case d of Some x \<Rightarrow> x | None \<Rightarrow> 0))"
  by (cases d) (simp_all add: general_hash2_def hash2_def bn256_permutation)

lemma general_hash3_value [simp]: "general_hash3 a b c d = Ok (hash3 a b c (case d of Some x \<Rightarrow> x | None \<Rightarrow> 0))"
  by (cases d) (simp_all add: general_hash3_def hash3_def bn256_permutation)

lemma scalar_to_bigint_value: "scalar_to_bigint s = Rep_scalar s"
proof -
  have "scalar_nat s < 256 ^ 32" using scalar_nat_less_pow [of s] by simp
  then show ?thesis by (simp add: scalar_to_bigint_def le_to_nat_nat_to_le int_scalar_nat)
qed

lemma note_hashes [simp]:
  "case_public_key sk = Ok (hash2 sk 0 3)" "case_sign sk cm p = Ok (hash3 sk cm p 4)"
  "note_commitment a pk b = Ok (hash3 a pk b 1)" "note_nullifier cm p s = Ok (hash3 cm p s 2)"
  by (simp_all add: case_public_key_def case_sign_def note_commitment_def note_nullifier_def)

lemma output_commitments_value:
  "output_commitments outs = Ok (map (\<lambda>out. hash3 (on_amount out) (on_pub_key out) (on_blinding out) 1) outs)"
  by (induction outs) simp_all

end
