(* ===== verification/Circuit_Smt.thy ===== *)
theory Circuit_Smt
  imports Circuit_Inputs
begin

unbundle bit_operations_syntax

text \<open>
  The sparse Merkle tree of the circuits crate (\<open>circuits/src/test/utils/sparse_merkle_tree.rs\<close>), over
  unbounded integers: search, insertion, and the proofs prepared for circuit inputs.  Nodes are
  records of three numbers (a mark, key and value of a leaf) or two (the children).
\<close>

section \<open>Hashing and storage\<close>

definition big_int_to_fp :: "int \<Rightarrow> scalar" where
  "big_int_to_fp x = of_nat (nat (x mod field_order))"

definition fp_to_big_int :: "scalar \<Rightarrow> int" where
  "fp_to_big_int fp = int (be_to_nat (nat_to_be 32 (scalar_nat fp)))"

definition compression_sparse :: "int \<Rightarrow> int \<Rightarrow> (int, 'e) result" where
  "compression_sparse left right =
     rbind (poseidon2_compression (big_int_to_fp left) (big_int_to_fp right)) (\<lambda>perm. Ok (fp_to_big_int perm))"

definition hash3_sparse :: "int \<Rightarrow> int \<Rightarrow> (int, 'e) result" where
  "hash3_sparse key val =
     rbind (general_hash2 (big_int_to_fp key) (big_int_to_fp val) (Some 1)) (\<lambda>r. Ok (fp_to_big_int r))"

record circuit_smt =
  st_data :: "int \<Rightarrow> int list option"
  st_root :: int

definition multi_ins :: "(int \<times> int list) list \<Rightarrow> circuit_smt \<Rightarrow> circuit_smt" where
  "multi_ins inserts t = fold (\<lambda>(k, v) t. t\<lparr>st_data := (st_data t)(k \<mapsto> v)\<rparr>) inserts t"

definition multi_del :: "int list \<Rightarrow> circuit_smt \<Rightarrow> circuit_smt" where
  "multi_del deletes t = fold (\<lambda>k t. t\<lparr>st_data := (st_data t)(k := None)\<rparr>) deletes t"

definition new_mem_empty_trie :: circuit_smt where
  "new_mem_empty_trie = \<lparr>st_data = Map.empty, st_root = 0\<rparr>"

text \<open>\<open>bit(0)\<close> of the arithmetically shifted key.\<close>

definition split_bits :: "int \<Rightarrow> bool list" where
  "split_bits key = map (\<lambda>i. odd (drop_bit i key)) [0..<256]"

section \<open>Search\<close>

record smt_find =
  sf_found :: bool
  sf_siblings :: "int list"
  sf_found_value :: int
  sf_not_found_key :: int
  sf_not_found_value :: int
  sf_is_old0 :: bool

function st_find_internal :: "circuit_smt \<Rightarrow> int \<Rightarrow> bool list \<Rightarrow> int \<Rightarrow> nat \<Rightarrow> (smt_find, string) result" where
  "st_find_internal t key key_bits root level =
     (if root = 0 then
        Ok \<lparr>sf_found = False, sf_siblings = [], sf_found_value = 0, sf_not_found_key = key,
            sf_not_found_value = 0, sf_is_old0 = True\<rparr>
      else
        case st_data t root of
          None \<Rightarrow> Err ''Node not found in database''
        | Some record \<Rightarrow>
            if length record = 3 \<and> hd record = 1 then
              (if record ! 1 = key then
                 Ok \<lparr>sf_found = True, sf_siblings = [], sf_found_value = record ! 2, sf_not_found_key = 0,
                     sf_not_found_value = 0, sf_is_old0 = False\<rparr>
               else
                 Ok \<lparr>sf_found = False, sf_siblings = [], sf_found_value = 0, sf_not_found_key = record ! 1,
                     sf_not_found_value = record ! 2, sf_is_old0 = False\<rparr>)
            else if length record = 2 then
              if length key_bits \<le> level then Panic
              else
                let (child, sibling) =
                  (if \<not> key_bits ! level then (record ! 0, record ! 1) else (record ! 1, record ! 0)) in
                rbind (st_find_internal t key key_bits child (level + 1)) (\<lambda>res.
                Ok (res\<lparr>sf_siblings := sibling # sf_siblings res\<rparr>))
            else Err ''Invalid record format'')"
  by pat_completeness auto
termination
  by (relation "measure (\<lambda>(t, key, key_bits, root, level). length key_bits - level)") auto

declare st_find_internal.simps [simp del]

definition st_find :: "circuit_smt \<Rightarrow> int \<Rightarrow> (smt_find, string) result" where
  "st_find t key = st_find_internal t key (split_bits key) (st_root t) 0"

section \<open>Insertion\<close>

function st_extend :: "bool list \<Rightarrow> bool list \<Rightarrow> nat \<Rightarrow> int list \<Rightarrow> (int list, string) result" where
  "st_extend old_key_bits new_key_bits i sibs =
     (if i < length old_key_bits then
        rbind (unwrap (vec_get new_key_bits i)) (\<lambda>b.
        if old_key_bits ! i = b then st_extend old_key_bits new_key_bits (i + 1) (sibs @ [0]) else Ok sibs)
      else Ok sibs)"
  by pat_completeness auto
termination
  by (relation "measure (\<lambda>(old_key_bits, new_key_bits, i, sibs). length old_key_bits - i)") auto

declare st_extend.simps [simp del]

text \<open>The state of the path loop: mixed, the old hash, hashes to delete, the new hash, nodes to insert.\<close>

type_synonym st_path = "bool \<times> int \<times> int list \<times> int \<times> (int \<times> int list) list"

definition st_path_step ::
  "bool list \<Rightarrow> int list \<Rightarrow> int list \<Rightarrow> nat \<times> int \<Rightarrow> st_path \<Rightarrow> (st_path, string) result" where
  "st_path_step new_key_bits found_siblings path = (\<lambda>(i, sibling) (mixed, rt_old, deletes, rt, inserts).
     rbind (unwrap (vec_get new_key_bits i)) (\<lambda>b.
     let mixed' = (mixed \<or> (i < length path - 1 \<and> sibling \<noteq> 0)) in
     rbind
       (if mixed' then
          rbind (unwrap (vec_get found_siblings i)) (\<lambda>old_sibling.
          rbind (if b then compression_sparse old_sibling rt_old else compression_sparse rt_old old_sibling) (\<lambda>old.
          Ok (old, deletes @ [old])))
        else Ok (rt_old, deletes)) (\<lambda>(rt_old', deletes').
     rbind (if b then compression_sparse sibling rt else compression_sparse rt sibling) (\<lambda>new_rt.
     Ok (mixed', rt_old', deletes', new_rt,
         inserts @ [(new_rt, if b then [sibling, rt] else [rt, sibling])])))))"

record st_result =
  sr_old_root :: int
  sr_new_root :: int
  sr_siblings :: "int list"
  sr_old_key :: int
  sr_old_value :: int
  sr_new_key :: int
  sr_new_value :: int
  sr_is_old0 :: bool

definition pop_zeros :: "int list \<Rightarrow> int list" where
  "pop_zeros sibs = rev (dropWhile (\<lambda>s. s = 0) (rev sibs))"

definition st_insert :: "circuit_smt \<Rightarrow> int \<Rightarrow> int \<Rightarrow> (st_result \<times> circuit_smt, string) result" where
  "st_insert t key val =
     (let new_key_bits = split_bits key in
      rbind (st_find t key) (\<lambda>res_find.
      if sf_found res_find then Err ''Key already exists''
      else
        rbind
          (if \<not> sf_is_old0 res_find then
             rbind (st_extend (split_bits (sf_not_found_key res_find)) new_key_bits
                     (length (sf_siblings res_find)) (sf_siblings res_find)) (\<lambda>sibs.
             rbind (hash3_sparse (sf_not_found_key res_find) (sf_not_found_value res_find)) (\<lambda>rt_old.
             Ok (sibs @ [rt_old], rt_old, False, True)))
           else Ok (sf_siblings res_find, 0, sf_siblings res_find \<noteq> [], False)) (\<lambda>(path, rt_old, mixed, added_one).
        rbind (hash3_sparse key val) (\<lambda>rt.
        rbind (rfold (st_path_step new_key_bits (sf_siblings res_find) path)
                (rev (List.enumerate 0 path)) (mixed, rt_old, [], rt, [(rt, [1, key, val])]))
          (\<lambda>(mixed', rt_old', deletes, root, inserts).
        Ok (\<lparr>sr_old_root = st_root t, sr_new_root = root,
              sr_siblings = pop_zeros (if added_one then butlast path else path),
              sr_old_key = sf_not_found_key res_find, sr_old_value = sf_not_found_value res_find,
              sr_new_key = key, sr_new_value = val, sr_is_old0 = sf_is_old0 res_find\<rparr>,
            multi_del deletes ((multi_ins inserts t)\<lparr>st_root := root\<rparr>)))))))"

section \<open>Update\<close>

text \<open>One level of the rebuilt path: the old node goes, the new one comes.\<close>

definition st_update_step ::
  "bool list \<Rightarrow> nat \<times> int \<Rightarrow> int \<times> int list \<times> int \<times> (int \<times> int list) list
     \<Rightarrow> (int \<times> int list \<times> int \<times> (int \<times> int list) list, string) result" where
  "st_update_step key_bits = (\<lambda>(level, sibling) (rt_old, deletes, rt_new, inserts).
     rbind (unwrap (vec_get key_bits level)) (\<lambda>b.
     let old_node = (if b then [sibling, rt_old] else [rt_old, sibling]);
         new_node = (if b then [sibling, rt_new] else [rt_new, sibling]) in
     rbind (compression_sparse (old_node ! 0) (old_node ! 1)) (\<lambda>rt_old'.
     rbind (compression_sparse (new_node ! 0) (new_node ! 1)) (\<lambda>rt_new'.
     Ok (rt_old', deletes @ [rt_old'], rt_new', inserts @ [(rt_new', new_node)])))))"

text \<open>Whether the key was found is not asked: for an absent key the found value is 0.\<close>

definition st_update :: "circuit_smt \<Rightarrow> int \<Rightarrow> int \<Rightarrow> (st_result \<times> circuit_smt, string) result" where
  "st_update t key new_value =
     rbind (st_find t key) (\<lambda>res_find.
     rbind (hash3_sparse key (sf_found_value res_find)) (\<lambda>rt_old.
     rbind (hash3_sparse key new_value) (\<lambda>rt_new.
     rbind (rfold (st_update_step (split_bits key)) (rev (List.enumerate 0 (sf_siblings res_find)))
             (rt_old, [rt_old], rt_new, [(rt_new, [1, key, new_value])]))
       (\<lambda>(rt_old', deletes, root, inserts).
     Ok (\<lparr>sr_old_root = st_root t, sr_new_root = root, sr_siblings = sf_siblings res_find,
           sr_old_key = key, sr_old_value = sf_found_value res_find, sr_new_key = key,
           sr_new_value = new_value, sr_is_old0 = sf_is_old0 res_find\<rparr>,
         (multi_ins inserts (multi_del deletes t))\<lparr>st_root := root\<rparr>)))))"

section \<open>Deletion\<close>

text \<open>What the record of the last sibling decides: mixed, the reported pair, whether the deleted leaf
  leaves an empty place, and the new hash to start from.\<close>

definition st_delete_start ::
  "circuit_smt \<Rightarrow> int \<Rightarrow> smt_find \<Rightarrow> (bool \<times> int \<times> int \<times> bool \<times> int, string) result" where
  "st_delete_start t key res_find =
     (if sf_siblings res_find = [] then Ok (False, key, sf_found_value res_find, True, 0)
      else
        case st_data t (last (sf_siblings res_find)) of
          Some record \<Rightarrow>
            if length record = 3 \<and> record ! 0 = 1 then
              Ok (False, record ! 1, record ! 2, False, last (sf_siblings res_find))
            else if length record = 2 then Ok (True, key, 0, True, 0)
            else Err ''Invalid node. Database corrupted''
        | None \<Rightarrow> Err ''Sibling not found'')"

text \<open>The state of the path loop: the old hash, hashes to delete, mixed, reported siblings, the new
  hash, nodes to insert.\<close>

type_synonym st_del = "int \<times> int list \<times> bool \<times> int list \<times> int \<times> (int \<times> int list) list"

definition st_delete_step ::
  "bool list \<Rightarrow> nat \<Rightarrow> bool \<Rightarrow> nat \<times> int \<Rightarrow> st_del \<Rightarrow> (st_del, string) result" where
  "st_delete_step key_bits n is_old0 = (\<lambda>(level, old_sibling) (rt_old, deletes, mixed, sibs, rt_new, inserts).
     let new_sibling = (if level = n - 1 \<and> \<not> is_old0 then 0 else old_sibling) in
     rbind (unwrap (vec_get key_bits level)) (\<lambda>b.
     rbind (if b then compression_sparse old_sibling rt_old else compression_sparse rt_old old_sibling) (\<lambda>rt_old'.
     let mixed' = (mixed \<or> new_sibling \<noteq> 0) in
     if mixed' then
       let new_node = (if b then [new_sibling, rt_new] else [rt_new, new_sibling]) in
       rbind (compression_sparse (new_node ! 0) (new_node ! 1)) (\<lambda>rt_new'.
       Ok (rt_old', deletes @ [rt_old'], mixed', old_sibling # sibs, rt_new', inserts @ [(rt_new', new_node)]))
     else Ok (rt_old', deletes @ [rt_old'], mixed', sibs, rt_new, inserts))))"

definition st_delete :: "circuit_smt \<Rightarrow> int \<Rightarrow> (st_result \<times> circuit_smt, string) result" where
  "st_delete t key =
     rbind (st_find t key) (\<lambda>res_find.
     if \<not> sf_found res_find then Err ''Key does not exist''
     else
       rbind (hash3_sparse key (sf_found_value res_find)) (\<lambda>rt_old.
       rbind (st_delete_start t key res_find) (\<lambda>(mixed, old_key, old_value, is_old0, rt_new).
       rbind (rfold (st_delete_step (split_bits key) (length (sf_siblings res_find)) is_old0)
               (rev (List.enumerate 0 (sf_siblings res_find))) (rt_old, [rt_old], mixed, [], rt_new, []))
         (\<lambda>(rt_old', deletes, mixed', sibs, root, inserts).
       Ok (\<lparr>sr_old_root = rt_old', sr_new_root = root, sr_siblings = sibs, sr_old_key = old_key,
             sr_old_value = old_value, sr_new_key = key, sr_new_value = 0, sr_is_old0 = is_old0\<rparr>,
           multi_del deletes ((multi_ins inserts t)\<lparr>st_root := root\<rparr>))))))"

section \<open>Proofs for circuit inputs\<close>

record smt_proof =
  sp_found :: bool
  sp_siblings :: "int list"
  sp_found_value :: int
  sp_not_found_key :: int
  sp_not_found_value :: int
  sp_is_old0 :: bool
  sp_root :: int

definition finalize_proof :: "circuit_smt \<Rightarrow> int \<Rightarrow> nat \<Rightarrow> (smt_proof, string) result" where
  "finalize_proof t key max_levels =
     (case st_find t key of
        Ok find_result \<Rightarrow>
          Ok \<lparr>sp_found = sf_found find_result,
              sp_siblings = sf_siblings find_result @ replicate (max_levels - length (sf_siblings find_result)) 0,
              sp_found_value = sf_found_value find_result, sp_not_found_key = sf_not_found_key find_result,
              sp_not_found_value = sf_not_found_value find_result, sp_is_old0 = sf_is_old0 find_result,
              sp_root = st_root t\<rparr>
      | _ \<Rightarrow> Panic)"

text \<open>The tree of the pairs \<open>(i, i)\<close>, as many as it can address and at most 100; a \<open>usize\<close> has 64 bits.\<close>

definition prepare_smt_proof :: "int \<Rightarrow> nat \<Rightarrow> (smt_proof, string) result" where
  "prepare_smt_proof key max_levels =
     (if 2 ^ 32 \<le> max_levels then Panic
      else
        let max_leaves = (if max_levels < 64 then 2 ^ max_levels else 2 ^ 64 - 1);
            num_leaves = min 100 max_leaves in
        rbind (rfold (\<lambda>i t. case st_insert t (int i) (int i) of Ok (res, t') \<Rightarrow> Ok t' | _ \<Rightarrow> Panic)
                [0..<num_leaves] new_mem_empty_trie)
          (\<lambda>smt. finalize_proof smt key max_levels))"

definition prepare_smt_proof_with_overrides :: "int \<Rightarrow> (int \<times> int) list \<Rightarrow> nat \<Rightarrow> (smt_proof, string) result" where
  "prepare_smt_proof_with_overrides key overrides max_levels =
     rbind (rfold (\<lambda>(k, v) t. case st_insert t k v of Ok (res, t') \<Rightarrow> Ok t' | _ \<Rightarrow> Panic) overrides new_mem_empty_trie)
       (\<lambda>smt. finalize_proof smt key max_levels)"

section \<open>Every number in a tree is reduced\<close>

definition in_order :: "int \<Rightarrow> bool" where
  "in_order x \<longleftrightarrow> 0 \<le> x \<and> x < field_order"

definition st_reduced :: "circuit_smt \<Rightarrow> bool" where
  "st_reduced t \<longleftrightarrow> in_order (st_root t) \<and> (\<forall>k xs. st_data t k = Some xs \<longrightarrow> (\<forall>x \<in> set xs. in_order x))"

lemma in_order_0_1 [simp]: "in_order 0" "in_order 1"
  by (simp_all add: in_order_def)

lemma in_order_fp [simp]: "in_order (fp_to_big_int s)"
proof -
  have "scalar_nat s < 256 ^ 32" using scalar_nat_less_pow [of s] by simp
  then have "fp_to_big_int s = Rep_scalar s" by (simp add: fp_to_big_int_def be_to_nat_nat_to_be int_scalar_nat)
  then show ?thesis using Rep_scalar_range [of s] by (simp add: in_order_def)
qed

lemma in_order_scalar [simp]: "in_order (scalar_to_bigint s)"
  using Rep_scalar_range [of s] by (simp add: in_order_def scalar_to_bigint_value)

lemma in_order_hashes:
  "compression_sparse a b = Ok h \<Longrightarrow> in_order h" "hash3_sparse a b = Ok h \<Longrightarrow> in_order h"
  by (auto simp: compression_sparse_def hash3_sparse_def)

lemma st_find_internal_reduced:
  assumes "st_reduced t" and "in_order key"
  shows "st_find_internal t key bits root level = Ok r \<Longrightarrow>
    in_order (sf_not_found_key r) \<and> in_order (sf_not_found_value r) \<and> (\<forall>x \<in> set (sf_siblings r). in_order x)"
  using assms
proof (induction t key bits root level arbitrary: r rule: st_find_internal.induct)
  case (1 t key bits root level)
  show ?case
  proof (cases "st_data t root")
    case None
    then show ?thesis using 1(2,4) by (auto simp: st_find_internal.simps split: if_splits)
  next
    case (Some rec)
    then have rec: "\<forall>x \<in> set rec. in_order x" using 1(3) by (auto simp: st_reduced_def)
    then have nth: "i < length rec \<Longrightarrow> in_order (rec ! i)" for i by simp
    show ?thesis
    proof (cases "root = 0 \<or> (length rec = 3 \<and> hd rec = 1)")
      case True
      then show ?thesis using 1(2,4) Some nth [of 1] nth [of 2]
        by (auto simp: st_find_internal.simps [of t key bits root] split: if_splits)
    next
      case False
      from 1(2) False Some have two: "length rec = 2" "level < length bits"
        by (auto simp: st_find_internal.simps [of t key bits root] split: if_splits)
      let ?child = "if \<not> bits ! level then rec ! 0 else rec ! 1" and ?sib = "if \<not> bits ! level then rec ! 1 else rec ! 0"
      from 1(2) False Some two obtain r' where r': "st_find_internal t key bits ?child (level + 1) = Ok r'"
        "r = r'\<lparr>sf_siblings := ?sib # sf_siblings r'\<rparr>"
        by (auto simp: st_find_internal.simps [of t key bits root] rbind_eq_Ok_iff split: if_splits)
      have "\<not> length bits \<le> level" "root \<noteq> 0" "\<not> (length rec = 3 \<and> hd rec = 1)" using two False by auto
      from 1(1) [OF this(2) Some this(3) two(1) this(1) refl, of ?child ?sib r'] r' 1(3,4) nth [of 0] nth [of 1] two
      show ?thesis by (auto split: if_splits)
    qed
  qed
qed

lemma st_reduced_multi_ins:
  assumes "st_reduced t" and "\<forall>n \<in> set inserts. \<forall>x \<in> set (snd n). in_order x"
  shows "st_reduced (multi_ins inserts t)"
  using assms
proof (induction inserts arbitrary: t)
  case (Cons n ns)
  obtain k xs where i: "n = (k, xs)" by (cases n)
  have "st_reduced (t\<lparr>st_data := (st_data t)(k \<mapsto> xs)\<rparr>)" using Cons.prems by (auto simp: st_reduced_def i)
  with Cons show ?case by (simp add: multi_ins_def i)
qed (simp add: multi_ins_def)

lemma st_reduced_multi_del: "st_reduced t \<Longrightarrow> st_reduced (multi_del deletes t)"
proof (induction deletes arbitrary: t)
  case (Cons k ks)
  have "st_reduced (t\<lparr>st_data := (st_data t)(k := None)\<rparr>)" using Cons.prems by (auto simp: st_reduced_def)
  with Cons show ?case by (simp add: multi_del_def)
qed (simp add: multi_del_def)

lemma st_extend_zeros:
  "st_extend a b i xs = Ok ys \<Longrightarrow> \<exists>n. ys = xs @ replicate n 0"
proof (induction a b i xs rule: st_extend.induct)
  case (1 a b i xs)
  show ?case
  proof (cases "i < length a \<and> vec_get b i = Some (a ! i)")
    case True
    with 1(2) have "st_extend a b (i + 1) (xs @ [0]) = Ok ys" by (simp add: st_extend.simps [of a b i xs])
    from 1(1) [OF _ _ _ this] True obtain n where "ys = (xs @ [0]) @ replicate n 0" by auto
    then have "ys = xs @ replicate (Suc n) 0" by (simp add: replicate_append_same)
    then show ?thesis ..
  next
    case False
    with 1(2) have "ys = xs @ replicate 0 0"
      by (auto simp: st_extend.simps [of a b i xs] result_simps split: if_splits)
    then show ?thesis ..
  qed
qed

definition path_reduced :: "st_path \<Rightarrow> bool" where
  "path_reduced = (\<lambda>(mixed, rt_old, deletes, rt, inserts).
     in_order rt \<and> (\<forall>n \<in> set inserts. \<forall>x \<in> set (snd n). in_order x))"

lemma st_path_step_reduced:
  "st_path_step bits fs path (i, sib) s = Ok s' \<Longrightarrow> in_order sib \<Longrightarrow> path_reduced s \<Longrightarrow> path_reduced s'"
  by (cases s) (auto simp: st_path_step_def path_reduced_def result_simps Let_def split: if_splits dest!: in_order_hashes)

lemma st_path_reduced:
  "rfold (st_path_step bits fs path) steps s = Ok s' \<Longrightarrow> \<forall>(i, sib) \<in> set steps. in_order sib \<Longrightarrow>
   path_reduced s \<Longrightarrow> path_reduced s'"
proof (induction steps arbitrary: s)
  case (Cons x xs)
  then show ?case by (cases x) (auto simp: rbind_eq_Ok_iff dest: st_path_step_reduced)
qed simp

lemma st_insert_reduced:
  assumes t: "st_reduced t" and kv: "in_order key" "in_order val" and ins: "st_insert t key val = Ok (res, t')"
  shows "st_reduced t'"
proof -
  from ins obtain r path rt_old mixed added_one rt m' o' deletes root inserts where
    r: "st_find t key = Ok r" and
    path: "(if \<not> sf_is_old0 r then
             rbind (st_extend (split_bits (sf_not_found_key r)) (split_bits key) (length (sf_siblings r)) (sf_siblings r))
               (\<lambda>sibs. rbind (hash3_sparse (sf_not_found_key r) (sf_not_found_value r)) (\<lambda>rt_old. Ok (sibs @ [rt_old], rt_old, False, True)))
           else Ok (sf_siblings r, 0, sf_siblings r \<noteq> [], False)) = (Ok (path, rt_old, mixed, added_one) :: (_, string) result)" and
    rt: "hash3_sparse key val = (Ok rt :: (int, string) result)" and
    steps: "rfold (st_path_step (split_bits key) (sf_siblings r) path) (rev (List.enumerate 0 path))
      (mixed, rt_old, [], rt, [(rt, [1, key, val])]) = Ok (m', o', deletes, root, inserts)" and
    t': "t' = multi_del deletes ((multi_ins inserts t)\<lparr>st_root := root\<rparr>)"
    unfolding st_insert_def Let_def rbind_eq_Ok_iff by (auto split: if_splits simp: rbind_eq_Ok_iff)
  note found = st_find_internal_reduced [OF t kv(1) r [unfolded st_find_def]]
  have "\<forall>x \<in> set path. in_order x"
    using path found by (auto simp: rbind_eq_Ok_iff split: if_splits dest!: st_extend_zeros in_order_hashes)
  then have "\<forall>(i, sib) \<in> set (rev (List.enumerate 0 path)). in_order sib"
    by (auto simp: enumerate_eq_zip dest: set_zip_rightD)
  from st_path_reduced [OF steps this] have "in_order root" "\<forall>n \<in> set inserts. \<forall>x \<in> set (snd n). in_order x"
    using kv in_order_hashes(2) [OF rt] by (auto simp: path_reduced_def)
  with st_reduced_multi_ins [OF t this(2)] show ?thesis
    unfolding t' by (intro st_reduced_multi_del) (simp add: st_reduced_def)
qed

lemma prepare_smt_proof_reduced:
  assumes "prepare_smt_proof_with_overrides key overrides max_levels = Ok p"
    and "in_order key" and "\<forall>(k, v) \<in> set overrides. in_order k \<and> in_order v"
  shows "in_order (sp_not_found_key p) \<and> in_order (sp_not_found_value p) \<and> in_order (sp_root p) \<and>
    (\<forall>x \<in> set (sp_siblings p). in_order x)"
proof -
  from assms(1) obtain t where t: "rfold (\<lambda>(k, v) t. case st_insert t k v of Ok (res, t') \<Rightarrow> Ok t' | _ \<Rightarrow> Panic) overrides
      new_mem_empty_trie = (Ok t :: (_, string) result)" and p: "finalize_proof t key max_levels = Ok p"
    by (auto simp: prepare_smt_proof_with_overrides_def rbind_eq_Ok_iff)
  have "rfold (\<lambda>(k, v) t. case st_insert t k v of Ok (res, t') \<Rightarrow> Ok t' | _ \<Rightarrow> Panic) os t0 = (Ok t1 :: (_, string) result) \<Longrightarrow>
      st_reduced t0 \<Longrightarrow> \<forall>(k, v) \<in> set os. in_order k \<and> in_order v \<Longrightarrow> st_reduced t1" for os t0 t1
  proof (induction os arbitrary: t0)
    case (Cons o1 os)
    then show ?case
      by (cases o1) (auto simp: rbind_eq_Ok_iff split: result.splits dest: st_insert_reduced)
  qed simp
  from this [OF t _ assms(3)] have red: "st_reduced t" by (simp add: new_mem_empty_trie_def st_reduced_def)
  from p obtain r where r: "st_find t key = Ok r" by (auto simp: finalize_proof_def split: result.splits)
  from st_find_internal_reduced [OF red assms(2) r [unfolded st_find_def]] p r red
  show ?thesis by (auto simp: finalize_proof_def st_reduced_def)
qed

end
