(* ===== verification/Smoke_Proof.thy ===== *)
theory Smoke_Proof
  imports Circuit_Smt Build_Script Deploy_Key Pool
begin

text \<open>
  The proof half of the fixture generator (\<open>tools/smoke-fixture-cli/src/main.rs\<close>, \<open>generate_proof\<close>):
  membership and non-membership data of the inputs, the signals given to the native prover, and the
  JSON dump of the same inputs for the WebAssembly prover.  Vectors are shorter than half the address
  space, so index arithmetic on their lengths does not overflow.  Loading keys and proving are fields
  of \<open>smoke_ops\<close>.
\<close>

section \<open>Data\<close>

definition LEVELS :: nat where "LEVELS = 10"
definition N_MEM_PROOFS :: nat where "N_MEM_PROOFS = 1"
definition N_NON_PROOFS :: nat where "N_NON_PROOFS = 1"

record membership_tree =
  ms_leaves :: "scalar list"
  ms_index :: nat
  ms_blinding :: scalar

record circom_result =
  cr_verified :: bool
  cr_public_inputs :: "scalar list"
  cr_proof :: ark_proof
  cr_vk :: ark_verifying_key

record 'keys smoke_ops =
  so_host :: host
  so_address :: address
  so_strkey :: "address \<Rightarrow> string"
  so_manifest_dir :: string
  so_circuit_out_dir :: string
  so_load_keys :: "string \<Rightarrow> disk \<Rightarrow> ('keys, string) result"
  so_prove :: "string \<Rightarrow> string \<Rightarrow> signals \<Rightarrow> 'keys \<Rightarrow> (circom_result, string) result"
  so_pretty :: "json \<Rightarrow> (bytes, string) result"
  so_write :: "string \<Rightarrow> bytes \<Rightarrow> disk \<Rightarrow> (unit, string) result \<times> disk"
  so_create_dir_all :: "string \<Rightarrow> disk \<Rightarrow> (unit, string) result \<times> disk"

definition proving_key_path :: "'keys smoke_ops \<Rightarrow> (string, string) result" where
  "proving_key_path ops =
     (case Option.bind (path_parent (so_manifest_dir ops)) path_parent of
        None \<Rightarrow> Panic
      | Some root \<Rightarrow> Ok (path_join root ''scripts/testdata/policy_tx_2_2_proving_key.bin''))"

definition scalar_to_u256 :: "scalar \<Rightarrow> u256" where
  "scalar_to_u256 s = u256_from_be_bytes (nat_to_be 32 (scalar_nat s))"

definition bytes32_to_bigint :: "bytes \<Rightarrow> int" where
  "bytes32_to_bigint bs = int (be_to_nat bs)"

fun build_membership_trees ::
  "tx_case \<Rightarrow> (nat \<Rightarrow> u64) \<Rightarrow> nat list \<Rightarrow> (membership_tree list, string) result option" where
  "build_membership_trees tx seed_fn [] = Some (Ok [])"
| "build_membership_trees tx seed_fn (j # js) =
     (case prepopulated_leaves LEVELS (seed_fn j) [] 24 of
        None \<Rightarrow> None
      | Some base \<Rightarrow>
          (case build_membership_trees tx seed_fn js of
             None \<Rightarrow> None
           | Some rest \<Rightarrow>
               Some (rbind base (\<lambda>leaves.
                 if length leaves \<noteq> 2 ^ LEVELS then Panic
                 else rbind rest (\<lambda>trees.
                   Ok (map (\<lambda>input. \<lparr>ms_leaves = leaves, ms_index = in_leaf_index input, ms_blinding = 0\<rparr>)
                         (tc_inputs tx) @ trees))))))"

definition non_membership_override :: "nat \<times> scalar \<Rightarrow> (int \<times> int, string) result" where
  "non_membership_override = (\<lambda>(i, pk).
     let idx = i + 1; override_idx = idx * 100000 + idx in
     if 2 ^ 64 \<le> override_idx then Panic
     else rbind (general_hash2 pk 0 (Some 1)) (\<lambda>leaf.
       Ok (scalar_to_bigint (of_nat override_idx), scalar_to_bigint leaf)))"

definition non_membership_overrides_from_pubs :: "scalar list \<Rightarrow> ((int \<times> int) list, string) result" where
  "non_membership_overrides_from_pubs pubs = each non_membership_override (List.enumerate 0 pubs)"

section \<open>Membership\<close>

record mem_entry =
  me_leaf :: int
  me_blinding :: int
  me_path_indices :: int
  me_path_elements :: "int list"

definition freeze_leaf ::
  "membership_tree list \<Rightarrow> nat \<Rightarrow> nat \<times> scalar \<Rightarrow> scalar list \<Rightarrow> (scalar list, string) result" where
  "freeze_leaf trees j = (\<lambda>(k, pk) frozen.
     rbind (unwrap (vec_get trees (k * N_MEM_PROOFS + j))) (\<lambda>tree.
     rbind (general_hash2 pk (ms_blinding tree) (Some 1)) (\<lambda>leaf.
     if ms_index tree < length frozen then Ok (frozen[ms_index tree := leaf]) else Panic)))"

definition freeze_leaves ::
  "membership_tree list \<Rightarrow> scalar list \<Rightarrow> nat \<Rightarrow> nat \<Rightarrow> (scalar list, string) result" where
  "freeze_leaves trees pubs n_inputs j =
     rbind (unwrap (vec_get trees (j * n_inputs))) (\<lambda>base.
     rfold (freeze_leaf trees j) (List.enumerate 0 pubs) (ms_leaves base))"

definition mem_entry_of ::
  "membership_tree list \<Rightarrow> scalar list \<Rightarrow> nat \<Rightarrow> scalar list \<Rightarrow> nat \<Rightarrow> (mem_entry, string) result" where
  "mem_entry_of trees pubs j frozen i =
     rbind (unwrap (vec_get trees (i * N_MEM_PROOFS + j))) (\<lambda>t.
     rbind (unwrap (vec_get pubs i)) (\<lambda>pk.
     rbind (general_hash2 pk (ms_blinding t) (Some 1)) (\<lambda>leaf.
     rbind (merkle_proof frozen (ms_index t)) (\<lambda>(sibs, path_idx_u64, _).
     Ok \<lparr>me_leaf = scalar_to_bigint leaf, me_blinding = scalar_to_bigint (ms_blinding t),
         me_path_indices = scalar_to_bigint (of_nat (unat path_idx_u64)),
         me_path_elements = map scalar_to_bigint sibs\<rparr>))))"

text \<open>Row \<open>i\<close> of the result holds the proofs of input \<open>i\<close>; the roots come proof by proof.\<close>

definition mem_round ::
  "membership_tree list \<Rightarrow> scalar list \<Rightarrow> nat \<Rightarrow> nat \<Rightarrow> mem_entry list list \<times> int list \<Rightarrow>
   (mem_entry list list \<times> int list, string) result" where
  "mem_round trees pubs n_inputs j = (\<lambda>(rows, roots).
     rbind (freeze_leaves trees pubs n_inputs j) (\<lambda>frozen.
     rbind (merkle_root frozen) (\<lambda>root.
     rbind (each (mem_entry_of trees pubs j frozen) [0..<n_inputs]) (\<lambda>es.
     Ok (map2 (\<lambda>row e. row @ [e]) rows es, roots @ replicate n_inputs (scalar_to_bigint root))))))"

definition mem_data ::
  "membership_tree list \<Rightarrow> scalar list \<Rightarrow> nat \<Rightarrow> (mem_entry list list \<times> int list, string) result" where
  "mem_data trees pubs n_inputs = rfold (mem_round trees pubs n_inputs) [0..<N_MEM_PROOFS] (replicate n_inputs [], [])"

section \<open>Non-membership\<close>

record non_entry =
  ne_key :: int
  ne_old_key :: int
  ne_old_value :: int
  ne_is_old0 :: int
  ne_siblings :: "int list"

definition non_entry_of :: "int list \<Rightarrow> scalar list \<Rightarrow> nat \<Rightarrow> (non_entry \<times> int, string) result" where
  "non_entry_of non_membership pubs i =
     rbind (non_membership_overrides_from_pubs pubs) (\<lambda>overrides.
     rbind (unwrap (vec_get non_membership i)) (\<lambda>key.
     rbind (prepare_smt_proof_with_overrides key overrides LEVELS) (\<lambda>proof.
     rbind (unwrap (vec_get pubs i)) (\<lambda>pk.
     Ok (if sp_is_old0 proof then
           \<lparr>ne_key = scalar_to_bigint pk, ne_old_key = 0, ne_old_value = 0, ne_is_old0 = 1,
            ne_siblings = sp_siblings proof\<rparr>
         else
           \<lparr>ne_key = scalar_to_bigint pk, ne_old_key = sp_not_found_key proof,
            ne_old_value = sp_not_found_value proof, ne_is_old0 = 0, ne_siblings = sp_siblings proof\<rparr>,
         sp_root proof)))))"

definition non_round ::
  "int list \<Rightarrow> scalar list \<Rightarrow> nat \<Rightarrow> nat \<Rightarrow> non_entry list list \<times> int list \<Rightarrow>
   (non_entry list list \<times> int list, string) result" where
  "non_round non_membership pubs n_inputs j = (\<lambda>(rows, roots).
     rbind (each (non_entry_of non_membership pubs) [0..<n_inputs]) (\<lambda>es.
     Ok (map2 (\<lambda>row e. row @ [fst e]) rows es, roots @ map snd es)))"

definition non_data :: "int list \<Rightarrow> scalar list \<Rightarrow> nat \<Rightarrow> (non_entry list list \<times> int list, string) result" where
  "non_data non_membership pubs n_inputs =
     rfold (non_round non_membership pubs n_inputs) [0..<N_NON_PROOFS] (replicate n_inputs [], [])"

section \<open>The signals of the native prover\<close>

record fixture_data =
  fd_case :: tx_case
  fd_witness :: transaction_witness
  fd_public_amount :: scalar
  fd_ext_data_hash :: "int option"
  fd_mem :: "mem_entry list list"
  fd_mem_roots :: "int list"
  fd_non :: "non_entry list list"
  fd_non_roots :: "int list"

definition proof_key :: "string \<Rightarrow> nat \<Rightarrow> nat \<Rightarrow> string \<Rightarrow> string" where
  "proof_key base i j field = signal_field field (signal_idx j (signal_idx i base))"

definition set_mem_entry :: "nat \<Rightarrow> nat \<Rightarrow> mem_entry \<Rightarrow> inputs \<Rightarrow> inputs" where
  "set_mem_entry i j e m =
     (set_input (proof_key ''membershipProofs'' i j ''pathElements'') (Array (me_path_elements e)) \<circ>
      set_input (proof_key ''membershipProofs'' i j ''pathIndices'') (Single (me_path_indices e)) \<circ>
      set_input (proof_key ''membershipProofs'' i j ''blinding'') (Single (me_blinding e)) \<circ>
      set_input (proof_key ''membershipProofs'' i j ''leaf'') (Single (me_leaf e))) m"

definition set_non_entry :: "nat \<Rightarrow> nat \<Rightarrow> non_entry \<Rightarrow> inputs \<Rightarrow> inputs" where
  "set_non_entry i j e m =
     (set_input (proof_key ''nonMembershipProofs'' i j ''siblings'') (Array (ne_siblings e)) \<circ>
      set_input (proof_key ''nonMembershipProofs'' i j ''isOld0'') (Single (ne_is_old0 e)) \<circ>
      set_input (proof_key ''nonMembershipProofs'' i j ''oldValue'') (Single (ne_old_value e)) \<circ>
      set_input (proof_key ''nonMembershipProofs'' i j ''oldKey'') (Single (ne_old_key e)) \<circ>
      set_input (proof_key ''nonMembershipProofs'' i j ''key'') (Single (ne_key e))) m"

definition set_rows :: "(nat \<Rightarrow> nat \<Rightarrow> 'a \<Rightarrow> inputs \<Rightarrow> inputs) \<Rightarrow> 'a list list \<Rightarrow> inputs \<Rightarrow> inputs" where
  "set_rows put rows m =
     fold (\<lambda>(i, row) m. fold (\<lambda>(j, e) m. put i j e m) (List.enumerate 0 row) m) (List.enumerate 0 rows) m"

definition proof_inputs :: "fixture_data \<Rightarrow> (inputs, string) result" where
  "proof_inputs d =
     rbind (build_base_inputs (fd_case d) (fd_witness d) (fd_public_amount d)) (\<lambda>base.
     let m0 = (case fd_ext_data_hash d of Some h \<Rightarrow> set_input ''extDataHash'' (Single h) base | None \<Rightarrow> base);
         m1 = set_input ''membershipRoots'' (Array (fd_mem_roots d)) (set_rows set_mem_entry (fd_mem d) m0) in
     Ok (set_input ''nonMembershipRoots'' (Array (fd_non_roots d)) (set_rows set_non_entry (fd_non d) m1)))"

text \<open>The builder receives the values of every signal.\<close>

definition builder_signals :: "inputs \<Rightarrow> signals" where
  "builder_signals m key = (case m key of None \<Rightarrow> None | Some val \<Rightarrow> push_value key val Map.empty key)"

section \<open>The dump for the WebAssembly prover\<close>

definition bigint_text :: "int \<Rightarrow> string" where
  "bigint_text b = (if b < 0 then ''-'' @ show_nat (nat (- b)) else show_nat (nat b))"

definition bi_from_bigint :: "int \<Rightarrow> json" where
  "bi_from_bigint b = JString (bigint_text b)"

definition bi :: "scalar \<Rightarrow> json" where
  "bi s = JString (bigint_text (scalar_to_bigint s))"

definition reshape :: "nat \<Rightarrow> nat \<Rightarrow> (nat \<Rightarrow> nat \<Rightarrow> nat) \<Rightarrow> int list \<Rightarrow> (json, string) result" where
  "reshape n m position xs =
     rbind (each (\<lambda>i. each (\<lambda>j.
       rbind (unwrap (vec_get xs (position i j))) (\<lambda>b. Ok (bi_from_bigint b))) [0..<m]) [0..<n]) (\<lambda>rows.
     Ok (JArray (map JArray rows)))"

definition mem_json :: "mem_entry \<Rightarrow> json" where
  "mem_json e = JObject
     [(''leaf'', bi_from_bigint (me_leaf e)), (''blinding'', bi_from_bigint (me_blinding e)),
      (''pathIndices'', bi_from_bigint (me_path_indices e)),
      (''pathElements'', JArray (map bi_from_bigint (me_path_elements e)))]"

definition non_json :: "non_entry \<Rightarrow> json" where
  "non_json e = JObject
     [(''key'', bi_from_bigint (ne_key e)), (''oldKey'', bi_from_bigint (ne_old_key e)),
      (''oldValue'', bi_from_bigint (ne_old_value e)), (''isOld0'', bi_from_bigint (ne_is_old0 e)),
      (''siblings'', JArray (map bi_from_bigint (ne_siblings e)))]"

definition rows_json :: "('a \<Rightarrow> json) \<Rightarrow> 'a list list \<Rightarrow> json" where
  "rows_json f rows = JArray (map (\<lambda>row. JArray (map f row)) rows)"

definition pool08_evidence :: "json \<Rightarrow> json" where
  "pool08_evidence in_public_key_j = JObject
     [(''input_0_priv_key'', JString ''101''),
      (''input_1_priv_key'', JString ''102''),
      (''input_0_role'', JString ''dummy (amount=0)''),
      (''input_1_role'', JString ''real (amount=13)''),
      (''both_pubkeys_inserted_into_asp_membership'', JBool True),
      (''hypothesis'', JString ''H4 - caller-managed distinct keys per slot, BOTH inserted''),
      (''supersedes'', JString ''H1/H2/H3 from CONTEXT.md''),
      (''evidence_source'', JString (''e2e-tests/src/tests/e2e_pool_2_in_2_out.rs '' @
         ''test_e2e_transact_with_real_proof (verbatim reproduction)'')),
      (''inPublicKey'', in_public_key_j),
      (''phase1_consequence'', JString (''Treasury CLI manages DISTINCT dummy + real spending keys per input slot; '' @
         ''org-bootstrap inserts BOTH derived public keys into asp-membership.'')),
      (''bench_script_strips_keys'', JArray [JString ''_pool08_evidence'', JString ''inPublicKey''])]"

definition witness_dump :: "fixture_data \<Rightarrow> (json, string) result" where
  "witness_dump d =
     (let w = fd_witness d; tx = fd_case d; n_inputs = length (tc_inputs tx);
          array = (\<lambda>ss. JArray (map bi ss));
          in_public_key_j = array (tw_public_keys w) in
      rbind (output_commitments (tc_outputs tx)) (\<lambda>cms.
      rbind (reshape n_inputs N_MEM_PROOFS (\<lambda>i j. j * n_inputs + i) (fd_mem_roots d)) (\<lambda>mem_roots.
      rbind (reshape n_inputs N_NON_PROOFS (\<lambda>i j. j * n_inputs + i) (fd_non_roots d)) (\<lambda>non_roots.
      rbind (reshape n_inputs LEVELS (\<lambda>i l. i * LEVELS + l) (tw_path_elements_flat w)) (\<lambda>path_elements.
      Ok (JObject
        [(''root'', bi (tw_root w)),
         (''publicAmount'', bi (fd_public_amount d)),
         (''extDataHash'', (case fd_ext_data_hash d of Some h \<Rightarrow> bi_from_bigint h | None \<Rightarrow> JString ''0'')),
         (''inputNullifier'', array (tw_nullifiers w)),
         (''outputCommitment'', array cms),
         (''membershipRoots'', mem_roots),
         (''nonMembershipRoots'', non_roots),
         (''membershipProofs'', rows_json mem_json (fd_mem d)),
         (''nonMembershipProofs'', rows_json non_json (fd_non d)),
         (''inAmount'', array (map in_amount (tc_inputs tx))),
         (''inPrivateKey'', array (map in_priv_key (tc_inputs tx))),
         (''inBlinding'', array (map in_blinding (tc_inputs tx))),
         (''inPathIndices'', array (tw_path_indices w)),
         (''inPathElements'', path_elements),
         (''outAmount'', array (map on_amount (tc_outputs tx))),
         (''outPubkey'', array (map on_pub_key (tc_outputs tx))),
         (''outBlinding'', array (map on_blinding (tc_outputs tx))),
         (''inPublicKey'', in_public_key_j),
         (''_pool08_evidence'', pool08_evidence in_public_key_j)]))))))"

section \<open>Proving\<close>

definition load_artifacts :: "'keys smoke_ops \<Rightarrow> string \<Rightarrow> disk \<Rightarrow> (string \<times> string, string) result" where
  "load_artifacts ops name fs =
     (let wasm = path_join (so_circuit_out_dir ops) (''wasm/'' @ name @ ''_js/'' @ name @ ''.wasm'');
          r1cs = path_join (so_circuit_out_dir ops) (name @ ''.r1cs'') in
      if \<not> path_exists fs wasm then Err (''WASM file not found at '' @ wasm)
      else if \<not> path_exists fs r1cs then Err (''R1CS file not found at '' @ r1cs)
      else Ok (wasm, r1cs))"

definition prepare_fixture ::
  "tx_case \<Rightarrow> scalar list \<Rightarrow> scalar \<Rightarrow> membership_tree list \<Rightarrow> int list \<Rightarrow> int option \<Rightarrow> (fixture_data, string) result" where
  "prepare_fixture tx leaves public_amount trees non_membership ext_data_hash =
     (let n_inputs = length (tc_inputs tx) in
      rbind (map_err (\<lambda>_. ''prepare_transaction_witness'') (prepare_transaction_witness tx leaves LEVELS)) (\<lambda>witness.
      rbind (mem_data trees (tw_public_keys witness) n_inputs) (\<lambda>(mem, mem_roots).
      rbind (non_data non_membership (tw_public_keys witness) n_inputs) (\<lambda>(non, non_roots).
      Ok \<lparr>fd_case = tx, fd_witness = witness, fd_public_amount = public_amount, fd_ext_data_hash = ext_data_hash,
          fd_mem = mem, fd_mem_roots = mem_roots, fd_non = non, fd_non_roots = non_roots\<rparr>))))"

definition generate_proof ::
  "'keys smoke_ops \<Rightarrow> tx_case \<Rightarrow> scalar list \<Rightarrow> scalar \<Rightarrow> membership_tree list \<Rightarrow> int list \<Rightarrow> int option \<Rightarrow> bool \<Rightarrow>
   disk \<Rightarrow> (circom_result \<times> json option, string) result" where
  "generate_proof ops tx leaves public_amount trees non_membership ext_data_hash also_dump_inputs fs =
     rbind (map_err (\<lambda>_. ''load policy_tx_2_2 artifacts (circuits build.rs output)'')
             (load_artifacts ops ''policy_tx_2_2'' fs)) (\<lambda>(wasm, r1cs).
     rbind (prepare_fixture tx leaves public_amount trees non_membership ext_data_hash) (\<lambda>d.
     rbind (proof_inputs d) (\<lambda>inputs.
     rbind (if also_dump_inputs then rbind (witness_dump d) (\<lambda>j. Ok (Some j)) else Ok None) (\<lambda>witness_inputs_json.
     rbind (proving_key_path ops) (\<lambda>pk_path.
     rbind (map_err (\<lambda>_. ''load_keys(scripts/testdata/policy_tx_2_2_proving_key.bin)'') (so_load_keys ops pk_path fs)) (\<lambda>keys.
     rbind (map_err (\<lambda>_. ''prove_and_verify_with_keys'') (so_prove ops wasm r1cs (builder_signals inputs) keys)) (\<lambda>res.
     Ok (res, witness_inputs_json))))))))"

end
