(* ===== verification/Smoke_Fixture.thy ===== *)
theory Smoke_Fixture
  imports Smoke_Proof
begin

unbundle bit_operations_syntax

text \<open>
  The fixture generator itself (\<open>tools/smoke-fixture-cli/src/main.rs\<close>, the serialisation helpers and
  \<open>main\<close>), with the conversions of arkworks points it takes from \<open>contracts/soroban-utils/src/utils.rs\<close>.
  \<open>main\<close> may not return, since filling a tree may not.  Lines on the error stream are left out.
\<close>

section \<open>Encodings\<close>

definition g1_bytes_from_ark :: "g1_affine \<Rightarrow> bytes" where
  "g1_bytes_from_ark p = nat_to_be 32 (g1_x p) @ nat_to_be 32 (g1_y p)"

definition g2_bytes_from_ark :: "g2_affine \<Rightarrow> bytes" where
  "g2_bytes_from_ark p =
     nat_to_be 32 (g2_x_c1 p) @ nat_to_be 32 (g2_x_c0 p) @ nat_to_be 32 (g2_y_c1 p) @ nat_to_be 32 (g2_y_c0 p)"

definition vk_bytes_from_ark :: "ark_verifying_key \<Rightarrow> verification_key_bytes" where
  "vk_bytes_from_ark vk =
     \<lparr>vkb_alpha = g1_bytes_from_ark (av_alpha vk), vkb_beta = g2_bytes_from_ark (av_beta vk),
      vkb_gamma = g2_bytes_from_ark (av_gamma vk), vkb_delta = g2_bytes_from_ark (av_delta vk),
      vkb_ic = map g1_bytes_from_ark (av_ic vk)\<rparr>"

definition wrap_groth16_proof :: "circom_result \<Rightarrow> groth16_proof" where
  "wrap_groth16_proof r =
     \<lparr>g16_a = g1_bytes_from_ark (ap_a (cr_proof r)), g16_b = g2_bytes_from_ark (ap_b (cr_proof r)),
      g16_c = g1_bytes_from_ark (ap_c (cr_proof r))\<rparr>"

definition u256_to_dec :: "u256 \<Rightarrow> string" where
  "u256_to_dec v = show_nat (be_to_nat (u256_to_be_bytes v))"

definition bytesn32_to_hex_plain :: "bytes \<Rightarrow> string" where
  "bytesn32_to_hex_plain b = to_hex b"

definition groth16_proof_to_hex_parts :: "groth16_proof \<Rightarrow> string \<times> string \<times> string" where
  "groth16_proof_to_hex_parts proof = (to_hex (g16_a proof), to_hex (g16_b proof), to_hex (g16_c proof))"

definition vk_to_json_value :: "ark_verifying_key \<Rightarrow> json" where
  "vk_to_json_value vk =
     (let vk_bytes = vk_bytes_from_ark vk in
      JObject [(''alpha'', JString (to_hex (vkb_alpha vk_bytes))), (''beta'', JString (to_hex (vkb_beta vk_bytes))),
        (''gamma'', JString (to_hex (vkb_gamma vk_bytes))), (''delta'', JString (to_hex (vkb_delta vk_bytes))),
        (''ic'', JArray (map (\<lambda>p. JString (to_hex p)) (vkb_ic vk_bytes)))])"

section \<open>The transaction\<close>

definition smoke_case :: tx_case where
  "smoke_case =
     \<lparr>tc_inputs =
        [\<lparr>in_leaf_index = 0, in_priv_key = 101, in_blinding = 201, in_amount = 0\<rparr>,
         \<lparr>in_leaf_index = 1, in_priv_key = 102, in_blinding = 211, in_amount = 13\<rparr>],
      tc_outputs =
        [\<lparr>on_pub_key = 501, on_blinding = 601, on_amount = 13\<rparr>,
         \<lparr>on_pub_key = 502, on_blinding = 602, on_amount = 0\<rparr>]\<rparr>"

definition zero_scalar_bytes :: bytes where
  "zero_scalar_bytes =
     [37, 48, 34, 136, 219, 153, 53, 3, 68, 151, 65, 131, 206, 49, 13, 99, 181, 58, 187, 158, 240, 248, 87, 87,
      83, 238, 211, 110, 1, 24, 249, 206]"

definition pad_leaves :: "scalar list \<Rightarrow> (scalar list, string) result" where
  "pad_leaves leaves =
     (let zero_buf = u256_to_be_bytes (u256_from_be_bytes zero_scalar_bytes);
          zero_scalar = of_nat (be_to_nat zero_buf); len = length leaves in
      if len < 2 then Panic else Ok (leaves[len - 2 := zero_scalar, len - 1 := zero_scalar]))"

definition smoke_seed :: "nat \<Rightarrow> u64" where
  "smoke_seed j = 0xFEEDFACE XOR push_bit 40 (of_nat j)"

text \<open>Leaves and membership trees.\<close>

definition smoke_setup :: "(scalar list \<times> membership_tree list, string) result option" where
  "smoke_setup =
     (case prepopulated_leaves LEVELS 0xDEADBEEF (map in_leaf_index (tc_inputs smoke_case)) 24 of
        None \<Rightarrow> None
      | Some r \<Rightarrow>
          (case rbind r pad_leaves of
             Ok leaves \<Rightarrow>
               (case build_membership_trees smoke_case smoke_seed [0..<N_MEM_PROOFS] of
                  None \<Rightarrow> None
                | Some trees \<Rightarrow> Some (rbind trees (\<lambda>ts. Ok (leaves, ts))))
           | Err e \<Rightarrow> Some (Err e)
           | Panic \<Rightarrow> Some Panic))"

definition smoke_ext_data :: "'keys smoke_ops \<Rightarrow> ext_data" where
  "smoke_ext_data ops =
     \<lparr>ed_recipient = so_address ops, ed_ext_amount = 0, ed_encrypted_output0 = [], ed_encrypted_output1 = []\<rparr>"

definition returned :: "('a, 'e) result \<Rightarrow> ('a, string) result" where
  "returned r = (case r of Ok x \<Rightarrow> Ok x | _ \<Rightarrow> Panic)"

definition asp_membership_root :: "transaction_witness \<Rightarrow> membership_tree list \<Rightarrow> (u256, string) result" where
  "asp_membership_root witness trees =
     rbind (freeze_leaves trees (tw_public_keys witness) 0 0) (\<lambda>frozen.
     rbind (merkle_root frozen) (\<lambda>root. Ok (scalar_to_u256 root)))"

definition asp_non_membership_root :: "transaction_witness \<Rightarrow> int list \<Rightarrow> (u256, string) result" where
  "asp_non_membership_root witness non_keys =
     rbind (non_membership_overrides_from_pubs (tw_public_keys witness)) (\<lambda>overrides.
     rbind (unwrap (vec_get non_keys 0)) (\<lambda>key.
     rbind (prepare_smt_proof_with_overrides key overrides LEVELS) (\<lambda>smt_proof.
     if sp_root smt_proof < 0 then Err ''non-membership root is negative''
     else if 2 ^ 256 \<le> sp_root smt_proof then Panic
     else Ok (u256_from_be_bytes (nat_to_be 32 (nat (sp_root smt_proof)))))))"

definition smoke_proof ::
  "transaction_witness \<Rightarrow> groth16_proof \<Rightarrow> bytes \<Rightarrow> u256 list \<Rightarrow> u256 \<Rightarrow> u256 \<Rightarrow> tx_proof" where
  "smoke_proof witness proof ext_hash cms member_root non_member_root =
     \<lparr>tp_proof = proof, tp_root = scalar_to_u256 (tw_root witness),
      tp_input_nullifiers = map scalar_to_u256 (tw_nullifiers witness),
      tp_output_commitment0 = cms ! 0, tp_output_commitment1 = cms ! 1, tp_public_amount = 0,
      tp_ext_data_hash = ext_hash, tp_asp_membership_root = member_root,
      tp_asp_non_membership_root = non_member_root\<rparr>"

section \<open>The files\<close>

text \<open>The public inputs written for the verifier.\<close>

definition fixture_public_inputs :: "tx_proof \<Rightarrow> string list" where
  "fixture_public_inputs p =
     [u256_to_dec (tp_root p), u256_to_dec (tp_public_amount p), show_nat (be_to_nat (tp_ext_data_hash p))] @
     map u256_to_dec (tp_input_nullifiers p) @
     [u256_to_dec (tp_output_commitment0 p), u256_to_dec (tp_output_commitment1 p),
      u256_to_dec (tp_asp_membership_root p), u256_to_dec (tp_asp_non_membership_root p)]"

definition pool_08_json :: json where
  "pool_08_json = JObject
     [(''input_0_priv_key'', JString ''101''), (''input_1_priv_key'', JString ''102''),
      (''input_0_role'', JString ''dummy''), (''input_1_role'', JString ''real''),
      (''both_pubkeys_inserted_into_asp_membership'', JBool True),
      (''hypothesis'', JString ''H4 - caller-managed distinct keys per slot, BOTH inserted''),
      (''evidence_source'', JString (''e2e-tests/src/tests/e2e_pool_2_in_2_out.rs '' @
         ''test_e2e_transact_with_real_proof (verbatim reproduction)''))]"

definition fixture_proof_json :: "tx_proof \<Rightarrow> ark_verifying_key \<Rightarrow> json" where
  "fixture_proof_json p vk =
     (let (a, b, c) = groth16_proof_to_hex_parts (tp_proof p);
          parts = JObject [(''a'', JString a), (''b'', JString b), (''c'', JString c)] in
      JObject
        [(''schema_version'', json_usize 2),
         (''proof_json'', JObject
           [(''root'', JString (u256_to_dec (tp_root p))),
            (''public_amount'', JString (u256_to_dec (tp_public_amount p))),
            (''ext_data_hash'', JString (bytesn32_to_hex_plain (tp_ext_data_hash p))),
            (''input_nullifiers'', JArray (map (\<lambda>n. JString (u256_to_dec n)) (tp_input_nullifiers p))),
            (''output_commitment0'', JString (u256_to_dec (tp_output_commitment0 p))),
            (''output_commitment1'', JString (u256_to_dec (tp_output_commitment1 p))),
            (''asp_membership_root'', JString (u256_to_dec (tp_asp_membership_root p))),
            (''asp_non_membership_root'', JString (u256_to_dec (tp_asp_non_membership_root p))),
            (''proof'', parts)]),
         (''verify_proof_json'', parts),
         (''public_inputs'', JArray (map JString (fixture_public_inputs p))),
         (''vk_json'', vk_to_json_value vk),
         (''input_nullifier_count'', json_usize (length (tp_input_nullifiers p))),
         (''pool_08_evidence'', pool_08_json)])"

definition fixture_ext_data_json :: "string \<Rightarrow> json" where
  "fixture_ext_data_json recipient_strkey = JObject
     [(''schema_version'', json_usize 2),
      (''ext_data_json'', JObject
        [(''ext_amount'', JString ''0''), (''recipient'', JString recipient_strkey),
         (''encrypted_output0'', JString []), (''encrypted_output1'', JString [])]),
      (''recipient_note'', JString (''Mock address generated under Env::default(); smoke-test.sh MUST substitute the '' @
         ''live admin address before invoking transact, because the proof binds ext_data by hash. The fixture'' @
         [CHR 0x27] @ ''s recipient is informational only.'')),
      (''ext_amount'', JString ''0'')]"

definition write_json :: "'keys smoke_ops \<Rightarrow> string \<Rightarrow> json \<Rightarrow> unit build" where
  "write_json ops path j =
     act_bind (act_lift (\<lambda>_. so_pretty ops j)) (\<lambda>bs. act_fs (so_write ops path bs))"

definition write_dump :: "'keys smoke_ops \<Rightarrow> string \<Rightarrow> json option \<Rightarrow> unit build" where
  "write_dump ops path dump =
     act_bind (act_some (''internal error: witness inputs dump requested but generate_proof did not return one'') dump)
       (\<lambda>witness_inputs.
     act_bind
       (case path_parent path of
          Some parent \<Rightarrow>
            if parent \<noteq> [] then
              act_context (''create witness dump parent dir: '' @ debug_path parent) (act_fs (so_create_dir_all ops parent))
            else act_ok ()
        | None \<Rightarrow> act_ok ()) (\<lambda>_.
     write_json ops path witness_inputs))"

section \<open>The program\<close>

definition smoke_values ::
  "'keys smoke_ops \<Rightarrow> scalar list \<Rightarrow> membership_tree list \<Rightarrow> bool \<Rightarrow> disk \<Rightarrow>
   (tx_proof \<times> ark_verifying_key \<times> json option, string) result" where
  "smoke_values ops leaves trees dump fs =
     rbind (each (\<lambda>note. rbind (case_public_key (in_priv_key note)) (\<lambda>pk. Ok (scalar_to_bigint pk))) (tc_inputs smoke_case))
       (\<lambda>non_keys.
     rbind (returned (hash_ext_data (so_host ops) (smoke_ext_data ops))) (\<lambda>ext_hash.
     rbind (map_err (\<lambda>e. ''prepare_transaction_witness: '' @ e) (prepare_transaction_witness smoke_case leaves LEVELS))
       (\<lambda>witness.
     rbind (generate_proof ops smoke_case leaves 0 trees non_keys (Some (bytes32_to_bigint ext_hash)) dump fs)
       (\<lambda>(res, dumped).
     if \<not> cr_verified res then Err ''off-chain Groth16 verification returned verified=false''
     else
       rbind (asp_membership_root witness trees) (\<lambda>member_root.
       rbind (asp_non_membership_root witness non_keys) (\<lambda>non_member_root.
       rbind (output_commitments (tc_outputs smoke_case)) (\<lambda>cms.
       Ok (smoke_proof witness (wrap_groth16_proof res) ext_hash (map scalar_to_u256 cms) member_root non_member_root,
           cr_vk res, dumped))))))))"

definition usage :: string where
  "usage =
     ''usage: smoke-fixture-cli <out-proof-json> <out-ext-data-json> [<out-witness-inputs-json>]'' @ nl @
     ''example:'' @ nl @
     ''smoke-fixture-cli '' @ [CHR 0x5C] @ nl @
     ''.planning/phases/00-setup-day-1-de-risking/fixtures/smoke-proof.json '' @ [CHR 0x5C] @ nl @
     ''.planning/phases/00-setup-day-1-de-risking/fixtures/smoke-ext-data.json '' @ [CHR 0x5C] @ nl @
     ''scripts/bench-fixtures/witness-1real-1null.json''"

definition smoke_main :: "'keys smoke_ops \<Rightarrow> string list \<Rightarrow> unit build option" where
  "smoke_main ops args =
     (if length args < 3 then Some (act_lift (\<lambda>_. Err usage))
      else
        case smoke_setup of
          None \<Rightarrow> None
        | Some setup \<Rightarrow>
            let out_witness_inputs_path = vec_get args 3 in
            Some (
              act_bind (act_lift (\<lambda>fs. rbind setup (\<lambda>(leaves, trees).
                smoke_values ops leaves trees (out_witness_inputs_path \<noteq> None) fs))) (\<lambda>(p, vk, dumped).
              act_bind (write_json ops (args ! 1) (fixture_proof_json p vk)) (\<lambda>_.
              act_bind (write_json ops (args ! 2) (fixture_ext_data_json (so_strkey ops (so_address ops)))) (\<lambda>_.
              case out_witness_inputs_path of
                None \<Rightarrow> act_ok ()
              | Some path \<Rightarrow> write_dump ops path dumped)))))"

end
