(* ===== verification/Smoke_Props.thy ===== *)
theory Smoke_Props
  imports Smoke_Fixture Pool_Theorems "HOL-Library.Multiset"
begin

text \<open>
  What the fixtures are good for.  The dump for the WebAssembly prover carries exactly the signals the
  native prover was given, whatever the order of its fields; but the list of public inputs written for
  the verifier is shorter than the one the pool passes, and no verifier the pool can use accepts it.
\<close>

section \<open>Pushing distinct signals\<close>

definition push_all :: "(string \<times> int list) list \<Rightarrow> signals \<Rightarrow> signals" where
  "push_all ps m = fold (\<lambda>(k, xs). push_signals k xs) ps m"

definition signals_of :: "(string \<times> int list) list \<Rightarrow> signals" where
  "signals_of ps k = (case map_of ps k of None \<Rightarrow> None | Some xs \<Rightarrow> if xs = [] then None else Some xs)"

lemma push_all_simps [simp]:
  "push_all [] m = m" "push_all (p # ps) m = push_all ps (push_signals (fst p) (snd p) m)"
  "push_all (ps @ qs) m = push_all qs (push_all ps m)"
  by (simp_all add: push_all_def split_beta)

lemma push_all_distinct:
  assumes "distinct (map fst ps)" and "\<forall>k \<in> fst ` set ps. m k = None"
  shows "push_all ps m k = (case map_of ps k of None \<Rightarrow> m k | Some xs \<Rightarrow> if xs = [] then m k else Some xs)"
  using assms
proof (induction ps arbitrary: m)
  case (Cons p ps)
  let ?m = "push_signals (fst p) (snd p) m"
  have p: "m (fst p) = None" "fst p \<notin> fst ` set ps" using Cons.prems by auto
  have "\<forall>k \<in> fst ` set ps. ?m k = None"
  proof
    fix k
    assume "k \<in> fst ` set ps"
    with p(2) Cons.prems(2) show "?m k = None" by (cases "k = fst p") (auto simp: push_signals_value)
  qed
  with Cons.IH [of ?m] Cons.prems
  have "push_all ps ?m k = (case map_of ps k of None \<Rightarrow> ?m k | Some xs \<Rightarrow> if xs = [] then ?m k else Some xs)" by simp
  moreover have "?m k = (if k = fst p \<and> snd p \<noteq> [] then Some (snd p) else m k)" for k
    using p by (simp add: push_signals_value)
  moreover have "map_of ps (fst p) = None" using p(2) by (simp add: map_of_eq_None_iff)
  ultimately show ?case by (cases "k = fst p") (auto split: option.splits)
qed simp

lemma push_all_empty: "distinct (map fst ps) \<Longrightarrow> push_all ps Map.empty = signals_of ps"
  by (rule ext) (simp add: push_all_distinct signals_of_def split: option.splits)

lemma signals_of_mset:
  assumes "mset ps = mset qs" and "distinct (map fst qs)"
  shows "signals_of ps = signals_of qs"
proof -
  have "distinct (map fst ps)" using assms by (metis mset_eq_imp_distinct_iff mset_map)
  then have "map_of ps = map_of qs" using assms mset_eq_setD [OF assms(1)] by (simp add: map_of_inject_set)
  then show ?thesis by (simp add: fun_eq_iff signals_of_def)
qed

section \<open>Inputs as lists\<close>

definition value_list :: "circuit_input \<Rightarrow> int list" where
  "value_list v = (case v of Single x \<Rightarrow> [x] | Array xs \<Rightarrow> xs)"

definition value_json :: "circuit_input \<Rightarrow> json" where
  "value_json v = (case v of Single x \<Rightarrow> bi_from_bigint x | Array xs \<Rightarrow> JArray (map bi_from_bigint xs))"

definition set_all :: "(string \<times> circuit_input) list \<Rightarrow> inputs \<Rightarrow> inputs" where
  "set_all vs m = fold (\<lambda>(k, v). set_input k v) vs m"

lemma set_all_simps [simp]:
  "set_all [] m = m" "set_all ((k, v) # vs) m = set_all vs (set_input k v m)"
  "set_all (vs @ ws) m = set_all ws (set_all vs m)"
  by (simp_all add: set_all_def)

lemma set_all_map_of: "distinct (map fst vs) \<Longrightarrow> set_all vs m k = (case map_of vs k of None \<Rightarrow> m k | Some v \<Rightarrow> Some v)"
proof (induction vs arbitrary: m)
  case (Cons x vs)
  obtain a b where x: "x = (a, b)" by (cases x)
  have "map_of vs a = None" using Cons.prems by (simp add: x map_of_eq_None_iff)
  then show ?case using Cons by (auto simp: x set_input_def split: option.splits)
qed simp

lemma builder_signals_value:
  "builder_signals m k = (case m k of None \<Rightarrow> None | Some v \<Rightarrow> if value_list v = [] then None else Some (value_list v))"
  by (auto simp: builder_signals_def push_value_def value_list_def push_signals_value push_signal_def
      push_signals_def [symmetric] split: option.splits circuit_input.splits)

definition value_pairs :: "(string \<times> circuit_input) list \<Rightarrow> (string \<times> int list) list" where
  "value_pairs vs = map (\<lambda>(k, v). (k, value_list v)) vs"

lemma value_pairs_fst [simp]: "map fst (value_pairs vs) = map fst vs"
  by (simp add: value_pairs_def split_beta comp_def)

lemma builder_set_all:
  assumes "distinct (map fst vs)"
  shows "builder_signals (set_all vs Map.empty) = signals_of (value_pairs vs)"
proof
  fix k
  have "map_of (value_pairs vs) k = map_option value_list (map_of vs k)"
    by (simp add: value_pairs_def map_of_map)
  then show "builder_signals (set_all vs Map.empty) k = signals_of (value_pairs vs) k"
    using set_all_map_of [OF assms, of Map.empty k]
    by (auto simp: builder_signals_value signals_of_def split: option.splits)
qed

section \<open>What the dump flattens to\<close>

definition plain_decimals :: "bigint_ops \<Rightarrow> bool" where
  "plain_decimals bops \<longleftrightarrow> (\<forall>n. bi_parse_bytes bops (show_nat n) 10 = Some (int n))"

lemma show_nat_no_prefix: "strip_prefix ''0x'' (show_nat n) = None"
proof -
  have "take 2 (show_nat n) \<noteq> ''0x''"
  proof
    assume "take 2 (show_nat n) = ''0x''"
    then have "CHR ''x'' \<in> set (take 2 (show_nat n))" by simp
    then have "CHR ''x'' \<in> set (show_nat n)" by (rule in_set_takeD)
    with show_nat_plain [of n] show False by (auto simp: dec_digit_def)
  qed
  then show ?thesis by (simp add: strip_prefix_def numeral_2_eq_2)
qed

lemma bigint_field:
  assumes "plain_decimals bops" and "in_order b"
  shows "row_major bops key (bi_from_bigint b) = Ok [b]"
proof -
  have "bigint_text b = show_nat (nat b)" using assms(2) by (simp add: bigint_text_def in_order_def)
  moreover have "bi_parse_bytes bops (show_nat (nat b)) 10 = Some b"
    using assms by (simp add: plain_decimals_def in_order_def)
  moreover have "to_field_element b = Ok b"
    using assms(2) by (simp add: to_field_element_def modulus_order in_order_def)
  ultimately show ?thesis
    by (simp add: bi_from_bigint_def string_bigint_def show_nat_no_prefix)
qed

lemma bigints_field:
  assumes "plain_decimals bops" and "\<forall>b \<in> set bs. in_order b"
  shows "row_major_list bops key (map bi_from_bigint bs) = Ok bs"
  using assms(2) by (induction bs) (simp_all add: bigint_field [OF assms(1)])

lemma bigint_rows_field:
  assumes "plain_decimals bops" and "\<forall>bs \<in> set rows. \<forall>b \<in> set bs. in_order b"
  shows "row_major_list bops key (map (\<lambda>bs. JArray (map bi_from_bigint bs)) rows) = Ok (concat rows)"
  using assms(2) by (induction rows) (simp_all add: bigints_field [OF assms(1)])

lemma bi_value: "bi s = bi_from_bigint (scalar_to_bigint s)"
  by (simp add: bi_def bi_from_bigint_def)

lemma no_object_bigint [simp]: "no_object (bi_from_bigint b)"
  by (simp add: bi_from_bigint_def)

definition value_in_order :: "circuit_input \<Rightarrow> bool" where
  "value_in_order v \<longleftrightarrow> (\<forall>b \<in> set (value_list v). in_order b)"

lemma flat_value:
  assumes "plain_decimals bops" and "value_in_order v"
  shows "flat bops key (value_json v) m = Ok (push_all [(key, value_list v)] m)"
proof (cases v)
  case (Single b)
  then have "row_major bops key (bi_from_bigint b) = Ok [b]"
    using bigint_field [OF assms(1)] assms(2) by (simp add: value_in_order_def value_list_def)
  moreover have "flat bops key (bi_from_bigint b) m = rbind (row_major bops key (bi_from_bigint b)) (\<lambda>xs. Ok (push_signals key xs m))"
    by (simp add: bi_from_bigint_def)
  ultimately show ?thesis by (simp add: Single value_json_def value_list_def del: push_signals_simps)
next
  case (Array bs)
  then show ?thesis
    using bigints_field [OF assms(1), of bs key] assms(2)
    by (simp add: value_json_def value_list_def value_in_order_def)
qed

lemma flat_rows_of_ints:
  assumes "plain_decimals bops" and "\<forall>bs \<in> set rows. \<forall>b \<in> set bs. in_order b"
  shows "flat bops key (JArray (map (\<lambda>bs. JArray (map bi_from_bigint bs)) rows)) m = Ok (push_all [(key, concat rows)] m)"
  using bigint_rows_field [OF assms, of key] by simp

lemma keys_alike: "indexed_key k i = signal_idx i k" "field_key k f = signal_field f k"
  by (simp_all add: indexed_key_def signal_idx_def field_key_def signal_field_def)

lemma flat_object:
  assumes "plain_decimals bops" and "\<forall>(f, v) \<in> set fs. value_in_order v"
  shows "flat_fields bops key (map (\<lambda>(f, v). (f, value_json v)) fs) m =
    Ok (push_all (rev (map (\<lambda>(f, v). (signal_field f key, value_list v)) fs)) m)"
  using assms(2)
proof (induction fs)
  case (Cons x fs)
  then show ?case by (cases x) (simp add: flat_value [OF assms(1)] keys_alike)
qed simp

definition row_pairs :: "('a \<Rightarrow> (string \<times> circuit_input) list) \<Rightarrow> string \<Rightarrow> nat \<Rightarrow> 'a list \<Rightarrow> (string \<times> int list) list" where
  "row_pairs named key i es =
     concat (map (\<lambda>(i, e). rev (map (\<lambda>(f, v). (proof_key key i 0 f, value_list v)) (named e))) (List.enumerate i es))"

lemma flat_singletons:
  assumes "plain_decimals bops" and "\<forall>e \<in> set es. \<forall>(f, v) \<in> set (named e). value_in_order v"
    and "\<And>e. to_json e = JObject (map (\<lambda>(f, v). (f, value_json v)) (named e))"
  shows "flat_items bops key i (map (\<lambda>e. JArray [to_json e]) es) m = Ok (push_all (row_pairs named key i es) m)"
  using assms(2)
proof (induction es arbitrary: i m)
  case (Cons e es)
  then show ?case
    by (simp add: assms(3) flat_object [OF assms(1)] keys_alike row_pairs_def proof_key_def)
qed (simp add: row_pairs_def)

lemma flat_rows_json:
  assumes "plain_decimals bops" and "\<forall>e \<in> set es. \<forall>(f, v) \<in> set (named e). value_in_order v"
    and "\<And>e. to_json e = JObject (map (\<lambda>(f, v). (f, value_json v)) (named e))"
  shows "flat bops key (rows_json to_json (map (\<lambda>e. [e]) es)) m = Ok (push_all (row_pairs named key 0 es) m)"
proof (cases es)
  case Nil
  then show ?thesis by (simp add: rows_json_def row_pairs_def)
next
  case (Cons e es')
  have "\<not> no_object (JArray (map (\<lambda>e. JArray [to_json e]) es))" by (simp add: Cons assms(3))
  then show ?thesis
    using flat_singletons [OF assms, of key 0 m] by (auto simp: rows_json_def comp_def)
qed

section \<open>Names of signals\<close>

lemma show_nat_inject [simp]: "show_nat m = show_nat n \<longleftrightarrow> m = n"
  by (metis py_int_show of_nat_eq_iff option.inject)

lemma split_at_char:
  assumes "a @ c # r = b @ c # r'" and "c \<notin> set a" and "c \<notin> set b"
  shows "a = b \<and> r = r'"
proof -
  have "takeWhile (\<lambda>x. x \<noteq> c) (a @ c # r) = a" "takeWhile (\<lambda>x. x \<noteq> c) (b @ c # r') = b"
    using assms(2,3) by (auto simp: takeWhile_append)
  with assms(1) show ?thesis by auto
qed

lemma show_nat_no_bracket: "CHR '']'' \<notin> set (show_nat n)"
  using show_nat_plain [of n] by (auto simp: dec_digit_def)

lemma proof_key_inject: "proof_key base i 0 f = proof_key base i' 0 f' \<longleftrightarrow> i = i' \<and> f = f'"
proof
  assume "proof_key base i 0 f = proof_key base i' 0 f'"
  then have "show_nat i @ CHR '']'' # (''['' @ show_nat 0 @ ''].'' @ f) = show_nat i' @ CHR '']'' # (''['' @ show_nat 0 @ ''].'' @ f')"
    by (simp add: proof_key_def signal_idx_def signal_field_def)
  from split_at_char [OF this show_nat_no_bracket show_nat_no_bracket] show "i = i' \<and> f = f'" by simp
qed simp

lemma proof_key_shape: "CHR ''['' \<in> set (proof_key base i j f)" "base \<noteq> [] \<Longrightarrow> hd (proof_key base i j f) = hd base"
  by (simp_all add: proof_key_def signal_idx_def signal_field_def)

definition row_values :: "('a \<Rightarrow> (string \<times> circuit_input) list) \<Rightarrow> string \<Rightarrow> nat \<Rightarrow> 'a list \<Rightarrow> (string \<times> circuit_input) list" where
  "row_values named base i es =
     concat (map (\<lambda>(i, e). map (\<lambda>(f, v). (proof_key base i 0 f, v)) (named e)) (List.enumerate i es))"

lemma row_values_Cons:
  "row_values named base i (e # es) =
    map (\<lambda>(f, v). (proof_key base i 0 f, v)) (named e) @ row_values named base (Suc i) es"
  by (simp add: row_values_def)

lemma row_values_keys: "(k, v) \<in> set (row_values named base i es) \<Longrightarrow> \<exists>i' f. i \<le> i' \<and> k = proof_key base i' 0 f"
proof (induction es arbitrary: i)
  case (Cons e es)
  show ?case
  proof (cases "(k, v) \<in> set (row_values named base (Suc i) es)")
    case True
    from Cons.IH [OF this] obtain i' f where "Suc i \<le> i'" "k = proof_key base i' 0 f" by blast
    then show ?thesis by (intro exI [of _ i'] exI [of _ f]) simp
  qed (use Cons.prems in \<open>auto simp: row_values_Cons\<close>)
qed (simp add: row_values_def)

lemma row_values_distinct:
  assumes "\<And>e. distinct (map fst (named e))"
  shows "distinct (map fst (row_values named base i es))"
proof (induction es arbitrary: i)
  case (Cons e es)
  let ?here = "map (\<lambda>(f, v). (proof_key base i 0 f, v)) (named e)"
  have "map fst ?here = map (proof_key base i 0) (map fst (named e))" by (simp add: split_beta comp_def)
  then have "distinct (map fst ?here)" using assms [of e] by (simp add: distinct_map inj_on_def proof_key_inject del: map_map)
  moreover have "fst ` set ?here \<inter> fst ` set (row_values named base (Suc i) es) = {}"
  proof -
    have "k \<notin> fst ` set (row_values named base (Suc i) es)" if "k \<in> fst ` set ?here" for k
    proof
      assume "k \<in> fst ` set (row_values named base (Suc i) es)"
      then obtain v where "(k, v) \<in> set (row_values named base (Suc i) es)" by auto
      from row_values_keys [OF this] that show False by (auto simp: proof_key_inject)
    qed
    then show ?thesis by blast
  qed
  ultimately show ?case by (simp only: row_values_Cons map_append distinct_append set_map Cons simp_thms)
qed (simp add: row_values_def)

lemma set_rows_singletons:
  assumes "\<And>i j e m. put i j e m = set_all (map (\<lambda>(f, v). (proof_key base i j f, v)) (named e)) m"
  shows "set_rows put (map (\<lambda>e. [e]) es) m = set_all (row_values named base 0 es) m"
proof -
  have "fold (\<lambda>(i, row) m. fold (\<lambda>(j, e) m. put i j e m) (List.enumerate 0 row) m)
      (List.enumerate k (map (\<lambda>e. [e]) es)) m = set_all (row_values named base k es) m" for k
    by (induction es arbitrary: k m) (simp_all add: row_values_Cons assms, simp add: row_values_def)
  then show ?thesis by (simp add: set_rows_def)
qed

lemma mset_concat_map: "(\<And>x. mset (f x) = mset (g x)) \<Longrightarrow> mset (concat (map f xs)) = mset (concat (map g xs))"
  by (induction xs) simp_all

lemma row_pairs_mset: "mset (row_pairs named base i es) = mset (value_pairs (row_values named base i es))"
proof -
  have "value_pairs (row_values named base i es) = concat (map (\<lambda>(i, e).
      map (\<lambda>(f, v). (proof_key base i 0 f, value_list v)) (named e)) (List.enumerate i es))"
    by (simp add: value_pairs_def row_values_def map_concat comp_def case_prod_unfold)
  then show ?thesis unfolding row_pairs_def by (simp add: case_prod_unfold mset_concat_map)
qed

section \<open>The two forms of a fixture\<close>

definition mem_named :: "mem_entry \<Rightarrow> (string \<times> circuit_input) list" where
  "mem_named e =
     [(''leaf'', Single (me_leaf e)), (''blinding'', Single (me_blinding e)),
      (''pathIndices'', Single (me_path_indices e)), (''pathElements'', Array (me_path_elements e))]"

definition non_named :: "non_entry \<Rightarrow> (string \<times> circuit_input) list" where
  "non_named e =
     [(''key'', Single (ne_key e)), (''oldKey'', Single (ne_old_key e)), (''oldValue'', Single (ne_old_value e)),
      (''isOld0'', Single (ne_is_old0 e)), (''siblings'', Array (ne_siblings e))]"

definition rows_ok :: "('a \<Rightarrow> (string \<times> circuit_input) list) \<Rightarrow> nat \<Rightarrow> 'a list list \<Rightarrow> bool" where
  "rows_ok named n rows \<longleftrightarrow> length rows = n \<and>
     (\<forall>row \<in> set rows. length row = 1 \<and> (\<forall>e \<in> set row. \<forall>(f, v) \<in> set (named e). value_in_order v))"

text \<open>One proof of each kind per input, paths of the tree's height, and reduced numbers throughout.\<close>

definition fixture_ok :: "fixture_data \<Rightarrow> bool" where
  "fixture_ok d \<longleftrightarrow>
     (let n = length (tc_inputs (fd_case d)); flat = tw_path_elements_flat (fd_witness d) in
      length flat = n * LEVELS \<and> (\<forall>b \<in> set flat. in_order b) \<and>
      (case fd_ext_data_hash d of Some h \<Rightarrow> in_order h | None \<Rightarrow> True) \<and>
      length (fd_mem_roots d) = n \<and> (\<forall>b \<in> set (fd_mem_roots d). in_order b) \<and>
      length (fd_non_roots d) = n \<and> (\<forall>b \<in> set (fd_non_roots d). in_order b) \<and>
      rows_ok mem_named n (fd_mem d) \<and> rows_ok non_named n (fd_non d))"

lemma singleton_rows:
  assumes "\<forall>row \<in> set rows. length row = 1"
  shows "map (\<lambda>e. [e]) (concat rows) = rows"
  using assms by (induction rows) (auto simp: length_Suc_conv)

lemma rows_ok_entries:
  assumes "rows_ok named n rows"
  shows "map (\<lambda>e. [e]) (concat rows) = rows" "\<forall>e \<in> set (concat rows). \<forall>(f, v) \<in> set (named e). value_in_order v"
  using assms singleton_rows [of rows] by (auto simp: rows_ok_def)

definition base_values :: "fixture_data \<Rightarrow> (string \<times> circuit_input) list" where
  "base_values d =
     (let w = fd_witness d; tx = fd_case d in
      [(''root'', Single (scalar_to_bigint (tw_root w))),
       (''publicAmount'', Single (scalar_to_bigint (fd_public_amount d))),
       (''extDataHash'', Single (case fd_ext_data_hash d of Some h \<Rightarrow> h | None \<Rightarrow> 0)),
       (''inputNullifier'', scalars_value (tw_nullifiers w)),
       (''inAmount'', scalars_value (map in_amount (tc_inputs tx))),
       (''inPrivateKey'', scalars_value (map in_priv_key (tc_inputs tx))),
       (''inBlinding'', scalars_value (map in_blinding (tc_inputs tx))),
       (''inPathIndices'', scalars_value (tw_path_indices w)),
       (''inPathElements'', Array (tw_path_elements_flat w)),
       (''outputCommitment'', scalars_value (map (\<lambda>out. hash3 (on_amount out) (on_pub_key out) (on_blinding out) 1) (tc_outputs tx))),
       (''outAmount'', scalars_value (map on_amount (tc_outputs tx))),
       (''outPubkey'', scalars_value (map on_pub_key (tc_outputs tx))),
       (''outBlinding'', scalars_value (map on_blinding (tc_outputs tx)))])"

definition native_values :: "fixture_data \<Rightarrow> (string \<times> circuit_input) list" where
  "native_values d =
     base_values d @ row_values mem_named ''membershipProofs'' 0 (concat (fd_mem d)) @
     [(''membershipRoots'', Array (fd_mem_roots d))] @
     row_values non_named ''nonMembershipProofs'' 0 (concat (fd_non d)) @
     [(''nonMembershipRoots'', Array (fd_non_roots d))]"

lemma set_entries:
  "set_mem_entry i j e m = set_all (map (\<lambda>(f, v). (proof_key ''membershipProofs'' i j f, v)) (mem_named e)) m"
  "set_non_entry i j e' m = set_all (map (\<lambda>(f, v). (proof_key ''nonMembershipProofs'' i j f, v)) (non_named e')) m"
  by (simp_all add: set_mem_entry_def set_non_entry_def mem_named_def non_named_def)

lemma proof_inputs_value:
  assumes "fixture_ok d"
  shows "proof_inputs d = Ok (set_all (native_values d) Map.empty)"
proof -
  obtain base where base: "build_base_inputs (fd_case d) (fd_witness d) (fd_public_amount d) = Ok base"
    and ext: "(case fd_ext_data_hash d of Some h \<Rightarrow> set_input ''extDataHash'' (Single h) base | None \<Rightarrow> base) =
      set_all (base_values d) Map.empty"
    by (cases "fd_ext_data_hash d")
      (simp_all add: build_base_inputs_def output_commitments_value base_values_def Let_def set_input_def
        scalars_value_def comp_def fun_upd_twist)
  have singles: "map (\<lambda>e. [e]) (concat (fd_mem d)) = fd_mem d" "map (\<lambda>e. [e]) (concat (fd_non d)) = fd_non d"
    using assms by (auto simp: fixture_ok_def Let_def dest: rows_ok_entries(1))
  have mem: "set_rows set_mem_entry (fd_mem d) m = set_all (row_values mem_named ''membershipProofs'' 0 (concat (fd_mem d))) m" for m
    using set_rows_singletons [where put = set_mem_entry, OF set_entries(1), of "concat (fd_mem d)" m]
    by (simp add: singles)
  have non: "set_rows set_non_entry (fd_non d) m = set_all (row_values non_named ''nonMembershipProofs'' 0 (concat (fd_non d))) m" for m
    using set_rows_singletons [where put = set_non_entry, OF set_entries(2), of "concat (fd_non d)" m]
    by (simp add: singles)
  show ?thesis by (simp add: proof_inputs_def base ext mem non native_values_def)
qed

lemma native_distinct: "distinct (map fst (native_values d))"
proof -
  let ?m = "row_values mem_named ''membershipProofs'' 0 (concat (fd_mem d))"
  let ?n = "row_values non_named ''nonMembershipProofs'' 0 (concat (fd_non d))"
  have rows: "distinct (map fst ?m)" "distinct (map fst ?n)"
    by (rule row_values_distinct, simp add: mem_named_def non_named_def)+
  have m: "CHR ''['' \<in> set k \<and> hd k = CHR ''m''" if "k \<in> fst ` set ?m" for k
    using that by (auto dest!: row_values_keys simp: proof_key_shape)
  have n: "CHR ''['' \<in> set k \<and> hd k = CHR ''n''" if "k \<in> fst ` set ?n" for k
    using that by (auto dest!: row_values_keys simp: proof_key_shape)
  have "fst ` set ?m \<inter> fst ` set ?n = {}" using m n by fastforce
  moreover have "k \<notin> fst ` set ?m \<union> fst ` set ?n"
    if "k \<in> set (map fst (base_values d)) \<union> {''membershipRoots'', ''nonMembershipRoots''}" for k
  proof -
    have "CHR ''['' \<notin> set k" using that by (auto simp: base_values_def Let_def)
    with m n show ?thesis by blast
  qed
  ultimately show ?thesis using rows
    by (simp add: native_values_def) (simp add: base_values_def Let_def; blast)
qed

lemma reshape_value:
  assumes "\<And>i j. i < n \<Longrightarrow> j < m \<Longrightarrow> position i j < length xs"
  shows "reshape n m position xs =
    Ok (JArray (map (\<lambda>bs. JArray (map bi_from_bigint bs)) (map (\<lambda>i. map (\<lambda>j. xs ! position i j) [0..<m]) [0..<n])))"
proof -
  have "each (\<lambda>i. each (\<lambda>j. rbind (unwrap (vec_get xs (position i j))) (\<lambda>b. Ok (bi_from_bigint b))) [0..<m]) [0..<n] =
      (Ok (map (\<lambda>i. map (\<lambda>j. bi_from_bigint (xs ! position i j)) [0..<m]) [0..<n]) :: (_, string) result)"
    using assms by (intro each_value) (simp add: vec_get_def)
  then show ?thesis by (simp add: reshape_def comp_def)
qed

lemma chunks_take: "n * m \<le> length xs \<Longrightarrow> concat (map (\<lambda>i. map (\<lambda>j. xs ! (i * m + j)) [0..<m]) [0..<n]) = take (n * m) xs"
proof (induction n)
  case (Suc n)
  have "map (\<lambda>j. xs ! (n * m + j)) [0..<m] = take m (drop (n * m) xs)"
    using Suc.prems by (intro nth_equalityI) (auto simp: algebra_simps)
  moreover have "take (Suc n * m) xs = take (n * m) xs @ take m (drop (n * m) xs)"
    using take_add [of "n * m" m xs] by (simp add: add.commute)
  ultimately show ?case using Suc by simp
qed simp

lemma zero_text: "bi_from_bigint 0 = JString ''0''"
  by code_simp

definition json_of :: "string \<times> circuit_input \<Rightarrow> string \<times> json" where
  "json_of = (\<lambda>(k, v). (k, value_json v))"

text \<open>The fields of the dump, and what each of them flattens to.\<close>

definition bench_fields :: "(string \<times> json) list \<Rightarrow> (string \<times> json) list" where
  "bench_fields fs = filter (\<lambda>(k, _). k \<noteq> ''_pool08_evidence'' \<and> k \<noteq> ''inPublicKey'') fs"

definition ints_json :: "int list list \<Rightarrow> json" where
  "ints_json rows = JArray (map (\<lambda>bs. JArray (map bi_from_bigint bs)) rows)"

definition row_of :: "nat \<Rightarrow> int list \<Rightarrow> int list list" where
  "row_of n xs = map (\<lambda>i. [xs ! i]) [0..<n]"

definition path_rows :: "nat \<Rightarrow> int list \<Rightarrow> int list list" where
  "path_rows n xs = map (\<lambda>i. map (\<lambda>l. xs ! (i * LEVELS + l)) [0..<LEVELS]) [0..<n]"

definition dump_fields :: "fixture_data \<Rightarrow> (string \<times> json) list" where
  "dump_fields d =
     (let n = length (tc_inputs (fd_case d)); simple = map json_of (base_values d) in
      take 4 simple @ [simple ! 9] @
      [(''membershipRoots'', ints_json (row_of n (fd_mem_roots d))),
       (''nonMembershipRoots'', ints_json (row_of n (fd_non_roots d))),
       (''membershipProofs'', rows_json mem_json (fd_mem d)),
       (''nonMembershipProofs'', rows_json non_json (fd_non d))] @
      take 4 (drop 4 simple) @
      [(''inPathElements'', ints_json (path_rows n (tw_path_elements_flat (fd_witness d))))] @
      drop 10 simple)"

lemma witness_dump_value:
  assumes "fixture_ok d"
  shows "\<exists>fs. witness_dump d = Ok (JObject fs) \<and> bench_fields fs = dump_fields d"
proof -
  let ?n = "length (tc_inputs (fd_case d))" and ?flat = "tw_path_elements_flat (fd_witness d)"
  from assms have len: "length (fd_mem_roots d) = ?n" "length (fd_non_roots d) = ?n" "length ?flat = ?n * LEVELS"
    by (simp_all add: fixture_ok_def Let_def)
  have one: "reshape ?n 1 (\<lambda>i j. j * ?n + i) xs = Ok (ints_json (row_of ?n xs))" if "length xs = ?n" for xs
    using that by (subst reshape_value) (simp_all add: ints_json_def row_of_def comp_def)
  have "i * LEVELS + l < ?n * LEVELS" if "i < ?n" "l < LEVELS" for i l
  proof -
    have "i * LEVELS + l < Suc i * LEVELS" using that(2) by simp
    also have "\<dots> \<le> ?n * LEVELS" using that(1) by (intro mult_le_mono1) simp
    finally show ?thesis .
  qed
  then have paths: "reshape ?n LEVELS (\<lambda>i l. i * LEVELS + l) ?flat = Ok (ints_json (path_rows ?n ?flat))"
    by (subst reshape_value) (simp_all add: len ints_json_def path_rows_def comp_def)
  show ?thesis
    by (simp add: witness_dump_def Let_def output_commitments_value N_MEM_PROOFS_def N_NON_PROOFS_def
        one [OF len(1)] one [OF len(2)] paths del: One_nat_def)
      (simp add: bench_fields_def dump_fields_def base_values_def json_of_def value_json_def scalars_value_def
        bi_value zero_text Let_def comp_def split: option.splits)
qed

definition dump_pairs :: "fixture_data \<Rightarrow> string \<Rightarrow> (string \<times> int list) list" where
  "dump_pairs d k =
     (if k = ''membershipProofs'' then row_pairs mem_named k 0 (concat (fd_mem d))
      else if k = ''nonMembershipProofs'' then row_pairs non_named k 0 (concat (fd_non d))
      else if k = ''membershipRoots'' then [(k, fd_mem_roots d)]
      else if k = ''nonMembershipRoots'' then [(k, fd_non_roots d)]
      else [(k, value_list (the (map_of (base_values d) k)))])"

lemma base_values_in_order: "fixture_ok d \<Longrightarrow> (k, v) \<in> set (base_values d) \<Longrightarrow> value_in_order v"
  by (auto simp: base_values_def fixture_ok_def Let_def value_in_order_def value_list_def scalars_value_def
      split: option.splits)

lemma base_values_distinct: "distinct (map fst (base_values d))"
  by (simp add: base_values_def Let_def)

lemma base_field:
  assumes "fixture_ok d" and "plain_decimals bops" and "(k, v) \<in> set (base_values d)"
    and "k \<notin> {''membershipProofs'', ''nonMembershipProofs'', ''membershipRoots'', ''nonMembershipRoots''}"
  shows "flat bops k (value_json v) m = Ok (push_all (dump_pairs d k) m)"
proof -
  have "map_of (base_values d) k = Some v" using assms(3) base_values_distinct by simp
  then show ?thesis
    using assms(4) flat_value [OF assms(2) base_values_in_order [OF assms(1,3)]] by (simp add: dump_pairs_def)
qed

lemma rows_concat:
  "length xs = n \<Longrightarrow> concat (row_of n xs) = xs" "length xs = n * LEVELS \<Longrightarrow> concat (path_rows n xs) = xs"
  using chunks_take [of n LEVELS xs] by (auto simp: row_of_def path_rows_def map_nth)

lemma ints_field:
  assumes "plain_decimals bops" and "\<forall>b \<in> set (concat rows). in_order b"
  shows "flat bops k (ints_json rows) m = Ok (push_all [(k, concat rows)] m)"
  unfolding ints_json_def by (rule flat_rows_of_ints [OF assms(1)]) (use assms(2) in auto)

lemma entry_json:
  "mem_json e = JObject (map (\<lambda>(f, v). (f, value_json v)) (mem_named e))"
  "non_json e' = JObject (map (\<lambda>(f, v). (f, value_json v)) (non_named e'))"
  by (simp_all add: mem_json_def non_json_def mem_named_def non_named_def value_json_def)

lemma base_values_keys:
  "(k, w) \<in> set (base_values d) \<Longrightarrow>
   k \<notin> {''membershipProofs'', ''nonMembershipProofs'', ''membershipRoots'', ''nonMembershipRoots''}"
  by (auto simp: base_values_def Let_def)

lemma in_parts:
  assumes "x \<in> set (A @ [b] @ [c1, c2, c3, c4] @ B @ [p] @ C)" and "b \<in> S" and "set A \<subseteq> S" and "set B \<subseteq> S" and "set C \<subseteq> S"
  shows "x \<in> S \<or> x = c1 \<or> x = c2 \<or> x = c3 \<or> x = c4 \<or> x = p"
  using assms by auto

lemma dump_fields_cases:
  assumes "(k, v) \<in> set (dump_fields d)"
  shows "(\<exists>w. v = value_json w \<and> (k, w) \<in> set (base_values d)) \<or>
    k = ''membershipRoots'' \<and> v = ints_json (row_of (length (tc_inputs (fd_case d))) (fd_mem_roots d)) \<or>
    k = ''nonMembershipRoots'' \<and> v = ints_json (row_of (length (tc_inputs (fd_case d))) (fd_non_roots d)) \<or>
    k = ''membershipProofs'' \<and> v = rows_json mem_json (fd_mem d) \<or>
    k = ''nonMembershipProofs'' \<and> v = rows_json non_json (fd_non d) \<or>
    k = ''inPathElements'' \<and> v = ints_json (path_rows (length (tc_inputs (fd_case d))) (tw_path_elements_flat (fd_witness d)))"
proof -
  define S where "S = map json_of (base_values d)"
  have "length S = 13" by (simp add: S_def base_values_def Let_def)
  then have nine: "S ! 9 \<in> set S" by (intro nth_mem) simp
  have simple: "\<exists>w. v = value_json w \<and> (k, w) \<in> set (base_values d)" if "(k, v) \<in> set S"
    using that by (auto simp: S_def json_of_def)
  have parts: "set (take 4 S) \<subseteq> set S" "set (take 4 (drop 4 S)) \<subseteq> set S" "set (drop 10 S) \<subseteq> set S"
    by (meson in_set_takeD in_set_dropD subsetI)+
  note cases = in_parts [OF assms [unfolded dump_fields_def Let_def, folded S_def] nine parts]
  show ?thesis using cases [unfolded prod.inject] simple by (elim disjE) (simp_all only: simp_thms)
qed

lemma dump_field:
  assumes ok: "fixture_ok d" and dec: "plain_decimals bops" and field: "(k, v) \<in> set (dump_fields d)"
  shows "flat bops k v m = Ok (push_all (dump_pairs d k) m)"
proof -
  let ?n = "length (tc_inputs (fd_case d))" and ?flat = "tw_path_elements_flat (fd_witness d)"
  from ok have len: "length (fd_mem_roots d) = ?n" "length (fd_non_roots d) = ?n" "length ?flat = ?n * LEVELS"
    and ord: "\<forall>b \<in> set (fd_mem_roots d). in_order b" "\<forall>b \<in> set (fd_non_roots d). in_order b" "\<forall>b \<in> set ?flat. in_order b"
    and rows: "rows_ok mem_named ?n (fd_mem d)" "rows_ok non_named ?n (fd_non d)"
    by (simp_all add: fixture_ok_def Let_def)
  consider
    (simple) w where "v = value_json w" "(k, w) \<in> set (base_values d)"
      "k \<notin> {''membershipProofs'', ''nonMembershipProofs'', ''membershipRoots'', ''nonMembershipRoots''}"
    | (mem_roots) "k = ''membershipRoots''" "v = ints_json (row_of ?n (fd_mem_roots d))"
    | (non_roots) "k = ''nonMembershipRoots''" "v = ints_json (row_of ?n (fd_non_roots d))"
    | (mem) "k = ''membershipProofs''" "v = rows_json mem_json (fd_mem d)"
    | (non) "k = ''nonMembershipProofs''" "v = rows_json non_json (fd_non d)"
    | (paths) "k = ''inPathElements''" "v = ints_json (path_rows ?n ?flat)"
    using dump_fields_cases [OF field] base_values_keys by metis
  then show ?thesis
  proof cases
    case simple
    then show ?thesis using base_field [OF ok dec] by simp
  next
    case mem_roots
    then show ?thesis using ints_field [OF dec, of "row_of ?n (fd_mem_roots d)"] ord(1) len(1)
      by (simp add: rows_concat dump_pairs_def)
  next
    case non_roots
    then show ?thesis using ints_field [OF dec, of "row_of ?n (fd_non_roots d)"] ord(2) len(2)
      by (simp add: rows_concat dump_pairs_def)
  next
    case mem
    then show ?thesis
      using flat_rows_json [OF dec rows_ok_entries(2) [OF rows(1)] entry_json(1), of k m] rows_ok_entries(1) [OF rows(1)]
      by (simp add: dump_pairs_def)
  next
    case non
    then show ?thesis
      using flat_rows_json [OF dec rows_ok_entries(2) [OF rows(2)] entry_json(2), of k m] rows_ok_entries(1) [OF rows(2)]
      by (simp add: dump_pairs_def)
  next
    case paths
    then have "dump_pairs d k = [(k, ?flat)]"
      by (simp add: dump_pairs_def base_values_def Let_def value_list_def)
    then show ?thesis using paths ints_field [OF dec, of "path_rows ?n ?flat"] ord(3) len(3) by (simp add: rows_concat)
  qed
qed

lemma dump_pairs_mset:
  "mset (concat (map (\<lambda>f. dump_pairs d (fst f)) (dump_fields d))) = mset (value_pairs (native_values d))"
  by (simp add: dump_fields_def native_values_def dump_pairs_def base_values_def json_of_def Let_def
      row_pairs_mset value_pairs_def value_list_def)

lemma mset_concat_perm: "mset xs = mset ys \<Longrightarrow> mset (concat (map f xs)) = mset (concat (map f ys))"
proof -
  have "mset (concat (map f zs)) = (\<Sum>z \<in># mset zs. mset (f z))" for zs by (induction zs) simp_all
  then show "mset xs = mset ys \<Longrightarrow> mset (concat (map f xs)) = mset (concat (map f ys))" by simp
qed

lemma flatten_fields:
  assumes "\<And>k v m. (k, v) \<in> set fs \<Longrightarrow> flat bops k v m = Ok (push_all (P k) m)"
  shows "rfold (\<lambda>(key, val) s. flatten_input bops key val s) fs m = Ok (push_all (concat (map (\<lambda>f. P (fst f)) fs)) m)"
  using assms by (induction fs arbitrary: m) (auto simp: flatten_input_flat)

section \<open>The dump\<close>

text \<open>The dump of a well-formed fixture flattens, in any order of its fields, to the native signals.\<close>

lemma dump_of_fixture:
  assumes "fixture_ok d" and "plain_decimals bops"
  shows "\<exists>m fs. proof_inputs d = Ok m \<and> witness_dump d = Ok (JObject fs) \<and>
    (\<forall>gs. mset gs = mset (bench_fields fs) \<longrightarrow>
       rfold (\<lambda>(key, val) s. flatten_input bops key val s) gs Map.empty = Ok (builder_signals m))"
proof -
  obtain fs where fs: "witness_dump d = Ok (JObject fs)" "bench_fields fs = dump_fields d"
    using witness_dump_value [OF assms(1)] by blast
  have "rfold (\<lambda>(key, val) s. flatten_input bops key val s) gs Map.empty =
      Ok (builder_signals (set_all (native_values d) Map.empty))" if gs: "mset gs = mset (dump_fields d)" for gs
  proof -
    let ?pairs = "concat (map (\<lambda>f. dump_pairs d (fst f)) gs)"
    have "mset ?pairs = mset (value_pairs (native_values d))"
      by (rule trans [OF mset_concat_perm [OF gs] dump_pairs_mset])
    moreover have "distinct (map fst (value_pairs (native_values d)))" by (simp add: native_distinct)
    ultimately have "distinct (map fst ?pairs)" "signals_of ?pairs = signals_of (value_pairs (native_values d))"
      using signals_of_mset by (metis mset_eq_imp_distinct_iff mset_map, blast)
    then have "push_all ?pairs Map.empty = builder_signals (set_all (native_values d) Map.empty)"
      by (simp only: push_all_empty builder_set_all [OF native_distinct])
    moreover have "\<And>k v m. (k, v) \<in> set gs \<Longrightarrow> flat bops k v m = Ok (push_all (dump_pairs d k) m)"
      using dump_field [OF assms] mset_eq_setD [OF gs] by blast
    ultimately show ?thesis by (simp add: flatten_fields [where P = "dump_pairs d"])
  qed
  then show ?thesis using fs proof_inputs_value [OF assms(1)] by metis
qed

definition demo_decimals :: bigint_ops where
  "demo_decimals = \<lparr>bi_parse_bytes = (\<lambda>s b. map_option int (py_digits 0 False s)), bi_to_bytes_be = (\<lambda>x. (0, []))\<rparr>"

section \<open>The generator's own fixtures\<close>

lemma merkle_proof_length:
  assumes "merkle_proof leaves i = Ok (sibs, p, depth)"
  shows "length sibs = depth"
proof -
  have step: "rfold merkle_proof_step ls (xs, path, bits, j) = Ok (xs', path', bits', j') \<Longrightarrow>
      length path' = length path + length ls" for ls xs path bits j xs' path' bits' j'
    by (induction ls arbitrary: xs path bits j) (auto simp: merkle_proof_step_def Let_def rbind_eq_Ok_iff)
  from assms show ?thesis
    by (auto simp: merkle_proof_def Let_def rbind_eq_Ok_iff split: if_splits dest!: step)
qed

lemma prove_note_paths:
  assumes "prove_note leaves cms n x (a, b, c) = Ok (a', b', c')"
  shows "length b' = length b + n" "\<forall>x \<in> set b. in_order x \<Longrightarrow> \<forall>x \<in> set b'. in_order x"
  using assms by (auto simp: prove_note_def Let_def rbind_eq_Ok_iff split_beta split: if_splits prod.splits dest!: merkle_proof_length)

lemma prove_notes_paths:
  "rfold (prove_note leaves cms n) xs s = Ok s' \<Longrightarrow> \<forall>b \<in> set (fst (snd s)). in_order b \<Longrightarrow>
   length (fst (snd s')) = length (fst (snd s)) + length xs * n \<and> (\<forall>b \<in> set (fst (snd s')). in_order b)"
proof (induction xs arbitrary: s)
  case (Cons x xs)
  from Cons.prems(1) obtain t where t: "prove_note leaves cms n x s = Ok t" "rfold (prove_note leaves cms n) xs t = Ok s'"
    by (auto simp: rbind_eq_Ok_iff)
  obtain a b c a' b' c' where "s = (a, b, c)" "t = (a', b', c')" by (cases s, cases t)
  with prove_note_paths [of leaves cms n x a b c a' b' c'] t Cons.prems(2)
  have "length (fst (snd t)) = length (fst (snd s)) + n" "\<forall>b \<in> set (fst (snd t)). in_order b" by simp_all
  with Cons.IH [OF t(2)] show ?case by simp
qed simp

lemma witness_paths:
  assumes "prepare_transaction_witness tx leaves n = Ok w"
  shows "length (tw_path_elements_flat w) = length (tc_inputs tx) * n" "\<forall>b \<in> set (tw_path_elements_flat w). in_order b"
  using assms by (auto simp: prepare_transaction_witness_def rbind_eq_Ok_iff dest!: prove_notes_paths)

lemma snoc_rows: "length es = n \<Longrightarrow> map2 (\<lambda>row e. row @ [f e]) (replicate n []) es = map (\<lambda>e. [f e]) es"
  by (induction es arbitrary: n) (auto simp: Suc_length_conv)

lemma mem_data_ok:
  assumes "mem_data trees pubs n = Ok (rows, roots)"
  shows "rows_ok mem_named n rows" "length roots = n" "\<forall>b \<in> set roots. in_order b"
proof -
  from assms obtain frozen root es where es: "each (mem_entry_of trees pubs 0 frozen) [0..<n] = Ok es"
    and rows: "rows = map2 (\<lambda>row e. row @ [e]) (replicate n []) es" and roots: "roots = replicate n (scalar_to_bigint root)"
    by (auto simp: mem_data_def N_MEM_PROOFS_def mem_round_def rbind_eq_Ok_iff)
  have len: "length es = n" using each_Ok [OF es] by (auto dest: list_all2_lengthD)
  have "\<forall>(f, v) \<in> set (mem_named e). value_in_order v" if "e \<in> set es" for e
    using each_set [OF es that]
    by (auto simp: mem_entry_of_def rbind_eq_Ok_iff mem_named_def value_in_order_def value_list_def)
  then show "rows_ok mem_named n rows"
    using len snoc_rows [OF len, of "\<lambda>e. e"] by (auto simp: rows rows_ok_def)
  show "length roots = n" "\<forall>b \<in> set roots. in_order b" by (simp_all add: roots)
qed

lemma non_data_ok:
  assumes "non_data non_keys pubs n = Ok (rows, roots)" and "\<forall>k \<in> set non_keys. in_order k"
  shows "rows_ok non_named n rows" "length roots = n" "\<forall>b \<in> set roots. in_order b"
proof -
  from assms(1) obtain es where es: "each (non_entry_of non_keys pubs) [0..<n] = Ok es"
    and rows: "rows = map2 (\<lambda>row e. row @ [fst e]) (replicate n []) es" and roots: "roots = map snd es"
    by (auto simp: non_data_def N_NON_PROOFS_def non_round_def rbind_eq_Ok_iff)
  have len: "length es = n" using each_Ok [OF es] by (auto dest: list_all2_lengthD)
  have entry: "(\<forall>(f, v) \<in> set (non_named (fst e)). value_in_order v) \<and> in_order (snd e)" if "e \<in> set es" for e
  proof -
    from each_set [OF es that] obtain i where i: "non_entry_of non_keys pubs i = Ok e" by blast
    then obtain os key p where os: "non_membership_overrides_from_pubs pubs = Ok os"
      and key: "vec_get non_keys i = Some key" and p: "prepare_smt_proof_with_overrides key os LEVELS = Ok p"
      unfolding non_entry_of_def rbind_eq_Ok_iff unwrap_eq_Ok_iff by blast
    have "in_order key" using key assms(2) by (auto simp: vec_get_def split: if_splits)
    moreover have "\<forall>(k, v) \<in> set os. in_order k \<and> in_order v"
      using each_set [OF os [unfolded non_membership_overrides_from_pubs_def]]
      by (fastforce simp: non_membership_override_def Let_def split: if_splits)
    ultimately show ?thesis
      using prepare_smt_proof_reduced [OF p] i os key p
      by (auto simp: non_entry_of_def non_named_def value_in_order_def value_list_def rbind_eq_Ok_iff split: if_splits)
  qed
  then show "rows_ok non_named n rows"
    using len snoc_rows [OF len, of fst] by (auto simp: rows rows_ok_def)
  show "length roots = n" "\<forall>b \<in> set roots. in_order b" using entry len by (auto simp: roots)
qed

text \<open>What the generator prepares meets the conditions.\<close>

theorem prepare_fixture_ok:
  assumes "prepare_fixture tx leaves pa trees non_keys ext = Ok d"
    and "\<forall>k \<in> set non_keys. in_order k" and "case ext of Some h \<Rightarrow> in_order h | None \<Rightarrow> True"
  shows "fixture_ok d"
proof -
  from assms(1) obtain w mem mem_roots non non_roots where
    w: "prepare_transaction_witness tx leaves LEVELS = Ok w" and
    mem: "mem_data trees (tw_public_keys w) (length (tc_inputs tx)) = Ok (mem, mem_roots)" and
    non: "non_data non_keys (tw_public_keys w) (length (tc_inputs tx)) = Ok (non, non_roots)" and
    d: "d = \<lparr>fd_case = tx, fd_witness = w, fd_public_amount = pa, fd_ext_data_hash = ext, fd_mem = mem,
      fd_mem_roots = mem_roots, fd_non = non, fd_non_roots = non_roots\<rparr>"
    by (auto simp: prepare_fixture_def Let_def rbind_eq_Ok_iff map_err_eq_Ok_iff)
  show ?thesis
    using witness_paths [OF w] mem_data_ok [OF mem] non_data_ok [OF non assms(2)] assms(3)
    by (simp add: fixture_ok_def d)
qed

text \<open>C27: What the generator dumps is what it proves: for every fixture it prepares, from reduced keys and
  hash, the native inputs and the JSON dump are both built, and the client's flattening of the dump
  without its two extra fields, in any order of the others, gives exactly the signals of the native prover.\<close>

theorem dump_gives_native_signals:
  assumes "prepare_fixture tx leaves pa trees non_keys ext = Ok d"
    and "\<forall>k \<in> set non_keys. in_order k" and "case ext of Some h \<Rightarrow> in_order h | None \<Rightarrow> True"
    and "plain_decimals bops"
  shows "\<exists>m fs. proof_inputs d = Ok m \<and> witness_dump d = Ok (JObject fs) \<and>
    (\<forall>gs. mset gs = mset (bench_fields fs) \<longrightarrow>
       rfold (\<lambda>(key, val) s. flatten_input bops key val s) gs Map.empty = Ok (builder_signals m))"
  by (rule dump_of_fixture [OF prepare_fixture_ok [OF assms(1-3)] assms(4)])

lemma demo_decimals_plain: "plain_decimals demo_decimals"
  by (simp add: plain_decimals_def demo_decimals_def py_digits_show)

lemma smt_proof_of_one:
  assumes "k \<noteq> key"
  shows "\<exists>p. prepare_smt_proof_with_overrides key [(k, v)] n = Ok p"
proof -
  obtain h where h: "hash3_sparse k v = (Ok h :: (int, string) result)" by (simp add: hash3_sparse_def)
  have "st_find new_mem_empty_trie k = Ok \<lparr>sf_found = False, sf_siblings = [], sf_found_value = 0,
      sf_not_found_key = k, sf_not_found_value = 0, sf_is_old0 = True\<rparr>"
    by (simp add: st_find_def st_find_internal.simps new_mem_empty_trie_def)
  then have "\<exists>res. st_insert new_mem_empty_trie k v = Ok (res, \<lparr>st_data = [h \<mapsto> [1, k, v]], st_root = h\<rparr>)"
    by (simp add: st_insert_def h multi_ins_def multi_del_def) (simp add: new_mem_empty_trie_def)
  then obtain res where t: "st_insert new_mem_empty_trie k v = Ok (res, \<lparr>st_data = [h \<mapsto> [1, k, v]], st_root = h\<rparr>)" ..
  have "\<exists>r. st_find \<lparr>st_data = [h \<mapsto> [1, k, v]], st_root = h\<rparr> key = Ok r"
    using assms by (simp add: st_find_def st_find_internal.simps)
  then show ?thesis using t by (auto simp: prepare_smt_proof_with_overrides_def finalize_proof_def)
qed

text \<open>A transaction with one input, in empty trees.\<close>

definition demo_case :: tx_case where
  "demo_case =
     \<lparr>tc_inputs = [\<lparr>in_leaf_index = 0, in_priv_key = 101, in_blinding = 201, in_amount = 13\<rparr>],
      tc_outputs = [\<lparr>on_pub_key = 501, on_blinding = 601, on_amount = 13\<rparr>]\<rparr>"

definition demo_trees :: "membership_tree list" where
  "demo_trees = [\<lparr>ms_leaves = replicate 1024 0, ms_index = 0, ms_blinding = 0\<rparr>]"

lemma demo_prepared: "\<exists>d. prepare_fixture demo_case (replicate 1024 0) 0 demo_trees [0] (Some 5) = Ok d"
proof -
  have root: "merkle_root xs = (Ok (full_root compress2 10 xs) :: (scalar, string) result)"
    and path: "merkle_proof xs 0 = (Ok (siblings compress2 10 xs 0, 0, 10) :: (_, string) result)"
    if "length xs = 1024" for xs
    using merkle_root_value [of xs 10] merkle_proof_value [of xs 10 0] that by simp_all
  obtain w pk where w: "prepare_transaction_witness demo_case (replicate 1024 0) LEVELS = Ok w" "tw_public_keys w = [pk]"
    by (simp add: prepare_transaction_witness_def demo_case_def place_note_def prove_note_def root path LEVELS_def Let_def)
  obtain mem mem_roots where mem: "mem_data demo_trees [pk] 1 = Ok (mem, mem_roots)"
    by (simp add: mem_data_def N_MEM_PROOFS_def mem_round_def freeze_leaves_def freeze_leaf_def mem_entry_of_def
        demo_trees_def root path)
  obtain os where "non_membership_overrides_from_pubs [pk] = Ok [(100001, os)]"
    using Rep_scalar_of_int [of 100001]
    by (simp add: non_membership_overrides_from_pubs_def non_membership_override_def Let_def scalar_to_bigint_value)
  moreover obtain p where "prepare_smt_proof_with_overrides 0 [(100001, os)] LEVELS = Ok p"
    using smt_proof_of_one [of 100001 0] by auto
  ultimately obtain non non_roots where non: "non_data [0] [pk] 1 = Ok (non, non_roots)"
    by (simp add: non_data_def N_NON_PROOFS_def non_round_def non_entry_of_def)
  have "length (tc_inputs demo_case) = 1" by (simp add: demo_case_def)
  with w mem non show ?thesis by (simp add: prepare_fixture_def)
qed

theorem dump_gives_native_signals_witness:
  "\<exists>d m fs. prepare_fixture demo_case (replicate 1024 0) 0 demo_trees [0] (Some 5) = Ok d \<and>
    proof_inputs d = Ok m \<and> witness_dump d = Ok (JObject fs) \<and>
    rfold (\<lambda>(key, val) s. flatten_input demo_decimals key val s) (rev (bench_fields fs)) Map.empty = Ok (builder_signals m)"
proof -
  obtain d where d: "prepare_fixture demo_case (replicate 1024 0) 0 demo_trees [0] (Some 5) = Ok d"
    using demo_prepared by blast
  have "\<forall>k \<in> set [0]. in_order k" "case Some 5 of Some h \<Rightarrow> in_order h | None \<Rightarrow> True"
    by (simp_all add: in_order_def)
  from dump_gives_native_signals [OF d this demo_decimals_plain] obtain m fs where
    run: "proof_inputs d = Ok m" "witness_dump d = Ok (JObject fs)"
    and all: "\<forall>gs. mset gs = mset (bench_fields fs) \<longrightarrow>
       rfold (\<lambda>(key, val) s. flatten_input demo_decimals key val s) gs Map.empty = Ok (builder_signals m)"
    by blast
  have "mset (rev (bench_fields fs)) = mset (bench_fields fs)" by simp
  with all run d show ?thesis by blast
qed

section \<open>The public inputs\<close>

lemma prove_notes_nullifiers:
  "rfold (prove_note leaves cms n) xs s = Ok s' \<Longrightarrow> length (snd (snd s')) = length (snd (snd s)) + length xs"
proof (induction xs arbitrary: s)
  case (Cons x xs)
  from Cons.prems obtain t where t: "prove_note leaves cms n x s = Ok t" "rfold (prove_note leaves cms n) xs t = Ok s'"
    by (auto simp: rbind_eq_Ok_iff)
  then have "length (snd (snd t)) = length (snd (snd s)) + 1"
    by (cases s) (auto simp: prove_note_def Let_def rbind_eq_Ok_iff split_beta split: if_splits)
  with Cons.IH [OF t(2)] show ?case by simp
qed simp

lemma witness_nullifiers:
  "prepare_transaction_witness tx leaves n = Ok w \<Longrightarrow> length (tw_nullifiers w) = length (tc_inputs tx)"
  by (auto simp: prepare_transaction_witness_def rbind_eq_Ok_iff dest!: prove_notes_nullifiers)

text \<open>The proof of the fixture has the nullifiers of both inputs.\<close>

lemma smoke_values_nullifiers:
  assumes "smoke_values ops leaves trees dump fs = Ok (p, vk, dumped)"
  shows "length (tp_input_nullifiers p) = length (tc_inputs smoke_case)"
proof -
  from assms obtain w pr eh cms m nm where "prepare_transaction_witness smoke_case leaves LEVELS = Ok w"
    "p = smoke_proof w pr eh cms m nm"
    unfolding smoke_values_def rbind_eq_Ok_iff by (auto simp: rbind_eq_Ok_iff map_err_eq_Ok_iff split: if_splits)
  then show ?thesis by (simp add: smoke_proof_def witness_nullifiers)
qed

lemma public_inputs_lengths:
  "length (public_inputs bn p) = 5 + 3 * length (tp_input_nullifiers p)"
  "length (fixture_public_inputs p) = 7 + length (tp_input_nullifiers p)"
  by (simp_all add: public_inputs_def fixture_public_inputs_def Let_def)

text \<open>C28: A verifier that accepts the fixture's proof with the inputs the pool derives from it rejects
  every list of as many inputs as the fixture writes down, as malformed: the pool repeats both policy
  roots for each nullifier, the fixture writes each of them once.
\<close>

theorem fixture_inputs_do_not_verify:
  assumes "length (tp_input_nullifiers p) = length (tc_inputs smoke_case)"
    and "gv_verify bn (tp_proof p) (public_inputs bn p) st = Ok True"
    and "length xs = length (fixture_public_inputs p)"
  shows "gv_verify bn (tp_proof p) xs st = Err G16_MalformedPublicInputs"
proof -
  have two: "length (tp_input_nullifiers p) = 2" using assms(1) by (simp add: smoke_case_def)
  from assms(2) obtain key where key: "gv_key st = Some key"
    "gv_verify_with_vk bn (verification_key_from_bytes key) (tp_proof p) (public_inputs bn p) = Ok True"
    by (auto simp: gv_verify_def rbind_eq_Ok_iff ok_or_eq_Ok_iff)
  then have "length (vk_ic (verification_key_from_bytes key)) = 12"
    by (simp add: gv_verify_with_vk_def public_inputs_lengths two split: if_splits)
  moreover have "length xs = 9" using assms(3) by (simp add: public_inputs_lengths two)
  ultimately show ?thesis by (simp add: gv_verify_def key(1) gv_verify_with_vk_def)
qed

theorem fixture_inputs_do_not_verify_witness:
  "gv_verify demo_bn254 (tp_proof (demo_proof 1 2 30)) (replicate 9 0) (gv_empty\<lparr>gv_key := Some demo_key\<rparr>) =
    Err G16_MalformedPublicInputs"
proof (rule fixture_inputs_do_not_verify [where p = "demo_proof 1 2 30"])
  let ?st = "gv_empty\<lparr>gv_key := Some demo_key\<rparr>"
  show "length (tp_input_nullifiers (demo_proof 1 2 30)) = length (tc_inputs smoke_case)"
    by (simp add: demo_proof_def smoke_case_def)
  have "length (public_inputs demo_bn254 (demo_proof 1 2 30)) = 11"
    by (simp add: public_inputs_lengths demo_proof_def)
  from demo_accepts [OF this, of "tp_proof (demo_proof 1 2 30)"]
  show "gv_verify demo_bn254 (tp_proof (demo_proof 1 2 30)) (public_inputs demo_bn254 (demo_proof 1 2 30)) ?st = Ok True"
    by (simp add: gv_verify_iff)
  show "length (replicate 9 (0 :: u256)) = length (fixture_public_inputs (demo_proof 1 2 30))"
    by (simp add: public_inputs_lengths demo_proof_def)
qed

end
