(* ===== verification/Circuit_Smt_Repr.thy ===== *)
theory Circuit_Smt_Repr
  imports Circuit_Smt Client_Smt_Correct
begin

text \<open>
  The sparse tree of the circuits crate holds the tree of \<open>Sparse_Merkle\<close> as the contract and the
  client do: \<open>st_repr c t\<close>.  Its map of number lists is a node database (\<open>node_db\<close>), so the lemmas
  on sequences of writes and removals of \<open>Smt_Storage\<close> apply; unlike the contract it collects all
  writes and all removals of a call before it touches the map.  This theory has the representation,
  search and insertion; \<open>Circuit_Smt_Correct\<close> has update and deletion.
\<close>

section \<open>Hashes of trees as numbers\<close>

definition ihash :: "smt \<Rightarrow> int" where
  "ihash t = uint (crate_hash t)"

lemma ihash_SE [simp]: "ihash SE = 0"
  by (simp add: ihash_def)

lemma big_int_to_fp_uint: "big_int_to_fp (uint w) = u256_scalar w"
proof -
  have "nat (uint w mod field_order) = unat w mod nat field_order"
    by (simp add: nat_mod_distrib)
  moreover have "(of_nat (unat w mod nat field_order) :: scalar) = of_nat (unat w)"
    by (metis big_int_to_fp_def calculation of_nat_scalar_nat scalar_nat_u256_scalar u256_scalar_def)
  ultimately show ?thesis by (simp add: big_int_to_fp_def u256_scalar_def)
qed

lemma fp_to_big_int_uint: "fp_to_big_int s = uint (scalar_u256 s)"
proof -
  have "scalar_nat s < 256 ^ 32" using scalar_nat_less_pow [of s] by simp
  then have "fp_to_big_int s = int (scalar_nat s)" by (simp add: fp_to_big_int_def be_to_nat_nat_to_be)
  then show ?thesis by (simp flip: unat_scalar_u256)
qed

lemma ihash_thash: "in_field t \<Longrightarrow> big_int_to_fp (ihash t) = thash t"
  by (simp add: ihash_def big_int_to_fp_uint thash_def)

lemma fp_thash: "in_field t \<Longrightarrow> fp_to_big_int (thash t) = ihash t"
  by (simp add: fp_to_big_int_uint scalar_u256_thash ihash_def)

lemma compression_tree:
  "in_field a \<Longrightarrow> in_field b \<Longrightarrow> compression_sparse (ihash a) (ihash b) = Ok (ihash (SN a b))"
  using fp_thash [of "SN a b"] by (simp add: compression_sparse_def ihash_thash thash_SN)

lemma compression_join:
  "in_field c \<Longrightarrow> in_field s \<Longrightarrow>
   (if r then compression_sparse (ihash s) (ihash c) else compression_sparse (ihash c) (ihash s)) =
   Ok (ihash (join r c s))"
  by (simp add: compression_tree join_def)

lemma hash3_tree:
  "k < bn256_modulus \<Longrightarrow> v < bn256_modulus \<Longrightarrow> hash3_sparse (uint k) (uint v) = Ok (ihash (SL k v))"
  using fp_thash [of "SL k v"] by (simp add: hash3_sparse_def big_int_to_fp_uint thash_SL)

lemma split_bits_uint: "split_bits (uint (k :: u256)) = map (bit k) [0..<256]"
  by (simp add: split_bits_def bit_uint_iff flip: bit_iff_odd_drop_bit)

section \<open>The map of number lists as a node database\<close>

text \<open>A list stands for the words it is the numbers of.\<close>

definition word_list :: "int list \<Rightarrow> u256 list option" where
  "word_list xs = (if \<forall>x \<in> set xs. uint (word_of_int x :: u256) = x then Some (map word_of_int xs) else None)"

lemma word_list_uint [simp]: "word_list (map uint ws) = Some ws"
  by (simp add: word_list_def comp_def)

lemma word_list_Some: "word_list xs = Some ws \<longleftrightarrow> xs = map uint ws"
  by (auto simp: word_list_def comp_def map_idI split: if_splits)

definition st_get :: "circuit_smt \<Rightarrow> u256 \<Rightarrow> u256 list option" where
  "st_get t h = Option.bind (st_data t (uint h)) word_list"

definition st_put :: "u256 \<Rightarrow> u256 list \<Rightarrow> circuit_smt \<Rightarrow> circuit_smt" where
  "st_put h ws t = t\<lparr>st_data := (st_data t)(uint h \<mapsto> map uint ws)\<rparr>"

definition st_del :: "u256 \<Rightarrow> circuit_smt \<Rightarrow> circuit_smt" where
  "st_del h t = t\<lparr>st_data := (st_data t)(uint h := None)\<rparr>"

interpretation st_db: node_db st_get st_put st_del
  by unfold_locales (auto simp: st_get_def st_put_def st_del_def fun_eq_iff simp flip: word_uint_eq_iff)

lemma st_get_Some: "st_get t h = Some ws \<longleftrightarrow> st_data t (uint h) = Some (map uint ws)"
  by (auto simp: st_get_def word_list_Some bind_eq_Some_conv)

text \<open>Only numbers of 256 bits occur.\<close>

definition st_words :: "circuit_smt \<Rightarrow> bool" where
  "st_words t \<longleftrightarrow> (\<forall>n xs. st_data t n = Some xs \<longrightarrow>
     n \<in> range (uint :: u256 \<Rightarrow> int) \<and> xs \<in> range (map (uint :: u256 \<Rightarrow> int)))"

abbreviation st_run :: "smt_op list \<Rightarrow> circuit_smt \<Rightarrow> circuit_smt" where
  "st_run \<equiv> st_db.run_ops (leaf_hash crate_host) (node_hash crate_host)"

abbreviation st_holds :: "smt \<Rightarrow> circuit_smt \<Rightarrow> bool" where
  "st_holds \<equiv> st_db.holds (leaf_hash crate_host) (node_hash crate_host)"

abbreviation st_holds_only :: "smt \<Rightarrow> circuit_smt \<Rightarrow> bool" where
  "st_holds_only \<equiv> st_db.holds_only (leaf_hash crate_host) (node_hash crate_host)"

lemma st_words_run: "st_words t \<Longrightarrow> st_words (st_run ops t)"
proof (induction ops arbitrary: t)
  case (Cons op ops)
  have "st_words (st_db.apply_op (leaf_hash crate_host) (node_hash crate_host) op t)"
    using Cons.prems by (cases op) (auto simp: st_words_def st_put_def st_del_def)
  then show ?case using Cons.IH by simp
qed simp

lemma st_put_del_frame [simp]:
  "st_root (st_put h ws t) = st_root t" "st_root (st_del h t) = st_root t"
  "st_put h ws (t\<lparr>st_root := r\<rparr>) = (st_put h ws t)\<lparr>st_root := r\<rparr>"
  "st_del h (t\<lparr>st_root := r\<rparr>) = (st_del h t)\<lparr>st_root := r\<rparr>"
  by (simp_all add: st_put_def st_del_def)

lemma st_run_frame [simp]:
  "st_root (st_run ops t) = st_root t" "st_run ops (t\<lparr>st_root := r\<rparr>) = (st_run ops t)\<lparr>st_root := r\<rparr>"
proof (induction ops arbitrary: t)
  case (Cons op ops)
  case 1
  show ?case using Cons(1) by (cases op) simp_all
  case 2
  show ?case using Cons(2) by (cases op) simp_all
qed simp_all

lemma st_root_frame [simp]:
  "st_holds t (s\<lparr>st_root := r\<rparr>) = st_holds t s" "st_holds_only t (s\<lparr>st_root := r\<rparr>) = st_holds_only t s"
  "st_words (s\<lparr>st_root := r\<rparr>) = st_words s"
  by (simp_all add: st_db.holds_def st_db.holds_only_def st_words_def st_get_def)

text \<open>The node of a tree as the code stores it.\<close>

definition inode :: "smt \<Rightarrow> int \<times> int list" where
  "inode t = (ihash t, map uint (smt_data (leaf_hash crate_host) (node_hash crate_host) t))"

lemma inode_simps [simp]:
  "inode (SL k v) = (ihash (SL k v), [1, uint k, uint v])"
  "inode (SN a b) = (ihash (SN a b), [ihash a, ihash b])"
  by (simp_all add: inode_def ihash_def)

lemma inode_join: "inode (join r c s) = (ihash (join r c s), if r then [ihash s, ihash c] else [ihash c, ihash s])"
  by (simp add: join_def)

lemma put_del_fold:
  "t\<lparr>st_data := (st_data t)(ihash x \<mapsto> snd (inode x))\<rparr> =
    st_put (crate_hash x) (smt_data (leaf_hash crate_host) (node_hash crate_host) x) t"
  "t\<lparr>st_data := (st_data t)(ihash x := None)\<rparr> = st_del (crate_hash x) t"
  by (simp_all add: inode_def ihash_def st_put_def st_del_def)

lemma multi_ins_run: "multi_ins (map inode xs) t = st_run (map Put xs) t"
proof (induction xs arbitrary: t)
  case (Cons x xs)
  have "multi_ins (map inode (x # xs)) t = multi_ins (map inode xs) (t\<lparr>st_data := (st_data t)(ihash x \<mapsto> snd (inode x))\<rparr>)"
    by (simp add: multi_ins_def) (simp add: inode_def)
  then show ?case by (simp add: put_del_fold Cons)
qed (simp add: multi_ins_def)

lemma multi_del_run: "multi_del (map ihash xs) t = st_run (map Del xs) t"
proof (induction xs arbitrary: t)
  case (Cons x xs)
  have "multi_del (map ihash (x # xs)) t = multi_del (map ihash xs) (t\<lparr>st_data := (st_data t)(ihash x := None)\<rparr>)"
    by (simp add: multi_del_def)
  then show ?case by (simp add: put_del_fold Cons)
qed (simp add: multi_del_def)

lemma puts_dels_lists [simp]:
  "puts (map Put xs) = set xs" "dels (map Put xs) = {}" "puts (map Del xs) = {}" "dels (map Del xs) = set xs"
  by (auto simp: puts_def dels_def)

section \<open>Representation\<close>

definition st_repr :: "circuit_smt \<Rightarrow> smt \<Rightarrow> bool" where
  "st_repr c t \<longleftrightarrow> canon 0 t \<and> in_field t \<and> st_root c = ihash t \<and> st_holds t c \<and> st_holds_only t c \<and>
     st_words c \<and> no_collision crate_host (subtrees t)"

lemma st_repr_new: "st_repr new_mem_empty_trie SE"
  by (simp add: st_repr_def new_mem_empty_trie_def st_db.holds_def st_db.holds_only_def st_get_def st_words_def
      collision_free_def)

text \<open>A representing map holds exactly the nodes of the tree.\<close>

lemma st_repr_data:
  assumes "st_repr c t"
  shows "st_data c n = Some xs \<longleftrightarrow> (\<exists>x \<in> subtrees t. x \<noteq> SE \<and> (n, xs) = inode x)"
proof
  assume n: "st_data c n = Some xs"
  with assms obtain h ws where h: "n = uint (h :: u256)" "xs = map uint (ws :: u256 list)"
    unfolding st_repr_def st_words_def by blast
  with n have get: "st_get c h = Some ws" by (simp add: st_get_Some)
  with assms obtain x where x: "x \<in> subtrees t - {SE}" "h = crate_hash x"
    by (auto simp: st_repr_def st_db.holds_only_def)
  with assms get have "ws = smt_data (leaf_hash crate_host) (node_hash crate_host) x"
    by (auto simp: st_repr_def st_db.holds_def)
  with x h show "\<exists>x \<in> subtrees t. x \<noteq> SE \<and> (n, xs) = inode x" by (auto simp: inode_def ihash_def)
next
  assume "\<exists>x \<in> subtrees t. x \<noteq> SE \<and> (n, xs) = inode x"
  with assms show "st_data c n = Some xs"
    by (auto simp: st_repr_def st_db.holds_def inode_def ihash_def st_get_Some)
qed

text \<open>All writes before all removals, or the other way round: what matters is which nodes they are.\<close>

lemma st_repr_after:
  assumes repr: "st_repr c t" and t': "canon 0 t'" "in_field t'"
    and ops: "puts ops \<subseteq> subtrees t' - {SE}" "puts ops \<inter> dels ops = {}" "dels ops \<subseteq> subtrees t"
      "subtrees t' - {SE} \<subseteq> puts ops \<union> (subtrees t - dels ops)" "subtrees t - {SE} \<subseteq> subtrees t' \<union> dels ops"
  shows "st_repr ((st_run ops c)\<lparr>st_root := ihash t'\<rparr>) t' \<or> found_collision (subtrees t \<union> subtrees t')"
proof (cases "found_collision (subtrees t \<union> subtrees t')")
  case False
  then have free: "no_collision crate_host (subtrees t \<union> subtrees t')" by (simp add: found_collision_iff)
  moreover have "subtrees t \<union> subtrees t' \<union> dels ops = subtrees t \<union> subtrees t'" using ops(3) by blast
  ultimately have free': "no_collision crate_host (subtrees t \<union> subtrees t' \<union> dels ops)" by simp
  have c: "st_holds t c" "st_holds_only t c" "st_words c" using repr by (simp_all add: st_repr_def)
  have "st_holds t' (st_run ops c)"
    using ops by (intro st_db.holds_run_ops [OF c(1) free']) auto
  moreover have "st_holds_only t' (st_run ops c)"
    using ops by (intro st_db.holds_only_run_ops [OF c(2) free']) auto
  moreover have "no_collision crate_host (subtrees t')" using free by (rule collision_free_subset) simp
  ultimately show ?thesis using t' st_words_run [OF c(3)] by (simp add: st_repr_def)
qed simp

section \<open>Search\<close>

definition st_report :: "int \<Rightarrow> int list \<Rightarrow> smt \<Rightarrow> smt_find" where
  "st_report key sibs e =
     (case e of
        SL k v \<Rightarrow>
          if uint k = key then
            \<lparr>sf_found = True, sf_siblings = sibs, sf_found_value = uint v, sf_not_found_key = 0,
             sf_not_found_value = 0, sf_is_old0 = False\<rparr>
          else
            \<lparr>sf_found = False, sf_siblings = sibs, sf_found_value = 0, sf_not_found_key = uint k,
             sf_not_found_value = uint v, sf_is_old0 = False\<rparr>
      | _ \<Rightarrow> \<lparr>sf_found = False, sf_siblings = sibs, sf_found_value = 0, sf_not_found_key = key,
             sf_not_found_value = 0, sf_is_old0 = True\<rparr>)"

lemma st_report_siblings [simp]:
  "sf_siblings (st_report key sibs e) = sibs"
  "st_report key sibs e\<lparr>sf_siblings := sibs'\<rparr> = st_report key sibs' e"
  by (auto simp: st_report_def split: smt.splits)

lemma ihash_eq_0: "no_collision crate_host S \<Longrightarrow> x \<in> S \<Longrightarrow> ihash x = 0 \<longleftrightarrow> x = SE"
  using collision_free_nonzero [of "leaf_hash crate_host" "node_hash crate_host" S x] by (simp add: ihash_def uint_0_iff)

lemma st_find_internal_tree:
  assumes "canon l t" and "st_holds t c" and "no_collision crate_host (subtrees t)"
  shows "st_find_internal c (uint k) (map (bit k) [0..<256]) (ihash t) l =
    Ok (st_report (uint k) (map ihash (s_sibs l k t)) (s_end l k t))"
  using assms
proof (induction t arbitrary: l)
  case SE
  then show ?case by (simp add: st_find_internal.simps st_report_def)
next
  case (SL k' v)
  then have "ihash (SL k' v) \<noteq> 0" "st_data c (ihash (SL k' v)) = Some [1, uint k', uint v]"
    using ihash_eq_0 [OF SL(3), of "SL k' v"] by (auto simp: st_db.holds_def st_get_Some ihash_def)
  then show ?case by (subst st_find_internal.simps) (simp add: st_report_def)
next
  case (SN a b)
  have nz: "ihash (SN a b) \<noteq> 0" and node: "st_data c (ihash (SN a b)) = Some [ihash a, ihash b]"
    using ihash_eq_0 [OF SN.prems(3), of "SN a b"] SN.prems(2) by (auto simp: st_db.holds_def st_get_Some ihash_def)
  have l: "l < 256" using SN.prems(1) by simp
  have sub: "canon (Suc l) a" "canon (Suc l) b" "st_holds a c" "st_holds b c"
    "no_collision crate_host (subtrees a)" "no_collision crate_host (subtrees b)"
    using SN.prems by (auto simp: st_db.holds_def elim: collision_free_subset)
  show ?case
    using SN.IH(1) [OF sub(1,3,5)] SN.IH(2) [OF sub(2,4,6)] nz node l
    by (subst st_find_internal.simps) simp
qed

lemma st_find_tree:
  "st_repr c t \<Longrightarrow> st_find c (uint k) = Ok (st_report (uint k) (map ihash (s_sibs 0 k t)) (s_end 0 k t))"
  using st_find_internal_tree [of 0 t c k] by (simp add: st_repr_def st_find_def split_bits_uint)

section \<open>The insertion loop\<close>

lemma st_extend_split:
  assumes "k \<noteq> k'" and "agree l k k'"
  shows "\<exists>ys. st_extend (map (bit k') [0..<256]) (map (bit k) [0..<256]) l sibs = Ok ys \<and>
    ys @ [ihash (SL k' v')] = sibs @ map ihash (split_sibs l k k' v')"
  using assms
proof (induction l k k' v' arbitrary: sibs rule: split_sibs.induct)
  case (1 l k k' v')
  from 1(3,2) have l: "l < 256" by (rule agree_256)
  then have nl: "\<not> 256 \<le> l" by simp
  show ?case
  proof (cases "bit k l = bit k' l")
    case True
    then have "agree (Suc l) k k'" using 1(3) by (simp add: agree_Suc)
    from 1(1) [OF nl True 1(2) this, of "sibs @ [0]"] show ?thesis
      using True l by (subst st_extend.simps, subst split_sibs.simps) (simp add: vec_get_bits)
  next
    case False
    then show ?thesis using l by (subst st_extend.simps, subst split_sibs.simps) (simp add: vec_get_bits)
  qed
qed

text \<open>One level of the loop, before and after the old path is reached.\<close>

lemma st_path_step_new:
  assumes "l < 256" and "in_field c'" and "in_field s" and "\<not> (l < length path - 1 \<and> ihash s \<noteq> 0)"
  shows "st_path_step (map (bit k) [0..<256]) fs path (l, ihash s) (False, ro, dl, ihash c', ins) =
    Ok (False, ro, dl, ihash (join (bit k l) c' s), ins @ [inode (join (bit k l) c' s)])"
  using assms compression_join [of c' s "bit k l", where 'a = string]
  by (auto simp: st_path_step_def vec_get_bits inode_join Let_def)

lemma st_path_step_mixed:
  assumes "l < 256" and "in_field c'" and "in_field s" and "in_field c"
    and "m \<or> (l < length path - 1 \<and> ihash s \<noteq> 0)" and "vec_get fs l = Some (ihash s)"
  shows "st_path_step (map (bit k) [0..<256]) fs path (l, ihash s) (m, ihash c, dl, ihash c', ins) =
    Ok (True, ihash (join (bit k l) c s), dl @ [ihash (join (bit k l) c s)],
        ihash (join (bit k l) c' s), ins @ [inode (join (bit k l) c' s)])"
  using assms compression_join [of c' s "bit k l", where 'a = string]
    compression_join [of c s "bit k l", where 'a = string]
  by (auto simp: st_path_step_def vec_get_bits inode_join Let_def)

lemma st_split_loop:
  assumes kv: "k < bn256_modulus" "v < bn256_modulus" "k' < bn256_modulus" "v' < bn256_modulus"
    and "k \<noteq> k'" and "agree l k k'" and "length path = l + length (split_sibs l k k' v')"
  shows "rfold (st_path_step (map (bit k) [0..<256]) fs path)
      (rev (List.enumerate l (map ihash (split_sibs l k k' v')))) (False, ro, [], ihash (SL k v), ins) =
    Ok (False, ro, [], ihash (s_split l k v k' v'),
        ins @ map inode (climb_nodes l k (split_sibs l k k' v') (SL k v)))"
  using assms
proof (induction l k k' v' rule: split_sibs.induct)
  case (1 l k k' v')
  from 1(7,6) have l: "l < 256" by (rule agree_256)
  then have nl: "\<not> 256 \<le> l" by simp
  show ?case
  proof (cases "bit k l = bit k' l")
    case True
    with 1(7) have ag: "agree (Suc l) k k'" by (simp add: agree_Suc)
    have sibs: "split_sibs l k k' v' = SE # split_sibs (Suc l) k k' v'"
      using nl True by (subst split_sibs.simps) simp
    have n: "length path = Suc l + length (split_sibs (Suc l) k k' v')" using 1(8) sibs by simp
    have join: "climb_tree l k (split_sibs l k k' v') (SL k v) = join (bit k l) (s_split (Suc l) k v k' v') SE"
      "s_split l k v k' v' = join (bit k l) (s_split (Suc l) k v k' v') SE"
      using climb_split [OF 1(6) ag] sibs nl True by (simp_all add: s_split.simps [of l] join_def)
    have "in_field (s_split (Suc l) k v k' v')" using 1(2-5) by (rule in_field_split)
    from st_path_step_new [OF l this, of SE path k fs ro] show ?thesis
      unfolding join(2) sibs list.map rev_enumerate_Cons rfold_append 1(1) [OF nl True 1(2-6) ag n]
      using join(1) [unfolded sibs] by simp
  next
    case False
    have sibs: "split_sibs l k k' v' = [SL k' v']"
      using nl False by (subst split_sibs.simps) simp
    have join: "s_split l k v k' v' = join (bit k l) (SL k v) (SL k' v')"
      using nl False by (simp add: s_split.simps [of l] join_def)
    show ?thesis
      using st_path_step_new [OF l, of "SL k v" "SL k' v'" path k fs ro] 1(2-5,8)
      unfolding join sibs by simp
  qed
qed

text \<open>The loop over the whole path, as a statement about one subtree.\<close>

lemma st_insert_loop:
  assumes kv: "k < bn256_modulus" "v < bn256_modulus"
    and "canon l t" and "\<forall>k' \<in> keys t. agree l k k'" and "k \<notin> keys t" and "in_field t"
    and "no_collision crate_host (subtrees t)"
    and "length path = l + length (full_sibs l k t)" and "fs = pre @ map ihash (s_sibs l k t)"
    and "length pre = l" and e: "e = s_end l k t" and m0: "m0 \<longleftrightarrow> e = SE \<and> path \<noteq> []"
  shows "rfold (st_path_step (map (bit k) [0..<256]) fs path)
      (rev (List.enumerate l (map ihash (full_sibs l k t)))) (m0, ihash e, [], ihash (SL k v), [inode (SL k v)]) =
    Ok (is_SN t \<or> m0, ihash t, map ihash (climb_nodes l k (s_sibs l k t) e), ihash (s_put l k v t),
        map inode (SL k v # climb_nodes l k (full_sibs l k t) (SL k v)))"
  using assms(3-11)
proof (induction t arbitrary: l pre)
  case SE
  then show ?case by simp
next
  case (SL k' v')
  then have ne: "k \<noteq> k'" "agree l k k'" "e = SL k' v'" by auto
  have f: "k' < bn256_modulus" "v' < bn256_modulus" using SL by simp_all
  have "length path = l + length (split_sibs l k k' v')" using SL by simp
  from st_split_loop [OF kv f ne(1,2) this, of fs "ihash e" "[inode (SL k v)]"] show ?case
    using ne m0 by simp
next
  case (SN a b)
  obtain c s where cs: "c = (if bit k l then b else a)" "s = (if bit k l then a else b)"
    "canon (Suc l) c" "SN a b = join (bit k l) c s" "s_sibs l k (SN a b) = s # s_sibs (Suc l) k c"
    "s_end l k (SN a b) = s_end (Suc l) k c" "l < 256" "branching a b"
    using path_split [OF SN.prems(1), of k] by metis
  have c: "\<forall>k' \<in> keys c. agree (Suc l) k k'" "k \<notin> keys c" "e = s_end (Suc l) k c"
    "no_collision crate_host (subtrees c)"
    using SN.prems cs(6) by (auto simp: cs(1) agree_Suc elim: collision_free_subset)
  have f: "in_field c" "in_field s" using SN.prems(4) unfolding cs(4) in_field_join by simp_all
  have full: "full_sibs l k (SN a b) = s # full_sibs (Suc l) k c" by (simp add: cs(1,2))
  have n: "length path = Suc l + length (full_sibs (Suc l) k c)" using SN.prems(6) full by simp
  have fs: "fs = (pre @ [ihash s]) @ map ihash (s_sibs (Suc l) k c)" "length (pre @ [ihash s]) = Suc l"
    using SN.prems(7,8) cs(5) by simp_all
  have IH: "rfold (st_path_step (map (bit k) [0..<256]) fs path)
      (rev (List.enumerate (Suc l) (map ihash (full_sibs (Suc l) k c))))
      (m0, ihash e, [], ihash (SL k v), [inode (SL k v)]) =
    Ok (is_SN c \<or> m0, ihash c, map ihash (climb_nodes (Suc l) k (s_sibs (Suc l) k c) e),
        ihash (s_put (Suc l) k v c), map inode (SL k v # climb_nodes (Suc l) k (full_sibs (Suc l) k c) (SL k v)))"
    using SN.IH(1) [of "Suc l" "pre @ [ihash s]"] SN.IH(2) [of "Suc l" "pre @ [ihash s]"] cs(1,3) c f(1) n fs
    by (cases "bit k l") simp_all
  have s0: "ihash s = 0 \<longleftrightarrow> s = SE"
    by (rule ihash_eq_0 [OF SN.prems(5)]) (simp add: cs(2))
  have "e \<noteq> SE \<Longrightarrow> full_sibs (Suc l) k c \<noteq> []" using full_sibs_nonempty [OF cs(3) c(1,2)] c(3) by simp
  then have last: "e \<noteq> SE \<Longrightarrow> l < length path - 1" using n by (cases "full_sibs (Suc l) k c") auto
  have "\<not> is_SN c \<Longrightarrow> s \<noteq> SE" using cs(8) by (auto simp: cs(1,2) branching_def split: if_splits)
  then have mixed: "(is_SN c \<or> m0) \<or> (l < length path - 1 \<and> ihash s \<noteq> 0)"
    using m0 last s0 n by (cases "e = SE") auto
  have get: "vec_get fs l = Some (ihash s)" using fs SN.prems(8) by (simp add: vec_get_def nth_append)
  have fp: "in_field (s_put (Suc l) k v c)" using f(1) kv by (rule in_field_put)
  have put: "s_put l k v (SN a b) = join (bit k l) (s_put (Suc l) k v c) s" by (simp add: cs(1,2) join_def)
  have tops: "climb_tree l k (s # s_sibs (Suc l) k c) e = join (bit k l) c s"
    "climb_tree l k (s # full_sibs (Suc l) k c) (SL k v) = join (bit k l) (s_put (Suc l) k v c) s"
    using climb_end [of "Suc l" k c] c(3) climb_full [OF c(1) cs(3) c(2)] by simp_all
  from st_path_step_mixed [OF cs(7) fp f(2,1) mixed get, of k] show ?case
    unfolding full put cs(5) climb_nodes.simps tops list.map(2) [of ihash s] rev_enumerate_Cons rfold_append IH
    unfolding cs(4) by simp
qed

section \<open>Insertion\<close>

lemma put_ops_nodes:
  assumes "\<forall>k' \<in> keys t. agree l k k'" and "canon l t" and "k \<notin> keys t"
  shows "puts (put_ops l k v t) = set (SL k v # climb_nodes l k (full_sibs l k t) (SL k v)) \<and>
    dels (put_ops l k v t) = set (climb_nodes l k (s_sibs l k t) (s_end l k t))"
  using assms
proof (induction t arbitrary: l)
  case (SL k' v')
  have "k \<noteq> k' \<Longrightarrow> agree l k k' \<Longrightarrow> puts (split_ops l k v k' v') = set (climb_nodes l k (split_sibs l k k' v') (SL k v)) \<and>
      dels (split_ops l k v k' v') = {}" for l
  proof (induction l k k' v' rule: split_sibs.induct)
    case (1 l k k' v')
    from 1(3,2) have l: "l < 256" by (rule agree_256)
    show ?case
    proof (cases "bit k l = bit k' l")
      case True
      with 1(3) have ag: "agree (Suc l) k k'" by (simp add: agree_Suc)
      have sibs: "split_sibs l k k' v' = SE # split_sibs (Suc l) k k' v'"
        using l True by (subst split_sibs.simps) simp
      show ?thesis
        using 1(1) [OF _ True 1(2) ag] l True climb_split [OF 1(2) 1(3), of v' v]
        unfolding sibs by (simp add: split_ops.simps [of l])
    next
      case False
      then have "split_sibs l k k' v' = [SL k' v']" using l by (subst split_sibs.simps) simp
      then show ?thesis
        using l False climb_split [OF 1(2) 1(3), of v' v] by (simp add: split_ops.simps [of l])
    qed
  qed
  with SL show ?case by simp
next
  case (SN a b)
  obtain c s where cs: "c = (if bit k l then b else a)" "s = (if bit k l then a else b)"
    "canon (Suc l) c" "SN a b = join (bit k l) c s" "s_sibs l k (SN a b) = s # s_sibs (Suc l) k c"
    "s_end l k (SN a b) = s_end (Suc l) k c"
    using path_split [OF SN.prems(2), of k] by metis
  have c: "\<forall>k' \<in> keys c. agree (Suc l) k k'" "k \<notin> keys c" using SN.prems by (auto simp: cs(1) agree_Suc)
  have full: "full_sibs l k (SN a b) = s # full_sibs (Suc l) k c" by (simp add: cs(1,2))
  have IH: "puts (put_ops (Suc l) k v c) = set (SL k v # climb_nodes (Suc l) k (full_sibs (Suc l) k c) (SL k v)) \<and>
    dels (put_ops (Suc l) k v c) = set (climb_nodes (Suc l) k (s_sibs (Suc l) k c) (s_end (Suc l) k c))"
    using SN.IH [of "Suc l"] cs(1,3) c by (cases "bit k l") simp_all
  have ops: "put_ops l k v (SN a b) = put_ops (Suc l) k v c @
      [Del (SN a b), Put (join (bit k l) (s_put (Suc l) k v c) s)]" by (simp add: cs(1,2) join_def)
  have tops: "climb_tree l k (s # s_sibs (Suc l) k c) (s_end (Suc l) k c) = SN a b"
    "climb_tree l k (s # full_sibs (Suc l) k c) (SL k v) = join (bit k l) (s_put (Suc l) k v c) s"
    using climb_end [of "Suc l" k c] climb_full [OF c(1) cs(3) c(2)] cs(4) by simp_all
  show ?case unfolding ops full cs(5,6) climb_nodes.simps tops using IH by auto
qed simp

lemma st_insert_runs:
  assumes repr: "st_repr c t" and new: "entries t k = None" and kv: "k < bn256_modulus" "v < bn256_modulus"
  defines "ins \<equiv> SL k v # climb_nodes 0 k (full_sibs 0 k t) (SL k v)"
    and "rem \<equiv> climb_nodes 0 k (s_sibs 0 k t) (s_end 0 k t)"
  shows "\<exists>res. st_insert c (uint k) (uint v) =
      Ok (res, (st_run (map Put ins @ map Del rem) c)\<lparr>st_root := ihash (s_put 0 k v t)\<rparr>) \<and>
    st_result.sr_old_root res = st_root c \<and> st_result.sr_new_root res = ihash (s_put 0 k v t)"
proof -
  have t: "canon 0 t" "in_field t" "no_collision crate_host (subtrees t)" using repr by (simp_all add: st_repr_def)
  have nk: "k \<notin> keys t" using new by (simp add: keys_entries domIff)
  note find = st_find_tree [OF repr, of k]
  define e where "e = s_end 0 k t"
  define path where "path = map ihash (full_sibs 0 k t)"
  define m0 where "m0 \<longleftrightarrow> e = SE \<and> path \<noteq> []"
  have loop: "rfold (st_path_step (map (bit k) [0..<256]) (map ihash (s_sibs 0 k t)) path)
      (rev (List.enumerate 0 path)) (m0, ihash e, [], ihash (SL k v), [(ihash (SL k v), [1, uint k, uint v])]) =
    Ok (is_SN t \<or> m0, ihash t, map ihash rem, ihash (s_put 0 k v t), map inode ins)"
    using st_insert_loop [OF kv t(1) agree_start nk t(2,3), of path "map ihash (s_sibs 0 k t)" "[]" e m0]
    by (simp add: path_def e_def m0_def rem_def ins_def)
  have rt: "hash3_sparse (uint k) (uint v) = (Ok (ihash (SL k v)) :: (int, string) result)" using kv by (rule hash3_tree)
  have prefix: "(if \<not> sf_is_old0 r then
      rbind (st_extend (split_bits (sf_not_found_key r)) (split_bits (uint k)) (length (sf_siblings r)) (sf_siblings r)) (\<lambda>sibs.
      rbind (hash3_sparse (sf_not_found_key r) (sf_not_found_value r)) (\<lambda>rt_old. Ok (sibs @ [rt_old], rt_old, False, True)))
      else Ok (sf_siblings r, 0, sf_siblings r \<noteq> [], False)) = (Ok (path, ihash e, m0, e \<noteq> SE) :: (_, string) result)
      \<and> \<not> sf_found r"
    if r: "r = st_report (uint k) (map ihash (s_sibs 0 k t)) e" for r
    using end_absent [OF t(1) new, folded e_def]
  proof
    assume e: "e = SE"
    then have "full_sibs 0 k t = s_sibs 0 k t" using nm_siblings_full [OF t(1) agree_start nk] by (simp add: e_def)
    with e show ?thesis by (simp add: r st_report_def path_def m0_def)
  next
    assume "\<exists>k' v'. e = SL k' v' \<and> k' \<noteq> k"
    then obtain k' v' where e: "e = SL k' v'" "k' \<noteq> k" by blast
    then have "in_field (SL k' v')" using s_end_subtree [of 0 k t] in_field_subtree [OF t(2)] e_def by metis
    then have old: "hash3_sparse (uint k') (uint v') = (Ok (ihash (SL k' v')) :: (int, string) result)"
      by (simp add: hash3_tree)
    have sibs: "full_sibs 0 k t = s_sibs 0 k t @ split_sibs (length (s_sibs 0 k t)) k k' v'"
      using nm_siblings_full [OF t(1) agree_start nk] e by (simp add: e_def)
    have "agree (length (s_sibs 0 k t)) k k'" using end_agrees [OF t(1) agree_start e(1) [unfolded e_def]] by simp
    from st_extend_split [OF not_sym [OF e(2)] this, of "map ihash (s_sibs 0 k t)" v'] obtain ys where
      "st_extend (map (bit k') [0..<256]) (map (bit k) [0..<256]) (length (s_sibs 0 k t)) (map ihash (s_sibs 0 k t)) = Ok ys"
      "ys @ [ihash (SL k' v')] = path" by (auto simp: sibs path_def)
    with e old show ?thesis
      by (auto simp: r st_report_def split_bits_uint m0_def simp flip: word_uint_eq_iff)
  qed
  have del: "multi_del (map ihash rem) ((multi_ins (map inode ins) c)\<lparr>st_root := r\<rparr>) =
      (st_run (map Put ins @ map Del rem) c)\<lparr>st_root := r\<rparr>" for r
    by (simp add: multi_ins_run multi_del_run)
  note pre = conjunct1 [OF prefix [OF refl]] and found = conjunct2 [OF prefix [OF refl]]
  show ?thesis
    unfolding st_insert_def Let_def find [folded e_def] rbind.simps(1) if_not_P [OF found] pre prod.case
    by (simp add: split_bits_uint loop rt del del: map_append)
qed

lemma st_insert_refines:
  assumes repr: "st_repr c t" and kv: "k < bn256_modulus" "v < bn256_modulus"
  shows "case entries t k of
      Some _ \<Rightarrow> st_insert c (uint k) (uint v) = Err ''Key already exists''
    | None \<Rightarrow> \<exists>res c'. st_insert c (uint k) (uint v) = Ok (res, c') \<and>
        st_result.sr_old_root res = st_root c \<and> st_result.sr_new_root res = st_root c' \<and>
        st_root c' = ihash (s_put 0 k v t) \<and>
        (st_repr c' (s_put 0 k v t) \<or> found_collision (subtrees t \<union> subtrees (s_put 0 k v t)))"
proof (cases "entries t k")
  case None
  have t: "canon 0 t" "in_field t" using repr by (simp_all add: st_repr_def)
  have nk: "k \<notin> keys t" using None by (simp add: keys_entries domIff)
  define ins where "ins = SL k v # climb_nodes 0 k (full_sibs 0 k t) (SL k v)"
  define rem where "rem = climb_nodes 0 k (s_sibs 0 k t) (s_end 0 k t)"
  let ?ops = "map Put ins @ map Del rem" and ?t = "s_put 0 k v t"
  have ops: "puts ?ops = puts (put_ops 0 k v t)" "dels ?ops = dels (put_ops 0 k v t)"
    using put_ops_nodes [OF agree_start t(1) nk, of v] by (simp_all add: ins_def rem_def)
  note props = put_ops_props [OF t(1) agree_start nk, of v, folded ops]
  have "x \<in> dels ?ops \<Longrightarrow> k \<notin> keys x" for x using props nk subtrees_keys [of x t] by blast
  then have disj: "puts ?ops \<inter> dels ?ops = {}" using props by blast
  have t': "canon 0 ?t" "in_field ?t" using s_put_props [OF t(1) agree_start] in_field_put [OF t(2) kv] by blast+
  have "st_repr ((st_run ?ops c)\<lparr>st_root := ihash ?t\<rparr>) ?t \<or> found_collision (subtrees t \<union> subtrees ?t)"
    by (rule st_repr_after [OF repr t' _ disj]) (use props in blast)+
  with st_insert_runs [OF repr None kv, folded ins_def rem_def] None show ?thesis by fastforce
next
  case (Some v0)
  have "canon 0 t" using repr by (simp add: st_repr_def)
  from end_present [OF this Some] st_find_tree [OF repr, of k] Some show ?thesis
    by (simp add: st_insert_def st_report_def)
qed

end
