(* ===== verification/Smoke_Roots.thy ===== *)
theory Smoke_Roots
  imports Smoke_Fixture Circuit_Smt_Repr
begin

text \<open>
  The non-membership root of the smoke fixture is the root of a contract: the generator builds its
  tree with the test utilities of the circuits crate, the contract its own with the host, and both
  have the root of the one canonical tree of the blocked keys.
\<close>

section \<open>Inserting a list of pairs\<close>

definition pair_words :: "int \<times> int \<Rightarrow> u256 \<times> u256" where
  "pair_words = (\<lambda>(k, v). (word_of_int k, word_of_int v))"

primrec put_pairs :: "(int \<times> int) list \<Rightarrow> smt \<Rightarrow> smt" where
  "put_pairs [] t = t"
| "put_pairs (p # ps) t = put_pairs ps (s_put 0 (fst (pair_words p)) (snd (pair_words p)) t)"

text \<open>Every node of every tree on the way.\<close>

primrec pair_trees :: "(int \<times> int) list \<Rightarrow> smt \<Rightarrow> smt set" where
  "pair_trees [] t = subtrees t"
| "pair_trees (p # ps) t = subtrees t \<union> pair_trees ps (s_put 0 (fst (pair_words p)) (snd (pair_words p)) t)"

lemma subtrees_pair_trees: "subtrees t \<subseteq> pair_trees ps t"
  by (cases ps) auto

lemma found_collision_mono: "found_collision S \<Longrightarrow> S \<subseteq> T \<Longrightarrow> found_collision T"
  unfolding found_collision_def by blast

lemma put_pairs_props:
  "canon 0 t \<Longrightarrow> canon 0 (put_pairs ps t) \<and> entries (put_pairs ps t) = entries t ++ map_of (rev (map pair_words ps))"
proof (induction ps arbitrary: t)
  case (Cons p ps)
  show ?case
    using Cons s_put_props [OF Cons.prems agree_start, of "fst (pair_words p)" "snd (pair_words p)"]
    by (cases "pair_words p") (auto simp: map_add_def fun_eq_iff split: option.splits)
qed simp

lemma in_order_word:
  assumes "in_order x"
  shows "uint (word_of_int x :: u256) = x" and "(word_of_int x :: u256) < bn256_modulus"
proof -
  have "0 \<le> x" "x < 2 ^ 256" using assms by (simp_all add: in_order_def)
  then show u: "uint (word_of_int x :: u256) = x" by (simp add: uint_word_of_int_eq take_bit_int_eq_self)
  show "(word_of_int x :: u256) < bn256_modulus"
    unfolding word_less_def u using assms by (simp add: in_order_def bn256_modulus_num)
qed

lemma st_insert_pairs:
  assumes "st_repr c t" and "\<forall>(k, v) \<in> set ps. in_order k \<and> in_order v" and "distinct (map (fst \<circ> pair_words) ps)"
    and "\<forall>p \<in> set ps. entries t (fst (pair_words p)) = None"
  shows "(\<exists>c'. rfold (\<lambda>(k, v) t. case st_insert t k v of Ok (res, t') \<Rightarrow> Ok t' | _ \<Rightarrow> Panic) ps c =
      (Ok c' :: (circuit_smt, string) result) \<and> st_repr c' (put_pairs ps t)) \<or> found_collision (pair_trees ps t)"
  using assms
proof (induction ps arbitrary: c t)
  case (Cons p ps)
  obtain k v where p: "p = (k, v)" by (cases p)
  define kw vw where "kw = (word_of_int k :: u256)" and "vw = (word_of_int v :: u256)"
  have kv: "uint kw = k" "uint vw = v" "kw < bn256_modulus" "vw < bn256_modulus"
    using Cons.prems(2) in_order_word by (auto simp: p kw_def vw_def)
  have pw: "pair_words p = (kw, vw)" by (simp add: pair_words_def p kw_def vw_def)
  let ?t = "s_put 0 kw vw t"
  have canon: "canon 0 t" using Cons.prems(1) by (simp add: st_repr_def)
  have new: "entries t kw = None" using Cons.prems(4) pw by simp
  from st_insert_refines [OF Cons.prems(1) kv(3,4)] new obtain res c' where
    ins: "st_insert c k v = Ok (res, c')" and c': "st_repr c' ?t \<or> found_collision (subtrees t \<union> subtrees ?t)"
    unfolding kv by auto
  show ?case
  proof (cases "st_repr c' ?t")
    case True
    have "\<forall>q \<in> set ps. entries ?t (fst (pair_words q)) = None"
      using Cons.prems(3,4) pw s_put_props [OF canon agree_start, of kw vw] by auto
    from Cons.IH [OF True _ _ this] Cons.prems(2,3) show ?thesis
      using ins pw by (auto simp: p intro: found_collision_mono)
  next
    case False
    have "subtrees t \<union> subtrees ?t \<subseteq> pair_trees (p # ps) t" using subtrees_pair_trees [of ?t ps] pw by auto
    then show ?thesis using False c' found_collision_mono by blast
  qed
qed simp

text \<open>What a proof prepared for the circuit reports about the tree.\<close>

lemma prepared_root:
  assumes "\<forall>(k, v) \<in> set ps. in_order k \<and> in_order v" and "distinct (map (fst \<circ> pair_words) ps)" and "in_order key"
  shows "(\<exists>p. prepare_smt_proof_with_overrides key ps n = Ok p \<and> sp_root p = ihash (put_pairs ps SE)) \<or>
    found_collision (pair_trees ps SE)"
proof (cases "found_collision (pair_trees ps SE)")
  case False
  with st_insert_pairs [OF st_repr_new assms(1,2)] obtain c where
    c: "rfold (\<lambda>(k, v) t. case st_insert t k v of Ok (res, t') \<Rightarrow> Ok t' | _ \<Rightarrow> Panic) ps new_mem_empty_trie =
      (Ok c :: (circuit_smt, string) result)" "st_repr c (put_pairs ps SE)" by auto
  define kw where "kw = (word_of_int key :: u256)"
  have key: "uint kw = key" using in_order_word(1) [OF assms(3)] by (simp add: kw_def)
  have "\<exists>r. st_find c key = Ok r" using st_find_tree [OF c(2), of kw] unfolding key by blast
  with c show ?thesis by (auto simp: prepare_smt_proof_with_overrides_def finalize_proof_def st_repr_def)
qed simp

section \<open>The overrides of a witness\<close>

lemma overrides_ok:
  assumes "non_membership_overrides_from_pubs pubs = Ok os"
  shows "\<forall>(k, v) \<in> set os. in_order k \<and> in_order v" and "distinct (map (fst \<circ> pair_words) os)"
proof -
  note os = assms [unfolded non_membership_overrides_from_pubs_def]
  show ord: "\<forall>(k, v) \<in> set os. in_order k \<and> in_order v"
    using each_set [OF os] by (fastforce simp: non_membership_override_def Let_def split: if_splits)
  have "list_all2 (\<lambda>x y. non_membership_override x = Ok y) (List.enumerate 0 pubs) os" using each_Ok [OF os] .
  then have nth: "non_membership_override (i, pubs ! i) = Ok (os ! i)" if "i < length os" for i
    using that by (auto simp: list_all2_conv_all_nth nth_enumerate_eq)
  have key: "fst (os ! i) = int ((i + 1) * 100001)" if "i < length os" for i
  proof -
    have "(i + 1) * 100000 + (i + 1) < 2 ^ 64" and k: "fst (os ! i) = scalar_to_bigint (of_nat ((i + 1) * 100000 + (i + 1)))"
      using nth [OF that] by (auto simp: non_membership_override_def Let_def split: if_splits dest!: arg_cong [where f = fst])
    then have "int ((i + 1) * 100000 + (i + 1)) mod field_order = int ((i + 1) * 100001)" by simp
    then show ?thesis unfolding k scalar_to_bigint_value Rep_scalar_of_nat .
  qed
  have "distinct (map fst os)"
    unfolding distinct_conv_nth by (auto simp: key)
  moreover have "inj_on (word_of_int :: int \<Rightarrow> u256) (fst ` set os)"
    using ord in_order_word(1) by (intro inj_on_inverseI [where g = uint]) auto
  ultimately have "distinct (map word_of_int (map fst os) :: u256 list)" by (simp add: distinct_map comp_inj_on)
  moreover have "map (fst \<circ> pair_words) os = map word_of_int (map fst os)" by (auto simp: pair_words_def)
  ultimately show "distinct (map (fst \<circ> pair_words) os)" by (simp only:)
qed

section \<open>Property\<close>

text \<open>C13: The non-membership root in the fixture is the root the contract publishes: whatever the history of
  the contract, if it blocks exactly the keys that the generator derives from the public keys of the
  witness, with their values, then the generator computes without error the root that
  \<open>get_root\<close> of the contract returns, unless two nodes of the trees on the way have the same hash.\<close>

theorem fixture_root_is_contract_root:
  assumes P: "host_is_poseidon2 P" and st: "nm_repr P st t"
    and os: "non_membership_overrides_from_pubs (tw_public_keys w) = Ok os"
    and blocked: "entries t = map_of (map pair_words os)" and key: "in_order key"
  shows "(\<exists>r. asp_non_membership_root w (key # other_keys) = Ok r \<and> nm_get_root st = Ok r) \<or>
    found_collision (pair_trees os SE)"
proof (cases "found_collision (pair_trees os SE)")
  case False
  note ok = overrides_ok [OF os]
  from prepared_root [OF ok key] False obtain p where
    p: "prepare_smt_proof_with_overrides key os LEVELS = Ok p" "sp_root p = ihash (put_pairs os SE)" by blast
  have t: "canon 0 t" "in_field t" using st by (simp_all add: nm_repr_def)
  have "distinct (map fst (map pair_words os))" using ok(2) by (simp add: comp_def)
  then have "entries (put_pairs os SE) = entries t"
    using put_pairs_props [of SE os] map_of_inject_set [of "rev (map pair_words os)" "map pair_words os"]
    by (simp add: blocked flip: rev_map)
  then have eq: "put_pairs os SE = t" using put_pairs_props [of SE os] t(1) canon_unique by simp blast
  have "sp_root p = uint (crate_hash t)" by (simp add: p(2) eq ihash_def)
  moreover have "uint (crate_hash t) < 2 ^ 256" using uint_bounded [of "crate_hash t"] by simp
  moreover have "unat (crate_hash t) < 2 ^ 256" using unsigned_less [of "crate_hash t", where 'a = nat] by simp
  then have "u256_from_be_bytes (nat_to_be 32 (unat (crate_hash t))) = crate_hash t"
    by (simp add: u256_from_be_bytes_def be_to_nat_nat_to_be)
  ultimately have "asp_non_membership_root w (key # other_keys) = Ok (crate_hash t)"
    using os p(1) by (simp add: asp_non_membership_root_def vec_get_def)
  moreover have "nm_get_root st = Ok (crate_hash t)"
    using st contract_tree_hash [OF P t(2)] by (simp add: nm_get_root_def nm_repr_def)
  ultimately show ?thesis by blast
qed simp

text \<open>A witness with one public key, and a contract that blocks the one key derived from it.\<close>

definition demo_roots_witness :: transaction_witness where
  "demo_roots_witness = \<lparr>tw_root = 0, tw_public_keys = [5], tw_nullifiers = [], tw_path_indices = [],
     tw_path_elements_flat = []\<rparr>"

definition demo_blocked :: smt where
  "demo_blocked = SL 100001 (scalar_u256 (hash2 5 0 1))"

definition demo_policy :: asp_non_membership where
  "demo_policy = nm_empty\<lparr>nm_admin := Some 7, nm_root := Some (crate_hash demo_blocked),
     nm_nodes := [crate_hash demo_blocked \<mapsto> smt_data (leaf_hash crate_host) (node_hash crate_host) demo_blocked]\<rparr>"

theorem fixture_root_is_contract_root_witness:
  "(\<exists>r. asp_non_membership_root demo_roots_witness [0] = Ok r \<and> nm_get_root demo_policy = Ok r) \<or>
    found_collision {SE, demo_blocked}"
proof -
  define v where "v = scalar_to_bigint (hash2 5 0 1)"
  have v: "(word_of_int v :: u256) = scalar_u256 (hash2 5 0 1)"
    by (simp add: v_def scalar_to_bigint_value scalar_u256_def flip: int_scalar_nat)
  have os: "non_membership_overrides_from_pubs (tw_public_keys demo_roots_witness) = Ok [(100001, v)]"
    using Rep_scalar_of_int [of 100001]
    by (simp add: demo_roots_witness_def non_membership_overrides_from_pubs_def non_membership_override_def Let_def
        scalar_to_bigint_value v_def)
  have "(100001 :: u256) < bn256_modulus" by (simp add: bn256_modulus_num)
  then have st: "nm_repr crate_host demo_policy demo_blocked"
    by (simp add: nm_repr_def demo_policy_def demo_blocked_def nm_db.holds_def)
  have "entries demo_blocked = map_of (map pair_words [(100001, v)])"
    by (simp add: demo_blocked_def pair_words_def v)
  from fixture_root_is_contract_root [OF crate_host_ok(1) st os this, of 0 "[]"] show ?thesis
    by (simp add: pair_words_def v demo_blocked_def insert_commute)
qed


end
