(* ===== verification/Circuit_Smt_Correct.thy ===== *)
theory Circuit_Smt_Correct
  imports Circuit_Smt_Repr
begin

text \<open>
  Update and deletion in the sparse tree of the circuits crate: a present key is updated, to its own
  value too, and deleted as in the tree of \<open>Sparse_Merkle\<close>, and no stale node is left behind; an
  update of an absent key does not fail and may push another key out.
\<close>

section \<open>Update\<close>

lemma st_update_loop:
  assumes "l + length xs \<le> 256" and "in_field s0" and "in_field s1" and "\<forall>x \<in> set xs. in_field x"
  shows "rfold (st_update_step (map (bit k) [0..<256])) (rev (List.enumerate l (map ihash xs)))
      (ihash s0, dl, ihash s1, ins) =
    Ok (ihash (climb_tree l k xs s0), dl @ map ihash (climb_nodes l k xs s0),
        ihash (climb_tree l k xs s1), ins @ map inode (climb_nodes l k xs s1))"
  using assms
proof (induction xs arbitrary: l)
  case (Cons x xs)
  have l: "l < 256" using Cons.prems by simp
  have f: "in_field (climb_tree (Suc l) k xs s0)" "in_field (climb_tree (Suc l) k xs s1)" "in_field x"
    using Cons.prems by (auto intro: in_field_climb)
  show ?case
    using Cons.IH [of "Suc l"] Cons.prems compression_join [OF f(1,3), of "bit k l", where 'a = string]
      compression_join [OF f(2,3), of "bit k l", where 'a = string]
    by (cases "bit k l") (simp_all add: rfold_append st_update_step_def vec_get_bits [OF l] inode_join)
qed simp

lemma st_update_runs:
  assumes repr: "st_repr c t" and kv: "k < bn256_modulus" "v < bn256_modulus"
    and found: "sf_found_value (st_report (uint k) [] (s_end 0 k t)) = uint v0" "v0 < bn256_modulus"
  defines "xs \<equiv> s_sibs 0 k t"
  shows "\<exists>res. st_update c (uint k) (uint v) = Ok (res,
      (st_run (map Del (SL k v0 # climb_nodes 0 k xs (SL k v0)) @ map Put (SL k v # climb_nodes 0 k xs (SL k v))) c)
        \<lparr>st_root := ihash (climb_tree 0 k xs (SL k v))\<rparr>) \<and>
    st_result.sr_old_root res = st_root c \<and> st_result.sr_new_root res = ihash (climb_tree 0 k xs (SL k v)) \<and>
    st_result.sr_old_value res = uint v0"
proof -
  have t: "canon 0 t" "in_field t" using repr by (simp_all add: st_repr_def)
  have len: "0 + length xs \<le> 256" unfolding xs_def by (rule sibs_length [OF t(1)]) simp
  have f: "in_field (SL k v0)" "in_field (SL k v)" using kv found(2) by simp_all
  have fx: "\<forall>x \<in> set xs. in_field x" unfolding xs_def by (rule in_field_sibs(1) [OF t(2)])
  have val: "sf_found_value (st_report (uint k) (map ihash xs) (s_end 0 k t)) = uint v0"
    using found(1) by (cases "s_end 0 k t") (simp_all add: st_report_def split: if_splits)
  have rt: "hash3_sparse (uint k) (uint w) = (Ok (ihash (SL k w)) :: (int, string) result)"
    if "w < bn256_modulus" for w using kv(1) that by (rule hash3_tree)
  have ins: "multi_ins ((ihash (SL k v), [1, uint k, uint v]) # map inode ys) c' = st_run (map Put (SL k v # ys)) c'"
    for ys c' using multi_ins_run [of "SL k v # ys" c'] by simp
  have del: "multi_del (ihash (SL k v0) # map ihash ys) c' = st_run (map Del (SL k v0 # ys)) c'" for ys c'
    using multi_del_run [of "SL k v0 # ys" c'] by simp
  show ?thesis
    unfolding st_update_def st_find_tree [OF repr, of k, folded xs_def] rbind.simps(1) val rt [OF kv(2)] rt [OF found(2)]
      st_report_siblings(1) split_bits_uint st_update_loop [OF len f fx]
    by (simp add: ins del del: list.map)
qed

lemma upd_ops_nodes:
  assumes "canon l t" and "entries t k = Some v0"
  shows "puts (upd_ops l k v t) = set (SL k v # climb_nodes l k (s_sibs l k t) (SL k v)) \<and>
    dels (upd_ops l k v t) = set (SL k v0 # climb_nodes l k (s_sibs l k t) (SL k v0))"
  using assms
proof (induction t arbitrary: l)
  case (SN a b)
  obtain c s where cs: "c = (if bit k l then b else a)" "s = (if bit k l then a else b)"
    "canon (Suc l) c" "SN a b = join (bit k l) c s" "s_sibs l k (SN a b) = s # s_sibs (Suc l) k c"
    "entries (SN a b) k = entries c k"
    using path_split [OF SN.prems(1), of k] by metis
  have e: "entries c k = Some v0" using SN.prems(2) cs(6) by simp
  have IH: "puts (upd_ops (Suc l) k v c) = set (SL k v # climb_nodes (Suc l) k (s_sibs (Suc l) k c) (SL k v)) \<and>
    dels (upd_ops (Suc l) k v c) = set (SL k v0 # climb_nodes (Suc l) k (s_sibs (Suc l) k c) (SL k v0))"
    using SN.IH [of "Suc l"] cs(1,3) e by (cases "bit k l") simp_all
  have ops: "upd_ops l k v (SN a b) = upd_ops (Suc l) k v c @
      [Put (join (bit k l) (s_put (Suc l) k v c) s), Del (SN a b)]" by (simp add: cs(1,2) join_def)
  have "climb_tree l k (s # s_sibs (Suc l) k c) (SL k v0) = SN a b"
    using climb_end [of "Suc l" k c] end_present [OF cs(3) e] cs(4) by simp
  moreover have "climb_tree l k (s # s_sibs (Suc l) k c) (SL k v) = join (bit k l) (s_put (Suc l) k v c) s"
    using climb_present [OF cs(3) e] by simp
  ultimately show ?case unfolding ops cs(5) climb_nodes.simps using IH by auto
qed (auto split: if_splits)

text \<open>Removing nodes and writing them again changes nothing.\<close>

lemma multi_del_data: "st_data (multi_del ks c) n = (if n \<in> set ks then None else st_data c n)"
  by (induction ks arbitrary: c) (auto simp: multi_del_def)

lemma multi_ins_data:
  "\<forall>(n, xs) \<in> set ins. f n = Some xs \<Longrightarrow>
    st_data (multi_ins ins c) n = (if n \<in> fst ` set ins then f n else st_data c n)"
proof (induction ins arbitrary: c)
  case (Cons i ins)
  then show ?case by (cases i) (auto simp: multi_ins_def)
qed (simp add: multi_ins_def)

lemma st_rewrite_nodes:
  assumes "st_repr c t" and "set xs \<subseteq> subtrees t - {SE}"
  shows "st_run (map Del xs @ map Put xs) c = c"
proof -
  let ?c = "multi_ins (map inode xs) (multi_del (map ihash xs) c)"
  have "st_data c (ihash x) = Some (snd (inode x))" if "x \<in> set xs" for x
    unfolding st_repr_data [OF assms(1)] using assms(2) that by (intro bexI [of _ x]) (auto simp: inode_def)
  then have "\<forall>(n, ys) \<in> set (map inode xs). st_data c n = Some ys" by (auto simp: inode_def)
  from multi_ins_data [OF this] have "st_data ?c n = st_data c n" for n
    by (auto simp: multi_del_data inode_def image_image)
  then have "st_data ?c = st_data c" ..
  moreover have "st_root ?c = st_root c" by (simp add: multi_ins_run multi_del_run)
  ultimately have "?c = c" by simp
  then show ?thesis by (simp add: multi_ins_run multi_del_run)
qed

lemma st_update_refines:
  assumes repr: "st_repr c t" and e: "entries t k = Some v0" and v: "v < bn256_modulus"
  shows "\<exists>res c'. st_update c (uint k) (uint v) = Ok (res, c') \<and> st_result.sr_old_value res = uint v0 \<and>
      st_result.sr_old_root res = st_root c \<and> st_result.sr_new_root res = st_root c' \<and>
      st_root c' = ihash (s_put 0 k v t) \<and> (v = v0 \<longrightarrow> c' = c) \<and>
      (st_repr c' (s_put 0 k v t) \<or> found_collision (subtrees t \<union> subtrees (s_put 0 k v t)))"
proof -
  have t: "canon 0 t" "in_field t" using repr by (simp_all add: st_repr_def)
  have kv: "k < bn256_modulus" "v0 < bn256_modulus" using in_field_entry [OF t(2) e] by simp_all
  let ?t = "s_put 0 k v t"
  define xs where "xs = s_sibs 0 k t"
  define del where "del = SL k v0 # climb_nodes 0 k xs (SL k v0)"
  define ins where "ins = SL k v # climb_nodes 0 k xs (SL k v)"
  let ?c = "(st_run (map Del del @ map Put ins) c)\<lparr>st_root := ihash ?t\<rparr>"
  have se: "s_end 0 k t = SL k v0" by (rule end_present [OF t(1) e])
  have climb: "climb_tree 0 k xs (SL k v) = ?t" unfolding xs_def by (rule climb_present [OF t(1) e])
  have run: "\<exists>res. st_update c (uint k) (uint v) = Ok (res, ?c) \<and> st_result.sr_old_value res = uint v0 \<and>
      st_result.sr_old_root res = st_root c \<and> st_result.sr_new_root res = ihash ?t"
    using st_update_runs [OF repr kv(1) v _ kv(2), folded xs_def] se
    by (auto simp: st_report_def climb del_def ins_def simp del: climb_nodes.simps)
  have ops: "puts (map Del del @ map Put ins) = puts (upd_ops 0 k v t)"
    "dels (map Del del @ map Put ins) = dels (upd_ops 0 k v t)"
    using upd_ops_nodes [OF t(1) e, of v] by (simp_all add: del_def ins_def xs_def)
  note props = upd_ops_props [OF t(1) agree_start e, of v, folded ops]
  have "(v = v0 \<longrightarrow> ?c = c) \<and> (st_repr ?c ?t \<or> found_collision (subtrees t \<union> subtrees ?t))"
  proof (cases "v = v0")
    case True
    then have "?t = t" using climb climb_end [of 0 k t] se by (simp add: xs_def)
    moreover have "ins = del" using True by (simp add: ins_def del_def)
    moreover have "set del \<subseteq> subtrees t - {SE}" using props by (simp add: \<open>ins = del\<close>)
    ultimately have "?c = c" using st_rewrite_nodes [OF repr] repr by (simp add: st_repr_def)
    then show ?thesis using repr \<open>?t = t\<close> True by simp
  next
    case False
    have t': "canon 0 ?t" "in_field ?t" using s_put_props [OF t(1) agree_start] in_field_put [OF t(2) kv(1) v] by blast+
    have "puts (map Del del @ map Put ins) \<inter> dels (map Del del @ map Put ins) = {}"
      using props False by (metis disjoint_iff option.inject)
    from st_repr_after [OF repr t' _ this] props False show ?thesis by blast
  qed
  moreover have "st_root ?c = ihash ?t" by simp
  ultimately show ?thesis using run by metis
qed

text \<open>
  An update of a key that is not present does not fail: it writes the leaf where the search ended, so
  a different key whose leaf is there is gone from the tree.
\<close>

lemma climb_replaces:
  assumes "canon l t" and "\<forall>k' \<in> keys t. agree l k k'" and "k \<notin> keys t"
  shows "canon l (climb_tree l k (s_sibs l k t) (SL k v)) \<and>
    entries (climb_tree l k (s_sibs l k t) (SL k v)) =
      (case s_end l k t of SL k' v' \<Rightarrow> (entries t)(k' := None) | _ \<Rightarrow> entries t)(k \<mapsto> v)"
  using assms
proof (induction t arbitrary: l)
  case (SN a b)
  obtain c s where cs: "c = (if bit k l then b else a)" "s = (if bit k l then a else b)"
    "canon (Suc l) c" "SN a b = join (bit k l) c s" "s_sibs l k (SN a b) = s # s_sibs (Suc l) k c"
    "s_end l k (SN a b) = s_end (Suc l) k c" "l < 256" "k \<notin> keys s" "branching a b"
    using path_split [OF SN.prems(1), of k] by metis
  define c' where "c' = climb_tree (Suc l) k (s_sibs (Suc l) k c) (SL k v)"
  have c: "\<forall>k' \<in> keys c. agree (Suc l) k k'" "k \<notin> keys c" using SN.prems by (auto simp: cs(1) agree_Suc)
  have IH: "canon (Suc l) c'" "entries c' = (case s_end (Suc l) k c of SL k' v' \<Rightarrow> (entries c)(k' := None) | _ \<Rightarrow> entries c)(k \<mapsto> v)"
    using SN.IH [of "Suc l"] cs(1,3) c by (auto simp: c'_def split: if_splits)
  have sub: "keys c' \<subseteq> insert k (keys c)"
    unfolding keys_entries IH(2) by (auto split: smt.splits if_splits)
  have e: "k' \<in> keys c" if "s_end (Suc l) k c = SL k' v'" for k' v'
    using subtrees_keys [OF s_end_subtree [of "Suc l" k c]] that by simp
  have canon: "canon (Suc l) a" "canon (Suc l) b" "\<forall>x \<in> keys a. \<not> bit x l" "\<forall>x \<in> keys b. bit x l" using SN.prems(1) by simp_all
  have ne: "c' \<noteq> SE" and SN: "is_SN c \<Longrightarrow> is_SN c'"
    by (cases c; simp add: c'_def join_def)+
  have "canon l (join (bit k l) c' s)"
    using canon IH(1) cs(7,9) sub ne SN by (cases "bit k l") (auto simp: join_def branching_def cs(1,2))
  moreover have "entries (join (bit k l) c' s) =
      (case s_end (Suc l) k c of SL k' v' \<Rightarrow> (entries (SN a b))(k' := None) | _ \<Rightarrow> entries (SN a b))(k \<mapsto> v)"
  proof -
    have "dom (entries c) \<inter> dom (entries s) = {}"
      using canon(3,4) unfolding keys_entries [symmetric] by (auto simp: cs(1,2))
    then have swap: "entries (SN a b) = entries c ++ entries s" "entries (join (bit k l) c' s) = entries c' ++ entries s"
      if "dom (entries c') \<inter> dom (entries s) = {}"
      using that by (cases "bit k l"; simp add: cs(1,2) join_def map_add_comm)+
    have k: "k \<notin> dom (entries s)" using cs(8) by (simp add: keys_entries)
    have disj: "x \<notin> dom (entries s)" if "x \<in> keys c" for x
      using that \<open>dom (entries c) \<inter> dom (entries s) = {}\<close> by (auto simp: keys_entries)
    have "dom (entries c') \<inter> dom (entries s) = {}"
      using sub k disj unfolding keys_entries [symmetric] by blast
    note swap = swap [OF this]
    show ?thesis unfolding swap IH(2)
    proof (cases "s_end (Suc l) k c")
      case (SL k' v')
      from e [OF this] disj have "k' \<notin> dom (entries s)" by blast
      with k SL show "(case s_end (Suc l) k c of SL k' v' \<Rightarrow> (entries c)(k' := None) | _ \<Rightarrow> entries c)(k \<mapsto> v) ++ entries s =
          (case s_end (Suc l) k c of SL k' v' \<Rightarrow> (entries c ++ entries s)(k' := None) | _ \<Rightarrow> entries c ++ entries s)(k \<mapsto> v)"
        by (auto simp: fun_eq_iff map_add_def domIff split: option.splits)
    qed (use k in \<open>auto simp: fun_eq_iff map_add_def domIff split: option.splits\<close>)
  qed
  ultimately show ?case unfolding cs(5,6) climb_tree.simps c'_def by (rule conjI)
qed auto

lemma st_update_absent:
  assumes repr: "st_repr c t" and new: "entries t k = None" and kv: "k < bn256_modulus" "v < bn256_modulus"
  shows "\<exists>res c' t'. st_update c (uint k) (uint v) = Ok (res, c') \<and> st_root c' = ihash t' \<and> canon 0 t' \<and>
    entries t' = (case s_end 0 k t of SL k' v' \<Rightarrow> (entries t)(k' := None) | _ \<Rightarrow> entries t)(k \<mapsto> v)"
proof -
  have t: "canon 0 t" using repr by (simp add: st_repr_def)
  have "sf_found_value (st_report (uint k) [] (s_end 0 k t)) = uint (0 :: u256)"
    using end_absent [OF t new] by (auto simp: st_report_def simp flip: word_uint_eq_iff)
  from st_update_runs [OF repr kv this modulus_pos] obtain res c' where
    "st_update c (uint k) (uint v) = Ok (res, c')" "st_root c' = ihash (climb_tree 0 k (s_sibs 0 k t) (SL k v))"
    by fastforce
  moreover have "k \<notin> keys t" using new by (simp add: keys_entries domIff)
  ultimately show ?thesis using climb_replaces [OF t agree_start, of k v] by blast
qed

section \<open>Deletion\<close>

definition put_list :: "smt_op list \<Rightarrow> smt list" where
  "put_list ops = concat (map (\<lambda>op. case op of Put x \<Rightarrow> [x] | Del x \<Rightarrow> []) ops)"

lemma put_list_simps [simp]:
  "put_list [] = []" "put_list (Put x # ops) = x # put_list ops" "put_list (Del x # ops) = put_list ops"
  "put_list (ops @ ops') = put_list ops @ put_list ops'"
  by (simp_all add: put_list_def)

lemma set_put_list [simp]: "set (put_list ops) = puts ops"
  by (auto simp: put_list_def puts_def split: smt_op.splits)

lemma st_delete_loop:
  assumes "canon l t" and "in_field t" and "entries t k = Some v0" and "no_collision crate_host (subtrees t)"
    and "n = l + length (s_sibs l k t)" and "is_old0 \<longleftrightarrow> \<not> s_promo l k t"
    and "m0 \<longrightarrow> \<not> s_promo l k t" and "del_run l k t = (ops, old, new, mixed)"
  shows "(is_SN t \<and> m0 \<longrightarrow> mixed) \<and> (\<exists>sibs.
    rfold (st_delete_step (map (bit k) [0..<256]) n is_old0) (rev (List.enumerate l (map ihash (s_sibs l k t))))
      (ihash (SL k v0), [ihash (SL k v0)], m0, [], ihash (s_start l k t), []) =
    Ok (ihash t, map ihash (SL k v0 # climb_nodes l k (s_sibs l k t) (SL k v0)), mixed \<or> m0, sibs,
        ihash new, map inode (put_list ops)))"
  using assms
proof (induction t arbitrary: l ops old new mixed)
  case SE
  then show ?case by simp
next
  case (SL k' v')
  then have "k' = k" "v' = v0" by (auto split: if_splits)
  with SL show ?case by (auto simp: s_promo_def s_start_def)
next
  case (SN a b)
  obtain c s where cs: "c = (if bit k l then b else a)" "s = (if bit k l then a else b)"
    "canon (Suc l) c" "SN a b = join (bit k l) c s" "s_sibs l k (SN a b) = s # s_sibs (Suc l) k c"
    "l < 256" "entries (SN a b) k = entries c k" "branching a b"
    using path_split [OF SN.prems(1), of k] by metis
  have f: "in_field c" "in_field s" using SN.prems(2) unfolding cs(4) in_field_join by simp_all
  have e: "entries c k = Some v0" using SN.prems(3) cs(7) by simp
  have free: "no_collision crate_host (subtrees c)"
    using SN.prems(4) by (rule collision_free_subset) (auto simp: cs(1))
  have s0: "ihash s = 0 \<longleftrightarrow> s = SE"
    by (rule ihash_eq_0 [OF SN.prems(4)]) (simp add: cs(2))
  obtain ops' old' new' mixed' where run: "del_run (Suc l) k c = (ops', old', new', mixed')"
    by (metis prod_cases4)
  note eq = del_run_node [OF run [unfolded cs(1)], folded cs(1,2)]
  have n: "n = Suc l + length (s_sibs (Suc l) k c)" using SN.prems(5) cs(5) by simp
  have top: "climb_tree l k (s # s_sibs (Suc l) k c) (SL k v0) = join (bit k l) c s"
    using climb_end [of "Suc l" k c] end_present [OF cs(3) e] by simp
  have fn: "in_field new'" using del_run_in_field [OF f(1) run] by simp
  show ?case
  proof (cases "is_SN c \<or> is_SN s")
    case False
    then have c: "c = SL k v0" using e by (cases c) (auto split: if_splits)
    with False cs(5) have promo: "s_promo l k (SN a b)" "s_start l k (SN a b) = s" "n = Suc l"
      using n by (simp_all add: s_promo_def s_start_def)
    from run c have ops': "ops' = [Del (SL k v0)]" by auto
    have res: "ops = ops'" "new = s" "\<not> mixed" using SN.prems(8) False unfolding eq by auto
    have m0: "\<not> m0" "\<not> is_old0" using SN.prems(6,7) promo(1) by simp_all
    show ?thesis
      using m0 res promo(2,3) ops' compression_join [OF f, of "bit k l", where 'a = string] cs(5) c
      unfolding cs(5) climb_nodes.simps top unfolding cs(4)
      by (cases "bit k l") (simp_all add: st_delete_step_def vec_get_bits [OF cs(6)] join_def)
  next
    case True
    have last: "s_sibs (Suc l) k c = [] \<longleftrightarrow> \<not> is_SN c" using s_sibs_nonempty by (cases c) auto
    then have promo: "s_promo l k (SN a b) = s_promo (Suc l) k c" "s_start l k (SN a b) = s_start (Suc l) k c"
      using True unfolding s_promo_def s_start_def cs(5) by auto
    have IH: "(is_SN c \<and> m0 \<longrightarrow> mixed') \<and> (\<exists>sibs.
      rfold (st_delete_step (map (bit k) [0..<256]) n is_old0)
        (rev (List.enumerate (Suc l) (map ihash (s_sibs (Suc l) k c))))
        (ihash (SL k v0), [ihash (SL k v0)], m0, [], ihash (s_start (Suc l) k c), []) =
      Ok (ihash c, map ihash (SL k v0 # climb_nodes (Suc l) k (s_sibs (Suc l) k c) (SL k v0)), mixed' \<or> m0, sibs,
          ihash new', map inode (put_list ops')))"
      using SN.IH [of "Suc l" ops' old' new' mixed'] cs(1,3) f(1) e free n SN.prems(6,7) [unfolded promo] run
      by (cases "bit k l") simp_all
    then obtain sibs where loop: "rfold (st_delete_step (map (bit k) [0..<256]) n is_old0)
        (rev (List.enumerate (Suc l) (map ihash (s_sibs (Suc l) k c))))
        (ihash (SL k v0), [ihash (SL k v0)], m0, [], ihash (s_start (Suc l) k c), []) =
      Ok (ihash c, map ihash (SL k v0 # climb_nodes (Suc l) k (s_sibs (Suc l) k c) (SL k v0)), mixed' \<or> m0, sibs,
          ihash new', map inode (put_list ops'))" and mx: "is_SN c \<and> m0 \<longrightarrow> mixed'" by blast
    have sib: "\<not> (l = n - 1 \<and> \<not> is_old0)"
    proof
      assume "l = n - 1 \<and> \<not> is_old0"
      then have "s_sibs (Suc l) k c = []" "s_promo (Suc l) k c" using n SN.prems(6) promo(1) by auto
      then show False by (simp add: s_promo_def)
    qed
    have eqm: "((mixed' \<or> m0) \<or> ihash s \<noteq> 0) = (mixed' \<or> s \<noteq> SE)" using mx True s0 by auto
    have res: "(if mixed' \<or> s \<noteq> SE
        then (ops' @ [Del (join (bit k l) old' s), Put (join (bit k l) new' s)], join (bit k l) old' s, join (bit k l) new' s, True)
        else (ops' @ [Del (join (bit k l) old' s)], join (bit k l) old' s, new', False)) = (ops, old, new, mixed)"
      using SN.prems(8) True unfolding eq Let_def by auto
    have step: "\<exists>sibs'. st_delete_step (map (bit k) [0..<256]) n is_old0 (l, ihash s)
        (ihash c, dl, mixed' \<or> m0, sibs, ihash new', map inode (put_list ops')) =
      Ok (ihash (join (bit k l) c s), dl @ [ihash (join (bit k l) c s)], mixed' \<or> s \<noteq> SE, sibs', ihash new,
          map inode (put_list ops))" for dl
      using res sib eqm compression_join [OF f, of "bit k l", where 'a = string]
        compression_join [OF fn f(2), of "bit k l", where 'a = string]
      by (cases "mixed' \<or> s \<noteq> SE") (auto simp: st_delete_step_def vec_get_bits [OF cs(6)] inode_join Let_def)
    have "(mixed \<or> m0) = (mixed' \<or> s \<noteq> SE)" "m0 \<longrightarrow> mixed" using res mx True by (auto split: if_splits)
    with step [of "ihash (SL k v0) # map ihash (climb_nodes (Suc l) k (s_sibs (Suc l) k c) (SL k v0))"] show ?thesis
      unfolding cs(5) climb_nodes.simps top list.map(2) [of ihash s] rev_enumerate_Cons rfold_append promo(2) loop
      unfolding cs(4) by simp
  qed
qed

lemma st_delete_start_tree:
  assumes repr: "st_repr c t" and e: "entries t k = Some v0"
    and r: "r = st_report (uint k) (map ihash (s_sibs 0 k t)) (SL k v0)"
  shows "\<exists>m0 ok ov. st_delete_start c (uint k) r = Ok (m0, ok, ov, \<not> s_promo 0 k t, ihash (s_start 0 k t)) \<and>
    (m0 \<longrightarrow> \<not> s_promo 0 k t) \<and> (s_sibs 0 k t = [] \<longrightarrow> \<not> m0)"
proof (cases "s_sibs 0 k t = []")
  case True
  then show ?thesis by (auto simp: st_delete_start_def r s_promo_def s_start_def)
next
  case False
  let ?x = "last (s_sibs 0 k t)"
  have "canon 0 t" using repr by (simp add: st_repr_def)
  moreover have "k \<in> keys t" "is_SN t" using e False by (auto simp: keys_entries) (cases t; simp)
  ultimately have x: "?x \<noteq> SE" "?x \<in> subtrees t" using s_sibs_last by blast+
  then have "st_data c (ihash ?x) = Some (snd (inode ?x))"
    unfolding st_repr_data [OF repr] by (intro bexI [of _ ?x]) (auto simp: inode_def)
  with x(1) False show ?thesis
    by (cases ?x) (auto simp: st_delete_start_def r s_promo_def s_start_def last_map)
qed

text \<open>The nodes on the path of a key are the subtrees that contain it.\<close>

lemma path_nodes_keys:
  assumes "canon l t" and "entries t k = Some v0" and "x \<in> set (SL k v0 # climb_nodes l k (s_sibs l k t) (SL k v0))"
  shows "k \<in> keys x \<and> x \<in> subtrees t"
proof
  have t: "climb_tree l k (s_sibs l k t) (SL k v0) = t"
    using climb_end [of l k t] end_present [OF assms(1,2)] by simp
  have "k \<in> keys y" if "y \<in> set (climb_nodes l k xs s)" "k \<in> keys s" for y xs s
  proof -
    have top: "k \<in> keys (climb_tree l k zs s)" for l zs using that(2) by (induction zs arbitrary: l) simp_all
    show ?thesis using that(1)
    proof (induction xs arbitrary: l)
      case (Cons z zs)
      then show ?case using top [of l, of "z # zs"] by auto
    qed simp
  qed
  with assms(3) show "k \<in> keys x" by auto
  from climb_subtrees [of l k "s_sibs l k t" "SL k v0"] assms(3) show "x \<in> subtrees t" unfolding t by auto
qed

lemma collapse_subtrees: "x \<in> subtrees a \<union> subtrees b \<Longrightarrow> x \<noteq> SE \<Longrightarrow> x \<in> subtrees (collapse a b)"
  by (cases "(a, b)" rule: collapse.cases) auto

lemma delete_keeps:
  assumes "canon l t" and "entries t k = Some v0" and "x \<in> subtrees t" and "x \<noteq> SE"
  shows "x \<in> subtrees (s_delete l k t) \<or> x \<in> set (SL k v0 # climb_nodes l k (s_sibs l k t) (SL k v0))"
  using assms
proof (induction t arbitrary: l)
  case (SN a b)
  obtain c s where cs: "c = (if bit k l then b else a)" "s = (if bit k l then a else b)"
    "canon (Suc l) c" "SN a b = join (bit k l) c s" "s_sibs l k (SN a b) = s # s_sibs (Suc l) k c"
    "entries (SN a b) k = entries c k"
    using path_split [OF SN.prems(1), of k] by metis
  have e: "entries c k = Some v0" using SN.prems(2) cs(6) by simp
  have del: "s_delete l k (SN a b) = collapse_at (bit k l) (s_delete (Suc l) k c) s"
    by (simp add: collapse_at_def cs(1,2))
  have keep: "y \<in> subtrees (s_delete (Suc l) k c) \<union> subtrees s \<Longrightarrow> y \<noteq> SE \<Longrightarrow> y \<in> subtrees (s_delete l k (SN a b))" for y
    unfolding del collapse_at_def using collapse_subtrees by auto
  have top: "climb_tree l k (s # s_sibs (Suc l) k c) (SL k v0) = SN a b"
    using climb_end [of "Suc l" k c] end_present [OF cs(3) e] cs(4) by simp
  have "x = SN a b \<or> x \<in> subtrees c \<or> x \<in> subtrees s" using SN.prems(3) by (auto simp: cs(1,2))
  moreover have "x \<in> subtrees c \<Longrightarrow> x \<in> subtrees (s_delete (Suc l) k c) \<or>
      x \<in> set (SL k v0 # climb_nodes (Suc l) k (s_sibs (Suc l) k c) (SL k v0))"
    using SN.IH [of "Suc l"] cs(1,3) e SN.prems(4) by (cases "bit k l") simp_all
  ultimately show ?case using keep SN.prems(4) unfolding cs(5) climb_nodes.simps top by auto
qed (auto split: if_splits)

lemma st_delete_refines:
  assumes repr: "st_repr c t" and k: "k < bn256_modulus"
  shows "case entries t k of
      None \<Rightarrow> st_delete c (uint k) = Err ''Key does not exist''
    | Some v0 \<Rightarrow> \<exists>res c'. st_delete c (uint k) = Ok (res, c') \<and>
        st_result.sr_old_root res = st_root c \<and> st_result.sr_new_root res = st_root c' \<and>
        st_root c' = ihash (s_delete 0 k t) \<and>
        (st_repr c' (s_delete 0 k t) \<or> found_collision (subtrees t \<union> subtrees (s_delete 0 k t)))"
proof (cases "entries t k")
  case None
  have c: "canon 0 t" using repr by (simp add: st_repr_def)
  from st_find_tree [OF repr, of k] end_absent [OF c None] None show ?thesis
    by (auto simp: st_delete_def st_report_def simp flip: word_uint_eq_iff)
next
  case (Some v0)
  have t: "canon 0 t" "in_field t" "no_collision crate_host (subtrees t)" "st_root c = ihash t"
    using repr by (simp_all add: st_repr_def)
  have v0: "v0 < bn256_modulus" using in_field_entry [OF t(2) Some] by simp
  have kt: "k \<in> keys t" using Some by (auto simp: keys_entries)
  let ?t = "s_delete 0 k t" and ?n = "length (s_sibs 0 k t)"
  obtain ops old new mixed where run: "del_run 0 k t = (ops, old, new, mixed)" by (metis prod_cases4)
  define del where "del = SL k v0 # climb_nodes 0 k (s_sibs 0 k t) (SL k v0)"
  let ?ops = "map Put (put_list ops) @ map Del del"
  let ?c = "(st_run ?ops c)\<lparr>st_root := ihash ?t\<rparr>"
  have se: "s_end 0 k t = SL k v0" by (rule end_present [OF t(1) Some])
  note props = del_run_props [OF t(1) kt run]
  obtain m0 old_key ov where start: "st_delete_start c (uint k) (st_report (uint k) (map ihash (s_sibs 0 k t)) (SL k v0)) =
      Ok (m0, old_key, ov, \<not> s_promo 0 k t, ihash (s_start 0 k t))" and m0: "m0 \<longrightarrow> \<not> s_promo 0 k t"
    using st_delete_start_tree [OF repr Some refl] by blast
  obtain sibs where loop: "rfold (st_delete_step (map (bit k) [0..<256]) ?n (\<not> s_promo 0 k t))
      (rev (List.enumerate 0 (map ihash (s_sibs 0 k t))))
      (ihash (SL k v0), [ihash (SL k v0)], m0, [], ihash (s_start 0 k t), []) =
    Ok (ihash t, map ihash del, mixed \<or> m0, sibs, ihash ?t, map inode (put_list ops))"
    using st_delete_loop [OF t(1,2) Some t(3) _ refl m0 run, of ?n] props by (auto simp: del_def)
  have rt: "hash3_sparse (uint k) (uint v0) = (Ok (ihash (SL k v0)) :: (int, string) result)"
    using k v0 by (rule hash3_tree)
  have rep: "sf_found (st_report (uint k) xs (SL k v0))" "sf_found_value (st_report (uint k) xs (SL k v0)) = uint v0" for xs
    by (simp_all add: st_report_def)
  have after: "multi_del (map ihash del) ((multi_ins (map inode (put_list ops)) c)\<lparr>st_root := r\<rparr>) =
      (st_run ?ops c)\<lparr>st_root := r\<rparr>" for r
    by (simp add: multi_ins_run multi_del_run)
  have runs: "\<exists>res. st_delete c (uint k) = Ok (res, ?c) \<and> st_result.sr_old_root res = st_root c \<and>
      st_result.sr_new_root res = ihash ?t"
    unfolding st_delete_def st_find_tree [OF repr, of k, unfolded se] rbind.simps(1) rep if_False
      not_True_eq_False simp_thms rt start prod.case st_report_siblings(1) length_map split_bits_uint loop after t(4)
    by (simp add: rep)
  have "st_repr ?c ?t \<or> found_collision (subtrees t \<union> subtrees ?t)"
  proof (rule st_repr_after [OF repr])
    show "canon 0 ?t" using s_delete_props [OF t(1)] by blast
    show "in_field ?t" by (rule in_field_delete [OF t(2)])
    have nk: "k \<notin> keys x" if "x \<in> subtrees ?t" for x
      using subtrees_keys [OF that] s_delete_props [OF t(1), of k] by auto
    have path: "x \<in> set del \<Longrightarrow> k \<in> keys x \<and> x \<in> subtrees t" for x
      unfolding del_def by (rule path_nodes_keys [OF t(1) Some])
    have sets: "puts ?ops = puts ops" "dels ?ops = set del" by simp_all
    show "puts ?ops \<subseteq> subtrees ?t - {SE}" using props sets by auto
    then show "puts ?ops \<inter> dels ?ops = {}" using nk path unfolding sets by blast
    show "dels ?ops \<subseteq> subtrees t" using path sets by blast
    show "subtrees ?t - {SE} \<subseteq> puts ?ops \<union> (subtrees t - dels ?ops)"
      using props nk path unfolding sets by blast
    have "x \<in> subtrees t \<Longrightarrow> x \<noteq> SE \<Longrightarrow> x \<in> subtrees ?t \<or> x \<in> set del" for x
      unfolding del_def by (rule delete_keeps [OF t(1) Some])
    then show "subtrees t - {SE} \<subseteq> subtrees ?t \<union> dels ?ops" unfolding sets by blast
  qed
  moreover have "st_root ?c = ihash ?t" by simp
  ultimately show ?thesis using runs unfolding Some option.case by metis
qed

end
