(* ===== verification/Spec2Isabelle.thy ===== *)
theory Spec2Isabelle
  imports Pool_Theorems Client_Props Prover_Props Encryption_Props Poseidon2_Shipped Poseidon2_Regroup Ceremony_Props Build_Props Smoke_Props
    Smoke_Roots Circuit_Smt_Correct
begin

text \<open>
  \<^bold>\<open>The program.\<close>  stellar-enclave is a privacy pool on Soroban.  Users deposit tokens into a pool
  contract against commitments in a Merkle tree and spend notes with zero-knowledge proofs that show
  knowledge of a path, reveal only nullifiers, and prove membership in an allow tree and
  non-membership in a block tree kept by two policy contracts; a fourth contract verifies the proofs.
  A client library, compiled to WebAssembly, replays the contracts' trees from their events, computes
  witnesses and proofs, and encrypts notes.  Around them are the script that compiles the circuits and
  sets up keys, a tool for the setup ceremony, and the deployment script.  This development models the
  Rust code of all these parts (and the key conversion of the deployment script), function by
  function, and proves what makes each part correct and the parts agree.

  \<^bold>\<open>Conventions.\<close>  \<open>Enclave_Prelude\<close> holds machine integers as words (\<open>u32\<close>, \<open>u64\<close>, \<open>u256\<close>, \<open>i128\<close>, \<open>i256\<close>),
  the outcome \<open>Ok\<close>, \<open>Err\<close> or \<open>Panic\<close> of a Rust function, its sequencing \<open>rbind\<close> and \<open>rfold\<close>, and byte codecs.
  A contract's storage is a record with an \<open>option\<close> for every key that may be absent; an entry point takes
  and returns it.  A panic or host trap ends a call, and the host discards its writes: a step relation
  steps only on \<open>Ok\<close>.  Pure Rust functions are HOL functions of the same name (with a prefix where
  contracts share it: \<open>am_\<close>, \<open>nm_\<close>, \<open>mk_\<close>, \<open>po_\<close>, \<open>gv_\<close>, and \<open>mt_\<close>, \<open>cs_\<close> for the client's trees).

  \<^bold>\<open>Contracts.\<close>
    \<^item> \<open>Soroban_Host\<close>: environment, authorisation, addresses; \<open>update_admin\<close> of \<open>soroban-utils/src/utils.rs\<close>
      (its mock token is in \<open>Pool_Theorems\<close>, its point encodings in \<open>Smoke_Fixture\<close>).
    \<^item> \<open>Poseidon2_Constants\<close>, \<open>Poseidon2_Hash\<close>: the tables of \<open>soroban-utils/src/constants.rs\<close> and
      \<open>poseidon2.rs\<close> byte by byte, \<open>poseidon2_compress\<close>, \<open>poseidon2_hash2\<close>, \<open>get_zeroes\<close>; every constant is
      a reduced field element, hashing traps exactly outside the field.
    \<^item> \<open>Merkle_Spec\<close>, \<open>Merkle_Frontier\<close>, \<open>Root_History\<close>: what an append-only tree promises (\<open>mroot\<close>: the root
      of the list padded with zero leaves), the locale of a contract loop that keeps a frontier, and the
      locale of a ring of recent roots.
    \<^item> \<open>Asp_Membership\<close>: \<open>asp-membership/src/lib.rs\<close>, every entry point; interprets the frontier locale.
    \<^item> \<open>Pool_Merkle\<close>: \<open>pool/src/merkle_with_history.rs\<close>; interprets both locales; the ring search
      \<open>mk_scan\<close> is a partial function, and the positions from which it returns are characterised.
    \<^item> \<open>Sparse_Merkle\<close>, \<open>Smt_Storage\<close>: the specification of the sparse tree as a canonical binary trie with
      its map, and trees stored node by node under their hashes.
    \<^item> \<open>Asp_Non_Membership\<close>, \<open>_Correct\<close>, \<open>_Props\<close>: \<open>asp-non-membership/src/lib.rs\<close>, every entry point,
      its refinement of the sparse tree, and its outcomes on every branch.
    \<^item> \<open>Groth16\<close>: \<open>types/src/lib.rs\<close> and \<open>circom-groth16-verifier/src/lib.rs\<close>.
    \<^item> \<open>Pool\<close>: \<open>pool/src/pool.rs\<close>, every entry point, over a \<open>world\<close> of the pool's storage and the other
      contracts, which it calls through their own models.  \<open>Pool_Amounts\<close> is the amount arithmetic,
      \<open>Pool_Correct\<close> and \<open>Pool_Success\<close> what a transaction checks and when it succeeds, \<open>Pool_Props\<close> the
      calls around the deployed pool (\<open>w_call\<close>, with the environment that says who authorised the call;
      \<open>w_step\<close> is a call under any environment) with its reachability invariant, \<open>Pool_Theorems\<close> the properties.

  \<^bold>\<open>Hashing in the client.\<close>
    \<^item> \<open>Scalar_Field\<close>: the integers modulo the order of BN254 as a type of class \<open>comm_ring_1\<close>.
    \<^item> \<open>Poseidon2_Perm\<close>: \<open>poseidon2/src/poseidon2/poseidon2.rs\<close> and \<open>poseidon2_params.rs\<close>, generic in the ring,
      with the linear layers of every width against their matrices.
    \<^item> \<open>Poseidon2_Bn256\<close> and \<open>Poseidon2_Instances\<close>, \<open>_Goldilocks\<close>, \<open>_Babybear\<close>, \<open>_Bls12\<close>, \<open>_Pasta\<close>,
      \<open>_Shipped\<close>: all seventeen parameter sets, constant by constant.
    \<^item> \<open>Poseidon2_Regroup\<close>: the matrix helpers in \<open>poseidon2/src/utils.rs\<close> and
      \<open>equivalent_round_constants\<close>; elimination solves linear systems, regrouping keeps the rounds.
    \<^item> \<open>Prover_Serialization\<close>, \<open>Prover_Crypto\<close>: \<open>serialization.rs\<close>, \<open>crypto.rs\<close> of \<open>app/crates/prover/src\<close>.

  \<^bold>\<open>Client library\<close> (\<open>app/crates\<close>).
    \<^item> \<open>Core_Merkle\<close>: \<open>circuits/src/core/merkle.rs\<close>; \<open>Prover_Merkle\<close>: \<open>prover/src/merkle.rs\<close>.
    \<^item> \<open>Client_Smt\<close>, \<open>Client_Smt_Correct\<close>: \<open>prover/src/sparse_merkle.rs\<close> and its refinement of \<open>Sparse_Merkle\<close>.
    \<^item> \<open>Client_Sync\<close>, \<open>Client_Props\<close>: the client's trees against the contracts'.
    \<^item> \<open>R1cs\<close>: the parser \<open>prover/src/r1cs.rs\<close>, with the format it reads as a printer.
    \<^item> \<open>Prover_Groth16\<close>: \<open>prover/src/prover.rs\<close> and \<open>types.rs\<close>; \<open>Witness\<close>: \<open>witness/src/lib.rs\<close>;
      their properties are in \<open>Prover_Props\<close>.
    \<^item> \<open>Encryption\<close>, \<open>Encryption_Props\<close>: \<open>prover/src/encryption.rs\<close>.

  \<^bold>\<open>Build and setup.\<close>
    \<^item> \<open>Os_World\<close>: actions over a file system, printed lines and started processes; Unix paths.
    \<^item> \<open>Ceremony\<close>, \<open>Ceremony_Props\<close>: \<open>tools/ceremony-cli/src/main.rs\<close>.
    \<^item> \<open>Build_Circuits\<close>, \<open>Build_Keys\<close>, \<open>Build_Script\<close>: \<open>circuits/build.rs\<close>; \<open>Deploy_Key\<close>: the key conversion
      in \<open>scripts/deploy.sh\<close>; \<open>Build_Props\<close>: their properties.
    \<^item> \<open>Circuit_Inputs\<close>, \<open>Circuit_Smt\<close>: what \<open>circuits/src/test/utils\<close> offers to native provers;
      \<open>Smoke_Proof\<close>, \<open>Smoke_Fixture\<close>: \<open>tools/smoke-fixture-cli/src/main.rs\<close>; \<open>Smoke_Props\<close>: the fixtures
      against the client's flattening of inputs and against the pool's public inputs.
    \<^item> \<open>Circuit_Smt_Repr\<close>, \<open>Circuit_Smt_Correct\<close>: the test utilities' sparse tree as a third implementation of
      \<open>Sparse_Merkle\<close>, operation by operation (an update of an absent key may push another key out);
      \<open>Smoke_Roots\<close>: its root in the fixture against the contract's.

  \<^bold>\<open>How the parts are tied.\<close>  The pool's model calls the models of the verifier and of both policy
  contracts (\<open>transact_policy_roots\<close> below, the outcomes in \<open>Pool_Theorems\<close>).  \<open>contract_hash_is_client_hash\<close>
  equates the contracts' hash with the crate's; on it rest \<open>client_pool_tree_agrees\<close> and
  \<open>client_tree_mirrors_contract\<close>, by which a path the client exports leads to the root the contract holds.
  \<open>witness_reaches_prover\<close>, \<open>circuit_means_r1cs\<close>, \<open>proved_is_verified\<close> and \<open>proof_encoding\<close> follow a witness
  from the calculator through the prover into the bytes the verifier contract parses, \<open>signed_input_is_public_amount\<close>
  ties the client's signed inputs to the pool's public amount, and \<open>deployed_key_is_stored_key\<close> follows the
  verification key from the build to the constructor of the verifier.  \<open>dump_gives_native_signals\<close> ties the
  native provers to the client's witness component, and \<open>fixture_root_is_contract_root\<close> the policy root in
  the fixture to the contract that publishes it.

  \<^bold>\<open>Parameters.\<close>  Code outside the repository is an argument: the host's permutation (a property that
  needs it to be Poseidon2 says so, \<open>host_is_poseidon2\<close>, and the crate's permutation is the instance that
  meets it), curve operations and pairing, Keccak and XDR, the token contract (with a ledger of balances
  as the instance), arkworks (\<open>ark_groth16\<close>, \<open>cs_ops\<close>), SHA-256, X25519 and the cipher, the witness
  calculator, JSON and big integers, snarkjs, circom, git, the regular-expression engine (its pattern is
  \<open>include_pattern\<close>) and the file system's operations.  Hypotheses on them are their documented behaviour, and each is exercised by a
  witness at a concrete instance.

  \<^bold>\<open>Bounds and termination.\<close>  No definition runs on fuel.  Trees of the sparse kind have at most 256
  levels, the bits of a key; the contracts' trees at most 32.  \<open>usize\<close> of the client is a parameter \<open>pw\<close>
  (32 on WebAssembly, 64 on servers) wherever arithmetic or allocation depends on it: a request of
  more than \<open>isize::MAX\<close> bytes panics (\<open>with_capacity\<close>, \<open>vec_filled\<close>), which the tree of the client, the
  parser, the synthesis and the witness bytes can run into; the other requests are constants or no longer
  than bytes that exist already.  Recursion that is
  not structural has a termination proof: the worklist of the include search by the files not yet
  visited, the search for circuits by the longest path the system opens, flattening of inputs by the
  size of what is on the stack.  Only the ring search, the filling of a test tree (\<open>fill_leaves\<close>) and
  the draw of a non-zero scalar may run forever and are partial.

  \<^bold>\<open>Not modelled.\<close>  Tests, and the test utilities that the fixture generator does not use; the web application, the facilitator and the other TypeScript and JavaScript parts; generated argument parsers and entry-point
  glue.  Running out of memory within the size a request may have, storage expiry and metering are not
  modelled, nor lines on the error stream of the build.
\<close>

section \<open>Properties across contracts\<close>

lemma members_root:
  assumes "members_ok P w" and "w_membership w a = Some c" and "zero_law P"
  shows "\<exists>lv. am_levels c = Some lv \<and>
    am_get_root c = Ok (full_root (node_hash P) (unat lv)
      (am_leaves c @ replicate (2 ^ unat lv - length (am_leaves c)) (zero_at 0)))"
proof -
  from assms(1,2) obtain h where "am_reachable P h c" by (auto simp: members_ok_def)
  then have inv: "h \<le> 32" "length (am_leaves c) \<le> 2 ^ h" "am_levels c = Some (of_nat h)"
    "am_root c = Some (mroot (node_hash P) zero_at h (am_leaves c))"
    by (auto simp: am_inv_def dest: am_reachable_inv)
  moreover have "unat (of_nat h :: u32) = h" using inv(1) by (simp add: unat_of_nat take_bit_eq_mod)
  moreover have "mroot (node_hash P) zero_at h (am_leaves c) = full_root (node_hash P) h
      (am_leaves c @ replicate (2 ^ h - length (am_leaves c)) (zero_at 0))"
    using inv assms(3) by (intro mroot_padded) (simp_all add: zero_law_def)
  ultimately show ?thesis by (simp add: am_get_root_def)
qed

text \<open>C6: A successful transaction was proved against the present policy: its membership root is the root
  of the padded tree over the leaves the membership contract trusted by the pool has logged, and its
  non-membership root is the hash of the blocked-key tree the non-membership contract holds.\<close>

theorem transact_policy_roots:
  assumes "w_reachable H xfer h w" and "zero_law (h_permutation H)"
    and "transact H xfer env p ext sender w = Ok w'"
  shows "(\<exists>a c lv. po_asp_membership (w_pool w) = Some a \<and> w_membership w a = Some c \<and> am_levels c = Some lv \<and>
      tp_asp_membership_root p = full_root (node_hash (h_permutation H)) (unat lv)
        (am_leaves c @ replicate (2 ^ unat lv - length (am_leaves c)) (zero_at 0))) \<and>
    (\<exists>b d. po_asp_non_membership (w_pool w) = Some b \<and> w_non_membership w b = Some d \<and>
      (\<forall>t. nm_repr (h_permutation H) d t \<longrightarrow> tp_asp_non_membership_root p = tree_hash (h_permutation H) t))"
proof
  from assms(3) have checks: "tx_checks H env p ext sender w" by (cases rule: transact_OkE)
  from checks obtain a c where c: "po_asp_membership (w_pool w) = Some a" "w_membership w a = Some c"
    "am_get_root c = Ok (tp_asp_membership_root p)"
    by (auto simp: tx_checks_def get_asp_membership_root_def po_get_asp_membership_def result_simps)
  from w_reachable_inv [OF assms(1)] have "members_ok (h_permutation H) w" by blast
  from members_root [OF this c(2) assms(2)] c
  show "\<exists>a c lv. po_asp_membership (w_pool w) = Some a \<and> w_membership w a = Some c \<and> am_levels c = Some lv \<and>
      tp_asp_membership_root p = full_root (node_hash (h_permutation H)) (unat lv)
        (am_leaves c @ replicate (2 ^ unat lv - length (am_leaves c)) (zero_at 0))" by auto
  from checks obtain b d where "po_asp_non_membership (w_pool w) = Some b" "w_non_membership w b = Some d"
    "nm_get_root d = Ok (tp_asp_non_membership_root p)"
    by (auto simp: tx_checks_def get_asp_non_membership_root_def po_get_asp_non_membership_def result_simps)
  then show "\<exists>b d. po_asp_non_membership (w_pool w) = Some b \<and> w_non_membership w b = Some d \<and>
      (\<forall>t. nm_repr (h_permutation H) d t \<longrightarrow> tp_asp_non_membership_root p = tree_hash (h_permutation H) t)"
    by (auto simp: nm_get_root_def nm_repr_def)
qed

theorem transact_policy_roots_witness:
  "\<exists>lv. am_levels demo_members = Some lv \<and>
    tp_asp_membership_root (demo_proof 1 2 30) = full_root (node_hash zero_table_host) (unat lv)
      (am_leaves demo_members @ replicate (2 ^ unat lv - length (am_leaves demo_members)) (zero_at 0))"
proof -
  have small: "\<bar>sint (30 :: i256)\<bar> \<le> 100" by simp
  obtain w tok tree i0 i1 where
    ok: "transact demo_host ledger_transfer demo_env (demo_proof 1 2 30) (demo_ext 30) 8 demo_world = Ok w"
    by (rule demo_transact [OF small])
  have law: "zero_law (h_permutation demo_host)" by (simp add: demo_host_def zero_table_host_law)
  have at: "po_asp_membership (w_pool demo_world) = Some 40" "w_membership demo_world 40 = Some demo_members"
    by (simp_all add: demo_world_def demo_pool_state)
  from transact_policy_roots [OF demo_reachable law ok] at show ?thesis by (auto simp: demo_host_def)
qed

end
